(* ===== verification/Prelude.thy ===== *)
theory Prelude
  imports Main "HOL-Library.Sublist"
begin

text \<open>
  The vocabulary shared by every component: Go errors and fallible results, Go
  strings (lists of bytes) with the operations of package strings that the code
  uses, reading a Go map, and the loops that thread a state through calls that
  may fail. An operation that mutates something has the type
  state to (error option, state): the state it has reached is part of its
  result on the error path too, since Go does not roll back what a function did
  before it returned an error.
\<close>

named_theorems err_simps \<open>evaluation of results, errors and early returns\<close>
named_theorems str_simps \<open>Go strings: joining, splitting, separators\<close>
named_theorems loop_simps \<open>loops over a state with early return\<close>

section \<open>Errors\<close>

text \<open>
  Errf is fmt.Errorf or errors.New with the verbs' arguments, Errw is
  fmt.Errorf with a wrapped error (the verb w), Panic is a run-time panic: it is
  not an error value, and wrap lets it through unchanged.
\<close>

datatype goerror =
    Errf string "string list"
  | Errw string "string list" goerror
  | StatusErr string string
  | Multi "goerror list"
  | Panic string

type_synonym 'a res = "goerror + 'a"
type_synonym ('s, 'a) action = "'s \<Rightarrow> 'a res \<times> 's"
type_synonym 's step = "'s \<Rightarrow> goerror option \<times> 's"

definition err :: "string \<Rightarrow> goerror" where
  "err msg = Errf msg []"

fun wrap :: "string \<Rightarrow> string list \<Rightarrow> goerror \<Rightarrow> goerror" where
  "wrap msg args (Panic p) = Panic p"
| "wrap msg args e = Errw msg args e"

fun isPanic :: "goerror \<Rightarrow> bool" where
  "isPanic (Panic _) = True"
| "isPanic _ = False"

definition isOk :: "'a res \<Rightarrow> bool" where
  "isOk r = (case r of Inl _ \<Rightarrow> False | Inr _ \<Rightarrow> True)"

lemma isOk_simps [simp, err_simps]:
  "isOk (Inr x)" "\<not> isOk (Inl e)"
  by (simp_all add: isOk_def)

lemma isOk_iff: "isOk r \<longleftrightarrow> (\<exists>x. r = Inr x)"
  by (cases r) auto

lemma isOkE: "isOk r \<Longrightarrow> (\<And>x. r = Inr x \<Longrightarrow> P) \<Longrightarrow> P"
  by (cases r) simp_all

lemma isPanic_wrap [simp, err_simps]: "isPanic (wrap m a e) = isPanic e"
  by (cases e) auto

text \<open>Reading through a pointer that may be nil.\<close>

definition nilDeref :: goerror where
  "nilDeref = Panic ''invalid memory address or nil pointer dereference''"

definition deref :: "'a option \<Rightarrow> 'a res" where
  "deref p = (case p of None \<Rightarrow> Inl nilDeref | Some x \<Rightarrow> Inr x)"

lemma deref_simps [simp]: "deref None = Inl nilDeref" "deref (Some x) = Inr x"
  by (simp_all add: deref_def)

lemma deref_Inr [err_simps]: "deref p = Inr x \<longleftrightarrow> p = Some x"
  by (cases p) simp_all

lemma isPanic_nilDeref [simp]: "isPanic nilDeref"
  by (simp add: nilDeref_def)

section \<open>Maps\<close>

text \<open>Reading an absent key of a Go map of strings gives the empty string.\<close>

definition mget :: "('k \<rightharpoonup> string) \<Rightarrow> 'k \<Rightarrow> string" where
  "mget m k = (case m k of None \<Rightarrow> [] | Some v \<Rightarrow> v)"

lemma mget_simps [simp]:
  "mget (m(k \<mapsto> v)) k = v"
  "k \<noteq> k' \<Longrightarrow> mget (m(k \<mapsto> v)) k' = mget m k'"
  "mget Map.empty k = []"
  by (simp_all add: mget_def)

section \<open>Strings\<close>

fun joinStr :: "string \<Rightarrow> string list \<Rightarrow> string" where
  "joinStr sep [] = []"
| "joinStr sep [x] = x"
| "joinStr sep (x # y # ys) = x @ sep @ joinStr sep (y # ys)"

text \<open>strings.Split with a separator of one byte; the empty string gives one empty part.\<close>

fun splitChar :: "char \<Rightarrow> string \<Rightarrow> string list" where
  "splitChar c [] = [[]]"
| "splitChar c (x # xs) =
     (if x = c then [] # splitChar c xs
      else case splitChar c xs of [] \<Rightarrow> [[x]] | w # ws \<Rightarrow> (x # w) # ws)"

definition strContains :: "string \<Rightarrow> string \<Rightarrow> bool" where
  "strContains s sub = list_ex (prefix sub) (suffixes s)"

lemma splitChar_not_Nil [simp, str_simps]: "splitChar c s \<noteq> []"
  by (induction s) (auto split: list.splits)

lemma joinStr_Cons [str_simps]:
  "joinStr sep (x # xs) = (if xs = [] then x else x @ sep @ joinStr sep xs)"
  by (cases xs) auto

lemma splitChar_append_sep [str_simps]:
  "c \<notin> set w \<Longrightarrow> splitChar c (w @ c # s) = w # splitChar c s"
  by (induction w) auto

lemma splitChar_nosep [str_simps]: "c \<notin> set w \<Longrightarrow> splitChar c w = [w]"
  by (induction w) auto

lemma splitChar_joinStr:
  "xs \<noteq> [] \<Longrightarrow> \<forall>x\<in>set xs. c \<notin> set x \<Longrightarrow> splitChar c (joinStr [c] xs) = xs"
  by (induction xs rule: induct_list012) (auto simp: str_simps)

lemma joinStr_splitChar: "joinStr [c] (splitChar c s) = s"
proof (induction s)
  case (Cons x s)
  obtain w ws where "splitChar c s = w # ws"
    using splitChar_not_Nil by (metis list.exhaust)
  with Cons show ?case by (cases ws) auto
qed simp

lemma splitChar_sep_free: "w \<in> set (splitChar c s) \<Longrightarrow> c \<notin> set w"
  by (induction s arbitrary: w) (auto split: list.splits if_splits)

lemma joinStr_eq_Nil: "sep \<noteq> [] \<Longrightarrow> joinStr sep xs = [] \<longleftrightarrow> xs = [] \<or> xs = [[]]"
  by (cases xs) (auto simp: joinStr_Cons)

text \<open>A separator that does not occur in the prefixes (suffixes) is found again.\<close>

lemma sep_left_unique:
  "\<lbrakk>a @ c # x = b @ c # y; c \<notin> set a; c \<notin> set b\<rbrakk> \<Longrightarrow> a = b \<and> x = y"
proof (induction a arbitrary: b)
  case Nil then show ?case by (cases b) auto
next
  case (Cons z a) then show ?case by (cases b) auto
qed

lemma sep_right_unique:
  assumes "x @ c # a = y @ c # b" "c \<notin> set a" "c \<notin> set b"
  shows "x = y \<and> a = b"
proof -
  have "rev a @ c # rev x = rev b @ c # rev y"
    using arg_cong [OF assms(1), of rev] by simp
  then show ?thesis using sep_left_unique [of "rev a" c "rev x" "rev b" "rev y"] assms by auto
qed

lemma strContains_char: "strContains s [c] \<longleftrightarrow> c \<in> set s"
proof
  assume "strContains s [c]"
  then obtain t u where t: "suffix t s" "t = [c] @ u"
    by (auto simp: strContains_def list_ex_iff prefix_def)
  then show "c \<in> set s" using set_mono_suffix by fastforce
next
  assume "c \<in> set s"
  then obtain u v where "s = u @ c # v" by (auto simp: in_set_conv_decomp)
  then show "strContains s [c]"
    by (auto simp: strContains_def list_ex_iff suffix_def intro!: bexI [of _ "c # v"])
qed

section \<open>Loops with a state and an early return\<close>

fun seqErr :: "'s step \<Rightarrow> 's step \<Rightarrow> 's step" where
  "seqErr f g s = (case f s of (None, s') \<Rightarrow> g s' | (Some e, s') \<Rightarrow> (Some e, s'))"

fun forErr :: "('a \<Rightarrow> 's step) \<Rightarrow> 'a list \<Rightarrow> 's step" where
  "forErr f [] s = (None, s)"
| "forErr f (x # xs) s =
     (case f x s of (None, s') \<Rightarrow> forErr f xs s' | (Some e, s') \<Rightarrow> (Some e, s'))"

text \<open>mapRes is the loop that appends one result per element and returns at the first error.\<close>

fun mapRes :: "('a \<Rightarrow> 'b res) \<Rightarrow> 'a list \<Rightarrow> 'b list res" where
  "mapRes f [] = Inr []"
| "mapRes f (x # xs) =
     (case f x of Inl e \<Rightarrow> Inl e
      | Inr y \<Rightarrow> (case mapRes f xs of Inl e \<Rightarrow> Inl e | Inr ys \<Rightarrow> Inr (y # ys)))"

text \<open>Going on with the value of a call, and adding a message to its error.\<close>

definition bindR :: "'a res \<Rightarrow> ('a \<Rightarrow> 'b res) \<Rightarrow> 'b res" where
  "bindR r f = (case r of Inl e \<Rightarrow> Inl e | Inr x \<Rightarrow> f x)"

definition wrapR :: "string \<Rightarrow> string list \<Rightarrow> 'a res \<Rightarrow> 'a res" where
  "wrapR msg args r = (case r of Inl e \<Rightarrow> Inl (wrap msg args e) | Inr x \<Rightarrow> Inr x)"

text \<open>A new error in place of an error that its message quotes.\<close>

definition newErr :: "goerror \<Rightarrow> 'a res \<Rightarrow> 'a res" where
  "newErr e r = (case r of Inl e' \<Rightarrow> Inl (if isPanic e' then e' else e) | Inr x \<Rightarrow> Inr x)"

lemma newErr_simps [simp, err_simps]:
  "newErr e (Inr x) = Inr x" "newErr e (Inl e') = Inl (if isPanic e' then e' else e)"
  by (simp_all add: newErr_def)

lemma newErr_Inr [simp, err_simps]: "newErr e r = Inr x \<longleftrightarrow> r = Inr x"
  by (cases r) simp_all

lemma bindR_simps [simp, err_simps]:
  "bindR (Inr x) f = f x" "bindR (Inl e) f = Inl e"
  "wrapR m a (Inr x) = Inr x" "wrapR m a (Inl e) = Inl (wrap m a e)"
  by (simp_all add: bindR_def wrapR_def)

lemma bindR_Inr [err_simps]: "bindR r f = Inr y \<longleftrightarrow> (\<exists>x. r = Inr x \<and> f x = Inr y)"
  by (cases r) simp_all

lemma wrapR_Inr [simp, err_simps]: "wrapR m a r = Inr x \<longleftrightarrow> r = Inr x"
  by (cases r) simp_all

lemma isOk_bindR [err_simps]: "isOk (bindR r f) \<longleftrightarrow> (\<exists>x. r = Inr x \<and> isOk (f x))"
  by (cases r) simp_all

lemma isOk_wrapR [simp, err_simps]: "isOk (wrapR m a r) = isOk r"
  by (cases r) simp_all

lemma bindR_cong [fundef_cong]:
  "r = r' \<Longrightarrow> (\<And>x. r' = Inr x \<Longrightarrow> f x = g x) \<Longrightarrow> bindR r f = bindR r' g"
  by (cases r') simp_all

lemma mapRes_cong [fundef_cong]:
  "xs = ys \<Longrightarrow> (\<And>x. x \<in> set ys \<Longrightarrow> f x = g x) \<Longrightarrow> mapRes f xs = mapRes g ys"
proof (induction ys arbitrary: xs)
  case (Cons y ys)
  have "mapRes f ys = mapRes g ys" using Cons by simp
  with Cons.prems show ?case by (cases "g y") simp_all
qed simp

lemma forErr_append [loop_simps]:
  "forErr f (xs @ ys) s =
     (case forErr f xs s of (None, s') \<Rightarrow> forErr f ys s' | (Some e, s') \<Rightarrow> (Some e, s'))"
  by (induction xs arbitrary: s) (auto split: prod.splits option.splits)

lemma forErr_all_ok [loop_simps]:
  assumes "\<And>x s. x \<in> set xs \<Longrightarrow> f x s = (None, g x s)"
  shows "forErr f xs s = (None, foldl (\<lambda>s x. g x s) s xs)"
  using assms by (induction xs arbitrary: s) auto

lemma forErr_invariant:
  assumes "\<And>x s. \<lbrakk>x \<in> set xs; P s\<rbrakk> \<Longrightarrow> P (snd (f x s))" "P s"
  shows "P (snd (forErr f xs s))"
  using assms
proof (induction xs arbitrary: s)
  case (Cons x xs)
  obtain e s' where *: "f x s = (e, s')" by force
  then have "P s'" using Cons.prems(1) [of x s] Cons.prems(2) by simp
  with * show ?case using Cons by (cases e) auto
qed simp

lemma forErr_error_iff:
  assumes "\<And>x s. fst (f x s) = bad x"
  shows "(fst (forErr f xs s) \<noteq> None) \<longleftrightarrow> (\<exists>x\<in>set xs. bad x \<noteq> None)"
proof (induction xs arbitrary: s)
  case (Cons x xs)
  show ?case using assms [of x s] Cons.IH by (auto split: prod.splits option.splits)
qed simp

lemma mapRes_ok_iff:
  "(\<exists>ys. mapRes f xs = Inr ys) \<longleftrightarrow> (\<forall>x\<in>set xs. isOk (f x))"
  by (induction xs) (auto split: sum.splits simp: isOk_iff)

lemma mapRes_Inr [loop_simps]:
  "mapRes f xs = Inr ys \<longleftrightarrow> list_all2 (\<lambda>x y. f x = Inr y) xs ys"
proof (induction xs arbitrary: ys)
  case (Cons x xs)
  note IH = Cons.IH [symmetric]
  show ?case by (auto simp: list_all2_Cons1 IH split: sum.splits)
qed auto

lemma mapRes_set: "mapRes f xs = Inr ys \<Longrightarrow> y \<in> set ys \<longleftrightarrow> (\<exists>x\<in>set xs. f x = Inr y)"
  unfolding mapRes_Inr by (induction xs ys rule: list_all2_induct) auto

lemma mapRes_ok: "mapRes f xs = Inr ys \<Longrightarrow> x \<in> set xs \<Longrightarrow> \<exists>y. f x = Inr y"
  unfolding mapRes_Inr by (induction xs ys rule: list_all2_induct) auto

lemma list_all2_right: "list_all2 P xs ys \<Longrightarrow> y \<in> set ys \<Longrightarrow> \<exists>x\<in>set xs. P x y"
  by (induction rule: list_all2_induct) auto

lemma mapRes_total: "(\<And>x. x \<in> set xs \<Longrightarrow> f x = Inr (g x)) \<Longrightarrow> mapRes f xs = Inr (map g xs)"
  by (induction xs) auto

text \<open>wrapStep adds a message to the error of a step.\<close>

definition wrapStep :: "string \<Rightarrow> string list \<Rightarrow> 's step \<Rightarrow> 's step" where
  "wrapStep msg args f s = (case f s of (e, s') \<Rightarrow> (map_option (wrap msg args) e, s'))"

lemma wrapStep_simps [simp]:
  "fst (wrapStep m a f s) = None \<longleftrightarrow> fst (f s) = None"
  "snd (wrapStep m a f s) = snd (f s)"
  by (simp_all add: wrapStep_def split: prod.splits)

lemma wrapStep_None [simp]: "wrapStep m a f s = (None, s') \<longleftrightarrow> f s = (None, s')"
  by (auto simp: wrapStep_def split: prod.splits)

lemma seqErr_None [simp]: "seqErr f g s = (None, s'') \<longleftrightarrow> (\<exists>s'. f s = (None, s') \<and> g s' = (None, s''))"
  by (auto split: prod.splits option.splits)

text \<open>
  What a loop has done when it stops: the effects of the elements before the one
  that failed, and possibly a part of that one's.
\<close>

lemma forErr_effect:
  assumes "\<And>x s. \<lbrakk>x \<in> set xs; I s; fst (f x s) = None\<rbrakk> \<Longrightarrow> I (snd (f x s)) \<and> c (snd (f x s)) = g x (c s)"
    and "I s" "forErr f xs s = (None, s')"
  shows "I s' \<and> c s' = foldl (\<lambda>t x. g x t) (c s) xs"
  using assms
proof (induction xs arbitrary: s)
  case (Cons x xs)
  obtain e s1 where f: "f x s = (e, s1)" by force
  then have e: "e = None" "forErr f xs s1 = (None, s')" using Cons.prems(3) by (cases e; simp)+
  have "I (snd (f x s)) \<and> c (snd (f x s)) = g x (c s)"
    by (rule Cons.prems(1)) (simp_all add: f e Cons.prems(2))
  then have s1: "I s1" "c s1 = g x (c s)" by (simp_all add: f)
  have "I s' \<and> c s' = foldl (\<lambda>t x. g x t) (c s1) xs"
    by (rule Cons.IH) (fact Cons.prems(1) [OF list.set_intros(2)] s1(1) e(2))+
  then show ?case by (simp add: s1(2))
qed simp

lemma forErr_effect_err:
  assumes "\<And>x s. \<lbrakk>x \<in> set xs; I s; fst (f x s) = None\<rbrakk> \<Longrightarrow> I (snd (f x s)) \<and> c (snd (f x s)) = g x (c s)"
    and "\<And>x s. \<lbrakk>x \<in> set xs; I s; fst (f x s) \<noteq> None\<rbrakk> \<Longrightarrow> I (snd (f x s)) \<and> h x (c s) (c (snd (f x s)))"
    and "I s" "forErr f xs s = (Some e, s')"
  shows "I s' \<and> (\<exists>ys y zs. xs = ys @ y # zs \<and> h y (foldl (\<lambda>t x. g x t) (c s) ys) (c s'))"
  using assms
proof (induction xs arbitrary: s)
  case (Cons x xs)
  obtain e1 s1 where f: "f x s = (e1, s1)" by force
  show ?case
  proof (cases e1)
    case None
    then have rest: "forErr f xs s1 = (Some e, s')" using Cons.prems(4) f by simp
    have "I (snd (f x s)) \<and> c (snd (f x s)) = g x (c s)"
      by (rule Cons.prems(1)) (simp_all add: f None Cons.prems(3))
    then have s1: "I s1" "c s1 = g x (c s)" by (simp_all add: f)
    have "I s' \<and> (\<exists>ys y zs. xs = ys @ y # zs \<and> h y (foldl (\<lambda>t x. g x t) (c s1) ys) (c s'))"
      by (rule Cons.IH) (fact Cons.prems(1) [OF list.set_intros(2)] Cons.prems(2) [OF list.set_intros(2)] s1(1) rest)+
    then obtain ys y zs where "I s'" "xs = ys @ y # zs" "h y (foldl (\<lambda>t x. g x t) (c s1) ys) (c s')"
      by blast
    then have "x # xs = (x # ys) @ y # zs \<and> h y (foldl (\<lambda>t x. g x t) (c s) (x # ys)) (c s')"
      by (simp add: s1(2))
    then show ?thesis using \<open>I s'\<close> by blast
  next
    case (Some e2)
    then have "s' = s1" using Cons.prems(4) f by simp
    moreover have "I (snd (f x s)) \<and> h x (c s) (c (snd (f x s)))"
      by (rule Cons.prems(2)) (simp_all add: f Some Cons.prems(3))
    ultimately have "I s' \<and> h x (c s) (c s')" by (simp add: f)
    then have "x # xs = [] @ x # xs \<and> h x (foldl (\<lambda>t x. g x t) (c s) []) (c s')" by simp
    then show ?thesis using \<open>I s' \<and> h x (c s) (c s')\<close> by blast
  qed
qed simp

section \<open>A memoising query and its specification\<close>

text \<open>
  step answers a question and moves to a new state; when the state it starts in
  satisfies the invariant, the answer is that of a pure function. mapStep asks
  several questions one after another.
\<close>

fun mapStep :: "('x \<Rightarrow> 's \<Rightarrow> 'r \<times> 's) \<Rightarrow> 'x list \<Rightarrow> 's \<Rightarrow> 'r list \<times> 's" where
  "mapStep f [] s = ([], s)"
| "mapStep f (x # xs) s =
     (case f x s of (r, s') \<Rightarrow> (case mapStep f xs s' of (rs, s'') \<Rightarrow> (r # rs, s'')))"

locale memoised =
  fixes step :: "'x \<Rightarrow> 's \<Rightarrow> 'r \<times> 's"
    and inv :: "'s \<Rightarrow> bool"
    and asked :: "'x \<Rightarrow> bool"
    and spec :: "'x \<Rightarrow> 'r"
  assumes answer: "\<lbrakk>inv s; asked x\<rbrakk> \<Longrightarrow> fst (step x s) = spec x"
    and keeps: "\<lbrakk>inv s; asked x\<rbrakk> \<Longrightarrow> inv (snd (step x s))"
begin

lemma step_eq: "\<lbrakk>inv s; asked x\<rbrakk> \<Longrightarrow> \<exists>s'. step x s = (spec x, s') \<and> inv s'"
  using answer keeps by (metis prod.collapse)

lemma answers: "\<lbrakk>inv s; \<forall>x\<in>set xs. asked x\<rbrakk> \<Longrightarrow> fst (mapStep step xs s) = map spec xs"
proof (induction xs arbitrary: s)
  case (Cons x xs)
  obtain s' where "step x s = (spec x, s')" "inv s'" using step_eq Cons.prems by force
  then show ?case using Cons.IH [of s'] Cons.prems by (auto split: prod.splits)
qed simp

lemma keeps_all: "\<lbrakk>inv s; \<forall>x\<in>set xs. asked x\<rbrakk> \<Longrightarrow> inv (snd (mapStep step xs s))"
proof (induction xs arbitrary: s)
  case (Cons x xs)
  obtain s' where "step x s = (spec x, s')" "inv s'" using step_eq Cons.prems by force
  then show ?case using Cons.IH [of s'] Cons.prems by (auto split: prod.splits)
qed simp

end

end
