(* ===== verification/Kube.thy ===== *)
theory Kube
  imports Prelude
begin

text \<open>
  The Kubernetes API types the code reads, with the fields it uses: group, version
  and kind, conditions, the RBAC types, and client.Object as a record of metadata
  with a body that has one constructor per concrete Go type. A Go type assertion
  on a client.Object is a case distinction on the body. Times are nanoseconds
  with 0 for the zero time.Time; a nil time pointer is None.
\<close>

record gv =
  gv_Group :: string
  gv_Version :: string

record gvk =
  gvk_Group :: string
  gvk_Version :: string
  gvk_Kind :: string

record condition =
  cond_Type :: string
  cond_Status :: string
  cond_Reason :: string
  cond_Message :: string

record k8s_rule =
  kr_APIGroups :: "string list"
  kr_Resources :: "string list"
  kr_Verbs :: "string list"
  kr_ResourceNames :: "string list"
  kr_NonResourceURLs :: "string list"

record k8s_subject =
  ks_Kind :: string
  ks_Name :: string
  ks_Namespace :: string
  ks_APIGroup :: string

record k8s_role_ref =
  rr_APIGroup :: string
  rr_Kind :: string
  rr_Name :: string

datatype kube_body =
    HelmRelease "condition list" bool
  | Kustomization "condition list" bool
  | HelmRepository "condition list" bool
  | HelmChart "condition list" bool
  | GitRepository "condition list" bool
  | OCIRepository "condition list" bool
  | Bucket "condition list" bool
  | Event (event_Type: string) (event_Message: string) (event_Source: string)
  | GitOpsSet "condition list" bool
  | GitOpsTemplate string
  | CAPITemplate string
  | AutomatedClusterDiscovery "condition list" bool
  | K8sRole "k8s_rule list"
  | K8sClusterRole "k8s_rule list"
  | K8sRoleBinding "k8s_subject list" k8s_role_ref
  | K8sClusterRoleBinding "k8s_subject list" k8s_role_ref
  | K8sNamespace
  | OtherBody string

record client_object =
  co_Gvk :: gvk
  co_Name :: string
  co_Namespace :: string
  co_Labels :: "string \<rightharpoonup> string"
  co_Finalizers :: "string list"
  co_DeletionTimestamp :: "int option"
  co_Body :: kube_body

text \<open>
  The typed RBAC objects: rbacv1.Role and rbacv1.ClusterRole (whose namespace is
  empty) share a record, and so do the two kinds of bindings.
\<close>

record k8s_role =
  kro_Kind :: string
  kro_Namespace :: string
  kro_Name :: string
  kro_Rules :: "k8s_rule list"

record k8s_binding =
  kb_Kind :: string
  kb_Namespace :: string
  kb_Name :: string
  kb_RoleRef :: k8s_role_ref
  kb_Subjects :: "k8s_subject list"

text \<open>The object a constructor such as new HelmRelease makes: every field zero.\<close>

definition zeroGvk :: gvk where
  "zeroGvk = \<lparr> gvk_Group = [], gvk_Version = [], gvk_Kind = [] \<rparr>"

definition newObject :: "kube_body \<Rightarrow> client_object" where
  "newObject b = \<lparr> co_Gvk = zeroGvk, co_Name = [], co_Namespace = [], co_Labels = Map.empty,
     co_Finalizers = [], co_DeletionTimestamp = None, co_Body = b \<rparr>"

lemma co_Body_newObject [simp]: "co_Body (newObject b) = b"
  by (simp add: newObject_def)

end
