(* ===== verification/ObjectKinds.thy ===== *)
theory ObjectKinds
  imports Kube
begin

text \<open>
  pkg/query/configuration/objectkind.go and retention.go: the kinds of objects the
  explorer collects, how each computes a status and a message, and the validation
  of a kind. A Go function value that may be nil is an option. StatusFunc and
  MessageFunc take the ObjectKind they are stored in, a recursive type that HOL
  has no record for: the shared functions of the file are constructors of
  status_func and message_func, which runStatus and runMessage apply to the kind,
  and any other function is a custom one. The group versions and kind names the
  file takes from the Flux, GitOps and Kubernetes API packages are the fields of
  api_groups, and WithKind of the same packages is its last field.
\<close>

record api_groups =
  ag_helmv2beta1 :: gv
  ag_kustomizev1 :: gv
  ag_sourcev1 :: gv
  ag_sourcev1beta2 :: gv
  ag_rbacv1 :: gv
  ag_corev1 :: gv
  ag_gitopssets :: gv
  ag_gapiv1 :: gv
  ag_capiv1 :: gv
  ag_clusterreflector :: gv
  ag_HelmReleaseKind :: string
  ag_KustomizationKind :: string
  ag_HelmRepositoryKind :: string
  ag_HelmChartKind :: string
  ag_GitRepositoryKind :: string
  ag_OCIRepositoryKind :: string
  ag_BucketKind :: string
  ag_GapiKind :: string
  ag_CapiKind :: string
  ag_WithKind :: "gv \<Rightarrow> string \<Rightarrow> gvk"

text \<open>
  The documented behaviour of the API packages that the kinds rely on: WithKind
  keeps group, version and kind, the kind names are not empty.
\<close>

definition api_ok :: "api_groups \<Rightarrow> bool" where
  "api_ok A \<longleftrightarrow>
     ag_WithKind A = (\<lambda>v k. \<lparr> gvk_Group = gv_Group v, gvk_Version = gv_Version v, gvk_Kind = k \<rparr>) \<and>
     (\<forall>n\<in>set [ag_HelmReleaseKind A, ag_KustomizationKind A, ag_HelmRepositoryKind A,
                ag_HelmChartKind A, ag_GitRepositoryKind A, ag_OCIRepositoryKind A,
                ag_BucketKind A, ag_GapiKind A, ag_CapiKind A]. n \<noteq> [])"

type_synonym object_category = string
type_synonym object_status = string
type_synonym retention_policy = int

definition NoRetentionPolicy :: retention_policy where "NoRetentionPolicy = 0"

definition hour :: int where "hour = 3600 * 1000000000"

definition CategoryAutomation :: object_category where "CategoryAutomation = ''automation''"
definition CategorySource :: object_category where "CategorySource = ''source''"
definition CategoryEvent :: object_category where "CategoryEvent = ''event''"
definition CategoryGitopsSet :: object_category where "CategoryGitopsSet = ''gitopsset''"
definition CategoryTemplate :: object_category where "CategoryTemplate = ''template''"
definition CategoryRBAC :: object_category where "CategoryRBAC = ''rbac''"
definition CategoryClusterDiscovery :: object_category where
  "CategoryClusterDiscovery = ''clusterdiscovery''"

definition Success :: object_status where "Success = ''Success''"
definition Failed :: object_status where "Failed = ''Failed''"
definition Reconciling :: object_status where "Reconciling = ''Reconciling''"
definition Suspended :: object_status where "Suspended = ''Suspended''"
definition PendingAction :: object_status where "PendingAction = ''PendingAction''"
definition NoStatus :: object_status where "NoStatus = ''-''"

lemmas category_defs = CategoryAutomation_def CategorySource_def CategoryEvent_def
  CategoryGitopsSet_def CategoryTemplate_def CategoryRBAC_def CategoryClusterDiscovery_def

lemmas status_defs = Success_def Failed_def Reconciling_def Suspended_def PendingAction_def
  NoStatus_def

section \<open>Kinds of objects\<close>

datatype status_func =
    DefaultStatusFunc
  | NoStatusFunc
  | CustomStatusFunc "client_object \<Rightarrow> object_status res"

datatype message_func =
    DefaultMessageFunc
  | CustomMessageFunc "client_object \<Rightarrow> string res"

record object_kind =
  ok_Gvk :: gvk
  ok_NewClientObjectFunc :: "client_object option"
  ok_AddToSchemeFunc :: "string option"
  ok_RetentionPolicy :: retention_policy
  ok_FilterFunc :: "(client_object \<Rightarrow> bool) option"
  ok_GetConditionsFunc :: "(client_object \<Rightarrow> condition list res) option"
  ok_GetSuspendedFunc :: "(client_object \<Rightarrow> bool res) option"
  ok_StatusFunc :: "status_func option"
  ok_MessageFunc :: "message_func option"
  ok_Labels :: "string list"
  ok_Category :: object_category
  ok_HumanReadableLabelKeys :: "(string \<times> string) list"

definition ObjectKind_Validate :: "object_kind \<Rightarrow> goerror option" where
  "ObjectKind_Validate k =
     (if gvk_Kind (ok_Gvk k) = [] then Some (err ''missing gvk'')
      else if ok_NewClientObjectFunc k = None then Some (err ''missing client func'')
      else if ok_AddToSchemeFunc k = None then Some (err ''missing add to scheme func'')
      else if Option.is_none (ok_StatusFunc k) then Some (err ''missing status func'')
      else if Option.is_none (ok_MessageFunc k) then Some (err ''missing message func'')
      else if ok_Category k = [] then Some (err ''missing category'')
      else None)"

section \<open>Status and message functions\<close>

definition noStatusFunc :: "client_object \<Rightarrow> object_kind \<Rightarrow> object_status res" where
  "noStatusFunc obj k = Inr NoStatus"

text \<open>The loop over the conditions at the end of defaultStatusFunc.\<close>

fun statusOfConditions :: "condition list \<Rightarrow> object_status" where
  "statusOfConditions [] = Failed"
| "statusOfConditions (c # cs) =
     (if cond_Type c = NoStatus then NoStatus
      else if cond_Type c = ''Ready'' \<or> cond_Type c = ''Available'' then
        (if cond_Status c = ''True'' then Success
         else if cond_Status c = ''Unknown'' then
           (if cond_Reason c = ''Progressing'' then Reconciling
            else if cond_Reason c = ''TerraformPlannedWithChanges'' then PendingAction
            else Failed)
         else Failed)
      else statusOfConditions cs)"

definition defaultStatusFunc :: "client_object \<Rightarrow> object_kind \<Rightarrow> object_status res" where
  "defaultStatusFunc obj k =
     (case ok_GetConditionsFunc k of
        None \<Rightarrow> Inl (err ''missing get conditions func'')
      | Some getConditions \<Rightarrow>
          if Option.is_none (ok_StatusFunc k) then Inl (err ''missing status func'')
          else case getConditions obj of
            Inl e \<Rightarrow> Inl (wrap ''getting object conditions: %w'' [] e)
          | Inr conditions \<Rightarrow>
              (case ok_GetSuspendedFunc k of
                 None \<Rightarrow> Inl (Panic ''nil func'')
               | Some getSuspended \<Rightarrow>
                   (case getSuspended obj of
                      Inl e \<Rightarrow> Inl (wrap ''getting suspended object status: %w'' [] e)
                    | Inr suspended \<Rightarrow>
                        Inr (if suspended then Suspended else statusOfConditions conditions))))"

fun messageOfConditions :: "condition list \<Rightarrow> string" where
  "messageOfConditions [] = []"
| "messageOfConditions (c # cs) =
     (if cond_Type c = ''Ready'' \<or> cond_Type c = ''Available'' then cond_Message c
      else messageOfConditions cs)"

definition defaultMessageFunc :: "client_object \<Rightarrow> object_kind \<Rightarrow> string res" where
  "defaultMessageFunc obj k =
     (case ok_GetConditionsFunc k of
        None \<Rightarrow> Inl (err ''missing get conditions func'')
      | Some getConditions \<Rightarrow>
          (case getConditions obj of
             Inl e \<Rightarrow> Inl (wrap ''getting object conditions: %w'' [] e)
           | Inr conditions \<Rightarrow> Inr (messageOfConditions conditions)))"

fun runStatus :: "status_func option \<Rightarrow> client_object \<Rightarrow> object_kind \<Rightarrow> object_status res" where
  "runStatus None obj k = Inl (Panic ''nil func'')"
| "runStatus (Some DefaultStatusFunc) obj k = defaultStatusFunc obj k"
| "runStatus (Some NoStatusFunc) obj k = noStatusFunc obj k"
| "runStatus (Some (CustomStatusFunc f)) obj k = f obj"

fun runMessage :: "message_func option \<Rightarrow> client_object \<Rightarrow> object_kind \<Rightarrow> string res" where
  "runMessage None obj k = Inl (Panic ''nil func'')"
| "runMessage (Some DefaultMessageFunc) obj k = defaultMessageFunc obj k"
| "runMessage (Some (CustomMessageFunc f)) obj k = f obj"

section \<open>The supported kinds\<close>

definition HelmReleaseObjectKind :: "api_groups \<Rightarrow> object_kind" where
  "HelmReleaseObjectKind A = \<lparr>
     ok_Gvk = ag_WithKind A (ag_helmv2beta1 A) (ag_HelmReleaseKind A),
     ok_NewClientObjectFunc = Some (newObject (HelmRelease [] False)),
     ok_AddToSchemeFunc = Some ''helmv2beta1'',
     ok_RetentionPolicy = NoRetentionPolicy,
     ok_FilterFunc = None,
     ok_GetConditionsFunc = Some (\<lambda>obj. case co_Body obj of
       HelmRelease conds _ \<Rightarrow> Inr conds | _ \<Rightarrow> Inl (err ''object is not a HelmRelease'')),
     ok_GetSuspendedFunc = Some (\<lambda>obj. case co_Body obj of
       HelmRelease _ suspend \<Rightarrow> Inr suspend | _ \<Rightarrow> Inl (err ''object is not a HelmRelease'')),
     ok_StatusFunc = Some DefaultStatusFunc,
     ok_MessageFunc = Some DefaultMessageFunc,
     ok_Labels = [],
     ok_Category = CategoryAutomation,
     ok_HumanReadableLabelKeys = [] \<rparr>"

definition KustomizationObjectKind :: "api_groups \<Rightarrow> object_kind" where
  "KustomizationObjectKind A = \<lparr>
     ok_Gvk = ag_WithKind A (ag_kustomizev1 A) (ag_KustomizationKind A),
     ok_NewClientObjectFunc = Some (newObject (Kustomization [] False)),
     ok_AddToSchemeFunc = Some ''kustomizev1'',
     ok_RetentionPolicy = NoRetentionPolicy,
     ok_FilterFunc = None,
     ok_GetConditionsFunc = Some (\<lambda>obj. case co_Body obj of
       Kustomization conds _ \<Rightarrow> Inr conds | _ \<Rightarrow> Inl (err ''object is not a Kustomization'')),
     ok_GetSuspendedFunc = Some (\<lambda>obj. case co_Body obj of
       Kustomization _ suspend \<Rightarrow> Inr suspend | _ \<Rightarrow> Inl (err ''object is not a Kustomization'')),
     ok_StatusFunc = Some DefaultStatusFunc,
     ok_MessageFunc = Some DefaultMessageFunc,
     ok_Labels = [],
     ok_Category = CategoryAutomation,
     ok_HumanReadableLabelKeys = [] \<rparr>"

definition HelmRepositoryObjectKind :: "api_groups \<Rightarrow> object_kind" where
  "HelmRepositoryObjectKind A = \<lparr>
     ok_Gvk = ag_WithKind A (ag_sourcev1beta2 A) (ag_HelmRepositoryKind A),
     ok_NewClientObjectFunc = Some (newObject (HelmRepository [] False)),
     ok_AddToSchemeFunc = Some ''sourcev1'',
     ok_RetentionPolicy = NoRetentionPolicy,
     ok_FilterFunc = None,
     ok_GetConditionsFunc = Some (\<lambda>obj. case co_Body obj of
       HelmRepository conds _ \<Rightarrow> Inr conds | _ \<Rightarrow> Inl (err ''object is not a HelmRepository'')),
     ok_GetSuspendedFunc = Some (\<lambda>obj. case co_Body obj of
       HelmRepository _ suspend \<Rightarrow> Inr suspend | _ \<Rightarrow> Inl (err ''object is not a HelmRepository'')),
     ok_StatusFunc = Some DefaultStatusFunc,
     ok_MessageFunc = Some DefaultMessageFunc,
     ok_Labels = [],
     ok_Category = CategorySource,
     ok_HumanReadableLabelKeys = [] \<rparr>"

definition HelmChartObjectKind :: "api_groups \<Rightarrow> object_kind" where
  "HelmChartObjectKind A = \<lparr>
     ok_Gvk = ag_WithKind A (ag_sourcev1beta2 A) (ag_HelmChartKind A),
     ok_NewClientObjectFunc = Some (newObject (HelmChart [] False)),
     ok_AddToSchemeFunc = Some ''sourcev1'',
     ok_RetentionPolicy = NoRetentionPolicy,
     ok_FilterFunc = None,
     ok_GetConditionsFunc = Some (\<lambda>obj. case co_Body obj of
       HelmChart conds _ \<Rightarrow> Inr conds | _ \<Rightarrow> Inl (err ''object is not a HelmChart'')),
     ok_GetSuspendedFunc = Some (\<lambda>obj. case co_Body obj of
       HelmChart _ suspend \<Rightarrow> Inr suspend | _ \<Rightarrow> Inl (err ''object is not a HelmChart'')),
     ok_StatusFunc = Some DefaultStatusFunc,
     ok_MessageFunc = Some DefaultMessageFunc,
     ok_Labels = [],
     ok_Category = CategorySource,
     ok_HumanReadableLabelKeys = [] \<rparr>"

definition GitRepositoryObjectKind :: "api_groups \<Rightarrow> object_kind" where
  "GitRepositoryObjectKind A = \<lparr>
     ok_Gvk = ag_WithKind A (ag_sourcev1 A) (ag_GitRepositoryKind A),
     ok_NewClientObjectFunc = Some (newObject (GitRepository [] False)),
     ok_AddToSchemeFunc = Some ''sourcev1'',
     ok_RetentionPolicy = NoRetentionPolicy,
     ok_FilterFunc = None,
     ok_GetConditionsFunc = Some (\<lambda>obj. case co_Body obj of
       GitRepository conds _ \<Rightarrow> Inr conds | _ \<Rightarrow> Inl (err ''object is not a GitRepository'')),
     ok_GetSuspendedFunc = Some (\<lambda>obj. case co_Body obj of
       GitRepository _ suspend \<Rightarrow> Inr suspend | _ \<Rightarrow> Inl (err ''object is not a GitRepository'')),
     ok_StatusFunc = Some DefaultStatusFunc,
     ok_MessageFunc = Some DefaultMessageFunc,
     ok_Labels = [],
     ok_Category = CategorySource,
     ok_HumanReadableLabelKeys = [] \<rparr>"

definition OCIRepositoryObjectKind :: "api_groups \<Rightarrow> object_kind" where
  "OCIRepositoryObjectKind A = \<lparr>
     ok_Gvk = ag_WithKind A (ag_sourcev1beta2 A) (ag_OCIRepositoryKind A),
     ok_NewClientObjectFunc = Some (newObject (OCIRepository [] False)),
     ok_AddToSchemeFunc = Some ''sourcev1beta2'',
     ok_RetentionPolicy = NoRetentionPolicy,
     ok_FilterFunc = None,
     ok_GetConditionsFunc = Some (\<lambda>obj. case co_Body obj of
       OCIRepository conds _ \<Rightarrow> Inr conds | _ \<Rightarrow> Inl (err ''object is not an OCIRepository'')),
     ok_GetSuspendedFunc = Some (\<lambda>obj. case co_Body obj of
       OCIRepository _ suspend \<Rightarrow> Inr suspend | _ \<Rightarrow> Inl (err ''object is not an OCIRepository'')),
     ok_StatusFunc = Some DefaultStatusFunc,
     ok_MessageFunc = Some DefaultMessageFunc,
     ok_Labels = [],
     ok_Category = CategorySource,
     ok_HumanReadableLabelKeys = [] \<rparr>"

definition BucketObjectKind :: "api_groups \<Rightarrow> object_kind" where
  "BucketObjectKind A = \<lparr>
     ok_Gvk = ag_WithKind A (ag_sourcev1beta2 A) (ag_BucketKind A),
     ok_NewClientObjectFunc = Some (newObject (Bucket [] False)),
     ok_AddToSchemeFunc = Some ''sourcev1beta2'',
     ok_RetentionPolicy = NoRetentionPolicy,
     ok_FilterFunc = None,
     ok_GetConditionsFunc = Some (\<lambda>obj. case co_Body obj of
       Bucket conds _ \<Rightarrow> Inr conds | _ \<Rightarrow> Inl (err ''object is not a Bucket'')),
     ok_GetSuspendedFunc = Some (\<lambda>obj. case co_Body obj of
       Bucket _ suspend \<Rightarrow> Inr suspend | _ \<Rightarrow> Inl (err ''object is not a Bucket'')),
     ok_StatusFunc = Some DefaultStatusFunc,
     ok_MessageFunc = Some DefaultMessageFunc,
     ok_Labels = [],
     ok_Category = CategorySource,
     ok_HumanReadableLabelKeys = [] \<rparr>"

definition GitOpsSetsObjectKind :: "api_groups \<Rightarrow> object_kind" where
  "GitOpsSetsObjectKind A = \<lparr>
     ok_Gvk = ag_WithKind A (ag_gitopssets A) ''GitOpsSet'',
     ok_NewClientObjectFunc = Some (newObject (GitOpsSet [] False)),
     ok_AddToSchemeFunc = Some ''gitopssets'',
     ok_RetentionPolicy = NoRetentionPolicy,
     ok_FilterFunc = None,
     ok_GetConditionsFunc = Some (\<lambda>obj. case co_Body obj of
       GitOpsSet conds _ \<Rightarrow> Inr conds | _ \<Rightarrow> Inl (err ''object is not a GitOpsSet'')),
     ok_GetSuspendedFunc = Some (\<lambda>obj. case co_Body obj of
       GitOpsSet _ suspend \<Rightarrow> Inr suspend | _ \<Rightarrow> Inl (err ''object is not a GitOpsSet'')),
     ok_StatusFunc = Some DefaultStatusFunc,
     ok_MessageFunc = Some DefaultMessageFunc,
     ok_Labels = [],
     ok_Category = CategoryGitopsSet,
     ok_HumanReadableLabelKeys = [] \<rparr>"

definition AutomatedClusterDiscoveryObjectKind :: "api_groups \<Rightarrow> object_kind" where
  "AutomatedClusterDiscoveryObjectKind A = \<lparr>
     ok_Gvk = ag_WithKind A (ag_clusterreflector A) ''AutomatedClusterDiscovery'',
     ok_NewClientObjectFunc = Some (newObject (AutomatedClusterDiscovery [] False)),
     ok_AddToSchemeFunc = Some ''clusterreflectorv1alpha1'',
     ok_RetentionPolicy = NoRetentionPolicy,
     ok_FilterFunc = None,
     ok_GetConditionsFunc = Some (\<lambda>obj. case co_Body obj of
       AutomatedClusterDiscovery conds _ \<Rightarrow> Inr conds | _ \<Rightarrow> Inl (err ''object is not an AutomatedClusterDiscovery'')),
     ok_GetSuspendedFunc = Some (\<lambda>obj. case co_Body obj of
       AutomatedClusterDiscovery _ suspend \<Rightarrow> Inr suspend | _ \<Rightarrow> Inl (err ''object is not an AutomatedClusterDiscovery'')),
     ok_StatusFunc = Some DefaultStatusFunc,
     ok_MessageFunc = Some DefaultMessageFunc,
     ok_Labels = [],
     ok_Category = CategoryClusterDiscovery,
     ok_HumanReadableLabelKeys = [] \<rparr>"

definition zeroRef :: k8s_role_ref where
  "zeroRef = \<lparr> rr_APIGroup = [], rr_Kind = [], rr_Name = [] \<rparr>"

definition RoleObjectKind :: "api_groups \<Rightarrow> object_kind" where
  "RoleObjectKind A = \<lparr>
     ok_Gvk = ag_WithKind A (ag_rbacv1 A) ''Role'',
     ok_NewClientObjectFunc = Some (newObject (K8sRole [])),
     ok_AddToSchemeFunc = Some ''rbacv1'',
     ok_RetentionPolicy = NoRetentionPolicy,
     ok_FilterFunc = None, ok_GetConditionsFunc = None, ok_GetSuspendedFunc = None,
     ok_StatusFunc = None, ok_MessageFunc = None,
     ok_Labels = [], ok_Category = CategoryRBAC, ok_HumanReadableLabelKeys = [] \<rparr>"

definition ClusterRoleObjectKind :: "api_groups \<Rightarrow> object_kind" where
  "ClusterRoleObjectKind A = \<lparr>
     ok_Gvk = ag_WithKind A (ag_rbacv1 A) ''ClusterRole'',
     ok_NewClientObjectFunc = Some (newObject (K8sClusterRole [])),
     ok_AddToSchemeFunc = Some ''rbacv1'',
     ok_RetentionPolicy = NoRetentionPolicy,
     ok_FilterFunc = None, ok_GetConditionsFunc = None, ok_GetSuspendedFunc = None,
     ok_StatusFunc = None, ok_MessageFunc = None,
     ok_Labels = [], ok_Category = CategoryRBAC, ok_HumanReadableLabelKeys = [] \<rparr>"

definition RoleBindingObjectKind :: "api_groups \<Rightarrow> object_kind" where
  "RoleBindingObjectKind A = \<lparr>
     ok_Gvk = ag_WithKind A (ag_rbacv1 A) ''RoleBinding'',
     ok_NewClientObjectFunc = Some (newObject (K8sRoleBinding [] zeroRef)),
     ok_AddToSchemeFunc = Some ''rbacv1'',
     ok_RetentionPolicy = NoRetentionPolicy,
     ok_FilterFunc = None, ok_GetConditionsFunc = None, ok_GetSuspendedFunc = None,
     ok_StatusFunc = None, ok_MessageFunc = None,
     ok_Labels = [], ok_Category = CategoryRBAC, ok_HumanReadableLabelKeys = [] \<rparr>"

definition ClusterRoleBindingObjectKind :: "api_groups \<Rightarrow> object_kind" where
  "ClusterRoleBindingObjectKind A = \<lparr>
     ok_Gvk = ag_WithKind A (ag_rbacv1 A) ''ClusterRoleBinding'',
     ok_NewClientObjectFunc = Some (newObject (K8sClusterRoleBinding [] zeroRef)),
     ok_AddToSchemeFunc = Some ''rbacv1'',
     ok_RetentionPolicy = NoRetentionPolicy,
     ok_FilterFunc = None, ok_GetConditionsFunc = None, ok_GetSuspendedFunc = None,
     ok_StatusFunc = None, ok_MessageFunc = None,
     ok_Labels = [], ok_Category = CategoryRBAC, ok_HumanReadableLabelKeys = [] \<rparr>"

definition auditEventFilter :: "client_object \<Rightarrow> bool" where
  "auditEventFilter obj = (case co_Body obj of
     Event _ _ component \<Rightarrow>
       mget (co_Labels obj) ''pac.weave.works/type'' = ''Audit'' \<and> component = ''policy-agent''
   | _ \<Rightarrow> False)"

definition eventStatus :: "client_object \<Rightarrow> object_status res" where
  "eventStatus obj = (case co_Body obj of
     Event ty _ _ \<Rightarrow> Inr (if ty = ''Normal'' then Success else Failed)
   | _ \<Rightarrow> Inl (err ''object is not an Event''))"

definition eventMessage :: "client_object \<Rightarrow> string res" where
  "eventMessage obj = (case co_Body obj of
     Event _ msg _ \<Rightarrow> Inr msg | _ \<Rightarrow> Inl (err ''object is not an Event''))"

definition PolicyAgentAuditEventObjectKind :: "api_groups \<Rightarrow> object_kind" where
  "PolicyAgentAuditEventObjectKind A = \<lparr>
     ok_Gvk = ag_WithKind A (ag_corev1 A) ''Event'',
     ok_NewClientObjectFunc = Some (newObject (Event [] [] [])),
     ok_AddToSchemeFunc = Some ''corev1'',
     ok_RetentionPolicy = 24 * hour,
     ok_FilterFunc = Some auditEventFilter,
     ok_GetConditionsFunc = None, ok_GetSuspendedFunc = None,
     ok_StatusFunc = Some (CustomStatusFunc eventStatus),
     ok_MessageFunc = Some (CustomMessageFunc eventMessage),
     ok_Labels = [], ok_Category = CategoryEvent, ok_HumanReadableLabelKeys = [] \<rparr>"

definition gitopsTemplateMessage :: "client_object \<Rightarrow> string res" where
  "gitopsTemplateMessage obj = (case co_Body obj of
     GitOpsTemplate desc \<Rightarrow> Inr desc | _ \<Rightarrow> Inl (err ''object is not a GitOpsTemplate''))"

definition GitopsTemplateObjectKind :: "api_groups \<Rightarrow> object_kind" where
  "GitopsTemplateObjectKind A = \<lparr>
     ok_Gvk = ag_WithKind A (ag_gapiv1 A) (ag_GapiKind A),
     ok_NewClientObjectFunc = Some (newObject (GitOpsTemplate [])),
     ok_AddToSchemeFunc = Some ''gapiv1'',
     ok_RetentionPolicy = NoRetentionPolicy,
     ok_FilterFunc = None, ok_GetConditionsFunc = None, ok_GetSuspendedFunc = None,
     ok_StatusFunc = Some NoStatusFunc,
     ok_MessageFunc = Some (CustomMessageFunc gitopsTemplateMessage),
     ok_Labels = [''weave.works/template-type''],
     ok_Category = CategoryTemplate,
     ok_HumanReadableLabelKeys = [(''weave.works/template-type'', ''template-type'')] \<rparr>"

definition capiTemplateMessage :: "client_object \<Rightarrow> string res" where
  "capiTemplateMessage obj = (case co_Body obj of
     CAPITemplate desc \<Rightarrow> Inr desc | _ \<Rightarrow> Inl (err ''object is not a CAPITemplate''))"

definition CapiTemplateObjectKind :: "api_groups \<Rightarrow> object_kind" where
  "CapiTemplateObjectKind A = \<lparr>
     ok_Gvk = ag_WithKind A (ag_capiv1 A) (ag_CapiKind A),
     ok_NewClientObjectFunc = Some (newObject (CAPITemplate [])),
     ok_AddToSchemeFunc = Some ''capiv1'',
     ok_RetentionPolicy = NoRetentionPolicy,
     ok_FilterFunc = None, ok_GetConditionsFunc = None, ok_GetSuspendedFunc = None,
     ok_StatusFunc = Some NoStatusFunc,
     ok_MessageFunc = Some (CustomMessageFunc capiTemplateMessage),
     ok_Labels = [], ok_Category = CategoryTemplate, ok_HumanReadableLabelKeys = [] \<rparr>"

definition SupportedObjectKinds :: "api_groups \<Rightarrow> object_kind list" where
  "SupportedObjectKinds A =
     [HelmReleaseObjectKind A, KustomizationObjectKind A, HelmRepositoryObjectKind A,
      HelmChartObjectKind A, GitRepositoryObjectKind A, OCIRepositoryObjectKind A,
      BucketObjectKind A, PolicyAgentAuditEventObjectKind A, GitOpsSetsObjectKind A,
      GitopsTemplateObjectKind A, CapiTemplateObjectKind A,
      AutomatedClusterDiscoveryObjectKind A]"

definition SupportedRbacKinds :: "api_groups \<Rightarrow> object_kind list" where
  "SupportedRbacKinds A =
     [RoleObjectKind A, ClusterRoleObjectKind A, RoleBindingObjectKind A,
      ClusterRoleBindingObjectKind A]"

lemmas flux_kind_defs = HelmReleaseObjectKind_def KustomizationObjectKind_def
  HelmRepositoryObjectKind_def HelmChartObjectKind_def GitRepositoryObjectKind_def
  OCIRepositoryObjectKind_def BucketObjectKind_def GitOpsSetsObjectKind_def
  AutomatedClusterDiscoveryObjectKind_def

lemmas plain_kind_defs = PolicyAgentAuditEventObjectKind_def GitopsTemplateObjectKind_def
  CapiTemplateObjectKind_def

lemmas rbac_kind_defs = RoleObjectKind_def ClusterRoleObjectKind_def RoleBindingObjectKind_def
  ClusterRoleBindingObjectKind_def

section \<open>Status of an object\<close>

text \<open>The conditions that decide the status are the ones up to the first Ready or Available.\<close>

definition decisive :: "condition \<Rightarrow> bool" where
  "decisive c \<longleftrightarrow> cond_Type c \<in> {NoStatus, ''Ready'', ''Available''}"

lemma statusOfConditions_skip:
  "\<forall>c\<in>set cs. \<not> decisive c \<Longrightarrow> statusOfConditions (cs @ ds) = statusOfConditions ds"
  by (induction cs) (auto simp: decisive_def)

lemma statusOfConditions_range:
  "statusOfConditions cs \<in> {NoStatus, Success, Reconciling, PendingAction, Failed}"
  by (induction cs) auto

text \<open>The concrete Go type of an object.\<close>

fun goType :: "kube_body \<Rightarrow> string" where
  "goType (HelmRelease _ _) = ''HelmRelease''"
| "goType (Kustomization _ _) = ''Kustomization''"
| "goType (HelmRepository _ _) = ''HelmRepository''"
| "goType (HelmChart _ _) = ''HelmChart''"
| "goType (GitRepository _ _) = ''GitRepository''"
| "goType (OCIRepository _ _) = ''OCIRepository''"
| "goType (Bucket _ _) = ''Bucket''"
| "goType (Event _ _ _) = ''Event''"
| "goType (GitOpsSet _ _) = ''GitOpsSet''"
| "goType (GitOpsTemplate _) = ''GitOpsTemplate''"
| "goType (CAPITemplate _) = ''CAPITemplate''"
| "goType (AutomatedClusterDiscovery _ _) = ''AutomatedClusterDiscovery''"
| "goType (K8sRole _) = ''Role''"
| "goType (K8sClusterRole _) = ''ClusterRole''"
| "goType (K8sRoleBinding _ _) = ''RoleBinding''"
| "goType (K8sClusterRoleBinding _ _) = ''ClusterRoleBinding''"
| "goType K8sNamespace = ''Namespace''"
| "goType (OtherBody t) = ''other'' @ t"

definition kindType :: "object_kind \<Rightarrow> string" where
  "kindType k = (case ok_NewClientObjectFunc k of None \<Rightarrow> [] | Some obj \<Rightarrow> goType (co_Body obj))"

lemma goType_other [simp]:
  "goType b = goType (OtherBody t) \<longleftrightarrow> b = OtherBody t"
  by (cases b) auto

definition classify :: "condition option \<Rightarrow> object_status" where
  "classify oc = (case oc of
     None \<Rightarrow> Failed
   | Some c \<Rightarrow>
       if cond_Type c = NoStatus then NoStatus
       else if cond_Status c = ''True'' then Success
       else if cond_Status c = ''Unknown'' \<and> cond_Reason c = ''Progressing'' then Reconciling
       else if cond_Status c = ''Unknown'' \<and> cond_Reason c = ''TerraformPlannedWithChanges''
         then PendingAction
       else Failed)"

lemma statusOfConditions_classify:
  "statusOfConditions cs = classify (find decisive cs)"
  by (induction cs) (auto simp: classify_def decisive_def status_defs)

text \<open>The kinds whose status is computed from conditions and suspension.\<close>

definition fluxKinds :: "api_groups \<Rightarrow> object_kind list" where
  "fluxKinds A = [HelmReleaseObjectKind A, KustomizationObjectKind A, HelmRepositoryObjectKind A,
      HelmChartObjectKind A, GitRepositoryObjectKind A, OCIRepositoryObjectKind A,
      BucketObjectKind A, GitOpsSetsObjectKind A, AutomatedClusterDiscoveryObjectKind A]"

lemma supported_cases:
  "k \<in> set (SupportedObjectKinds A) \<longleftrightarrow>
     k \<in> set (fluxKinds A) \<or> k = PolicyAgentAuditEventObjectKind A \<or>
     k = GitopsTemplateObjectKind A \<or> k = CapiTemplateObjectKind A"
  by (auto simp: SupportedObjectKinds_def fluxKinds_def)

lemma flux_status_func [simp]:
  assumes "k \<in> set (fluxKinds A)"
  shows "ok_StatusFunc k = Some DefaultStatusFunc" "ok_MessageFunc k = Some DefaultMessageFunc"
  using assms by (auto simp: fluxKinds_def flux_kind_defs)

text \<open>The accessors of a kind succeed on the objects of its own Go type and on no other.\<close>

definition accessor_ok :: "(client_object \<Rightarrow> 'a res) option \<Rightarrow> object_kind \<Rightarrow> bool" where
  "accessor_ok f k \<longleftrightarrow> (\<exists>g. f = Some g \<and>
     (\<forall>obj. (case g obj of Inl e \<Rightarrow> \<not> isPanic e \<and> goType (co_Body obj) \<noteq> kindType k
              | Inr _ \<Rightarrow> goType (co_Body obj) = kindType k)))"

lemma accessor_okI:
  assumes "f = Some (\<lambda>obj. h (co_Body obj))"
    "\<And>b. (case h b of Inl e \<Rightarrow> \<not> isPanic e \<and> goType b \<noteq> kindType k | Inr _ \<Rightarrow> goType b = kindType k)"
  shows "accessor_ok f k"
  unfolding accessor_ok_def using assms by blast

lemma accessor_okD:
  "accessor_ok f k \<Longrightarrow> goType (co_Body obj) = kindType k \<Longrightarrow> \<exists>g x. f = Some g \<and> g obj = Inr x"
  unfolding accessor_ok_def by (metis (mono_tags, lifting) obj_sumE sum.simps(5))

lemma kindType_eq: "ok_NewClientObjectFunc k = Some (newObject b) \<Longrightarrow> kindType k = goType b"
  by (simp add: kindType_def)

lemma accessors_HelmRelease:
  "accessor_ok (ok_GetConditionsFunc (HelmReleaseObjectKind A)) (HelmReleaseObjectKind A)"
  "accessor_ok (ok_GetSuspendedFunc (HelmReleaseObjectKind A)) (HelmReleaseObjectKind A)"
proof -
  have k: "kindType (HelmReleaseObjectKind A) = ''HelmRelease''"
    by (subst kindType_eq, (simp only: HelmReleaseObjectKind_def object_kind.simps; rule refl), simp)
  show "accessor_ok (ok_GetConditionsFunc (HelmReleaseObjectKind A)) (HelmReleaseObjectKind A)"
    by (rule accessor_okI, (simp only: HelmReleaseObjectKind_def object_kind.simps; rule refl), unfold k, case_tac b)
       (simp_all add: err_def)
  show "accessor_ok (ok_GetSuspendedFunc (HelmReleaseObjectKind A)) (HelmReleaseObjectKind A)"
    by (rule accessor_okI, (simp only: HelmReleaseObjectKind_def object_kind.simps; rule refl), unfold k, case_tac b)
       (simp_all add: err_def)
qed

lemma accessors_Kustomization:
  "accessor_ok (ok_GetConditionsFunc (KustomizationObjectKind A)) (KustomizationObjectKind A)"
  "accessor_ok (ok_GetSuspendedFunc (KustomizationObjectKind A)) (KustomizationObjectKind A)"
proof -
  have k: "kindType (KustomizationObjectKind A) = ''Kustomization''"
    by (subst kindType_eq, (simp only: KustomizationObjectKind_def object_kind.simps; rule refl), simp)
  show "accessor_ok (ok_GetConditionsFunc (KustomizationObjectKind A)) (KustomizationObjectKind A)"
    by (rule accessor_okI, (simp only: KustomizationObjectKind_def object_kind.simps; rule refl), unfold k, case_tac b)
       (simp_all add: err_def)
  show "accessor_ok (ok_GetSuspendedFunc (KustomizationObjectKind A)) (KustomizationObjectKind A)"
    by (rule accessor_okI, (simp only: KustomizationObjectKind_def object_kind.simps; rule refl), unfold k, case_tac b)
       (simp_all add: err_def)
qed

lemma accessors_HelmRepository:
  "accessor_ok (ok_GetConditionsFunc (HelmRepositoryObjectKind A)) (HelmRepositoryObjectKind A)"
  "accessor_ok (ok_GetSuspendedFunc (HelmRepositoryObjectKind A)) (HelmRepositoryObjectKind A)"
proof -
  have k: "kindType (HelmRepositoryObjectKind A) = ''HelmRepository''"
    by (subst kindType_eq, (simp only: HelmRepositoryObjectKind_def object_kind.simps; rule refl), simp)
  show "accessor_ok (ok_GetConditionsFunc (HelmRepositoryObjectKind A)) (HelmRepositoryObjectKind A)"
    by (rule accessor_okI, (simp only: HelmRepositoryObjectKind_def object_kind.simps; rule refl), unfold k, case_tac b)
       (simp_all add: err_def)
  show "accessor_ok (ok_GetSuspendedFunc (HelmRepositoryObjectKind A)) (HelmRepositoryObjectKind A)"
    by (rule accessor_okI, (simp only: HelmRepositoryObjectKind_def object_kind.simps; rule refl), unfold k, case_tac b)
       (simp_all add: err_def)
qed

lemma accessors_HelmChart:
  "accessor_ok (ok_GetConditionsFunc (HelmChartObjectKind A)) (HelmChartObjectKind A)"
  "accessor_ok (ok_GetSuspendedFunc (HelmChartObjectKind A)) (HelmChartObjectKind A)"
proof -
  have k: "kindType (HelmChartObjectKind A) = ''HelmChart''"
    by (subst kindType_eq, (simp only: HelmChartObjectKind_def object_kind.simps; rule refl), simp)
  show "accessor_ok (ok_GetConditionsFunc (HelmChartObjectKind A)) (HelmChartObjectKind A)"
    by (rule accessor_okI, (simp only: HelmChartObjectKind_def object_kind.simps; rule refl), unfold k, case_tac b)
       (simp_all add: err_def)
  show "accessor_ok (ok_GetSuspendedFunc (HelmChartObjectKind A)) (HelmChartObjectKind A)"
    by (rule accessor_okI, (simp only: HelmChartObjectKind_def object_kind.simps; rule refl), unfold k, case_tac b)
       (simp_all add: err_def)
qed

lemma accessors_GitRepository:
  "accessor_ok (ok_GetConditionsFunc (GitRepositoryObjectKind A)) (GitRepositoryObjectKind A)"
  "accessor_ok (ok_GetSuspendedFunc (GitRepositoryObjectKind A)) (GitRepositoryObjectKind A)"
proof -
  have k: "kindType (GitRepositoryObjectKind A) = ''GitRepository''"
    by (subst kindType_eq, (simp only: GitRepositoryObjectKind_def object_kind.simps; rule refl), simp)
  show "accessor_ok (ok_GetConditionsFunc (GitRepositoryObjectKind A)) (GitRepositoryObjectKind A)"
    by (rule accessor_okI, (simp only: GitRepositoryObjectKind_def object_kind.simps; rule refl), unfold k, case_tac b)
       (simp_all add: err_def)
  show "accessor_ok (ok_GetSuspendedFunc (GitRepositoryObjectKind A)) (GitRepositoryObjectKind A)"
    by (rule accessor_okI, (simp only: GitRepositoryObjectKind_def object_kind.simps; rule refl), unfold k, case_tac b)
       (simp_all add: err_def)
qed

lemma accessors_OCIRepository:
  "accessor_ok (ok_GetConditionsFunc (OCIRepositoryObjectKind A)) (OCIRepositoryObjectKind A)"
  "accessor_ok (ok_GetSuspendedFunc (OCIRepositoryObjectKind A)) (OCIRepositoryObjectKind A)"
proof -
  have k: "kindType (OCIRepositoryObjectKind A) = ''OCIRepository''"
    by (subst kindType_eq, (simp only: OCIRepositoryObjectKind_def object_kind.simps; rule refl), simp)
  show "accessor_ok (ok_GetConditionsFunc (OCIRepositoryObjectKind A)) (OCIRepositoryObjectKind A)"
    by (rule accessor_okI, (simp only: OCIRepositoryObjectKind_def object_kind.simps; rule refl), unfold k, case_tac b)
       (simp_all add: err_def)
  show "accessor_ok (ok_GetSuspendedFunc (OCIRepositoryObjectKind A)) (OCIRepositoryObjectKind A)"
    by (rule accessor_okI, (simp only: OCIRepositoryObjectKind_def object_kind.simps; rule refl), unfold k, case_tac b)
       (simp_all add: err_def)
qed

lemma accessors_Bucket:
  "accessor_ok (ok_GetConditionsFunc (BucketObjectKind A)) (BucketObjectKind A)"
  "accessor_ok (ok_GetSuspendedFunc (BucketObjectKind A)) (BucketObjectKind A)"
proof -
  have k: "kindType (BucketObjectKind A) = ''Bucket''"
    by (subst kindType_eq, (simp only: BucketObjectKind_def object_kind.simps; rule refl), simp)
  show "accessor_ok (ok_GetConditionsFunc (BucketObjectKind A)) (BucketObjectKind A)"
    by (rule accessor_okI, (simp only: BucketObjectKind_def object_kind.simps; rule refl), unfold k, case_tac b)
       (simp_all add: err_def)
  show "accessor_ok (ok_GetSuspendedFunc (BucketObjectKind A)) (BucketObjectKind A)"
    by (rule accessor_okI, (simp only: BucketObjectKind_def object_kind.simps; rule refl), unfold k, case_tac b)
       (simp_all add: err_def)
qed

lemma accessors_GitOpsSets:
  "accessor_ok (ok_GetConditionsFunc (GitOpsSetsObjectKind A)) (GitOpsSetsObjectKind A)"
  "accessor_ok (ok_GetSuspendedFunc (GitOpsSetsObjectKind A)) (GitOpsSetsObjectKind A)"
proof -
  have k: "kindType (GitOpsSetsObjectKind A) = ''GitOpsSet''"
    by (subst kindType_eq, (simp only: GitOpsSetsObjectKind_def object_kind.simps; rule refl), simp)
  show "accessor_ok (ok_GetConditionsFunc (GitOpsSetsObjectKind A)) (GitOpsSetsObjectKind A)"
    by (rule accessor_okI, (simp only: GitOpsSetsObjectKind_def object_kind.simps; rule refl), unfold k, case_tac b)
       (simp_all add: err_def)
  show "accessor_ok (ok_GetSuspendedFunc (GitOpsSetsObjectKind A)) (GitOpsSetsObjectKind A)"
    by (rule accessor_okI, (simp only: GitOpsSetsObjectKind_def object_kind.simps; rule refl), unfold k, case_tac b)
       (simp_all add: err_def)
qed

lemma accessors_AutomatedClusterDiscovery:
  "accessor_ok (ok_GetConditionsFunc (AutomatedClusterDiscoveryObjectKind A)) (AutomatedClusterDiscoveryObjectKind A)"
  "accessor_ok (ok_GetSuspendedFunc (AutomatedClusterDiscoveryObjectKind A)) (AutomatedClusterDiscoveryObjectKind A)"
proof -
  have k: "kindType (AutomatedClusterDiscoveryObjectKind A) = ''AutomatedClusterDiscovery''"
    by (subst kindType_eq, (simp only: AutomatedClusterDiscoveryObjectKind_def object_kind.simps; rule refl), simp)
  show "accessor_ok (ok_GetConditionsFunc (AutomatedClusterDiscoveryObjectKind A)) (AutomatedClusterDiscoveryObjectKind A)"
    by (rule accessor_okI, (simp only: AutomatedClusterDiscoveryObjectKind_def object_kind.simps; rule refl), unfold k, case_tac b)
       (simp_all add: err_def)
  show "accessor_ok (ok_GetSuspendedFunc (AutomatedClusterDiscoveryObjectKind A)) (AutomatedClusterDiscoveryObjectKind A)"
    by (rule accessor_okI, (simp only: AutomatedClusterDiscoveryObjectKind_def object_kind.simps; rule refl), unfold k, case_tac b)
       (simp_all add: err_def)
qed

lemmas accessors_ok = accessors_HelmRelease accessors_Kustomization accessors_HelmRepository accessors_HelmChart accessors_GitRepository accessors_OCIRepository accessors_Bucket accessors_GitOpsSets accessors_AutomatedClusterDiscovery

lemma flux_conditions_ok:
  "k \<in> set (fluxKinds A) \<Longrightarrow> accessor_ok (ok_GetConditionsFunc k) k"
  by (auto simp: fluxKinds_def accessors_ok)

lemma flux_suspended_ok:
  "k \<in> set (fluxKinds A) \<Longrightarrow> accessor_ok (ok_GetSuspendedFunc k) k"
  by (auto simp: fluxKinds_def accessors_ok)

lemma flux_default_status:
  assumes "k \<in> set (fluxKinds A)" "goType (co_Body obj) = kindType k"
  obtains conds susp where
    "case ok_GetConditionsFunc k of Some f \<Rightarrow> f obj = Inr conds | None \<Rightarrow> False"
    "case ok_GetSuspendedFunc k of Some f \<Rightarrow> f obj = Inr susp | None \<Rightarrow> False"
    "defaultStatusFunc obj k = Inr (if susp then Suspended else statusOfConditions conds)"
proof -
  obtain gc conds where g: "ok_GetConditionsFunc k = Some gc" "gc obj = Inr conds"
    using accessor_okD [OF flux_conditions_ok [OF assms(1)] assms(2)] by blast
  obtain gs susp where h: "ok_GetSuspendedFunc k = Some gs" "gs obj = Inr susp"
    using accessor_okD [OF flux_suspended_ok [OF assms(1)] assms(2)] by blast
  show thesis by (rule that [of conds susp]) (use g h flux_status_func [OF assms(1)] in
    \<open>simp_all add: defaultStatusFunc_def\<close>)
qed

lemma flux_message:
  assumes "k \<in> set (fluxKinds A)"
  shows "case runMessage (ok_MessageFunc k) obj k of
     Inl e \<Rightarrow> \<not> isPanic e \<and> goType (co_Body obj) \<noteq> kindType k
   | Inr m \<Rightarrow> goType (co_Body obj) = kindType k"
proof -
  obtain g where g: "ok_GetConditionsFunc k = Some g"
    and ok: "\<forall>obj. (case g obj of Inl e \<Rightarrow> \<not> isPanic e \<and> goType (co_Body obj) \<noteq> kindType k
              | Inr _ \<Rightarrow> goType (co_Body obj) = kindType k)"
    using flux_conditions_ok [OF assms] by (auto simp: accessor_ok_def)
  show ?thesis using g ok [THEN spec, of obj] flux_status_func [OF assms]
    by (auto simp: defaultMessageFunc_def split: sum.splits)
qed

text \<open>C31: Every supported kind passes the validation the collectors apply to it, and its status
  and message functions return a value, never an error or a panic, on every object of the Go type
  that its NewClientObjectFunc makes.\<close>

theorem supported_kinds_valid:
  assumes "api_ok A" "k \<in> set (SupportedObjectKinds A)"
  shows "ObjectKind_Validate k = None \<and>
    (goType (co_Body obj) = kindType k \<longrightarrow>
       isOk (runStatus (ok_StatusFunc k) obj k) \<and> isOk (runMessage (ok_MessageFunc k) obj k))"
proof
  show "ObjectKind_Validate k = None"
    using assms unfolding SupportedObjectKinds_def
    by (simp only: list.set insert_iff empty_iff, elim conjE disjE FalseE)
       (simp_all add: flux_kind_defs plain_kind_defs ObjectKind_Validate_def api_ok_def category_defs)
next
  show "goType (co_Body obj) = kindType k \<longrightarrow>
       isOk (runStatus (ok_StatusFunc k) obj k) \<and> isOk (runMessage (ok_MessageFunc k) obj k)"
  proof (cases "k \<in> set (fluxKinds A)")
    case True
    show ?thesis
    proof
      assume t: "goType (co_Body obj) = kindType k"
      obtain st where "defaultStatusFunc obj k = Inr st" using flux_default_status [OF True t] .
      then have "isOk (runStatus (ok_StatusFunc k) obj k)" by (simp add: flux_status_func [OF True])
      moreover have "isOk (runMessage (ok_MessageFunc k) obj k)"
        using flux_message [OF True, of obj] t by (simp add: isOk_def split: sum.splits)
      ultimately show "isOk (runStatus (ok_StatusFunc k) obj k) \<and> isOk (runMessage (ok_MessageFunc k) obj k)" ..
    qed
  next
    case False
    then have "k = PolicyAgentAuditEventObjectKind A \<or> k = GitopsTemplateObjectKind A \<or>
        k = CapiTemplateObjectKind A" using assms(2) supported_cases by blast
    then show ?thesis
      by (elim disjE; cases "co_Body obj")
         (simp_all add: plain_kind_defs kindType_def noStatusFunc_def eventStatus_def
            eventMessage_def gitopsTemplateMessage_def capiTemplateMessage_def)
  qed
qed

definition exampleApi :: api_groups where
  "exampleApi = (let g = (\<lambda>n. \<lparr> gv_Group = n, gv_Version = ''v1'' \<rparr>) in \<lparr>
     ag_helmv2beta1 = g ''helm.toolkit.fluxcd.io'', ag_kustomizev1 = g ''kustomize.toolkit.fluxcd.io'',
     ag_sourcev1 = g ''source.toolkit.fluxcd.io'',
     ag_sourcev1beta2 = \<lparr> gv_Group = ''source.toolkit.fluxcd.io'', gv_Version = ''v1beta2'' \<rparr>,
     ag_rbacv1 = g ''rbac.authorization.k8s.io'', ag_corev1 = g [],
     ag_gitopssets = g ''templates.weave.works'', ag_gapiv1 = g ''templates.weave.works'',
     ag_capiv1 = g ''capi.weave.works'', ag_clusterreflector = g ''clusters.weave.works'',
     ag_HelmReleaseKind = ''HelmRelease'', ag_KustomizationKind = ''Kustomization'',
     ag_HelmRepositoryKind = ''HelmRepository'', ag_HelmChartKind = ''HelmChart'',
     ag_GitRepositoryKind = ''GitRepository'', ag_OCIRepositoryKind = ''OCIRepository'',
     ag_BucketKind = ''Bucket'', ag_GapiKind = ''GitOpsTemplate'', ag_CapiKind = ''CAPITemplate'',
     ag_WithKind = (\<lambda>v k. \<lparr> gvk_Group = gv_Group v, gvk_Version = gv_Version v, gvk_Kind = k \<rparr>) \<rparr>)"

lemma api_ok_example: "api_ok exampleApi"
  by (simp add: api_ok_def exampleApi_def Let_def)

lemma supported_kinds_valid_witness:
  "isOk (runStatus (ok_StatusFunc (KustomizationObjectKind exampleApi))
     (newObject (Kustomization [] True)) (KustomizationObjectKind exampleApi))"
  using supported_kinds_valid [OF api_ok_example, of "KustomizationObjectKind exampleApi"
      "newObject (Kustomization [] True)"]
  by (simp add: SupportedObjectKinds_def kindType_def KustomizationObjectKind_def)

text \<open>The status of an object of a Flux-like kind: suspension wins over every condition;
  otherwise the first condition that is Ready, Available or of type "-" decides, the other
  conditions have no influence, and an object without such a condition is Failed.\<close>

theorem flux_status_spec:
  assumes "k \<in> set (fluxKinds A)"
    "ok_GetConditionsFunc k = Some gc" "ok_GetSuspendedFunc k = Some gs"
    "gc obj = Inr conds" "gs obj = Inr susp"
  shows "runStatus (ok_StatusFunc k) obj k =
    Inr (if susp then Suspended else classify (find decisive conds))"
  using assms flux_status_func [OF assms(1)]
  by (simp add: defaultStatusFunc_def statusOfConditions_classify)

lemma flux_status_spec_witness:
  "runStatus (ok_StatusFunc (BucketObjectKind exampleApi))
     (newObject (Bucket [\<lparr> cond_Type = ''Stalled'', cond_Status = ''True'', cond_Reason = [], cond_Message = [] \<rparr>,
        \<lparr> cond_Type = ''Ready'', cond_Status = ''Unknown'', cond_Reason = ''Progressing'', cond_Message = [] \<rparr>] False))
     (BucketObjectKind exampleApi) = Inr Reconciling"
proof -
  let ?cs = "[\<lparr> cond_Type = ''Stalled'', cond_Status = ''True'', cond_Reason = [], cond_Message = [] \<rparr>,
    \<lparr> cond_Type = ''Ready'', cond_Status = ''Unknown'', cond_Reason = ''Progressing'', cond_Message = [] \<rparr>]"
  let ?k = "BucketObjectKind exampleApi"
  have "runStatus (ok_StatusFunc ?k) (newObject (Bucket ?cs False)) ?k =
      Inr (if False then Suspended else classify (find decisive ?cs))"
    by (rule flux_status_spec [where A = exampleApi and gc = "the (ok_GetConditionsFunc ?k)"
          and gs = "the (ok_GetSuspendedFunc ?k)"])
       (simp add: fluxKinds_def, simp_all add: BucketObjectKind_def)
  then show ?thesis by (simp add: decisive_def classify_def status_defs)
qed

end
