(* ===== verification/Models.thy ===== *)
theory Models
  imports ObjectKinds
begin

text \<open>
  pkg/query/internal/models: the rows of the explorer's database (objects, roles
  with their rules, role bindings with their subjects, tenants), their identifiers
  and validation, the normalised objects that the collectors produce, and the
  transactions they send. The embedded gorm.Model is left out: no code here reads
  its fields; ID is the primary key that the store sets before it writes a row.
\<close>

section \<open>Objects\<close>

record object =
  ob_ID :: string
  ob_Cluster :: string
  ob_Namespace :: string
  ob_APIGroup :: string
  ob_APIVersion :: string
  ob_Kind :: string
  ob_Name :: string
  ob_Status :: string
  ob_Message :: string
  ob_Category :: object_category
  ob_KubernetesDeletedAt :: int
  ob_Unstructured :: string
  ob_Tenant :: string
  ob_Labels :: "string \<rightharpoonup> string"

definition Object_Validate :: "object \<Rightarrow> goerror option" where
  "Object_Validate x =
     (if ob_Cluster x = [] then Some (err ''missing cluster field'')
      else if ob_Name x = [] then Some (err ''missing name field'')
      else if ob_Namespace x = [] then Some (err ''missing namespace field'')
      else if ob_APIVersion x = [] then Some (err ''missing api version field'')
      else if ob_Kind x = [] then Some (err ''missing kind field'')
      else if ob_Category x = [] then Some (err ''category is required'')
      else None)"

definition Object_GroupVersionKind :: "object \<Rightarrow> string" where
  "Object_GroupVersionKind x =
     joinStr ''/'' (if ob_APIVersion x = [] then [ob_APIGroup x, ob_Kind x]
                    else [ob_APIGroup x, ob_APIVersion x, ob_Kind x])"

definition Object_GetID :: "object \<Rightarrow> string" where
  "Object_GetID x = ob_Cluster x @ ''/'' @ ob_Namespace x @ ''/'' @ Object_GroupVersionKind x
     @ ''/'' @ ob_Name x"

definition IsExpired :: "int \<Rightarrow> retention_policy \<Rightarrow> object \<Rightarrow> bool" where
  "IsExpired now policy x =
     (let expirationTime = now - policy; ts = ob_KubernetesDeletedAt x in
      if ts = 0 then False else if ts < expirationTime then True else False)"

section \<open>Normalised objects and transactions\<close>

datatype transaction_type = TransactionTypeUpsert | TransactionTypeDelete | TransactionTypeDeleteAll

record normalized_object =
  no_Object :: client_object
  no_config :: object_kind

definition GetStatus :: "normalized_object \<Rightarrow> object_status res" where
  "GetStatus n = runStatus (ok_StatusFunc (no_config n)) (no_Object n) (no_config n)"

definition GetMessage :: "normalized_object \<Rightarrow> string res" where
  "GetMessage n = runMessage (ok_MessageFunc (no_config n)) (no_Object n) (no_config n)"

definition GetRelevantLabels :: "normalized_object \<Rightarrow> string \<rightharpoonup> string" where
  "GetRelevantLabels n =
     foldl (\<lambda>labels labelKey.
       if mget (co_Labels (no_Object n)) labelKey \<noteq> []
       then labels(labelKey \<mapsto> mget (co_Labels (no_Object n)) labelKey) else labels)
     Map.empty (ok_Labels (no_config n))"

definition GetCategory :: "normalized_object \<Rightarrow> object_category res" where
  "GetCategory n =
     (if ok_Category (no_config n) = []
      then Inl (Errf ''category not found for object kind %q'' [gvk_Kind (ok_Gvk (no_config n))])
      else Inr (ok_Category (no_config n)))"

definition Raw :: "normalized_object \<Rightarrow> client_object" where
  "Raw n = no_Object n"

definition NewNormalizedObject :: "client_object \<Rightarrow> object_kind \<Rightarrow> normalized_object" where
  "NewNormalizedObject obj config = \<lparr> no_Object = obj, no_config = config \<rparr>"

record object_transaction =
  tx_ClusterName :: string
  tx_Object :: "normalized_object option"
  tx_TransactionType :: transaction_type
  tx_RetentionPolicy :: retention_policy

section \<open>Roles, role bindings, tenants\<close>

record policy_rule =
  pr_APIGroups :: string
  pr_Resources :: string
  pr_Verbs :: string
  pr_ResourceNames :: string

record role =
  ro_ID :: string
  ro_Cluster :: string
  ro_Namespace :: string
  ro_Kind :: string
  ro_Name :: string
  ro_PolicyRules :: "policy_rule list"

definition Role_GetID :: "role \<Rightarrow> string" where
  "Role_GetID r = ro_Cluster r @ ''/'' @ ro_Namespace r @ ''/'' @ ro_Kind r @ ''/'' @ ro_Name r"

definition Role_IsValidID :: "role \<Rightarrow> bool \<times> goerror option" where
  "Role_IsValidID r =
     (if ro_Cluster r = [] then (False, Some (err ''missing cluster field''))
      else if ro_Name r = [] then (False, Some (err ''missing name field''))
      else if ro_Kind r = ''Role'' \<and> ro_Namespace r = [] then
        (False, Some (err ''missing namespace field''))
      else if ro_Kind r = [] then (False, Some (err ''missing kind field''))
      else (True, None))"

definition Role_Validate :: "role \<Rightarrow> goerror option" where
  "Role_Validate r =
     (if ro_Cluster r = [] then Some (err ''missing cluster field'')
      else if ro_Name r = [] then Some (err ''missing name field'')
      else if ro_Kind r = [] then Some (err ''missing kind field'')
      else if length (ro_PolicyRules r) = 0 then Some (err ''missing policy rules'')
      else None)"

definition JoinRuleData :: "string list \<Rightarrow> string" where
  "JoinRuleData data = joinStr '','' data"

definition SplitRuleData :: "string \<Rightarrow> string list" where
  "SplitRuleData data = (if length data = 0 then [] else splitChar CHR '','' data)"

record subject =
  su_Kind :: string
  su_Name :: string
  su_Namespace :: string
  su_APIGroup :: string

record role_binding =
  rb_ID :: string
  rb_Cluster :: string
  rb_Namespace :: string
  rb_Kind :: string
  rb_Name :: string
  rb_RoleRefName :: string
  rb_RoleRefKind :: string
  rb_Subjects :: "subject list"

definition RoleBinding_GetID :: "role_binding \<Rightarrow> string" where
  "RoleBinding_GetID b =
     rb_Cluster b @ ''/'' @ rb_Namespace b @ ''/'' @ rb_Kind b @ ''/'' @ rb_Name b"

definition RoleBinding_Validate :: "role_binding \<Rightarrow> goerror option" where
  "RoleBinding_Validate b =
     (if rb_Cluster b = [] then Some (err ''missing cluster field'')
      else if rb_Name b = [] then Some (err ''missing name field'')
      else if rb_Kind b = [] then Some (err ''missing kind field'')
      else None)"

record tenant =
  tn_ID :: string
  tn_ClusterName :: string
  tn_Name :: string
  tn_Namespace :: string

definition Tenant_Validate :: "tenant \<Rightarrow> goerror option" where
  "Tenant_Validate t =
     (if tn_ClusterName t = [] then Some (err ''missing cluster name field'')
      else if tn_Name t = [] then Some (err ''missing name field'')
      else if tn_Namespace t = [] then Some (err ''missing namespace field'')
      else None)"

definition Tenant_GetID :: "tenant \<Rightarrow> string" where
  "Tenant_GetID t = tn_ClusterName t @ ''/'' @ tn_Name t"

definition Tenant_GetClusterNamespacePair :: "tenant \<Rightarrow> string" where
  "Tenant_GetClusterNamespacePair t = tn_ClusterName t @ ''/'' @ tn_Namespace t"

section \<open>Access rules\<close>

record access_rule =
  ar_Cluster :: string
  ar_Namespace :: string
  ar_AccessibleKinds :: "string list"
  ar_Subjects :: "subject list"
  ar_ProvidedByRole :: string
  ar_ProvidedByBinding :: string
  ar_AccessibleResourceNames :: "string list"

definition AccessRule_String :: "access_rule \<Rightarrow> string" where
  "AccessRule_String r = ar_Cluster r @ ''/'' @ ar_Namespace r @ ''/'' @ ar_ProvidedByBinding r
     @ ''/'' @ ar_ProvidedByRole r"

fun ContainsWildcard :: "string list \<Rightarrow> bool" where
  "ContainsWildcard [] = False"
| "ContainsWildcard (p # ps) = (if p = ''*'' \<or> strContains p ''*'' then True else ContainsWildcard ps)"

section \<open>Identifiers\<close>

text \<open>What the database and the index rely on: no two live rows share a key.\<close>

type_synonym object_key = "string \<times> string \<times> string \<times> string \<times> string \<times> string"

definition object_key :: "object \<Rightarrow> object_key" where
  "object_key x = (ob_Cluster x, ob_Namespace x, ob_APIGroup x, ob_APIVersion x, ob_Kind x, ob_Name x)"

definition slash_free :: "string \<Rightarrow> bool" where
  "slash_free s \<longleftrightarrow> CHR ''/'' \<notin> set s"

text \<open>
  Kubernetes names, kinds, groups and versions hold no slash; a cluster name does
  (namespace/name of the GitopsCluster).
\<close>

definition kube_names_ok :: "object \<Rightarrow> bool" where
  "kube_names_ok x \<longleftrightarrow> slash_free (ob_Namespace x) \<and> slash_free (ob_APIGroup x) \<and>
     slash_free (ob_APIVersion x) \<and> slash_free (ob_Kind x) \<and> slash_free (ob_Name x)"

lemma slash_right_unique:
  "x @ ''/'' @ a = y @ ''/'' @ b \<Longrightarrow> slash_free a \<Longrightarrow> slash_free b \<Longrightarrow> x = y \<and> a = b"
  unfolding slash_free_def by (rule sep_right_unique [of x "CHR ''/''"]) simp_all

lemma Object_Validate_None_iff:
  "Object_Validate x = None \<longleftrightarrow> ob_Cluster x \<noteq> [] \<and> ob_Name x \<noteq> [] \<and> ob_Namespace x \<noteq> [] \<and>
     ob_APIVersion x \<noteq> [] \<and> ob_Kind x \<noteq> [] \<and> ob_Category x \<noteq> []"
  by (simp add: Object_Validate_def)

lemma Role_Validate_None_iff:
  "Role_Validate r = None \<longleftrightarrow>
     ro_Cluster r \<noteq> [] \<and> ro_Name r \<noteq> [] \<and> ro_Kind r \<noteq> [] \<and> ro_PolicyRules r \<noteq> []"
  by (simp add: Role_Validate_def)

lemma RoleBinding_Validate_None_iff:
  "RoleBinding_Validate b = None \<longleftrightarrow> rb_Cluster b \<noteq> [] \<and> rb_Name b \<noteq> [] \<and> rb_Kind b \<noteq> []"
  by (simp add: RoleBinding_Validate_def)

lemma Tenant_Validate_None_iff:
  "Tenant_Validate t = None \<longleftrightarrow> tn_ClusterName t \<noteq> [] \<and> tn_Name t \<noteq> [] \<and> tn_Namespace t \<noteq> []"
  by (simp add: Tenant_Validate_def)

lemmas validate_iffs = Object_Validate_None_iff Role_Validate_None_iff
  RoleBinding_Validate_None_iff Tenant_Validate_None_iff

lemma IsExpired_iff: "IsExpired now p x \<longleftrightarrow> ob_KubernetesDeletedAt x \<noteq> 0 \<and>
    ob_KubernetesDeletedAt x + p < now"
  by (auto simp: IsExpired_def Let_def)

lemma ContainsWildcard_iff: "ContainsWildcard ps \<longleftrightarrow> (\<exists>p\<in>set ps. CHR ''*'' \<in> set p)"
  by (induction ps) (auto simp: strContains_char)

text \<open>Identifiers are injective on the objects the store accepts: two valid objects with
  the same GetID agree on cluster, namespace, group, version, kind and name, also when cluster
  names contain slashes.\<close>

theorem object_id_injective:
  assumes "Object_Validate x = None" "Object_Validate y = None"
    "kube_names_ok x" "kube_names_ok y" "Object_GetID x = Object_GetID y"
  shows "object_key x = object_key y"
proof -
  have id: "Object_GetID z = ((((ob_Cluster z @ ''/'' @ ob_Namespace z) @ ''/'' @ ob_APIGroup z) @
      ''/'' @ ob_APIVersion z) @ ''/'' @ ob_Kind z) @ ''/'' @ ob_Name z"
    if "Object_Validate z = None" for z
    using that by (simp add: Object_GetID_def Object_GroupVersionKind_def Object_Validate_None_iff)
  note names = assms(3,4) [unfolded kube_names_ok_def]
  note e1 = slash_right_unique [OF assms(5) [unfolded id [OF assms(1)] id [OF assms(2)]]]
  note e2 = slash_right_unique [OF conjunct1 [OF e1]]
  note e3 = slash_right_unique [OF conjunct1 [OF e2]]
  note e4 = slash_right_unique [OF conjunct1 [OF e3]]
  note e5 = slash_right_unique [OF conjunct1 [OF e4]]
  show ?thesis using e1 e2 e3 e4 e5 names by (simp add: object_key_def)
qed

definition mkObject :: "string \<Rightarrow> string \<Rightarrow> string \<Rightarrow> string \<Rightarrow> object" where
  "mkObject cluster ns kind name = \<lparr> ob_ID = [], ob_Cluster = cluster, ob_Namespace = ns,
     ob_APIGroup = ''apps'', ob_APIVersion = ''v1'', ob_Kind = kind, ob_Name = name,
     ob_Status = [], ob_Message = [], ob_Category = ''automation'', ob_KubernetesDeletedAt = 0,
     ob_Unstructured = [], ob_Tenant = [], ob_Labels = Map.empty \<rparr>"

lemma object_id_injective_witness:
  "object_key (mkObject ''default/leaf'' ''ns'' ''Bucket'' ''b'') =
   object_key ((mkObject ''default/leaf'' ''ns'' ''Bucket'' ''b'')\<lparr> ob_Status := ''Failed'' \<rparr>)"
  by (rule object_id_injective)
     (simp_all add: mkObject_def Object_Validate_def kube_names_ok_def slash_free_def
        Object_GetID_def Object_GroupVersionKind_def)

section \<open>Rule data\<close>

definition comma_free :: "string list \<Rightarrow> bool" where
  "comma_free xs \<longleftrightarrow> (\<forall>x\<in>set xs. CHR '','' \<notin> set x)"

text \<open>The lists of a policy rule survive being stored as one comma-separated column, with
  exactly one exception: the list that holds only the empty string, which is the core API group,
  comes back as the empty list.\<close>

theorem rule_data_roundtrip:
  assumes "comma_free xs"
  shows "SplitRuleData (JoinRuleData xs) = (if xs = [[]] then [] else xs)"
proof (cases "xs = [] \<or> xs = [[]]")
  case True
  then show ?thesis by (auto simp: JoinRuleData_def SplitRuleData_def)
next
  case False
  then have "joinStr '','' xs \<noteq> []" by (simp add: joinStr_eq_Nil)
  then show ?thesis
    using False assms splitChar_joinStr [of xs "CHR '',''"]
    by (simp add: JoinRuleData_def SplitRuleData_def comma_free_def)
qed

lemma rule_data_roundtrip_witness:
  "SplitRuleData (JoinRuleData [''get'', ''list'']) = [''get'', ''list''] \<and>
   SplitRuleData (JoinRuleData [[]]) = []"
  using rule_data_roundtrip [of "[''get'', ''list'']"] rule_data_roundtrip [of "[[]]"]
  by (simp add: comma_free_def)

lemma SplitRuleData_comma_free: "comma_free (SplitRuleData d)"
  by (auto simp: SplitRuleData_def comma_free_def dest: splitChar_sep_free)

lemma Join_SplitRuleData: "JoinRuleData (SplitRuleData d) = d"
  by (simp add: JoinRuleData_def SplitRuleData_def joinStr_splitChar)

end
