(* ===== verification/Adapters.thy ===== *)
theory Adapters
  imports Models
begin

text \<open>
  pkg/query/internal/adapters/adapters.go, which turns Kubernetes roles and
  bindings into rows of the database, and the functions at the end of
  pkg/query/rbac/rbac.go that turn the rows back into Kubernetes objects. A type
  assertion without the two-value form panics when it fails.
\<close>

section \<open>Roles\<close>

datatype role_like =
    CRoleAdapter k8s_role string
  | RoleAdapter k8s_role string

definition as_role :: "client_object \<Rightarrow> k8s_rule list \<Rightarrow> k8s_role" where
  "as_role obj rules = \<lparr> kro_Kind = gvk_Kind (co_Gvk obj), kro_Namespace = co_Namespace obj,
     kro_Name = co_Name obj, kro_Rules = rules \<rparr>"

fun GetRules :: "role_like \<Rightarrow> k8s_rule list" where
  "GetRules (CRoleAdapter r _) = kro_Rules r"
| "GetRules (RoleAdapter r _) = kro_Rules r"

fun RoleLike_GetClusterName :: "role_like \<Rightarrow> string" where
  "RoleLike_GetClusterName (CRoleAdapter _ c) = c"
| "RoleLike_GetClusterName (RoleAdapter _ c) = c"

definition joinRule :: "k8s_rule \<Rightarrow> policy_rule" where
  "joinRule r = \<lparr>
     pr_APIGroups = JoinRuleData (kr_APIGroups r),
     pr_Resources = JoinRuleData (kr_Resources r),
     pr_Verbs = JoinRuleData (kr_Verbs r),
     pr_ResourceNames = JoinRuleData (kr_ResourceNames r) \<rparr>"

definition cRoleAdapter_ToModel :: "k8s_role \<Rightarrow> string \<Rightarrow> role" where
  "cRoleAdapter_ToModel r cluster = \<lparr> ro_ID = [], ro_Cluster = cluster,
     ro_Namespace = kro_Namespace r, ro_Kind = kro_Kind r, ro_Name = kro_Name r,
     ro_PolicyRules = map joinRule (kro_Rules r) \<rparr>"

definition roleAdapter_ToModel :: "k8s_role \<Rightarrow> string \<Rightarrow> role" where
  "roleAdapter_ToModel r cluster = \<lparr> ro_ID = [], ro_Cluster = cluster,
     ro_Namespace = kro_Namespace r, ro_Kind = kro_Kind r, ro_Name = kro_Name r,
     ro_PolicyRules = map joinRule (kro_Rules r) \<rparr>"

fun RoleLike_ToModel :: "role_like \<Rightarrow> role" where
  "RoleLike_ToModel (CRoleAdapter r c) = cRoleAdapter_ToModel r c"
| "RoleLike_ToModel (RoleAdapter r c) = roleAdapter_ToModel r c"

definition cRoleAdapter_GetSubjects :: "k8s_role \<Rightarrow> k8s_subject list" where
  "cRoleAdapter_GetSubjects r =
     [\<lparr> ks_Kind = ''ClusterRole'', ks_Name = kro_Name r, ks_Namespace = [], ks_APIGroup = [] \<rparr>]"

definition roleAdapter_GetSubjects :: "k8s_role \<Rightarrow> k8s_subject list" where
  "roleAdapter_GetSubjects r =
     [\<lparr> ks_Kind = ''Role'', ks_Name = kro_Name r, ks_Namespace = kro_Namespace r, ks_APIGroup = [] \<rparr>]"

definition NewRoleAdapter :: "string \<Rightarrow> string \<Rightarrow> client_object \<Rightarrow> role_like res" where
  "NewRoleAdapter clusterName kind obj =
     (if kind = ''ClusterRole'' then
        (case co_Body obj of
           K8sClusterRole rules \<Rightarrow> Inr (CRoleAdapter (as_role obj rules) clusterName)
         | _ \<Rightarrow> Inl (Panic ''interface conversion''))
      else if kind = ''Role'' then
        (case co_Body obj of
           K8sRole rules \<Rightarrow> Inr (RoleAdapter (as_role obj rules) clusterName)
         | _ \<Rightarrow> Inl (Panic ''interface conversion''))
      else Inl (Errf ''unknown object type %T'' [goType (co_Body obj)]))"

section \<open>Bindings\<close>

datatype binding_like =
    CRoleBindingAdapter k8s_binding string
  | RoleBindingAdapter k8s_binding string

definition as_binding :: "client_object \<Rightarrow> k8s_subject list \<Rightarrow> k8s_role_ref \<Rightarrow> k8s_binding" where
  "as_binding obj subjects ref = \<lparr> kb_Kind = gvk_Kind (co_Gvk obj), kb_Namespace = co_Namespace obj,
     kb_Name = co_Name obj, kb_RoleRef = ref, kb_Subjects = subjects \<rparr>"

fun BindingLike_GetSubjects :: "binding_like \<Rightarrow> k8s_subject list" where
  "BindingLike_GetSubjects (CRoleBindingAdapter b _) = kb_Subjects b"
| "BindingLike_GetSubjects (RoleBindingAdapter b _) = kb_Subjects b"

fun BindingLike_GetRoleRef :: "binding_like \<Rightarrow> k8s_role_ref" where
  "BindingLike_GetRoleRef (CRoleBindingAdapter b _) = kb_RoleRef b"
| "BindingLike_GetRoleRef (RoleBindingAdapter b _) = kb_RoleRef b"

definition subjectToModel :: "k8s_subject \<Rightarrow> subject" where
  "subjectToModel s = \<lparr> su_Kind = ks_Kind s, su_Name = ks_Name s, su_Namespace = ks_Namespace s,
     su_APIGroup = ks_APIGroup s \<rparr>"

definition cRoleBindingAdapter_ToModel :: "k8s_binding \<Rightarrow> string \<Rightarrow> role_binding" where
  "cRoleBindingAdapter_ToModel b cluster = \<lparr> rb_ID = [], rb_Cluster = cluster,
     rb_Namespace = kb_Namespace b, rb_Kind = kb_Kind b, rb_Name = kb_Name b,
     rb_RoleRefName = rr_Name (kb_RoleRef b), rb_RoleRefKind = rr_Kind (kb_RoleRef b),
     rb_Subjects = map subjectToModel (kb_Subjects b) \<rparr>"

definition roleBindingAdapter_ToModel :: "k8s_binding \<Rightarrow> string \<Rightarrow> role_binding" where
  "roleBindingAdapter_ToModel b cluster = \<lparr> rb_ID = [], rb_Cluster = cluster,
     rb_Namespace = kb_Namespace b, rb_Kind = kb_Kind b, rb_Name = kb_Name b,
     rb_RoleRefName = rr_Name (kb_RoleRef b), rb_RoleRefKind = rr_Kind (kb_RoleRef b),
     rb_Subjects = map subjectToModel (kb_Subjects b) \<rparr>"

fun BindingLike_ToModel :: "binding_like \<Rightarrow> role_binding" where
  "BindingLike_ToModel (CRoleBindingAdapter b c) = cRoleBindingAdapter_ToModel b c"
| "BindingLike_ToModel (RoleBindingAdapter b c) = roleBindingAdapter_ToModel b c"

definition NewBindingAdapter :: "string \<Rightarrow> client_object \<Rightarrow> binding_like res" where
  "NewBindingAdapter clusterName obj =
     (case co_Body obj of
        K8sClusterRoleBinding subjects ref \<Rightarrow>
          Inr (CRoleBindingAdapter (as_binding obj subjects ref) clusterName)
      | K8sRoleBinding subjects ref \<Rightarrow>
          Inr (RoleBindingAdapter (as_binding obj subjects ref) clusterName)
      | b \<Rightarrow> Inl (Errf ''unknown object type %T'' [goType b]))"

section \<open>Back to Kubernetes objects\<close>

definition makePolicyRules :: "policy_rule list \<Rightarrow> k8s_rule list" where
  "makePolicyRules rules = map (\<lambda>r. \<lparr>
     kr_APIGroups = SplitRuleData (pr_APIGroups r),
     kr_Resources = SplitRuleData (pr_Resources r),
     kr_Verbs = SplitRuleData (pr_Verbs r),
     kr_ResourceNames = SplitRuleData (pr_ResourceNames r),
     kr_NonResourceURLs = [] \<rparr>) rules"

definition makeClusterRole :: "role \<Rightarrow> k8s_role" where
  "makeClusterRole r = \<lparr> kro_Kind = [], kro_Namespace = [], kro_Name = ro_Name r,
     kro_Rules = makePolicyRules (ro_PolicyRules r) \<rparr>"

definition makeRole :: "role \<Rightarrow> k8s_role" where
  "makeRole r = \<lparr> kro_Kind = [], kro_Namespace = ro_Namespace r, kro_Name = ro_Name r,
     kro_Rules = makePolicyRules (ro_PolicyRules r) \<rparr>"

definition makeSubjects :: "subject list \<Rightarrow> k8s_subject list" where
  "makeSubjects subjects = map (\<lambda>s. \<lparr> ks_Kind = su_Kind s, ks_Name = su_Name s,
     ks_Namespace = su_Namespace s, ks_APIGroup = su_APIGroup s \<rparr>) subjects"

definition makeClusterRoleBinding :: "role_binding \<Rightarrow> k8s_binding" where
  "makeClusterRoleBinding b = \<lparr> kb_Kind = [], kb_Namespace = [], kb_Name = rb_Name b,
     kb_RoleRef = \<lparr> rr_APIGroup = [], rr_Kind = rb_RoleRefKind b, rr_Name = rb_RoleRefName b \<rparr>,
     kb_Subjects = makeSubjects (rb_Subjects b) \<rparr>"

definition makeRoleBinding :: "role_binding \<Rightarrow> k8s_binding" where
  "makeRoleBinding b = \<lparr> kb_Kind = [], kb_Namespace = rb_Namespace b, kb_Name = rb_Name b,
     kb_RoleRef = \<lparr> rr_APIGroup = [], rr_Kind = rb_RoleRefKind b, rr_Name = rb_RoleRefName b \<rparr>,
     kb_Subjects = makeSubjects (rb_Subjects b) \<rparr>"

section \<open>Round trips\<close>

text \<open>What the columns of a rule cannot carry: the list of the core group, and URLs.\<close>

definition storedList :: "string list \<Rightarrow> string list" where
  "storedList xs = (if xs = [[]] then [] else xs)"

definition storedRule :: "k8s_rule \<Rightarrow> k8s_rule" where
  "storedRule r = \<lparr> kr_APIGroups = storedList (kr_APIGroups r),
     kr_Resources = storedList (kr_Resources r), kr_Verbs = storedList (kr_Verbs r),
     kr_ResourceNames = storedList (kr_ResourceNames r), kr_NonResourceURLs = [] \<rparr>"

definition rule_comma_free :: "k8s_rule \<Rightarrow> bool" where
  "rule_comma_free r \<longleftrightarrow> comma_free (kr_APIGroups r) \<and> comma_free (kr_Resources r) \<and>
     comma_free (kr_Verbs r) \<and> comma_free (kr_ResourceNames r)"

lemma split_join_stored: "comma_free xs \<Longrightarrow> SplitRuleData (JoinRuleData xs) = storedList xs"
  using splitChar_joinStr [of xs "CHR '',''"]
  by (auto simp: JoinRuleData_def SplitRuleData_def comma_free_def storedList_def joinStr_eq_Nil)

lemma makePolicyRules_joinRule:
  "\<forall>r\<in>set rs. rule_comma_free r \<Longrightarrow> makePolicyRules (map joinRule rs) = map storedRule rs"
  by (simp add: makePolicyRules_def joinRule_def storedRule_def rule_comma_free_def split_join_stored)

lemma makeSubjects_subjectToModel: "makeSubjects (map subjectToModel ss) = ss"
  by (induction ss) (simp_all add: makeSubjects_def subjectToModel_def)

text \<open>C29: When no entry of a rule holds a comma, a Role and a RoleBinding that are stored and read
  back keep their namespace, name, rules and subjects and the kind and name of the role reference.
  Lost are their own kind, the API group of the role reference and the URLs of a rule, and a list
  that holds only the empty string becomes the empty list.\<close>

theorem rbac_roundtrip:
  assumes "\<forall>r\<in>set (kro_Rules role). rule_comma_free r"
  shows "makeRole (roleAdapter_ToModel role cluster) =
           role\<lparr> kro_Kind := [], kro_Rules := map storedRule (kro_Rules role) \<rparr> \<and>
         makeRoleBinding (roleBindingAdapter_ToModel binding cluster) =
           binding\<lparr> kb_Kind := [], kb_RoleRef := (kb_RoleRef binding)\<lparr> rr_APIGroup := [] \<rparr> \<rparr>"
  using assms
  by (simp add: makeRole_def roleAdapter_ToModel_def makePolicyRules_joinRule
      makeRoleBinding_def roleBindingAdapter_ToModel_def makeSubjects_subjectToModel)

definition exampleRole :: k8s_role where
  "exampleRole = \<lparr> kro_Kind = ''Role'', kro_Namespace = ''ns'', kro_Name = ''reader'', kro_Rules =
     [\<lparr> kr_APIGroups = [''apps''], kr_Resources = [''a'', ''b''], kr_Verbs = [''get'', ''list''],
        kr_ResourceNames = [], kr_NonResourceURLs = [''/healthz''] \<rparr>] \<rparr>"

lemma rbac_roundtrip_witness:
  "kro_Rules (makeRole (roleAdapter_ToModel exampleRole ''c'')) =
     [(hd (kro_Rules exampleRole))\<lparr> kr_NonResourceURLs := [] \<rparr>]"
  using rbac_roundtrip [of exampleRole]
  by (simp add: exampleRole_def rule_comma_free_def comma_free_def storedRule_def storedList_def)

end
