(* ===== verification/Rbac.thy ===== *)
theory Rbac
  imports Adapters
begin

text \<open>
  pkg/query/rbac/rbac.go: the authorizer of the explorer. clusterRBACGetLister
  answers the four questions the Kubernetes rule resolver asks (a role, a cluster
  role, the bindings of a namespace, the cluster role bindings) and memoises as it
  goes, so its answers come with a new state. The resolver is code of Kubernetes: it
  is a parameter, given as the tree of its questions and of what it does with each
  answer (lister_prog), which can be run against the memoising lister or against
  the plain tables. The package's operation counters are fields of the state.
\<close>

section \<open>The lister and its state\<close>

record lister =
  li_cluster :: string
  li_roles :: "role list"
  li_rolebindings :: "role_binding list"
  li_next :: nat
  li_rolemap :: "string \<rightharpoonup> int"
  li_clusterrolebinding :: "k8s_binding list"
  li_rolebindingmap :: "string \<rightharpoonup> k8s_binding list"
  li_roleops :: nat
  li_bindingops :: nat

definition notfound :: goerror where "notfound = err ''not found''"

definition roleKey :: "role \<Rightarrow> string" where
  "roleKey r = (if ro_Kind r = ''Role'' then ro_Namespace r @ ''/'' @ ro_Name r else ro_Name r)"

definition fileRole :: "nat \<Rightarrow> lister \<Rightarrow> lister" where
  "fileRole i c = c\<lparr> li_rolemap := (li_rolemap c)(roleKey (li_roles c ! i) \<mapsto> int i),
                     li_next := i + 1 \<rparr>"

definition sortRoleBinding :: "lister \<Rightarrow> role_binding \<Rightarrow> lister" where
  "sortRoleBinding c b =
     (let c = c\<lparr> li_bindingops := li_bindingops c + 1 \<rparr> in
      if rb_Cluster b = li_cluster c then
        if rb_Kind b = ''RoleBinding'' then
          let ns = rb_Namespace b;
              nsbindings = (case li_rolebindingmap c ns of None \<Rightarrow> [] | Some bs \<Rightarrow> bs)
          in c\<lparr> li_rolebindingmap := (li_rolebindingmap c)(ns \<mapsto> nsbindings @ [makeRoleBinding b]) \<rparr>
        else c\<lparr> li_clusterrolebinding := li_clusterrolebinding c @ [makeClusterRoleBinding b] \<rparr>
      else c)"

definition sortRoleBindings :: "lister \<Rightarrow> lister" where
  "sortRoleBindings c = foldl sortRoleBinding c (li_rolebindings c)"

definition lister_init :: "lister \<Rightarrow> lister" where
  "lister_init c = sortRoleBindings (c\<lparr> li_rolebindingmap := Map.empty, li_rolemap := Map.empty \<rparr>)"

text \<open>The loop from index i that GetClusterRole and GetRole share; hit is the test of the loop.\<close>

function scanRoles :: "(role \<Rightarrow> bool) \<Rightarrow> nat \<Rightarrow> lister \<Rightarrow> nat option \<times> lister" where
  "scanRoles hit i c =
     (if i < length (li_roles c) then
        let c = c\<lparr> li_roleops := li_roleops c + 1 \<rparr> in
        if ro_Cluster (li_roles c ! i) = li_cluster c then
          let c = fileRole i c in
          if hit (li_roles c ! i) then (Some i, c) else scanRoles hit (i + 1) c
        else scanRoles hit (i + 1) c
      else (None, c))"
  by pat_completeness auto
termination
  by (relation "measure (\<lambda>(hit, i, c). length (li_roles c) - i)") (auto simp: Let_def fileRole_def)

declare scanRoles.simps [simp del]

definition GetClusterRole :: "string \<Rightarrow> lister \<Rightarrow> k8s_role res \<times> lister" where
  "GetClusterRole name c =
     (case li_rolemap c name of
        Some ind \<Rightarrow>
          if ind = -1 then (Inl notfound, c) else (Inr (makeClusterRole (li_roles c ! nat ind)), c)
      | None \<Rightarrow>
          (case scanRoles (\<lambda>r. ro_Kind r = ''ClusterRole'' \<and> ro_Name r = name) (li_next c) c of
             (Some i, c') \<Rightarrow> (Inr (makeClusterRole (li_roles c' ! i)), c')
           | (None, c') \<Rightarrow>
               (Inl notfound, c'\<lparr> li_next := length (li_roles c'),
                                 li_rolemap := (li_rolemap c')(name \<mapsto> -1) \<rparr>)))"

definition GetRole :: "string \<Rightarrow> string \<Rightarrow> lister \<Rightarrow> k8s_role res \<times> lister" where
  "GetRole namespace name c =
     (let combo = namespace @ ''/'' @ name in
      case li_rolemap c combo of
        Some ind \<Rightarrow>
          if ind = -1 then (Inl notfound, c) else (Inr (makeRole (li_roles c ! nat ind)), c)
      | None \<Rightarrow>
          (case scanRoles (\<lambda>r. ro_Kind r = ''Role'' \<and> ro_Namespace r = namespace \<and> ro_Name r = name)
                  (li_next c) c of
             (Some i, c') \<Rightarrow> (Inr (makeRole (li_roles c' ! i)), c')
           | (None, c') \<Rightarrow>
               (Inl notfound, c'\<lparr> li_next := length (li_roles c'),
                                 li_rolemap := (li_rolemap c')(combo \<mapsto> -1) \<rparr>)))"

definition ListClusterRoleBindings :: "lister \<Rightarrow> k8s_binding list res" where
  "ListClusterRoleBindings c = Inr (li_clusterrolebinding c)"

definition ListRoleBindings :: "string \<Rightarrow> lister \<Rightarrow> k8s_binding list res" where
  "ListRoleBindings namespace c =
     Inr (case li_rolebindingmap c namespace of None \<Rightarrow> [] | Some bs \<Rightarrow> bs)"

section \<open>The resolver's questions\<close>

datatype 'r lister_prog =
    Return 'r
  | AskRole string string "k8s_role res \<Rightarrow> 'r lister_prog"
  | AskClusterRole string "k8s_role res \<Rightarrow> 'r lister_prog"
  | AskRoleBindings string "k8s_binding list res \<Rightarrow> 'r lister_prog"
  | AskClusterRoleBindings "k8s_binding list res \<Rightarrow> 'r lister_prog"

primrec runLister :: "'r lister_prog \<Rightarrow> lister \<Rightarrow> 'r \<times> lister" where
  "runLister (Return r) c = (r, c)"
| "runLister (AskRole ns n k) c = (case GetRole ns n c of (a, c') \<Rightarrow> runLister (k a) c')"
| "runLister (AskClusterRole n k) c = (case GetClusterRole n c of (a, c') \<Rightarrow> runLister (k a) c')"
| "runLister (AskRoleBindings ns k) c = runLister (k (ListRoleBindings ns c)) c"
| "runLister (AskClusterRoleBindings k) c = runLister (k (ListClusterRoleBindings c)) c"

section \<open>Requests and the authorizer\<close>

record principal =
  up_ID :: string
  up_Groups :: "string list"

record user_info =
  ui_Name :: string
  ui_UID :: string
  ui_Groups :: "string list"
  ui_Extra :: "string \<rightharpoonup> string list"

definition principalAsInfo :: "principal \<Rightarrow> user_info" where
  "principalAsInfo p = \<lparr> ui_Name = up_ID p, ui_UID = up_ID p, ui_Groups = up_Groups p,
     ui_Extra = Map.empty \<rparr>"

text \<open>authorizer.Attributes, the request as Kubernetes sees it.\<close>

record attributes =
  at_User :: user_info
  at_Verb :: string
  at_IsReadOnly :: bool
  at_Namespace :: string
  at_Resource :: string
  at_Subresource :: string
  at_Name :: string
  at_APIGroup :: string
  at_APIVersion :: string
  at_IsResourceRequest :: bool
  at_Path :: string

definition GetResource :: "(string \<rightharpoonup> string) \<Rightarrow> object \<Rightarrow> string" where
  "GetResource kindToResource x =
     (case kindToResource (ob_Kind x) of Some resource \<Rightarrow> resource | None \<Rightarrow> [])"

definition objectAsAttributes :: "principal \<Rightarrow> (string \<rightharpoonup> string) \<Rightarrow> object \<Rightarrow> attributes" where
  "objectAsAttributes p kindToResource x = \<lparr>
     at_User = principalAsInfo p, at_Verb = ''list'', at_IsReadOnly = True,
     at_Namespace = ob_Namespace x, at_Resource = GetResource kindToResource x,
     at_Subresource = [], at_Name = ob_Name x, at_APIGroup = ob_APIGroup x,
     at_APIVersion = ob_APIVersion x, at_IsResourceRequest = True, at_Path = [] \<rparr>"

text \<open>The functions of Kubernetes' rbac helpers that DebugRuleAllows calls.\<close>

record rbac_helpers =
  VerbMatches :: "k8s_rule \<Rightarrow> string \<Rightarrow> bool"
  APIGroupMatches :: "k8s_rule \<Rightarrow> string \<Rightarrow> bool"
  ResourceMatches :: "k8s_rule \<Rightarrow> string \<Rightarrow> string \<Rightarrow> bool"
  ResourceNameMatches :: "k8s_rule \<Rightarrow> string \<Rightarrow> bool"
  NonResourceURLMatches :: "k8s_rule \<Rightarrow> string \<Rightarrow> bool"

definition DebugRuleAllows :: "rbac_helpers \<Rightarrow> attributes \<Rightarrow> k8s_rule \<Rightarrow> bool" where
  "DebugRuleAllows H req rule =
     (if at_IsResourceRequest req then
        let combinedResource =
          (if length (at_Subresource req) > 0 then at_Resource req @ ''/'' @ at_Subresource req
           else at_Resource req) in
        if \<not> VerbMatches H rule (at_Verb req) then False
        else if \<not> APIGroupMatches H rule (at_APIGroup req) then False
        else if \<not> ResourceMatches H rule combinedResource (at_Subresource req) then False
        else if \<not> ResourceNameMatches H rule (at_Name req) then False
        else True
      else VerbMatches H rule (at_Verb req) \<and> NonResourceURLMatches H rule (at_Path req))"

type_synonym resolver = "user_info \<Rightarrow> string \<Rightarrow> (k8s_rule list \<times> goerror option) lister_prog"
type_synonym rule_test = "attributes \<Rightarrow> k8s_rule \<Rightarrow> bool"

text \<open>NewAuthorizer keeps kindToResource; ObjectAuthorizer makes the lister, and
  the predicate it returns is authorizeObject, called on the lister's current state.\<close>

definition newLister :: "string \<Rightarrow> role list \<Rightarrow> role_binding list \<Rightarrow> lister" where
  "newLister cluster roles rolebindings = lister_init \<lparr> li_cluster = cluster, li_roles = roles,
     li_rolebindings = rolebindings, li_next = 0, li_rolemap = Map.empty,
     li_clusterrolebinding = [], li_rolebindingmap = Map.empty, li_roleops = 0, li_bindingops = 0 \<rparr>"

fun anyRuleAllows :: "rule_test \<Rightarrow> attributes \<Rightarrow> k8s_rule list \<Rightarrow> bool" where
  "anyRuleAllows ruleAllows request [] = False"
| "anyRuleAllows ruleAllows request (r # rs) =
     (if ruleAllows request r then True else anyRuleAllows ruleAllows request rs)"

definition authorizeObject ::
  "resolver \<Rightarrow> rule_test \<Rightarrow> (string \<rightharpoonup> string) \<Rightarrow> principal \<Rightarrow> object \<Rightarrow> lister \<Rightarrow>
     (bool \<times> goerror option) \<times> lister" where
  "authorizeObject rulesFor ruleAllows kindToResource p x c =
     (let request = objectAsAttributes p kindToResource x in
      case runLister (rulesFor (at_User request) (ob_Namespace x)) c of
        ((rules, e), c') \<Rightarrow> ((anyRuleAllows ruleAllows request rules, e), c'))"

section \<open>What the lister promises\<close>

text \<open>The specification: the questions answered by a search of the plain tables.\<close>

definition lookupClusterRole :: "string \<Rightarrow> role list \<Rightarrow> string \<Rightarrow> k8s_role res" where
  "lookupClusterRole cluster roles name =
     (case find (\<lambda>r. ro_Cluster r = cluster \<and> ro_Kind r = ''ClusterRole'' \<and> ro_Name r = name) roles of
        Some r \<Rightarrow> Inr (makeClusterRole r) | None \<Rightarrow> Inl notfound)"

definition lookupRole :: "string \<Rightarrow> role list \<Rightarrow> string \<Rightarrow> string \<Rightarrow> k8s_role res" where
  "lookupRole cluster roles ns name =
     (case find (\<lambda>r. ro_Cluster r = cluster \<and> ro_Kind r = ''Role'' \<and> ro_Namespace r = ns \<and>
             ro_Name r = name) roles of
        Some r \<Rightarrow> Inr (makeRole r) | None \<Rightarrow> Inl notfound)"

definition bindingsIn :: "string \<Rightarrow> role_binding list \<Rightarrow> string \<Rightarrow> k8s_binding list" where
  "bindingsIn cluster bs ns = map makeRoleBinding
     (filter (\<lambda>b. rb_Cluster b = cluster \<and> rb_Kind b = ''RoleBinding'' \<and> rb_Namespace b = ns) bs)"

definition clusterBindings :: "string \<Rightarrow> role_binding list \<Rightarrow> k8s_binding list" where
  "clusterBindings cluster bs = map makeClusterRoleBinding
     (filter (\<lambda>b. rb_Cluster b = cluster \<and> rb_Kind b \<noteq> ''RoleBinding'') bs)"

primrec runTables :: "'r lister_prog \<Rightarrow> string \<Rightarrow> role list \<Rightarrow> role_binding list \<Rightarrow> 'r" where
  "runTables (Return r) cl rs bs = r"
| "runTables (AskRole ns n k) cl rs bs = runTables (k (lookupRole cl rs ns n)) cl rs bs"
| "runTables (AskClusterRole n k) cl rs bs = runTables (k (lookupClusterRole cl rs n)) cl rs bs"
| "runTables (AskRoleBindings ns k) cl rs bs = runTables (k (Inr (bindingsIn cl bs ns))) cl rs bs"
| "runTables (AskClusterRoleBindings k) cl rs bs = runTables (k (Inr (clusterBindings cl bs))) cl rs bs"

text \<open>
  What the code relies on: the names asked for on a run hold no slash (a
  Kubernetes name never does), the roles of a cluster are of the two kinds, and
  no two of them have the same kind, namespace and name (the database's key).
\<close>

primrec asksOk :: "'r lister_prog \<Rightarrow> string \<Rightarrow> role list \<Rightarrow> role_binding list \<Rightarrow> bool" where
  "asksOk (Return r) cl rs bs = True"
| "asksOk (AskRole ns n k) cl rs bs \<longleftrightarrow>
     slash_free ns \<and> slash_free n \<and> asksOk (k (lookupRole cl rs ns n)) cl rs bs"
| "asksOk (AskClusterRole n k) cl rs bs \<longleftrightarrow>
     slash_free n \<and> asksOk (k (lookupClusterRole cl rs n)) cl rs bs"
| "asksOk (AskRoleBindings ns k) cl rs bs = asksOk (k (Inr (bindingsIn cl bs ns))) cl rs bs"
| "asksOk (AskClusterRoleBindings k) cl rs bs = asksOk (k (Inr (clusterBindings cl bs))) cl rs bs"

definition inCluster :: "string \<Rightarrow> role list \<Rightarrow> role list" where
  "inCluster cluster roles = filter (\<lambda>r. ro_Cluster r = cluster) roles"

definition roles_ok :: "string \<Rightarrow> role list \<Rightarrow> bool" where
  "roles_ok cluster roles \<longleftrightarrow>
     (\<forall>r\<in>set (inCluster cluster roles). ro_Kind r \<in> {''Role'', ''ClusterRole''} \<and>
        slash_free (ro_Namespace r) \<and> slash_free (ro_Name r)) \<and>
     distinct (map roleKey (inCluster cluster roles))"

lemma distinct_map_filter_nth:
  "\<lbrakk>distinct (map f (filter P xs)); i < length xs; j < length xs; P (xs ! i); P (xs ! j);
    f (xs ! i) = f (xs ! j)\<rbrakk> \<Longrightarrow> i = j"
proof (induction xs arbitrary: i j)
  case (Cons x xs)
  have mem: "f (xs ! m) \<in> f ` set (filter P xs)" if "m < length xs" "P (xs ! m)" for m
    using that by simp
  have fresh: "f x \<noteq> f (xs ! m)" if "m < length xs" "P (xs ! m)" "P x" for m
    using mem [OF that(1,2)] Cons.prems(1) that(3) by auto
  show ?case
  proof (cases i)
    case 0
    show ?thesis
    proof (cases j)
      case (Suc j')
      then show ?thesis using fresh [of j'] Cons.prems(3-6) 0 by simp
    qed (simp add: 0)
  next
    case (Suc i')
    note i = Suc
    show ?thesis
    proof (cases j)
      case 0
      then show ?thesis using fresh [of i'] Cons.prems(2,4-6) i by simp
    next
      case (Suc j')
      have "distinct (map f (filter P xs))" using Cons.prems(1) by (simp split: if_splits)
      then show ?thesis using Cons.IH [of i' j'] Cons.prems i Suc by simp
    qed
  qed
qed simp

lemma find_at:
  assumes "i < length xs" "P (xs ! i)" "\<And>j. \<lbrakk>j < length xs; P (xs ! j)\<rbrakk> \<Longrightarrow> j = i"
  shows "find P xs = Some (xs ! i)"
  unfolding find_Some_iff using assms by (metis less_trans nat_neq_iff)

lemma roleKey_clusterRole:
  "\<lbrakk>roles_ok cl roles; r \<in> set roles; ro_Cluster r = cl; slash_free n\<rbrakk> \<Longrightarrow>
    (ro_Kind r = ''ClusterRole'' \<and> ro_Name r = n) \<longleftrightarrow> roleKey r = n"
  by (auto simp: roles_ok_def inCluster_def roleKey_def slash_free_def)

lemma roleKey_role:
  assumes "roles_ok cl roles" "r \<in> set roles" "ro_Cluster r = cl" "slash_free ns" "slash_free n"
  shows "(ro_Kind r = ''Role'' \<and> ro_Namespace r = ns \<and> ro_Name r = n) \<longleftrightarrow> roleKey r = ns @ ''/'' @ n"
proof
  assume k: "roleKey r = ns @ ''/'' @ n"
  have r: "slash_free (ro_Name r)" using assms(1,2,3) by (auto simp: roles_ok_def inCluster_def)
  then have "ro_Kind r = ''Role''" using k by (auto simp: roleKey_def slash_free_def split: if_splits)
  then show "ro_Kind r = ''Role'' \<and> ro_Namespace r = ns \<and> ro_Name r = n"
    using k r assms(5) slash_right_unique [of "ro_Namespace r" "ro_Name r" ns n]
    by (simp add: roleKey_def)
qed (simp add: roleKey_def)

section \<open>The invariant\<close>

definition tables :: "lister \<Rightarrow> string \<times> role list \<times> role_binding list" where
  "tables c = (li_cluster c, li_roles c, li_rolebindings c)"

definition filed_ok :: "lister \<Rightarrow> bool" where
  "filed_ok c \<longleftrightarrow>
     (\<forall>i < li_next c. ro_Cluster (li_roles c ! i) = li_cluster c \<longrightarrow>
        li_rolemap c (roleKey (li_roles c ! i)) = Some (int i)) \<and>
     (\<forall>k ind. li_rolemap c k = Some ind \<longrightarrow>
        (ind = -1 \<and> li_next c = length (li_roles c) \<and>
           (\<forall>r\<in>set (li_roles c). ro_Cluster r = li_cluster c \<longrightarrow> roleKey r \<noteq> k)) \<or>
        (\<exists>i < li_next c. ind = int i \<and> ro_Cluster (li_roles c ! i) = li_cluster c \<and>
           roleKey (li_roles c ! i) = k))"

definition lister_inv :: "lister \<Rightarrow> bool" where
  "lister_inv c \<longleftrightarrow> roles_ok (li_cluster c) (li_roles c) \<and> li_next c \<le> length (li_roles c) \<and>
     filed_ok c \<and> li_roleops c = li_next c \<and>
     li_clusterrolebinding c = clusterBindings (li_cluster c) (li_rolebindings c) \<and>
     (\<forall>ns. ListRoleBindings ns c = Inr (bindingsIn (li_cluster c) (li_rolebindings c) ns))"

lemma filed_ok_skip:
  assumes "filed_ok (c\<lparr> li_next := i \<rparr>)" "i < length (li_roles c)"
    "ro_Cluster (li_roles c ! i) \<noteq> li_cluster c"
  shows "filed_ok (c\<lparr> li_roleops := n, li_next := i + 1 \<rparr>)"
  using assms unfolding filed_ok_def by (auto simp: less_Suc_eq) 

lemma filed_ok_file:
  assumes "roles_ok (li_cluster c) (li_roles c)" "filed_ok (c\<lparr> li_next := i \<rparr>)"
    "i < length (li_roles c)" "ro_Cluster (li_roles c ! i) = li_cluster c"
  shows "filed_ok (fileRole i c)"
proof -
  have uniq: "j = i" if "j < length (li_roles c)" "ro_Cluster (li_roles c ! j) = li_cluster c"
    "roleKey (li_roles c ! j) = roleKey (li_roles c ! i)" for j
    using assms(1,3,4) that
      distinct_map_filter_nth [of roleKey "\<lambda>r. ro_Cluster r = li_cluster c" "li_roles c" j i]
    by (simp add: roles_ok_def inCluster_def)
  have filed: "li_rolemap (fileRole i c) (roleKey (li_roles c ! j)) = Some (int j)"
    if "j < i + 1" "ro_Cluster (li_roles c ! j) = li_cluster c" for j
  proof (cases "j = i")
    case False
    then have "li_rolemap c (roleKey (li_roles c ! j)) = Some (int j)"
      using assms(2) that by (simp add: filed_ok_def)
    moreover have "roleKey (li_roles c ! j) \<noteq> roleKey (li_roles c ! i)"
    proof -
      have "j < length (li_roles c)" using that(1) assms(3) False by simp
      then show ?thesis using uniq that(2) False by blast
    qed
    ultimately show ?thesis by (simp add: fileRole_def)
  qed (simp add: fileRole_def)
  have entry: "\<exists>j < i + 1. ind = int j \<and> ro_Cluster (li_roles c ! j) = li_cluster c \<and>
      roleKey (li_roles c ! j) = k" if "li_rolemap (fileRole i c) k = Some ind" for k ind
  proof (cases "k = roleKey (li_roles c ! i)")
    case True
    then show ?thesis using that assms(4) by (auto simp: fileRole_def)
  next
    case False
    then have "li_rolemap c k = Some ind" using that by (simp add: fileRole_def)
    then have "\<exists>j < i. ind = int j \<and> ro_Cluster (li_roles c ! j) = li_cluster c \<and>
        roleKey (li_roles c ! j) = k"
      using assms(2,3) by (simp add: filed_ok_def)
    then show ?thesis by (metis less_SucI Suc_eq_plus1)
  qed
  have next_eq: "li_next (fileRole i c) = i + 1" "li_roles (fileRole i c) = li_roles c"
    "li_cluster (fileRole i c) = li_cluster c" by (simp_all add: fileRole_def)
  show ?thesis unfolding filed_ok_def next_eq using filed entry by blast
qed


lemma lister_inv_file:
  assumes "lister_inv (c\<lparr> li_next := i \<rparr>)" "i < length (li_roles c)"
    "ro_Cluster (li_roles c ! i) = li_cluster c"
  shows "lister_inv (fileRole i (c\<lparr> li_roleops := li_roleops c + 1 \<rparr>))"
proof -
  have "filed_ok (fileRole i (c\<lparr> li_roleops := li_roleops c + 1 \<rparr>))"
    by (rule filed_ok_file) (use assms in \<open>simp_all add: lister_inv_def filed_ok_def\<close>)
  then show ?thesis using assms
    by (simp add: lister_inv_def fileRole_def ListRoleBindings_def)
qed

lemma lister_inv_skip:
  assumes "lister_inv (c\<lparr> li_next := i \<rparr>)" "i < length (li_roles c)"
    "ro_Cluster (li_roles c ! i) \<noteq> li_cluster c"
  shows "lister_inv (c\<lparr> li_roleops := li_roleops c + 1, li_next := i + 1 \<rparr>)"
  using assms filed_ok_skip [where c = c and i = i and n = "li_roleops c + 1"]
  by (simp add: lister_inv_def ListRoleBindings_def)

lemma scanRoles_spec:
  assumes "lister_inv (c\<lparr> li_next := i \<rparr>)" "scanRoles hit i c = (res, c')"
  shows "tables c' = tables c \<and>
    (case res of
       Some j \<Rightarrow> lister_inv c' \<and> j < length (li_roles c) \<and> ro_Cluster (li_roles c ! j) = li_cluster c \<and>
                 hit (li_roles c ! j)
     | None \<Rightarrow> lister_inv (c'\<lparr> li_next := length (li_roles c) \<rparr>) \<and>
         (\<forall>j. i \<le> j \<longrightarrow> j < length (li_roles c) \<longrightarrow> ro_Cluster (li_roles c ! j) = li_cluster c \<longrightarrow>
            \<not> hit (li_roles c ! j)))"
  using assms
proof (induction hit i c arbitrary: res c' rule: scanRoles.induct)
  case (1 hit i c)
  let ?c1 = "c\<lparr> li_roleops := li_roleops c + 1 \<rparr>"
  let ?c2 = "fileRole i ?c1"
  have c2: "li_roles ?c2 = li_roles c" "li_cluster ?c2 = li_cluster c" "tables ?c2 = tables c"
    "?c2\<lparr> li_next := i + 1 \<rparr> = ?c2"
    by (simp_all add: fileRole_def tables_def)
  consider (stop) "\<not> i < length (li_roles c)"
    | (hit) "i < length (li_roles c)" "ro_Cluster (li_roles c ! i) = li_cluster c" "hit (li_roles c ! i)"
    | (miss) "i < length (li_roles c)" "ro_Cluster (li_roles c ! i) = li_cluster c" "\<not> hit (li_roles c ! i)"
    | (other) "i < length (li_roles c)" "ro_Cluster (li_roles c ! i) \<noteq> li_cluster c"
    by blast
  then show ?case
  proof cases
    case stop
    then have "res = None" "c' = c" using "1.prems"(2) by (simp_all add: scanRoles.simps [of hit i c])
    moreover have "i = length (li_roles c)" using stop "1.prems"(1) by (simp add: lister_inv_def)
    ultimately show ?thesis using "1.prems"(1) by simp
  next
    case hit
    then have "res = Some i" "c' = ?c2"
      using "1.prems"(2) c2 by (simp_all add: scanRoles.simps [of hit i c] Let_def)
    then show ?thesis using hit c2 lister_inv_file [OF "1.prems"(1) hit(1,2)] by simp
  next
    case miss
    then have "scanRoles hit (i + 1) ?c2 = (res, c')"
      using "1.prems"(2) c2 by (simp add: scanRoles.simps [of hit i c] Let_def)
    moreover have "lister_inv (?c2\<lparr> li_next := i + 1 \<rparr>)"
      using lister_inv_file [OF "1.prems"(1) miss(1,2)] c2(4) by simp
    ultimately have *: "tables c' = tables ?c2 \<and> (case res of
       Some j \<Rightarrow> lister_inv c' \<and> j < length (li_roles ?c2) \<and> ro_Cluster (li_roles ?c2 ! j) = li_cluster ?c2 \<and>
                 hit (li_roles ?c2 ! j)
     | None \<Rightarrow> lister_inv (c'\<lparr> li_next := length (li_roles ?c2) \<rparr>) \<and>
         (\<forall>j. i + 1 \<le> j \<longrightarrow> j < length (li_roles ?c2) \<longrightarrow> ro_Cluster (li_roles ?c2 ! j) = li_cluster ?c2 \<longrightarrow>
            \<not> hit (li_roles ?c2 ! j)))"
      using "1.IH"(1) [OF miss(1) refl _ refl] miss(2,3) c2 by simp
    then show ?thesis using miss c2 by (cases res) (simp_all, metis le_neq_implies_less Suc_leI)
  next
    case other
    then have "scanRoles hit (i + 1) ?c1 = (res, c')"
      using "1.prems"(2) by (simp add: scanRoles.simps [of hit i c] Let_def)
    moreover have "lister_inv (?c1\<lparr> li_next := i + 1 \<rparr>)"
      using lister_inv_skip [OF "1.prems"(1) other] by simp
    ultimately have *: "tables c' = tables ?c1 \<and> (case res of
       Some j \<Rightarrow> lister_inv c' \<and> j < length (li_roles ?c1) \<and> ro_Cluster (li_roles ?c1 ! j) = li_cluster ?c1 \<and>
                 hit (li_roles ?c1 ! j)
     | None \<Rightarrow> lister_inv (c'\<lparr> li_next := length (li_roles ?c1) \<rparr>) \<and>
         (\<forall>j. i + 1 \<le> j \<longrightarrow> j < length (li_roles ?c1) \<longrightarrow> ro_Cluster (li_roles ?c1 ! j) = li_cluster ?c1 \<longrightarrow>
            \<not> hit (li_roles ?c1 ! j)))"
      using "1.IH"(2) [OF other(1) refl] other(2) by simp
    then show ?thesis using other by (cases res) (simp_all add: tables_def, metis le_neq_implies_less Suc_leI)
  qed
qed

section \<open>Answers of the lister\<close>

lemma roleKey_unique:
  assumes "roles_ok cl roles" "i < length roles" "j < length roles"
    "ro_Cluster (roles ! i) = cl" "ro_Cluster (roles ! j) = cl" "roleKey (roles ! i) = roleKey (roles ! j)"
  shows "i = j"
  using assms distinct_map_filter_nth [of roleKey "\<lambda>r. ro_Cluster r = cl" roles i j]
  by (simp add: roles_ok_def inCluster_def)

text \<open>
  The common shape of GetClusterRole and GetRole: the cached answer for a key,
  or the scan for the role that has it.
\<close>

definition getByKey :: "(role \<Rightarrow> bool) \<Rightarrow> string \<Rightarrow> lister \<Rightarrow> role option \<times> lister" where
  "getByKey hit key c =
     (case li_rolemap c key of
        Some ind \<Rightarrow> (if ind = -1 then None else Some (li_roles c ! nat ind), c)
      | None \<Rightarrow>
          (case scanRoles hit (li_next c) c of
             (Some i, c') \<Rightarrow> (Some (li_roles c' ! i), c')
           | (None, c') \<Rightarrow> (None, c'\<lparr> li_next := length (li_roles c'),
                                   li_rolemap := (li_rolemap c')(key \<mapsto> -1) \<rparr>)))"

lemma GetClusterRole_getByKey:
  "GetClusterRole name c =
     (case getByKey (\<lambda>r. ro_Kind r = ''ClusterRole'' \<and> ro_Name r = name) name c of
        (r, c') \<Rightarrow> (case r of Some r \<Rightarrow> Inr (makeClusterRole r) | None \<Rightarrow> Inl notfound, c'))"
  by (simp add: GetClusterRole_def getByKey_def split: option.splits prod.splits)

lemma GetRole_getByKey:
  "GetRole ns name c =
     (case getByKey (\<lambda>r. ro_Kind r = ''Role'' \<and> ro_Namespace r = ns \<and> ro_Name r = name)
             (ns @ ''/'' @ name) c of
        (r, c') \<Rightarrow> (case r of Some r \<Rightarrow> Inr (makeRole r) | None \<Rightarrow> Inl notfound, c'))"
  by (simp add: GetRole_def getByKey_def Let_def split: option.splits prod.splits)

lemma getByKey_spec:
  assumes inv: "lister_inv c" and get: "getByKey hit key c = (res, c')"
    and hit: "\<And>r. \<lbrakk>r \<in> set (li_roles c); ro_Cluster r = li_cluster c\<rbrakk> \<Longrightarrow> hit r \<longleftrightarrow> roleKey r = key"
  shows "tables c' = tables c \<and> lister_inv c' \<and>
    res = find (\<lambda>r. ro_Cluster r = li_cluster c \<and> hit r) (li_roles c)"
proof -
  let ?P = "\<lambda>r. ro_Cluster r = li_cluster c \<and> hit r"
  have ok: "roles_ok (li_cluster c) (li_roles c)" using inv by (simp add: lister_inv_def)
  have found: "find ?P (li_roles c) = Some (li_roles c ! i)"
    if "i < length (li_roles c)" "ro_Cluster (li_roles c ! i) = li_cluster c"
      "roleKey (li_roles c ! i) = key" for i
    by (rule find_at) (use that hit roleKey_unique [OF ok] in auto)
  have absent: "find ?P (li_roles c) = None"
    if "\<forall>r\<in>set (li_roles c). ro_Cluster r = li_cluster c \<longrightarrow> roleKey r \<noteq> key"
    using that hit by (auto simp: find_None_iff)
  show ?thesis
  proof (cases "li_rolemap c key")
    case (Some ind)
    then consider "ind = -1" "\<forall>r\<in>set (li_roles c). ro_Cluster r = li_cluster c \<longrightarrow> roleKey r \<noteq> key"
      | i where "i < li_next c" "ind = int i" "ro_Cluster (li_roles c ! i) = li_cluster c"
          "roleKey (li_roles c ! i) = key"
      using inv unfolding lister_inv_def filed_ok_def by blast
    then show ?thesis
    proof cases
      case 1
      then show ?thesis using get Some inv absent by (simp add: getByKey_def)
    next
      case (2 i)
      then have "i < length (li_roles c)" using inv by (simp add: lister_inv_def)
      then show ?thesis using 2 get Some inv found [of i] by (auto simp: getByKey_def)
    qed
  next
    case None
    obtain r1 c1 where scan: "scanRoles hit (li_next c) c = (r1, c1)" by force
    have inv': "lister_inv (c\<lparr> li_next := li_next c \<rparr>)" using inv by simp
    note spec = scanRoles_spec [OF inv' scan]
    show ?thesis
    proof (cases r1)
      case (Some j)
      then have j: "j < length (li_roles c)" "ro_Cluster (li_roles c ! j) = li_cluster c"
        "hit (li_roles c ! j)" "lister_inv c1" "tables c1 = tables c" using spec by auto
      then have "roleKey (li_roles c ! j) = key" using hit by simp
      then show ?thesis using j found [of j] get None scan Some
        by (simp add: getByKey_def tables_def)
    next
      case none: None
      have before: "roleKey (li_roles c ! j) \<noteq> key"
        if "j < li_next c" "ro_Cluster (li_roles c ! j) = li_cluster c" for j
        using inv that None by (auto simp: lister_inv_def filed_ok_def)
      have after: "roleKey (li_roles c ! j) \<noteq> key"
        if "li_next c \<le> j" "j < length (li_roles c)" "ro_Cluster (li_roles c ! j) = li_cluster c" for j
        using spec none that hit by simp
      have no: "\<forall>r\<in>set (li_roles c). ro_Cluster r = li_cluster c \<longrightarrow> roleKey r \<noteq> key"
        using before after by (metis in_set_conv_nth not_le_imp_less)
      have c': "res = None" "c' = c1\<lparr> li_next := length (li_roles c1), li_rolemap := (li_rolemap c1)(key \<mapsto> -1) \<rparr>"
        using get None scan none by (simp_all add: getByKey_def)
      have t: "li_roles c1 = li_roles c" "li_cluster c1 = li_cluster c"
        "li_rolebindings c1 = li_rolebindings c"
        using spec by (simp_all add: tables_def)
      have i1: "lister_inv (c1\<lparr> li_next := length (li_roles c) \<rparr>)" using spec none by simp
      have keys: "roleKey (li_roles c ! i) \<noteq> key"
        if "i < length (li_roles c)" "ro_Cluster (li_roles c ! i) = li_cluster c" for i
        using no that nth_mem by blast
      have "filed_ok c'"
        using i1 no keys unfolding c'(2) lister_inv_def filed_ok_def by (simp add: t)
      then have "lister_inv c'"
        using i1 unfolding c'(2) lister_inv_def by (simp add: t ListRoleBindings_def)
      then show ?thesis using c' t absent [OF no] by (simp add: tables_def)
    qed
  qed
qed

lemma GetClusterRole_spec:
  assumes "lister_inv c" "slash_free name" "GetClusterRole name c = (a, c')"
  shows "tables c' = tables c \<and> lister_inv c' \<and> a = lookupClusterRole (li_cluster c) (li_roles c) name"
proof -
  let ?hit = "\<lambda>r. ro_Kind r = ''ClusterRole'' \<and> ro_Name r = name"
  obtain r where r: "getByKey ?hit name c = (r, c')"
    "a = (case r of Some r \<Rightarrow> Inr (makeClusterRole r) | None \<Rightarrow> Inl notfound)"
    using assms(3) unfolding GetClusterRole_getByKey by (auto split: prod.splits)
  have "?hit x \<longleftrightarrow> roleKey x = name" if "x \<in> set (li_roles c)" "ro_Cluster x = li_cluster c" for x
    using roleKey_clusterRole [OF _ that assms(2)] assms(1) by (simp add: lister_inv_def)
  then show ?thesis using getByKey_spec [OF assms(1) r(1)] r(2)
    by (simp add: lookupClusterRole_def)
qed

lemma GetRole_spec:
  assumes "lister_inv c" "slash_free ns" "slash_free name" "GetRole ns name c = (a, c')"
  shows "tables c' = tables c \<and> lister_inv c' \<and> a = lookupRole (li_cluster c) (li_roles c) ns name"
proof -
  let ?hit = "\<lambda>r. ro_Kind r = ''Role'' \<and> ro_Namespace r = ns \<and> ro_Name r = name"
  obtain r where r: "getByKey ?hit (ns @ ''/'' @ name) c = (r, c')"
    "a = (case r of Some r \<Rightarrow> Inr (makeRole r) | None \<Rightarrow> Inl notfound)"
    using assms(4) unfolding GetRole_getByKey by (auto split: prod.splits)
  have "?hit x \<longleftrightarrow> roleKey x = ns @ ''/'' @ name"
    if "x \<in> set (li_roles c)" "ro_Cluster x = li_cluster c" for x
    using roleKey_role [OF _ that assms(2,3)] assms(1) by (simp add: lister_inv_def)
  then show ?thesis using getByKey_spec [OF assms(1) r(1)] r(2)
    by (simp add: lookupRole_def)
qed

lemma runLister_spec:
  assumes "lister_inv c" "asksOk prog (li_cluster c) (li_roles c) (li_rolebindings c)"
    "runLister prog c = (a, c')"
  shows "tables c' = tables c \<and> lister_inv c' \<and>
    a = runTables prog (li_cluster c) (li_roles c) (li_rolebindings c)"
  using assms
proof (induction prog arbitrary: c)
  case (AskRole ns n k)
  obtain b c1 where g: "GetRole ns n c = (b, c1)" by force
  have s: "tables c1 = tables c" "lister_inv c1" "b = lookupRole (li_cluster c) (li_roles c) ns n"
    using GetRole_spec [OF AskRole.prems(1) _ _ g] AskRole.prems(2) by simp_all
  then show ?case using AskRole.IH [OF rangeI, of c1 b] AskRole.prems g by (auto simp: tables_def)
next
  case (AskClusterRole n k)
  obtain b c1 where g: "GetClusterRole n c = (b, c1)" by force
  have s: "tables c1 = tables c" "lister_inv c1" "b = lookupClusterRole (li_cluster c) (li_roles c) n"
    using GetClusterRole_spec [OF AskClusterRole.prems(1) _ g] AskClusterRole.prems(2) by simp_all
  then show ?case using AskClusterRole.IH [OF rangeI, of c1 b] AskClusterRole.prems g by (auto simp: tables_def)
next
  case (AskRoleBindings ns k)
  have "ListRoleBindings ns c = Inr (bindingsIn (li_cluster c) (li_rolebindings c) ns)"
    using AskRoleBindings.prems(1) by (simp add: lister_inv_def)
  then show ?case using AskRoleBindings.IH [OF rangeI] AskRoleBindings.prems by simp
next
  case (AskClusterRoleBindings k)
  have "ListClusterRoleBindings c = Inr (clusterBindings (li_cluster c) (li_rolebindings c))"
    using AskClusterRoleBindings.prems(1) by (simp add: lister_inv_def ListClusterRoleBindings_def)
  then show ?case using AskClusterRoleBindings.IH [OF rangeI] AskClusterRoleBindings.prems by simp
qed auto

section \<open>A fresh lister\<close>

lemma sortRoleBindings_foldl:
  "let c' = foldl sortRoleBinding c bs in
     tables c' = tables c \<and> li_next c' = li_next c \<and> li_rolemap c' = li_rolemap c \<and>
     li_roleops c' = li_roleops c \<and>
     li_clusterrolebinding c' = li_clusterrolebinding c @ clusterBindings (li_cluster c) bs \<and>
     (\<forall>ns. ListRoleBindings ns c' =
        Inr ((case li_rolebindingmap c ns of None \<Rightarrow> [] | Some xs \<Rightarrow> xs) @ bindingsIn (li_cluster c) bs ns))"
proof (induction bs arbitrary: c)
  case Nil
  then show ?case by (simp add: ListRoleBindings_def clusterBindings_def bindingsIn_def)
next
  case (Cons b bs)
  show ?case using Cons.IH [of "sortRoleBinding c b"]
    by (auto simp: sortRoleBinding_def Let_def tables_def clusterBindings_def bindingsIn_def
        split: option.splits)
qed

lemma newLister_inv:
  assumes "roles_ok cluster roles"
  shows "lister_inv (newLister cluster roles bs) \<and> tables (newLister cluster roles bs) = (cluster, roles, bs)"
  using assms sortRoleBindings_foldl [of "\<lparr> li_cluster = cluster, li_roles = roles,
     li_rolebindings = bs, li_next = 0, li_rolemap = Map.empty, li_clusterrolebinding = [],
     li_rolebindingmap = Map.empty, li_roleops = 0, li_bindingops = 0 \<rparr>" bs]
  by (simp add: newLister_def lister_init_def sortRoleBindings_def lister_inv_def filed_ok_def
      Let_def tables_def)

section \<open>The authorizer\<close>

text \<open>The verdict on an object that the plain tables give.\<close>

definition verdict ::
  "resolver \<Rightarrow> rule_test \<Rightarrow> (string \<rightharpoonup> string) \<Rightarrow> principal \<Rightarrow> string \<Rightarrow> role list \<Rightarrow> role_binding list \<Rightarrow>
     object \<Rightarrow> bool \<times> goerror option" where
  "verdict rulesFor ruleAllows km p cluster roles bs x =
     (let request = objectAsAttributes p km x;
          (rules, e) = runTables (rulesFor (at_User request) (ob_Namespace x)) cluster roles bs
      in (list_ex (ruleAllows request) rules, e))"

definition asksOkFor ::
  "resolver \<Rightarrow> principal \<Rightarrow> string \<Rightarrow> role list \<Rightarrow> role_binding list \<Rightarrow> object \<Rightarrow> bool" where
  "asksOkFor rulesFor p cluster roles bs x =
     asksOk (rulesFor (principalAsInfo p) (ob_Namespace x)) cluster roles bs"

lemma anyRuleAllows_list_ex: "anyRuleAllows ra req rs = list_ex (ra req) rs"
  by (induction rs) auto

lemma authorizeObject_spec:
  assumes "lister_inv c" "tables c = (cluster, roles, bs)" "asksOkFor rulesFor p cluster roles bs x"
  shows "fst (authorizeObject rulesFor ra km p x c) = verdict rulesFor ra km p cluster roles bs x \<and>
    lister_inv (snd (authorizeObject rulesFor ra km p x c)) \<and>
    tables (snd (authorizeObject rulesFor ra km p x c)) = (cluster, roles, bs)"
proof -
  let ?prog = "rulesFor (principalAsInfo p) (ob_Namespace x)"
  obtain rules e c' where run: "runLister ?prog c = ((rules, e), c')" by (metis prod.collapse)
  have u: "at_User (objectAsAttributes p km x) = principalAsInfo p" by (simp add: objectAsAttributes_def)
  have "tables c' = tables c \<and> lister_inv c' \<and> (rules, e) = runTables ?prog cluster roles bs"
    using runLister_spec [OF assms(1) _ run] assms(2,3) by (simp add: asksOkFor_def tables_def)
  then show ?thesis
    using run assms(2) u by (auto simp: authorizeObject_def verdict_def anyRuleAllows_list_ex Let_def
        split: prod.splits)
qed

interpretation authz: memoised "authorizeObject rulesFor ra km p"
  "\<lambda>c. lister_inv c \<and> tables c = (cluster, roles, bs)"
  "asksOkFor rulesFor p cluster roles bs"
  "verdict rulesFor ra km p cluster roles bs"
  for rulesFor ra km p cluster roles bs
  by unfold_locales (use authorizeObject_spec in blast)+

text \<open>C3: Memoisation does not change any decision: for every rule resolver, the predicate that
  ObjectAuthorizer returns, asked about any sequence of objects, gives for each of them the
  verdict of a search of the plain tables, and the whole sequence examines no row of the role
  table more than once.\<close>

theorem authorizer_correct:
  assumes "roles_ok cluster roles"
    "\<forall>x\<in>set xs. asksOkFor rulesFor p cluster roles bs x"
    "mapStep (authorizeObject rulesFor ra km p) xs (newLister cluster roles bs) = (verdicts, c)"
  shows "verdicts = map (verdict rulesFor ra km p cluster roles bs) xs \<and> li_roleops c \<le> length roles"
proof -
  have init: "lister_inv (newLister cluster roles bs) \<and> tables (newLister cluster roles bs) = (cluster, roles, bs)"
    by (rule newLister_inv [OF assms(1)])
  have "lister_inv c \<and> tables c = (cluster, roles, bs)"
    using authz.keeps_all [OF init assms(2), of ra km] assms(3) by simp
  then have "li_roleops c \<le> length roles" by (auto simp: lister_inv_def tables_def)
  then show ?thesis using authz.answers [OF init assms(2), of ra km] assms(3) by simp
qed

definition exampleUser :: principal where
  "exampleUser = \<lparr> up_ID = ''u'', up_Groups = [] \<rparr>"

text \<open>A small resolver: the rules of the roles bound in the namespace.\<close>

fun gatherRules :: "string \<Rightarrow> k8s_binding list \<Rightarrow> k8s_rule list \<Rightarrow>
    (k8s_rule list \<times> goerror option) lister_prog" where
  "gatherRules ns [] acc = Return (acc, None)"
| "gatherRules ns (b # bs) acc =
     AskRole ns (rr_Name (kb_RoleRef b)) (\<lambda>r. case r of
       Inl e \<Rightarrow> Return (acc, Some e) | Inr ro \<Rightarrow> gatherRules ns bs (acc @ kro_Rules ro))"

definition exampleResolver :: resolver where
  "exampleResolver u ns = AskRoleBindings ns (\<lambda>r. case r of
     Inl e \<Rightarrow> Return ([], Some e) | Inr bs \<Rightarrow> gatherRules ns bs [])"

definition exampleRuleAllows :: rule_test where
  "exampleRuleAllows req r \<longleftrightarrow> at_Verb req \<in> set (kr_Verbs r) \<and> at_APIGroup req \<in> set (kr_APIGroups r)"

definition exampleRoles :: "role list" where
  "exampleRoles = [roleAdapter_ToModel exampleRole ''other'', roleAdapter_ToModel exampleRole ''c'']"

definition exampleBindings :: "role_binding list" where
  "exampleBindings = [\<lparr> rb_ID = [], rb_Cluster = ''c'', rb_Namespace = ''ns'', rb_Kind = ''RoleBinding'',
     rb_Name = ''b'', rb_RoleRefName = ''reader'', rb_RoleRefKind = ''Role'', rb_Subjects = [] \<rparr>]"

lemmas example_defs = exampleRoles_def exampleBindings_def exampleRole_def exampleResolver_def
  roleAdapter_ToModel_def roles_ok_def inCluster_def slash_free_def roleKey_def mkObject_def
  asksOkFor_def bindingsIn_def makeRoleBinding_def lookupRole_def makeRole_def

lemma example_roles_ok: "roles_ok ''c'' exampleRoles"
  by (simp add: example_defs)

lemma example_asks_ok:
  "asksOkFor exampleResolver p ''c'' exampleRoles exampleBindings (mkObject ''c'' ''ns'' k n)"
  by (simp add: example_defs)

lemma authorizer_correct_witness:
  "fst (mapStep (authorizeObject exampleResolver exampleRuleAllows Map.empty exampleUser)
     [mkObject ''c'' ''ns'' ''Bucket'' ''x'', mkObject ''c'' ''ns'' ''Bucket'' ''y'']
     (newLister ''c'' exampleRoles exampleBindings)) =
   map (verdict exampleResolver exampleRuleAllows Map.empty exampleUser
          ''c'' exampleRoles exampleBindings)
     [mkObject ''c'' ''ns'' ''Bucket'' ''x'', mkObject ''c'' ''ns'' ''Bucket'' ''y'']"
proof -
  obtain vs c where run: "mapStep (authorizeObject exampleResolver exampleRuleAllows Map.empty
        exampleUser)
     [mkObject ''c'' ''ns'' ''Bucket'' ''x'', mkObject ''c'' ''ns'' ''Bucket'' ''y'']
     (newLister ''c'' exampleRoles exampleBindings) = (vs, c)" by force
  show ?thesis
    using authorizer_correct [OF example_roles_ok _ run] example_asks_ok run by simp
qed

section \<open>Isolation of clusters\<close>

lemma lookup_inCluster:
  "lookupRole cl (inCluster cl roles) ns n = lookupRole cl roles ns n"
  "lookupClusterRole cl (inCluster cl roles) n = lookupClusterRole cl roles n"
proof -
  have f: "find (\<lambda>r. ro_Cluster r = cl \<and> P r) (inCluster cl roles) = find (\<lambda>r. ro_Cluster r = cl \<and> P r) roles"
    for P by (induction roles) (auto simp: inCluster_def)
  show "lookupRole cl (inCluster cl roles) ns n = lookupRole cl roles ns n"
    "lookupClusterRole cl (inCluster cl roles) n = lookupClusterRole cl roles n"
    by (simp_all only: lookupRole_def lookupClusterRole_def f)
qed

definition bindingsInCluster :: "string \<Rightarrow> role_binding list \<Rightarrow> role_binding list" where
  "bindingsInCluster cluster bs = filter (\<lambda>b. rb_Cluster b = cluster) bs"

lemma bindings_inCluster:
  "bindingsIn cl (bindingsInCluster cl bs) ns = bindingsIn cl bs ns"
  "clusterBindings cl (bindingsInCluster cl bs) = clusterBindings cl bs"
  by (simp_all add: bindingsIn_def clusterBindings_def bindingsInCluster_def conj_ac cong: filter_cong)

lemma runTables_isolated:
  "runTables prog cl (inCluster cl roles) (bindingsInCluster cl bs) = runTables prog cl roles bs"
  by (induction prog) (simp_all add: lookup_inCluster bindings_inCluster)

lemma asksOk_isolated:
  "asksOk prog cl (inCluster cl roles) (bindingsInCluster cl bs) = asksOk prog cl roles bs"
  by (induction prog) (simp_all add: lookup_inCluster bindings_inCluster)

lemma verdict_isolated:
  "verdict rf ra km p cl (inCluster cl roles) (bindingsInCluster cl bs) x = verdict rf ra km p cl roles bs x"
  by (simp add: verdict_def runTables_isolated)

text \<open>C11: Clusters are isolated: two role tables and two binding tables that agree on the rows of
  a cluster, whatever they hold for other clusters, give the authorizer of that cluster the same
  decisions.\<close>

theorem cluster_isolation:
  assumes "inCluster cl roles1 = inCluster cl roles2"
    "bindingsInCluster cl bs1 = bindingsInCluster cl bs2"
    "roles_ok cl roles1" "\<forall>x\<in>set xs. asksOkFor rulesFor p cl roles1 bs1 x"
  shows "fst (mapStep (authorizeObject rulesFor ra km p) xs (newLister cl roles1 bs1)) =
         fst (mapStep (authorizeObject rulesFor ra km p) xs (newLister cl roles2 bs2))"
proof -
  have ok2: "roles_ok cl roles2" using assms(1,3) by (simp add: roles_ok_def)
  have asks2: "\<forall>x\<in>set xs. asksOkFor rulesFor p cl roles2 bs2 x"
    using assms(4) unfolding asksOkFor_def by (metis asksOk_isolated assms(1,2))
  have same: "verdict rulesFor ra km p cl roles1 bs1 x = verdict rulesFor ra km p cl roles2 bs2 x" for x
    by (metis verdict_isolated assms(1,2))
  show ?thesis
    using authz.answers [OF newLister_inv [OF assms(3)] assms(4), of ra km]
      authz.answers [OF newLister_inv [OF ok2] asks2, of ra km] same by simp
qed

lemma cluster_isolation_witness:
  "fst (mapStep (authorizeObject exampleResolver exampleRuleAllows Map.empty exampleUser)
     [mkObject ''c'' ''ns'' ''Bucket'' ''x''] (newLister ''c'' exampleRoles exampleBindings)) =
   fst (mapStep (authorizeObject exampleResolver exampleRuleAllows Map.empty exampleUser)
     [mkObject ''c'' ''ns'' ''Bucket'' ''x''] (newLister ''c'' (tl exampleRoles) exampleBindings))"
  by (rule cluster_isolation) (use example_roles_ok example_asks_ok in \<open>simp_all add: inCluster_def
    exampleRoles_def roleAdapter_ToModel_def\<close>)

section \<open>The core API group\<close>

text \<open>
  The documented behaviour of RuleAllows that matters here: a rule without API
  groups matches no resource request.
\<close>

definition needs_group :: "rule_test \<Rightarrow> bool" where
  "needs_group ruleAllows \<longleftrightarrow>
     (\<forall>req r. at_IsResourceRequest req \<longrightarrow> ruleAllows req r \<longrightarrow> kr_APIGroups r \<noteq> [])"

text \<open>C30: A role whose rules name the core API group alone grants nothing once it has been
  stored: the empty string it lists is lost in the database, so the audit events, which are
  objects of the core group, stay hidden from a user with such a role.\<close>

theorem core_group_lost:
  assumes "needs_group ruleAllows" "\<forall>r\<in>set (kro_Rules role). kr_APIGroups r = [[]]"
  shows "\<not> anyRuleAllows ruleAllows (objectAsAttributes p km x)
           (kro_Rules (makeRole (roleAdapter_ToModel role cluster)))"
proof -
  have "\<forall>r\<in>set (makePolicyRules (map joinRule (kro_Rules role))). kr_APIGroups r = []"
    using assms(2) by (auto simp: makePolicyRules_def joinRule_def JoinRuleData_def SplitRuleData_def)
  moreover have "at_IsResourceRequest (objectAsAttributes p km x)" by (simp add: objectAsAttributes_def)
  ultimately have "\<forall>r\<in>set (makePolicyRules (map joinRule (kro_Rules role))).
      \<not> ruleAllows (objectAsAttributes p km x) r"
    using assms(1) unfolding needs_group_def by blast
  then show ?thesis
    by (simp add: anyRuleAllows_list_ex list_ex_iff makeRole_def roleAdapter_ToModel_def)
qed

definition eventReader :: k8s_role where
  "eventReader = \<lparr> kro_Kind = ''Role'', kro_Namespace = ''ns'', kro_Name = ''events'', kro_Rules =
     [\<lparr> kr_APIGroups = [[]], kr_Resources = [''events''], kr_Verbs = [''get'', ''list''],
        kr_ResourceNames = [], kr_NonResourceURLs = [] \<rparr>] \<rparr>"

lemma needs_group_example: "needs_group exampleRuleAllows"
  by (auto simp: needs_group_def exampleRuleAllows_def)

lemma core_group_lost_witness:
  "(let req = objectAsAttributes exampleUser Map.empty
       ((mkObject ''c'' ''ns'' ''Event'' ''e'')\<lparr> ob_APIGroup := [] \<rparr>)
    in anyRuleAllows exampleRuleAllows req (kro_Rules eventReader) \<and>
       \<not> anyRuleAllows exampleRuleAllows req
           (kro_Rules (makeRole (roleAdapter_ToModel eventReader ''c''))))"
proof -
  have "\<not> anyRuleAllows exampleRuleAllows req (kro_Rules (makeRole (roleAdapter_ToModel eventReader ''c'')))"
    if "req = objectAsAttributes exampleUser Map.empty ((mkObject ''c'' ''ns'' ''Event'' ''e'')\<lparr> ob_APIGroup := [] \<rparr>)"
    for req
    unfolding that by (rule core_group_lost [OF needs_group_example]) (simp add: eventReader_def)
  moreover have "anyRuleAllows exampleRuleAllows (objectAsAttributes exampleUser Map.empty
      ((mkObject ''c'' ''ns'' ''Event'' ''e'')\<lparr> ob_APIGroup := [] \<rparr>)) (kro_Rules eventReader)"
    by (simp add: eventReader_def exampleRuleAllows_def objectAsAttributes_def mkObject_def)
  ultimately show ?thesis by (simp only: Let_def simp_thms)
qed

end
