(* ===== verification/AccessRules.thy ===== *)
theory AccessRules
  imports Rbac
begin

text \<open>
  The access rules of the debugging endpoint: pkg/query/store/store.go derives one
  rule per pair of a role and a binding that refers to it, and
  pkg/query/accesschecker/accesschecker.go picks the rules of a user. The set of
  the groups' resources is a Go map whose iteration order is not defined: the
  model lists it in the order of insertion, and the theorems speak of its set.
\<close>

definition DefaultVerbsRequiredForAccess :: "string list" where
  "DefaultVerbsRequiredForAccess = [''list'']"

fun hasVerbs :: "string list \<Rightarrow> string list \<Rightarrow> bool" where
  "hasVerbs a [] = False"
| "hasVerbs a (v # vs) =
     (if ContainsWildcard a then True else if v \<in> set a then True else hasVerbs a vs)"

definition bindingRoleMatch :: "role_binding \<Rightarrow> role \<Rightarrow> bool" where
  "bindingRoleMatch b r =
     (if rb_Cluster b \<noteq> ro_Cluster r then False
      else if rb_Namespace b \<noteq> ro_Namespace r then False
      else if rb_RoleRefKind b \<noteq> ro_Kind r then False
      else if rb_RoleRefName b \<noteq> ro_Name r then False
      else True)"

text \<open>derivedAccess, as the pairs of a group and a resource that it maps to true.\<close>

type_synonym derived = "(string \<times> string) list"

definition addResources :: "string list \<Rightarrow> policy_rule \<Rightarrow> string \<Rightarrow> derived \<Rightarrow> derived" where
  "addResources requiredVerbs rule apiGroup derivedAccess =
     (let rList = SplitRuleData (pr_Resources rule);
          d = (if ContainsWildcard rList then List.insert (apiGroup, ''*'') derivedAccess
               else derivedAccess);
          vList = SplitRuleData (pr_Verbs rule)
      in if ContainsWildcard vList \<or> hasVerbs vList requiredVerbs
         then foldl (\<lambda>d resource. List.insert (apiGroup, resource) d) d rList
         else d)"

definition derivedAccessOf :: "string list \<Rightarrow> policy_rule list \<Rightarrow> derived" where
  "derivedAccessOf requiredVerbs rules =
     foldl (\<lambda>d rule. foldl (\<lambda>d g. addResources requiredVerbs rule g d) d
       (SplitRuleData (pr_APIGroups rule))) [] rules"

definition accessibleNames :: "policy_rule list \<Rightarrow> string list" where
  "accessibleNames rules =
     concat (map (\<lambda>rule. filter (\<lambda>n. n \<noteq> []) (SplitRuleData (pr_ResourceNames rule))) rules)"

definition convertToAccessRule :: "string \<Rightarrow> role \<Rightarrow> role_binding \<Rightarrow> string list \<Rightarrow> access_rule" where
  "convertToAccessRule clusterName r b requiredVerbs = \<lparr>
     ar_Cluster = clusterName,
     ar_Namespace = ro_Namespace r,
     ar_AccessibleKinds = map (\<lambda>(group, k). group @ ''/'' @ k)
        (derivedAccessOf requiredVerbs (ro_PolicyRules r)),
     ar_Subjects = rb_Subjects b,
     ar_ProvidedByRole = ro_Kind r @ ''/'' @ ro_Name r,
     ar_ProvidedByBinding = rb_Kind b @ ''/'' @ rb_Name b,
     ar_AccessibleResourceNames = accessibleNames (ro_PolicyRules r) \<rparr>"

definition DeriveAccessRules :: "role list \<Rightarrow> role_binding list \<Rightarrow> access_rule list" where
  "DeriveAccessRules roles bindings =
     foldl (\<lambda>acc r. foldl (\<lambda>acc b.
        if bindingRoleMatch b r
        then acc @ [convertToAccessRule (ro_Cluster r) r b DefaultVerbsRequiredForAccess]
        else acc) acc bindings) [] roles"

section \<open>Rules of a user\<close>

fun subjectMatches :: "principal \<Rightarrow> access_rule \<Rightarrow> subject list \<Rightarrow> access_rule list" where
  "subjectMatches u rule [] = []"
| "subjectMatches u rule (s # ss) =
     (if su_Kind s = ''User'' \<and> su_Name s = up_ID u then rule # subjectMatches u rule ss
      else map (\<lambda>g. rule) (filter (\<lambda>g. su_Kind s = ''Group'' \<and> su_Name s = g) (up_Groups u))
             @ subjectMatches u rule ss)"

definition RelevantRulesForUser :: "principal \<Rightarrow> access_rule list \<Rightarrow> access_rule list" where
  "RelevantRulesForUser u rules =
     foldl (\<lambda>matching rule.
        if length (ar_AccessibleKinds rule) = 0 then matching
        else matching @ subjectMatches u rule (ar_Subjects rule)) [] rules"

section \<open>What the rules say\<close>

lemma hasVerbs_iff: "hasVerbs a vs \<longleftrightarrow> vs \<noteq> [] \<and> ContainsWildcard a \<or> set a \<inter> set vs \<noteq> {}"
  by (induction vs) auto

lemma foldl_insert_set: "set (foldl (\<lambda>d r. List.insert (g, r) d) d rs) = set d \<union> {g} \<times> set rs"
  by (induction rs arbitrary: d) auto

definition resourcesGranted :: "string list \<Rightarrow> policy_rule \<Rightarrow> string set" where
  "resourcesGranted verbs rule =
     {k. k = ''*'' \<and> ContainsWildcard (SplitRuleData (pr_Resources rule)) \<or>
         k \<in> set (SplitRuleData (pr_Resources rule)) \<and>
         (ContainsWildcard (SplitRuleData (pr_Verbs rule)) \<or>
          set (SplitRuleData (pr_Verbs rule)) \<inter> set verbs \<noteq> {})}"

lemma addResources_set:
  "set (addResources verbs rule g d) = set d \<union> {g} \<times> resourcesGranted verbs rule"
  by (auto simp: addResources_def Let_def foldl_insert_set resourcesGranted_def hasVerbs_iff)

lemma addResources_groups:
  "set (foldl (\<lambda>d g. addResources verbs rule g d) d gs) = set d \<union> set gs \<times> resourcesGranted verbs rule"
  by (induction gs arbitrary: d) (auto simp: addResources_set)

lemma derivedAccessOf_set:
  "set (derivedAccessOf verbs rules) =
     (\<Union>rule\<in>set rules. set (SplitRuleData (pr_APIGroups rule)) \<times> resourcesGranted verbs rule)"
proof -
  have "set (foldl (\<lambda>d rule. foldl (\<lambda>d g. addResources verbs rule g d) d
       (SplitRuleData (pr_APIGroups rule))) d rules) = set d \<union>
     (\<Union>rule\<in>set rules. set (SplitRuleData (pr_APIGroups rule)) \<times> resourcesGranted verbs rule)" for d
    by (induction rules arbitrary: d) (auto simp: addResources_groups)
  then show ?thesis by (simp add: derivedAccessOf_def)
qed

lemma foldl_collect:
  "set (foldl (\<lambda>acc x. if P x then acc @ [f x] else acc) acc xs) = set acc \<union> f ` {x \<in> set xs. P x}"
  by (induction xs arbitrary: acc) auto

lemma bindingRoleMatch_iff:
  "bindingRoleMatch b r \<longleftrightarrow> rb_Cluster b = ro_Cluster r \<and> rb_Namespace b = ro_Namespace r \<and>
     rb_RoleRefKind b = ro_Kind r \<and> rb_RoleRefName b = ro_Name r"
  by (auto simp: bindingRoleMatch_def)

text \<open>DeriveAccessRules yields exactly one kind of rule per pair of a role and a binding of the
  same cluster and namespace that refers to it by kind and name, and such a rule makes a
  group/resource accessible exactly when a policy rule of the role names the group and either
  lists the resource with the verb list (or a wildcard verb), or has a wildcard among its
  resources, whatever its verbs.\<close>

theorem derive_access_rules_spec:
  "set (DeriveAccessRules roles bindings) =
     {convertToAccessRule (ro_Cluster r) r b DefaultVerbsRequiredForAccess | r b.
        r \<in> set roles \<and> b \<in> set bindings \<and> rb_Cluster b = ro_Cluster r \<and>
        rb_Namespace b = ro_Namespace r \<and> rb_RoleRefKind b = ro_Kind r \<and> rb_RoleRefName b = ro_Name r} \<and>
   set (ar_AccessibleKinds (convertToAccessRule cluster r b DefaultVerbsRequiredForAccess)) =
     {g @ ''/'' @ k | g k. \<exists>rule\<in>set (ro_PolicyRules r). g \<in> set (SplitRuleData (pr_APIGroups rule)) \<and>
        k \<in> resourcesGranted [''list''] rule}"
proof
  let ?conv = "\<lambda>r b. convertToAccessRule (ro_Cluster r) r b DefaultVerbsRequiredForAccess"
  have "set (foldl (\<lambda>acc r. foldl (\<lambda>acc b. if bindingRoleMatch b r then acc @ [?conv r b] else acc)
        acc bindings) acc roles) =
      set acc \<union> (\<Union>r\<in>set roles. ?conv r ` {b \<in> set bindings. bindingRoleMatch b r})" for acc
    by (induction roles arbitrary: acc) (auto simp: foldl_collect)
  then show "set (DeriveAccessRules roles bindings) =
     {?conv r b | r b. r \<in> set roles \<and> b \<in> set bindings \<and> rb_Cluster b = ro_Cluster r \<and>
        rb_Namespace b = ro_Namespace r \<and> rb_RoleRefKind b = ro_Kind r \<and> rb_RoleRefName b = ro_Name r}"
    by (auto simp: DeriveAccessRules_def bindingRoleMatch_iff)
next
  show "set (ar_AccessibleKinds (convertToAccessRule cluster r b DefaultVerbsRequiredForAccess)) =
     {g @ ''/'' @ k | g k. \<exists>rule\<in>set (ro_PolicyRules r). g \<in> set (SplitRuleData (pr_APIGroups rule)) \<and>
        k \<in> resourcesGranted [''list''] rule}"
    by (fastforce simp: convertToAccessRule_def derivedAccessOf_set DefaultVerbsRequiredForAccess_def)
qed

lemma subjectMatches_set:
  "set (subjectMatches u rule ss) =
     {r. r = rule \<and> (\<exists>s\<in>set ss. su_Kind s = ''User'' \<and> su_Name s = up_ID u \<or>
         su_Kind s = ''Group'' \<and> su_Name s \<in> set (up_Groups u))}"
proof (induction ss)
  case (Cons s ss)
  then show ?case by (cases "su_Kind s = ''User'' \<and> su_Name s = up_ID u") auto
qed simp

text \<open>The rules RelevantRulesForUser returns are exactly the given rules that make some kind
  accessible and have the user, by ID, or one of the user's groups among their subjects.\<close>

theorem relevant_rules_spec:
  "set (RelevantRulesForUser u rules) =
     {rule \<in> set rules. ar_AccessibleKinds rule \<noteq> [] \<and>
        (\<exists>s\<in>set (ar_Subjects rule). su_Kind s = ''User'' \<and> su_Name s = up_ID u \<or>
            su_Kind s = ''Group'' \<and> su_Name s \<in> set (up_Groups u))}"
proof -
  have "set (foldl (\<lambda>matching rule. if length (ar_AccessibleKinds rule) = 0 then matching
        else matching @ subjectMatches u rule (ar_Subjects rule)) acc rules) = set acc \<union>
     {rule \<in> set rules. ar_AccessibleKinds rule \<noteq> [] \<and>
        (\<exists>s\<in>set (ar_Subjects rule). su_Kind s = ''User'' \<and> su_Name s = up_ID u \<or>
            su_Kind s = ''Group'' \<and> su_Name s \<in> set (up_Groups u))}" for acc
    by (induction rules arbitrary: acc) (auto simp: subjectMatches_set)
  then show ?thesis by (simp add: RelevantRulesForUser_def)
qed

end
