(* ===== verification/Store.thy ===== *)
theory Store
  imports AccessRules
begin

text \<open>
  The Store interface of pkg/query/store/store.go, as a record of operations on a
  state, and what its providers promise: the effect of each operation on the rows
  that the store holds, on success and on error. The components that use a store
  are verified against the locale explorer_store; the provider is the theory
  SqliteStore. A table is a map from the primary key to the row; the rules of a
  role and the subjects of a binding are rows of tables of their own, keyed by
  their owner, as the foreign keys of the models say.
\<close>

section \<open>Tables\<close>

record tables =
  tb_Objects :: "string \<rightharpoonup> object"
  tb_Roles :: "string \<rightharpoonup> role"
  tb_PolicyRules :: "string \<Rightarrow> policy_rule list"
  tb_RoleBindings :: "string \<rightharpoonup> role_binding"
  tb_Subjects :: "string \<Rightarrow> subject list"
  tb_Tenants :: "string \<rightharpoonup> tenant"

definition emptyTables :: tables where
  "emptyTables = \<lparr> tb_Objects = Map.empty, tb_Roles = Map.empty, tb_PolicyRules = (\<lambda>_. []),
     tb_RoleBindings = Map.empty, tb_Subjects = (\<lambda>_. []), tb_Tenants = Map.empty \<rparr>"

text \<open>The rows that the operations write: labels are not a column of the objects' table.\<close>

definition objectRow :: "object \<Rightarrow> object" where
  "objectRow x = x\<lparr> ob_ID := Object_GetID x, ob_Labels := Map.empty \<rparr>"

definition roleRow :: "role \<Rightarrow> role" where
  "roleRow r = r\<lparr> ro_ID := Role_GetID r, ro_PolicyRules := [] \<rparr>"

definition roleBindingRow :: "role_binding \<Rightarrow> role_binding" where
  "roleBindingRow b = b\<lparr> rb_ID := RoleBinding_GetID b, rb_Subjects := [] \<rparr>"

definition tenantRow :: "tenant \<Rightarrow> tenant" where
  "tenantRow t = t\<lparr> tn_ID := Tenant_GetID t \<rparr>"

definition putObject :: "object \<Rightarrow> tables \<Rightarrow> tables" where
  "putObject x T = T\<lparr> tb_Objects := (tb_Objects T)(Object_GetID x \<mapsto> objectRow x) \<rparr>"

definition putRole :: "role \<Rightarrow> tables \<Rightarrow> tables" where
  "putRole r T = T\<lparr> tb_Roles := (tb_Roles T)(Role_GetID r \<mapsto> roleRow r),
     tb_PolicyRules := (tb_PolicyRules T)(Role_GetID r := ro_PolicyRules r) \<rparr>"

definition putRoleBinding :: "role_binding \<Rightarrow> tables \<Rightarrow> tables" where
  "putRoleBinding b T = T\<lparr> tb_RoleBindings := (tb_RoleBindings T)(RoleBinding_GetID b \<mapsto> roleBindingRow b),
     tb_Subjects := (tb_Subjects T)(RoleBinding_GetID b := rb_Subjects b) \<rparr>"

definition putTenant :: "tenant \<Rightarrow> tables \<Rightarrow> tables" where
  "putTenant t T = T\<lparr> tb_Tenants := (tb_Tenants T)(Tenant_GetID t \<mapsto> tenantRow t) \<rparr>"

definition dropRows :: "('r \<Rightarrow> bool) \<Rightarrow> ('k \<rightharpoonup> 'r) \<Rightarrow> ('k \<rightharpoonup> 'r)" where
  "dropRows P m = (\<lambda>k. case m k of Some r \<Rightarrow> if P r then None else Some r | None \<Rightarrow> None)"

definition dropObject :: "object \<Rightarrow> tables \<Rightarrow> tables" where
  "dropObject x T = T\<lparr> tb_Objects := dropRows (\<lambda>r. ob_ID r = Object_GetID x) (tb_Objects T) \<rparr>"

definition dropRole :: "role \<Rightarrow> tables \<Rightarrow> tables" where
  "dropRole r T = T\<lparr> tb_Roles := dropRows (\<lambda>q. ro_ID q = Role_GetID r) (tb_Roles T) \<rparr>"

definition dropRoleBinding :: "role_binding \<Rightarrow> tables \<Rightarrow> tables" where
  "dropRoleBinding b T = T\<lparr> tb_RoleBindings := dropRows (\<lambda>c. rb_ID c = RoleBinding_GetID b) (tb_RoleBindings T) \<rparr>"

definition dropTenant :: "tenant \<Rightarrow> tables \<Rightarrow> tables" where
  "dropTenant t T = T\<lparr> tb_Tenants := dropRows (\<lambda>u. tn_ID u = Tenant_GetID t) (tb_Tenants T) \<rparr>"

definition dropClusterObjects :: "string \<Rightarrow> tables \<Rightarrow> tables" where
  "dropClusterObjects c T = T\<lparr> tb_Objects := dropRows (\<lambda>r. ob_Cluster r = c) (tb_Objects T) \<rparr>"

definition dropClusterRoles :: "string \<Rightarrow> tables \<Rightarrow> tables" where
  "dropClusterRoles c T = T\<lparr> tb_Roles := dropRows (\<lambda>r. ro_Cluster r = c) (tb_Roles T) \<rparr>"

definition dropClusterBindings :: "string \<Rightarrow> tables \<Rightarrow> tables" where
  "dropClusterBindings c T = T\<lparr> tb_RoleBindings := dropRows (\<lambda>b. rb_Cluster b = c) (tb_RoleBindings T) \<rparr>"

text \<open>The effect of a batch, one element after the other.\<close>

definition eachRow :: "('a \<Rightarrow> tables \<Rightarrow> tables) \<Rightarrow> 'a list \<Rightarrow> tables \<Rightarrow> tables" where
  "eachRow f xs T = foldl (\<lambda>T x. f x T) T xs"

lemma eachRow_simps [simp]:
  "eachRow f [] T = T" "eachRow f (x # xs) T = eachRow f xs (f x T)"
  "eachRow f (xs @ ys) T = eachRow f ys (eachRow f xs T)"
  by (simp_all add: eachRow_def)

lemma dropRows_Some: "dropRows P m k = Some r \<longleftrightarrow> m k = Some r \<and> \<not> P r"
  by (auto simp: dropRows_def split: option.splits)

lemma dropRows_None: "dropRows P m k = None \<longleftrightarrow> m k = None \<or> (\<exists>r. m k = Some r \<and> P r)"
  by (auto simp: dropRows_def split: option.splits)

section \<open>The integrity of the tables\<close>

definition objects_ok :: "(string \<rightharpoonup> object) \<Rightarrow> bool" where
  "objects_ok m \<longleftrightarrow> (\<forall>k r. m k = Some r \<longrightarrow> ob_ID r = k \<and> Object_GetID r = k \<and> Object_Validate r = None)"

definition roles_table_ok :: "(string \<rightharpoonup> role) \<Rightarrow> (string \<Rightarrow> policy_rule list) \<Rightarrow> bool" where
  "roles_table_ok m rules \<longleftrightarrow> (\<forall>k r. m k = Some r \<longrightarrow> ro_ID r = k \<and> Role_GetID r = k \<and>
     ro_PolicyRules r = [] \<and> Role_Validate (r\<lparr> ro_PolicyRules := rules k \<rparr>) = None)"

definition bindings_ok :: "(string \<rightharpoonup> role_binding) \<Rightarrow> bool" where
  "bindings_ok m \<longleftrightarrow> (\<forall>k b. m k = Some b \<longrightarrow> rb_ID b = k \<and> RoleBinding_GetID b = k \<and>
     RoleBinding_Validate b = None)"

definition tenants_ok :: "(string \<rightharpoonup> tenant) \<Rightarrow> bool" where
  "tenants_ok m \<longleftrightarrow> (\<forall>k t. m k = Some t \<longrightarrow> tn_ID t = k \<and> Tenant_GetID t = k \<and> Tenant_Validate t = None)"

definition tables_ok :: "tables \<Rightarrow> bool" where
  "tables_ok T \<longleftrightarrow> objects_ok (tb_Objects T) \<and> roles_table_ok (tb_Roles T) (tb_PolicyRules T) \<and>
     bindings_ok (tb_RoleBindings T) \<and> tenants_ok (tb_Tenants T)"

lemma objectRow_ids: "Object_GetID (objectRow x) = Object_GetID x" "ob_ID (objectRow x) = Object_GetID x"
  "Object_Validate (objectRow x) = Object_Validate x"
  by (simp_all add: objectRow_def Object_GetID_def Object_GroupVersionKind_def Object_Validate_def)

lemma roleRow_ids: "Role_GetID (roleRow r) = Role_GetID r" "ro_ID (roleRow r) = Role_GetID r"
  "ro_PolicyRules (roleRow r) = []"
  "Role_Validate ((roleRow r)\<lparr> ro_PolicyRules := ro_PolicyRules r \<rparr>) = Role_Validate r"
  by (simp_all add: roleRow_def Role_GetID_def Role_Validate_def)

lemma roleBindingRow_ids: "RoleBinding_GetID (roleBindingRow b) = RoleBinding_GetID b"
  "rb_ID (roleBindingRow b) = RoleBinding_GetID b"
  "RoleBinding_Validate (roleBindingRow b) = RoleBinding_Validate b"
  by (simp_all add: roleBindingRow_def RoleBinding_GetID_def RoleBinding_Validate_def)

lemma tenantRow_ids: "Tenant_GetID (tenantRow t) = Tenant_GetID t" "tn_ID (tenantRow t) = Tenant_GetID t"
  "Tenant_Validate (tenantRow t) = Tenant_Validate t"
  by (simp_all add: tenantRow_def Tenant_GetID_def Tenant_Validate_def)

lemma put_ok:
  "\<lbrakk>objects_ok m; Object_Validate x = None\<rbrakk> \<Longrightarrow> objects_ok (m(Object_GetID x \<mapsto> objectRow x))"
  "\<lbrakk>roles_table_ok n rules; Role_Validate r = None\<rbrakk> \<Longrightarrow>
     roles_table_ok (n(Role_GetID r \<mapsto> roleRow r)) (rules(Role_GetID r := ro_PolicyRules r))"
  "\<lbrakk>bindings_ok p; RoleBinding_Validate b = None\<rbrakk> \<Longrightarrow>
     bindings_ok (p(RoleBinding_GetID b \<mapsto> roleBindingRow b))"
  "\<lbrakk>tenants_ok q; Tenant_Validate t = None\<rbrakk> \<Longrightarrow> tenants_ok (q(Tenant_GetID t \<mapsto> tenantRow t))"
  by (simp_all add: objects_ok_def objectRow_ids roles_table_ok_def roleRow_ids bindings_ok_def
      roleBindingRow_ids tenants_ok_def tenantRow_ids)

lemma tables_ok_put:
  "\<lbrakk>tables_ok T; Object_Validate x = None\<rbrakk> \<Longrightarrow> tables_ok (putObject x T)"
  "\<lbrakk>tables_ok T; Role_Validate r = None\<rbrakk> \<Longrightarrow> tables_ok (putRole r T)"
  "\<lbrakk>tables_ok T; RoleBinding_Validate b = None\<rbrakk> \<Longrightarrow> tables_ok (putRoleBinding b T)"
  "\<lbrakk>tables_ok T; Tenant_Validate t = None\<rbrakk> \<Longrightarrow> tables_ok (putTenant t T)"
  by (simp_all add: tables_ok_def putObject_def putRole_def putRoleBinding_def putTenant_def put_ok)

lemma tables_ok_drop:
  assumes "tables_ok T"
  shows "tables_ok (dropObject x T)" "tables_ok (dropRole r T)" "tables_ok (dropRoleBinding b T)"
    "tables_ok (dropTenant t T)" "tables_ok (dropClusterObjects c T)" "tables_ok (dropClusterRoles c T)"
    "tables_ok (dropClusterBindings c T)"
  using assms
  by (auto simp: tables_ok_def objects_ok_def roles_table_ok_def bindings_ok_def tenants_ok_def
      dropObject_def dropRole_def dropRoleBinding_def dropTenant_def dropClusterObjects_def
      dropClusterRoles_def dropClusterBindings_def dropRows_Some)

lemma tables_ok_each:
  assumes "\<And>x T. \<lbrakk>x \<in> set xs; tables_ok T\<rbrakk> \<Longrightarrow> tables_ok (f x T)" "tables_ok T"
  shows "tables_ok (eachRow f xs T)"
  using assms by (induction xs arbitrary: T) auto

text \<open>The row a batch leaves under a key is the last one written with that key.\<close>

lemma putObjects_get:
  "tb_Objects (eachRow putObject xs T) k =
     (case find (\<lambda>x. Object_GetID x = k) (rev xs) of Some x \<Rightarrow> Some (objectRow x) | None \<Rightarrow> tb_Objects T k)"
proof (induction xs rule: rev_induct)
  case (snoc x xs)
  then show ?case by (simp add: putObject_def)
qed simp

lemma dropObjects_get:
  "tb_Objects (eachRow dropObject xs T) =
     dropRows (\<lambda>r. \<exists>x\<in>set xs. ob_ID r = Object_GetID x) (tb_Objects T)"
proof (induction xs arbitrary: T)
  case (Cons x xs)
  show ?case unfolding eachRow_simps Cons.IH
    by (auto simp: dropObject_def dropRows_def fun_eq_iff split: option.splits)
qed (simp add: dropRows_def fun_eq_iff split: option.splits)

lemma dropClusterObjects_get:
  "tb_Objects (eachRow dropClusterObjects cs T) = dropRows (\<lambda>r. ob_Cluster r \<in> set cs) (tb_Objects T)"
proof (induction cs arbitrary: T)
  case (Cons c cs)
  show ?case unfolding eachRow_simps Cons.IH
    by (auto simp: dropClusterObjects_def dropRows_def fun_eq_iff split: option.splits)
qed (simp add: dropRows_def fun_eq_iff split: option.splits)

section \<open>The interface\<close>

record 's Store =
  s_StoreRoles :: "role list \<Rightarrow> 's step"
  s_StoreRoleBindings :: "role_binding list \<Rightarrow> 's step"
  s_StoreObjects :: "object list \<Rightarrow> 's step"
  s_StoreTenants :: "tenant list \<Rightarrow> 's step"
  s_DeleteObjects :: "object list \<Rightarrow> 's step"
  s_DeleteAllObjects :: "string list \<Rightarrow> 's step"
  s_DeleteRoles :: "role list \<Rightarrow> 's step"
  s_DeleteAllRoles :: "string list \<Rightarrow> 's step"
  s_DeleteRoleBindings :: "role_binding list \<Rightarrow> 's step"
  s_DeleteAllRoleBindings :: "string list \<Rightarrow> 's step"
  s_DeleteTenants :: "tenant list \<Rightarrow> 's step"
  s_GetObjectByID :: "string \<Rightarrow> ('s, object) action"
  s_GetRoles :: "('s, role list) action"
  s_GetRoleBindings :: "('s, role_binding list) action"
  s_GetAccessRules :: "('s, access_rule list) action"
  s_GetTenants :: "('s, tenant list) action"

text \<open>A batch that fails has been applied to some of its elements, in order.\<close>

definition partly :: "('a \<Rightarrow> tables \<Rightarrow> tables) \<Rightarrow> 'a list \<Rightarrow> tables \<Rightarrow> tables \<Rightarrow> bool" where
  "partly f xs T T' \<longleftrightarrow> (\<exists>ys. prefix ys xs \<and> T' = eachRow f ys T)"

text \<open>The rows of a role table joined with the rules, as a reader sees them.\<close>

definition rolesRead :: "tables \<Rightarrow> role list \<Rightarrow> bool" where
  "rolesRead T rs \<longleftrightarrow> distinct (map ro_ID rs) \<and> ro_ID ` set rs = dom (tb_Roles T) \<and>
     (\<forall>r\<in>set rs. tb_Roles T (ro_ID r) = Some (r\<lparr> ro_PolicyRules := [] \<rparr>) \<and>
        set (ro_PolicyRules r) = set (tb_PolicyRules T (ro_ID r)))"

definition bindingsRead :: "tables \<Rightarrow> role_binding list \<Rightarrow> bool" where
  "bindingsRead T bs \<longleftrightarrow> distinct (map rb_ID bs) \<and> rb_ID ` set bs = dom (tb_RoleBindings T) \<and>
     (\<forall>b\<in>set bs. tb_RoleBindings T (rb_ID b) = Some (b\<lparr> rb_Subjects := [] \<rparr>) \<and>
        set (rb_Subjects b) = set (tb_Subjects T (rb_ID b)))"

definition tenantsRead :: "tables \<Rightarrow> tenant list \<Rightarrow> bool" where
  "tenantsRead T ts \<longleftrightarrow> distinct (map tn_ID ts) \<and> set ts = ran (tb_Tenants T)"

locale explorer_store =
  fixes S :: "'s Store"
    and inv :: "'s \<Rightarrow> bool"
    and contents :: "'s \<Rightarrow> tables"
  assumes storeObjects: "inv s \<Longrightarrow> case s_StoreObjects S xs s of
      (None, s') \<Rightarrow> inv s' \<and> (\<forall>x\<in>set xs. Object_Validate x = None) \<and>
         contents s' = eachRow putObject xs (contents s)
    | (Some e, s') \<Rightarrow> inv s' \<and> contents s' = contents s"
    and deleteObjects: "inv s \<Longrightarrow> case s_DeleteObjects S xs s of
      (None, s') \<Rightarrow> inv s' \<and> contents s' = eachRow dropObject xs (contents s)
    | (Some e, s') \<Rightarrow> inv s' \<and> partly dropObject xs (contents s) (contents s')"
    and deleteAllObjects: "inv s \<Longrightarrow> case s_DeleteAllObjects S cs s of
      (None, s') \<Rightarrow> inv s' \<and> contents s' = eachRow dropClusterObjects cs (contents s)
    | (Some e, s') \<Rightarrow> inv s' \<and> partly dropClusterObjects cs (contents s) (contents s')"
    and storeRoles: "\<lbrakk>inv s; s_StoreRoles S rs s = (None, s')\<rbrakk> \<Longrightarrow>
      inv s' \<and> (\<forall>r\<in>set rs. Role_Validate r = None) \<and> contents s' = eachRow putRole rs (contents s)"
    and deleteRoles: "\<lbrakk>inv s; s_DeleteRoles S rs s = (None, s')\<rbrakk> \<Longrightarrow>
      inv s' \<and> contents s' = eachRow dropRole rs (contents s)"
    and deleteAllRoles: "\<lbrakk>inv s; s_DeleteAllRoles S cs s = (None, s')\<rbrakk> \<Longrightarrow>
      inv s' \<and> contents s' = eachRow dropClusterRoles cs (contents s)"
    and storeRoleBindings: "\<lbrakk>inv s; s_StoreRoleBindings S bs s = (None, s')\<rbrakk> \<Longrightarrow>
      inv s' \<and> (\<forall>b\<in>set bs. RoleBinding_Validate b = None) \<and>
      contents s' = eachRow putRoleBinding bs (contents s)"
    and deleteRoleBindings: "\<lbrakk>inv s; s_DeleteRoleBindings S bs s = (None, s')\<rbrakk> \<Longrightarrow>
      inv s' \<and> contents s' = eachRow dropRoleBinding bs (contents s)"
    and deleteAllRoleBindings: "\<lbrakk>inv s; s_DeleteAllRoleBindings S cs s = (None, s')\<rbrakk> \<Longrightarrow>
      inv s' \<and> contents s' = eachRow dropClusterBindings cs (contents s)"
    and storeTenants: "\<lbrakk>inv s; s_StoreTenants S ts s = (None, s')\<rbrakk> \<Longrightarrow>
      inv s' \<and> contents s' = eachRow putTenant (filter (\<lambda>t. Tenant_Validate t = None) ts) (contents s)"
    and deleteTenants: "\<lbrakk>inv s; s_DeleteTenants S ts s = (None, s')\<rbrakk> \<Longrightarrow>
      inv s' \<and> contents s' = eachRow dropTenant ts (contents s)"
    and getObjectByID: "inv s \<Longrightarrow> case s_GetObjectByID S k s of
      (Inr x, s') \<Rightarrow> inv s' \<and> contents s' = contents s \<and> tb_Objects (contents s) k = Some x
    | (Inl e, s') \<Rightarrow> inv s' \<and> contents s' = contents s \<and> \<not> isPanic e"
    and getRoles: "inv s \<Longrightarrow> case s_GetRoles S s of
      (Inr rs, s') \<Rightarrow> inv s' \<and> contents s' = contents s \<and> rolesRead (contents s) rs
    | (Inl e, s') \<Rightarrow> inv s' \<and> contents s' = contents s"
    and getRoleBindings: "inv s \<Longrightarrow> case s_GetRoleBindings S s of
      (Inr bs, s') \<Rightarrow> inv s' \<and> contents s' = contents s \<and> bindingsRead (contents s) bs
    | (Inl e, s') \<Rightarrow> inv s' \<and> contents s' = contents s"
    and getTenants: "inv s \<Longrightarrow> case s_GetTenants S s of
      (Inr ts, s') \<Rightarrow> inv s' \<and> contents s' = contents s \<and> tenantsRead (contents s) ts
    | (Inl e, s') \<Rightarrow> inv s' \<and> contents s' = contents s"
begin

lemma storeObjects_ok: "\<lbrakk>inv s; s_StoreObjects S xs s = (None, s')\<rbrakk> \<Longrightarrow>
    inv s' \<and> (\<forall>x\<in>set xs. Object_Validate x = None) \<and> contents s' = eachRow putObject xs (contents s)"
  using storeObjects [of s xs] by simp

lemma storeObjects_err: "\<lbrakk>inv s; s_StoreObjects S xs s = (Some e, s')\<rbrakk> \<Longrightarrow>
    inv s' \<and> contents s' = contents s"
  using storeObjects [of s xs] by simp

lemma deleteObjects_ok: "\<lbrakk>inv s; s_DeleteObjects S xs s = (None, s')\<rbrakk> \<Longrightarrow>
    inv s' \<and> contents s' = eachRow dropObject xs (contents s)"
  using deleteObjects [of s xs] by simp

lemma deleteObjects_err: "\<lbrakk>inv s; s_DeleteObjects S xs s = (Some e, s')\<rbrakk> \<Longrightarrow>
    inv s' \<and> partly dropObject xs (contents s) (contents s')"
  using deleteObjects [of s xs] by simp

lemma deleteAllObjects_ok: "\<lbrakk>inv s; s_DeleteAllObjects S cs s = (None, s')\<rbrakk> \<Longrightarrow>
    inv s' \<and> contents s' = eachRow dropClusterObjects cs (contents s)"
  using deleteAllObjects [of s cs] by simp

lemma deleteAllObjects_err: "\<lbrakk>inv s; s_DeleteAllObjects S cs s = (Some e, s')\<rbrakk> \<Longrightarrow>
    inv s' \<and> partly dropClusterObjects cs (contents s) (contents s')"
  using deleteAllObjects [of s cs] by simp

lemma objects_integrity:
  assumes "inv s" "tables_ok (contents s)"
  shows "tables_ok (contents (snd (s_StoreObjects S xs s)))"
    and "tables_ok (contents (snd (s_DeleteObjects S xs s)))"
    and "tables_ok (contents (snd (s_DeleteAllObjects S cs s)))"
  using storeObjects [OF assms(1), of xs] deleteObjects [OF assms(1), of xs]
    deleteAllObjects [OF assms(1), of cs] assms(2)
  by (auto simp: partly_def tables_ok_put tables_ok_drop intro!: tables_ok_each split: prod.splits option.splits)

end

end
