(* ===== verification/Iterators.thy ===== *)
theory Iterators
  imports Models
begin

text \<open>
  pkg/query/internal/sqliterator/sqliterator.go: an iterator over the rows of a
  query. sql.Rows is code of the standard library; its documented behaviour is
  modelled as the rows that are still to come (each of which scans to an object or
  fails to), the row Next has moved to, and the error that ends the iteration, if
  any, which Err reports once Next has returned false.
\<close>

record sql_rows =
  rs_Rest :: "object res list"
  rs_Current :: "object res option"
  rs_End :: "goerror option"
  rs_Err :: "goerror option"
  rs_Closed :: bool

definition newRows :: "object res list \<Rightarrow> goerror option \<Rightarrow> sql_rows" where
  "newRows rest e = \<lparr> rs_Rest = rest, rs_Current = None, rs_End = e, rs_Err = None, rs_Closed = False \<rparr>"

text \<open>Rows.Next closes the rows when it returns false.\<close>

fun rowsNext :: "sql_rows \<Rightarrow> bool \<times> sql_rows" where
  "rowsNext r =
     (if rs_Closed r then (False, r\<lparr> rs_Current := None \<rparr>)
      else case rs_Rest r of
        [] \<Rightarrow> (False, r\<lparr> rs_Current := None, rs_Err := rs_End r, rs_Closed := True \<rparr>)
      | x # xs \<Rightarrow> (True, r\<lparr> rs_Rest := xs, rs_Current := Some x \<rparr>))"

definition scanRows :: "sql_rows \<Rightarrow> object res" where
  "scanRows r = (case rs_Current r of None \<Rightarrow> Inl (err ''sql: Scan called without calling Next'') | Some x \<Rightarrow> x)"

definition rowsClose :: "sql_rows \<Rightarrow> sql_rows" where
  "rowsClose r = r\<lparr> rs_Closed := True, rs_Rest := [] \<rparr>"

section \<open>The iterator\<close>

definition sqliterator_New :: "sql_rows res \<Rightarrow> sql_rows res" where
  "sqliterator_New result =
     (case result of Inl e \<Rightarrow> Inl (wrap ''failed to get rows: %w'' [] e) | Inr rows \<Rightarrow> Inr rows)"

definition sqliterator_Next :: "sql_rows \<Rightarrow> bool \<times> sql_rows" where
  "sqliterator_Next i = rowsNext i"

definition sqliterator_Row :: "sql_rows \<Rightarrow> object res" where
  "sqliterator_Row i =
     (case rs_Err i of
        Some e \<Rightarrow> Inl (wrap ''iterator error: %w'' [] e)
      | None \<Rightarrow>
          (case scanRows i of Inl e \<Rightarrow> Inl (wrap ''failed to scan rows: %w'' [] e) | Inr x \<Rightarrow> Inr x))"

text \<open>The loop of All, with the objects collected so far.\<close>

function allLoop :: "object list \<Rightarrow> sql_rows \<Rightarrow> object list res \<times> sql_rows" where
  "allLoop objects r =
     (case rowsNext r of
        (False, r') \<Rightarrow>
          (case rs_Err r' of Some e \<Rightarrow> (Inl (wrap ''failed to get rows: %w'' [] e), r') | None \<Rightarrow> (Inr objects, r'))
      | (True, r') \<Rightarrow>
          (case scanRows r' of
             Inl e \<Rightarrow> (Inl (wrap ''failed to scan rows: %w'' [] e), r')
           | Inr x \<Rightarrow> allLoop (objects @ [x]) r'))"
  by pat_completeness auto
termination
  by (relation "measure (\<lambda>(objects, r). length (rs_Rest r))") (auto split: if_splits list.splits)

declare allLoop.simps [simp del]

definition sqliterator_All :: "sql_rows \<Rightarrow> object list res \<times> sql_rows" where
  "sqliterator_All i = (case allLoop [] i of (res, r) \<Rightarrow> (res, rowsClose r))"

function pageLoop :: "int \<Rightarrow> int \<Rightarrow> int \<Rightarrow> object list \<Rightarrow> sql_rows \<Rightarrow> object list res \<times> sql_rows" where
  "pageLoop count offset index objects r =
     (case rowsNext r of
        (False, r') \<Rightarrow>
          (case rs_Err r' of Some e \<Rightarrow> (Inl (wrap ''failed to get rows: %w'' [] e), r') | None \<Rightarrow> (Inr objects, r'))
      | (True, r') \<Rightarrow>
          (let index = index + 1 in
           if index < offset then pageLoop count offset index objects r'
           else case scanRows r' of
             Inl e \<Rightarrow> (Inl (wrap ''failed to scan rows: %w'' [] e), r')
           | Inr x \<Rightarrow>
               (if index \<ge> offset + count - 1 then
                  (case rs_Err r' of Some e \<Rightarrow> (Inl (wrap ''failed to get rows: %w'' [] e), r')
                   | None \<Rightarrow> (Inr (objects @ [x]), r'))
                else pageLoop count offset index (objects @ [x]) r')))"
  by pat_completeness auto
termination
  by (relation "measure (\<lambda>(count, offset, index, objects, r). length (rs_Rest r))")
     (auto split: if_splits list.splits)

declare pageLoop.simps [simp del]

definition sqliterator_Page :: "int \<Rightarrow> int \<Rightarrow> sql_rows \<Rightarrow> object list res \<times> sql_rows" where
  "sqliterator_Page count offset i = pageLoop count offset (-1) [] i"

section \<open>Pages\<close>

lemma allLoop_rows:
  "\<not> rs_Closed r \<Longrightarrow> rs_Rest r = map Inr xs \<Longrightarrow> rs_End r = None \<Longrightarrow> rs_Err r = None \<Longrightarrow>
    fst (allLoop objects r) = Inr (objects @ xs)"
proof (induction xs arbitrary: objects r)
  case Nil
  then show ?case by (simp add: allLoop.simps)
next
  case (Cons x xs)
  then show ?case by (subst allLoop.simps) (simp add: scanRows_def)
qed

lemma pageLoop_take:
  "\<lbrakk>\<not> rs_Closed r; rs_Rest r = map Inr xs; rs_End r = None; rs_Err r = None; offset \<le> index + 1;
    index + 1 < offset + count\<rbrakk> \<Longrightarrow>
    fst (pageLoop count offset index objects r) = Inr (objects @ take (nat (offset + count - 1 - index)) xs)"
proof (induction xs arbitrary: objects r index)
  case Nil
  then show ?case by (simp add: pageLoop.simps)
next
  case (Cons x xs)
  let ?r = "r\<lparr> rs_Rest := map Inr xs, rs_Current := Some (Inr x) \<rparr>"
  have n: "nat (offset + count - 1 - index) = Suc (nat (offset + count - 1 - (index + 1)))"
    using Cons.prems by simp
  show ?case
  proof (cases "index + 1 \<ge> offset + count - 1")
    case True
    then have "nat (offset + count - 1 - (index + 1)) = 0" by simp
    then show ?thesis using Cons.prems True n by (subst pageLoop.simps) (simp add: scanRows_def)
  next
    case False
    have "fst (pageLoop count offset (index + 1) (objects @ [x]) ?r) =
        Inr ((objects @ [x]) @ take (nat (offset + count - 1 - (index + 1))) xs)"
      by (rule Cons.IH) (use Cons.prems False in simp_all)
    then show ?thesis using Cons.prems False n by (subst pageLoop.simps) (simp add: scanRows_def)
  qed
qed

lemma pageLoop_skip:
  "\<lbrakk>\<not> rs_Closed r; rs_Rest r = map Inr xs; rs_End r = None; rs_Err r = None; index + 1 \<le> offset; count > 0\<rbrakk> \<Longrightarrow>
    fst (pageLoop count offset index objects r) =
      Inr (objects @ take (nat count) (drop (nat (offset - (index + 1))) xs))"
proof (induction xs arbitrary: r index)
  case Nil
  then show ?case by (simp add: pageLoop.simps)
next
  case (Cons x xs)
  show ?case
  proof (cases "index + 1 = offset")
    case True
    then have n: "offset + count - 1 - index = count" "offset - (index + 1) = 0" by simp_all
    have "fst (pageLoop count offset index objects r) = Inr (objects @ take (nat (offset + count - 1 - index)) (x # xs))"
      by (rule pageLoop_take) (use Cons.prems True in simp_all)
    then show ?thesis unfolding n by simp
  next
    case False
    let ?r = "r\<lparr> rs_Rest := map Inr xs, rs_Current := Some (Inr x) \<rparr>"
    have "fst (pageLoop count offset (index + 1) objects ?r) =
        Inr (objects @ take (nat count) (drop (nat (offset - (index + 2))) xs))"
      using Cons.IH [of ?r "index + 1"] Cons.prems False by (simp add: algebra_simps)
    moreover have "nat (offset - (index + 1)) = Suc (nat (offset - (index + 2)))"
      using Cons.prems False by simp
    ultimately show ?thesis using Cons.prems False by (subst pageLoop.simps) simp
  qed
qed

text \<open>Paging an iterator over rows that scan without an error: All returns every row, Page returns
  the rows from the offset on, at most count of them, for every positive count; but a page of
  size zero holds one row when there is one at the offset.\<close>

theorem sqliterator_pages:
  assumes "offset \<ge> 0" "count > 0"
  shows "fst (sqliterator_All (newRows (map Inr xs) None)) = Inr xs \<and>
    fst (sqliterator_Page count offset (newRows (map Inr xs) None)) =
      Inr (take (nat count) (drop (nat offset) xs)) \<and>
    fst (sqliterator_Page 0 0 (newRows (map Inr (x # xs)) None)) = Inr [x]"
proof (intro conjI)
  show "fst (sqliterator_All (newRows (map Inr xs) None)) = Inr xs"
    using allLoop_rows [of "newRows (map Inr xs) None" xs "[]"]
    by (simp add: sqliterator_All_def newRows_def case_prod_beta)
  show "fst (sqliterator_Page count offset (newRows (map Inr xs) None)) =
      Inr (take (nat count) (drop (nat offset) xs))"
    using pageLoop_skip [of "newRows (map Inr xs) None" xs "-1" offset count "[]"] assms
    by (simp add: sqliterator_Page_def newRows_def)
  show "fst (sqliterator_Page 0 0 (newRows (map Inr (x # xs)) None)) = Inr [x]"
    unfolding sqliterator_Page_def by (subst pageLoop.simps) (simp add: newRows_def scanRows_def)
qed

lemma sqliterator_pages_witness:
  "fst (sqliterator_Page 1 1 (newRows (map Inr [mkObject ''a'' ''n'' ''k'' ''x'', mkObject ''a'' ''n'' ''k'' ''y'']) None))
     = Inr [mkObject ''a'' ''n'' ''k'' ''y'']"
  using sqliterator_pages [of 1 1 "[mkObject ''a'' ''n'' ''k'' ''x'', mkObject ''a'' ''n'' ''k'' ''y'']"] by simp

end
