(* ===== verification/SqliteStore.thy ===== *)
theory SqliteStore
  imports Store Iterators
begin

text \<open>
  pkg/query/store/sqlite.go: the store on a SQLite database. gorm is code of a third
  party: the record gorm holds the calls the store makes, on an abstract database,
  and gorm_ok states what is documented of them (a statement that fails leaves the
  rows as they were, one that succeeds does what it says). The Prometheus metrics of
  store/metrics/recorder.go are part of the state: the gauge of requests in flight and
  the statuses with which latencies were observed.
\<close>

section \<open>The database\<close>

datatype db_model = MObject | MRole | MPolicyRule | MRoleBinding | MSubject | MTenant

text \<open>The calls, by name: g_Delete m column value is Unscoped().Delete(m, column = value).\<close>

text \<open>A query over the objects' table: the offset (-1 for none), the ordering, the identifiers asked for.\<close>

record object_query =
  oq_Offset :: int
  oq_Order :: string
  oq_Ids :: "string list option"

record 'db gorm =
  g_Contents :: "'db \<Rightarrow> tables"
  g_Delete :: "db_model \<Rightarrow> string \<Rightarrow> string \<Rightarrow> 'db step"
  g_AssocDeleteRules :: "role \<Rightarrow> 'db step"
  g_AssocDeleteSubjects :: "role_binding \<Rightarrow> 'db step"
  g_CreateObjects :: "object list \<Rightarrow> 'db step"
  g_CreateRole :: "role \<Rightarrow> 'db step"
  g_CreateRoleBinding :: "role_binding \<Rightarrow> 'db step"
  g_CreateTenant :: "tenant \<Rightarrow> 'db step"
  g_FirstObject :: "string \<Rightarrow> 'db \<Rightarrow> object res"
  g_FindRoles :: "'db \<Rightarrow> role list res"
  g_FindRoleBindings :: "'db \<Rightarrow> role_binding list res"
  g_FindTenants :: "'db \<Rightarrow> tenant list res"
  g_FindObjects :: "'db \<Rightarrow> object list res"
  g_Rows :: "object_query \<Rightarrow> 'db \<Rightarrow> sql_rows res"

definition deleteRows :: "db_model \<Rightarrow> string \<Rightarrow> string \<Rightarrow> tables \<Rightarrow> tables" where
  "deleteRows m column v T =
     (case m of
        MObject \<Rightarrow> T\<lparr> tb_Objects := dropRows
          (\<lambda>r. (if column = ''id'' then ob_ID r else if column = ''cluster'' then ob_Cluster r else []) = v)
          (tb_Objects T) \<rparr>
      | MRole \<Rightarrow> T\<lparr> tb_Roles := dropRows
          (\<lambda>r. (if column = ''id'' then ro_ID r else if column = ''cluster'' then ro_Cluster r else []) = v)
          (tb_Roles T) \<rparr>
      | MRoleBinding \<Rightarrow> T\<lparr> tb_RoleBindings := dropRows
          (\<lambda>b. (if column = ''id'' then rb_ID b else if column = ''cluster'' then rb_Cluster b else []) = v)
          (tb_RoleBindings T) \<rparr>
      | MTenant \<Rightarrow> T\<lparr> tb_Tenants := dropRows
          (\<lambda>t. (if column = ''id'' then tn_ID t else []) = v) (tb_Tenants T) \<rparr>
      | MPolicyRule \<Rightarrow>
          (if column = ''role_id'' then T\<lparr> tb_PolicyRules := (tb_PolicyRules T)(v := []) \<rparr> else T)
      | MSubject \<Rightarrow>
          (if column = ''role_binding_id'' then T\<lparr> tb_Subjects := (tb_Subjects T)(v := []) \<rparr> else T))"

text \<open>Rows created with ON CONFLICT (id) DO UPDATE; associations are appended to their tables.\<close>

definition upsertObjectRow :: "object \<Rightarrow> tables \<Rightarrow> tables" where
  "upsertObjectRow x T = T\<lparr> tb_Objects := (tb_Objects T)(ob_ID x \<mapsto> x\<lparr> ob_Labels := Map.empty \<rparr>) \<rparr>"

definition upsertRoleRow :: "role \<Rightarrow> tables \<Rightarrow> tables" where
  "upsertRoleRow r T = T\<lparr> tb_Roles := (tb_Roles T)(ro_ID r \<mapsto> r\<lparr> ro_PolicyRules := [] \<rparr>),
     tb_PolicyRules := (tb_PolicyRules T)(ro_ID r := tb_PolicyRules T (ro_ID r) @ ro_PolicyRules r) \<rparr>"

definition upsertRoleBindingRow :: "role_binding \<Rightarrow> tables \<Rightarrow> tables" where
  "upsertRoleBindingRow b T = T\<lparr> tb_RoleBindings := (tb_RoleBindings T)(rb_ID b \<mapsto> b\<lparr> rb_Subjects := [] \<rparr>),
     tb_Subjects := (tb_Subjects T)(rb_ID b := tb_Subjects T (rb_ID b) @ rb_Subjects b) \<rparr>"

definition upsertTenantRow :: "tenant \<Rightarrow> tables \<Rightarrow> tables" where
  "upsertTenantRow t T = T\<lparr> tb_Tenants := (tb_Tenants T)(tn_ID t \<mapsto> t) \<rparr>"

text \<open>
  The rows of a query that scan are rows of the table with one of the identifiers;
  without an offset they are all of them, each once.
\<close>

definition rowsOf :: "object_query \<Rightarrow> tables \<Rightarrow> sql_rows \<Rightarrow> bool" where
  "rowsOf q T r \<longleftrightarrow> (\<exists>xs. distinct (map ob_ID xs) \<and>
     set xs = {x \<in> ran (tb_Objects T). case oq_Ids q of None \<Rightarrow> True | Some ids \<Rightarrow> ob_ID x \<in> set ids} \<and>
     list_all2 (\<lambda>y x. isOk y \<longrightarrow> y = Inr x) (rs_Rest r) (drop (nat (oq_Offset q)) xs))"

text \<open>A statement either succeeds with its effect or fails without one.\<close>

definition statement_ok :: "('db \<Rightarrow> tables) \<Rightarrow> 'db step \<Rightarrow> (tables \<Rightarrow> tables) \<Rightarrow> bool" where
  "statement_ok c f g \<longleftrightarrow> (\<forall>db. c (snd (f db)) = (if fst (f db) = None then g (c db) else c db))"

definition gorm_ok :: "'db gorm \<Rightarrow> bool" where
  "gorm_ok G \<longleftrightarrow>
     (\<forall>m column v. statement_ok (g_Contents G) (g_Delete G m column v) (deleteRows m column v)) \<and>
     (\<forall>r db. \<exists>rules. set rules \<subseteq> set (tb_PolicyRules (g_Contents G db) (ro_ID r)) \<and>
        g_Contents G (snd (g_AssocDeleteRules G r db)) = (g_Contents G db)\<lparr> tb_PolicyRules :=
          (tb_PolicyRules (g_Contents G db))(ro_ID r := rules) \<rparr>) \<and>
     (\<forall>b db. \<exists>subjects. set subjects \<subseteq> set (tb_Subjects (g_Contents G db) (rb_ID b)) \<and>
        g_Contents G (snd (g_AssocDeleteSubjects G b db)) = (g_Contents G db)\<lparr> tb_Subjects :=
          (tb_Subjects (g_Contents G db))(rb_ID b := subjects) \<rparr>) \<and>
     (\<forall>xs. statement_ok (g_Contents G) (g_CreateObjects G xs) (eachRow upsertObjectRow xs)) \<and>
     (\<forall>r. statement_ok (g_Contents G) (g_CreateRole G r) (upsertRoleRow r)) \<and>
     (\<forall>b. statement_ok (g_Contents G) (g_CreateRoleBinding G b) (upsertRoleBindingRow b)) \<and>
     (\<forall>t. statement_ok (g_Contents G) (g_CreateTenant G t) (upsertTenantRow t)) \<and>
     (\<forall>k db. case g_FirstObject G k db of
        Inr x \<Rightarrow> tb_Objects (g_Contents G db) k = Some x | Inl e \<Rightarrow> \<not> isPanic e) \<and>
     (\<forall>db rs. g_FindRoles G db = Inr rs \<longrightarrow> rolesRead (g_Contents G db) rs) \<and>
     (\<forall>db bs. g_FindRoleBindings G db = Inr bs \<longrightarrow> bindingsRead (g_Contents G db) bs) \<and>
     (\<forall>db ts. g_FindTenants G db = Inr ts \<longrightarrow> tenantsRead (g_Contents G db) ts) \<and>
     (\<forall>q db r. g_Rows G q db = Inr r \<longrightarrow> rowsOf q (g_Contents G db) r)"

section \<open>The store\<close>

record 'db SQLiteStore =
  sq_gorm :: "'db gorm"
  sq_db :: 'db
  sq_inflight :: "string \<Rightarrow> int"
  sq_latency :: "(string \<times> string) list"

definition FailedLabel :: string where "FailedLabel = ''error''"
definition SuccessLabel :: string where "SuccessLabel = ''success''"

definition DataStoreInflightRequests :: "string \<Rightarrow> int \<Rightarrow> 'db SQLiteStore \<Rightarrow> 'db SQLiteStore" where
  "DataStoreInflightRequests action number s =
     s\<lparr> sq_inflight := (sq_inflight s)(action := sq_inflight s action + number) \<rparr>"

definition DataStoreSetLatency :: "string \<Rightarrow> string \<Rightarrow> 'db SQLiteStore \<Rightarrow> 'db SQLiteStore" where
  "DataStoreSetLatency action status s = s\<lparr> sq_latency := sq_latency s @ [(action, status)] \<rparr>"

definition recordMetrics :: "string \<Rightarrow> goerror option \<Rightarrow> 'db SQLiteStore \<Rightarrow> 'db SQLiteStore" where
  "recordMetrics action e s =
     (let s = DataStoreInflightRequests action (-1) s in
      if e \<noteq> None then DataStoreSetLatency action FailedLabel s
      else DataStoreSetLatency action SuccessLabel s)"

text \<open>
  The first two lines of every operation. The arguments of a deferred call are
  evaluated by the defer statement: the error it is given is the value of the
  named result at that moment, which is nil.
\<close>

definition measured :: "string \<Rightarrow> ('db SQLiteStore \<Rightarrow> 'r \<times> 'db SQLiteStore) \<Rightarrow> 'db SQLiteStore \<Rightarrow>
    'r \<times> 'db SQLiteStore" where
  "measured action body s =
     (case body (DataStoreInflightRequests action 1 s) of (r, s') \<Rightarrow> (r, recordMetrics action None s'))"

definition dbStep :: "('db gorm \<Rightarrow> 'db step) \<Rightarrow> 'db SQLiteStore step" where
  "dbStep f s = (case f (sq_gorm s) (sq_db s) of (e, db) \<Rightarrow> (e, s\<lparr> sq_db := db \<rparr>))"

definition dbRead :: "string \<Rightarrow> string list \<Rightarrow> ('db gorm \<Rightarrow> 'db \<Rightarrow> 'a res) \<Rightarrow> ('db SQLiteStore, 'a) action" where
  "dbRead msg args f s =
     (case f (sq_gorm s) (sq_db s) of Inl e \<Rightarrow> (Inl (wrap msg args e), s) | Inr x \<Rightarrow> (Inr x, s))"

definition DeleteAllRoles :: "string list \<Rightarrow> 'db SQLiteStore step" where
  "DeleteAllRoles clusters = measured ''DeleteAllRoles''
     (forErr (\<lambda>cluster. wrapStep ''failed to delete all objects: %w'' []
        (dbStep (\<lambda>g. g_Delete g MRole ''cluster'' cluster))) clusters)"

definition DeleteAllRoleBindings :: "string list \<Rightarrow> 'db SQLiteStore step" where
  "DeleteAllRoleBindings clusters = measured ''DeleteAllRoleBindings''
     (forErr (\<lambda>cluster. wrapStep ''failed to delete all objects: %w'' []
        (dbStep (\<lambda>g. g_Delete g MRoleBinding ''cluster'' cluster))) clusters)"

definition DeleteAllObjects :: "string list \<Rightarrow> 'db SQLiteStore step" where
  "DeleteAllObjects clusters = measured ''DeleteAllObjects''
     (forErr (\<lambda>cluster. wrapStep ''failed to delete all objects: %w'' []
        (dbStep (\<lambda>g. g_Delete g MObject ''cluster'' cluster))) clusters)"

definition storeRole :: "role \<Rightarrow> 'db SQLiteStore step" where
  "storeRole r s =
     (case Role_Validate r of
        Some e \<Rightarrow> (Some (wrap ''invalid role: %w'' [] e), s)
      | None \<Rightarrow>
          let r = r\<lparr> ro_ID := Role_GetID r \<rparr> in
          seqErr (wrapStep ''failed to delete policy rules: %w'' []
                   (dbStep (\<lambda>g. g_Delete g MPolicyRule ''role_id'' (ro_ID r))))
          (seqErr (wrapStep ''failed to delete policy rules: %w'' []
                   (dbStep (\<lambda>g. g_AssocDeleteRules g r)))
                  (wrapStep ''failed to store role: %w'' []
                   (dbStep (\<lambda>g. g_CreateRole g r)))) s)"

definition StoreRoles :: "role list \<Rightarrow> 'db SQLiteStore step" where
  "StoreRoles roles = measured ''StoreRoles'' (forErr storeRole roles)"

definition storeRoleBinding :: "role_binding \<Rightarrow> 'db SQLiteStore step" where
  "storeRoleBinding b s =
     (case RoleBinding_Validate b of
        Some e \<Rightarrow> (Some (wrap ''invalid role binding: %w'' [] e), s)
      | None \<Rightarrow>
          let b = b\<lparr> rb_ID := RoleBinding_GetID b \<rparr> in
          seqErr (wrapStep ''failed to delete subjects: %w'' []
                   (dbStep (\<lambda>g. g_Delete g MSubject ''role_binding_id'' (rb_ID b))))
          (seqErr (wrapStep ''failed to delete subjects: %w'' []
                   (dbStep (\<lambda>g. g_AssocDeleteSubjects g b)))
                  (wrapStep ''failed to store role binding: %w'' []
                   (dbStep (\<lambda>g. g_CreateRoleBinding g b)))) s)"

definition StoreRoleBindings :: "role_binding list \<Rightarrow> 'db SQLiteStore step" where
  "StoreRoleBindings roleBindings = measured ''StoreRoleBindings'' (forErr storeRoleBinding roleBindings)"

definition StoreObjects :: "object list \<Rightarrow> 'db SQLiteStore step" where
  "StoreObjects objects = measured ''StoreObjects'' (\<lambda>s.
     if length objects = 0 then (None, s)
     else case mapRes (\<lambda>x. case Object_Validate x of
                 Some e \<Rightarrow> Inl (wrap ''invalid object: %w'' [] e)
               | None \<Rightarrow> Inr (x\<lparr> ob_ID := Object_GetID x \<rparr>)) objects of
            Inl e \<Rightarrow> (Some e, s)
          | Inr rows \<Rightarrow> wrapStep ''failed to store object: %w'' [] (dbStep (\<lambda>g. g_CreateObjects g rows)) s)"

definition storeTenant :: "tenant \<Rightarrow> 'db SQLiteStore step" where
  "storeTenant t s =
     (case Tenant_Validate t of
        Some e \<Rightarrow> (None, s)
      | None \<Rightarrow>
          let t = t\<lparr> tn_ID := Tenant_GetID t \<rparr> in
          wrapStep ''failed to store tenant: %w'' [] (dbStep (\<lambda>g. g_CreateTenant g t)) s)"

definition StoreTenants :: "tenant list \<Rightarrow> 'db SQLiteStore step" where
  "StoreTenants tenants = measured ''StoreTenants'' (forErr storeTenant tenants)"

definition GetObjectByID :: "string \<Rightarrow> ('db SQLiteStore, object) action" where
  "GetObjectByID k = measured ''GetObjectByID''
     (dbRead ''failed to get object: %s with error: %w'' [k] (\<lambda>g. g_FirstObject g k))"

text \<open>QueryOption, nil or the four values of the interface.\<close>

record query_option =
  qo_Limit :: int
  qo_Offset :: int
  qo_OrderBy :: string
  qo_Descending :: bool

definition GetObjects :: "string list option \<Rightarrow> query_option option \<Rightarrow> ('db SQLiteStore, sql_rows) action" where
  "GetObjects ids opts = measured ''GetObjects'' (\<lambda>s.
     let offset = (case opts of Some o' \<Rightarrow> if qo_Offset o' \<noteq> 0 then qo_Offset o' else -1 | None \<Rightarrow> -1);
         orderBy = (case opts of Some o' \<Rightarrow> if qo_OrderBy o' \<noteq> [] then qo_OrderBy o' else [] | None \<Rightarrow> []);
         tx = \<lparr> oq_Offset = offset, oq_Order = orderBy, oq_Ids = ids \<rparr>
     in (sqliterator_New (g_Rows (sq_gorm s) tx (sq_db s)), s))"

definition GetAllObjects :: "('db SQLiteStore, sql_rows) action" where
  "GetAllObjects s =
     (case g_FindObjects (sq_gorm s) (sq_db s) of
        Inl e \<Rightarrow> (Inl (wrap ''failed to get objects: %w'' [] e), s)
      | Inr objects \<Rightarrow>
          (sqliterator_New (g_Rows (sq_gorm s) \<lparr> oq_Offset = -1, oq_Order = [], oq_Ids = None \<rparr> (sq_db s)), s))"

definition GetRoles :: "('db SQLiteStore, role list) action" where
  "GetRoles = measured ''GetRoles'' (dbRead ''failed to get roles: %w'' [] g_FindRoles)"

definition GetRoleBindings :: "('db SQLiteStore, role_binding list) action" where
  "GetRoleBindings = measured ''GetRoleBindings''
     (dbRead ''failed to get rolebindings: %w'' [] g_FindRoleBindings)"

definition GetAccessRules :: "('db SQLiteStore, access_rule list) action" where
  "GetAccessRules = measured ''GetAccessRules'' (\<lambda>s.
     case dbRead ''failed to get roles: %w'' [] g_FindRoles s of
       (Inl e, s) \<Rightarrow> (Inl e, s)
     | (Inr roles, s) \<Rightarrow>
         (case dbRead ''failed to get role bindings: %w'' [] g_FindRoleBindings s of
            (Inl e, s) \<Rightarrow> (Inl e, s)
          | (Inr bindings, s) \<Rightarrow> (Inr (DeriveAccessRules roles bindings), s)))"

definition GetTenants :: "('db SQLiteStore, tenant list) action" where
  "GetTenants = measured ''GetTenants'' (dbRead ''failed to get tenants: %w'' [] g_FindTenants)"

definition DeleteObjects :: "object list \<Rightarrow> 'db SQLiteStore step" where
  "DeleteObjects objects = measured ''DeleteObjects'' (forErr (\<lambda>x s.
     case Object_Validate x of
       Some e \<Rightarrow> (Some (wrap ''invalid object: %w'' [] e), s)
     | None \<Rightarrow> wrapStep ''failed to delete object: %w'' []
                (dbStep (\<lambda>g. g_Delete g MObject ''id'' (Object_GetID x))) s) objects)"

definition DeleteRoles :: "role list \<Rightarrow> 'db SQLiteStore step" where
  "DeleteRoles roles = measured ''DeleteRoles'' (forErr (\<lambda>r s.
     case snd (Role_IsValidID r) of
       Some e \<Rightarrow> (Some (wrap ''invalid role ID: %w'' [] e), s)
     | None \<Rightarrow> wrapStep ''failed to delete role: %w'' []
                (dbStep (\<lambda>g. g_Delete g MRole ''id'' (Role_GetID r))) s) roles)"

definition DeleteRoleBindings :: "role_binding list \<Rightarrow> 'db SQLiteStore step" where
  "DeleteRoleBindings roleBindings = measured ''DeleteRoleBindings'' (forErr (\<lambda>b s.
     case RoleBinding_Validate b of
       Some e \<Rightarrow> (Some (wrap ''invalid role binding: %w'' [] e), s)
     | None \<Rightarrow> wrapStep ''failed to delete role binding: %w'' []
                (dbStep (\<lambda>g. g_Delete g MRoleBinding ''id'' (RoleBinding_GetID b))) s) roleBindings)"

definition DeleteTenants :: "tenant list \<Rightarrow> 'db SQLiteStore step" where
  "DeleteTenants tenants = measured ''DeleteTenants'' (forErr (\<lambda>t s.
     case Tenant_Validate t of
       Some e \<Rightarrow> (Some (wrap ''invalid tenant: %w'' [] e), s)
     | None \<Rightarrow> wrapStep ''failed to delete tenant: %w'' []
                (dbStep (\<lambda>g. g_Delete g MTenant ''id'' (Tenant_GetID t))) s) tenants)"

section \<open>Opening the store\<close>

text \<open>The file system and the functions of gorm that open and prepare a database.\<close>

record 'db db_env =
  en_Join :: "string \<Rightarrow> string \<Rightarrow> string"
  en_MkdirAll :: "string \<Rightarrow> goerror option"
  en_Open :: "string \<Rightarrow> 'db res"
  en_DB :: "'db \<Rightarrow> goerror option"
  en_SetMaxOpenConns :: "int \<Rightarrow> 'db \<Rightarrow> 'db"
  en_AutoMigrate :: "db_model list \<Rightarrow> 'db step"
  en_Gorm :: "'db gorm"

definition CreateSQLiteDB :: "'db db_env \<Rightarrow> string \<Rightarrow> 'db res" where
  "CreateSQLiteDB env path =
     (let dbFileLocation = en_Join env path ''resources.db'' in
      case en_MkdirAll env path of
        Some e \<Rightarrow> Inl (wrap ''failed to create cache directory: %w'' [] e)
      | None \<Rightarrow>
          (case en_Open env dbFileLocation of
             Inl e \<Rightarrow> Inl (wrap ''failed to open database: %w'' [] e)
           | Inr db \<Rightarrow>
               (case en_DB env db of
                  Some e \<Rightarrow> Inl (wrap ''failed to create sql database: %w'' [] e)
                | None \<Rightarrow>
                    (case en_AutoMigrate env [MObject, MRole, MSubject, MRoleBinding, MPolicyRule, MTenant]
                            (en_SetMaxOpenConns env 1 db) of
                       (Some e, db) \<Rightarrow> Inl (wrap ''failed to migrate database: %w'' [] e)
                     | (None, db) \<Rightarrow> Inr db))))"

definition NewSQLiteStore :: "'db db_env \<Rightarrow> 'db \<Rightarrow> 'db SQLiteStore" where
  "NewSQLiteStore env db = \<lparr> sq_gorm = en_Gorm env, sq_db = db, sq_inflight = (\<lambda>_. 0), sq_latency = [] \<rparr>"

definition NewStore :: "'db db_env \<Rightarrow> string \<Rightarrow> string \<Rightarrow> 'db SQLiteStore res" where
  "NewStore env backend uri =
     (if backend = ''sqlite'' then
        (case CreateSQLiteDB env uri of
           Inl e \<Rightarrow> Inl (wrap ''error creating sqlite db: %w'' [] e)
         | Inr db \<Rightarrow> Inr (NewSQLiteStore env db))
      else Inl (Errf ''unknown storage backend: %s'' [backend]))"

text \<open>SeedObjects sets the identifiers and creates the rows, without validating them.\<close>

definition SeedObjects :: "'db gorm \<Rightarrow> object list \<Rightarrow> 'db step" where
  "SeedObjects g objs db =
     g_CreateObjects g (foldl (\<lambda>withID x. withID @ [x\<lparr> ob_ID := Object_GetID x \<rparr>]) [] objs) db"

section \<open>Effects on the rows\<close>

definition rows :: "'db SQLiteStore \<Rightarrow> tables" where
  "rows s = g_Contents (sq_gorm s) (sq_db s)"

definition sq_inv :: "'db SQLiteStore \<Rightarrow> bool" where
  "sq_inv s \<longleftrightarrow> gorm_ok (sq_gorm s)"

named_theorems db_simps \<open>the rows after a database call\<close>

lemma metrics_rows [simp, db_simps]:
  "rows (DataStoreInflightRequests a n s) = rows s" "rows (recordMetrics a e s) = rows s"
  "sq_inv (DataStoreInflightRequests a n s) = sq_inv s" "sq_inv (recordMetrics a e s) = sq_inv s"
  by (simp_all add: rows_def sq_inv_def DataStoreInflightRequests_def recordMetrics_def
      DataStoreSetLatency_def Let_def)

lemma measured_cases:
  assumes "measured a body s = (r, s')"
  obtains s1 where "body (DataStoreInflightRequests a 1 s) = (r, s1)" "s' = recordMetrics a None s1"
  using assms by (auto simp: measured_def split: prod.splits)

lemma gorm_okD:
  assumes "gorm_ok G"
  shows "statement_ok (g_Contents G) (g_Delete G m column v) (deleteRows m column v)"
    "statement_ok (g_Contents G) (g_CreateObjects G xs) (eachRow upsertObjectRow xs)"
    "statement_ok (g_Contents G) (g_CreateRole G r) (upsertRoleRow r)"
    "statement_ok (g_Contents G) (g_CreateRoleBinding G b) (upsertRoleBindingRow b)"
    "statement_ok (g_Contents G) (g_CreateTenant G t) (upsertTenantRow t)"
  using assms by (simp_all add: gorm_ok_def)

lemma dbStep_parts [db_simps]:
  "fst (dbStep f s) = fst (f (sq_gorm s) (sq_db s))"
  "snd (dbStep f s) = s\<lparr> sq_db := snd (f (sq_gorm s) (sq_db s)) \<rparr>"
  by (simp_all add: dbStep_def split: prod.splits)

lemma rows_update [db_simps]: "rows (s\<lparr> sq_db := db \<rparr>) = g_Contents (sq_gorm s) db"
  "sq_inv (s\<lparr> sq_db := db \<rparr>) = sq_inv s"
  by (simp_all add: rows_def sq_inv_def)

definition does :: "'db SQLiteStore step \<Rightarrow> (tables \<Rightarrow> tables) \<Rightarrow> 'db SQLiteStore \<Rightarrow> bool" where
  "does f g s \<longleftrightarrow> sq_inv (snd (f s)) \<and> rows (snd (f s)) = (if fst (f s) = None then g (rows s) else rows s)"

lemma does_dbStep:
  assumes "sq_inv s" "statement_ok (g_Contents (sq_gorm s)) (f (sq_gorm s)) g"
  shows "does (wrapStep m a (dbStep f)) g s"
  using assms by (simp add: does_def db_simps statement_ok_def) (simp add: rows_def)

lemma statements_do:
  assumes "sq_inv s"
  shows "does (wrapStep m a (dbStep (\<lambda>g. g_Delete g model column v))) (deleteRows model column v) s"
    "does (wrapStep m a (dbStep (\<lambda>g. g_CreateObjects g xs))) (eachRow upsertObjectRow xs) s"
    "does (wrapStep m a (dbStep (\<lambda>g. g_CreateRole g r))) (upsertRoleRow r) s"
    "does (wrapStep m a (dbStep (\<lambda>g. g_CreateRoleBinding g b))) (upsertRoleBindingRow b) s"
    "does (wrapStep m a (dbStep (\<lambda>g. g_CreateTenant g t))) (upsertTenantRow t) s"
  by (rule does_dbStep [OF assms], rule gorm_okD, use assms in \<open>simp add: sq_inv_def\<close>)+

lemma doesD:
  assumes "does f g s" "f s = (e, s')"
  shows "sq_inv s' \<and> rows s' = (if e = None then g (rows s) else rows s)"
  using assms by (simp add: does_def)

text \<open>A loop of deletes: all of them, or a prefix when one fails.\<close>

lemma delete_loop:
  assumes inv: "sq_inv s"
    and loop: "forErr (\<lambda>x s. case check x of Some e \<Rightarrow> (Some (wrap m1 a1 e), s)
        | None \<Rightarrow> wrapStep m a (dbStep (\<lambda>g. g_Delete g model column (key x))) s) xs s = (e, s')"
    and drop: "\<And>x T. deleteRows model column (key x) T = drp x T"
  shows "sq_inv s' \<and> (if e = None then (\<forall>x\<in>set xs. check x = None) \<and> rows s' = eachRow drp xs (rows s)
                       else partly drp xs (rows s) (rows s'))"
proof -
  let ?f = "\<lambda>x s. case check x of Some e \<Rightarrow> (Some (wrap m1 a1 e), s)
        | None \<Rightarrow> wrapStep m a (dbStep (\<lambda>g. g_Delete g model column (key x))) s"
  have f: "sq_inv (snd (?f x s)) \<and> rows (snd (?f x s)) = (if fst (?f x s) = None then drp x (rows s) else rows s)"
    if "sq_inv s" for x s
  proof (cases "check x")
    case None
    then show ?thesis
      using statements_do(1) [OF that, of m a model column "key x"] drop by (simp add: does_def)
  qed (simp add: that)
  have ok: "sq_inv (snd (?f x s)) \<and> rows (snd (?f x s)) = drp x (rows s)"
    if "sq_inv s" "fst (?f x s) = None" for x s
    using f [OF that(1), of x] unfolding if_P [OF that(2)] .
  have bad: "sq_inv (snd (?f x s)) \<and> rows (snd (?f x s)) = rows s"
    if "sq_inv s" "fst (?f x s) \<noteq> None" for x s
    using f [OF that(1), of x] unfolding if_not_P [OF that(2)] .
  have run: "forErr ?f xs s = (e, s')" by (fact loop)
  show ?thesis
  proof (cases e)
    case None
    have "\<forall>x\<in>set xs. check x = None"
    proof -
      have chk: "fst (forErr ?f xs s) = None \<Longrightarrow> \<forall>x\<in>set xs. check x = None" for s
      proof (induction xs arbitrary: s)
        case (Cons x xs)
        then show ?case by (cases "check x"; cases "?f x s"; cases "fst (?f x s)") auto
      qed simp
      show ?thesis by (rule chk [of s]) (use loop None in simp)
    qed
    moreover have "sq_inv s' \<and> rows s' = foldl (\<lambda>t x. drp x t) (rows s) xs"
      by (rule forErr_effect [where I = sq_inv and c = rows and f = ?f]) (erule (1) ok, rule inv, rule run [unfolded None])
    ultimately show ?thesis using None by (simp add: eachRow_def)
  next
    case (Some e1)
    have "sq_inv s' \<and> (\<exists>ys y zs. xs = ys @ y # zs \<and> rows s' = foldl (\<lambda>t x. drp x t) (rows s) ys)"
      by (rule forErr_effect_err [where I = sq_inv and c = rows and f = ?f and h = "\<lambda>y t t'. t' = t"])
         (erule (1) ok, erule (1) bad, rule inv, rule run [unfolded Some])
    then obtain ys y zs where "sq_inv s'" "xs = ys @ y # zs" "rows s' = eachRow drp ys (rows s)"
      by (auto simp: eachRow_def)
    then show ?thesis using Some unfolding partly_def by (auto intro: exI [of _ ys])
  qed
qed

lemma seqErr_parts:
  "fst (seqErr f g s) = None \<Longrightarrow> fst (f s) = None \<and> fst (g (snd (f s))) = None \<and>
     snd (seqErr f g s) = snd (g (snd (f s)))"
  by (auto split: prod.splits option.splits)

lemma gorm_assoc_rules:
  assumes "gorm_ok G"
  shows "\<exists>rules. set rules \<subseteq> set (tb_PolicyRules (g_Contents G db) (ro_ID r)) \<and>
        g_Contents G (snd (g_AssocDeleteRules G r db)) = (g_Contents G db)\<lparr> tb_PolicyRules :=
          (tb_PolicyRules (g_Contents G db))(ro_ID r := rules) \<rparr>"
  using assms [unfolded gorm_ok_def, THEN conjunct2, THEN conjunct1] by (rule allE) (rule spec)

lemma gorm_assoc_subjects:
  assumes "gorm_ok G"
  shows "\<exists>subjects. set subjects \<subseteq> set (tb_Subjects (g_Contents G db) (rb_ID b)) \<and>
        g_Contents G (snd (g_AssocDeleteSubjects G b db)) = (g_Contents G db)\<lparr> tb_Subjects :=
          (tb_Subjects (g_Contents G db))(rb_ID b := subjects) \<rparr>"
  using assms [unfolded gorm_ok_def, THEN conjunct2, THEN conjunct2, THEN conjunct1]
  by (rule allE) (rule spec)

lemma sq_assoc_rules:
  assumes "sq_inv s" "tb_PolicyRules (rows s) (ro_ID r) = []"
  shows "sq_inv (snd (dbStep (\<lambda>g. g_AssocDeleteRules g r) s)) \<and>
    rows (snd (dbStep (\<lambda>g. g_AssocDeleteRules g r) s)) = rows s"
proof -
  obtain rules where "set rules \<subseteq> set (tb_PolicyRules (rows s) (ro_ID r))"
    "g_Contents (sq_gorm s) (snd (g_AssocDeleteRules (sq_gorm s) r (sq_db s))) =
       (rows s)\<lparr> tb_PolicyRules := (tb_PolicyRules (rows s))(ro_ID r := rules) \<rparr>"
    using gorm_assoc_rules [OF assms(1) [unfolded sq_inv_def]] unfolding rows_def by blast
  moreover from this assms(2) have "rules = []" by simp
  moreover have "(rows s)\<lparr> tb_PolicyRules := (tb_PolicyRules (rows s))(ro_ID r := []) \<rparr> = rows s"
    using assms(2) by (cases "rows s") (simp add: fun_upd_idem)
  ultimately show ?thesis using assms by (simp add: db_simps)
qed

lemma sq_assoc_subjects:
  assumes "sq_inv s" "tb_Subjects (rows s) (rb_ID b) = []"
  shows "sq_inv (snd (dbStep (\<lambda>g. g_AssocDeleteSubjects g b) s)) \<and>
    rows (snd (dbStep (\<lambda>g. g_AssocDeleteSubjects g b) s)) = rows s"
proof -
  obtain subjects where "set subjects \<subseteq> set (tb_Subjects (rows s) (rb_ID b))"
    "g_Contents (sq_gorm s) (snd (g_AssocDeleteSubjects (sq_gorm s) b (sq_db s))) =
       (rows s)\<lparr> tb_Subjects := (tb_Subjects (rows s))(rb_ID b := subjects) \<rparr>"
    using gorm_assoc_subjects [OF assms(1) [unfolded sq_inv_def]] unfolding rows_def by blast
  moreover from this assms(2) have "subjects = []" by simp
  moreover have "(rows s)\<lparr> tb_Subjects := (tb_Subjects (rows s))(rb_ID b := []) \<rparr> = rows s"
    using assms(2) by (cases "rows s") (simp add: fun_upd_idem)
  ultimately show ?thesis using assms by (simp add: db_simps)
qed

text \<open>Storing a role replaces its row and all of its rules.\<close>

lemma storeRole_effect:
  assumes "sq_inv s" "fst (storeRole r s) = None"
  shows "Role_Validate r = None \<and> sq_inv (snd (storeRole r s)) \<and>
    rows (snd (storeRole r s)) = putRole r (rows s)"
proof -
  have v: "Role_Validate r = None" using assms(2) by (auto simp: storeRole_def split: option.splits)
  define r' where "r' = r\<lparr> ro_ID := Role_GetID r \<rparr>"
  let ?f1 = "wrapStep ''failed to delete policy rules: %w'' []
      (dbStep (\<lambda>g. g_Delete g MPolicyRule ''role_id'' (ro_ID r')))"
  let ?f2 = "wrapStep ''failed to delete policy rules: %w'' [] (dbStep (\<lambda>g. g_AssocDeleteRules g r'))"
  let ?f3 = "wrapStep ''failed to store role: %w'' [] (dbStep (\<lambda>g. g_CreateRole g r'))"
  have run: "storeRole r s = seqErr ?f1 (seqErr ?f2 ?f3) s"
    using v by (simp add: storeRole_def Let_def r'_def del: seqErr.simps)
  let ?s1 = "snd (?f1 s)" let ?s2 = "snd (?f2 ?s1)" let ?s3 = "snd (?f3 ?s2)"
  have parts: "fst (?f1 s) = None" "fst (?f2 ?s1) = None" "fst (?f3 ?s2) = None" "snd (storeRole r s) = ?s3"
    using assms(2) seqErr_parts [of ?f1 "seqErr ?f2 ?f3" s] seqErr_parts [of ?f2 ?f3 ?s1]
    unfolding run by simp_all
  have s1: "sq_inv ?s1" "rows ?s1 = deleteRows MPolicyRule ''role_id'' (ro_ID r') (rows s)"
    using statements_do(1) [OF assms(1)] parts(1) unfolding does_def by metis+
  have s2: "sq_inv ?s2 \<and> rows ?s2 = rows ?s1"
    using sq_assoc_rules [OF s1(1), of r'] s1(2) by (simp add: deleteRows_def)
  have s3: "sq_inv ?s3" "rows ?s3 = upsertRoleRow r' (rows ?s2)"
    using statements_do(3) [of ?s2] s2 parts(3) unfolding does_def by metis+
  show ?thesis using v s3 s2 s1 unfolding parts(4)
    by (simp add: upsertRoleRow_def deleteRows_def putRole_def roleRow_def r'_def)
qed

lemma storeRoleBinding_effect:
  assumes "sq_inv s" "fst (storeRoleBinding b s) = None"
  shows "RoleBinding_Validate b = None \<and> sq_inv (snd (storeRoleBinding b s)) \<and>
    rows (snd (storeRoleBinding b s)) = putRoleBinding b (rows s)"
proof -
  have v: "RoleBinding_Validate b = None"
    using assms(2) by (auto simp: storeRoleBinding_def split: option.splits)
  define b' where "b' = b\<lparr> rb_ID := RoleBinding_GetID b \<rparr>"
  let ?f1 = "wrapStep ''failed to delete subjects: %w'' []
      (dbStep (\<lambda>g. g_Delete g MSubject ''role_binding_id'' (rb_ID b')))"
  let ?f2 = "wrapStep ''failed to delete subjects: %w'' [] (dbStep (\<lambda>g. g_AssocDeleteSubjects g b'))"
  let ?f3 = "wrapStep ''failed to store role binding: %w'' [] (dbStep (\<lambda>g. g_CreateRoleBinding g b'))"
  have run: "storeRoleBinding b s = seqErr ?f1 (seqErr ?f2 ?f3) s"
    using v by (simp add: storeRoleBinding_def Let_def b'_def del: seqErr.simps)
  let ?s1 = "snd (?f1 s)" let ?s2 = "snd (?f2 ?s1)" let ?s3 = "snd (?f3 ?s2)"
  have parts: "fst (?f1 s) = None" "fst (?f2 ?s1) = None" "fst (?f3 ?s2) = None"
    "snd (storeRoleBinding b s) = ?s3"
    using assms(2) seqErr_parts [of ?f1 "seqErr ?f2 ?f3" s] seqErr_parts [of ?f2 ?f3 ?s1]
    unfolding run by simp_all
  have s1: "sq_inv ?s1" "rows ?s1 = deleteRows MSubject ''role_binding_id'' (rb_ID b') (rows s)"
    using statements_do(1) [OF assms(1)] parts(1) unfolding does_def by metis+
  have s2: "sq_inv ?s2 \<and> rows ?s2 = rows ?s1"
    using sq_assoc_subjects [OF s1(1), of b'] s1(2) by (simp add: deleteRows_def)
  have s3: "sq_inv ?s3" "rows ?s3 = upsertRoleBindingRow b' (rows ?s2)"
    using statements_do(4) [of ?s2] s2 parts(3) unfolding does_def by metis+
  show ?thesis using v s3 s2 s1 unfolding parts(4)
    by (simp add: upsertRoleBindingRow_def deleteRows_def putRoleBinding_def roleBindingRow_def b'_def)
qed

lemma storeTenant_effect:
  assumes "sq_inv s" "fst (storeTenant t s) = None"
  shows "sq_inv (snd (storeTenant t s)) \<and>
    rows (snd (storeTenant t s)) = (if Tenant_Validate t = None then putTenant t (rows s) else rows s)"
proof (cases "Tenant_Validate t")
  case None
  then show ?thesis
    using statements_do(5) [OF assms(1), of "''failed to store tenant: %w''" "[]" "t\<lparr> tn_ID := Tenant_GetID t \<rparr>"]
      assms(2)
    by (simp add: storeTenant_def does_def upsertTenantRow_def putTenant_def tenantRow_def Let_def)
qed (use assms in \<open>simp add: storeTenant_def\<close>)

section \<open>The operations keep the promises of the interface\<close>

lemma measured_effect:
  assumes "measured a body s = (r, s')" "sq_inv s"
  obtains s0 s1 where "body s0 = (r, s1)" "sq_inv s0" "rows s0 = rows s" "rows s' = rows s1"
    "sq_inv s' = sq_inv s1"
  using assms(1)
proof (rule measured_cases)
  fix s1 assume "body (DataStoreInflightRequests a 1 s) = (r, s1)" "s' = recordMetrics a None s1"
  then show thesis using that [of "DataStoreInflightRequests a 1 s" s1] assms(2) by simp
qed

lemma measured_delete:
  fixes s :: "'db SQLiteStore"
  assumes "measured a (forErr (\<lambda>x s. case check x of Some e \<Rightarrow> (Some (wrap m1 a1 e), s)
        | None \<Rightarrow> wrapStep m b (dbStep (\<lambda>g. g_Delete g model column (key x))) s) xs) s = (e, s')"
    "sq_inv s" "\<And>x T. deleteRows model column (key x) T = drp x T"
  shows "sq_inv s' \<and> (if e = None then (\<forall>x\<in>set xs. check x = None) \<and> rows s' = eachRow drp xs (rows s)
                       else partly drp xs (rows s) (rows s'))"
proof -
  obtain s0 s1 :: "'db SQLiteStore" where run: "forErr (\<lambda>x s. case check x of Some e \<Rightarrow> (Some (wrap m1 a1 e), s)
        | None \<Rightarrow> wrapStep m b (dbStep (\<lambda>g. g_Delete g model column (key x))) s) xs s0 = (e, s1)"
    "sq_inv s0" "rows s0 = rows s" "rows s' = rows s1" "sq_inv s' = sq_inv s1"
    using assms(1,2) by (rule measured_effect)
  show ?thesis using delete_loop [OF run(2,1) assms(3)] unfolding run(3) run(4,5) [symmetric] .
qed

lemma deleteRows_drop:
  "deleteRows MObject ''id'' (Object_GetID x) T = dropObject x T"
  "deleteRows MRole ''id'' (Role_GetID r) T = dropRole r T"
  "deleteRows MRoleBinding ''id'' (RoleBinding_GetID b) T = dropRoleBinding b T"
  "deleteRows MTenant ''id'' (Tenant_GetID t) T = dropTenant t T"
  "deleteRows MObject ''cluster'' c T = dropClusterObjects c T"
  "deleteRows MRole ''cluster'' c T = dropClusterRoles c T"
  "deleteRows MRoleBinding ''cluster'' c T = dropClusterBindings c T"
  by (simp_all add: deleteRows_def dropObject_def dropRole_def dropRoleBinding_def dropTenant_def
      dropClusterObjects_def dropClusterRoles_def dropClusterBindings_def)

lemma DeleteObjects_effect:
  assumes "sq_inv s" "DeleteObjects xs s = (e, s')"
  shows "sq_inv s' \<and> (if e = None then (\<forall>x\<in>set xs. Object_Validate x = None) \<and>
      rows s' = eachRow dropObject xs (rows s) else partly dropObject xs (rows s) (rows s'))"
  by (rule measured_delete [OF assms(2) [unfolded DeleteObjects_def] assms(1) deleteRows_drop(1)])

lemma DeleteRoles_effect:
  assumes "sq_inv s" "DeleteRoles xs s = (e, s')"
  shows "sq_inv s' \<and> (if e = None then (\<forall>r\<in>set xs. snd (Role_IsValidID r) = None) \<and>
      rows s' = eachRow dropRole xs (rows s) else partly dropRole xs (rows s) (rows s'))"
  by (rule measured_delete [OF assms(2) [unfolded DeleteRoles_def] assms(1) deleteRows_drop(2)])

lemma DeleteRoleBindings_effect:
  assumes "sq_inv s" "DeleteRoleBindings xs s = (e, s')"
  shows "sq_inv s' \<and> (if e = None then (\<forall>b\<in>set xs. RoleBinding_Validate b = None) \<and>
      rows s' = eachRow dropRoleBinding xs (rows s) else partly dropRoleBinding xs (rows s) (rows s'))"
  by (rule measured_delete [OF assms(2) [unfolded DeleteRoleBindings_def] assms(1) deleteRows_drop(3)])

lemma DeleteTenants_effect:
  assumes "sq_inv s" "DeleteTenants xs s = (e, s')"
  shows "sq_inv s' \<and> (if e = None then (\<forall>t\<in>set xs. Tenant_Validate t = None) \<and>
      rows s' = eachRow dropTenant xs (rows s) else partly dropTenant xs (rows s) (rows s'))"
  by (rule measured_delete [OF assms(2) [unfolded DeleteTenants_def] assms(1) deleteRows_drop(4)])

lemma measured_delete_all:
  assumes "measured a (forErr (\<lambda>c. wrapStep m b (dbStep (\<lambda>g. g_Delete g model column c))) cs) s = (e, s')"
    "sq_inv s" "\<And>c T. deleteRows model column c T = drp c T"
  shows "sq_inv s' \<and> (if e = None then rows s' = eachRow drp cs (rows s)
                       else partly drp cs (rows s) (rows s'))"
proof -
  have "(\<lambda>c. wrapStep m b (dbStep (\<lambda>g. g_Delete g model column c))) =
     (\<lambda>x s. case (None :: goerror option) of Some e \<Rightarrow> (Some (wrap [] [] e), s)
        | None \<Rightarrow> wrapStep m b (dbStep (\<lambda>g. g_Delete g model column x)) s)" by (simp add: fun_eq_iff)
  from measured_delete [OF assms(1) [unfolded this] assms(2,3)] show ?thesis by simp
qed

lemma DeleteAllObjects_effect:
  assumes "sq_inv s" "DeleteAllObjects cs s = (e, s')"
  shows "sq_inv s' \<and> (if e = None then rows s' = eachRow dropClusterObjects cs (rows s)
                       else partly dropClusterObjects cs (rows s) (rows s'))"
  by (rule measured_delete_all [OF assms(2) [unfolded DeleteAllObjects_def] assms(1) deleteRows_drop(5)])

lemma DeleteAllRoles_effect:
  assumes "sq_inv s" "DeleteAllRoles cs s = (e, s')"
  shows "sq_inv s' \<and> (if e = None then rows s' = eachRow dropClusterRoles cs (rows s)
                       else partly dropClusterRoles cs (rows s) (rows s'))"
  by (rule measured_delete_all [OF assms(2) [unfolded DeleteAllRoles_def] assms(1) deleteRows_drop(6)])

lemma DeleteAllRoleBindings_effect:
  assumes "sq_inv s" "DeleteAllRoleBindings cs s = (e, s')"
  shows "sq_inv s' \<and> (if e = None then rows s' = eachRow dropClusterBindings cs (rows s)
                       else partly dropClusterBindings cs (rows s) (rows s'))"
  by (rule measured_delete_all [OF assms(2) [unfolded DeleteAllRoleBindings_def] assms(1) deleteRows_drop(7)])

lemma forErr_ok_all:
  "forErr f xs s = (None, s') \<Longrightarrow> (\<And>x s. x \<in> set xs \<Longrightarrow> fst (f x s) = None \<Longrightarrow> P x) \<Longrightarrow> \<forall>x\<in>set xs. P x"
proof (induction xs arbitrary: s)
  case (Cons x xs)
  obtain e s1 where f: "f x s = (e, s1)" by force
  with Cons.prems(1) have e: "e = None" "forErr f xs s1 = (None, s')" by (cases e; simp)+
  have "P x" by (rule Cons.prems(2) [of x s]) (simp_all add: f e)
  moreover have "\<forall>x\<in>set xs. P x"
    by (rule Cons.IH [OF e(2)]) (erule (1) Cons.prems(2) [OF list.set_intros(2)])
  ultimately show ?case by simp
qed simp

lemma StoreRoles_effect:
  fixes s :: "'db SQLiteStore"
  assumes "sq_inv s" "StoreRoles xs s = (None, s')"
  shows "sq_inv s' \<and> (\<forall>r\<in>set xs. Role_Validate r = None) \<and> rows s' = eachRow putRole xs (rows s)"
proof -
  obtain s0 s1 :: "'db SQLiteStore" where run: "forErr storeRole xs s0 = (None, s1)" "sq_inv s0" "rows s0 = rows s"
    "rows s' = rows s1" "sq_inv s' = sq_inv s1"
    using assms(2) [unfolded StoreRoles_def] assms(1) by (rule measured_effect)
  have "sq_inv s1 \<and> rows s1 = foldl (\<lambda>t x. putRole x t) (rows s0) xs"
    by (rule forErr_effect [where I = sq_inv and c = rows and f = storeRole])
       (use storeRole_effect in blast, rule run, rule run)
  moreover have "\<forall>r\<in>set xs. Role_Validate r = None"
    by (rule forErr_ok_all [OF run(1)]) (auto simp: storeRole_def split: option.splits)
  ultimately show ?thesis using run by (simp add: eachRow_def)
qed

lemma StoreRoleBindings_effect:
  fixes s :: "'db SQLiteStore"
  assumes "sq_inv s" "StoreRoleBindings xs s = (None, s')"
  shows "sq_inv s' \<and> (\<forall>b\<in>set xs. RoleBinding_Validate b = None) \<and> rows s' = eachRow putRoleBinding xs (rows s)"
proof -
  obtain s0 s1 :: "'db SQLiteStore" where run: "forErr storeRoleBinding xs s0 = (None, s1)" "sq_inv s0" "rows s0 = rows s"
    "rows s' = rows s1" "sq_inv s' = sq_inv s1"
    using assms(2) [unfolded StoreRoleBindings_def] assms(1) by (rule measured_effect)
  have "sq_inv s1 \<and> rows s1 = foldl (\<lambda>t x. putRoleBinding x t) (rows s0) xs"
    by (rule forErr_effect [where I = sq_inv and c = rows and f = storeRoleBinding])
       (use storeRoleBinding_effect in blast, rule run, rule run)
  moreover have "\<forall>b\<in>set xs. RoleBinding_Validate b = None"
    by (rule forErr_ok_all [OF run(1)]) (auto simp: storeRoleBinding_def split: option.splits)
  ultimately show ?thesis using run by (simp add: eachRow_def)
qed

lemma StoreTenants_effect:
  fixes s :: "'db SQLiteStore"
  assumes "sq_inv s" "StoreTenants xs s = (None, s')"
  shows "sq_inv s' \<and> rows s' = eachRow putTenant (filter (\<lambda>t. Tenant_Validate t = None) xs) (rows s)"
proof -
  obtain s0 s1 :: "'db SQLiteStore" where run: "forErr storeTenant xs s0 = (None, s1)" "sq_inv s0" "rows s0 = rows s"
    "rows s' = rows s1" "sq_inv s' = sq_inv s1"
    using assms(2) [unfolded StoreTenants_def] assms(1) by (rule measured_effect)
  have "sq_inv s1 \<and> rows s1 = foldl (\<lambda>T t. if Tenant_Validate t = None then putTenant t T else T) (rows s0) xs"
    by (rule forErr_effect [where I = sq_inv and c = rows and f = storeTenant])
       (use storeTenant_effect in blast, rule run, rule run)
  moreover have "foldl (\<lambda>T t. if Tenant_Validate t = None then putTenant t T else T) T xs =
      eachRow putTenant (filter (\<lambda>t. Tenant_Validate t = None) xs) T" for T
    by (induction xs arbitrary: T) auto
  ultimately show ?thesis using run by simp
qed

lemma StoreObjects_effect:
  fixes s :: "'db SQLiteStore"
  assumes "sq_inv s" "StoreObjects xs s = (e, s')"
  shows "sq_inv s' \<and> (if e = None then (\<forall>x\<in>set xs. Object_Validate x = None) \<and>
      rows s' = eachRow putObject xs (rows s) else rows s' = rows s)"
proof -
  let ?check = "\<lambda>x. case Object_Validate x of Some e \<Rightarrow> Inl (wrap ''invalid object: %w'' [] e)
               | None \<Rightarrow> Inr (x\<lparr> ob_ID := Object_GetID x \<rparr>)"
  obtain s0 s1 :: "'db SQLiteStore" where run: "(if length xs = 0 then (None, s0)
     else case mapRes ?check xs of Inl e \<Rightarrow> (Some e, s0)
          | Inr ys \<Rightarrow> wrapStep ''failed to store object: %w'' [] (dbStep (\<lambda>g. g_CreateObjects g ys)) s0)
     = (e, s1)" "sq_inv s0" "rows s0 = rows s" "rows s' = rows s1" "sq_inv s' = sq_inv s1"
    using assms(2) [unfolded StoreObjects_def] assms(1) by (rule measured_effect)
  show ?thesis
  proof (cases "mapRes ?check xs")
    case (Inl e1)
    then have "xs \<noteq> []" by auto
    then show ?thesis using Inl run by auto
  next
    case (Inr ys)
    have valid: "\<forall>x\<in>set xs. Object_Validate x = None"
      using mapRes_ok_iff [of ?check xs] Inr by (auto simp: isOk_def split: option.splits)
    then have ys: "ys = map (\<lambda>x. x\<lparr> ob_ID := Object_GetID x \<rparr>) xs"
      using mapRes_total [of xs ?check "\<lambda>x. x\<lparr> ob_ID := Object_GetID x \<rparr>"] Inr by simp
    have eff: "eachRow upsertObjectRow ys T = eachRow putObject xs T" for T
      unfolding ys by (induction xs arbitrary: T)
        (auto simp: upsertObjectRow_def putObject_def objectRow_def)
    show ?thesis
    proof (cases "xs = []")
      case True
      then show ?thesis using run by simp
    next
      case False
      then have "wrapStep ''failed to store object: %w'' [] (dbStep (\<lambda>g. g_CreateObjects g ys)) s0 = (e, s1)"
        using run(1) Inr by simp
      then show ?thesis using doesD [OF statements_do(2) [OF run(2)]] run valid eff by auto
    qed
  qed
qed

lemma dbRead_effect:
  assumes "sq_inv s" "measured a (dbRead m args f) s = (r, s')"
  shows "sq_inv s' \<and> rows s' = rows s \<and> (\<forall>x. r = Inr x \<longrightarrow> (\<exists>db. g_Contents (sq_gorm s) db = rows s \<and>
    f (sq_gorm s) db = Inr x))"
  using assms by (auto simp: measured_def dbRead_def DataStoreInflightRequests_def recordMetrics_def
      DataStoreSetLatency_def Let_def sq_inv_def rows_def split: sum.splits prod.splits)

definition SqliteStore :: "('db SQLiteStore) Store" where
  "SqliteStore = \<lparr>
     s_StoreRoles = StoreRoles, s_StoreRoleBindings = StoreRoleBindings,
     s_StoreObjects = StoreObjects, s_StoreTenants = StoreTenants,
     s_DeleteObjects = DeleteObjects, s_DeleteAllObjects = DeleteAllObjects,
     s_DeleteRoles = DeleteRoles, s_DeleteAllRoles = DeleteAllRoles,
     s_DeleteRoleBindings = DeleteRoleBindings, s_DeleteAllRoleBindings = DeleteAllRoleBindings,
     s_DeleteTenants = DeleteTenants, s_GetObjectByID = GetObjectByID,
     s_GetRoles = GetRoles, s_GetRoleBindings = GetRoleBindings,
     s_GetAccessRules = GetAccessRules, s_GetTenants = GetTenants \<rparr>"

lemma gorm_reads:
  assumes "gorm_ok G"
  shows "case g_FirstObject G k db of Inr x \<Rightarrow> tb_Objects (g_Contents G db) k = Some x | Inl e \<Rightarrow> \<not> isPanic e"
    "g_FindRoles G db = Inr rs \<Longrightarrow> rolesRead (g_Contents G db) rs"
    "g_FindRoleBindings G db = Inr bs \<Longrightarrow> bindingsRead (g_Contents G db) bs"
    "g_FindTenants G db = Inr ts \<Longrightarrow> tenantsRead (g_Contents G db) ts"
  using assms by (simp_all add: gorm_ok_def)

lemma read_effect:
  assumes "sq_inv s" "\<And>db x. f (sq_gorm s) db = Inr x \<Longrightarrow> Q (g_Contents (sq_gorm s) db) x"
  shows "case measured a (dbRead m args f) s of
      (Inr x, s') \<Rightarrow> sq_inv s' \<and> rows s' = rows s \<and> Q (rows s) x
    | (Inl e, s') \<Rightarrow> sq_inv s' \<and> rows s' = rows s"
proof -
  obtain r s' where "measured a (dbRead m args f) s = (r, s')" by force
  then show ?thesis using dbRead_effect [OF assms(1)] assms(2) by (fastforce split: sum.splits)
qed

interpretation sql: explorer_store SqliteStore sq_inv rows
proof unfold_locales
  fix s :: "'a SQLiteStore" and xs cs assume inv: "sq_inv s"
  show "case s_StoreObjects SqliteStore xs s of
      (None, s') \<Rightarrow> sq_inv s' \<and> (\<forall>x\<in>set xs. Object_Validate x = None) \<and>
         rows s' = eachRow putObject xs (rows s)
    | (Some e, s') \<Rightarrow> sq_inv s' \<and> rows s' = rows s"
    using StoreObjects_effect [OF inv, of xs] by (auto simp: SqliteStore_def split: prod.splits option.splits)
  show "case s_DeleteObjects SqliteStore xs s of
      (None, s') \<Rightarrow> sq_inv s' \<and> rows s' = eachRow dropObject xs (rows s)
    | (Some e, s') \<Rightarrow> sq_inv s' \<and> partly dropObject xs (rows s) (rows s')"
    using DeleteObjects_effect [OF inv, of xs] by (auto simp: SqliteStore_def split: prod.splits option.splits)
  show "case s_DeleteAllObjects SqliteStore cs s of
      (None, s') \<Rightarrow> sq_inv s' \<and> rows s' = eachRow dropClusterObjects cs (rows s)
    | (Some e, s') \<Rightarrow> sq_inv s' \<and> partly dropClusterObjects cs (rows s) (rows s')"
    using DeleteAllObjects_effect [OF inv, of cs] by (auto simp: SqliteStore_def split: prod.splits option.splits)
next
  fix s :: "'a SQLiteStore" and k :: string assume inv: "sq_inv s"
  note reads = gorm_reads [OF inv [unfolded sq_inv_def]]
  show "case s_GetObjectByID SqliteStore k s of
      (Inr x, s') \<Rightarrow> sq_inv s' \<and> rows s' = rows s \<and> tb_Objects (rows s) k = Some x
    | (Inl e, s') \<Rightarrow> sq_inv s' \<and> rows s' = rows s \<and> \<not> isPanic e"
    using reads(1) [where k = k and db = "sq_db s"] inv
    by (simp add: SqliteStore_def GetObjectByID_def measured_def dbRead_def DataStoreInflightRequests_def
        recordMetrics_def DataStoreSetLatency_def sq_inv_def rows_def split: sum.splits)
  show "case s_GetRoles SqliteStore s of
      (Inr rs, s') \<Rightarrow> sq_inv s' \<and> rows s' = rows s \<and> rolesRead (rows s) rs
    | (Inl e, s') \<Rightarrow> sq_inv s' \<and> rows s' = rows s"
    using read_effect [where f = g_FindRoles and Q = rolesRead, OF inv reads(2)]
    by (simp add: SqliteStore_def GetRoles_def)
  show "case s_GetRoleBindings SqliteStore s of
      (Inr bs, s') \<Rightarrow> sq_inv s' \<and> rows s' = rows s \<and> bindingsRead (rows s) bs
    | (Inl e, s') \<Rightarrow> sq_inv s' \<and> rows s' = rows s"
    using read_effect [where f = g_FindRoleBindings and Q = bindingsRead, OF inv reads(3)]
    by (simp add: SqliteStore_def GetRoleBindings_def)
  show "case s_GetTenants SqliteStore s of
      (Inr ts, s') \<Rightarrow> sq_inv s' \<and> rows s' = rows s \<and> tenantsRead (rows s) ts
    | (Inl e, s') \<Rightarrow> sq_inv s' \<and> rows s' = rows s"
    using read_effect [where f = g_FindTenants and Q = tenantsRead, OF inv reads(4)]
    by (simp add: SqliteStore_def GetTenants_def)
next
  fix s s' :: "'a SQLiteStore" and rs
  assume "sq_inv s" "s_StoreRoles SqliteStore rs s = (None, s')"
  then show "sq_inv s' \<and> (\<forall>r\<in>set rs. Role_Validate r = None) \<and> rows s' = eachRow putRole rs (rows s)"
    using StoreRoles_effect [of s rs] by (simp add: SqliteStore_def)
next
  fix s s' :: "'a SQLiteStore" and rs
  assume "sq_inv s" "s_DeleteRoles SqliteStore rs s = (None, s')"
  then show "sq_inv s' \<and> rows s' = eachRow dropRole rs (rows s)"
    using DeleteRoles_effect [of s rs] by (simp add: SqliteStore_def)
next
  fix s s' :: "'a SQLiteStore" and cs
  assume "sq_inv s" "s_DeleteAllRoles SqliteStore cs s = (None, s')"
  then show "sq_inv s' \<and> rows s' = eachRow dropClusterRoles cs (rows s)"
    using DeleteAllRoles_effect [of s cs] by (simp add: SqliteStore_def)
next
  fix s s' :: "'a SQLiteStore" and bs
  assume "sq_inv s" "s_StoreRoleBindings SqliteStore bs s = (None, s')"
  then show "sq_inv s' \<and> (\<forall>b\<in>set bs. RoleBinding_Validate b = None) \<and> rows s' = eachRow putRoleBinding bs (rows s)"
    using StoreRoleBindings_effect [of s bs] by (simp add: SqliteStore_def)
next
  fix s s' :: "'a SQLiteStore" and bs
  assume "sq_inv s" "s_DeleteRoleBindings SqliteStore bs s = (None, s')"
  then show "sq_inv s' \<and> rows s' = eachRow dropRoleBinding bs (rows s)"
    using DeleteRoleBindings_effect [of s bs] by (simp add: SqliteStore_def)
next
  fix s s' :: "'a SQLiteStore" and cs
  assume "sq_inv s" "s_DeleteAllRoleBindings SqliteStore cs s = (None, s')"
  then show "sq_inv s' \<and> rows s' = eachRow dropClusterBindings cs (rows s)"
    using DeleteAllRoleBindings_effect [of s cs] by (simp add: SqliteStore_def)
next
  fix s s' :: "'a SQLiteStore" and ts
  assume "sq_inv s" "s_StoreTenants SqliteStore ts s = (None, s')"
  then show "sq_inv s' \<and> rows s' = eachRow putTenant (filter (\<lambda>t. Tenant_Validate t = None) ts) (rows s)"
    using StoreTenants_effect [of s ts] by (simp add: SqliteStore_def)
next
  fix s s' :: "'a SQLiteStore" and ts
  assume "sq_inv s" "s_DeleteTenants SqliteStore ts s = (None, s')"
  then show "sq_inv s' \<and> rows s' = eachRow dropTenant ts (rows s)"
    using DeleteTenants_effect [of s ts] by (simp add: SqliteStore_def)
qed

end
