(* ===== verification/Indexer.thy ===== *)
theory Indexer
  imports SqliteStore
begin

text \<open>
  pkg/query/store/indexer.go: the full-text index of the objects and the iterator
  over the hits of a search. bleve and the JSON decoder are code of third parties:
  the record bleve holds the calls the indexer makes on an abstract index, and
  bleve_ok what is documented of them. A document is an object, or the decoded JSON
  of one, which the indexer adds under the identifier with the suffix
  _unstructured. A hit is represented by its ID, the only field the code uses.
\<close>

section \<open>The index\<close>

datatype 'j index_doc = ObjectDoc object | JsonDoc 'j

datatype bquery =
    MatchAllQuery
  | TermQuery string
  | QueryStringQuery string
  | ConjunctionQuery "bquery list"

datatype sort_order = SortField string bool | SortScore bool

record search_request =
  rq_Query :: bquery
  rq_Size :: int
  rq_From :: int
  rq_Sort :: "sort_order list"
  rq_Facets :: "(string \<times> string \<times> int) list"

record search_result =
  sr_Hits :: "string list"
  sr_Facets :: "(string \<times> string list) list"

record ('ix, 'j) bleve =
  bl_Docs :: "'ix \<Rightarrow> (string \<rightharpoonup> 'j index_doc)"
  bl_Matches :: "bquery \<Rightarrow> 'j index_doc \<Rightarrow> bool"
  bl_Unmarshal :: "string \<Rightarrow> 'j res"
  bl_BatchIndex :: "string \<Rightarrow> 'j index_doc \<Rightarrow> goerror option"
  bl_Batch :: "(string \<times> 'j index_doc) list \<Rightarrow> 'ix step"
  bl_Delete :: "string \<Rightarrow> 'ix step"
  bl_NewSearchRequest :: "bquery \<Rightarrow> search_request"
  bl_Search :: "search_request \<Rightarrow> 'ix \<Rightarrow> search_result res"
  bl_DocCount :: "'ix \<Rightarrow> int res"

definition putDocs :: "(string \<times> 'd) list \<Rightarrow> (string \<rightharpoonup> 'd) \<Rightarrow> (string \<rightharpoonup> 'd)" where
  "putDocs ds m = foldl (\<lambda>m (k, d). m(k \<mapsto> d)) m ds"

text \<open>A search returns a page of a ranking of all the documents that match.\<close>

definition search_ok :: "(string \<rightharpoonup> 'd) \<Rightarrow> (bquery \<Rightarrow> 'd \<Rightarrow> bool) \<Rightarrow> search_request \<Rightarrow> string list \<Rightarrow> bool" where
  "search_ok docs matches req hits \<longleftrightarrow>
     (\<exists>ranking. distinct ranking \<and> set ranking = {k. \<exists>d. docs k = Some d \<and> matches (rq_Query req) d} \<and>
        hits = take (nat (rq_Size req)) (drop (nat (rq_From req)) ranking))"

definition bleve_ok :: "('ix, 'j) bleve \<Rightarrow> bool" where
  "bleve_ok B \<longleftrightarrow>
     (\<forall>ds ix. bl_Docs B (snd (bl_Batch B ds ix)) =
        (if fst (bl_Batch B ds ix) = None then putDocs ds (bl_Docs B ix) else bl_Docs B ix)) \<and>
     (\<forall>k ix. bl_Docs B (snd (bl_Delete B k ix)) =
        (if fst (bl_Delete B k ix) = None then (bl_Docs B ix)(k := None) else bl_Docs B ix)) \<and>
     (\<forall>q. bl_NewSearchRequest B q =
        \<lparr> rq_Query = q, rq_Size = 10, rq_From = 0, rq_Sort = [SortScore True], rq_Facets = [] \<rparr>) \<and>
     (\<forall>req ix r. bl_Search B req ix = Inr r \<longrightarrow> search_ok (bl_Docs B ix) (bl_Matches B) req (sr_Hits r)) \<and>
     (\<forall>ix n. bl_DocCount B ix = Inr n \<longrightarrow> finite (dom (bl_Docs B ix)) \<and> n = int (card (dom (bl_Docs B ix)))) \<and>
     (\<forall>d. bl_Matches B MatchAllQuery d) \<and>
     (\<forall>qs d. bl_Matches B (ConjunctionQuery qs) d \<longleftrightarrow> (\<forall>q\<in>set qs. bl_Matches B q d))"

section \<open>The indexer\<close>

record ('ix, 'j) bleveIndexer =
  bi_bleve :: "('ix, 'j) bleve"
  bi_idx :: 'ix
  bi_inflight :: "string \<Rightarrow> int"
  bi_latency :: "(string \<times> string) list"

definition IndexerAddInflightRequests :: "string \<Rightarrow> int \<Rightarrow> ('ix, 'j) bleveIndexer \<Rightarrow> ('ix, 'j) bleveIndexer" where
  "IndexerAddInflightRequests action number i =
     i\<lparr> bi_inflight := (bi_inflight i)(action := bi_inflight i action + number) \<rparr>"

definition IndexerSetLatency :: "string \<Rightarrow> string \<Rightarrow> ('ix, 'j) bleveIndexer \<Rightarrow> ('ix, 'j) bleveIndexer" where
  "IndexerSetLatency action status i = i\<lparr> bi_latency := bi_latency i @ [(action, status)] \<rparr>"

definition recordIndexerMetrics :: "string \<Rightarrow> goerror option \<Rightarrow> ('ix, 'j) bleveIndexer \<Rightarrow> ('ix, 'j) bleveIndexer" where
  "recordIndexerMetrics action e i =
     (let i = IndexerAddInflightRequests action (-1) i in
      if e \<noteq> None then IndexerSetLatency action FailedLabel i
      else IndexerSetLatency action SuccessLabel i)"

definition indexMeasured :: "string \<Rightarrow> (('ix, 'j) bleveIndexer \<Rightarrow> 'r \<times> ('ix, 'j) bleveIndexer) \<Rightarrow>
    ('ix, 'j) bleveIndexer \<Rightarrow> 'r \<times> ('ix, 'j) bleveIndexer" where
  "indexMeasured action body i =
     (case body (IndexerAddInflightRequests action 1 i) of (r, i') \<Rightarrow> (r, recordIndexerMetrics action None i'))"

definition idxStep :: "(('ix, 'j) bleve \<Rightarrow> 'ix step) \<Rightarrow> ('ix, 'j) bleveIndexer step" where
  "idxStep f i = (case f (bi_bleve i) (bi_idx i) of (e, ix) \<Rightarrow> (e, i\<lparr> bi_idx := ix \<rparr>))"

definition unstructuredSuffix :: string where "unstructuredSuffix = ''_unstructured''"

definition facetSuffix :: string where "facetSuffix = ''.facet''"

definition commonFields :: "string list" where "commonFields = [''cluster'', ''namespace'', ''kind'']"

text \<open>The entries that one object adds to the batch; a nil Unstructured is the empty string.\<close>

definition batchEntries :: "('ix, 'j) bleve \<Rightarrow> object \<Rightarrow> (string \<times> 'j index_doc) list" where
  "batchEntries B x =
     (if bl_BatchIndex B (Object_GetID x) (ObjectDoc x) \<noteq> None then []
      else (Object_GetID x, ObjectDoc x) #
        (if ob_Unstructured x \<noteq> [] then
           (case bl_Unmarshal B (ob_Unstructured x) of
              Inl _ \<Rightarrow> []
            | Inr data \<Rightarrow>
                if bl_BatchIndex B (Object_GetID x @ unstructuredSuffix) (JsonDoc data) \<noteq> None then []
                else [(Object_GetID x @ unstructuredSuffix, JsonDoc data)])
         else []))"

definition Add :: "object list \<Rightarrow> ('ix, 'j) bleveIndexer step" where
  "Add objects = indexMeasured ''Add'' (\<lambda>i.
     let batch = foldl (\<lambda>batch x. batch @ batchEntries (bi_bleve i) x) [] objects
     in idxStep (\<lambda>B. bl_Batch B batch) i)"

definition Remove :: "object list \<Rightarrow> ('ix, 'j) bleveIndexer step" where
  "Remove objects = indexMeasured ''Remove''
     (forErr (\<lambda>x. wrapStep ''failed to delete object: %w'' [] (idxStep (\<lambda>B. bl_Delete B (Object_GetID x)))) objects)"

definition RemoveByQuery :: "string \<Rightarrow> ('ix, 'j) bleveIndexer step" where
  "RemoveByQuery q = indexMeasured ''RemoveByQuery'' (\<lambda>i.
     let req = bl_NewSearchRequest (bi_bleve i) (QueryStringQuery q) in
     case bl_Search (bi_bleve i) req (bi_idx i) of
       Inl e \<Rightarrow> (Some (wrap ''failed to search index: %w'' [] e), i)
     | Inr result \<Rightarrow>
         forErr (\<lambda>hit. wrapStep ''failed to delete object: %w'' [] (idxStep (\<lambda>B. bl_Delete B hit)))
           (sr_Hits result) i)"

section \<open>Searching\<close>

text \<open>strings.Replace(s, old, empty, 1): the first occurrence of old, if any, is cut out.\<close>

fun cutFirst :: "string \<Rightarrow> string \<Rightarrow> string" where
  "cutFirst old [] = []"
| "cutFirst old (c # s) = (if prefix old (c # s) then drop (length old) (c # s) else c # cutFirst old s)"

definition stripSuffix :: "string \<Rightarrow> string" where
  "stripSuffix hit = (if strContains hit unstructuredSuffix then cutFirst unstructuredSuffix hit else hit)"

text \<open>The loop that keeps the first hit with each ID.\<close>

fun uniqueHits :: "string set \<Rightarrow> string list \<Rightarrow> string list" where
  "uniqueHits seen [] = []"
| "uniqueHits seen (h # hs) = (if h \<in> seen then uniqueHits seen hs else h # uniqueHits (insert h seen) hs)"

record query =
  qu_Terms :: string
  qu_Filters :: "string list"

record indexerIterator =
  ii_Hits :: "string list"
  ii_Index :: int
  ii_Opts :: "query_option option"

definition searchQuery :: "query \<Rightarrow> bquery" where
  "searchQuery q = ConjunctionQuery ([MatchAllQuery] @
     (if qu_Terms q \<noteq> [] then [TermQuery (qu_Terms q)] else []) @
     (if length (qu_Filters q) > 0
      then [QueryStringQuery (''+'' @ joinStr '' +'' (qu_Filters q))] else []))"

definition searchOrders :: "query_option option \<Rightarrow> sort_order list" where
  "searchOrders opts =
     (case opts of None \<Rightarrow> []
      | Some opt \<Rightarrow> if qo_OrderBy opt \<noteq> [] then [SortField (qo_OrderBy opt) (qo_Descending opt)] else [])
     @ [SortScore True]"

definition Search :: "query \<Rightarrow> query_option option \<Rightarrow> (('ix, 'j) bleveIndexer, indexerIterator) action" where
  "Search q opts = indexMeasured ''Search'' (\<lambda>i.
     let B = bi_bleve i; req = bl_NewSearchRequest B (searchQuery q) in
     case bl_DocCount B (bi_idx i) of
       Inl e \<Rightarrow> (Inl (wrap ''failed to get document count: %w'' [] e), i)
     | Inr count \<Rightarrow>
         let req = req\<lparr> rq_Size := count \<rparr>;
             req = (case opts of None \<Rightarrow> req
                    | Some opt \<Rightarrow> if qo_Offset opt > 0 then req\<lparr> rq_From := qo_Offset opt \<rparr> else req);
             req = req\<lparr> rq_Sort := searchOrders opts \<rparr>
         in case bl_Search B req (bi_idx i) of
              Inl e \<Rightarrow> (Inl (wrap ''failed to search for objects: %w'' [] e), i)
            | Inr results \<Rightarrow>
                (Inr \<lparr> ii_Hits = uniqueHits {} (map stripSuffix (sr_Hits results)),
                       ii_Index = -1, ii_Opts = opts \<rparr>, i))"

text \<open>addDefaultFacets; the facets of a request are requested by name, field and size.\<close>

definition addDefaultFacets :: "api_groups \<Rightarrow> search_request \<Rightarrow> object_category \<Rightarrow> search_request" where
  "addDefaultFacets A req cat =
     (let req = foldl (\<lambda>req f. req\<lparr> rq_Facets := rq_Facets req @ [(f, f @ facetSuffix, 100)] \<rparr>) req commonFields
      in foldl (\<lambda>req k.
           if cat \<noteq> [] \<and> ok_Category k \<noteq> cat then req
           else foldl (\<lambda>req label. req\<lparr> rq_Facets := rq_Facets req @
                  [(''labels.'' @ label, ''labels.'' @ label, 100)] \<rparr>) req (ok_Labels k))
         req (SupportedObjectKinds A))"

definition ListFacets :: "api_groups \<Rightarrow> object_category \<Rightarrow>
    (('ix, 'j) bleveIndexer, string \<rightharpoonup> string list) action" where
  "ListFacets A category = indexMeasured ''ListFacets'' (\<lambda>i.
     let B = bi_bleve i; req = addDefaultFacets A (bl_NewSearchRequest B MatchAllQuery) category in
     case bl_Search B req (bi_idx i) of
       Inl e \<Rightarrow> (Inl (wrap ''failed to search for objects: %w'' [] e), i)
     | Inr results \<Rightarrow>
         (Inr (foldl (\<lambda>facets (k, terms).
                 let facets = facets(k \<mapsto> terms) in
                 if length terms = 0 then facets(k := None) else facets)
               Map.empty (sr_Facets results)), i))"

section \<open>The iterator over the hits\<close>

definition indexerIterator_Next :: "indexerIterator \<Rightarrow> bool \<times> indexerIterator" where
  "indexerIterator_Next it =
     (let it = it\<lparr> ii_Index := ii_Index it + 1 \<rparr> in (ii_Index it < int (length (ii_Hits it)), it))"

text \<open>An index out of range panics.\<close>

definition hitAt :: "indexerIterator \<Rightarrow> int \<Rightarrow> string res" where
  "hitAt it n = (if 0 \<le> n \<and> n < int (length (ii_Hits it)) then Inr (ii_Hits it ! nat n)
                 else Inl (Panic ''index out of range''))"

definition indexerIterator_Row :: "'s Store \<Rightarrow> indexerIterator \<Rightarrow> ('s, object) action" where
  "indexerIterator_Row S it s =
     (case hitAt it (ii_Index it) of Inl e \<Rightarrow> (Inl e, s) | Inr k \<Rightarrow> s_GetObjectByID S k s)"

text \<open>GetObjects of the store, whose rows All and Page read to the end.\<close>

type_synonym 's get_objects = "string list option \<Rightarrow> query_option option \<Rightarrow> ('s, sql_rows) action"

definition readAll :: "'s get_objects \<Rightarrow> query_option option \<Rightarrow> string list \<Rightarrow> ('s, object list) action" where
  "readAll getObjects opts ids s =
     (case getObjects (Some ids) opts s of
        (Inl e, s) \<Rightarrow> (Inl (wrap ''failed to get objects: %w'' [] e), s)
      | (Inr iter, s) \<Rightarrow> (fst (sqliterator_All iter), s))"

definition indexerIterator_All :: "'s get_objects \<Rightarrow> indexerIterator \<Rightarrow> ('s, object list) action" where
  "indexerIterator_All getObjects it = readAll getObjects (ii_Opts it) (foldl (\<lambda>ids hit. ids @ [hit]) [] (ii_Hits it))"

definition pageIds :: "indexerIterator \<Rightarrow> int \<Rightarrow> int \<Rightarrow> string list res" where
  "pageIds it count offset =
     (let numHits = int (length (ii_Hits it)); upper = offset + count;
          upper = (if upper > numHits then numHits else upper)
      in mapRes (hitAt it) [offset..upper - 1])"

definition indexerIterator_Page :: "'s get_objects \<Rightarrow> int \<Rightarrow> int \<Rightarrow> indexerIterator \<Rightarrow> ('s, object list) action" where
  "indexerIterator_Page getObjects count offset it s =
     (case pageIds it count offset of
        Inl e \<Rightarrow> (Inl e, s)
      | Inr ids \<Rightarrow> if length ids = 0 then (Inr [], s) else readAll getObjects (ii_Opts it) ids s)"

end
