(* ===== verification/MemDb.thy ===== *)
theory MemDb
  imports SqliteStore
begin

text \<open>
  A database that behaves as gorm_ok says: lists of rows in which the first row
  with an identifier is the current one. It shows that the hypotheses on gorm can
  hold, and concrete runs of the store are evaluated on it.
\<close>

record memdb =
  md_Objects :: "object list"
  md_Roles :: "role list"
  md_Rules :: "(string \<times> policy_rule) list"
  md_RoleBindings :: "role_binding list"
  md_Subjects :: "(string \<times> subject) list"
  md_Tenants :: "tenant list"

definition emptyDb :: memdb where
  "emptyDb = \<lparr> md_Objects = [], md_Roles = [], md_Rules = [], md_RoleBindings = [],
     md_Subjects = [], md_Tenants = [] \<rparr>"

definition current :: "('r \<Rightarrow> string) \<Rightarrow> 'r list \<Rightarrow> string \<rightharpoonup> 'r" where
  "current key xs k = find (\<lambda>r. key r = k) xs"

definition dropCurrent :: "('r \<Rightarrow> string) \<Rightarrow> ('r \<Rightarrow> bool) \<Rightarrow> 'r list \<Rightarrow> 'r list" where
  "dropCurrent key P xs =
     filter (\<lambda>r. case current key xs (key r) of Some q \<Rightarrow> \<not> P q | None \<Rightarrow> True) xs"

definition allCurrent :: "('r \<Rightarrow> string) \<Rightarrow> 'r list \<Rightarrow> 'r list" where
  "allCurrent key xs = map (\<lambda>k. the (current key xs k)) (remdups (map key xs))"

definition owned :: "(string \<times> 'a) list \<Rightarrow> string \<Rightarrow> 'a list" where
  "owned xs k = map snd (filter (\<lambda>(j, _). j = k) xs)"

lemma current_key: "current key xs k = Some r \<Longrightarrow> key r = k"
  by (auto simp: current_def find_Some_iff)

lemma current_mem: "k \<in> key ` set xs \<longleftrightarrow> current key xs k \<noteq> None"
  by (auto simp: current_def find_None_iff)

lemma find_filter_key:
  "find (\<lambda>r. key r = k) (filter (\<lambda>r. Q (key r)) xs) = (if Q k then find (\<lambda>r. key r = k) xs else None)"
  by (induction xs) auto

lemma current_dropCurrent: "current key (dropCurrent key P xs) = dropRows P (current key xs)"
proof
  fix k
  have "current key (dropCurrent key P xs) k =
      (if (case current key xs k of Some q \<Rightarrow> \<not> P q | None \<Rightarrow> True) then current key xs k else None)"
    unfolding dropCurrent_def current_def [of key "filter _ xs"]
    by (subst find_filter_key [where Q = "\<lambda>j. case current key xs j of Some q \<Rightarrow> \<not> P q | None \<Rightarrow> True"])
       (simp add: current_def)
  then show "current key (dropCurrent key P xs) k = dropRows P (current key xs) k"
    by (simp add: dropRows_def split: option.splits)
qed

lemma current_Cons: "current key (x # xs) = (current key xs)(key x \<mapsto> x)"
  by (auto simp: current_def fun_eq_iff)

lemma allCurrent_keys: "map key (allCurrent key xs) = remdups (map key xs)"
proof -
  have "key (the (current key xs k)) = k" if "k \<in> set (remdups (map key xs))" for k
    using that current_mem [of k key xs] current_key by fastforce
  then show ?thesis unfolding allCurrent_def map_map by (intro map_idI) simp
qed

lemma allCurrent_current:
  assumes "r \<in> set (allCurrent key xs)"
  shows "current key xs (key r) = Some r"
proof -
  obtain k where k: "k \<in> key ` set xs" "r = the (current key xs k)"
    using assms by (auto simp: allCurrent_def)
  then obtain q where "current key xs k = Some q" using current_mem [of k key xs] by auto
  then show ?thesis using k(2) current_key by fastforce
qed

lemma dom_current: "dom (current key xs) = key ` set xs"
  using current_mem [of _ key xs] by (simp add: dom_def set_eq_iff)

lemma dom_map_option: "dom (\<lambda>k. map_option f (m k)) = dom m"
  by (auto simp: dom_def)

definition memContents :: "memdb \<Rightarrow> tables" where
  "memContents d = \<lparr>
     tb_Objects = current ob_ID (md_Objects d),
     tb_Roles = (\<lambda>k. map_option (ro_PolicyRules_update (\<lambda>_. [])) (current ro_ID (md_Roles d) k)),
     tb_PolicyRules = owned (md_Rules d),
     tb_RoleBindings = (\<lambda>k. map_option (rb_Subjects_update (\<lambda>_. [])) (current rb_ID (md_RoleBindings d) k)),
     tb_Subjects = owned (md_Subjects d),
     tb_Tenants = current tn_ID (md_Tenants d) \<rparr>"

definition memDelete :: "db_model \<Rightarrow> string \<Rightarrow> string \<Rightarrow> memdb step" where
  "memDelete m column v d = (None,
     (case m of
        MObject \<Rightarrow> d\<lparr> md_Objects := dropCurrent ob_ID
          (\<lambda>r. (if column = ''id'' then ob_ID r else if column = ''cluster'' then ob_Cluster r else []) = v) (md_Objects d) \<rparr>
      | MRole \<Rightarrow> d\<lparr> md_Roles := dropCurrent ro_ID
          (\<lambda>r. (if column = ''id'' then ro_ID r else if column = ''cluster'' then ro_Cluster r else []) = v) (md_Roles d) \<rparr>
      | MRoleBinding \<Rightarrow> d\<lparr> md_RoleBindings := dropCurrent rb_ID
          (\<lambda>b. (if column = ''id'' then rb_ID b else if column = ''cluster'' then rb_Cluster b else []) = v) (md_RoleBindings d) \<rparr>
      | MTenant \<Rightarrow> d\<lparr> md_Tenants := dropCurrent tn_ID (\<lambda>t. (if column = ''id'' then tn_ID t else []) = v) (md_Tenants d) \<rparr>
      | MPolicyRule \<Rightarrow> (if column = ''role_id'' then d\<lparr> md_Rules := filter (\<lambda>(k, _). k \<noteq> v) (md_Rules d) \<rparr> else d)
      | MSubject \<Rightarrow> (if column = ''role_binding_id'' then d\<lparr> md_Subjects := filter (\<lambda>(k, _). k \<noteq> v) (md_Subjects d) \<rparr> else d)))"

definition memGorm :: "memdb gorm" where
  "memGorm = \<lparr>
     g_Contents = memContents,
     g_Delete = memDelete,
     g_AssocDeleteRules = (\<lambda>r d. (None, d)),
     g_AssocDeleteSubjects = (\<lambda>b d. (None, d)),
     g_CreateObjects = (\<lambda>xs d. (None, d\<lparr> md_Objects := rev (map (ob_Labels_update (\<lambda>_. Map.empty)) xs) @ md_Objects d \<rparr>)),
     g_CreateRole = (\<lambda>r d. (None, d\<lparr> md_Roles := r # md_Roles d,
        md_Rules := md_Rules d @ map (\<lambda>p. (ro_ID r, p)) (ro_PolicyRules r) \<rparr>)),
     g_CreateRoleBinding = (\<lambda>b d. (None, d\<lparr> md_RoleBindings := b # md_RoleBindings d,
        md_Subjects := md_Subjects d @ map (\<lambda>p. (rb_ID b, p)) (rb_Subjects b) \<rparr>)),
     g_CreateTenant = (\<lambda>t d. (None, d\<lparr> md_Tenants := t # md_Tenants d \<rparr>)),
     g_FirstObject = (\<lambda>k d. case current ob_ID (md_Objects d) k of
        Some x \<Rightarrow> Inr x | None \<Rightarrow> Inl (err ''record not found'')),
     g_FindRoles = (\<lambda>d. Inr (map (\<lambda>r. r\<lparr> ro_PolicyRules := owned (md_Rules d) (ro_ID r) \<rparr>) (allCurrent ro_ID (md_Roles d)))),
     g_FindRoleBindings = (\<lambda>d. Inr (map (\<lambda>b. b\<lparr> rb_Subjects := owned (md_Subjects d) (rb_ID b) \<rparr>) (allCurrent rb_ID (md_RoleBindings d)))),
     g_FindTenants = (\<lambda>d. Inr (allCurrent tn_ID (md_Tenants d))),
     g_FindObjects = (\<lambda>d. Inr (allCurrent ob_ID (md_Objects d))),
     g_Rows = (\<lambda>q d. Inr (newRows (map Inr (drop (nat (oq_Offset q)) (filter
        (\<lambda>x. case oq_Ids q of None \<Rightarrow> True | Some ids \<Rightarrow> ob_ID x \<in> set ids)
        (allCurrent ob_ID (md_Objects d))))) None)) \<rparr>"

definition memStore :: "memdb SQLiteStore" where
  "memStore = \<lparr> sq_gorm = memGorm, sq_db = emptyDb, sq_inflight = (\<lambda>_. 0), sq_latency = [] \<rparr>"

lemma dropRows_map_option:
  assumes "\<And>r. P (f r) = P r"
  shows "dropRows P (\<lambda>k. map_option f (m k)) = (\<lambda>k. map_option f (dropRows P m k))"
  using assms by (auto simp: dropRows_def fun_eq_iff split: option.splits)

lemma owned_drop: "owned (filter (\<lambda>(k, _). k \<noteq> v) xs) = (owned xs)(v := [])"
  by (auto simp: owned_def fun_eq_iff filter_empty_conv intro!: arg_cong [of _ _ "map snd"] filter_cong)

lemma owned_append: "owned (xs @ map (\<lambda>p. (v, p)) ps) = (owned xs)(v := owned xs v @ ps)"
proof
  fix k
  show "owned (xs @ map (\<lambda>p. (v, p)) ps) k = ((owned xs)(v := owned xs v @ ps)) k"
    by (induction ps arbitrary: xs) (auto simp: owned_def)
qed

lemma mem_delete_ok: "statement_ok memContents (memDelete m column v) (deleteRows m column v)"
  unfolding statement_ok_def
  by (cases m)
     (simp_all add: memDelete_def memContents_def deleteRows_def current_dropCurrent owned_drop
        dropRows_map_option)

lemma mem_create_objects: "memContents (d\<lparr> md_Objects := rev (map (ob_Labels_update (\<lambda>_. Map.empty)) xs) @ md_Objects d \<rparr>) =
    eachRow upsertObjectRow xs (memContents d)"
proof (induction xs arbitrary: d)
  case (Cons x xs)
  have "upsertObjectRow x (memContents d) = memContents (d\<lparr> md_Objects := x\<lparr> ob_Labels := Map.empty \<rparr> # md_Objects d \<rparr>)"
    by (simp add: upsertObjectRow_def memContents_def current_Cons)
  then show ?case using Cons.IH [of "d\<lparr> md_Objects := x\<lparr> ob_Labels := Map.empty \<rparr> # md_Objects d \<rparr>"] by simp
qed simp

lemma map_option_current_Cons:
  "(\<lambda>k. map_option f (current key (x # xs) k)) = (\<lambda>k. map_option f (current key xs k))(key x \<mapsto> f x)"
  by (auto simp: current_Cons fun_eq_iff)

lemma mem_roles_read:
  "rolesRead (memContents d) (map (\<lambda>r. r\<lparr> ro_PolicyRules := owned (md_Rules d) (ro_ID r) \<rparr>) (allCurrent ro_ID (md_Roles d)))"
proof -
  let ?rs = "map (\<lambda>r. r\<lparr> ro_PolicyRules := owned (md_Rules d) (ro_ID r) \<rparr>) (allCurrent ro_ID (md_Roles d))"
  have ids: "map ro_ID ?rs = remdups (map ro_ID (md_Roles d))"
    using allCurrent_keys [of ro_ID "md_Roles d"] by (simp add: comp_def)
  have "ro_ID ` set ?rs = set (remdups (map ro_ID (md_Roles d)))"
    unfolding ids [symmetric] by (simp add: image_image)
  then have "ro_ID ` set ?rs = dom (tb_Roles (memContents d))"
    by (simp add: memContents_def dom_map_option dom_current)
  then show ?thesis unfolding rolesRead_def ids
    by (auto simp: memContents_def dest!: allCurrent_current)
qed

lemma mem_bindings_read:
  "bindingsRead (memContents d) (map (\<lambda>b. b\<lparr> rb_Subjects := owned (md_Subjects d) (rb_ID b) \<rparr>) (allCurrent rb_ID (md_RoleBindings d)))"
proof -
  let ?bs = "map (\<lambda>b. b\<lparr> rb_Subjects := owned (md_Subjects d) (rb_ID b) \<rparr>) (allCurrent rb_ID (md_RoleBindings d))"
  have ids: "map rb_ID ?bs = remdups (map rb_ID (md_RoleBindings d))"
    using allCurrent_keys [of rb_ID "md_RoleBindings d"] by (simp add: comp_def)
  have "rb_ID ` set ?bs = set (remdups (map rb_ID (md_RoleBindings d)))"
    unfolding ids [symmetric] by (simp add: image_image)
  then have "rb_ID ` set ?bs = dom (tb_RoleBindings (memContents d))"
    by (simp add: memContents_def dom_map_option dom_current)
  then show ?thesis unfolding bindingsRead_def ids
    by (auto simp: memContents_def dest!: allCurrent_current)
qed

lemma allCurrent_ran: "set (allCurrent key xs) = ran (current key xs)"
proof
  show "set (allCurrent key xs) \<subseteq> ran (current key xs)"
    by (auto simp: ran_def dest: allCurrent_current)
  show "ran (current key xs) \<subseteq> set (allCurrent key xs)"
  proof
    fix t assume "t \<in> ran (current key xs)"
    then obtain k where k: "current key xs k = Some t" by (auto simp: ran_def)
    then have "k \<in> key ` set xs" by (simp add: current_mem)
    then show "t \<in> set (allCurrent key xs)" using k by (force simp: allCurrent_def image_iff)
  qed
qed

lemma mem_tenants_read: "tenantsRead (memContents d) (allCurrent tn_ID (md_Tenants d))"
  by (simp add: tenantsRead_def memContents_def allCurrent_keys allCurrent_ran)

lemma mem_rows: "rowsOf q (memContents d) (newRows (map Inr (drop (nat (oq_Offset q)) (filter
        (\<lambda>x. case oq_Ids q of None \<Rightarrow> True | Some ids \<Rightarrow> ob_ID x \<in> set ids)
        (allCurrent ob_ID (md_Objects d))))) None)"
proof -
  let ?xs = "filter (\<lambda>x. case oq_Ids q of None \<Rightarrow> True | Some ids \<Rightarrow> ob_ID x \<in> set ids) (allCurrent ob_ID (md_Objects d))"
  have "distinct (map ob_ID (allCurrent ob_ID (md_Objects d)))" by (simp add: allCurrent_keys)
  then have d: "distinct (map ob_ID ?xs)" by (rule distinct_map_filter)
  have s: "set ?xs = {x \<in> ran (tb_Objects (memContents d)). case oq_Ids q of None \<Rightarrow> True | Some ids \<Rightarrow> ob_ID x \<in> set ids}"
    by (auto simp: allCurrent_ran memContents_def)
  have l: "list_all2 (\<lambda>y x. isOk y \<longrightarrow> y = Inr x) (map Inr (drop (nat (oq_Offset q)) ?xs)) (drop (nat (oq_Offset q)) ?xs)"
    by (simp add: list_all2_conv_all_nth)
  show ?thesis unfolding rowsOf_def newRows_def sql_rows.simps
    by (intro exI [of _ ?xs] conjI) (fact d, fact s, fact l)
qed

theorem memGorm_ok: "gorm_ok memGorm"
  unfolding gorm_ok_def
proof (intro conjI allI)
  fix m column v
  show "statement_ok (g_Contents memGorm) (g_Delete memGorm m column v) (deleteRows m column v)"
    using mem_delete_ok by (simp add: memGorm_def)
next
  fix r db
  show "\<exists>rules. set rules \<subseteq> set (tb_PolicyRules (g_Contents memGorm db) (ro_ID r)) \<and>
        g_Contents memGorm (snd (g_AssocDeleteRules memGorm r db)) = (g_Contents memGorm db)\<lparr> tb_PolicyRules :=
          (tb_PolicyRules (g_Contents memGorm db))(ro_ID r := rules) \<rparr>"
    by (rule exI [of _ "tb_PolicyRules (memContents db) (ro_ID r)"]) (simp add: memGorm_def)
next
  fix b db
  show "\<exists>subjects. set subjects \<subseteq> set (tb_Subjects (g_Contents memGorm db) (rb_ID b)) \<and>
        g_Contents memGorm (snd (g_AssocDeleteSubjects memGorm b db)) = (g_Contents memGorm db)\<lparr> tb_Subjects :=
          (tb_Subjects (g_Contents memGorm db))(rb_ID b := subjects) \<rparr>"
    by (rule exI [of _ "tb_Subjects (memContents db) (rb_ID b)"]) (simp add: memGorm_def)
next
  fix xs
  show "statement_ok (g_Contents memGorm) (g_CreateObjects memGorm xs) (eachRow upsertObjectRow xs)"
    by (simp add: statement_ok_def memGorm_def mem_create_objects)
next
  fix r
  show "statement_ok (g_Contents memGorm) (g_CreateRole memGorm r) (upsertRoleRow r)"
    by (simp add: statement_ok_def memGorm_def memContents_def upsertRoleRow_def map_option_current_Cons owned_append)
next
  fix b
  show "statement_ok (g_Contents memGorm) (g_CreateRoleBinding memGorm b) (upsertRoleBindingRow b)"
    by (simp add: statement_ok_def memGorm_def memContents_def upsertRoleBindingRow_def map_option_current_Cons owned_append)
next
  fix t
  show "statement_ok (g_Contents memGorm) (g_CreateTenant memGorm t) (upsertTenantRow t)"
    by (simp add: statement_ok_def memGorm_def memContents_def upsertTenantRow_def current_Cons)
next
  fix k db
  show "case g_FirstObject memGorm k db of
      Inr x \<Rightarrow> tb_Objects (g_Contents memGorm db) k = Some x | Inl e \<Rightarrow> \<not> isPanic e"
    by (simp add: memGorm_def memContents_def err_def split: option.splits)
qed (auto simp: memGorm_def mem_roles_read mem_bindings_read mem_tenants_read mem_rows)

lemma memStore_inv [simp]: "sq_inv memStore"
  by (simp add: sq_inv_def memStore_def memGorm_ok)

end
