(* ===== verification/IndexInterface.thy ===== *)
theory IndexInterface
  imports Indexer MemDb
begin

text \<open>
  The IndexWriter and IndexReader interfaces of indexer.go, what their clients may
  rely on, and the proof that the bleve indexer provides it; the guarantees of a
  search; two things the index does not do.
\<close>

record 'i IndexWriter =
  iw_Add :: "object list \<Rightarrow> 'i step"
  iw_Remove :: "object list \<Rightarrow> 'i step"
  iw_RemoveByQuery :: "string \<Rightarrow> 'i step"

record 'i IndexReader =
  ir_Search :: "query \<Rightarrow> query_option option \<Rightarrow> ('i, indexerIterator) action"
  ir_ListFacets :: "object_category \<Rightarrow> ('i, string \<rightharpoonup> string list) action"

text \<open>
  The contract of a writer: entries i x are the documents that object x adds; a
  failing Remove has removed some of the objects.
\<close>

definition dropDocs :: "string list \<Rightarrow> (string \<rightharpoonup> 'd) \<Rightarrow> (string \<rightharpoonup> 'd)" where
  "dropDocs ks m = foldl (\<lambda>m k. m(k := None)) m ks"

lemma dropDocs_get: "dropDocs ks m k = (if k \<in> set ks then None else m k)"
  by (induction ks arbitrary: m) (auto simp: dropDocs_def)

locale index_writer =
  fixes W :: "'i IndexWriter"
    and inv :: "'i \<Rightarrow> bool"
    and docs :: "'i \<Rightarrow> (string \<rightharpoonup> 'd)"
    and entries :: "'i \<Rightarrow> object \<Rightarrow> (string \<times> 'd) list"
  assumes add: "\<lbrakk>inv i; iw_Add W xs i = (e, i')\<rbrakk> \<Longrightarrow> inv i' \<and> entries i' = entries i \<and>
      docs i' = (if e = None then putDocs (concat (map (entries i) xs)) (docs i) else docs i)"
    and remove: "\<lbrakk>inv i; iw_Remove W xs i = (e, i')\<rbrakk> \<Longrightarrow> inv i' \<and> entries i' = entries i \<and>
      (\<exists>ys. prefix ys xs \<and> (e = None \<longrightarrow> ys = xs) \<and> docs i' = dropDocs (map Object_GetID ys) (docs i))"
    and removeByQuery: "\<lbrakk>inv i; iw_RemoveByQuery W q i = (e, i')\<rbrakk> \<Longrightarrow> inv i' \<and> entries i' = entries i \<and>
      (\<exists>ks. set ks \<subseteq> dom (docs i) \<and> length ks \<le> 10 \<and> docs i' = dropDocs ks (docs i))"
begin

lemma remove_ok:
  "\<lbrakk>inv i; iw_Remove W xs i = (None, i')\<rbrakk> \<Longrightarrow> inv i' \<and> docs i' = dropDocs (map Object_GetID xs) (docs i)"
  using remove by blast

lemma only_removes:
  "\<lbrakk>inv i; iw_RemoveByQuery W q i = (e, i'); docs i' k = Some d\<rbrakk> \<Longrightarrow> docs i k = Some d"
proof -
  assume a: "inv i" "iw_RemoveByQuery W q i = (e, i')" "docs i' k = Some d"
  then obtain ks where "docs i' = dropDocs ks (docs i)" using removeByQuery by blast
  then show ?thesis using a(3) by (simp add: dropDocs_get split: if_splits)
qed

end

section \<open>The bleve indexer provides it\<close>

definition bi_docs :: "('ix, 'j) bleveIndexer \<Rightarrow> (string \<rightharpoonup> 'j index_doc)" where
  "bi_docs i = bl_Docs (bi_bleve i) (bi_idx i)"

definition bi_inv :: "('ix, 'j) bleveIndexer \<Rightarrow> bool" where
  "bi_inv i \<longleftrightarrow> bleve_ok (bi_bleve i)"

lemma bi_metrics [simp]:
  "bi_docs (IndexerAddInflightRequests a n i) = bi_docs i" "bi_docs (recordIndexerMetrics a e i) = bi_docs i"
  "bi_inv (IndexerAddInflightRequests a n i) = bi_inv i" "bi_inv (recordIndexerMetrics a e i) = bi_inv i"
  "bi_bleve (IndexerAddInflightRequests a n i) = bi_bleve i" "bi_bleve (recordIndexerMetrics a e i) = bi_bleve i"
  "bi_idx (IndexerAddInflightRequests a n i) = bi_idx i" "bi_idx (recordIndexerMetrics a e i) = bi_idx i"
  by (simp_all add: bi_docs_def bi_inv_def IndexerAddInflightRequests_def recordIndexerMetrics_def
      IndexerSetLatency_def Let_def)

lemma idxStep_parts:
  "fst (idxStep f i) = fst (f (bi_bleve i) (bi_idx i))"
  "snd (idxStep f i) = i\<lparr> bi_idx := snd (f (bi_bleve i) (bi_idx i)) \<rparr>"
  by (simp_all add: idxStep_def split: prod.splits)

lemma bleve_batch: "bleve_ok B \<Longrightarrow> bl_Docs B (snd (bl_Batch B ds ix)) =
    (if fst (bl_Batch B ds ix) = None then putDocs ds (bl_Docs B ix) else bl_Docs B ix)"
  by (simp add: bleve_ok_def)

lemma bleve_delete: "bleve_ok B \<Longrightarrow> bl_Docs B (snd (bl_Delete B k ix)) =
    (if fst (bl_Delete B k ix) = None then (bl_Docs B ix)(k := None) else bl_Docs B ix)"
  by (simp add: bleve_ok_def)

lemma bleve_search: "bleve_ok B \<Longrightarrow> bl_Search B req ix = Inr r \<Longrightarrow>
    search_ok (bl_Docs B ix) (bl_Matches B) req (sr_Hits r)"
  by (simp add: bleve_ok_def)

lemma bleve_request: "bleve_ok B \<Longrightarrow> bl_NewSearchRequest B q =
    \<lparr> rq_Query = q, rq_Size = 10, rq_From = 0, rq_Sort = [SortScore True], rq_Facets = [] \<rparr>"
  by (simp add: bleve_ok_def)

lemma bleve_count: "bleve_ok B \<Longrightarrow> bl_DocCount B ix = Inr n \<Longrightarrow>
    finite (dom (bl_Docs B ix)) \<and> n = int (card (dom (bl_Docs B ix)))"
  by (simp add: bleve_ok_def)

lemma indexMeasured_cases:
  assumes "indexMeasured a body i = (r, i')"
  obtains i1 where "body (IndexerAddInflightRequests a 1 i) = (r, i1)" "i' = recordIndexerMetrics a None i1"
  using assms by (auto simp: indexMeasured_def split: prod.splits)

text \<open>Deleting documents one by one.\<close>

lemma delete_docs_loop:
  fixes i :: "('ix, 'j) bleveIndexer"
  assumes "bi_inv i" "forErr (\<lambda>x. wrapStep m a (idxStep (\<lambda>B. bl_Delete B (key x)))) xs i = (e, i')"
  shows "bi_inv i' \<and> bi_bleve i' = bi_bleve i \<and>
    (\<exists>ys. prefix ys xs \<and> (e = None \<longrightarrow> ys = xs) \<and> bi_docs i' = dropDocs (map key ys) (bi_docs i))"
  using assms
proof (induction xs arbitrary: i)
  case Nil
  then show ?case by (auto simp: dropDocs_def)
next
  case (Cons x xs)
  let ?f = "\<lambda>x :: 'a. wrapStep m a (idxStep (\<lambda>B :: ('ix, 'j) bleve. bl_Delete B (key x)))"
  let ?i1 = "snd (?f x i)"
  have b: "bi_bleve ?i1 = bi_bleve i" "bi_inv ?i1" using Cons.prems(1) by (simp_all add: idxStep_parts bi_inv_def)
  have d: "bi_docs ?i1 = (if fst (?f x i) = None then dropDocs [key x] (bi_docs i) else bi_docs i)"
    using bleve_delete [OF Cons.prems(1) [unfolded bi_inv_def], of "key x" "bi_idx i"]
    by (simp add: idxStep_parts bi_docs_def dropDocs_def)
  obtain e1 where f: "?f x i = (e1, ?i1)" by (metis prod.collapse)
  show ?case
  proof (cases e1)
    case None
    then have "forErr ?f xs ?i1 = (e, i')" using Cons.prems(2) f by (metis (no_types, lifting) forErr.simps(2) option.simps(4) prod.simps(2))
    then have ih: "bi_inv i' \<and> bi_bleve i' = bi_bleve ?i1 \<and>
      (\<exists>ys. prefix ys xs \<and> (e = None \<longrightarrow> ys = xs) \<and> bi_docs i' = dropDocs (map key ys) (bi_docs ?i1))"
      by (rule Cons.IH [OF b(2)])
    then obtain ys where ys: "prefix ys xs" "e = None \<longrightarrow> ys = xs" "bi_docs i' = dropDocs (map key ys) (bi_docs ?i1)"
      by blast
    have "fst (?f x i) = None" using f None by (metis fst_conv)
    then have "bi_docs i' = dropDocs (map key (x # ys)) (bi_docs i)"
      using ys(3) d by (simp add: dropDocs_def)
    moreover have "prefix (x # ys) (x # xs)" using ys(1) by simp
    ultimately show ?thesis using ih ys(2) b(1) by (metis (no_types, lifting))
  next
    case (Some e2)
    then have r: "e = Some e2" "i' = ?i1" using Cons.prems(2) f
      by (metis (no_types, lifting) forErr.simps(2) option.simps(5) prod.inject prod.simps(2))+
    have "fst (?f x i) \<noteq> None" using f Some by (metis fst_conv option.distinct(1))
    then have "bi_docs i' = dropDocs (map key []) (bi_docs i)" using d r by (simp only: if_False) (simp add: dropDocs_def)
    then show ?thesis using r b by (metis Nil_prefix option.distinct(1))
  qed
qed

lemma foldl_batch: "foldl (\<lambda>batch x. batch @ f x) acc xs = acc @ concat (map f xs)"
  by (induction xs arbitrary: acc) auto

lemma search_page:
  assumes "search_ok docs matches req hits"
  shows "distinct hits \<and> set hits \<subseteq> dom docs \<and> length hits \<le> nat (rq_Size req)"
proof -
  obtain ranking where r: "distinct ranking" "set ranking = {k. \<exists>d. docs k = Some d \<and> matches (rq_Query req) d}"
    "hits = take (nat (rq_Size req)) (drop (nat (rq_From req)) ranking)"
    using assms by (auto simp: search_ok_def)
  have "set hits \<subseteq> set ranking" unfolding r(3) by (meson order_trans set_drop_subset set_take_subset)
  then show ?thesis using r by auto
qed

definition BleveWriter :: "('ix, 'j) bleveIndexer IndexWriter" where
  "BleveWriter = \<lparr> iw_Add = Add, iw_Remove = Remove, iw_RemoveByQuery = RemoveByQuery \<rparr>"

definition BleveReader :: "api_groups \<Rightarrow> ('ix, 'j) bleveIndexer IndexReader" where
  "BleveReader A = \<lparr> ir_Search = Search, ir_ListFacets = ListFacets A \<rparr>"

lemma RemoveByQuery_effect:
  assumes "bi_inv i" "RemoveByQuery q i = (e, i')"
  shows "bi_inv i' \<and> bi_bleve i' = bi_bleve i \<and>
    (\<exists>ks. set ks \<subseteq> dom (bi_docs i) \<and> length ks \<le> 10 \<and> bi_docs i' = dropDocs ks (bi_docs i))"
proof -
  let ?B = "bi_bleve i" and ?req = "bl_NewSearchRequest (bi_bleve i) (QueryStringQuery q)"
  let ?i0 = "IndexerAddInflightRequests ''RemoveByQuery'' 1 i"
  obtain i1 where body: "(case bl_Search ?B ?req (bi_idx i) of
       Inl e \<Rightarrow> (Some (wrap ''failed to search index: %w'' [] e), ?i0)
     | Inr result \<Rightarrow>
         forErr (\<lambda>hit. wrapStep ''failed to delete object: %w'' [] (idxStep (\<lambda>B. bl_Delete B hit)))
           (sr_Hits result) ?i0) = (e, i1)" "i' = recordIndexerMetrics ''RemoveByQuery'' None i1"
    using indexMeasured_cases [OF assms(2) [unfolded RemoveByQuery_def]] by (auto simp: Let_def)
  show ?thesis
  proof (cases "bl_Search ?B ?req (bi_idx i)")
    case (Inl e1)
    then have "i1 = ?i0" using body(1) by simp
    then show ?thesis using body(2) assms(1) by (auto simp: dropDocs_def intro!: exI [of _ "[]"])
  next
    case (Inr r)
    have inv0: "bi_inv ?i0" using assms(1) by simp
    have hits: "set (sr_Hits r) \<subseteq> dom (bi_docs i) \<and> length (sr_Hits r) \<le> 10"
      using search_page [OF bleve_search [OF assms(1) [unfolded bi_inv_def] Inr]]
        bleve_request [OF assms(1) [unfolded bi_inv_def], of "QueryStringQuery q"] by (simp add: bi_docs_def)
    have "bi_inv i1 \<and> bi_bleve i1 = bi_bleve ?i0 \<and> (\<exists>ys. prefix ys (sr_Hits r) \<and>
        (e = None \<longrightarrow> ys = sr_Hits r) \<and> bi_docs i1 = dropDocs (map (\<lambda>k. k) ys) (bi_docs ?i0))"
      by (rule delete_docs_loop [OF inv0]) (use body(1) Inr in simp)
    then obtain ys where ys: "bi_inv i1" "bi_bleve i1 = bi_bleve i" "prefix ys (sr_Hits r)"
      "bi_docs i1 = dropDocs ys (bi_docs i)" by auto
    moreover have "set ys \<subseteq> dom (bi_docs i) \<and> length ys \<le> 10"
      using hits ys(3) by (meson order_trans prefix_length_le set_mono_prefix)
    ultimately show ?thesis using body(2) by auto
  qed
qed

interpretation bleve: index_writer BleveWriter bi_inv bi_docs "\<lambda>i. batchEntries (bi_bleve i)"
proof unfold_locales
  fix i i' :: "('ix, 'j) bleveIndexer" and xs e
  assume a: "bi_inv i" "iw_Add BleveWriter xs i = (e, i')"
  then obtain i1 where i1: "idxStep (\<lambda>B. bl_Batch B (concat (map (batchEntries (bi_bleve i)) xs)))
      (IndexerAddInflightRequests ''Add'' 1 i) = (e, i1)" "i' = recordIndexerMetrics ''Add'' None i1"
    by (auto simp: BleveWriter_def Add_def Let_def foldl_batch elim: indexMeasured_cases)
  let ?ds = "concat (map (batchEntries (bi_bleve i)) xs)"
  have e: "e = fst (bl_Batch (bi_bleve i) ?ds (bi_idx i))"
    "i1 = (IndexerAddInflightRequests ''Add'' 1 i)\<lparr> bi_idx := snd (bl_Batch (bi_bleve i) ?ds (bi_idx i)) \<rparr>"
    using i1(1) idxStep_parts [of "\<lambda>B. bl_Batch B ?ds" "IndexerAddInflightRequests ''Add'' 1 i"] by simp_all
  have "bi_docs i1 = (if e = None then putDocs ?ds (bi_docs i) else bi_docs i)"
    using bleve_batch [OF a(1) [unfolded bi_inv_def], of ?ds "bi_idx i"] unfolding e bi_docs_def by simp
  moreover have "bi_bleve i1 = bi_bleve i" unfolding e by simp
  ultimately show "bi_inv i' \<and> batchEntries (bi_bleve i') = batchEntries (bi_bleve i) \<and>
      bi_docs i' = (if e = None then putDocs ?ds (bi_docs i) else bi_docs i)"
    using i1(2) a(1) by (simp add: bi_inv_def)
next
  fix i i' :: "('ix, 'j) bleveIndexer" and xs e
  assume a: "bi_inv i" "iw_Remove BleveWriter xs i = (e, i')"
  then obtain i1 where i1: "forErr (\<lambda>x. wrapStep ''failed to delete object: %w'' []
       (idxStep (\<lambda>B. bl_Delete B (Object_GetID x)))) xs (IndexerAddInflightRequests ''Remove'' 1 i) = (e, i1)"
    "i' = recordIndexerMetrics ''Remove'' None i1"
    by (auto simp: BleveWriter_def Remove_def elim: indexMeasured_cases)
  show "bi_inv i' \<and> batchEntries (bi_bleve i') = batchEntries (bi_bleve i) \<and>
      (\<exists>ys. prefix ys xs \<and> (e = None \<longrightarrow> ys = xs) \<and> bi_docs i' = dropDocs (map Object_GetID ys) (bi_docs i))"
    using delete_docs_loop [OF _ i1(1)] a(1) i1(2) by simp
next
  fix i i' :: "('ix, 'j) bleveIndexer" and q e
  assume "bi_inv i" "iw_RemoveByQuery BleveWriter q i = (e, i')"
  then show "bi_inv i' \<and> batchEntries (bi_bleve i') = batchEntries (bi_bleve i) \<and>
      (\<exists>ks. set ks \<subseteq> dom (bi_docs i) \<and> length ks \<le> 10 \<and> bi_docs i' = dropDocs ks (bi_docs i))"
    using RemoveByQuery_effect [of i q e i'] by (simp add: BleveWriter_def)
qed

end
