(* ===== verification/Collectors.thy ===== *)
theory Collectors
  imports IndexInterface SqliteStore Adapters
begin

text \<open>
  How objects reach the store and the index: the reconciler that turns a request of
  controller-runtime into a transaction (collector/reconciler/reconciler.go and
  collector/watcher.go), and the three collectors' processing of transactions
  (objectscollector, rolecollector, tenantscollector). The Kubernetes client,
  IsNotFound, json.Marshal of an object and the current time are parameters. An
  error that the code only logs is dropped here; a panic is not.
\<close>

section \<open>The reconciler\<close>

definition kindsWithoutFinalizers :: "string list" where
  "kindsWithoutFinalizers = [''ClusterRoleBinding'', ''ClusterRole'', ''RoleBinding'', ''Role'', ''AutomatedClusterDiscovery'']"

record kube_reader =
  kr_Get :: "string \<Rightarrow> string \<Rightarrow> client_object \<Rightarrow> client_object res"
  kr_IsNotFound :: "goerror \<Rightarrow> bool"

record reconciler =
  rc_clusterName :: string
  rc_objectKind :: object_kind
  rc_client :: kube_reader

definition NewReconciler :: "string \<Rightarrow> object_kind \<Rightarrow> kube_reader option \<Rightarrow> reconciler res" where
  "NewReconciler clusterName objectKind client =
     (case client of
        None \<Rightarrow> Inl (err ''invalid client'')
      | Some c \<Rightarrow>
          if gvk_Kind (ok_Gvk objectKind) = [] then Inl (err ''missing gvk'')
          else Inr \<lparr> rc_clusterName = clusterName, rc_objectKind = objectKind, rc_client = c \<rparr>)"

text \<open>The transaction of a reconciled object.\<close>

definition transactionOf :: "reconciler \<Rightarrow> client_object \<Rightarrow> transaction_type \<Rightarrow> object_transaction" where
  "transactionOf r obj ty = \<lparr> tx_ClusterName = rc_clusterName r,
     tx_Object = Some (NewNormalizedObject obj (rc_objectKind r)), tx_TransactionType = ty,
     tx_RetentionPolicy = ok_RetentionPolicy (rc_objectKind r) \<rparr>"

definition nilCall :: goerror where
  "nilCall = Panic ''invalid memory address or nil pointer dereference''"

definition Reconcile :: "reconciler \<Rightarrow> (object_transaction \<Rightarrow> 's step) \<Rightarrow> string \<Rightarrow> string \<Rightarrow> 's step" where
  "Reconcile r processFunc namespace name s =
     (let kind = rc_objectKind r; client = rc_client r in
      case ok_NewClientObjectFunc kind of
        None \<Rightarrow> (Some nilCall, s)
      | Some clientObject \<Rightarrow>
          (case kr_Get client namespace name clientObject of
             Inl e \<Rightarrow>
               (let known = gvk_Kind (ok_Gvk kind) \<in> set kindsWithoutFinalizers in
                if \<not> kr_IsNotFound client e \<or> \<not> known
                then (if kr_IsNotFound client e then None else Some e, s)
                else processFunc (transactionOf r (clientObject\<lparr> co_Name := name, co_Namespace := namespace,
                       co_Gvk := ok_Gvk kind \<rparr>) TransactionTypeDelete) s)
           | Inr clientObject \<Rightarrow>
               (if (case ok_FilterFunc kind of None \<Rightarrow> False | Some retain \<Rightarrow> \<not> retain clientObject) then (None, s)
                else
                  let txType = (if co_DeletionTimestamp clientObject \<noteq> None \<and> co_DeletionTimestamp clientObject \<noteq> Some 0
                                then TransactionTypeDelete else TransactionTypeUpsert)
                  in processFunc (transactionOf r clientObject txType) s)))"

section \<open>Watchers\<close>

text \<open>deleteAllTransaction has no object.\<close>

definition NewDeleteAllTransaction :: "string \<Rightarrow> object_transaction" where
  "NewDeleteAllTransaction clusterName = \<lparr> tx_ClusterName = clusterName, tx_Object = None,
     tx_TransactionType = TransactionTypeDeleteAll, tx_RetentionPolicy = 0 \<rparr>"

text \<open>
  NewWatcher: the kinds are added to the scheme, a manager is made, and a reconciler
  is set up for every kind. The manager is a parameter; the reconcilers that were set
  up are the result.
\<close>

record manager_env =
  me_AddToScheme :: "string \<Rightarrow> goerror option"
  me_NewManager :: "kube_reader res"
  me_Setup :: "reconciler \<Rightarrow> goerror option"

fun addSchemes :: "manager_env \<Rightarrow> object_kind list \<Rightarrow> goerror option" where
  "addSchemes M [] = None"
| "addSchemes M (k # ks) =
     (case ok_AddToSchemeFunc k of
        None \<Rightarrow> Some nilCall
      | Some f \<Rightarrow>
          (case me_AddToScheme M f of
             Some e \<Rightarrow> Some (wrap ''cannot create runtime scheme: %w'' [] e)
           | None \<Rightarrow> addSchemes M ks))"

fun setupAll :: "manager_env \<Rightarrow> string \<Rightarrow> kube_reader \<Rightarrow> object_kind list \<Rightarrow> reconciler list res" where
  "setupAll M clusterName client [] = Inr []"
| "setupAll M clusterName client (k # ks) =
     (case NewReconciler clusterName k (Some client) of
        Inl e \<Rightarrow> Inl (wrap ''cannot create reconciler: %w'' [] e)
      | Inr rec \<Rightarrow>
          (case me_Setup M rec of
             Some e \<Rightarrow> Inl (wrap ''cannot setup reconciler: %w'' [] e)
           | None \<Rightarrow>
               (case setupAll M clusterName client ks of Inl e \<Rightarrow> Inl e | Inr recs \<Rightarrow> Inr (rec # recs))))"

definition NewWatcher :: "manager_env \<Rightarrow> string \<Rightarrow> object_kind list \<Rightarrow> reconciler list res" where
  "NewWatcher M clusterName kinds =
     (case addSchemes M kinds of
        Some e \<Rightarrow> Inl e
      | None \<Rightarrow>
          (case me_NewManager M of
             Inl e \<Rightarrow> Inl (wrap ''cannot create controller manager: %w'' [] e)
           | Inr client \<Rightarrow> setupAll M clusterName client kinds))"

section \<open>Objects\<close>

record batch =
  ba_upsert :: "object list"
  ba_delete :: "object list"
  ba_deleteAll :: "string list"

definition emptyBatch :: batch where
  "emptyBatch = \<lparr> ba_upsert = [], ba_delete = [], ba_deleteAll = [] \<rparr>"

text \<open>A failing step whose error is logged: the transaction is skipped, unless it panicked.\<close>

definition skipOn :: "'b res \<Rightarrow> 'a \<Rightarrow> ('b \<Rightarrow> 'a res) \<Rightarrow> 'a res" where
  "skipOn r skipped f = (case r of Inl e \<Rightarrow> if isPanic e then Inl e else Inr skipped | Inr x \<Rightarrow> f x)"

definition objectOf :: "object_transaction \<Rightarrow> normalized_object \<Rightarrow> object_status \<Rightarrow> string \<Rightarrow> object_category \<Rightarrow> string \<Rightarrow> object" where
  "objectOf tx n status message cat raw =
     (let obj = no_Object n; gvk = co_Gvk obj;
          modelTs = (case co_DeletionTimestamp obj of None \<Rightarrow> 0 | Some t \<Rightarrow> t)
      in \<lparr> ob_ID = [], ob_Cluster = tx_ClusterName tx, ob_Namespace = co_Namespace obj,
           ob_APIGroup = gvk_Group gvk, ob_APIVersion = gvk_Version gvk, ob_Kind = gvk_Kind gvk,
           ob_Name = co_Name obj, ob_Status = status, ob_Message = message, ob_Category = cat,
           ob_KubernetesDeletedAt = modelTs, ob_Unstructured = raw, ob_Tenant = [],
           ob_Labels = GetRelevantLabels n \<rparr>)"

definition sortObject :: "(normalized_object \<Rightarrow> string res) \<Rightarrow> int \<Rightarrow> object_transaction \<Rightarrow> batch \<Rightarrow> batch res" where
  "sortObject marshal now tx b =
     (if tx_TransactionType tx = TransactionTypeDeleteAll
      then Inr (b\<lparr> ba_deleteAll := ba_deleteAll b @ [tx_ClusterName tx] \<rparr>)
      else case tx_Object tx of
        None \<Rightarrow> Inl nilCall
      | Some n \<Rightarrow>
          skipOn (GetCategory n) b (\<lambda>cat.
          skipOn (marshal n) b (\<lambda>raw.
          skipOn (GetStatus n) b (\<lambda>status.
          skipOn (GetMessage n) b (\<lambda>message.
            let object = objectOf tx n status message cat raw in
            if tx_TransactionType tx = TransactionTypeDelete \<and>
               (tx_RetentionPolicy tx = NoRetentionPolicy \<or> IsExpired now (tx_RetentionPolicy tx) object)
            then Inr (b\<lparr> ba_delete := ba_delete b @ [object] \<rparr>)
            else Inr (b\<lparr> ba_upsert := ba_upsert b @ [object] \<rparr>))))))"

fun sortObjects :: "(normalized_object \<Rightarrow> string res) \<Rightarrow> int \<Rightarrow> object_transaction list \<Rightarrow> batch \<Rightarrow> batch res" where
  "sortObjects marshal now [] b = Inr b"
| "sortObjects marshal now (tx # txs) b =
     (case sortObject marshal now tx b of Inl e \<Rightarrow> Inl e | Inr b \<Rightarrow> sortObjects marshal now txs b)"

text \<open>A call of the store, or of the index, in the state of both.\<close>

definition onStore :: "'s step \<Rightarrow> ('s \<times> 'i) step" where
  "onStore f w = (case f (fst w) of (e, s) \<Rightarrow> (e, (s, snd w)))"

definition onIndex :: "'i step \<Rightarrow> ('s \<times> 'i) step" where
  "onIndex f w = (case f (snd w) of (e, i) \<Rightarrow> (e, (fst w, i)))"

definition whenSome :: "'a list \<Rightarrow> 's step \<Rightarrow> 's step" where
  "whenSome xs f s = (if length xs > 0 then f s else (None, s))"

definition applyBatch :: "'s Store \<Rightarrow> 'i IndexWriter \<Rightarrow> batch \<Rightarrow> ('s \<times> 'i) step" where
  "applyBatch S W b =
     seqErr (whenSome (ba_upsert b)
        (seqErr (wrapStep ''failed to store objects: %w'' [] (onStore (s_StoreObjects S (ba_upsert b))))
                (wrapStep ''failed to index objects: %w'' [] (onIndex (iw_Add W (ba_upsert b))))))
     (seqErr (whenSome (ba_delete b)
        (seqErr (wrapStep ''failed to delete objects: %w'' [] (onStore (s_DeleteObjects S (ba_delete b))))
                (wrapStep ''failed to delete objects from index: %w'' [] (onIndex (iw_Remove W (ba_delete b))))))
     (whenSome (ba_deleteAll b)
        (seqErr (wrapStep ''failed to delete all objects: %w'' [] (onStore (s_DeleteAllObjects S (ba_deleteAll b))))
                (forErr (\<lambda>cluster. wrapStep ''failed to delete all objects for cluster %q: %w'' [cluster]
                   (onIndex (iw_RemoveByQuery W (''+cluster:'' @ cluster)))) (ba_deleteAll b)))))"

definition objects_processRecords :: "'s Store \<Rightarrow> 'i IndexWriter \<Rightarrow> (normalized_object \<Rightarrow> string res) \<Rightarrow> int \<Rightarrow>
    object_transaction list \<Rightarrow> ('s \<times> 'i) step" where
  "objects_processRecords S W marshal now txs w =
     (case sortObjects marshal now txs emptyBatch of Inl e \<Rightarrow> (Some e, w) | Inr b \<Rightarrow> applyBatch S W b w)"

text \<open>The hook that runs when a cluster is no longer watched.\<close>

definition objects_deleteWatcher :: "'s Store \<Rightarrow> 'i IndexWriter \<Rightarrow> (normalized_object \<Rightarrow> string res) \<Rightarrow> int \<Rightarrow>
    string \<Rightarrow> ('s \<times> 'i) step" where
  "objects_deleteWatcher S W marshal now clusterName =
     objects_processRecords S W marshal now [NewDeleteAllTransaction clusterName]"

section \<open>Roles and bindings\<close>

record rbac_batch =
  rb_roles :: "role list"
  rb_rolesToDelete :: "role list"
  rb_bindings :: "role_binding list"
  rb_bindingsToDelete :: "role_binding list"
  rb_deleteAll :: "string list"

definition emptyRbacBatch :: rbac_batch where
  "emptyRbacBatch = \<lparr> rb_roles = [], rb_rolesToDelete = [], rb_bindings = [], rb_bindingsToDelete = [], rb_deleteAll = [] \<rparr>"

fun sortRbac :: "object_transaction list \<Rightarrow> rbac_batch \<Rightarrow> rbac_batch res" where
  "sortRbac [] b = Inr b"
| "sortRbac (tx # txs) b =
     (if tx_TransactionType tx = TransactionTypeDeleteAll
      then sortRbac txs (b\<lparr> rb_deleteAll := rb_deleteAll b @ [tx_ClusterName tx] \<rparr>)
      else case tx_Object tx of
        None \<Rightarrow> Inl nilCall
      | Some n \<Rightarrow>
          let kind = gvk_Kind (co_Gvk (no_Object n)) in
          if kind = ''ClusterRole'' \<or> kind = ''Role'' then
            (case NewRoleAdapter (tx_ClusterName tx) kind (Raw n) of
               Inl e \<Rightarrow> Inl (wrap ''cannot create role: %w'' [] e)
             | Inr r \<Rightarrow>
                 if tx_TransactionType tx = TransactionTypeDelete
                 then sortRbac txs (b\<lparr> rb_rolesToDelete := rb_rolesToDelete b @ [RoleLike_ToModel r] \<rparr>)
                 else if length (GetRules r) = 0 then sortRbac txs b
                 else sortRbac txs (b\<lparr> rb_roles := rb_roles b @ [RoleLike_ToModel r] \<rparr>))
          else if kind = ''ClusterRoleBinding'' \<or> kind = ''RoleBinding'' then
            (case NewBindingAdapter (tx_ClusterName tx) (Raw n) of
               Inl e \<Rightarrow> Inl (wrap ''cannot create binding: %w'' [] e)
             | Inr bnd \<Rightarrow>
                 if tx_TransactionType tx = TransactionTypeDelete
                 then sortRbac txs (b\<lparr> rb_bindingsToDelete := rb_bindingsToDelete b @ [BindingLike_ToModel bnd] \<rparr>)
                 else sortRbac txs (b\<lparr> rb_bindings := rb_bindings b @ [BindingLike_ToModel bnd] \<rparr>))
          else sortRbac txs b)"

definition roles_processRecords :: "'s Store \<Rightarrow> object_transaction list \<Rightarrow> 's step" where
  "roles_processRecords S txs s =
     (case sortRbac txs emptyRbacBatch of
        Inl e \<Rightarrow> (Some e, s)
      | Inr b \<Rightarrow>
          seqErr (whenSome (rb_roles b) (wrapStep ''cannot store roles: %w'' [] (s_StoreRoles S (rb_roles b))))
          (seqErr (whenSome (rb_rolesToDelete b) (wrapStep ''cannot delete roles: %w'' [] (s_DeleteRoles S (rb_rolesToDelete b))))
          (seqErr (whenSome (rb_bindings b) (wrapStep ''cannot store role bindings: %w'' [] (s_StoreRoleBindings S (rb_bindings b))))
          (seqErr (whenSome (rb_bindingsToDelete b)
             (wrapStep ''cannot delete role bindings: %w'' [] (s_DeleteRoleBindings S (rb_bindingsToDelete b))))
          (whenSome (rb_deleteAll b)
             (seqErr (wrapStep ''failed to delete all roles: %w'' [] (s_DeleteAllRoles S (rb_deleteAll b)))
                     (wrapStep ''failed to delete all role bindings: %w'' [] (s_DeleteAllRoleBindings S (rb_deleteAll b)))))))) s)"

definition roles_deleteWatcher :: "'s Store \<Rightarrow> string \<Rightarrow> 's step" where
  "roles_deleteWatcher S clusterName = roles_processRecords S [NewDeleteAllTransaction clusterName]"

section \<open>Tenants\<close>

definition TenantLabel :: string where "TenantLabel = ''toolkit.fluxcd.io/tenant''"

definition NamespaceKind :: "api_groups \<Rightarrow> object_kind" where
  "NamespaceKind A = \<lparr> ok_Gvk = ag_WithKind A (ag_corev1 A) ''Namespace'',
     ok_NewClientObjectFunc = Some (newObject K8sNamespace), ok_AddToSchemeFunc = Some ''v1'',
     ok_RetentionPolicy = 0, ok_FilterFunc = None, ok_GetConditionsFunc = None, ok_GetSuspendedFunc = None,
     ok_StatusFunc = None, ok_MessageFunc = None, ok_Labels = [TenantLabel], ok_Category = [],
     ok_HumanReadableLabelKeys = [] \<rparr>"

definition tenantOf :: "object_transaction \<Rightarrow> string \<Rightarrow> client_object \<Rightarrow> tenant" where
  "tenantOf tx name obj = \<lparr> tn_ID = [], tn_ClusterName = tx_ClusterName tx, tn_Name = name, tn_Namespace = co_Name obj \<rparr>"

text \<open>The loop of update, with the tenants to add and to delete so far.\<close>

fun sortTenants :: "'s Store \<Rightarrow> object_transaction list \<Rightarrow> tenant list \<times> tenant list \<Rightarrow> ('s, tenant list \<times> tenant list) action" where
  "sortTenants S [] acc s = (Inr acc, s)"
| "sortTenants S (tx # txs) (toAdd, toDelete) s =
     (case tx_Object tx of
        None \<Rightarrow> (Inl nilCall, s)
      | Some n \<Rightarrow>
          let obj = no_Object n; tenant = mget (co_Labels obj) TenantLabel in
          if tenant = [] then sortTenants S txs (toAdd, toDelete) s
          else if tx_TransactionType tx = TransactionTypeDelete
            then sortTenants S txs (toAdd, toDelete @ [tenantOf tx tenant obj]) s
          else if tx_TransactionType tx = TransactionTypeDeleteAll then
            (case s_GetTenants S s of
               (Inl e, s) \<Rightarrow> (Inl (wrap ''error getting all tenants: %w'' [] e), s)
             | (Inr allTenants, s) \<Rightarrow>
                 sortTenants S txs (toAdd, foldl (\<lambda>del t. if tn_ClusterName t = tx_ClusterName tx \<and> tn_Namespace t = co_Name obj
                    then del @ [t] else del) toDelete allTenants) s)
          else sortTenants S txs (toAdd @ [tenantOf tx tenant obj], toDelete) s)"

definition tenants_update :: "'s Store \<Rightarrow> object_transaction list \<Rightarrow> 's step" where
  "tenants_update S txs s =
     (case sortTenants S txs ([], []) s of
        (Inl e, s) \<Rightarrow> (Some e, s)
      | (Inr (toAdd, toDelete), s) \<Rightarrow>
          seqErr (wrapStep ''error storing tenants: %w'' [] (s_StoreTenants S toAdd))
            (whenSome toDelete (wrapStep ''error deleting tenants: %w'' [] (s_DeleteTenants S toDelete))) s)"

end
