(* ===== verification/IndexFacts.thy ===== *)
theory IndexFacts
  imports IndexInterface
begin

text \<open>
  What a search guarantees to the query service, and what stays in the index after
  objects have been removed from it. The theory also holds a small index on lists
  that satisfies bleve_ok, on which concrete searches are run.
\<close>

section \<open>An index on lists\<close>

fun memMatches :: "bquery \<Rightarrow> unit index_doc \<Rightarrow> bool" where
  "memMatches MatchAllQuery d = True"
| "memMatches (TermQuery t) d = (case d of ObjectDoc x \<Rightarrow> ob_Name x = t | JsonDoc _ \<Rightarrow> False)"
| "memMatches (QueryStringQuery q) d =
     (case d of ObjectDoc x \<Rightarrow> q = ''+cluster:'' @ ob_Cluster x | JsonDoc _ \<Rightarrow> False)"
| "memMatches (ConjunctionQuery qs) d = list_all (\<lambda>q. memMatches q d) qs"

type_synonym memix = "(string \<times> unit index_doc) list"

definition memRanking :: "bquery \<Rightarrow> memix \<Rightarrow> string list" where
  "memRanking q ix = filter (\<lambda>k. memMatches q (the (map_of ix k))) (remdups (map fst ix))"

definition memBleve :: "(memix, unit) bleve" where
  "memBleve = \<lparr>
     bl_Docs = map_of,
     bl_Matches = memMatches,
     bl_Unmarshal = (\<lambda>s. Inr ()),
     bl_BatchIndex = (\<lambda>k d. None),
     bl_Batch = (\<lambda>ds ix. (None, rev ds @ ix)),
     bl_Delete = (\<lambda>k ix. (None, filter (\<lambda>(j, _). j \<noteq> k) ix)),
     bl_NewSearchRequest = (\<lambda>q. \<lparr> rq_Query = q, rq_Size = 10, rq_From = 0, rq_Sort = [SortScore True], rq_Facets = [] \<rparr>),
     bl_Search = (\<lambda>req ix. Inr \<lparr> sr_Hits = take (nat (rq_Size req)) (drop (nat (rq_From req)) (memRanking (rq_Query req) ix)),
        sr_Facets = [] \<rparr>),
     bl_DocCount = (\<lambda>ix. Inr (int (length (remdups (map fst ix))))) \<rparr>"

definition memIndexer :: "memix \<Rightarrow> (memix, unit) bleveIndexer" where
  "memIndexer ix = \<lparr> bi_bleve = memBleve, bi_idx = ix, bi_inflight = (\<lambda>_. 0), bi_latency = [] \<rparr>"

lemma putDocs_map_add: "putDocs ds m = m ++ map_of (rev ds)"
proof (induction ds arbitrary: m)
  case (Cons d ds)
  obtain k v where d: "d = (k, v)" by force
  have "putDocs (d # ds) m = putDocs ds (m(k \<mapsto> v))" by (simp add: putDocs_def d)
  also have "\<dots> = m(k \<mapsto> v) ++ map_of (rev ds)" by (rule Cons.IH)
  also have "\<dots> = m ++ map_of (rev (d # ds))" by (auto simp: d map_add_def fun_eq_iff split: option.splits)
  finally show ?case .
qed (simp add: putDocs_def)

lemma map_of_rev_put: "map_of (rev ds @ ix) = putDocs ds (map_of ix)"
  by (simp add: putDocs_map_add)

lemma map_of_filter_key: "map_of (filter (\<lambda>(j, _). j \<noteq> k) ix) = (map_of ix)(k := None)"
  by (induction ix) (auto simp: fun_eq_iff)

lemma memRanking_set: "set (memRanking q ix) = {k. \<exists>d. map_of ix k = Some d \<and> memMatches q d}"
proof -
  have "k \<in> set (remdups (map fst ix)) \<longleftrightarrow> (\<exists>d. map_of ix k = Some d)" for k
    using map_of_eq_None_iff [of ix k] by auto
  then show ?thesis by (auto simp: memRanking_def)
qed

lemma memBleve_ok: "bleve_ok memBleve"
  unfolding bleve_ok_def
proof (intro conjI allI impI)
  fix req ix r assume "bl_Search memBleve req ix = Inr r"
  then have "sr_Hits r = take (nat (rq_Size req)) (drop (nat (rq_From req)) (memRanking (rq_Query req) ix))"
    by (auto simp: memBleve_def)
  then show "search_ok (bl_Docs memBleve ix) (bl_Matches memBleve) req (sr_Hits r)"
    unfolding search_ok_def
    using memRanking_set [of "rq_Query req" ix]
    by (intro exI [of _ "memRanking (rq_Query req) ix"]) (simp add: memBleve_def, simp add: memRanking_def)
next
  fix ix n assume "bl_DocCount memBleve ix = Inr n"
  then show "finite (dom (bl_Docs memBleve ix))" "n = int (card (dom (bl_Docs memBleve ix)))"
    by (auto simp: memBleve_def finite_dom_map_of dom_map_of_conv_image_fst length_remdups_card_conv)
qed (auto simp: memBleve_def putDocs_map_add map_of_filter_key list_all_iff)

lemma memIndexer_inv [simp]: "bi_inv (memIndexer ix)"
  by (simp add: bi_inv_def memIndexer_def memBleve_ok)

section \<open>Searching\<close>

lemma uniqueHits_props:
  "distinct (uniqueHits seen hs) \<and> set (uniqueHits seen hs) = set hs - seen"
  by (induction seen hs rule: uniqueHits.induct) auto

lemma Search_cases:
  assumes "bi_inv i" "Search q opts i = (Inr it, i')"
  obtains hits where "ii_Hits it = uniqueHits {} (map stripSuffix hits)" "ii_Index it = -1"
    "bi_docs i' = bi_docs i" "bi_inv i'"
    "search_ok (bi_docs i) (bl_Matches (bi_bleve i))
       \<lparr> rq_Query = searchQuery q, rq_Size = int (card (dom (bi_docs i))),
         rq_From = (case opts of Some opt \<Rightarrow> if qo_Offset opt > 0 then qo_Offset opt else 0 | None \<Rightarrow> 0),
         rq_Sort = searchOrders opts, rq_Facets = [] \<rparr> hits"
    "finite (dom (bi_docs i))"
proof -
  let ?B = "bi_bleve i"
  let ?i0 = "IndexerAddInflightRequests ''Search'' 1 i"
  have B: "bleve_ok ?B" using assms(1) by (simp add: bi_inv_def)
  have i0: "bi_bleve ?i0 = ?B" "bi_idx ?i0 = bi_idx i" by simp_all
  define req where "req = (\<lambda>count. \<lparr> rq_Query = searchQuery q, rq_Size = count,
         rq_From = (case opts of Some opt \<Rightarrow> if qo_Offset opt > 0 then qo_Offset opt else 0 | None \<Rightarrow> 0),
         rq_Sort = searchOrders opts, rq_Facets = [] \<rparr>)"
  have req: "(case opts of None \<Rightarrow> (bl_NewSearchRequest ?B (searchQuery q))\<lparr> rq_Size := count \<rparr>
      | Some opt \<Rightarrow> if qo_Offset opt > 0
          then (bl_NewSearchRequest ?B (searchQuery q))\<lparr> rq_Size := count, rq_From := qo_Offset opt \<rparr>
          else (bl_NewSearchRequest ?B (searchQuery q))\<lparr> rq_Size := count \<rparr>)\<lparr> rq_Sort := searchOrders opts \<rparr> = req count"
    for count by (simp add: bleve_request [OF B] req_def split: option.splits)
  obtain count where count: "bl_DocCount ?B (bi_idx i) = Inr count"
    using assms(2) i0 by (auto simp: Search_def indexMeasured_def Let_def split: sum.splits)
  have n: "finite (dom (bi_docs i))" "count = int (card (dom (bi_docs i)))"
    using bleve_count [OF B count] by (simp_all add: bi_docs_def)
  have run: "(case bl_Search ?B (req count) (bi_idx i) of
        Inl e \<Rightarrow> (Inl (wrap ''failed to search for objects: %w'' [] e), ?i0)
      | Inr results \<Rightarrow> (Inr \<lparr> ii_Hits = uniqueHits {} (map stripSuffix (sr_Hits results)),
           ii_Index = -1, ii_Opts = opts \<rparr>, ?i0)) = (Inr it, ?i0) \<and> i' = recordIndexerMetrics ''Search'' None ?i0"
    using assms(2) i0 count req [of count]
    by (cases opts) (auto simp: Search_def indexMeasured_def Let_def split: sum.splits if_splits)
  then obtain results where res: "bl_Search ?B (req count) (bi_idx i) = Inr results"
    "it = \<lparr> ii_Hits = uniqueHits {} (map stripSuffix (sr_Hits results)), ii_Index = -1, ii_Opts = opts \<rparr>"
    by (auto split: sum.splits)
  have "search_ok (bi_docs i) (bl_Matches ?B) (req count) (sr_Hits results)"
    using bleve_search [OF B res(1)] by (simp add: bi_docs_def)
  then show thesis
    using that [of "sr_Hits results"] res(2) run assms(1) n by (simp add: req_def)
qed

lemma search_starts: "\<lbrakk>bi_inv i; Search q opts i = (Inr it, i')\<rbrakk> \<Longrightarrow> ii_Index it = -1"
  by (erule (1) Search_cases)

lemma search_hits:
  assumes "bi_inv i" "Search q opts i = (Inr it, i')"
  shows "distinct (ii_Hits it) \<and> ii_Index it = -1 \<and> bi_docs i' = bi_docs i \<and>
    (let matching = {k. \<exists>d. bi_docs i k = Some d \<and> bl_Matches (bi_bleve i) (searchQuery q) d} in
     set (ii_Hits it) \<subseteq> stripSuffix ` matching \<and>
     ((case opts of None \<Rightarrow> True | Some opt \<Rightarrow> qo_Offset opt \<le> 0) \<longrightarrow>
        set (ii_Hits it) = stripSuffix ` matching))"
proof -
  obtain hits where h: "ii_Hits it = uniqueHits {} (map stripSuffix hits)" "ii_Index it = -1" "bi_docs i' = bi_docs i"
    and ok: "search_ok (bi_docs i) (bl_Matches (bi_bleve i))
       \<lparr> rq_Query = searchQuery q, rq_Size = int (card (dom (bi_docs i))),
         rq_From = (case opts of Some opt \<Rightarrow> if qo_Offset opt > 0 then qo_Offset opt else 0 | None \<Rightarrow> 0),
         rq_Sort = searchOrders opts, rq_Facets = [] \<rparr> hits"
    and fin: "finite (dom (bi_docs i))"
    using assms by (rule Search_cases)
  let ?matching = "{k. \<exists>d. bi_docs i k = Some d \<and> bl_Matches (bi_bleve i) (searchQuery q) d}"
  let ?from = "case opts of Some opt \<Rightarrow> if qo_Offset opt > 0 then qo_Offset opt else 0 | None \<Rightarrow> 0"
  obtain ranking where r: "distinct ranking" "set ranking = ?matching"
    "hits = take (card (dom (bi_docs i))) (drop (nat ?from) ranking)"
    using ok by (auto simp: search_ok_def)
  have "card (set ranking) \<le> card (dom (bi_docs i))"
    by (rule card_mono [OF fin]) (auto simp: r(2))
  then have len: "length ranking \<le> card (dom (bi_docs i))" using r(1) by (simp add: distinct_card)
  have sub: "set hits \<subseteq> ?matching"
    unfolding r(2) [symmetric] r(3) by (meson order_trans set_drop_subset set_take_subset)
  have all: "set hits = ?matching" if "case opts of None \<Rightarrow> True | Some opt \<Rightarrow> qo_Offset opt \<le> 0"
  proof -
    have "nat ?from = 0" using that by (auto split: option.splits)
    then show ?thesis using r len by simp
  qed
  have s: "set (ii_Hits it) = stripSuffix ` set hits" "distinct (ii_Hits it)"
    using h(1) uniqueHits_props [of "{}"] by simp_all
  show ?thesis unfolding Let_def using s h(2,3) sub all by (auto simp only: image_mono)
qed

lemma Search_all:
  assumes "bi_inv i" "Search q None i = (Inr it, i')"
  shows "distinct (ii_Hits it) \<and> set (ii_Hits it) =
      stripSuffix ` {k. \<exists>d. bi_docs i k = Some d \<and> bl_Matches (bi_bleve i) (searchQuery q) d}"
  using search_hits [OF assms] by (simp add: Let_def)

text \<open>C34: A search is complete: without an offset, the iterator it returns enumerates, each exactly
  once, the identifiers of all the documents that match, where a hit on the JSON of an object
  counts as a hit on the object; an offset only leaves hits out.\<close>

theorem search_complete:
  assumes "bi_inv i" "Search q opts i = (Inr it, i')"
  shows "distinct (ii_Hits it) \<and> ii_Index it = -1 \<and> bi_docs i' = bi_docs i \<and>
    (let matching = {k. \<exists>d. bi_docs i k = Some d \<and> bl_Matches (bi_bleve i) (searchQuery q) d} in
     set (ii_Hits it) \<subseteq> stripSuffix ` matching \<and>
     ((case opts of None \<Rightarrow> True | Some opt \<Rightarrow> qo_Offset opt \<le> 0) \<longrightarrow>
        set (ii_Hits it) = stripSuffix ` matching))"
  by (rule search_hits [OF assms])

lemma search_complete_witness:
  "set (ii_Hits (case Search \<lparr> qu_Terms = [], qu_Filters = [] \<rparr> None
      (memIndexer [(''a'', JsonDoc ()), (''b_unstructured'', JsonDoc ())]) of (Inr it, _) \<Rightarrow> it)) = {''a'', ''b''}"
proof -
  let ?i = "memIndexer [(''a'', JsonDoc ()), (''b_unstructured'', JsonDoc ())]"
  let ?q = "\<lparr> qu_Terms = [], qu_Filters = [] \<rparr>"
  obtain it i' where r: "Search ?q None ?i = (Inr it, i')"
    by (simp add: Search_def indexMeasured_def Let_def memIndexer_def memBleve_def
        IndexerAddInflightRequests_def)
  have m: "{k. \<exists>d. bi_docs ?i k = Some d \<and> bl_Matches (bi_bleve ?i) (searchQuery ?q) d} = {''a'', ''b_unstructured''}"
    by (auto simp: bi_docs_def memIndexer_def memBleve_def searchQuery_def)
  have strip: "stripSuffix ''a'' = ''a''" "stripSuffix ''b_unstructured'' = ''b''"
    by (simp_all add: stripSuffix_def unstructuredSuffix_def strContains_def)
  show ?thesis using search_complete [OF memIndexer_inv r] strip r
    by (simp add: Let_def m)
qed

section \<open>Removing\<close>

lemma cutFirst_suffix:
  "CHR ''_'' \<notin> set w \<Longrightarrow> cutFirst unstructuredSuffix (w @ unstructuredSuffix) = w"
proof (induction w)
  case Nil
  then show ?case by (simp add: unstructuredSuffix_def)
next
  case (Cons c w)
  then show ?case by (auto simp: unstructuredSuffix_def)
qed

lemma strContains_append: "strContains (w @ s) s"
  by (auto simp: strContains_def list_ex_iff suffix_def intro!: bexI [of _ s])

lemma stripSuffix_unstructured:
  "CHR ''_'' \<notin> set w \<Longrightarrow> stripSuffix (w @ unstructuredSuffix) = w"
  by (simp add: stripSuffix_def strContains_append cutFirst_suffix)

text \<open>An object that has been added and removed again is still found: Remove deletes the
  document of the object but not the one with its JSON, and a later search for everything still
  returns the identifier of the object.\<close>

theorem removed_object_still_found:
  assumes "bi_inv i" "batchEntries (bi_bleve i) x = [(Object_GetID x, d1), (Object_GetID x @ unstructuredSuffix, d2)]"
    "Add [x] i = (None, i1)" "Remove [x] i1 = (None, i2)" "CHR ''_'' \<notin> set (Object_GetID x)"
    "Search \<lparr> qu_Terms = [], qu_Filters = [] \<rparr> None i2 = (Inr it, i3)"
  shows "bi_docs i2 (Object_GetID x) = None \<and> Object_GetID x \<in> set (ii_Hits it)"
proof -
  let ?q = "\<lparr> qu_Terms = [], qu_Filters = [] \<rparr>"
  have i1: "bi_inv i1" "bi_docs i1 = putDocs (batchEntries (bi_bleve i) x) (bi_docs i)"
    using bleve.add [of i "[x]" None i1] assms(1,3) by (simp_all add: BleveWriter_def)
  have i2: "bi_inv i2" "bi_docs i2 = dropDocs [Object_GetID x] (bi_docs i1)"
    using bleve.remove_ok [of i1 "[x]" i2] i1(1) assms(4) by (simp_all add: BleveWriter_def)
  have left: "bi_docs i2 (Object_GetID x @ unstructuredSuffix) = Some d2" "bi_docs i2 (Object_GetID x) = None"
    using i1(2) i2(2) assms(2) by (simp_all add: dropDocs_get putDocs_def unstructuredSuffix_def)
  have "bl_Matches (bi_bleve i2) (searchQuery ?q) d2"
    using i2(1) by (simp add: bi_inv_def bleve_ok_def searchQuery_def)
  then have "stripSuffix (Object_GetID x @ unstructuredSuffix) \<in> set (ii_Hits it)"
    using Search_all [OF i2(1) assms(6)] left(1) by auto
  then show ?thesis using left(2) stripSuffix_unstructured [OF assms(5)] by simp
qed

lemma removed_object_still_found_witness:
  "let x = (mkObject ''c'' ''ns'' ''Bucket'' ''b'')\<lparr> ob_Unstructured := ''{}'' \<rparr>;
       i2 = snd (Remove [x] (snd (Add [x] (memIndexer []))))
   in \<exists>it i3. Search \<lparr> qu_Terms = [], qu_Filters = [] \<rparr> None i2 = (Inr it, i3) \<and> Object_GetID x \<in> set (ii_Hits it)"
proof -
  let ?x = "(mkObject ''c'' ''ns'' ''Bucket'' ''b'')\<lparr> ob_Unstructured := ''{}'' \<rparr>"
  have id: "Object_GetID ?x = ''c/ns/apps/v1/Bucket/b''"
    by (simp add: mkObject_def Object_GetID_def Object_GroupVersionKind_def)
  have B: "bi_bleve (memIndexer []) = memBleve" by (simp add: memIndexer_def)
  have e: "batchEntries (bi_bleve (memIndexer [])) ?x =
     [(Object_GetID ?x, ObjectDoc ?x), (Object_GetID ?x @ unstructuredSuffix, JsonDoc ())]"
    unfolding B by (simp add: batchEntries_def memBleve_def)
  obtain e1 i1 where a: "Add [?x] (memIndexer []) = (e1, i1)" by force
  have a': "e1 = None" "bi_bleve i1 = memBleve" using a
    by (auto simp: Add_def indexMeasured_def idxStep_def memIndexer_def memBleve_def Let_def
        IndexerAddInflightRequests_def recordIndexerMetrics_def IndexerSetLatency_def)
  obtain e2 i2 where r: "Remove [?x] i1 = (e2, i2)" by force
  have r': "e2 = None" "bi_bleve i2 = memBleve" using r a'(2)
    by (auto simp: Remove_def indexMeasured_def idxStep_def memBleve_def wrapStep_def
        IndexerAddInflightRequests_def recordIndexerMetrics_def IndexerSetLatency_def Let_def)
  obtain it i3 where s: "Search \<lparr> qu_Terms = [], qu_Filters = [] \<rparr> None i2 = (Inr it, i3)"
    using r'(2) by (simp add: Search_def indexMeasured_def Let_def memBleve_def IndexerAddInflightRequests_def)
  have "Object_GetID ?x \<in> set (ii_Hits it)"
    using removed_object_still_found [OF memIndexer_inv e a [unfolded a'(1)] r [unfolded r'(1)] _ s] id by simp
  then show ?thesis using a r s by (simp add: Let_def)
qed

text \<open>RemoveByQuery removes at most ten documents: when more than ten match, for instance all
  the documents of a cluster, some of the matching documents are still in the index after it has
  succeeded.\<close>

theorem remove_by_query_incomplete:
  assumes "bi_inv i" "RemoveByQuery q i = (e, i')"
    "finite M" "card M > 10" "M \<subseteq> {k. \<exists>d. bi_docs i k = Some d \<and> bl_Matches (bi_bleve i) (QueryStringQuery q) d}"
  shows "\<exists>k\<in>M. bi_docs i' k = bi_docs i k \<and> bi_docs i k \<noteq> None"
proof -
  obtain ks where ks: "length ks \<le> 10" "bi_docs i' = dropDocs ks (bi_docs i)"
    using bleve.removeByQuery [of i q e i'] assms(1,2) by (auto simp: BleveWriter_def)
  have "card (set ks) \<le> 10" using ks(1) card_length order_trans by blast
  then have "\<not> M \<subseteq> set ks" using assms(3,4) card_mono [of "set ks" M] by force
  then obtain k where "k \<in> M" "k \<notin> set ks" by blast
  then show ?thesis using ks(2) assms(5) by (auto simp: dropDocs_get intro!: bexI [of _ k])
qed

definition manyObjects :: "object list" where
  "manyObjects = map (\<lambda>n. mkObject ''c'' ''ns'' ''Bucket'' n)
     [''a'', ''b'', ''c'', ''d'', ''e'', ''f'', ''g'', ''h'', ''i'', ''j'', ''k'']"

definition manyDocs :: memix where
  "manyDocs = map (\<lambda>x. (ob_Name x, ObjectDoc x)) manyObjects"

lemma remove_by_query_incomplete_witness:
  "\<exists>k\<in>{''a'', ''b'', ''c'', ''d'', ''e'', ''f'', ''g'', ''h'', ''i'', ''j'', ''k''}.
     bi_docs (snd (RemoveByQuery ''+cluster:c'' (memIndexer manyDocs))) k \<noteq> None"
proof -
  let ?M = "{''a'', ''b'', ''c'', ''d'', ''e'', ''f'', ''g'', ''h'', ''i'', ''j'', ''k''}"
  obtain e i' where r: "RemoveByQuery ''+cluster:c'' (memIndexer manyDocs) = (e, i')" by force
  have "?M \<subseteq> {k. \<exists>d. bi_docs (memIndexer manyDocs) k = Some d \<and>
      bl_Matches (bi_bleve (memIndexer manyDocs)) (QueryStringQuery ''+cluster:c'') d}"
    by (simp add: bi_docs_def memIndexer_def memBleve_def manyDocs_def manyObjects_def mkObject_def)
  from remove_by_query_incomplete [OF memIndexer_inv r _ _ this] show ?thesis using r by auto
qed

end
