(* ===== verification/StoreFacts.thy ===== *)
theory StoreFacts
  imports MemDb
begin

text \<open>
  What the SQLite store guarantees to its clients, from the interpretation of the
  Store interface: atomicity of a batch of objects, integrity of the tables, roles
  that can be read back, and two weaknesses: tenants that overwrite each other and
  metrics that never report a failure.
\<close>

definition mkTenant :: "string \<Rightarrow> string \<Rightarrow> string \<Rightarrow> tenant" where
  "mkTenant cluster name ns =
     \<lparr> tn_ID = [], tn_ClusterName = cluster, tn_Name = name, tn_Namespace = ns \<rparr>"

lemma sql_ops [simp]:
  "s_StoreObjects SqliteStore = StoreObjects" "s_DeleteObjects SqliteStore = DeleteObjects"
  "s_DeleteAllObjects SqliteStore = DeleteAllObjects" "s_StoreRoles SqliteStore = StoreRoles"
  "s_StoreTenants SqliteStore = StoreTenants" "s_GetRoles SqliteStore = GetRoles"
  "s_GetTenants SqliteStore = GetTenants" "s_StoreRoleBindings SqliteStore = StoreRoleBindings"
  "s_DeleteRoles SqliteStore = DeleteRoles" "s_DeleteRoleBindings SqliteStore = DeleteRoleBindings"
  "s_DeleteAllRoles SqliteStore = DeleteAllRoles"
  "s_DeleteAllRoleBindings SqliteStore = DeleteAllRoleBindings"
  "s_DeleteTenants SqliteStore = DeleteTenants" "s_GetObjectByID SqliteStore = GetObjectByID"
  "s_GetRoleBindings SqliteStore = GetRoleBindings"
  by (simp_all add: SqliteStore_def)

lemma eachRow_putObject_other:
  "tb_Roles (eachRow putObject xs T) = tb_Roles T" "tb_PolicyRules (eachRow putObject xs T) = tb_PolicyRules T"
  "tb_RoleBindings (eachRow putObject xs T) = tb_RoleBindings T"
  "tb_Subjects (eachRow putObject xs T) = tb_Subjects T" "tb_Tenants (eachRow putObject xs T) = tb_Tenants T"
  by (induction xs arbitrary: T) (auto simp: putObject_def)

text \<open>C12: A batch of objects is stored all or nothing: when StoreObjects succeeds, every object was
  valid and under each identifier the store holds the last object of the batch with it, or what
  it held before; when it fails, because one object is invalid or the database failed, no row has
  changed.\<close>

theorem store_objects_atomic:
  assumes "sq_inv s" "StoreObjects xs s = (e, s')"
  shows "(case e of
      None \<Rightarrow> (\<forall>x\<in>set xs. Object_Validate x = None) \<and>
        (\<forall>k. tb_Objects (rows s') k =
           (case find (\<lambda>x. Object_GetID x = k) (rev xs) of
              Some x \<Rightarrow> Some (objectRow x) | None \<Rightarrow> tb_Objects (rows s) k)) \<and>
        tb_Roles (rows s') = tb_Roles (rows s) \<and> tb_Tenants (rows s') = tb_Tenants (rows s)
    | Some _ \<Rightarrow> rows s' = rows s)"
  using sql.storeObjects [OF assms(1), of xs] assms(2)
  by (simp add: putObjects_get eachRow_putObject_other split: option.splits)

lemma store_objects_atomic_witness:
  "tb_Objects (rows (snd (StoreObjects [mkObject ''c'' ''ns'' ''Bucket'' ''b''] memStore))) ''c/ns/apps/v1/Bucket/b''
     = Some (objectRow (mkObject ''c'' ''ns'' ''Bucket'' ''b'')) \<and>
   rows (snd (StoreObjects [mkObject ''c'' ''ns'' ''Bucket'' ''b'', mkObject [] ''ns'' ''Bucket'' ''b''] memStore)) = rows memStore"
proof -
  let ?x = "mkObject ''c'' ''ns'' ''Bucket'' ''b''" let ?y = "mkObject [] ''ns'' ''Bucket'' ''b''"
  have id: "Object_GetID ?x = ''c/ns/apps/v1/Bucket/b''"
    by (simp add: mkObject_def Object_GetID_def Object_GroupVersionKind_def)
  have valid: "Object_Validate ?x = None" "Object_Validate ?y = Some (err ''missing cluster field'')"
    by (simp_all add: mkObject_def Object_Validate_def)
  obtain e1 s1 where r1: "StoreObjects [?x] memStore = (e1, s1)" by force
  have "e1 = None" using r1 valid(1)
    by (simp add: StoreObjects_def measured_def wrapStep_def dbStep_def memStore_def memGorm_def
        DataStoreInflightRequests_def)
  then have 1: "tb_Objects (rows s1) ''c/ns/apps/v1/Bucket/b'' = Some (objectRow ?x)"
    using store_objects_atomic [OF memStore_inv r1] id by simp
  obtain e2 s2 where r2: "StoreObjects [?x, ?y] memStore = (e2, s2)" by force
  have "e2 \<noteq> None" using r2 valid by (auto simp: StoreObjects_def measured_def)
  then have 2: "rows s2 = rows memStore" using store_objects_atomic [OF memStore_inv r2] by auto
  show ?thesis using 1 2 r1 r2 by simp
qed

text \<open>C13: The integrity of the tables is an invariant: every row's key is its own identifier and
  every row is valid. Storing and deleting objects keeps it whatever the outcome; every other
  operation that succeeds keeps it too.\<close>

theorem store_integrity:
  assumes "sq_inv s" "tables_ok (rows s)"
  shows "tables_ok (rows (snd (StoreObjects xs s))) \<and> tables_ok (rows (snd (DeleteObjects xs s))) \<and>
    tables_ok (rows (snd (DeleteAllObjects cs s))) \<and>
    (\<forall>s'. StoreRoles rs s = (None, s') \<or> StoreRoleBindings bs s = (None, s') \<or>
       StoreTenants ts s = (None, s') \<or> DeleteRoles rs s = (None, s') \<or>
       DeleteRoleBindings bs s = (None, s') \<or> DeleteTenants ts s = (None, s') \<or>
       DeleteAllRoles cs s = (None, s') \<or> DeleteAllRoleBindings cs s = (None, s') \<longrightarrow>
       tables_ok (rows s'))"
proof (intro conjI allI impI)
  show "tables_ok (rows (snd (StoreObjects xs s)))" "tables_ok (rows (snd (DeleteObjects xs s)))"
    "tables_ok (rows (snd (DeleteAllObjects cs s)))"
    using sql.objects_integrity [OF assms] by simp_all
next
  fix s'
  note eff = sql.storeRoles [OF assms(1), unfolded sql_ops] sql.storeRoleBindings [OF assms(1), unfolded sql_ops]
    sql.storeTenants [OF assms(1), unfolded sql_ops] sql.deleteRoles [OF assms(1), unfolded sql_ops]
    sql.deleteRoleBindings [OF assms(1), unfolded sql_ops] sql.deleteTenants [OF assms(1), unfolded sql_ops]
    sql.deleteAllRoles [OF assms(1), unfolded sql_ops]
    sql.deleteAllRoleBindings [OF assms(1), unfolded sql_ops]
  assume "StoreRoles rs s = (None, s') \<or> StoreRoleBindings bs s = (None, s') \<or>
       StoreTenants ts s = (None, s') \<or> DeleteRoles rs s = (None, s') \<or>
       DeleteRoleBindings bs s = (None, s') \<or> DeleteTenants ts s = (None, s') \<or>
       DeleteAllRoles cs s = (None, s') \<or> DeleteAllRoleBindings cs s = (None, s')"
  then show "tables_ok (rows s')"
    by (auto dest!: eff intro!: tables_ok_each simp: assms(2) tables_ok_put tables_ok_drop)
qed

lemma memStore_tables_ok: "tables_ok (rows memStore)"
  by (simp add: tables_ok_def rows_def memStore_def memGorm_def memContents_def emptyDb_def
      objects_ok_def roles_table_ok_def bindings_ok_def tenants_ok_def current_def)

lemma store_integrity_witness:
  "tables_ok (rows (snd (StoreObjects [mkObject ''c'' ''ns'' ''Bucket'' ''b''] memStore)))"
  using store_integrity [OF memStore_inv memStore_tables_ok] by blast

lemma eachRow_putRole_get:
  "r \<in> set rs \<Longrightarrow> distinct (map Role_GetID rs) \<Longrightarrow>
    tb_Roles (eachRow putRole rs T) (Role_GetID r) = Some (roleRow r) \<and>
    tb_PolicyRules (eachRow putRole rs T) (Role_GetID r) = ro_PolicyRules r"
proof (induction rs rule: rev_induct)
  case (snoc q rs)
  show ?case
  proof (cases "r = q")
    case False
    then have mem: "r \<in> set rs" using snoc.prems by simp
    then have "Role_GetID r \<in> Role_GetID ` set rs" by (rule imageI)
    then have "Role_GetID r \<noteq> Role_GetID q" using snoc.prems(2) by auto
    then show ?thesis using snoc.IH [OF mem] snoc.prems(2) by (simp add: putRole_def)
  qed (simp add: putRole_def)
qed simp

text \<open>C28: Roles can be read back: after a batch of roles with different identifiers has been stored,
  GetRoles returns for each of them exactly one role with that identifier, with the same cluster,
  namespace, kind and name and with exactly the rules of the batch, whatever rules an earlier
  version of the role had.\<close>

theorem store_roles_roundtrip:
  assumes "sq_inv s" "distinct (map Role_GetID rs)" "r \<in> set rs"
    "StoreRoles rs s = (None, s1)" "GetRoles s1 = (Inr out, s2)"
  shows "\<exists>!r'. r' \<in> set out \<and> ro_ID r' = Role_GetID r \<and> roleRow r' = roleRow r \<and>
    set (ro_PolicyRules r') = set (ro_PolicyRules r)"
proof -
  have s1: "sq_inv s1" "rows s1 = eachRow putRole rs (rows s)"
    using sql.storeRoles [OF assms(1), of rs s1] assms(4) by simp_all
  have out: "rolesRead (rows s1) out" using sql.getRoles [OF s1(1)] assms(5) by simp
  have row: "tb_Roles (rows s1) (Role_GetID r) = Some (roleRow r)"
    "tb_PolicyRules (rows s1) (Role_GetID r) = ro_PolicyRules r"
    using eachRow_putRole_get [OF assms(3,2)] s1(2) by simp_all
  then have "Role_GetID r \<in> ro_ID ` set out" using out by (auto simp: rolesRead_def)
  then obtain r' where r': "r' \<in> set out" "ro_ID r' = Role_GetID r" by auto
  then have read: "r'\<lparr> ro_PolicyRules := [] \<rparr> = roleRow r" "set (ro_PolicyRules r') = set (ro_PolicyRules r)"
    using out row unfolding rolesRead_def by fastforce+
  have "Role_GetID r' = Role_GetID (r'\<lparr> ro_PolicyRules := [] \<rparr>)" by (simp add: Role_GetID_def)
  then have "Role_GetID r' = Role_GetID r" by (simp add: read(1) roleRow_ids)
  moreover have "roleRow (r'\<lparr> ro_PolicyRules := [] \<rparr>) = roleRow r'"
    by (simp add: roleRow_def Role_GetID_def)
  moreover have "roleRow (roleRow r) = roleRow r" by (simp add: roleRow_def Role_GetID_def)
  ultimately have same: "roleRow r' = roleRow r" using read(1) by metis
  have uniq: "q = r'" if "q \<in> set out" "ro_ID q = Role_GetID r" for q
    using out that r' by (auto simp: rolesRead_def distinct_map inj_on_def)
  show ?thesis using r' read(2) same uniq by blast
qed

lemma store_roles_roundtrip_witness:
  "\<exists>!r'. r' \<in> set (case GetRoles (snd (StoreRoles [hd exampleRoles] memStore)) of (Inr out, _) \<Rightarrow> out | _ \<Rightarrow> []) \<and>
     ro_ID r' = Role_GetID (hd exampleRoles) \<and> roleRow r' = roleRow (hd exampleRoles) \<and>
     set (ro_PolicyRules r') = set (ro_PolicyRules (hd exampleRoles))"
proof -
  obtain e s1 where r1: "StoreRoles [hd exampleRoles] memStore = (e, s1)" by force
  have v: "Role_Validate (hd exampleRoles) = None"
    by (simp add: Role_Validate_def exampleRoles_def roleAdapter_ToModel_def exampleRole_def)
  have run: "e = None" "sq_gorm s1 = memGorm" using r1 v
    by (auto simp: StoreRoles_def measured_def storeRole_def Let_def wrapStep_def dbStep_def memStore_def memGorm_def
        DataStoreInflightRequests_def recordMetrics_def DataStoreSetLatency_def memDelete_def)
  obtain out s2 where r2: "GetRoles s1 = (Inr out, s2)"
    using run(2) by (simp add: GetRoles_def measured_def dbRead_def memGorm_def DataStoreInflightRequests_def)
  show ?thesis
    using store_roles_roundtrip [OF memStore_inv _ _ r1 [unfolded run(1)] r2, of "hd exampleRoles"] r1 r2 by simp
qed

lemma eachRow_putTenant_last:
  "tb_Tenants (eachRow putTenant (ts @ [t]) T) (Tenant_GetID t) = Some (tenantRow t)"
  by (simp add: putTenant_def)

text \<open>A tenant has one namespace in the store: of two valid tenants of the same cluster and name,
  stored one after the other, the first is lost, whatever its namespace, because the identifier
  leaves the namespace out.\<close>

theorem tenant_namespace_lost:
  assumes "sq_inv s" "Tenant_Validate t = None" "Tenant_Validate u = None"
    "tn_ClusterName u = tn_ClusterName t" "tn_Name u = tn_Name t" "tn_Namespace u \<noteq> tn_Namespace t"
    "StoreTenants [t, u] s = (None, s1)" "GetTenants s1 = (Inr out, s2)" "tables_ok (rows s)"
  shows "tenantRow u \<in> set out \<and> (\<forall>v\<in>set out. tn_ClusterName v = tn_ClusterName t \<and> tn_Name v = tn_Name t
      \<longrightarrow> tn_Namespace v = tn_Namespace u)"
proof -
  have s1: "sq_inv s1" "rows s1 = eachRow putTenant ([t] @ [u]) (rows s)"
    using sql.storeTenants [OF assms(1), of "[t, u]" s1] assms(2,3,7) by simp_all
  have ok: "tables_ok (rows s1)"
    unfolding s1(2) by (rule tables_ok_each) (use assms(2,3,9) tables_ok_put in auto)
  have out: "set out = ran (tb_Tenants (rows s1))"
    using sql.getTenants [OF s1(1)] assms(8) by (simp add: tenantsRead_def)
  have u: "tb_Tenants (rows s1) (Tenant_GetID u) = Some (tenantRow u)"
    unfolding s1(2) by (rule eachRow_putTenant_last)
  have "tn_Namespace v = tn_Namespace u"
    if v: "v \<in> set out" "tn_ClusterName v = tn_ClusterName t" "tn_Name v = tn_Name t" for v
  proof -
    obtain k where k: "tb_Tenants (rows s1) k = Some v" using v(1) unfolding out ran_def by blast
    then have "k = Tenant_GetID v" using ok by (auto simp: tables_ok_def tenants_ok_def)
    then have "k = Tenant_GetID u" using v(2,3) assms(4,5) by (simp add: Tenant_GetID_def)
    then show ?thesis using k u by (auto simp: tenantRow_def)
  qed
  then show ?thesis using u out by (auto simp: ran_def)
qed

lemma tenant_namespace_lost_witness:
  "tenantRow (mkTenant ''c'' ''team'' ''ns2'') \<in> set (case GetTenants (snd (StoreTenants
      [mkTenant ''c'' ''team'' ''ns1'', mkTenant ''c'' ''team'' ''ns2''] memStore)) of (Inr out, _) \<Rightarrow> out | _ \<Rightarrow> [])"
proof -
  let ?t = "mkTenant ''c'' ''team'' ''ns1''" let ?u = "mkTenant ''c'' ''team'' ''ns2''"
  have v: "Tenant_Validate ?t = None" "Tenant_Validate ?u = None"
    by (simp_all add: Tenant_Validate_def mkTenant_def)
  obtain e s1 where r1: "StoreTenants [?t, ?u] memStore = (e, s1)" by force
  have run: "e = None" "sq_gorm s1 = memGorm" using r1 v
    by (auto simp: StoreTenants_def measured_def storeTenant_def Let_def wrapStep_def dbStep_def memStore_def memGorm_def
        DataStoreInflightRequests_def recordMetrics_def DataStoreSetLatency_def)
  obtain out s2 where r2: "GetTenants s1 = (Inr out, s2)"
    using run(2) by (simp add: GetTenants_def measured_def dbRead_def memGorm_def DataStoreInflightRequests_def)
  show ?thesis
    using tenant_namespace_lost [OF memStore_inv v _ _ _ r1 [unfolded run(1)] r2 memStore_tables_ok] r1 r2
    by (simp add: mkTenant_def)
qed

lemma dbStep_metrics:
  "sq_latency (snd (dbStep f s)) = sq_latency s" "sq_inflight (snd (dbStep f s)) = sq_inflight s"
  by (simp_all add: dbStep_parts)

lemma measured_metrics:
  assumes "measured a body s = (r, s')"
    "\<And>s. sq_latency (snd (body s)) = sq_latency s" "\<And>s. sq_inflight (snd (body s)) = sq_inflight s"
  shows "sq_latency s' = sq_latency s @ [(a, SuccessLabel)] \<and> sq_inflight s' = sq_inflight s"
proof -
  let ?s0 = "DataStoreInflightRequests a 1 s"
  have "s' = recordMetrics a None (snd (body ?s0))" using assms(1) by (auto simp: measured_def split: prod.splits)
  then show ?thesis using assms(2,3) [of ?s0]
    by (simp add: recordMetrics_def DataStoreInflightRequests_def DataStoreSetLatency_def Let_def)
qed

text \<open>The metrics never report a failure: StoreObjects observes its latency with the status
  success whatever it returns, errors included, and it leaves the gauge of requests in flight
  balanced.\<close>

theorem metrics_always_success:
  "StoreObjects xs s = (e, s') \<Longrightarrow>
     sq_latency s' = sq_latency s @ [(''StoreObjects'', ''success'')] \<and> sq_inflight s' = sq_inflight s"
  using measured_metrics [of "''StoreObjects''" _ s e s']
  by (auto simp: StoreObjects_def dbStep_metrics SuccessLabel_def split: sum.splits)

lemma metrics_always_success_witness:
  "\<exists>e s'. StoreObjects [mkObject [] ''ns'' ''Bucket'' ''b''] memStore = (Some e, s') \<and>
     sq_latency s' = [(''StoreObjects'', ''success'')]"
proof -
  obtain e s' where r: "StoreObjects [mkObject [] ''ns'' ''Bucket'' ''b''] memStore = (e, s')" by force
  have "e \<noteq> None" using r by (auto simp: StoreObjects_def measured_def mkObject_def Object_Validate_def)
  then show ?thesis using metrics_always_success [OF r] r by (auto simp: memStore_def)
qed

end
