(* ===== verification/QueryService.thy ===== *)
theory QueryService
  imports IndexFacts StoreFacts
begin

text \<open>
  pkg/query/query.go: the query service. RunQuery reads roles, bindings and tenants
  from the store, searches the index, and walks through the hits: it loads each
  object, adds the tenant of its namespace, and keeps it when the authorizer of its
  cluster allows it, until the limit is reached. The iterator that Search returns
  holds the index's own store, which is the service's store here as it is in
  server.go.
\<close>

section \<open>The service\<close>

record 'a Authorizer =
  az_ObjectAuthorizer :: "role list \<Rightarrow> role_binding list \<Rightarrow> principal \<Rightarrow> string \<Rightarrow> 'a"
  az_Allow :: "object \<Rightarrow> 'a \<Rightarrow> (bool \<times> goerror option) \<times> 'a"

text \<open>The predicate that ObjectAuthorizer returns is a closure over the principal and the lister.\<close>

definition RbacAuthorizer :: "resolver \<Rightarrow> rule_test \<Rightarrow> (string \<rightharpoonup> string) \<Rightarrow> (principal \<times> lister) Authorizer" where
  "RbacAuthorizer rulesFor ruleAllows kindToResource = \<lparr>
     az_ObjectAuthorizer = (\<lambda>roles bindings p cluster. (p, newLister cluster roles bindings)),
     az_Allow = (\<lambda>x (p, c). case authorizeObject rulesFor ruleAllows kindToResource p x c of
        (r, c') \<Rightarrow> (r, (p, c'))) \<rparr>"

record ('s, 'i, 'a) qs =
  qs_Store :: "'s Store"
  qs_Index :: "'i IndexReader"
  qs_Authorizer :: "'a Authorizer"

definition QueryServiceOpts_Validate :: "'s Store option \<Rightarrow> 'i IndexReader option \<Rightarrow> 'a Authorizer option \<Rightarrow>
    goerror option" where
  "QueryServiceOpts_Validate r ix az =
     (if Option.is_none r then Some (err ''store reader is required'')
      else if Option.is_none ix then Some (err ''index reader is required'')
      else if Option.is_none az then Some (err ''authorizer is required'')
      else None)"

definition NewQueryService :: "'s Store option \<Rightarrow> 'i IndexReader option \<Rightarrow> 'a Authorizer option \<Rightarrow>
    ('s, 'i, 'a) qs res" where
  "NewQueryService r ix az =
     (case QueryServiceOpts_Validate r ix az of
        Some e \<Rightarrow> Inl e
      | None \<Rightarrow> Inr \<lparr> qs_Store = the r, qs_Index = the ix, qs_Authorizer = the az \<rparr>)"

definition createTenantLookup :: "tenant list \<Rightarrow> string \<rightharpoonup> string" where
  "createTenantLookup tenants =
     foldl (\<lambda>lookup t. lookup(Tenant_GetClusterNamespacePair t \<mapsto> tn_Name t)) Map.empty tenants"

text \<open>What stays the same through the loop of RunQuery.\<close>

record ('s, 'a) query_env =
  qe_Store :: "'s Store"
  qe_Authorizer :: "'a Authorizer"
  qe_Limit :: int
  qe_Lookup :: "string \<rightharpoonup> string"
  qe_Roles :: "role list"
  qe_Bindings :: "role_binding list"
  qe_Principal :: principal

definition addTenant :: "(string \<rightharpoonup> string) \<Rightarrow> object \<Rightarrow> object" where
  "addTenant lookup obj =
     (case lookup (ob_Cluster obj @ ''/'' @ ob_Namespace obj) of
        Some tenantName \<Rightarrow> obj\<lparr> ob_Tenant := tenantName \<rparr> | None \<Rightarrow> obj)"

function queryLoop :: "('s, 'a) query_env \<Rightarrow> indexerIterator \<Rightarrow> (string \<rightharpoonup> 'a) \<Rightarrow> object list \<Rightarrow>
    ('s, object list) action" where
  "queryLoop E it allowed result s =
     (case indexerIterator_Next it of (again, it) \<Rightarrow>
        if \<not> again then (Inr result, s)
        else if qe_Limit E > 0 \<and> int (length result) = qe_Limit E then (Inr result, s)
        else case indexerIterator_Row (qe_Store E) it s of
          (Inl e, s) \<Rightarrow> if isPanic e then (Inl e, s) else queryLoop E it allowed result s
        | (Inr obj, s) \<Rightarrow>
            let obj = addTenant (qe_Lookup E) obj;
                cluster = ob_Cluster obj;
                allow = (case allowed cluster of
                  Some a \<Rightarrow> a
                | None \<Rightarrow> az_ObjectAuthorizer (qe_Authorizer E) (qe_Roles E) (qe_Bindings E) (qe_Principal E) cluster)
            in case az_Allow (qe_Authorizer E) obj allow of
                 ((ok, e), allow) \<Rightarrow>
                   if e \<noteq> None then queryLoop E it (allowed(cluster \<mapsto> allow)) result s
                   else queryLoop E it (allowed(cluster \<mapsto> allow)) (if ok then result @ [obj] else result) s)"
  by pat_completeness auto
termination
  by (relation "measure (\<lambda>(E, it, allowed, result, s). nat (int (length (ii_Hits it)) - ii_Index it))")
     (auto simp: indexerIterator_Next_def Let_def)

declare queryLoop.simps [simp del]

text \<open>The state of the service: that of its store and that of its index.\<close>

definition RunQuery :: "('s, 'i, 'a) qs \<Rightarrow> principal option \<Rightarrow> query \<Rightarrow> query_option option \<Rightarrow>
    ('s \<times> 'i, object list) action" where
  "RunQuery Q who query opts w =
     (case w of (s, i) \<Rightarrow>
      case who of
        None \<Rightarrow> (Inl (err ''principal not found''), w)
      | Some p \<Rightarrow>
        (case s_GetRoles (qs_Store Q) s of
           (Inl e, s) \<Rightarrow> (Inl (wrap ''error fetching access rules from the store: %w'' [] e), (s, i))
         | (Inr roles, s) \<Rightarrow>
        (case s_GetRoleBindings (qs_Store Q) s of
           (Inl e, s) \<Rightarrow> (Inl (wrap ''error fetching access rules from the store: %w'' [] e), (s, i))
         | (Inr bindings, s) \<Rightarrow>
        (case s_GetTenants (qs_Store Q) s of
           (Inl e, s) \<Rightarrow> (Inl (wrap ''error fetching tenants from the store: %w'' [] e), (s, i))
         | (Inr tenants, s) \<Rightarrow>
        (case ir_Search (qs_Index Q) query opts i of
           (Inl e, i) \<Rightarrow> (Inl (wrap ''error getting objects from indexer: %w'' [] e), (s, i))
         | (Inr iter, i) \<Rightarrow>
             let limit = (case opts of Some opt \<Rightarrow> qo_Limit opt | None \<Rightarrow> 0);
                 E = \<lparr> qe_Store = qs_Store Q, qe_Authorizer = qs_Authorizer Q, qe_Limit = limit,
                       qe_Lookup = createTenantLookup tenants, qe_Roles = roles,
                       qe_Bindings = bindings, qe_Principal = p \<rparr>
             in case queryLoop E iter Map.empty [] s of (r, s) \<Rightarrow> (r, (s, i)))))))"

definition qs_GetAccessRules :: "('s, 'i, 'a) qs \<Rightarrow> ('s, access_rule list) action" where
  "qs_GetAccessRules Q = s_GetAccessRules (qs_Store Q)"

definition qs_ListFacets :: "('s, 'i, 'a) qs \<Rightarrow> object_category \<Rightarrow> ('i, string \<rightharpoonup> string list) action" where
  "qs_ListFacets Q cat = ir_ListFacets (qs_Index Q) cat"

section \<open>What the loop returns\<close>

definition takeLimit :: "int \<Rightarrow> 'b list \<Rightarrow> 'b list" where
  "takeLimit limit xs = (if limit > 0 then take (nat limit) xs else xs)"

text \<open>
  A store and an authorizer with a specification: the answers of an authorizer of
  the given tables about an object it may be asked about.
\<close>

locale query_service = explorer_store S inv contents
  for S :: "'s Store" and inv contents +
  fixes A :: "'a Authorizer"
    and decision :: "role list \<Rightarrow> role_binding list \<Rightarrow> principal \<Rightarrow> string \<Rightarrow> object \<Rightarrow> bool \<times> goerror option"
    and good :: "role list \<Rightarrow> role_binding list \<Rightarrow> principal \<Rightarrow> string \<Rightarrow> 'a \<Rightarrow> bool"
    and rolesGood :: "role list \<Rightarrow> string \<Rightarrow> bool"
    and mayAsk :: "role list \<Rightarrow> role_binding list \<Rightarrow> principal \<Rightarrow> object \<Rightarrow> bool"
    and loads :: "'s \<Rightarrow> string \<Rightarrow> bool"
  assumes fresh: "rolesGood roles cl \<Longrightarrow> good roles bs p cl (az_ObjectAuthorizer A roles bs p cl)"
    and allow: "\<lbrakk>good roles bs p cl a; mayAsk roles bs p x; ob_Cluster x = cl\<rbrakk> \<Longrightarrow>
      fst (az_Allow A x a) = decision roles bs p cl x \<and> good roles bs p cl (snd (az_Allow A x a))"
    and loads: "isOk (fst (s_GetObjectByID S k s)) = loads s k"
    and keeps_loading: "loads (snd (s_GetObjectByID S k s)) = loads s \<and> loads (snd (s_GetRoles S s)) = loads s \<and>
      loads (snd (s_GetRoleBindings S s)) = loads s \<and> loads (snd (s_GetTenants S s)) = loads s"
begin

definition accepted :: "role list \<Rightarrow> role_binding list \<Rightarrow> principal \<Rightarrow> object \<Rightarrow> bool" where
  "accepted roles bs p x \<longleftrightarrow> decision roles bs p (ob_Cluster x) x = (True, None)"

lemma load:
  assumes "inv s" "contents s = T" "s_GetObjectByID S k s = (r, s')"
  shows "inv s' \<and> contents s' = T \<and> (\<forall>x. r = Inr x \<longrightarrow> tb_Objects T k = Some x) \<and> loads s' = loads s \<and> isOk r = loads s k"
  using getObjectByID [OF assms(1), of k] assms loads [of k s] keeps_loading [of k s] by (simp split: sum.splits)

definition clusters_good :: "('s, 'a) query_env \<Rightarrow> (string \<rightharpoonup> 'a) \<Rightarrow> bool" where
  "clusters_good E allowed \<longleftrightarrow> (\<forall>cl a. allowed cl = Some a \<longrightarrow> good (qe_Roles E) (qe_Bindings E) (qe_Principal E) cl a)"

lemma loop_spec:
  assumes "qe_Store E = S" "qe_Authorizer E = A"
    "\<And>cl. rolesGood (qe_Roles E) cl"
    "\<And>x. x \<in> ran (tb_Objects T) \<Longrightarrow> mayAsk (qe_Roles E) (qe_Bindings E) (qe_Principal E) (addTenant (qe_Lookup E) x)"
    and "hs = drop (nat (ii_Index it + 1)) (ii_Hits it)" "ii_Index it \<ge> -1"
    "clusters_good E allowed" "inv s" "contents s = T"
    "qe_Limit E > 0 \<longrightarrow> int (length result) \<le> qe_Limit E"
    "queryLoop E it allowed result s = (r, s')"
  shows "inv s' \<and> contents s' = T \<and>
    r = Inr (takeLimit (qe_Limit E) (result @
      filter (accepted (qe_Roles E) (qe_Bindings E) (qe_Principal E))
        (map (\<lambda>k. addTenant (qe_Lookup E) (the (tb_Objects T k))) (filter (loads s) hs))))"
  using assms(5-)
proof (induction hs arbitrary: it allowed s result)
  case Nil
  then have "\<not> ii_Index it + 1 < int (length (ii_Hits it))" by simp
  then have "r = Inr result" "s' = s" using Nil.prems(7)
    by (simp_all add: queryLoop.simps [of E it] indexerIterator_Next_def Let_def)
  then show ?case using Nil.prems(4,5,6) by (auto simp: takeLimit_def)
next
  case (Cons k hs)
  let ?it = "it\<lparr> ii_Index := ii_Index it + 1 \<rparr>"
  have idx: "ii_Index it + 1 < int (length (ii_Hits it))"
  proof (rule ccontr)
    assume "\<not> ?thesis"
    then have "drop (nat (ii_Index it + 1)) (ii_Hits it) = []" using Cons.prems(2) by simp
    then show False using Cons.prems(1) by simp
  qed
  have k: "k = ii_Hits it ! nat (ii_Index it + 1)" and hs: "hs = drop (nat (ii_Index it + 2)) (ii_Hits it)"
  proof -
    have "k # hs = ii_Hits it ! nat (ii_Index it + 1) # drop (Suc (nat (ii_Index it + 1))) (ii_Hits it)"
      using Cons.prems(1,2) idx by (simp add: Cons_nth_drop_Suc)
    moreover have "Suc (nat (ii_Index it + 1)) = nat (ii_Index it + 2)" using Cons.prems(2) by simp
    ultimately show "k = ii_Hits it ! nat (ii_Index it + 1)" "hs = drop (nat (ii_Index it + 2)) (ii_Hits it)" by simp_all
  qed
  have next_it: "indexerIterator_Next it = (True, ?it)" using idx by (simp add: indexerIterator_Next_def)
  have row: "indexerIterator_Row S ?it s = s_GetObjectByID S k s"
    using idx Cons.prems(2) k by (simp add: indexerIterator_Row_def hitAt_def)
  show ?case
  proof (cases "qe_Limit E > 0 \<and> int (length result) = qe_Limit E")
    case True
    then have "r = Inr result" "s' = s" using Cons.prems(7)
      by (simp_all add: queryLoop.simps [of E it] next_it)
    moreover have "takeLimit (qe_Limit E) (result @ ys) = result" for ys
    proof -
      have "nat (qe_Limit E) = length result" using True by linarith
      then show ?thesis using True by (simp add: takeLimit_def)
    qed
    ultimately show ?thesis using Cons.prems(4,5) by simp
  next
    case room: False
    obtain res s1 where get: "s_GetObjectByID S k s = (res, s1)" by force
    have s1: "inv s1" "contents s1 = T" "\<And>x. res = Inr x \<Longrightarrow> tb_Objects T k = Some x"
      "loads s1 = loads s" "isOk res = loads s k"
      using load [OF Cons.prems(4,5) get] by blast+
    show ?thesis
    proof (cases res)
      case (Inl e)
      have "\<not> isPanic e" using getObjectByID [OF Cons.prems(4), of k] get Inl by simp
      then have run: "queryLoop E ?it allowed result s1 = (r, s')"
        using Cons.prems(7) room get Inl row
        by (simp add: queryLoop.simps [of E it] next_it assms(1))
      have "inv s' \<and> contents s' = T \<and> r = Inr (takeLimit (qe_Limit E) (result @
         filter (accepted (qe_Roles E) (qe_Bindings E) (qe_Principal E))
           (map (\<lambda>k. addTenant (qe_Lookup E) (the (tb_Objects T k))) (filter (loads s1) hs))))"
        by (rule Cons.IH [OF _ _ Cons.prems(3) s1(1,2) Cons.prems(6) run])
           (use hs Cons.prems(2) in \<open>simp_all add: algebra_simps\<close>)
      moreover have "\<not> loads s k" using s1(5) Inl by simp
      ultimately show ?thesis using s1(4) by simp
    next
      case (Inr x)
      then have x: "tb_Objects T k = Some x" using s1(3) by simp
      let ?x = "addTenant (qe_Lookup E) x" and ?R = "qe_Roles E" and ?B = "qe_Bindings E" and ?p = "qe_Principal E"
      let ?cl = "ob_Cluster ?x"
      let ?a = "case allowed ?cl of Some a \<Rightarrow> a | None \<Rightarrow> az_ObjectAuthorizer (qe_Authorizer E) ?R ?B ?p ?cl"
      have a: "good ?R ?B ?p ?cl ?a"
        using Cons.prems(3) fresh [OF assms(3)] by (auto simp: clusters_good_def assms(2) split: option.splits)
      have ask: "mayAsk ?R ?B ?p ?x" using assms(4) x by (simp add: ranI)
      obtain ok e a' where al: "az_Allow A ?x ?a = ((ok, e), a')" by (metis prod.collapse)
      have dec: "decision ?R ?B ?p ?cl ?x = (ok, e)" "good ?R ?B ?p ?cl a'"
        using allow [OF a ask refl] al by simp_all
      let ?result = "if accepted ?R ?B ?p ?x then result @ [?x] else result"
      have run: "queryLoop E ?it (allowed(?cl \<mapsto> a')) ?result s1 = (r, s')"
        using Cons.prems(7) room get Inr row al dec(1)
        by (simp add: queryLoop.simps [of E it] next_it assms(1,2) Let_def accepted_def
            split: if_splits)
      have good': "clusters_good E (allowed(?cl \<mapsto> a'))"
        using Cons.prems(3) dec(2) by (simp add: clusters_good_def)
      have len: "qe_Limit E > 0 \<longrightarrow> int (length ?result) \<le> qe_Limit E"
        using Cons.prems(6) room by auto
      have "inv s' \<and> contents s' = T \<and> r = Inr (takeLimit (qe_Limit E) (?result @
         filter (accepted ?R ?B ?p) (map (\<lambda>k. addTenant (qe_Lookup E) (the (tb_Objects T k))) (filter (loads s1) hs))))"
        by (rule Cons.IH [OF _ _ good' s1(1,2) len run])
           (use hs Cons.prems(2) in \<open>simp_all add: algebra_simps\<close>)
      moreover have "filter (loads s) (k # hs) = k # filter (loads s1) hs" using s1(4,5) Inr by simp
      moreover have "?result @ ys = result @ (if accepted ?R ?B ?p ?x then ?x # ys else ys)" for ys by simp
      ultimately show ?thesis by (simp only: list.map x option.sel filter.simps)
    qed
  qed
qed

lemma loaded_row: "inv s \<Longrightarrow> loads s k \<Longrightarrow> tb_Objects (contents s) k \<noteq> None"
  using getObjectByID [of s k] loads [of k s] by (cases "s_GetObjectByID S k s") (auto simp: isOk_iff split: sum.splits)

text \<open>The readers return what the tables hold, and the authorizer may be asked.\<close>

definition readable :: "tables \<Rightarrow> principal \<Rightarrow> bool" where
  "readable T p \<longleftrightarrow> (\<forall>roles bs ts. rolesRead T roles \<longrightarrow> bindingsRead T bs \<longrightarrow> tenantsRead T ts \<longrightarrow>
     (\<forall>cl. rolesGood roles cl) \<and>
     (\<forall>x\<in>ran (tb_Objects T). mayAsk roles bs p (addTenant (createTenantLookup ts) x)))"

definition answer :: "tables \<Rightarrow> principal \<Rightarrow> int \<Rightarrow> role list \<Rightarrow> role_binding list \<Rightarrow> tenant list \<Rightarrow> string list \<Rightarrow> object list" where
  "answer T p limit roles bs ts ks = takeLimit limit (filter (accepted roles bs p)
     (map (\<lambda>k. addTenant (createTenantLookup ts) (the (tb_Objects T k))) ks))"

lemma run_query:
  assumes "qs_Store Q = S" "qs_Authorizer Q = A" "inv s"
    and run: "RunQuery Q (Some p) q opts (s, i) = (Inr result, (s', i'))"
    and "readable (contents s) p"
    and "\<And>it i'. ir_Search (qs_Index Q) q opts i = (Inr it, i') \<Longrightarrow> ii_Index it = -1"
  shows "inv s' \<and> contents s' = contents s \<and>
    (\<exists>roles bs ts it. rolesRead (contents s) roles \<and> bindingsRead (contents s) bs \<and>
       tenantsRead (contents s) ts \<and> ir_Search (qs_Index Q) q opts i = (Inr it, i') \<and>
       result = answer (contents s) p (case opts of Some opt \<Rightarrow> qo_Limit opt | None \<Rightarrow> 0) roles bs ts (filter (loads s) (ii_Hits it)))"
proof -
  obtain roles s1 where 1: "s_GetRoles S s = (Inr roles, s1)"
    using run assms(1) by (auto simp: RunQuery_def split: prod.splits sum.splits)
  have r1: "inv s1" "contents s1 = contents s" "rolesRead (contents s) roles"
    using getRoles [OF assms(3)] 1 by simp_all
  obtain bs s2 where 2: "s_GetRoleBindings S s1 = (Inr bs, s2)"
    using run assms(1) 1 by (auto simp: RunQuery_def split: prod.splits sum.splits)
  have r2: "inv s2" "contents s2 = contents s" "bindingsRead (contents s) bs"
    using getRoleBindings [OF r1(1)] 2 r1(2) by simp_all
  obtain ts s3 where 3: "s_GetTenants S s2 = (Inr ts, s3)"
    using run assms(1) 1 2 by (auto simp: RunQuery_def split: prod.splits sum.splits)
  have r3: "inv s3" "contents s3 = contents s" "tenantsRead (contents s) ts"
    using getTenants [OF r2(1)] 3 r2(2) by simp_all
  obtain it i1 where 4: "ir_Search (qs_Index Q) q opts i = (Inr it, i1)"
    using run assms(1) 1 2 3 by (auto simp: RunQuery_def split: prod.splits sum.splits)
  let ?limit = "case opts of Some opt \<Rightarrow> qo_Limit opt | None \<Rightarrow> 0"
  define E where "E = \<lparr> qe_Store = S, qe_Authorizer = A, qe_Limit = ?limit, qe_Lookup = createTenantLookup ts,
      qe_Roles = roles, qe_Bindings = bs, qe_Principal = p \<rparr>"
  have fields: "qe_Store E = S" "qe_Authorizer E = A" "qe_Limit E = ?limit" "qe_Lookup E = createTenantLookup ts"
    "qe_Roles E = roles" "qe_Bindings E = bs" "qe_Principal E = p" by (simp_all add: E_def)
  have loop: "queryLoop E it Map.empty [] s3 = (Inr result, s')" and i': "i' = i1"
    using run assms(1,2) 1 2 3 4 by (auto simp: RunQuery_def Let_def E_def split: prod.splits)
  have it: "ii_Index it = -1" by (rule assms(6) [OF 4])
  have good: "\<And>cl. rolesGood roles cl"
    "\<And>x. x \<in> ran (tb_Objects (contents s)) \<Longrightarrow> mayAsk roles bs p (addTenant (createTenantLookup ts) x)"
    using assms(5) r1(3) r2(3) r3(3) unfolding readable_def by blast+
  have "inv s' \<and> contents s' = contents s \<and>
    (Inr result :: object list res) = Inr (takeLimit (qe_Limit E) ([] @
         filter (accepted (qe_Roles E) (qe_Bindings E) (qe_Principal E))
           (map (\<lambda>k. addTenant (qe_Lookup E) (the (tb_Objects (contents s) k))) (filter (loads s3) (ii_Hits it)))))"
  proof (rule loop_spec [where hs = "ii_Hits it" and it = it and E = E and T = "contents s"])
    show "qe_Store E = S" "qe_Authorizer E = A" "queryLoop E it Map.empty [] s3 = (Inr result, s')"
      "inv s3" "contents s3 = contents s" by (fact fields loop r3)+
    show "\<And>cl. rolesGood (qe_Roles E) cl" unfolding fields by (rule good)
    show "\<And>x. x \<in> ran (tb_Objects (contents s)) \<Longrightarrow>
        mayAsk (qe_Roles E) (qe_Bindings E) (qe_Principal E) (addTenant (qe_Lookup E) x)"
      unfolding fields by (rule good)
  qed (simp_all add: it clusters_good_def)
  moreover have "loads s3 = loads s"
    using keeps_loading [where s = s] keeps_loading [where s = s1] keeps_loading [where s = s2] 1 2 3 by (metis snd_conv)
  ultimately show ?thesis using r1(3) r2(3) r3(3) 4 i' unfolding fields by (auto simp: answer_def)
qed

lemma run_query_returns:
  assumes "qs_Store Q = S" "qs_Authorizer Q = A" "inv s" "readable (contents s) p"
    and 1: "s_GetRoles S s = (Inr roles, s1)" and 2: "s_GetRoleBindings S s1 = (Inr bs, s2)"
    and 3: "s_GetTenants S s2 = (Inr ts, s3)" and 4: "ir_Search (qs_Index Q) q opts i = (Inr it, i1)"
    and it: "ii_Index it = -1"
  shows "isOk (fst (RunQuery Q (Some p) q opts (s, i)))"
proof -
  have r1: "inv s1" "contents s1 = contents s" "rolesRead (contents s) roles"
    using getRoles [OF assms(3)] 1 by simp_all
  have r2: "inv s2" "contents s2 = contents s" "bindingsRead (contents s) bs"
    using getRoleBindings [OF r1(1)] 2 r1(2) by simp_all
  have r3: "inv s3" "contents s3 = contents s" "tenantsRead (contents s) ts"
    using getTenants [OF r2(1)] 3 r2(2) by simp_all
  define E where "E = \<lparr> qe_Store = S, qe_Authorizer = A, qe_Limit = case opts of Some opt \<Rightarrow> qo_Limit opt | None \<Rightarrow> 0,
      qe_Lookup = createTenantLookup ts, qe_Roles = roles, qe_Bindings = bs, qe_Principal = p \<rparr>"
  have E: "qe_Store E = S" "qe_Authorizer E = A" "qe_Roles E = roles" "qe_Bindings E = bs" "qe_Principal E = p"
    "qe_Lookup E = createTenantLookup ts" by (simp_all add: E_def)
  have run: "fst (RunQuery Q (Some p) q opts (s, i)) = fst (queryLoop E it Map.empty [] s3)"
    using assms(1,2) 1 2 3 4 by (simp add: RunQuery_def E_def split: prod.splits)
  obtain r s' where loop: "queryLoop E it Map.empty [] s3 = (r, s')" by force
  have good: "\<And>cl. rolesGood (qe_Roles E) cl"
    "\<And>x. x \<in> ran (tb_Objects (contents s)) \<Longrightarrow>
        mayAsk (qe_Roles E) (qe_Bindings E) (qe_Principal E) (addTenant (qe_Lookup E) x)"
    using assms(4) r1(3) r2(3) r3(3) unfolding readable_def E by blast+
  have "inv s' \<and> contents s' = contents s \<and>
    r = Inr (takeLimit (qe_Limit E) ([] @
         filter (accepted (qe_Roles E) (qe_Bindings E) (qe_Principal E))
           (map (\<lambda>k. addTenant (qe_Lookup E) (the (tb_Objects (contents s) k))) (filter (loads s3) (ii_Hits it)))))"
    by (rule loop_spec [OF E(1,2) good _ _ _ r3(1,2) _ loop]) (simp_all add: it clusters_good_def)
  then have "\<exists>x. r = Inr x" by blast
  then show ?thesis using run loop by (auto simp: isOk_iff)
qed

end

end
