(* ===== verification/QueryFacts.thy ===== *)
theory QueryFacts
  imports QueryService
begin

text \<open>
  The query service with the SQLite store, the bleve index and the RBAC authorizer:
  the interpretation of the interface query_service on the three, and what RunQuery
  guarantees of every answer.
\<close>

section \<open>Roles as they are named in Kubernetes\<close>

definition names_ok :: "tables \<Rightarrow> bool" where
  "names_ok T \<longleftrightarrow> (\<forall>r\<in>ran (tb_Roles T). slash_free (ro_Namespace r) \<and> slash_free (ro_Name r) \<and>
     (ro_Kind r = ''Role'' \<or> ro_Kind r = ''ClusterRole'' \<and> ro_Namespace r = []))"

text \<open>The rule resolver asks for roles by names that can be role names.\<close>

definition resolver_ok :: "resolver \<Rightarrow> principal \<Rightarrow> tables \<Rightarrow> bool" where
  "resolver_ok rulesFor p T \<longleftrightarrow> (\<forall>roles bs. rolesRead T roles \<longrightarrow> bindingsRead T bs \<longrightarrow>
     (\<forall>x\<in>ran (tb_Objects T). asksOkFor rulesFor p (ob_Cluster x) roles bs x))"

lemma roleKey_inj:
  assumes "r \<in> ran (tb_Roles T)" "r' \<in> ran (tb_Roles T)" "names_ok T"
    "ro_Cluster r = ro_Cluster r'" "roleKey r = roleKey r'"
  shows "Role_GetID r = Role_GetID r'"
proof -
  have n: "slash_free (ro_Namespace q) \<and> slash_free (ro_Name q) \<and>
     (ro_Kind q = ''Role'' \<or> ro_Kind q = ''ClusterRole'' \<and> ro_Namespace q = [])" if "q \<in> {r, r'}" for q
    using that assms(1-3) unfolding names_ok_def by blast
  show ?thesis
  proof (cases "ro_Kind r = ''Role''"; cases "ro_Kind r' = ''Role''")
    assume k: "ro_Kind r = ''Role''" "ro_Kind r' = ''Role''"
    then have "ro_Namespace r = ro_Namespace r' \<and> ro_Name r = ro_Name r'"
      using assms(5) n [of r] n [of r'] slash_right_unique [of "ro_Namespace r" "ro_Name r" "ro_Namespace r'" "ro_Name r'"]
      by (simp add: roleKey_def)
    then show ?thesis using k assms(4) by (simp add: Role_GetID_def)
  next
    assume k: "ro_Kind r \<noteq> ''Role''" "ro_Kind r' \<noteq> ''Role''"
    then show ?thesis using n [of r] n [of r'] assms(4,5) by (simp add: roleKey_def Role_GetID_def)
  next
    assume k: "ro_Kind r = ''Role''" "ro_Kind r' \<noteq> ''Role''"
    have "CHR ''/'' \<in> set (roleKey r)" using k by (simp add: roleKey_def)
    then have "CHR ''/'' \<in> set (ro_Name r')" unfolding assms(5) using k by (simp add: roleKey_def)
    then show ?thesis using n [of r'] by (simp add: slash_free_def)
  next
    assume k: "ro_Kind r \<noteq> ''Role''" "ro_Kind r' = ''Role''"
    have "CHR ''/'' \<in> set (roleKey r')" using k by (simp add: roleKey_def)
    then have "CHR ''/'' \<in> set (ro_Name r)" unfolding assms(5) [symmetric] using k by (simp add: roleKey_def)
    then show ?thesis using n [of r] by (simp add: slash_free_def)
  qed
qed

lemma read_roles_ok:
  assumes "rolesRead T roles" "tables_ok T" "names_ok T"
  shows "roles_ok cl roles"
proof -
  define row where "row r = r\<lparr> ro_PolicyRules := [] \<rparr>" for r :: role
  have row: "tb_Roles T (ro_ID r) = Some (row r)" if "r \<in> set roles" for r
    using assms(1) that by (simp add: rolesRead_def row_def)
  have mem: "row r \<in> ran (tb_Roles T)" if "r \<in> set roles" for r using row [OF that] by (rule ranI)
  have fields: "ro_Cluster (row r) = ro_Cluster r" "ro_Kind (row r) = ro_Kind r" "ro_Name (row r) = ro_Name r"
    "ro_Namespace (row r) = ro_Namespace r" "roleKey (row r) = roleKey r" "Role_GetID (row r) = Role_GetID r" for r
    by (simp_all add: row_def roleKey_def Role_GetID_def)
  have ids: "Role_GetID r = ro_ID r" if "r \<in> set roles" for r
    using row [OF that] assms(2) fields(6) [of r] by (simp add: tables_ok_def roles_table_ok_def)
  have "\<forall>r\<in>set (inCluster cl roles). ro_Kind r \<in> {''Role'', ''ClusterRole''} \<and>
        slash_free (ro_Namespace r) \<and> slash_free (ro_Name r)"
  proof
    fix r assume "r \<in> set (inCluster cl roles)"
    then have "row r \<in> ran (tb_Roles T)" using mem by (simp add: inCluster_def)
    from assms(3) [unfolded names_ok_def, THEN bspec, OF this]
    show "ro_Kind r \<in> {''Role'', ''ClusterRole''} \<and> slash_free (ro_Namespace r) \<and> slash_free (ro_Name r)"
      unfolding fields by blast
  qed
  moreover have "distinct (map roleKey (inCluster cl roles))"
  proof -
    have "r = r'" if "r \<in> set roles" "r' \<in> set roles" "ro_Cluster r = cl" "ro_Cluster r' = cl" "roleKey r = roleKey r'" for r r'
    proof -
      have "Role_GetID (row r) = Role_GetID (row r')"
        by (rule roleKey_inj [OF mem [OF that(1)] mem [OF that(2)] assms(3)]) (simp_all add: fields that)
      then have "ro_ID r = ro_ID r'" using ids that by (simp add: fields)
      then show ?thesis using assms(1) that(1,2) by (auto simp: rolesRead_def distinct_map inj_on_def)
    qed
    then have "inj_on roleKey (set (inCluster cl roles))" by (auto simp: inj_on_def inCluster_def)
    moreover have "distinct roles" using assms(1) by (auto simp: rolesRead_def distinct_map)
    ultimately show ?thesis by (simp add: distinct_map inCluster_def)
  qed
  ultimately show ?thesis by (simp add: roles_ok_def)
qed

section \<open>The interpretation\<close>

text \<open>The database returns every row it holds.\<close>

definition sql_loads :: "'d SQLiteStore \<Rightarrow> bool" where
  "sql_loads s \<longleftrightarrow> (\<forall>k db. tb_Objects (g_Contents (sq_gorm s) db) k \<noteq> None \<longrightarrow> isOk (g_FirstObject (sq_gorm s) k db))"

definition rbac_good :: "role list \<Rightarrow> role_binding list \<Rightarrow> principal \<Rightarrow> string \<Rightarrow> principal \<times> lister \<Rightarrow> bool" where
  "rbac_good roles bs p cl a \<longleftrightarrow> fst a = p \<and> lister_inv (snd a) \<and> Rbac.tables (snd a) = (cl, roles, bs)"

lemma measured_gorm:
  assumes "\<And>s. sq_gorm (snd (f s)) = sq_gorm s"
  shows "sq_gorm (snd (measured a f s)) = sq_gorm s"
proof -
  obtain r s1 where "f (DataStoreInflightRequests a 1 s) = (r, s1)" by force
  then show ?thesis using assms [of "DataStoreInflightRequests a 1 s"]
    by (simp add: measured_def recordMetrics_def DataStoreSetLatency_def DataStoreInflightRequests_def Let_def)
qed

lemma dbRead_gorm: "sq_gorm (snd (dbRead m args f s)) = sq_gorm s"
  by (simp add: dbRead_def split: sum.splits)

lemma reads_gorm:
  "sq_gorm (snd (s_GetObjectByID SqliteStore k s)) = sq_gorm s"
  "sq_gorm (snd (s_GetRoles SqliteStore s)) = sq_gorm s"
  "sq_gorm (snd (s_GetRoleBindings SqliteStore s)) = sq_gorm s"
  "sq_gorm (snd (s_GetTenants SqliteStore s)) = sq_gorm s"
  by (simp_all add: SqliteStore_def GetObjectByID_def GetRoles_def GetRoleBindings_def GetTenants_def
      measured_gorm dbRead_gorm)

lemma dbRead_db: "sq_db (snd (measured a (dbRead m args f) s)) = sq_db s"
  by (simp add: measured_def recordMetrics_def DataStoreSetLatency_def DataStoreInflightRequests_def dbRead_def
      Let_def split: sum.splits)

lemma dbRead_isOk: "isOk (fst (measured a (dbRead m args f) s)) = isOk (f (sq_gorm s) (sq_db s))"
  by (simp add: measured_def DataStoreInflightRequests_def dbRead_def isOk_iff split: sum.splits)

lemmas read_defs = SqliteStore_def GetRoles_def GetRoleBindings_def GetTenants_def

text \<open>The rows that the database can load, as it stands.\<close>

definition rowLoads :: "'d SQLiteStore \<Rightarrow> string \<Rightarrow> bool" where
  "rowLoads s k \<longleftrightarrow> isOk (g_FirstObject (sq_gorm s) k (sq_db s))"

lemma reads_rowLoads:
  "rowLoads (snd (s_GetObjectByID SqliteStore k s)) = rowLoads s" "rowLoads (snd (s_GetRoles SqliteStore s)) = rowLoads s"
  "rowLoads (snd (s_GetRoleBindings SqliteStore s)) = rowLoads s" "rowLoads (snd (s_GetTenants SqliteStore s)) = rowLoads s"
  using reads_gorm [where s = s] by (simp_all add: fun_eq_iff rowLoads_def read_defs GetObjectByID_def dbRead_db)

interpretation qsvc: query_service SqliteStore sq_inv rows "RbacAuthorizer rulesFor ra km"
  "\<lambda>roles bs p cl x. verdict rulesFor ra km p cl roles bs x" rbac_good "\<lambda>roles cl. roles_ok cl roles"
  "\<lambda>roles bs p x. asksOkFor rulesFor p (ob_Cluster x) roles bs x" rowLoads
  for rulesFor ra km
proof unfold_locales
  fix roles bs p cl assume "roles_ok cl roles"
  then show "rbac_good roles bs p cl (az_ObjectAuthorizer (RbacAuthorizer rulesFor ra km) roles bs p cl)"
    using newLister_inv by (simp add: rbac_good_def RbacAuthorizer_def)
next
  fix roles bs p cl a x
  assume "rbac_good roles bs p cl a" "asksOkFor rulesFor p (ob_Cluster x) roles bs x" "ob_Cluster x = cl"
  then show "fst (az_Allow (RbacAuthorizer rulesFor ra km) x a) = verdict rulesFor ra km p cl roles bs x \<and>
      rbac_good roles bs p cl (snd (az_Allow (RbacAuthorizer rulesFor ra km) x a))"
    using authorizeObject_spec [of "snd a" cl roles bs rulesFor p x ra km]
    by (cases a) (auto simp: rbac_good_def RbacAuthorizer_def split: prod.splits)
next
  fix s :: "'d SQLiteStore" and k
  show "isOk (fst (s_GetObjectByID SqliteStore k s)) = rowLoads s k"
    by (simp add: rowLoads_def SqliteStore_def GetObjectByID_def dbRead_isOk)
qed (intro conjI reads_rowLoads)

lemma asks_addTenant: "asksOkFor rulesFor p (ob_Cluster (addTenant l x)) roles bs (addTenant l x) =
    asksOkFor rulesFor p (ob_Cluster x) roles bs x"
  by (simp add: addTenant_def asksOkFor_def split: option.splits)

lemma readable_tables:
  assumes "tables_ok T" "names_ok T" "resolver_ok rulesFor p T"
  shows "qsvc.readable rulesFor T p"
  unfolding qsvc.readable_def asks_addTenant
  using read_roles_ok [OF _ assms(1,2)] assms(3) unfolding resolver_ok_def by blast

section \<open>Answers of the service\<close>

text \<open>The service as server.go composes it.\<close>

definition explorer :: "resolver \<Rightarrow> rule_test \<Rightarrow> (string \<rightharpoonup> string) \<Rightarrow> api_groups \<Rightarrow>
    ('d SQLiteStore, ('ix, 'j) bleveIndexer, principal \<times> lister) qs" where
  "explorer rulesFor ra km A = \<lparr> qs_Store = SqliteStore, qs_Index = BleveReader A,
     qs_Authorizer = RbacAuthorizer rulesFor ra km \<rparr>"

lemma explorer_loaded:
  assumes "sq_inv s" "bi_inv i" "tables_ok (rows s)" "names_ok (rows s)" "resolver_ok rulesFor p (rows s)"
    and run: "RunQuery (explorer rulesFor ra km A) (Some p) q opts (s, i) = (Inr result, (s', i'))"
  shows "sq_inv s' \<and> rows s' = rows s \<and>
    (\<exists>roles bs ts it. rolesRead (rows s) roles \<and> bindingsRead (rows s) bs \<and> tenantsRead (rows s) ts \<and>
      Search q opts i = (Inr it, i') \<and>
      result = takeLimit (case opts of Some opt \<Rightarrow> qo_Limit opt | None \<Rightarrow> 0)
       (filter (\<lambda>x. verdict rulesFor ra km p (ob_Cluster x) roles bs x = (True, None))
         (map (\<lambda>k. addTenant (createTenantLookup ts) (the (tb_Objects (rows s) k))) (filter (rowLoads s) (ii_Hits it)))))"
proof -
  have "sq_inv s' \<and> rows s' = rows s \<and>
    (\<exists>roles bs ts it. rolesRead (rows s) roles \<and> bindingsRead (rows s) bs \<and>
       tenantsRead (rows s) ts \<and> ir_Search (BleveReader A) q opts i = (Inr it, i') \<and>
       result = qsvc.answer rulesFor ra km (rows s) p (case opts of Some opt \<Rightarrow> qo_Limit opt | None \<Rightarrow> 0) roles bs ts
         (filter (rowLoads s) (ii_Hits it)))"
    using qsvc.run_query [OF _ _ assms(1) run readable_tables [OF assms(3-5)]]
      search_starts [OF assms(2), of q opts]
    by (simp add: explorer_def BleveReader_def)
  then show ?thesis
    unfolding qsvc.answer_def qsvc.accepted_def [abs_def] BleveReader_def IndexReader.simps .
qed

lemma explorer_run:
  assumes "sq_inv s" "bi_inv i" "tables_ok (rows s)" "names_ok (rows s)" "resolver_ok rulesFor p (rows s)"
    and run: "RunQuery (explorer rulesFor ra km A) (Some p) q opts (s, i) = (Inr result, (s', i'))"
  obtains roles bs ts it ks where
    "sq_inv s'" "rows s' = rows s" "rolesRead (rows s) roles" "bindingsRead (rows s) bs" "tenantsRead (rows s) ts"
    "Search q opts i = (Inr it, i')" "subseq ks (ii_Hits it)" "\<forall>k\<in>set ks. tb_Objects (rows s) k \<noteq> None"
    "sql_loads s \<longrightarrow> ks = filter (\<lambda>k. tb_Objects (rows s) k \<noteq> None) (ii_Hits it)"
    "result = takeLimit (case opts of Some opt \<Rightarrow> qo_Limit opt | None \<Rightarrow> 0)
       (filter (\<lambda>x. verdict rulesFor ra km p (ob_Cluster x) roles bs x = (True, None))
         (map (\<lambda>k. addTenant (createTenantLookup ts) (the (tb_Objects (rows s) k))) ks))"
proof -
  obtain roles bs ts it where r: "sq_inv s'" "rows s' = rows s" "rolesRead (rows s) roles" "bindingsRead (rows s) bs" "tenantsRead (rows s) ts"
      "Search q opts i = (Inr it, i')" and res: "result = takeLimit (case opts of Some opt \<Rightarrow> qo_Limit opt | None \<Rightarrow> 0)
       (filter (\<lambda>x. verdict rulesFor ra km p (ob_Cluster x) roles bs x = (True, None))
         (map (\<lambda>k. addTenant (createTenantLookup ts) (the (tb_Objects (rows s) k))) (filter (rowLoads s) (ii_Hits it))))"
    using explorer_loaded [OF assms] by blast
  have live: "rowLoads s k \<Longrightarrow> tb_Objects (rows s) k \<noteq> None" for k by (rule qsvc.loaded_row [OF assms(1)])
  then have "filter (rowLoads s) (ii_Hits it) = filter (\<lambda>k. tb_Objects (rows s) k \<noteq> None) (ii_Hits it)" if "sql_loads s"
    using that by (intro filter_cong) (auto simp: sql_loads_def rowLoads_def rows_def)
  with live show thesis by (intro that [OF r _ _ _ res]) (auto simp: subseq_filter_left)
qed

lemma takeLimit_subset: "set (takeLimit n xs) \<subseteq> set xs"
  by (simp add: takeLimit_def set_take_subset)

text \<open>C1: The explorer answers with authorised objects only: every object in the answer of RunQuery
  is a stored object, completed with the tenant of its namespace, that the stored roles and bindings
  of its cluster allow the principal to read; there are no more of them than the limit, and
  answering leaves the tables as they were.\<close>

theorem query_sound:
  assumes "sq_inv s" "bi_inv i" "tables_ok (rows s)" "names_ok (rows s)" "resolver_ok rulesFor p (rows s)"
    and "RunQuery (explorer rulesFor ra km A) (Some p) q opts (s, i) = (Inr result, (s', i'))"
  shows "rows s' = rows s \<and> bi_docs i' = bi_docs i \<and>
    (\<exists>roles bs ts. rolesRead (rows s) roles \<and> bindingsRead (rows s) bs \<and> tenantsRead (rows s) ts \<and>
       (\<forall>y\<in>set result. verdict rulesFor ra km p (ob_Cluster y) roles bs y = (True, None) \<and>
          y \<in> addTenant (createTenantLookup ts) ` ran (tb_Objects (rows s)))) \<and>
    (\<forall>opt. opts = Some opt \<longrightarrow> qo_Limit opt > 0 \<longrightarrow> int (length result) \<le> qo_Limit opt)"
proof -
  obtain roles bs ts it ks where r: 
    "sq_inv s'" "rows s' = rows s" "rolesRead (rows s) roles" "bindingsRead (rows s) bs" "tenantsRead (rows s) ts"
    "Search q opts i = (Inr it, i')" "subseq ks (ii_Hits it)" and live: "\<forall>k\<in>set ks. tb_Objects (rows s) k \<noteq> None"
    and all: "sql_loads s \<longrightarrow> ks = filter (\<lambda>k. tb_Objects (rows s) k \<noteq> None) (ii_Hits it)"
    and res: "result = takeLimit (case opts of Some opt \<Rightarrow> qo_Limit opt | None \<Rightarrow> 0)
       (filter (\<lambda>x. verdict rulesFor ra km p (ob_Cluster x) roles bs x = (True, None))
         (map (\<lambda>k. addTenant (createTenantLookup ts) (the (tb_Objects (rows s) k))) ks))"
    by (rule explorer_run [OF assms])
  have docs: "bi_docs i' = bi_docs i" using assms(2) r(6) by (rule Search_cases)
  have "set result \<subseteq> set (filter (\<lambda>x. verdict rulesFor ra km p (ob_Cluster x) roles bs x = (True, None))
         (map (\<lambda>k. addTenant (createTenantLookup ts) (the (tb_Objects (rows s) k))) ks))"
    unfolding res by (rule takeLimit_subset)
  moreover have "the (tb_Objects (rows s) k) \<in> ran (tb_Objects (rows s))" if "k \<in> set ks" for k
    using live that by (auto simp: ran_def)
  ultimately have "\<forall>y\<in>set result. verdict rulesFor ra km p (ob_Cluster y) roles bs y = (True, None) \<and>
          y \<in> addTenant (createTenantLookup ts) ` ran (tb_Objects (rows s))"
    by fastforce
  moreover have "int (length result) \<le> qo_Limit opt" if "opts = Some opt" "qo_Limit opt > 0" for opt
    using that by (simp add: res takeLimit_def)
  ultimately show ?thesis using r(2-5) docs by blast
qed

text \<open>C5: The answer is complete: without paging options, and when the database returns the rows it
  holds, RunQuery returns, each once, exactly the stored objects that a matching document of the
  index stands for and that the principal may read.\<close>

theorem query_complete:
  assumes "sq_inv s" "bi_inv i" "tables_ok (rows s)" "names_ok (rows s)" "resolver_ok rulesFor p (rows s)"
    and "RunQuery (explorer rulesFor ra km A) (Some p) q None (s, i) = (Inr result, (s', i'))"
    and "sql_loads s"
  shows "\<exists>roles bs ts ks. rolesRead (rows s) roles \<and> bindingsRead (rows s) bs \<and> tenantsRead (rows s) ts \<and>
    distinct ks \<and>
    set ks = {k. tb_Objects (rows s) k \<noteq> None \<and> (\<exists>h d. bi_docs i h = Some d \<and> stripSuffix h = k \<and>
                bl_Matches (bi_bleve i) (searchQuery q) d)} \<and>
    result = filter (\<lambda>x. verdict rulesFor ra km p (ob_Cluster x) roles bs x = (True, None))
      (map (\<lambda>k. addTenant (createTenantLookup ts) (the (tb_Objects (rows s) k))) ks)"
proof -
  obtain roles bs ts it ks where r: 
    "sq_inv s'" "rows s' = rows s" "rolesRead (rows s) roles" "bindingsRead (rows s) bs" "tenantsRead (rows s) ts"
    "Search q None i = (Inr it, i')" "subseq ks (ii_Hits it)" and live: "\<forall>k\<in>set ks. tb_Objects (rows s) k \<noteq> None"
    and all: "sql_loads s \<longrightarrow> ks = filter (\<lambda>k. tb_Objects (rows s) k \<noteq> None) (ii_Hits it)"
    and res: "result = takeLimit (case None :: query_option option of Some opt \<Rightarrow> qo_Limit opt | None \<Rightarrow> 0)
       (filter (\<lambda>x. verdict rulesFor ra km p (ob_Cluster x) roles bs x = (True, None))
         (map (\<lambda>k. addTenant (createTenantLookup ts) (the (tb_Objects (rows s) k))) ks))"
    by (rule explorer_run [OF assms(1-6)])
  have "distinct (ii_Hits it) \<and> set (ii_Hits it) =
      stripSuffix ` {k. \<exists>d. bi_docs i k = Some d \<and> bl_Matches (bi_bleve i) (searchQuery q) d}"
    using assms(2) r(6) by (rule Search_all)
  then have "distinct ks" "set ks = {k. tb_Objects (rows s) k \<noteq> None \<and> (\<exists>h d. bi_docs i h = Some d \<and> stripSuffix h = k \<and>
                bl_Matches (bi_bleve i) (searchQuery q) d)}"
    unfolding all [rule_format, OF assms(7)] by auto
  then show ?thesis using r(3-5) res unfolding takeLimit_def by (intro exI conjI) simp_all
qed

section \<open>When the service answers\<close>

lemma run_isOk_iff:
  assumes "sq_inv s" "bi_inv i" "tables_ok (rows s)" "names_ok (rows s)" "resolver_ok rulesFor p (rows s)"
  shows "isOk (fst (RunQuery (explorer rulesFor ra km A) (Some p) q opts (s, i))) \<longleftrightarrow>
    isOk (g_FindRoles (sq_gorm s) (sq_db s)) \<and> isOk (g_FindRoleBindings (sq_gorm s) (sq_db s)) \<and>
    isOk (g_FindTenants (sq_gorm s) (sq_db s)) \<and> isOk (fst (Search q opts i))"
proof -
  let ?Q = "explorer rulesFor ra km A :: ('a SQLiteStore, ('b, 'c) bleveIndexer, principal \<times> lister) qs"
  let ?S = "SqliteStore :: 'a SQLiteStore Store"
  have Q: "qs_Store ?Q = ?S" "qs_Authorizer ?Q = RbacAuthorizer rulesFor ra km" "ir_Search (qs_Index ?Q) = Search"
    by (simp_all add: explorer_def BleveReader_def)
  obtain r1 s1 where 1: "s_GetRoles ?S s = (r1, s1)" by force
  obtain r2 s2 where 2: "s_GetRoleBindings ?S s1 = (r2, s2)" by force
  obtain r3 s3 where 3: "s_GetTenants ?S s2 = (r3, s3)" by force
  obtain r4 i4 where 4: "Search q opts i = (r4, i4)" by force
  have same1: "sq_gorm s1 = sq_gorm s" "sq_db s1 = sq_db s"
    using reads_gorm(2) [of s] 1 by (simp_all add: read_defs, metis dbRead_db snd_conv)
  have same2: "sq_gorm s2 = sq_gorm s" "sq_db s2 = sq_db s"
    using reads_gorm(3) [of s1] 2 same1 by (simp_all add: read_defs, metis dbRead_db snd_conv)
  have ok: "isOk r1 = isOk (g_FindRoles (sq_gorm s) (sq_db s))"
    "isOk r2 = isOk (g_FindRoleBindings (sq_gorm s1) (sq_db s1))"
    "isOk r3 = isOk (g_FindTenants (sq_gorm s2) (sq_db s2))"
    using 1 2 3 by (simp_all add: read_defs) (metis dbRead_isOk fst_conv)+
  note ok = ok [unfolded same1 same2]
  show ?thesis
  proof (cases "isOk r1 \<and> isOk r2 \<and> isOk r3 \<and> isOk r4")
    case True
    then obtain x1 x2 x3 x4 where x: "r1 = Inr x1" "r2 = Inr x2" "r3 = Inr x3" "r4 = Inr x4" by (auto simp: isOk_iff)
    have "isOk (fst (RunQuery ?Q (Some p) q opts (s, i)))"
      by (rule qsvc.run_query_returns [OF Q(1,2) assms(1) readable_tables [OF assms(3-5)]])
        (use 1 2 3 4 x search_starts [OF assms(2)] in \<open>auto simp: Q(3)\<close>)
    then show ?thesis using True ok 4 by simp
  next
    case False
    then have "\<not> isOk (fst (RunQuery ?Q (Some p) q opts (s, i)))"
      using 1 2 3 4 by (auto simp: RunQuery_def Q isOk_iff split: sum.splits prod.splits)
    then show ?thesis using False ok 4 by auto
  qed
qed

text \<open>C33: RunQuery answers exactly when the reads in front of its loop succeed, that of the roles, the
  bindings and the tenants and the search. Its answer then is, in the order of the hits and up to
  the limit, exactly the rows that can be loaded and that the authorizer allows: rows that cannot
  be loaded and objects whose access cannot be decided are left out, and never make the query fail.\<close>

theorem query_answers_iff:
  assumes "sq_inv s" "bi_inv i" "tables_ok (rows s)" "names_ok (rows s)" "resolver_ok rulesFor p (rows s)"
  shows "(isOk (fst (RunQuery (explorer rulesFor ra km A) (Some p) q opts (s, i))) \<longleftrightarrow>
      isOk (g_FindRoles (sq_gorm s) (sq_db s)) \<and> isOk (g_FindRoleBindings (sq_gorm s) (sq_db s)) \<and>
      isOk (g_FindTenants (sq_gorm s) (sq_db s)) \<and> isOk (fst (Search q opts i))) \<and>
    (\<forall>result w. RunQuery (explorer rulesFor ra km A) (Some p) q opts (s, i) = (Inr result, w) \<longrightarrow>
      (\<exists>roles bs ts it i'. rolesRead (rows s) roles \<and> bindingsRead (rows s) bs \<and> tenantsRead (rows s) ts \<and>
        Search q opts i = (Inr it, i') \<and>
        result = takeLimit (case opts of Some opt \<Rightarrow> qo_Limit opt | None \<Rightarrow> 0)
          (filter (\<lambda>x. verdict rulesFor ra km p (ob_Cluster x) roles bs x = (True, None))
            (map (\<lambda>k. addTenant (createTenantLookup ts) (the (tb_Objects (rows s) k)))
              (filter (\<lambda>k. isOk (g_FirstObject (sq_gorm s) k (sq_db s))) (ii_Hits it))))))"
proof (intro conjI allI impI)
  fix result w
  assume "RunQuery (explorer rulesFor ra km A) (Some p) q opts (s, i) = (Inr result, w)"
  then have "RunQuery (explorer rulesFor ra km A) (Some p) q opts (s, i) = (Inr result, (fst w, snd w))" by simp
  from explorer_loaded [OF assms this] show "\<exists>roles bs ts it i'. rolesRead (rows s) roles \<and> bindingsRead (rows s) bs \<and> tenantsRead (rows s) ts \<and>
        Search q opts i = (Inr it, i') \<and>
        result = takeLimit (case opts of Some opt \<Rightarrow> qo_Limit opt | None \<Rightarrow> 0)
          (filter (\<lambda>x. verdict rulesFor ra km p (ob_Cluster x) roles bs x = (True, None))
            (map (\<lambda>k. addTenant (createTenantLookup ts) (the (tb_Objects (rows s) k)))
              (filter (\<lambda>k. isOk (g_FirstObject (sq_gorm s) k (sq_db s))) (ii_Hits it))))"
    unfolding rowLoads_def [abs_def] by blast
qed (rule run_isOk_iff [OF assms])

section \<open>An example\<close>

text \<open>A bucket that the example user may read, an event that nobody may, and their documents.\<close>

definition bucketRow :: object where
  "bucketRow = (mkObject ''c'' ''ns'' ''Bucket'' ''b'')\<lparr> ob_ID := ''c/ns/apps/v1/Bucket/b'' \<rparr>"

definition eventRow :: object where
  "eventRow = (mkObject ''c'' ''ns'' ''Event'' ''e'')\<lparr> ob_ID := ''c/ns//v1/Event/e'', ob_APIGroup := [] \<rparr>"

definition queryDb :: memdb where
  "queryDb = \<lparr> md_Objects = [bucketRow, eventRow],
     md_Roles = [\<lparr> ro_ID = ''c/ns/Role/reader'', ro_Cluster = ''c'', ro_Namespace = ''ns'', ro_Kind = ''Role'',
       ro_Name = ''reader'', ro_PolicyRules = [] \<rparr>],
     md_Rules = [(''c/ns/Role/reader'', \<lparr> pr_APIGroups = ''apps'', pr_Resources = ''a,b'',
       pr_Verbs = ''get,list'', pr_ResourceNames = [] \<rparr>)],
     md_RoleBindings = [\<lparr> rb_ID = ''c/ns/RoleBinding/b'', rb_Cluster = ''c'', rb_Namespace = ''ns'',
       rb_Kind = ''RoleBinding'', rb_Name = ''b'', rb_RoleRefName = ''reader'', rb_RoleRefKind = ''Role'', rb_Subjects = [] \<rparr>],
     md_Subjects = [],
     md_Tenants = [\<lparr> tn_ID = ''c/t'', tn_ClusterName = ''c'', tn_Name = ''t'', tn_Namespace = ''ns'' \<rparr>] \<rparr>"

definition queryStore :: "memdb SQLiteStore" where
  "queryStore = memStore\<lparr> sq_db := queryDb \<rparr>"

definition queryIndex :: "(memix, unit) bleveIndexer" where
  "queryIndex = memIndexer [(''c/ns//v1/Event/e_unstructured'', JsonDoc ()), (''c/ns/apps/v1/Bucket/b'', ObjectDoc bucketRow)]"

abbreviation anything :: query where
  "anything \<equiv> \<lparr> qu_Terms = [], qu_Filters = [] \<rparr>"

lemma queryStore_inv: "sq_inv queryStore" "rows queryStore = memContents queryDb"
  "sq_gorm queryStore = memGorm" "sq_db queryStore = queryDb"
  by (simp_all add: queryStore_def sq_inv_def rows_def memStore_def memGorm_ok) (simp add: memGorm_def)

lemma queryDb_ok: "tables_ok (memContents queryDb)"
  by (auto simp: tables_ok_def objects_ok_def roles_table_ok_def bindings_ok_def tenants_ok_def memContents_def
      current_def owned_def queryDb_def bucketRow_def eventRow_def mkObject_def validate_iffs
      Object_GetID_def Object_GroupVersionKind_def Role_GetID_def RoleBinding_GetID_def Tenant_GetID_def
      split: if_splits)

lemma queryDb_names: "names_ok (memContents queryDb)"
  by (auto simp: names_ok_def ran_def memContents_def current_def queryDb_def slash_free_def split: if_splits)

lemma gatherRules_asks:
  "slash_free ns \<Longrightarrow> \<forall>b\<in>set bs. slash_free (rr_Name (kb_RoleRef b)) \<Longrightarrow> asksOk (gatherRules ns bs acc) cl roles bindings"
  by (induction bs arbitrary: acc) (auto split: sum.splits)

lemma queryDb_resolver: "resolver_ok exampleResolver p (memContents queryDb)"
  unfolding resolver_ok_def
proof (intro allI impI ballI)
  fix roles bs x
  assume b: "bindingsRead (memContents queryDb) bs" and x: "x \<in> ran (tb_Objects (memContents queryDb))"
  have "slash_free (ob_Namespace x)"
    using x by (auto simp: ran_def memContents_def current_def queryDb_def bucketRow_def eventRow_def mkObject_def
        slash_free_def split: if_splits)
  moreover have "slash_free (rb_RoleRefName c)" if "c \<in> set bs" for c
  proof -
    have "tb_RoleBindings (memContents queryDb) (rb_ID c) = Some (c\<lparr> rb_Subjects := [] \<rparr>)"
      using b that by (simp add: bindingsRead_def)
    then have "rb_RoleRefName (c\<lparr> rb_Subjects := [] \<rparr>) = ''reader''"
      by (auto simp: memContents_def current_def queryDb_def dest!: arg_cong [of _ _ rb_RoleRefName] split: if_splits)
    then show ?thesis by (simp add: slash_free_def)
  qed
  ultimately show "asksOkFor exampleResolver p (ob_Cluster x) roles bs x"
    by (auto simp: asksOkFor_def exampleResolver_def bindingsIn_def makeRoleBinding_def intro!: gatherRules_asks)
qed

lemmas query_example = queryStore_inv queryDb_ok queryDb_names queryDb_resolver

lemma query_example_reads:
  "isOk (g_FindRoles memGorm queryDb)" "isOk (g_FindRoleBindings memGorm queryDb)"
  "isOk (g_FindTenants memGorm queryDb)" "bi_inv queryIndex" "sql_loads queryStore"
  unfolding queryStore_inv queryIndex_def sql_loads_def
  by (auto simp: memGorm_def memContents_def)

lemma query_example_search: "isOk (fst (Search anything None queryIndex))"
  by (simp add: Search_def indexMeasured_def Let_def queryIndex_def memIndexer_def memBleve_def
      IndexerAddInflightRequests_def)

definition exampleExplorer :: "(memdb SQLiteStore, (memix, unit) bleveIndexer, principal \<times> lister) qs" where
  "exampleExplorer = explorer exampleResolver exampleRuleAllows Map.empty exampleApi"

lemma query_example_run:
  obtains result s' i' where
    "RunQuery exampleExplorer (Some exampleUser) anything None (queryStore, queryIndex) = (Inr result, (s', i'))"
proof -
  have "isOk (fst (RunQuery exampleExplorer (Some exampleUser) anything None (queryStore, queryIndex)))"
    unfolding exampleExplorer_def
    by (subst run_isOk_iff) (simp_all add: query_example query_example_reads query_example_search)
  then show thesis using that by (metis isOk_iff prod.collapse)
qed

lemma query_sound_witness:
  "\<exists>result w. RunQuery exampleExplorer (Some exampleUser) anything None (queryStore, queryIndex) = (Inr result, w) \<and>
     rows (fst w) = rows queryStore"
proof -
  obtain result s' i' where
    run: "RunQuery exampleExplorer (Some exampleUser) anything None (queryStore, queryIndex) = (Inr result, (s', i'))"
    by (rule query_example_run)
  show ?thesis
    using query_sound [OF queryStore_inv(1) query_example_reads(4) _ _ _ run [unfolded exampleExplorer_def]] run
    by (simp add: query_example)
qed

lemma query_complete_witness:
  "\<exists>result w ks roles bs ts. RunQuery exampleExplorer (Some exampleUser) anything None (queryStore, queryIndex) = (Inr result, w) \<and>
     set ks = {''c/ns//v1/Event/e'', ''c/ns/apps/v1/Bucket/b''} \<and>
     result = filter (\<lambda>x. verdict exampleResolver exampleRuleAllows Map.empty exampleUser (ob_Cluster x) roles bs x = (True, None))
      (map (\<lambda>k. addTenant (createTenantLookup ts) (the (tb_Objects (rows queryStore) k))) ks)"
proof -
  obtain result s' i' where
    run: "RunQuery exampleExplorer (Some exampleUser) anything None (queryStore, queryIndex) = (Inr result, (s', i'))"
    by (rule query_example_run)
  have strip: "stripSuffix ''c/ns//v1/Event/e_unstructured'' = ''c/ns//v1/Event/e''"
    "stripSuffix ''c/ns/apps/v1/Bucket/b'' = ''c/ns/apps/v1/Bucket/b''"
    by (simp_all add: stripSuffix_def unstructuredSuffix_def strContains_def)
  have hit: "(\<exists>h d. bi_docs queryIndex h = Some d \<and> stripSuffix h = k \<and>
      bl_Matches (bi_bleve queryIndex) (searchQuery anything) d) \<longleftrightarrow> k \<in> {''c/ns//v1/Event/e'', ''c/ns/apps/v1/Bucket/b''}" for k
  proof -
    have m: "bl_Matches (bi_bleve queryIndex) (searchQuery anything) d" for d
      by (simp add: queryIndex_def memIndexer_def memBleve_def searchQuery_def)
    have "bi_docs queryIndex = map_of [(''c/ns//v1/Event/e_unstructured'', JsonDoc ()), (''c/ns/apps/v1/Bucket/b'', ObjectDoc bucketRow)]"
      by (simp add: bi_docs_def queryIndex_def memIndexer_def memBleve_def)
    then show ?thesis by (simp add: m) (metis strip insert_iff singletonD)
  qed
  have "tb_Objects (rows queryStore) k \<noteq> None" if "k \<in> {''c/ns//v1/Event/e'', ''c/ns/apps/v1/Bucket/b''}" for k
    using that by (auto simp: queryStore_inv memContents_def queryDb_def current_def bucketRow_def eventRow_def)
  then have keys: "{k. tb_Objects (rows queryStore) k \<noteq> None \<and> (\<exists>h d. bi_docs queryIndex h = Some d \<and> stripSuffix h = k \<and>
                bl_Matches (bi_bleve queryIndex) (searchQuery anything) d)} = {''c/ns//v1/Event/e'', ''c/ns/apps/v1/Bucket/b''}"
    unfolding hit by blast
  have ok: "tables_ok (rows queryStore)" "names_ok (rows queryStore)" "resolver_ok exampleResolver exampleUser (rows queryStore)"
    by (simp_all add: query_example)
  from query_complete [OF queryStore_inv(1) query_example_reads(4) ok run [unfolded exampleExplorer_def] query_example_reads(5)]
  show ?thesis unfolding keys
    by (elim exE conjE, intro exI conjI) (rule run, assumption, assumption)
qed

lemma query_answers_iff_witness:
  "\<exists>result w roles bs ts it i'. RunQuery exampleExplorer (Some exampleUser) anything None (queryStore, queryIndex) = (Inr result, w) \<and>
     Search anything None queryIndex = (Inr it, i') \<and>
     result = filter (\<lambda>x. verdict exampleResolver exampleRuleAllows Map.empty exampleUser (ob_Cluster x) roles bs x = (True, None))
       (map (\<lambda>k. addTenant (createTenantLookup ts) (the (tb_Objects (rows queryStore) k)))
         (filter (\<lambda>k. isOk (g_FirstObject memGorm k queryDb)) (ii_Hits it)))"
proof -
  have ok: "tables_ok (rows queryStore)" "names_ok (rows queryStore)" "resolver_ok exampleResolver exampleUser (rows queryStore)"
    by (simp_all add: query_example)
  note iff = query_answers_iff [OF queryStore_inv(1) query_example_reads(4) ok, of exampleRuleAllows Map.empty exampleApi anything None]
  have "isOk (fst (RunQuery exampleExplorer (Some exampleUser) anything None (queryStore, queryIndex)))"
    unfolding exampleExplorer_def
    by (subst iff [THEN conjunct1]) (simp add: queryStore_inv query_example_reads(1-3) query_example_search)
  then obtain result w where run: "RunQuery exampleExplorer (Some exampleUser) anything None (queryStore, queryIndex) = (Inr result, w)"
    by (metis isOk_iff prod.collapse)
  with iff [THEN conjunct2] show ?thesis
    unfolding exampleExplorer_def queryStore_inv(3,4) by (fastforce simp: takeLimit_def)
qed

end
