(* ===== verification/CollectorFacts.thy ===== *)
theory CollectorFacts
  imports Collectors QueryFacts
begin

text \<open>
  The collectors over the interfaces of the store and of the index: the tables after
  a batch of transactions, the refinement of the abstract effect of a transaction,
  and what a cluster that is no longer watched leaves behind.
\<close>

section \<open>The abstract effect of a transaction\<close>

text \<open>The object that a transaction describes, when everything about it can be computed.\<close>

definition described :: "(normalized_object \<Rightarrow> string res) \<Rightarrow> object_transaction \<Rightarrow> object option" where
  "described marshal tx = (case tx_Object tx of None \<Rightarrow> None | Some n \<Rightarrow>
     (case (GetCategory n, marshal n, GetStatus n, GetMessage n) of
        (Inr cat, Inr raw, Inr status, Inr message) \<Rightarrow> Some (objectOf tx n status message cat raw)
      | _ \<Rightarrow> None))"

definition removesObject :: "int \<Rightarrow> object_transaction \<Rightarrow> object \<Rightarrow> bool" where
  "removesObject now tx x \<longleftrightarrow> tx_TransactionType tx = TransactionTypeDelete \<and>
     (tx_RetentionPolicy tx = NoRetentionPolicy \<or> IsExpired now (tx_RetentionPolicy tx) x)"

definition applyTransaction :: "(normalized_object \<Rightarrow> string res) \<Rightarrow> int \<Rightarrow> object_transaction \<Rightarrow> tables \<Rightarrow> tables" where
  "applyTransaction marshal now tx T =
     (if tx_TransactionType tx = TransactionTypeDeleteAll then dropClusterObjects (tx_ClusterName tx) T
      else case described marshal tx of
        None \<Rightarrow> T
      | Some x \<Rightarrow> if removesObject now tx x then dropObject x T else putObject x T)"

lemma sortObject_described:
  assumes "sortObject marshal now tx b = Inr b'"
  shows "b' = (if tx_TransactionType tx = TransactionTypeDeleteAll
      then b\<lparr> ba_deleteAll := ba_deleteAll b @ [tx_ClusterName tx] \<rparr>
      else case described marshal tx of
        None \<Rightarrow> b
      | Some x \<Rightarrow> if removesObject now tx x then b\<lparr> ba_delete := ba_delete b @ [x] \<rparr>
                  else b\<lparr> ba_upsert := ba_upsert b @ [x] \<rparr>)"
  using assms
  by (auto simp: sortObject_def described_def removesObject_def skipOn_def Let_def split: option.splits sum.splits if_splits)

lemma onStore_None [simp]: "onStore f (s, i) = (None, (s', i')) \<longleftrightarrow> f s = (None, s') \<and> i' = i"
  by (auto simp: onStore_def split: prod.splits)

lemma onIndex_None [simp]: "onIndex f (s, i) = (None, (s', i')) \<longleftrightarrow> f i = (None, i') \<and> s' = s"
  by (auto simp: onIndex_def split: prod.splits)

lemma whenSome_None: "whenSome xs f s = (None, s') \<longleftrightarrow> (if xs = [] then s' = s else f s = (None, s'))"
  by (auto simp: whenSome_def)

text \<open>A store and an index that are written together.\<close>

locale collecting = explorer_store S inv contents + ix: index_writer W iinv docs entries
  for S :: "'s Store" and inv contents and W :: "'i IndexWriter" and iinv
    and docs :: "'i \<Rightarrow> (string \<rightharpoonup> 'd)" and entries
begin

lemma removeQueries:
  "\<lbrakk>iinv i; forErr (\<lambda>c. wrapStep m (a c) (onIndex (iw_RemoveByQuery W (q c)))) cs (s, i) = (None, (s', i'))\<rbrakk> \<Longrightarrow>
    s' = s \<and> iinv i' \<and> (\<forall>k d. docs i' k = Some d \<longrightarrow> docs i k = Some d)"
proof (induction cs arbitrary: i)
  case (Cons c cs)
  obtain e s1 i1 where 1: "wrapStep m (a c) (onIndex (iw_RemoveByQuery W (q c))) (s, i) = (e, (s1, i1))"
    by (metis prod.collapse)
  then have e: "e = None" and rest: "forErr (\<lambda>c. wrapStep m (a c) (onIndex (iw_RemoveByQuery W (q c)))) cs (s1, i1) = (None, (s', i'))"
    using Cons.prems(2) by (auto split: option.splits)
  have r: "iw_RemoveByQuery W (q c) i = (None, i1)" "s1 = s" using 1 e by simp_all
  have "iinv i1" "\<And>k d. docs i1 k = Some d \<Longrightarrow> docs i k = Some d"
    using ix.removeByQuery [OF Cons.prems(1) r(1)] ix.only_removes [OF Cons.prems(1) r(1)] by blast+
  then show ?case using Cons.IH [of i1] rest r(2) by blast
qed simp

lemma applyBatch_effect:
  assumes "inv s" "iinv i" "applyBatch S W b (s, i) = (None, (s', i'))"
  shows "inv s' \<and> iinv i' \<and>
    contents s' = eachRow dropClusterObjects (ba_deleteAll b) (eachRow dropObject (ba_delete b) (eachRow putObject (ba_upsert b) (contents s))) \<and>
    (ba_deleteAll b = [] \<longrightarrow>
       docs i' = dropDocs (map Object_GetID (ba_delete b)) (putDocs (concat (map (entries i) (ba_upsert b))) (docs i)))"
proof -
  obtain s1 i1 s2 i2 where
    1: "whenSome (ba_upsert b) (seqErr (wrapStep ''failed to store objects: %w'' [] (onStore (s_StoreObjects S (ba_upsert b))))
          (wrapStep ''failed to index objects: %w'' [] (onIndex (iw_Add W (ba_upsert b))))) (s, i) = (None, (s1, i1))" and
    2: "whenSome (ba_delete b) (seqErr (wrapStep ''failed to delete objects: %w'' [] (onStore (s_DeleteObjects S (ba_delete b))))
          (wrapStep ''failed to delete objects from index: %w'' [] (onIndex (iw_Remove W (ba_delete b))))) (s1, i1) = (None, (s2, i2))" and
    3: "whenSome (ba_deleteAll b) (seqErr (wrapStep ''failed to delete all objects: %w'' [] (onStore (s_DeleteAllObjects S (ba_deleteAll b))))
          (forErr (\<lambda>cluster. wrapStep ''failed to delete all objects for cluster %q: %w'' [cluster]
             (onIndex (iw_RemoveByQuery W (''+cluster:'' @ cluster)))) (ba_deleteAll b))) (s2, i2) = (None, (s', i'))"
    using assms(3) unfolding applyBatch_def by (auto simp only: seqErr_None split_paired_Ex)
  have u: "inv s1 \<and> iinv i1 \<and> contents s1 = eachRow putObject (ba_upsert b) (contents s) \<and> entries i1 = entries i \<and>
      docs i1 = putDocs (concat (map (entries i) (ba_upsert b))) (docs i)"
  proof (cases "ba_upsert b = []")
    case False
    then have st: "s_StoreObjects S (ba_upsert b) s = (None, s1)" and ad: "iw_Add W (ba_upsert b) i = (None, i1)"
      using 1 by (auto simp: whenSome_None simp del: seqErr.simps)
    show ?thesis using storeObjects_ok [OF assms(1) st] ix.add [OF assms(2) ad] by simp
  qed (use 1 assms(1,2) in \<open>simp add: whenSome_None putDocs_def\<close>)
  have d: "inv s2 \<and> iinv i2 \<and> contents s2 = eachRow dropObject (ba_delete b) (contents s1) \<and>
      docs i2 = dropDocs (map Object_GetID (ba_delete b)) (docs i1)"
  proof (cases "ba_delete b = []")
    case False
    then have st: "s_DeleteObjects S (ba_delete b) s1 = (None, s2)" and rm: "iw_Remove W (ba_delete b) i1 = (None, i2)"
      using 2 by (auto simp: whenSome_None simp del: seqErr.simps)
    show ?thesis using deleteObjects_ok [OF _ st] ix.remove_ok [OF _ rm] u by blast
  qed (use 2 u in \<open>simp add: whenSome_None dropDocs_def\<close>)
  have a: "inv s' \<and> iinv i' \<and> contents s' = eachRow dropClusterObjects (ba_deleteAll b) (contents s2) \<and>
      (ba_deleteAll b = [] \<longrightarrow> docs i' = docs i2)"
  proof (cases "ba_deleteAll b = []")
    case False
    then obtain s3 i3 where 4: "s_DeleteAllObjects S (ba_deleteAll b) s2 = (None, s3)" "i3 = i2"
      and 5: "forErr (\<lambda>cluster. wrapStep ''failed to delete all objects for cluster %q: %w'' [cluster]
             (onIndex (iw_RemoveByQuery W (''+cluster:'' @ cluster)))) (ba_deleteAll b) (s3, i3) = (None, (s', i'))"
      using 3 by (auto simp: whenSome_None simp del: seqErr.simps)
    have "s' = s3 \<and> iinv i'" using removeQueries [OF _ 5] d 4(2) by blast
    then show ?thesis using deleteAllObjects_ok [OF _ 4(1)] d False by blast
  qed (use 3 d in \<open>simp add: whenSome_None\<close>)
  show ?thesis using u d a by simp
qed

lemma transaction_effect:
  assumes "inv s" "iinv i" "objects_processRecords S W marshal now [tx] (s, i) = (None, (s', i'))"
  shows "inv s' \<and> iinv i' \<and> contents s' = applyTransaction marshal now tx (contents s)"
proof -
  obtain b where b: "sortObject marshal now tx emptyBatch = Inr b" and run: "applyBatch S W b (s, i) = (None, (s', i'))"
    using assms(3) by (auto simp: objects_processRecords_def split: sum.splits)
  then show ?thesis
    using applyBatch_effect [OF assms(1,2) run] sortObject_described [OF b]
    by (auto simp: applyTransaction_def emptyBatch_def split: option.splits if_splits)
qed

text \<open>The loop of a collector receives one transaction at a time.\<close>

lemma transactions_effect:
  assumes "inv s" "iinv i"
    "forErr (\<lambda>tx. objects_processRecords S W marshal now [tx]) txs (s, i) = (None, (s', i'))"
  shows "inv s' \<and> iinv i' \<and> contents s' = foldl (\<lambda>T tx. applyTransaction marshal now tx T) (contents s) txs"
  using assms
proof (induction txs arbitrary: s i)
  case (Cons tx txs)
  obtain e s1 i1 where 1: "objects_processRecords S W marshal now [tx] (s, i) = (e, (s1, i1))" by (metis prod.collapse)
  then have e: "e = None" "forErr (\<lambda>tx. objects_processRecords S W marshal now [tx]) txs (s1, i1) = (None, (s', i'))"
    using Cons.prems(3) by (auto split: option.splits)
  have "inv s1 \<and> iinv i1 \<and> contents s1 = applyTransaction marshal now tx (contents s)"
    using transaction_effect [OF Cons.prems(1,2)] 1 e(1) by blast
  then show ?case using Cons.IH [OF _ _ e(2)] by simp
qed simp

end

interpretation coll: collecting SqliteStore sq_inv rows BleveWriter bi_inv bi_docs "\<lambda>i. batchEntries (bi_bleve i)"
  by unfold_locales

text \<open>C6: The objects collector refines the abstract effect of the transactions: when it receives
  transactions one at a time and each is processed without an error, the tables are those that the
  transactions describe, one after the other: an update stores the object, a deletion removes it
  unless its kind is retained and it has not expired, and a deletion of everything removes the
  objects of the cluster.\<close>

theorem collector_refines:
  assumes "sq_inv s" "bi_inv i"
    "forErr (\<lambda>tx. objects_processRecords SqliteStore BleveWriter marshal now [tx]) txs (s, i) = (None, (s', i'))"
  shows "rows s' = foldl (\<lambda>T tx. applyTransaction marshal now tx T) (rows s) txs"
  using coll.transactions_effect [OF assms] by blast

definition bucketTx :: object_transaction where
  "bucketTx = \<lparr> tx_ClusterName = ''c'', tx_Object = Some (NewNormalizedObject
     ((newObject (Bucket [] False))\<lparr> co_Name := ''b'', co_Namespace := ''ns'', co_Gvk := ok_Gvk (BucketObjectKind exampleApi) \<rparr>)
     (BucketObjectKind exampleApi)), tx_TransactionType = TransactionTypeUpsert, tx_RetentionPolicy = NoRetentionPolicy \<rparr>"

definition exampleMarshal :: "normalized_object \<Rightarrow> string res" where
  "exampleMarshal n = Inr ''{}''"

definition bucketObject :: object where
  "bucketObject = \<lparr> ob_ID = [], ob_Cluster = ''c'', ob_Namespace = ''ns'', ob_APIGroup = ''source.toolkit.fluxcd.io'',
     ob_APIVersion = ''v1beta2'', ob_Kind = ''Bucket'', ob_Name = ''b'', ob_Status = Failed, ob_Message = [],
     ob_Category = CategorySource, ob_KubernetesDeletedAt = 0, ob_Unstructured = ''{}'', ob_Tenant = [],
     ob_Labels = Map.empty \<rparr>"

lemma bucketTx_sorted: "sortObject exampleMarshal now bucketTx emptyBatch = Inr (emptyBatch\<lparr> ba_upsert := [bucketObject] \<rparr>)"
  by (simp add: sortObject_def bucketTx_def exampleMarshal_def skipOn_def NewNormalizedObject_def GetCategory_def emptyBatch_def
      GetStatus_def GetMessage_def BucketObjectKind_def objectOf_def bucketObject_def newObject_def Let_def
      defaultStatusFunc_def defaultMessageFunc_def GetRelevantLabels_def
      category_defs status_defs exampleApi_def)

lemma bucketTx_processed:
  "\<exists>w. objects_processRecords SqliteStore BleveWriter exampleMarshal 0 [bucketTx] (memStore, memIndexer []) = (None, w)"
proof -
  have st: "\<exists>s. s_StoreObjects SqliteStore [bucketObject] memStore = (None, s)"
    by (simp add: SqliteStore_def StoreObjects_def measured_def wrapStep_def dbStep_def memStore_def memGorm_def
        DataStoreInflightRequests_def Object_Validate_def bucketObject_def category_defs)
  have ad: "\<exists>i. iw_Add BleveWriter [bucketObject] (memIndexer []) = (None, i)"
    by (simp add: BleveWriter_def Add_def indexMeasured_def idxStep_def memIndexer_def memBleve_def Let_def
        IndexerAddInflightRequests_def recordIndexerMetrics_def IndexerSetLatency_def)
  have "sortObjects exampleMarshal 0 [bucketTx] emptyBatch = Inr (emptyBatch\<lparr> ba_upsert := [bucketObject] \<rparr>)"
    by (simp add: bucketTx_sorted)
  then show ?thesis using st ad
    by (auto simp: objects_processRecords_def applyBatch_def whenSome_def emptyBatch_def
        onStore_def onIndex_def wrapStep_def simp del: sortObjects.simps)
qed

lemma collector_refines_witness:
  "tb_Objects (rows (fst (snd (forErr (\<lambda>tx. objects_processRecords SqliteStore BleveWriter exampleMarshal 0 [tx]) [bucketTx]
     (memStore, memIndexer []))))) (Object_GetID bucketObject) = Some (objectRow bucketObject)"
proof -
  obtain s' i' where r: "forErr (\<lambda>tx. objects_processRecords SqliteStore BleveWriter exampleMarshal 0 [tx]) [bucketTx]
     (memStore, memIndexer []) = (None, (s', i'))"
    using bucketTx_processed by (auto split: prod.splits)
  have "described exampleMarshal bucketTx = Some bucketObject"
    using sortObject_described [OF bucketTx_sorted [of 0]]
    by (auto simp: emptyBatch_def removesObject_def bucketTx_def split: if_splits option.splits)
  then show ?thesis using collector_refines [OF memStore_inv memIndexer_inv r] r
    by (simp add: applyTransaction_def removesObject_def bucketTx_def putObject_def)
qed

section \<open>A cluster that is no longer watched\<close>

lemma resolver_ok_drop: "resolver_ok rulesFor p T \<Longrightarrow> resolver_ok rulesFor p (dropClusterObjects c T)"
  by (fastforce simp: resolver_ok_def dropClusterObjects_def bindingsRead_def rolesRead_def ran_def dropRows_Some)

lemma names_ok_drop: "names_ok (dropClusterObjects c T) = names_ok T"
  by (simp add: names_ok_def dropClusterObjects_def)

lemma dropped_cluster: "tb_Objects (dropClusterObjects c T) k = Some x \<Longrightarrow> ob_Cluster x \<noteq> c"
  by (auto simp: dropClusterObjects_def dropRows_def split: option.splits if_splits)

lemma addTenant_cluster: "ob_Cluster (addTenant l x) = ob_Cluster x"
  by (simp add: addTenant_def split: option.splits)

lemma takeLimit_avoids: "c \<notin> f ` set xs \<Longrightarrow> c \<notin> f ` set (takeLimit n xs)"
  using takeLimit_subset [of n xs] by blast

text \<open>C16: When a cluster is no longer watched and the hook of the objects collector has succeeded, no
  answer of the explorer holds an object of that cluster, although its documents may still be in the
  index.\<close>

theorem unwatched_cluster_invisible:
  assumes "sq_inv s" "bi_inv i" "tables_ok (rows s)" "names_ok (rows s)" "resolver_ok rulesFor p (rows s)"
    and "objects_deleteWatcher SqliteStore BleveWriter marshal now c (s, i) = (None, (s1, i1))"
    and "RunQuery (explorer rulesFor ra km A) (Some p) q opts (s1, i1) = (Inr result, (s2, i2))"
  shows "c \<notin> ob_Cluster ` set result"
proof -
  have eff: "sq_inv s1 \<and> bi_inv i1 \<and> rows s1 = dropClusterObjects c (rows s)"
    using coll.transaction_effect [OF assms(1,2) assms(6) [unfolded objects_deleteWatcher_def]]
    by (simp add: applyTransaction_def NewDeleteAllTransaction_def)
  have ok: "tables_ok (rows s1)" "names_ok (rows s1)" "resolver_ok rulesFor p (rows s1)"
    using eff tables_ok_drop(5) [OF assms(3)] assms(4) resolver_ok_drop [OF assms(5)] by (simp_all add: names_ok_drop)
  have inv: "sq_inv s1" "bi_inv i1" using eff by blast+
  obtain roles bs ks l where live: "\<forall>k\<in>set ks. tb_Objects (rows s1) k \<noteq> None"
    and res: "result = takeLimit (case opts of Some opt \<Rightarrow> qo_Limit opt | None \<Rightarrow> 0)
       (filter (\<lambda>x. verdict rulesFor ra km p (ob_Cluster x) roles bs x = (True, None))
         (map (\<lambda>k. addTenant l (the (tb_Objects (rows s1) k))) ks))"
    by (rule explorer_run [OF inv ok assms(7)], rule that)
  have "ob_Cluster (addTenant l (the (tb_Objects (rows s1) k))) \<noteq> c" if k: "k \<in> set ks" for k
  proof -
    obtain x where x: "tb_Objects (rows s1) k = Some x" using live k by auto
    then show ?thesis using eff dropped_cluster [of c "rows s" k x] by (simp add: addTenant_cluster)
  qed
  then have "c \<notin> ob_Cluster ` set (filter (\<lambda>x. verdict rulesFor ra km p (ob_Cluster x) roles bs x = (True, None))
         (map (\<lambda>k. addTenant l (the (tb_Objects (rows s1) k))) ks))"
    by auto
  then show ?thesis unfolding res by (rule takeLimit_avoids)
qed

lemma memBleve_forErr:
  "bi_bleve i = memBleve \<Longrightarrow>
    \<exists>i'. forErr (\<lambda>k. wrapStep m [] (idxStep (\<lambda>B. bl_Delete B k))) ks i = (None, i') \<and> bi_bleve i' = memBleve"
  by (induction ks arbitrary: i) (auto simp: wrapStep_def idxStep_def memBleve_def split: prod.splits)

lemma memBleve_unwatch:
  assumes "sq_gorm s = memGorm" "bi_bleve i = memBleve"
  obtains s1 i1 where "objects_deleteWatcher SqliteStore BleveWriter marshal now c (s, i) = (None, (s1, i1))"
    "sq_gorm s1 = memGorm" "bi_bleve i1 = memBleve"
proof -
  obtain s1 where 1: "s_DeleteAllObjects SqliteStore [c] s = (None, s1)" "sq_gorm s1 = memGorm"
    by (simp add: assms SqliteStore_def DeleteAllObjects_def measured_def wrapStep_def dbStep_def memGorm_def memDelete_def
        DataStoreInflightRequests_def recordMetrics_def DataStoreSetLatency_def Let_def)
  obtain i1 where 2: "iw_RemoveByQuery BleveWriter (''+cluster:'' @ c) i = (None, i1)" "bi_bleve i1 = memBleve"
  proof -
    let ?i = "IndexerAddInflightRequests ''RemoveByQuery'' 1 i"
    have B: "bi_bleve ?i = memBleve" by (simp add: IndexerAddInflightRequests_def assms)
    obtain r where r: "bl_Search (bi_bleve ?i) (bl_NewSearchRequest (bi_bleve ?i) (QueryStringQuery (''+cluster:'' @ c))) (bi_idx ?i) = Inr r"
      unfolding B by (simp add: memBleve_def)
    show thesis
      using memBleve_forErr [OF B, of "''failed to delete object: %w''" "sr_Hits r"] that r
      by (auto simp: BleveWriter_def RemoveByQuery_def indexMeasured_def Let_def recordIndexerMetrics_def
          IndexerSetLatency_def IndexerAddInflightRequests_def)
  qed
  have calls: "onStore (DeleteAllObjects [c]) (s, i) = (None, (s1, i))"
    "onIndex (iw_RemoveByQuery BleveWriter (''+cluster:'' @ c)) (s1, i) = (None, (s1, i1))"
    using 1 2 by simp_all
  have "objects_deleteWatcher SqliteStore BleveWriter marshal now c (s, i) = (None, (s1, i1))"
    by (simp add: calls objects_deleteWatcher_def objects_processRecords_def NewDeleteAllTransaction_def sortObject_def
        applyBatch_def emptyBatch_def whenSome_def wrapStep_def del: append_Cons)
  then show thesis using that 1(2) 2(2) by blast
qed

lemma unwatched_cluster_invisible_witness:
  "\<exists>s1 i1 result w. objects_deleteWatcher SqliteStore BleveWriter exampleMarshal 0 ''c'' (queryStore, queryIndex) = (None, (s1, i1)) \<and>
     RunQuery exampleExplorer (Some exampleUser) anything None (s1, i1) = (Inr result, w) \<and> ''c'' \<notin> ob_Cluster ` set result"
proof -
  have B: "bi_bleve queryIndex = memBleve" by (simp add: queryIndex_def memIndexer_def)
  obtain s1 i1 where d: "objects_deleteWatcher SqliteStore BleveWriter exampleMarshal 0 ''c'' (queryStore, queryIndex) = (None, (s1, i1))"
    and same: "sq_gorm s1 = memGorm" "bi_bleve i1 = memBleve"
    by (rule memBleve_unwatch [OF queryStore_inv(3) B])
  have q: "tables_ok (rows queryStore)" "names_ok (rows queryStore)" "resolver_ok exampleResolver exampleUser (rows queryStore)"
    by (simp_all add: query_example)
  have eff: "sq_inv s1 \<and> bi_inv i1 \<and> rows s1 = dropClusterObjects ''c'' (rows queryStore)"
    using coll.transaction_effect [OF queryStore_inv(1) query_example_reads(4) d [unfolded objects_deleteWatcher_def]]
    by (simp add: applyTransaction_def NewDeleteAllTransaction_def)
  have ok: "tables_ok (rows s1)" "names_ok (rows s1)" "resolver_ok exampleResolver exampleUser (rows s1)"
    using eff tables_ok_drop(5) [OF q(1)] q(2) resolver_ok_drop [OF q(3)] by (simp_all add: names_ok_drop)
  have inv: "sq_inv s1" "bi_inv i1" using eff by blast+
  have "isOk (fst (Search anything None i1))"
    by (simp add: Search_def indexMeasured_def Let_def IndexerAddInflightRequests_def same memBleve_def)
  then have "isOk (fst (RunQuery exampleExplorer (Some exampleUser) anything None (s1, i1)))"
    unfolding exampleExplorer_def run_isOk_iff [OF inv ok] same by (simp add: memGorm_def)
  then obtain result s2 i2 where run: "RunQuery exampleExplorer (Some exampleUser) anything None (s1, i1) = (Inr result, (s2, i2))"
    by (metis isOk_iff prod.collapse)
  show ?thesis
    using unwatched_cluster_invisible [OF queryStore_inv(1) query_example_reads(4) q d run [unfolded exampleExplorer_def]] d run
    by blast
qed

section \<open>Roles\<close>

text \<open>A role whose rules have all been taken away keeps its stored permissions: the role collector
  skips the update of a role that has no rules, so nothing is written and nothing is removed.\<close>

theorem emptied_role_kept:
  assumes "tx_Object tx = Some n" "tx_TransactionType tx = TransactionTypeUpsert"
    and "gvk_Kind (co_Gvk (no_Object n)) = ''Role'' \<and> co_Body (Raw n) = K8sRole [] \<or>
      gvk_Kind (co_Gvk (no_Object n)) = ''ClusterRole'' \<and> co_Body (Raw n) = K8sClusterRole []"
  shows "roles_processRecords S [tx] s = (None, s)"
  using assms by (auto simp: roles_processRecords_def Let_def emptyRbacBatch_def whenSome_def NewRoleAdapter_def as_role_def)

definition emptiedRoleTx :: object_transaction where
  "emptiedRoleTx = \<lparr> tx_ClusterName = ''c'', tx_Object = Some (NewNormalizedObject
     ((newObject (K8sRole []))\<lparr> co_Name := ''reader'', co_Namespace := ''ns'',
        co_Gvk := ok_Gvk (RoleObjectKind exampleApi) \<rparr>) (RoleObjectKind exampleApi)),
     tx_TransactionType = TransactionTypeUpsert, tx_RetentionPolicy = NoRetentionPolicy \<rparr>"

lemma emptied_role_kept_witness:
  "roles_processRecords SqliteStore [emptiedRoleTx] queryStore = (None, queryStore) \<and>
   tb_PolicyRules (rows queryStore) ''c/ns/Role/reader'' \<noteq> []"
proof -
  let ?n = "NewNormalizedObject ((newObject (K8sRole []))\<lparr> co_Name := ''reader'', co_Namespace := ''ns'',
        co_Gvk := ok_Gvk (RoleObjectKind exampleApi) \<rparr>) (RoleObjectKind exampleApi)"
  have "gvk_Kind (co_Gvk (no_Object ?n)) = ''Role'' \<and> co_Body (Raw ?n) = K8sRole []"
    by (simp add: NewNormalizedObject_def RoleObjectKind_def exampleApi_def Raw_def)
  then have "roles_processRecords SqliteStore [emptiedRoleTx] queryStore = (None, queryStore)"
    by (intro emptied_role_kept [of _ ?n]) (simp_all add: emptiedRoleTx_def)
  then show ?thesis by (simp add: queryStore_inv memContents_def queryDb_def owned_def)
qed

text \<open>What is known about a role that is no longer there.\<close>

definition goneRole :: "reconciler \<Rightarrow> string \<Rightarrow> string \<Rightarrow> role" where
  "goneRole r namespace name = \<lparr> ro_ID = [], ro_Cluster = rc_clusterName r, ro_Namespace = namespace,
     ro_Kind = gvk_Kind (ok_Gvk (rc_objectKind r)), ro_Name = name, ro_PolicyRules = [] \<rparr>"

lemma role_deletion_call:
  assumes "kr_Get (rc_client r) namespace name c = Inl e" "kr_IsNotFound (rc_client r) e"
    "ok_NewClientObjectFunc (rc_objectKind r) = Some c"
    "gvk_Kind (ok_Gvk (rc_objectKind r)) = ''Role'' \<and> co_Body c = K8sRole [] \<or>
     gvk_Kind (ok_Gvk (rc_objectKind r)) = ''ClusterRole'' \<and> co_Body c = K8sClusterRole []"
  shows "Reconcile r (\<lambda>tx. roles_processRecords S [tx]) namespace name s =
    wrapStep ''cannot delete roles: %w'' [] (s_DeleteRoles S [goneRole r namespace name]) s"
proof -
  let ?tx = "transactionOf r (c\<lparr> co_Name := name, co_Namespace := namespace, co_Gvk := ok_Gvk (rc_objectKind r) \<rparr>)
    TransactionTypeDelete"
  have "gvk_Kind (ok_Gvk (rc_objectKind r)) \<in> set kindsWithoutFinalizers"
    using assms(4) by (auto simp: kindsWithoutFinalizers_def)
  then have run: "Reconcile r (\<lambda>tx. roles_processRecords S [tx]) namespace name s = roles_processRecords S [?tx] s"
    using assms(1-3) by (simp add: Reconcile_def Let_def)
  have "sortRbac [?tx] emptyRbacBatch = Inr (emptyRbacBatch\<lparr> rb_rolesToDelete := [goneRole r namespace name] \<rparr>)"
    using assms(4) by (auto simp: transactionOf_def NewNormalizedObject_def Raw_def NewRoleAdapter_def as_role_def Let_def
        emptyRbacBatch_def roleAdapter_ToModel_def cRoleAdapter_ToModel_def goneRole_def)
  then show ?thesis unfolding run
    by (auto simp: roles_processRecords_def emptyRbacBatch_def whenSome_def wrapStep_def
        simp del: sortRbac.simps split: prod.splits option.splits)
qed

text \<open>A role that has been deleted from a cluster loses its row: when the reconciler of the role
  kinds is asked about a role that the cluster no longer has, the row of exactly that cluster,
  namespace, kind and name is removed and no other table changes.\<close>

theorem deleted_role_removed:
  assumes "sq_inv s" "api_ok A" "rc_objectKind r \<in> {RoleObjectKind A, ClusterRoleObjectKind A}"
    and "kr_Get (rc_client r) namespace name (the (ok_NewClientObjectFunc (rc_objectKind r))) = Inl e"
    and "kr_IsNotFound (rc_client r) e"
    and "Reconcile r (\<lambda>tx. roles_processRecords SqliteStore [tx]) namespace name s = (None, s')"
  shows "rows s' = (rows s)\<lparr> tb_Roles := dropRows (\<lambda>q. ro_ID q = rc_clusterName r @ ''/'' @ namespace @ ''/'' @
    gvk_Kind (ok_Gvk (rc_objectKind r)) @ ''/'' @ name) (tb_Roles (rows s)) \<rparr>"
proof -
  obtain c where c: "ok_NewClientObjectFunc (rc_objectKind r) = Some c"
    and k: "gvk_Kind (ok_Gvk (rc_objectKind r)) = ''Role'' \<and> co_Body c = K8sRole [] \<or>
      gvk_Kind (ok_Gvk (rc_objectKind r)) = ''ClusterRole'' \<and> co_Body c = K8sClusterRole []"
    using assms(2,3) by (auto simp: RoleObjectKind_def ClusterRoleObjectKind_def api_ok_def)
  have "kr_Get (rc_client r) namespace name c = Inl e" using assms(4) by (simp add: c)
  from role_deletion_call [OF this assms(5) c k, of SqliteStore s] assms(6)
  have "s_DeleteRoles SqliteStore [goneRole r namespace name] s = (None, s')"
    by (auto simp: wrapStep_def split: prod.splits)
  from sql.deleteRoles [OF assms(1) this] show ?thesis by (simp add: dropRole_def Role_GetID_def goneRole_def)
qed

definition goneReconciler :: reconciler where
  "goneReconciler = \<lparr> rc_clusterName = ''c'', rc_objectKind = RoleObjectKind exampleApi,
     rc_client = \<lparr> kr_Get = (\<lambda>_ _ _. Inl (err ''not found'')), kr_IsNotFound = (\<lambda>_. True) \<rparr> \<rparr>"

lemma deleted_role_removed_witness:
  "tb_Roles (rows queryStore) ''c/ns/Role/reader'' \<noteq> None \<and>
   tb_Roles (rows (snd (Reconcile goneReconciler (\<lambda>tx. roles_processRecords SqliteStore [tx]) ''ns'' ''reader'' queryStore)))
     ''c/ns/Role/reader'' = None"
proof -
  have "\<exists>s'. s_DeleteRoles SqliteStore [goneRole goneReconciler ''ns'' ''reader''] queryStore = (None, s')"
    by (simp add: SqliteStore_def DeleteRoles_def measured_def dbStep_def queryStore_def memStore_def memGorm_def memDelete_def
        wrapStep_def Role_IsValidID_def goneRole_def goneReconciler_def RoleObjectKind_def exampleApi_def
        DataStoreInflightRequests_def)
  moreover have "Reconcile goneReconciler (\<lambda>tx. roles_processRecords SqliteStore [tx]) ''ns'' ''reader'' queryStore =
      wrapStep ''cannot delete roles: %w'' [] (s_DeleteRoles SqliteStore [goneRole goneReconciler ''ns'' ''reader'']) queryStore"
    by (rule role_deletion_call [where c = "newObject (K8sRole [])"]) (simp_all add: goneReconciler_def RoleObjectKind_def exampleApi_def)
  ultimately obtain s' where r: "Reconcile goneReconciler (\<lambda>tx. roles_processRecords SqliteStore [tx]) ''ns'' ''reader''
      queryStore = (None, s')"
    by (auto simp: wrapStep_def)
  from deleted_role_removed [OF queryStore_inv(1) api_ok_example _ _ _ r]
  have "rows s' = (rows queryStore)\<lparr> tb_Roles := dropRows (\<lambda>q. ro_ID q = ''c/ns/Role/reader'') (tb_Roles (rows queryStore)) \<rparr>"
    by (simp add: goneReconciler_def RoleObjectKind_def exampleApi_def)
  then show ?thesis using r
    by (simp add: queryStore_inv memContents_def queryDb_def current_def dropRows_def)
qed

end
