(* ===== verification/Cleaner.thy ===== *)
theory Cleaner
  imports CollectorFacts
begin

text \<open>
  pkg/query/cleaner/cleaner.go: the job that removes expired objects from the store
  and the index, its life cycle and its metrics. The string of a group version is
  computed by the API machinery and is a parameter; the time is the same for one run.
\<close>

section \<open>Status and metrics\<close>

definition CleanerStarting :: string where "CleanerStarting = ''starting''"
definition CleanerStarted :: string where "CleanerStarted = ''started''"
definition CleanerStopped :: string where "CleanerStopped = ''stopped''"

record cleaner_metrics =
  cm_status :: "string \<Rightarrow> int"
  cm_inflight :: int
  cm_latency :: "string list"

definition CleanerWatcherDecrease :: "string \<Rightarrow> cleaner_metrics \<Rightarrow> cleaner_metrics" where
  "CleanerWatcherDecrease status m = m\<lparr> cm_status := (cm_status m)(status := cm_status m status - 1) \<rparr>"

definition CleanerWatcherIncrease :: "string \<Rightarrow> cleaner_metrics \<Rightarrow> cleaner_metrics" where
  "CleanerWatcherIncrease status m = m\<lparr> cm_status := (cm_status m)(status := cm_status m status + 1) \<rparr>"

definition CleanerAddInflightRequests :: "int \<Rightarrow> cleaner_metrics \<Rightarrow> cleaner_metrics" where
  "CleanerAddInflightRequests number m = m\<lparr> cm_inflight := cm_inflight m + number \<rparr>"

definition CleanerSetLatency :: "string \<Rightarrow> cleaner_metrics \<Rightarrow> cleaner_metrics" where
  "CleanerSetLatency status m = m\<lparr> cm_latency := cm_latency m @ [status] \<rparr>"

text \<open>The stop channel has room for one value: None is the nil channel, Some n holds n values.\<close>

record objectCleaner =
  oc_config :: "object_kind list"
  oc_stop :: "nat option"
  oc_status :: string
  oc_metrics :: cleaner_metrics

definition NewObjectCleaner :: "object_kind list \<Rightarrow> cleaner_metrics \<Rightarrow> objectCleaner" where
  "NewObjectCleaner config m = \<lparr> oc_config = config, oc_stop = None, oc_status = [], oc_metrics = m \<rparr>"

definition cleaner_setStatus :: "string \<Rightarrow> objectCleaner \<Rightarrow> objectCleaner" where
  "cleaner_setStatus s oc =
     (let m = (if oc_status oc \<noteq> [] then CleanerWatcherDecrease (oc_status oc) (oc_metrics oc) else oc_metrics oc);
          m' = (if s \<noteq> CleanerStopped then CleanerWatcherIncrease s m else m)
      in oc\<lparr> oc_status := s, oc_metrics := m' \<rparr>)"

section \<open>Removing old objects\<close>

definition recordCleanerMetrics :: "goerror option \<Rightarrow> cleaner_metrics \<Rightarrow> cleaner_metrics" where
  "recordCleanerMetrics e m =
     (let m = CleanerAddInflightRequests (-1) m;
          label = (if e \<noteq> None then FailedLabel else SuccessLabel)
      in CleanerSetLatency label m)"

definition cleanKind :: "(gvk \<Rightarrow> string) \<Rightarrow> 'i IndexWriter \<Rightarrow> int \<Rightarrow> object \<Rightarrow> object_kind \<Rightarrow>
    'db SQLiteStore \<times> 'i \<Rightarrow> 'db SQLiteStore \<times> 'i" where
  "cleanKind gvString W now obj k w =
     (let kind = gvString (ok_Gvk k) @ ''/'' @ gvk_Kind (ok_Gvk k); gvk = Object_GroupVersionKind obj in
      if kind = gvk \<and> IsExpired now (ok_RetentionPolicy k) obj then
        (case w of (s, i) \<Rightarrow> (snd (s_DeleteObjects SqliteStore [obj] s), snd (iw_Remove W [obj] i)))
      else w)"

definition cleanObject :: "(gvk \<Rightarrow> string) \<Rightarrow> 'i IndexWriter \<Rightarrow> object_kind list \<Rightarrow> int \<Rightarrow> object \<Rightarrow>
    'db SQLiteStore \<times> 'i \<Rightarrow> 'db SQLiteStore \<times> 'i" where
  "cleanObject gvString W config now obj w = foldl (\<lambda>w k. cleanKind gvString W now obj k w) w config"

text \<open>
  The errors of the deletions are only logged. As in the store, the deferred call is
  given the error as it is when the function starts.
\<close>

definition removeOldObjects :: "(gvk \<Rightarrow> string) \<Rightarrow> 'i IndexWriter \<Rightarrow> int \<Rightarrow> objectCleaner \<Rightarrow> 'db SQLiteStore \<times> 'i \<Rightarrow>
    goerror option \<times> objectCleaner \<times> ('db SQLiteStore \<times> 'i)" where
  "removeOldObjects gvString W now oc w =
     (let oc = oc\<lparr> oc_metrics := CleanerAddInflightRequests 1 (oc_metrics oc) \<rparr>;
          (e, w') = (case GetAllObjects (fst w) of
             (Inl e, s) \<Rightarrow> (Some (wrap ''could not get all objects: %w'' [] e), (s, snd w))
           | (Inr iter, s) \<Rightarrow>
               (case fst (sqliterator_All iter) of
                  Inl e \<Rightarrow> (Some (wrap ''could not iterate over objects: %w'' [] e), (s, snd w))
                | Inr all \<Rightarrow>
                    (None, foldl (\<lambda>w obj. cleanObject gvString W (oc_config oc) now obj w) (s, snd w) all)))
      in (e, oc\<lparr> oc_metrics := recordCleanerMetrics None (oc_metrics oc) \<rparr>, w'))"

section \<open>The life cycle\<close>

text \<open>What the loop of Start receives next.\<close>

datatype cleaner_event = Tick int | StopReceived

definition cleaner_Start :: "objectCleaner \<Rightarrow> objectCleaner" where
  "cleaner_Start oc = (cleaner_setStatus CleanerStarting oc)\<lparr> oc_stop := Some 0 \<rparr>"

fun cleanerLoop :: "(gvk \<Rightarrow> string) \<Rightarrow> 'i IndexWriter \<Rightarrow> cleaner_event list \<Rightarrow>
    objectCleaner \<times> ('db SQLiteStore \<times> 'i) \<Rightarrow> objectCleaner \<times> ('db SQLiteStore \<times> 'i)" where
  "cleanerLoop gvString W [] st = st"
| "cleanerLoop gvString W (StopReceived # es) (oc, w) = (oc\<lparr> oc_stop := map_option (\<lambda>n. n - 1) (oc_stop oc) \<rparr>, w)"
| "cleanerLoop gvString W (Tick now # es) (oc, w) = cleanerLoop gvString W es (snd (removeOldObjects gvString W now oc w))"

definition cleanerTask :: "(gvk \<Rightarrow> string) \<Rightarrow> 'i IndexWriter \<Rightarrow> cleaner_event list \<Rightarrow>
    objectCleaner \<times> ('db SQLiteStore \<times> 'i) \<Rightarrow> objectCleaner \<times> ('db SQLiteStore \<times> 'i)" where
  "cleanerTask gvString W es st = cleanerLoop gvString W es (cleaner_setStatus CleanerStarted (fst st), snd st)"

text \<open>Stop returns None when its send blocks.\<close>

definition cleaner_Stop :: "objectCleaner \<Rightarrow> objectCleaner option" where
  "cleaner_Stop oc =
     (case oc_stop oc of
        None \<Rightarrow> None
      | Some n \<Rightarrow> if n < 1 then Some (cleaner_setStatus CleanerStopped (oc\<lparr> oc_stop := Some (n + 1) \<rparr>)) else None)"

lemma Stop_before_Start: "cleaner_Stop (NewObjectCleaner config m) = None"
  by (simp add: cleaner_Stop_def NewObjectCleaner_def)

section \<open>What is removed\<close>

definition cleanable :: "(gvk \<Rightarrow> string) \<Rightarrow> object_kind list \<Rightarrow> int \<Rightarrow> object \<Rightarrow> bool" where
  "cleanable gvString config now x \<longleftrightarrow> (\<exists>k\<in>set config.
     gvString (ok_Gvk k) @ ''/'' @ gvk_Kind (ok_Gvk k) = Object_GroupVersionKind x \<and>
     IsExpired now (ok_RetentionPolicy k) x)"

text \<open>Statements that delete rows do not fail.\<close>

definition deletes_succeed :: "'db SQLiteStore \<Rightarrow> bool" where
  "deletes_succeed s \<longleftrightarrow> (\<forall>m column v db. fst (g_Delete (sq_gorm s) m column v db) = None)"

definition removed :: "(object \<Rightarrow> bool) \<Rightarrow> tables \<Rightarrow> tables" where
  "removed P T = T\<lparr> tb_Objects := dropRows P (tb_Objects T) \<rparr>"

lemma delete_one:
  assumes "sq_inv s" "Object_Validate x = None"
  shows "sq_inv (snd (s_DeleteObjects SqliteStore [x] s))"
    "sq_gorm (snd (s_DeleteObjects SqliteStore [x] s)) = sq_gorm s"
    "rows (snd (s_DeleteObjects SqliteStore [x] s)) = dropObject x (rows s) \<or>
     rows (snd (s_DeleteObjects SqliteStore [x] s)) = rows s"
    "deletes_succeed s \<Longrightarrow> rows (snd (s_DeleteObjects SqliteStore [x] s)) = dropObject x (rows s)"
proof -
  obtain e s' where r: "s_DeleteObjects SqliteStore [x] s = (e, s')" by force
  then have d: "DeleteObjects [x] s = (e, s')" by (simp add: SqliteStore_def)
  note eff = DeleteObjects_effect [OF assms(1) d]
  show "sq_inv (snd (s_DeleteObjects SqliteStore [x] s))" using eff r by simp
  show "sq_gorm (snd (s_DeleteObjects SqliteStore [x] s)) = sq_gorm s"
    unfolding r using d
    by (auto simp: DeleteObjects_def measured_def dbStep_def wrapStep_def assms(2) recordMetrics_def DataStoreSetLatency_def
        DataStoreInflightRequests_def Let_def split: prod.splits option.splits)
  show "rows (snd (s_DeleteObjects SqliteStore [x] s)) = dropObject x (rows s) \<or>
     rows (snd (s_DeleteObjects SqliteStore [x] s)) = rows s"
    using eff unfolding r partly_def by (auto split: if_splits simp: prefix_Cons)
  show "rows (snd (s_DeleteObjects SqliteStore [x] s)) = dropObject x (rows s)" if "deletes_succeed s"
  proof -
    have del: "fst (g_Delete G m column v db) = None" if "G = sq_gorm s" for G m column v db
      using \<open>deletes_succeed s\<close> that by (simp add: deletes_succeed_def)
    have "e = None" using d
      by (auto simp: DeleteObjects_def measured_def dbStep_def wrapStep_def assms(2) DataStoreInflightRequests_def
          dest!: arg_cong [of _ "(_, _)" fst] simp: del split: prod.splits option.splits)
    then show ?thesis using eff r by simp
  qed
qed

lemma removed_simps:
  "removed P (removed Q T) = removed (\<lambda>r. P r \<or> Q r) T" "removed (\<lambda>r. False) T = T"
  by (auto simp: removed_def dropRows_def fun_eq_iff split: option.splits)

lemma removed_cong:
  "(\<And>k r. tb_Objects T k = Some r \<Longrightarrow> P r = Q r) \<Longrightarrow> removed P T = removed Q T"
  by (auto simp: removed_def dropRows_def fun_eq_iff split: option.splits)

lemma dropObject_removed: "dropObject x = removed (\<lambda>r. ob_ID r = Object_GetID x)"
  by (simp add: dropObject_def removed_def fun_eq_iff)

text \<open>The loop over the kinds, and the loop over the objects.\<close>

lemma cleanObject_effect:
  assumes "sq_inv s" "Object_Validate x = None" "cleanObject gvString W config now x (s, i) = (s', i')"
  shows "sq_inv s' \<and> sq_gorm s' = sq_gorm s \<and>
    (rows s' = rows s \<or> cleanable gvString config now x \<and> rows s' = dropObject x (rows s)) \<and>
    (deletes_succeed s \<and> cleanable gvString config now x \<longrightarrow> rows s' = dropObject x (rows s))"
  using assms(1,3)
proof (induction config arbitrary: s i)
  case Nil
  then show ?case by (simp add: cleanObject_def cleanable_def)
next
  case (Cons k ks)
  let ?hit = "gvString (ok_Gvk k) @ ''/'' @ gvk_Kind (ok_Gvk k) = Object_GroupVersionKind x \<and>
     IsExpired now (ok_RetentionPolicy k) x"
  obtain s1 i1 where 1: "cleanKind gvString W now x k (s, i) = (s1, i1)" by force
  then have rest: "cleanObject gvString W ks now x (s1, i1) = (s', i')" using Cons.prems(2) by (simp add: cleanObject_def)
  have c: "cleanable gvString (k # ks) now x \<longleftrightarrow> ?hit \<or> cleanable gvString ks now x" by (simp add: cleanable_def)
  have same: "deletes_succeed s1 = deletes_succeed s" if "sq_gorm s1 = sq_gorm s"
    using that by (simp add: deletes_succeed_def)
  have idem: "dropObject x (dropObject x T) = dropObject x T" for T by (simp add: dropObject_removed removed_simps)
  show ?case
  proof (cases ?hit)
    case True
    then have s1: "s1 = snd (s_DeleteObjects SqliteStore [x] s)" using 1 by (simp add: cleanKind_def)
    note d = delete_one [OF Cons.prems(1) assms(2), folded s1]
    show ?thesis using Cons.IH [OF d(1) rest] d(2-4) same c True idem by metis
  next
    case False
    then have "s1 = s" using 1 by (auto simp: cleanKind_def Let_def split: if_splits)
    then show ?thesis using Cons.IH [OF _ rest] Cons.prems(1) c False by blast
  qed
qed

lemma cleanAll_effect:
  assumes "sq_inv s" "\<forall>x\<in>set xs. Object_Validate x = None"
    "foldl (\<lambda>w obj. cleanObject gvString W config now obj w) (s, i) xs = (s', i')"
  shows "\<exists>ys. set ys \<subseteq> {x \<in> set xs. cleanable gvString config now x} \<and>
    (deletes_succeed s \<longrightarrow> set ys = {x \<in> set xs. cleanable gvString config now x}) \<and>
    rows s' = removed (\<lambda>r. \<exists>x\<in>set ys. ob_ID r = Object_GetID x) (rows s)"
  using assms
proof (induction xs arbitrary: s i)
  case Nil
  then show ?case by (auto intro!: exI [of _ "[]"] simp: removed_simps)
next
  case (Cons x xs)
  obtain s1 i1 where 1: "cleanObject gvString W config now x (s, i) = (s1, i1)" by force
  have v: "Object_Validate x = None" using Cons.prems(2) by simp
  note eff = cleanObject_effect [OF Cons.prems(1) v 1]
  have rest: "foldl (\<lambda>w obj. cleanObject gvString W config now obj w) (s1, i1) xs = (s', i')"
    using Cons.prems(3) 1 by simp
  obtain ys where ys: "set ys \<subseteq> {x \<in> set xs. cleanable gvString config now x}"
    "deletes_succeed s1 \<longrightarrow> set ys = {x \<in> set xs. cleanable gvString config now x}"
    "rows s' = removed (\<lambda>r. \<exists>x\<in>set ys. ob_ID r = Object_GetID x) (rows s1)"
    using Cons.IH [OF _ _ rest] eff Cons.prems(2) by auto
  have same: "deletes_succeed s1 = deletes_succeed s" using eff by (simp add: deletes_succeed_def)
  show ?case
  proof (cases "rows s1 = rows s")
    case True
    show ?thesis
    proof (cases "deletes_succeed s \<and> cleanable gvString config now x")
      case True
      then have "rows s1 = dropObject x (rows s)" using eff by blast
      then have "rows s' = removed (\<lambda>r. \<exists>y\<in>set (x # ys). ob_ID r = Object_GetID y) (rows s)"
        unfolding ys(3) by (auto simp: dropObject_removed removed_simps intro!: removed_cong)
      then show ?thesis using ys(1,2) same True by (intro exI [of _ "x # ys"]) auto
    next
      case False
      then show ?thesis using ys same \<open>rows s1 = rows s\<close> by (intro exI [of _ ys]) auto
    qed
  next
    case False
    then have d: "cleanable gvString config now x" "rows s1 = dropObject x (rows s)" using eff by blast+
    then have "rows s' = removed (\<lambda>r. \<exists>y\<in>set (x # ys). ob_ID r = Object_GetID y) (rows s)"
      unfolding ys(3) by (auto simp: dropObject_removed removed_simps intro!: removed_cong)
    then show ?thesis using ys(1,2) same d(1) by (intro exI [of _ "x # ys"]) auto
  qed
qed

section \<open>The run\<close>

lemma allLoop_result:
  "fst (allLoop objects r) = Inr all \<Longrightarrow> \<exists>ys. all = objects @ ys \<and> prefix (map Inr ys) (rs_Rest r)"
proof (induction objects r rule: allLoop.induct)
  case (1 objects r)
  show ?case
  proof (cases "rs_Closed r \<or> rs_Rest r = []")
    case True
    then show ?thesis using 1(2) by (subst (asm) allLoop.simps) (auto split: option.splits if_splits)
  next
    case False
    then obtain y xs where y: "rs_Rest r = y # xs" "\<not> rs_Closed r" by (cases "rs_Rest r") auto
    let ?r = "r\<lparr> rs_Rest := xs, rs_Current := Some y \<rparr>"
    have n: "rowsNext r = (True, ?r)" using y by simp
    show ?thesis
    proof (cases y)
      case (Inl e)
      then show ?thesis using 1(2) n by (subst (asm) allLoop.simps) (simp add: scanRows_def)
    next
      case (Inr x)
      have sc: "scanRows ?r = Inr x" using Inr by (simp add: scanRows_def)
      have "fst (allLoop (objects @ [x]) ?r) = Inr all"
        using 1(2) n sc by (subst (asm) allLoop.simps) simp
      with 1(1) [OF n [symmetric] _ sc] obtain ys where "all = (objects @ [x]) @ ys" "prefix (map Inr ys) xs" by auto
      then show ?thesis using y Inr by (intro exI [of _ "x # ys"]) auto
    qed
  qed
qed

text \<open>The objects that are read are rows of the table; when nothing goes wrong they are all of them.\<close>

definition loads_rows :: "'db SQLiteStore \<Rightarrow> bool" where
  "loads_rows s \<longleftrightarrow> isOk (g_FindObjects (sq_gorm s) (sq_db s)) \<and>
     (\<forall>q. \<exists>xs. g_Rows (sq_gorm s) q (sq_db s) = Inr (newRows (map Inr xs) None))"

lemma read_all:
  assumes "sq_inv s" "GetAllObjects s = (Inr iter, s1)" "fst (sqliterator_All iter) = Inr all"
  shows "s1 = s \<and> set all \<subseteq> ran (tb_Objects (rows s)) \<and> (loads_rows s \<longrightarrow> set all = ran (tb_Objects (rows s)))"
proof -
  let ?q = "\<lparr> oq_Offset = -1, oq_Order = [], oq_Ids = None \<rparr>"
  have g: "g_Rows (sq_gorm s) ?q (sq_db s) = Inr iter" "s1 = s"
    using assms(2) by (auto simp: GetAllObjects_def sqliterator_New_def split: sum.splits)
  have "rowsOf ?q (rows s) iter" using assms(1) g(1) by (simp add: sq_inv_def gorm_ok_def rows_def)
  then obtain xs where xs: "set xs = ran (tb_Objects (rows s))"
    and rest: "list_all2 (\<lambda>y x. isOk y \<longrightarrow> y = Inr x) (rs_Rest iter) xs"
    by (auto simp: rowsOf_def)
  obtain ys where ys: "all = ys" "prefix (map Inr ys) (rs_Rest iter)"
    using allLoop_result [of "[]" iter all] assms(3) by (auto simp: sqliterator_All_def case_prod_beta)
  have eq: "ys = take (length ys) xs"
  proof (rule nth_equalityI)
    show "length ys = length (take (length ys) xs)"
      using prefix_length_le [OF ys(2)] list_all2_lengthD [OF rest] by simp
    fix n assume n: "n < length ys"
    have "rs_Rest iter ! n = Inr (ys ! n)" "n < length (rs_Rest iter)"
      using ys(2) n prefix_length_le [OF ys(2)] by (auto simp: prefix_def nth_append)
    then have "Inr (ys ! n) = (Inr (xs ! n) :: object res)"
      using list_all2_nthD [OF rest, of n] by (simp add: isOk_iff)
    then show "ys ! n = take (length ys) xs ! n" using n by simp
  qed
  have "set all = ran (tb_Objects (rows s))" if l: "loads_rows s"
  proof -
    obtain zs where z: "iter = newRows (map Inr zs) None" using l g(1) unfolding loads_rows_def by (metis sum.inject(2))
    then have "fst (sqliterator_All iter) = Inr zs"
      using allLoop_rows [of "newRows (map Inr zs) None" zs "[]"] by (simp add: sqliterator_All_def newRows_def case_prod_beta)
    then have "zs = all" "list_all2 (\<lambda>y x. isOk y \<longrightarrow> y = Inr x) (map Inr zs) xs"
      using assms(3) rest z by (simp_all add: newRows_def)
    then have "all = xs" by (simp add: list_all2_conv_all_nth list_eq_iff_nth_eq isOk_iff)
    then show ?thesis using xs by simp
  qed
  then show ?thesis using g(2) eq ys(1) xs by (metis set_take_subset)
qed

lemma clean_run:
  assumes "sq_inv s" "tables_ok (rows s)" "removeOldObjects gvString W now oc (s, i) = (e, oc', (s', i'))"
  shows "\<exists>P. rows s' = removed P (rows s) \<and> (\<forall>x. P x \<longrightarrow> cleanable gvString (oc_config oc) now x) \<and>
    (loads_rows s \<and> deletes_succeed s \<longrightarrow> e = None \<and> P = cleanable gvString (oc_config oc) now)"
proof -
  let ?c = "cleanable gvString (oc_config oc) now"
  have ok: "\<forall>x\<in>ran (tb_Objects (rows s)). Object_Validate x = None \<and> tb_Objects (rows s) (Object_GetID x) = Some x"
    and ids: "\<And>k x. tb_Objects (rows s) k = Some x \<Longrightarrow> ob_ID x = k \<and> Object_GetID x = k"
    using assms(2) by (auto simp: tables_ok_def objects_ok_def ran_def)
  show ?thesis
  proof (cases "\<exists>iter all. GetAllObjects s = (Inr iter, s) \<and> fst (sqliterator_All iter) = Inr all")
    case True
    then obtain iter all where r: "GetAllObjects s = (Inr iter, s)" "fst (sqliterator_All iter) = Inr all" by blast
    note rd = read_all [OF assms(1) r]
    have e: "e = None" and f: "foldl (\<lambda>w obj. cleanObject gvString W (oc_config oc) now obj w) (s, i) all = (s', i')"
      using assms(3) r by (auto simp: removeOldObjects_def Let_def split: prod.splits)
    have "\<forall>x\<in>set all. Object_Validate x = None" using rd ok by blast
    from cleanAll_effect [OF assms(1) this f] obtain ys where
      ys: "set ys \<subseteq> {x \<in> set all. ?c x}" "deletes_succeed s \<longrightarrow> set ys = {x \<in> set all. ?c x}"
      "rows s' = removed (\<lambda>r. \<exists>x\<in>set ys. ob_ID r = Object_GetID x) (rows s)"
      by blast
    have hit: "(\<exists>x\<in>set ys. ob_ID q = Object_GetID x) \<longleftrightarrow> q \<in> set ys" if q: "tb_Objects (rows s) k = Some q" for k q
    proof -
      have "x = q" if x: "x \<in> set ys" "ob_ID q = Object_GetID x" for x
      proof -
        have "tb_Objects (rows s) (Object_GetID x) = Some x" using ok ys(1) rd x(1) by blast
        then show ?thesis using x(2) ids [OF q] q by (metis option.inject)
      qed
      then show ?thesis using ids [OF q] by metis
    qed
    have "rows s' = removed (\<lambda>q. q \<in> set ys) (rows s)"
      unfolding ys(3) using hit by (intro removed_cong) blast
    moreover have "removed (\<lambda>q. q \<in> set ys) (rows s) = removed ?c (rows s)" if "loads_rows s \<and> deletes_succeed s"
      using that ys(2) rd by (intro removed_cong) (auto simp: ran_def)
    ultimately show ?thesis using e ys(1)
      by (intro exI [of _ "if loads_rows s \<and> deletes_succeed s then ?c else (\<lambda>q. q \<in> set ys)"]) auto
  next
    case False
    have s: "snd (GetAllObjects s) = s" by (simp add: GetAllObjects_def split: sum.splits)
    then have "s' = s" using assms(3) False
      by (cases "GetAllObjects s") (auto simp: removeOldObjects_def Let_def split: prod.splits sum.splits)
    moreover have "\<not> loads_rows s"
    proof
      assume l: "loads_rows s"
      then obtain xs where xs: "g_Rows (sq_gorm s) \<lparr> oq_Offset = -1, oq_Order = [], oq_Ids = None \<rparr> (sq_db s) =
        Inr (newRows (map Inr xs) None)" by (auto simp: loads_rows_def)
      then have "GetAllObjects s = (Inr (newRows (map Inr xs) None), s)"
        using l by (auto simp: GetAllObjects_def sqliterator_New_def loads_rows_def isOk_iff)
      moreover have "fst (sqliterator_All (newRows (map Inr xs) None)) = Inr xs"
        using allLoop_rows [of "newRows (map Inr xs) None" xs "[]"] by (simp add: sqliterator_All_def newRows_def case_prod_beta)
      ultimately show False using False by blast
    qed
    ultimately show ?thesis by (intro exI [of _ "\<lambda>_. False"]) (simp add: removed_simps)
  qed
qed

text \<open>What is documented of GroupVersion.String: the legacy group has no prefix.\<close>

definition gvString_ok :: "(gvk \<Rightarrow> string) \<Rightarrow> bool" where
  "gvString_ok f \<longleftrightarrow> (\<forall>g. f g = (if gvk_Group g = [] then gvk_Version g else gvk_Group g @ ''/'' @ gvk_Version g))"

text \<open>Groups, versions and kinds hold no slash.\<close>

definition plainKinds :: "object_kind list \<Rightarrow> bool" where
  "plainKinds config \<longleftrightarrow> (\<forall>k\<in>set config. slash_free (gvk_Group (ok_Gvk k)) \<and> slash_free (gvk_Version (ok_Gvk k)) \<and> slash_free (gvk_Kind (ok_Gvk k)))"

text \<open>The comparison of the cleaner finds the kind of an object, except in the core group, whose name is empty.\<close>

lemma kind_matches:
  assumes "gvString_ok gvString" "slash_free (gvk_Group g)" "slash_free (gvk_Version g)" "slash_free (gvk_Kind g)"
    and "kube_names_ok x" "ob_APIVersion x \<noteq> []"
  shows "gvString g @ ''/'' @ gvk_Kind g = Object_GroupVersionKind x \<longleftrightarrow>
    ob_APIGroup x \<noteq> [] \<and> g = \<lparr> gvk_Group = ob_APIGroup x, gvk_Version = ob_APIVersion x, gvk_Kind = ob_Kind x \<rparr>"
proof -
  have x: "slash_free (ob_APIGroup x)" "slash_free (ob_APIVersion x)" "slash_free (ob_Kind x)"
    using assms(5) by (simp_all add: kube_names_ok_def)
  have id: "Object_GroupVersionKind x = (ob_APIGroup x @ ''/'' @ ob_APIVersion x) @ ''/'' @ ob_Kind x"
    using assms(6) by (simp add: Object_GroupVersionKind_def)
  have "gvString g @ ''/'' @ gvk_Kind g = Object_GroupVersionKind x \<longleftrightarrow>
      gvString g = ob_APIGroup x @ ''/'' @ ob_APIVersion x \<and> gvk_Kind g = ob_Kind x"
    unfolding id using slash_right_unique [OF _ assms(4) x(3), of "gvString g" "ob_APIGroup x @ ''/'' @ ob_APIVersion x"] by metis
  also have "gvString g = ob_APIGroup x @ ''/'' @ ob_APIVersion x \<longleftrightarrow>
      gvk_Group g \<noteq> [] \<and> gvk_Group g = ob_APIGroup x \<and> gvk_Version g = ob_APIVersion x"
  proof (cases "gvk_Group g = []")
    case True
    then have "gvString g = gvk_Version g" using assms(1) by (simp add: gvString_ok_def)
    then have "gvString g \<noteq> ob_APIGroup x @ ''/'' @ ob_APIVersion x" using assms(3) by (auto simp: slash_free_def)
    with True show ?thesis by simp
  next
    case False
    then have "gvString g = gvk_Group g @ ''/'' @ gvk_Version g" using assms(1) by (simp add: gvString_ok_def)
    with False show ?thesis using slash_right_unique [OF _ assms(3) x(2), of "gvk_Group g" "ob_APIGroup x"] by metis
  qed
  finally show ?thesis by (cases g) auto
qed

text \<open>C19: The cleaner compares kinds by strings that differ for the core group: when the rows can be
  read and the deletions succeed, the table afterwards is the table without the objects of a named
  group whose kind is configured and which were deleted longer ago than the retention of their
  kind. Objects of the core group, the audit events with them, all stay.\<close>

theorem cleaner_spec:
  assumes "gvString_ok gvString" "plainKinds (oc_config oc)" "\<forall>x\<in>ran (tb_Objects (rows s)). kube_names_ok x"
    and "sq_inv s" "tables_ok (rows s)" "loads_rows s" "deletes_succeed s"
    and "removeOldObjects gvString W now oc (s, i) = (e, oc', (s', i'))"
  shows "e = None \<and> rows s' = (rows s)\<lparr> tb_Objects := dropRows (\<lambda>x. ob_APIGroup x \<noteq> [] \<and> (\<exists>k\<in>set (oc_config oc).
      ok_Gvk k = \<lparr> gvk_Group = ob_APIGroup x, gvk_Version = ob_APIVersion x, gvk_Kind = ob_Kind x \<rparr> \<and>
      ob_KubernetesDeletedAt x \<noteq> 0 \<and> ob_KubernetesDeletedAt x + ok_RetentionPolicy k < now)) (tb_Objects (rows s)) \<rparr>"
proof -
  have run: "e = None" "rows s' = removed (cleanable gvString (oc_config oc) now) (rows s)"
    using clean_run [OF assms(4,5,8)] assms(6,7) by blast+
  have "removed (cleanable gvString (oc_config oc) now) (rows s) = removed (\<lambda>x. ob_APIGroup x \<noteq> [] \<and> (\<exists>k\<in>set (oc_config oc).
      ok_Gvk k = \<lparr> gvk_Group = ob_APIGroup x, gvk_Version = ob_APIVersion x, gvk_Kind = ob_Kind x \<rparr> \<and>
      ob_KubernetesDeletedAt x \<noteq> 0 \<and> ob_KubernetesDeletedAt x + ok_RetentionPolicy k < now)) (rows s)"
  proof (rule removed_cong)
    fix key x assume x: "tb_Objects (rows s) key = Some x"
    have names: "kube_names_ok x" using assms(3) x by (auto simp: ran_def)
    have "Object_Validate x = None" using assms(5) x by (auto simp: tables_ok_def objects_ok_def owned_def)
    then have "ob_APIVersion x \<noteq> []" by (simp add: validate_iffs)
    then have "gvString (ok_Gvk k) @ ''/'' @ gvk_Kind (ok_Gvk k) = Object_GroupVersionKind x \<longleftrightarrow> ob_APIGroup x \<noteq> [] \<and>
        ok_Gvk k = \<lparr> gvk_Group = ob_APIGroup x, gvk_Version = ob_APIVersion x, gvk_Kind = ob_Kind x \<rparr>" if "k \<in> set (oc_config oc)" for k
      using kind_matches [OF assms(1) _ _ _ names] assms(2) that unfolding plainKinds_def by blast
    then show "cleanable gvString (oc_config oc) now x = (ob_APIGroup x \<noteq> [] \<and> (\<exists>k\<in>set (oc_config oc).
      ok_Gvk k = \<lparr> gvk_Group = ob_APIGroup x, gvk_Version = ob_APIVersion x, gvk_Kind = ob_Kind x \<rparr> \<and>
      ob_KubernetesDeletedAt x \<noteq> 0 \<and> ob_KubernetesDeletedAt x + ok_RetentionPolicy k < now))"
      unfolding cleanable_def IsExpired_iff by blast
  qed
  with run show ?thesis unfolding removed_def by simp
qed

text \<open>Objects of the core API group are never removed: the cleaner compares the name of a kind
  without the empty group with one that starts with it, so, whatever their retention, the audit
  events stay in the store.\<close>

theorem core_objects_never_cleaned:
  assumes "gvString_ok gvString" "sq_inv s" "tables_ok (rows s)"
    and "\<forall>k\<in>set (oc_config oc). gvk_Version (ok_Gvk k) \<noteq> [] \<and> (\<forall>c\<in>set (gvk_Group (ok_Gvk k) @ gvk_Version (ok_Gvk k)). c \<noteq> CHR ''/'')"
    and "removeOldObjects gvString W now oc (s, i) = (e, oc', (s', i'))"
    and "tb_Objects (rows s) key = Some x" "ob_APIGroup x = []"
  shows "tb_Objects (rows s') key = Some x"
proof -
  have "gvString (ok_Gvk k) @ ''/'' @ gvk_Kind (ok_Gvk k) \<noteq> Object_GroupVersionKind x" if k: "k \<in> set (oc_config oc)" for k
  proof -
    have "gvString (ok_Gvk k) \<noteq> [] \<and> hd (gvString (ok_Gvk k)) \<noteq> CHR ''/''"
      using assms(1,4) k by (auto simp: gvString_ok_def hd_append)
    then show ?thesis using assms(7) by (cases "gvString (ok_Gvk k)") (auto simp: Object_GroupVersionKind_def)
  qed
  then have "\<not> cleanable gvString (oc_config oc) now x" by (auto simp: cleanable_def)
  then show ?thesis using clean_run [OF assms(2,3,5)] assms(6) by (auto simp: removed_def dropRows_Some)
qed

section \<open>Examples\<close>

text \<open>A bucket and an audit event that were deleted long ago.\<close>

definition oldDb :: memdb where
  "oldDb = emptyDb\<lparr> md_Objects := [bucketRow\<lparr> ob_KubernetesDeletedAt := 1 \<rparr>, eventRow\<lparr> ob_KubernetesDeletedAt := 1 \<rparr>] \<rparr>"

definition oldStore :: "memdb SQLiteStore" where
  "oldStore = memStore\<lparr> sq_db := oldDb \<rparr>"

definition exampleGvString :: "gvk \<Rightarrow> string" where
  "exampleGvString g = (if gvk_Group g = [] then gvk_Version g else gvk_Group g @ ''/'' @ gvk_Version g)"

definition exampleCleaner :: objectCleaner where
  "exampleCleaner = NewObjectCleaner
     [(BucketObjectKind exampleApi)\<lparr> ok_Gvk := \<lparr> gvk_Group = ''apps'', gvk_Version = ''v1'', gvk_Kind = ''Bucket'' \<rparr> \<rparr>,
      PolicyAgentAuditEventObjectKind exampleApi]
     \<lparr> cm_status = (\<lambda>_. 0), cm_inflight = 0, cm_latency = [] \<rparr>"

lemma oldStore_ok: "sq_inv oldStore" "tables_ok (rows oldStore)" "loads_rows oldStore" "deletes_succeed oldStore"
proof -
  show "sq_inv oldStore" by (simp add: oldStore_def sq_inv_def memStore_def memGorm_ok)
  have r: "rows oldStore = memContents oldDb" by (simp add: oldStore_def rows_def memStore_def memGorm_def)
  show "tables_ok (rows oldStore)"
    by (auto simp: r tables_ok_def objects_ok_def roles_table_ok_def bindings_ok_def tenants_ok_def memContents_def
      current_def owned_def oldDb_def emptyDb_def bucketRow_def eventRow_def mkObject_def validate_iffs
      Object_GetID_def Object_GroupVersionKind_def split: if_splits)
  show "loads_rows oldStore" by (auto simp: loads_rows_def oldStore_def memStore_def memGorm_def)
  show "deletes_succeed oldStore" by (simp add: deletes_succeed_def oldStore_def memStore_def memGorm_def memDelete_def)
qed

lemma oldStore_rows: "tb_Objects (rows oldStore) = current ob_ID (md_Objects oldDb)"
  by (simp add: oldStore_def rows_def memStore_def memGorm_def memContents_def)

lemma exampleGvString_ok: "gvString_ok exampleGvString"
  by (simp add: gvString_ok_def exampleGvString_def)

lemma cleaner_spec_witness:
  "tb_Objects (rows oldStore) ''c/ns/apps/v1/Bucket/b'' \<noteq> None \<and>
   tb_Objects (rows (fst (snd (snd (removeOldObjects exampleGvString BleveWriter 1000000000000000 exampleCleaner (oldStore, queryIndex))))))
     ''c/ns/apps/v1/Bucket/b'' = None \<and>
   tb_Objects (rows (fst (snd (snd (removeOldObjects exampleGvString BleveWriter 1000000000000000 exampleCleaner (oldStore, queryIndex))))))
     ''c/ns//v1/Event/e'' \<noteq> None"
proof -
  obtain e oc' s' i' where
    r: "removeOldObjects exampleGvString BleveWriter 1000000000000000 exampleCleaner (oldStore, queryIndex) = (e, oc', (s', i'))"
    by (metis prod.collapse)
  have c: "plainKinds (oc_config exampleCleaner)"
    by (simp add: plainKinds_def slash_free_def exampleCleaner_def NewObjectCleaner_def PolicyAgentAuditEventObjectKind_def exampleApi_def Let_def)
  have "x = bucketRow\<lparr> ob_KubernetesDeletedAt := 1 \<rparr> \<or> x = eventRow\<lparr> ob_KubernetesDeletedAt := 1 \<rparr>" if "x \<in> ran (tb_Objects (rows oldStore))" for x
    using that by (auto simp: oldStore_rows oldDb_def emptyDb_def current_def ran_def split: if_splits)
  then have n: "\<forall>x\<in>ran (tb_Objects (rows oldStore)). kube_names_ok x"
    by (fastforce simp: kube_names_ok_def slash_free_def bucketRow_def eventRow_def mkObject_def)
  show ?thesis using cleaner_spec [OF exampleGvString_ok c n oldStore_ok r] r
    by (auto simp: oldStore_rows oldDb_def emptyDb_def current_def bucketRow_def eventRow_def mkObject_def dropRows_def
        exampleCleaner_def NewObjectCleaner_def BucketObjectKind_def NoRetentionPolicy_def)
qed

lemma core_objects_never_cleaned_witness:
  "tb_Objects (rows (fst (snd (snd (removeOldObjects exampleGvString BleveWriter 1000000000000000 exampleCleaner (oldStore, queryIndex))))))
     ''c/ns//v1/Event/e'' = Some (eventRow\<lparr> ob_KubernetesDeletedAt := 1 \<rparr>)"
proof -
  obtain e oc' s' i' where
    r: "removeOldObjects exampleGvString BleveWriter 1000000000000000 exampleCleaner (oldStore, queryIndex) = (e, oc', (s', i'))"
    by (metis prod.collapse)
  have c: "\<forall>k\<in>set (oc_config exampleCleaner). gvk_Version (ok_Gvk k) \<noteq> [] \<and>
      (\<forall>c\<in>set (gvk_Group (ok_Gvk k) @ gvk_Version (ok_Gvk k)). c \<noteq> CHR ''/'')"
    by (simp add: exampleCleaner_def NewObjectCleaner_def PolicyAgentAuditEventObjectKind_def exampleApi_def Let_def)
  have x: "tb_Objects (rows oldStore) ''c/ns//v1/Event/e'' = Some (eventRow\<lparr> ob_KubernetesDeletedAt := 1 \<rparr>)"
    by (simp add: oldStore_rows oldDb_def emptyDb_def current_def bucketRow_def eventRow_def mkObject_def)
  from core_objects_never_cleaned [OF exampleGvString_ok oldStore_ok(1,2) c r x] show ?thesis
    using r by (simp add: eventRow_def)
qed

end
