(* ===== verification/Watching.thy ===== *)
theory Watching
  imports Prelude
begin

text \<open>
  pkg/query/collector/collector.go and watching.go: the supervisor that starts one
  watcher per cluster and stops it when the cluster goes away. The rate-limited queue
  and the subscription are code of third parties: the queue is the list of the
  clusters that will come back, in any order. Every critical section is one step;
  the goroutine of the queue, the goroutines of the watchers and the loop of Start
  interleave. Children live in a list, a pointer to one is its position.
\<close>

section \<open>Options\<close>

definition ClusterWatchingStarting :: string where "ClusterWatchingStarting = ''starting''"
definition ClusterWatchingStarted :: string where "ClusterWatchingStarted = ''started''"
definition ClusterWatchingStopped :: string where "ClusterWatchingStopped = ''stopped''"
definition ClusterWatchingFailed :: string where "ClusterWatchingFailed = ''failed''"
definition ClusterWatchingErrored :: string where "ClusterWatchingErrored = ''error''"

lemmas watching_statuses = ClusterWatchingStarting_def ClusterWatchingStarted_def ClusterWatchingStopped_def
  ClusterWatchingFailed_def ClusterWatchingErrored_def

record ImpersonateServiceAccount =
  isa_Name :: string
  isa_Namespace :: string

text \<open>The user that a rest.Config impersonates; the rest of it is opaque.\<close>

record 'c rest_config =
  rst_UserName :: string
  rst_Rest :: 'c

record 'c cluster =
  cl_GetName :: string
  cl_GetServerConfig :: "'c rest_config option res"

type_synonym ('c, 'w) NewWatcherFunc = "string \<Rightarrow> 'c rest_config \<Rightarrow> 'w res"
type_synonym 'h StopWatcherFunc = "string \<Rightarrow> 'h step"

record ('c, 'w, 'h) CollectorOpts =
  op_Name :: string
  op_Clusters :: "'c cluster list option"
  op_NewWatcherFunc :: "('c, 'w) NewWatcherFunc option"
  op_StopWatcherFunc :: "'h StopWatcherFunc option"
  op_ServiceAccount :: ImpersonateServiceAccount

definition CollectorOpts_Validate :: "('c, 'w, 'h) CollectorOpts \<Rightarrow> goerror option" where
  "CollectorOpts_Validate opts =
     (if op_Name opts = [] then
        Some (err ''name should be non-empty, to distinguish this collector in metrics, logs, etc.'')
      else if op_Clusters opts = None then Some (err ''invalid cluster subscriber'')
      else if op_NewWatcherFunc opts = None then Some (err ''NewWatcherFunc must be supplied'')
      else if isa_Name (op_ServiceAccount opts) = [] \<or> isa_Namespace (op_ServiceAccount opts) = [] then
        Some (err ''ImpersonateServiceAccount name and namespace must be non-empty'')
      else None)"

section \<open>The collector\<close>

text \<open>How far a child has come: being set up by watch, its goroutine made, Start called, ended.\<close>

datatype child_pc = Setup | Launched | Running | Done

record child =
  ch_cluster :: string
  ch_status :: string
  ch_cancelled :: bool
  ch_pc :: child_pc

record ('c, 'w, 'h) watchingCollector =
  wc_name :: string
  wc_clusterWatchers :: "string \<rightharpoonup> nat option"
  wc_newWatcherFunc :: "('c, 'w) NewWatcherFunc"
  wc_stopWatcherFunc :: "'h StopWatcherFunc"
  wc_sa :: ImpersonateServiceAccount
  wc_queue :: "'c cluster list"
  wc_current :: "(nat \<times> 'c cluster) option"
  wc_children :: "child list"
  wc_gauge :: "string \<Rightarrow> int"
  wc_hook :: 'h

definition newWatchingCollector :: "('c, 'w, 'h) CollectorOpts \<Rightarrow> (string \<Rightarrow> int) \<Rightarrow> 'h \<Rightarrow>
    ('c, 'w, 'h) watchingCollector" where
  "newWatchingCollector opts gauge h = \<lparr>
     wc_name = op_Name opts, wc_clusterWatchers = Map.empty,
     wc_newWatcherFunc = the (op_NewWatcherFunc opts),
     wc_stopWatcherFunc = (case op_StopWatcherFunc opts of None \<Rightarrow> \<lambda>_ h. (None, h) | Some f \<Rightarrow> f),
     wc_sa = op_ServiceAccount opts,
     wc_queue = [], wc_current = None, wc_children = [], wc_gauge = gauge, wc_hook = h \<rparr>"

definition NewCollector :: "('c, 'w, 'h) CollectorOpts \<Rightarrow> (string \<Rightarrow> int) \<Rightarrow> 'h \<Rightarrow>
    ('c, 'w, 'h) watchingCollector res" where
  "NewCollector opts gauge h =
     (case CollectorOpts_Validate opts of
        Some e \<Rightarrow> Inl (wrap ''invalid collector options: %w'' [] e)
      | None \<Rightarrow> Inr (newWatchingCollector opts gauge h))"

text \<open>setStatus of the child at position p, with the gauge of its collector.\<close>

definition child_setStatus :: "nat \<Rightarrow> string \<Rightarrow> ('c, 'w, 'h) watchingCollector \<Rightarrow> ('c, 'w, 'h) watchingCollector" where
  "child_setStatus p s w =
     (let c = wc_children w ! p;
          g = (if ch_status c \<noteq> [] then (wc_gauge w)(ch_status c := wc_gauge w (ch_status c) - 1) else wc_gauge w);
          g' = (if s \<noteq> ClusterWatchingStopped then g(s := g s + 1) else g)
      in w\<lparr> wc_children := (wc_children w)[p := c\<lparr> ch_status := s \<rparr>], wc_gauge := g' \<rparr>)"

definition setPc :: "nat \<Rightarrow> child_pc \<Rightarrow> ('c, 'w, 'h) watchingCollector \<Rightarrow> ('c, 'w, 'h) watchingCollector" where
  "setPc p pc w = w\<lparr> wc_children := (wc_children w)[p := (wc_children w ! p)\<lparr> ch_pc := pc \<rparr>] \<rparr>"

definition cancel :: "nat \<Rightarrow> ('c, 'w, 'h) watchingCollector \<Rightarrow> ('c, 'w, 'h) watchingCollector" where
  "cancel p w = w\<lparr> wc_children := (wc_children w)[p := (wc_children w ! p)\<lparr> ch_cancelled := True \<rparr>] \<rparr>"

definition makeServiceAccountImpersonationConfig :: "'c rest_config option \<Rightarrow> string \<Rightarrow> string \<Rightarrow> 'c rest_config res" where
  "makeServiceAccountImpersonationConfig config namespace serviceAccountName =
     (case config of
        None \<Rightarrow> Inl (err ''invalid rest config'')
      | Some c \<Rightarrow>
          if namespace = [] \<or> serviceAccountName = [] then Inl (err ''service account cannot be empty'')
          else Inr (c\<lparr> rst_UserName := ''system:serviceaccount:'' @ namespace @ '':'' @ serviceAccountName \<rparr>))"

text \<open>
  watch, up to the point where the record of the child is in the map; what follows
  until it returns; the two in one. The new child has status starting; its goroutine
  exists when watch has succeeded.
\<close>

definition watchBegin :: "'c cluster \<Rightarrow> ('c, 'w, 'h) watchingCollector \<Rightarrow> nat \<times> ('c, 'w, 'h) watchingCollector" where
  "watchBegin cluster w =
     (let p = length (wc_children w);
          w = w\<lparr> wc_children := wc_children w @
            [\<lparr> ch_cluster = cl_GetName cluster, ch_status = [], ch_cancelled = False, ch_pc = Setup \<rparr>] \<rparr>;
          w = child_setStatus p ClusterWatchingStarting w
      in (p, w\<lparr> wc_clusterWatchers := (wc_clusterWatchers w)(cl_GetName cluster \<mapsto> Some p) \<rparr>))"

definition createWatcher :: "'c cluster \<Rightarrow> ('c, 'w, 'h) watchingCollector \<Rightarrow> 'w res" where
  "createWatcher cluster w =
     (case cl_GetServerConfig cluster of
        Inl e \<Rightarrow> Inl (wrap ''cannot get config: %w'' [] e)
      | Inr None \<Rightarrow> Inl (err ''cluster config cannot be nil'')
      | Inr (Some config) \<Rightarrow>
          (case makeServiceAccountImpersonationConfig (Some config) (isa_Namespace (wc_sa w)) (isa_Name (wc_sa w)) of
             Inl e \<Rightarrow> Inl (wrap ''cannot create impersonation config: %w'' [] e)
           | Inr saConfig \<Rightarrow>
               (case wc_newWatcherFunc w (cl_GetName cluster) saConfig of
                  Inl e \<Rightarrow> Inl (wrap ''failed to create watcher for cluster %s: %w'' [cl_GetName cluster] e)
                | Inr watcher \<Rightarrow> Inr watcher)))"

definition watchEnd :: "nat \<Rightarrow> 'w res \<Rightarrow> ('c, 'w, 'h) watchingCollector step" where
  "watchEnd p r w =
     (case r of
        Inl e \<Rightarrow> (Some e, setPc p Done (cancel p (child_setStatus p ClusterWatchingFailed w)))
      | Inr watcher \<Rightarrow> (None, setPc p Launched w))"

definition watch :: "'c cluster \<Rightarrow> ('c, 'w, 'h) watchingCollector step" where
  "watch cluster w =
     (if cl_GetName cluster = [] then (Some (err ''cluster name is empty''), w)
      else case watchBegin cluster w of (p, w) \<Rightarrow> watchEnd p (createWatcher cluster w) w)"

text \<open>The goroutine of a child.\<close>

definition childStarted :: "nat \<Rightarrow> ('c, 'w, 'h) watchingCollector \<Rightarrow> ('c, 'w, 'h) watchingCollector" where
  "childStarted p w = setPc p Running (child_setStatus p ClusterWatchingStarted w)"

definition childErrored :: "nat \<Rightarrow> 'c cluster \<Rightarrow> ('c, 'w, 'h) watchingCollector \<Rightarrow> ('c, 'w, 'h) watchingCollector" where
  "childErrored p cluster w =
     (let w = setPc p Done (child_setStatus p ClusterWatchingErrored w)
      in w\<lparr> wc_queue := wc_queue w @ [cluster] \<rparr>)"

definition childStopped :: "nat \<Rightarrow> ('c, 'w, 'h) watchingCollector \<Rightarrow> ('c, 'w, 'h) watchingCollector" where
  "childStopped p w =
     (let w = setPc p Done (child_setStatus p ClusterWatchingStopped w)
      in w\<lparr> wc_clusterWatchers := (wc_clusterWatchers w)(ch_cluster (wc_children w ! p) \<mapsto> None) \<rparr>)"

text \<open>Reading an absent key of the map gives nil, too.\<close>

definition watcherOf :: "('c, 'w, 'h) watchingCollector \<Rightarrow> string \<Rightarrow> nat option" where
  "watcherOf w clusterName = (case wc_clusterWatchers w clusterName of None \<Rightarrow> None | Some c \<Rightarrow> c)"

definition unwatch :: "string \<Rightarrow> ('c, 'w, 'h) watchingCollector step" where
  "unwatch clusterName w =
     (if clusterName = [] then (Some (err ''cluster name is empty''), w)
      else
        let clusterWatcher = watcherOf w clusterName;
            w = w\<lparr> wc_clusterWatchers := (wc_clusterWatchers w)(clusterName := None) \<rparr>
        in (case clusterWatcher of
              None \<Rightarrow> (Some (err ''cluster watcher not found''), w)
            | Some p \<Rightarrow>
                let w = cancel p w in
                (case wc_stopWatcherFunc w clusterName (wc_hook w) of
                   (Some e, h) \<Rightarrow> (Some (wrap ''stop watcher hook failed: %w'' [] e), w\<lparr> wc_hook := h \<rparr>)
                 | (None, h) \<Rightarrow> (None, w\<lparr> wc_hook := h \<rparr>))))"

definition Status :: "('c, 'w, 'h) watchingCollector \<Rightarrow> string \<Rightarrow> string res" where
  "Status w clusterName =
     (if clusterName = [] then Inl (err ''cluster name is empty'')
      else case watcherOf w clusterName of
        None \<Rightarrow> Inl (Errf ''cluster not found: %s'' [clusterName])
      | Some p \<Rightarrow> Inr (ch_status (wc_children w ! p)))"

section \<open>The steps of Start\<close>

text \<open>
  What Start and its goroutines do: clusters are queued, the goroutine of the queue
  takes one and begins to watch it, and then succeeds or fails (the result of
  newWatcherFunc may differ from call to call), a child goes its way, a removed
  cluster is unwatched. Start of a watcher returns without an error only once its
  context has been cancelled. The state that the stop hook works on changes
  meanwhile, since what the watchers receive is processed elsewhere.
\<close>

inductive wstep :: "('c, 'w, 'h) watchingCollector \<Rightarrow> ('c, 'w, 'h) watchingCollector \<Rightarrow> bool" where
  enqueue: "wstep w (w\<lparr> wc_queue := wc_queue w @ [cluster] \<rparr>)"
| noName: "\<lbrakk>wc_current w = None; cluster \<in> set (wc_queue w); cl_GetName cluster = []\<rbrakk> \<Longrightarrow> wstep w w"
| watching: "\<lbrakk>wc_current w = None; cluster \<in> set (wc_queue w); cl_GetName cluster \<noteq> []; watchBegin cluster w = (p, w')\<rbrakk> \<Longrightarrow>
    wstep w (w'\<lparr> wc_current := Some (p, cluster), wc_queue := remove1 cluster (wc_queue w') \<rparr>)"
| watched: "\<lbrakk>wc_current w = Some (p, cluster); watchEnd p (createWatcher cluster (w\<lparr> wc_newWatcherFunc := f \<rparr>)) w = (None, w')\<rbrakk> \<Longrightarrow>
    wstep w (w'\<lparr> wc_current := None \<rparr>)"
| failed: "\<lbrakk>wc_current w = Some (p, cluster); watchEnd p (createWatcher cluster (w\<lparr> wc_newWatcherFunc := f \<rparr>)) w = (Some e, w')\<rbrakk> \<Longrightarrow>
    wstep w (w'\<lparr> wc_current := None, wc_queue := wc_queue w' @ [cluster] \<rparr>)"
| started: "\<lbrakk>p < length (wc_children w); ch_pc (wc_children w ! p) = Launched\<rbrakk> \<Longrightarrow> wstep w (childStarted p w)"
| errored: "\<lbrakk>p < length (wc_children w); ch_pc (wc_children w ! p) = Running; cl_GetName cluster = ch_cluster (wc_children w ! p)\<rbrakk> \<Longrightarrow>
    wstep w (childErrored p cluster w)"
| stopped: "\<lbrakk>p < length (wc_children w); ch_pc (wc_children w ! p) = Running; ch_cancelled (wc_children w ! p)\<rbrakk> \<Longrightarrow>
    wstep w (childStopped p w)"
| removed: "unwatch clusterName w = (e, w') \<Longrightarrow> wstep w w'"
| others: "wstep w (w\<lparr> wc_hook := h \<rparr>)"

section \<open>The gauge\<close>

definition statuses :: "('c, 'w, 'h) watchingCollector \<Rightarrow> string list" where
  "statuses w = map ch_status (wc_children w)"

definition gauge_ok :: "('c, 'w, 'h) watchingCollector \<Rightarrow> bool" where
  "gauge_ok w \<longleftrightarrow> (\<forall>s. s \<noteq> [] \<longrightarrow>
     wc_gauge w s = (if s = ClusterWatchingStopped then 0 else int (count_list (statuses w) s)))"

text \<open>The status of a child follows its goroutine.\<close>

fun status_ok :: "child_pc \<Rightarrow> string \<Rightarrow> bool" where
  "status_ok Setup s = (s = ClusterWatchingStarting)"
| "status_ok Launched s = (s = ClusterWatchingStarting)"
| "status_ok Running s = (s = ClusterWatchingStarted)"
| "status_ok Done s = (s \<in> {ClusterWatchingFailed, ClusterWatchingErrored, ClusterWatchingStopped})"

definition children_ok :: "('c, 'w, 'h) watchingCollector \<Rightarrow> bool" where
  "children_ok w \<longleftrightarrow>
     (\<forall>p<length (wc_children w). status_ok (ch_pc (wc_children w ! p)) (ch_status (wc_children w ! p)) \<and>
        ch_cluster (wc_children w ! p) \<noteq> []) \<and>
     (\<forall>p c. wc_current w = Some (p, c) \<longrightarrow> p < length (wc_children w) \<and>
        ch_pc (wc_children w ! p) = Setup \<and> ch_cluster (wc_children w ! p) = cl_GetName c) \<and>
     (\<forall>n p. wc_clusterWatchers w n = Some (Some p) \<longrightarrow> p < length (wc_children w) \<and> ch_cluster (wc_children w ! p) = n)"

lemma count_list_update:
  "p < length xs \<Longrightarrow>
    int (count_list (xs[p := y]) s) = int (count_list xs s) - (if xs ! p = s then 1 else 0) + (if y = s then 1 else 0)"
proof (induction xs arbitrary: p)
  case (Cons x xs)
  show ?case using Cons.IH [of "p - 1"] Cons.prems by (cases p) auto
qed simp

lemma map_update_same: "(p < length xs \<Longrightarrow> f y = f (xs ! p)) \<Longrightarrow> map f (xs[p := y]) = map f xs"
  by (cases "p < length xs") (simp_all add: map_update list_update_beyond list_update_same_conv)

lemma setStatus_gauge:
  assumes "gauge_ok w" "p < length (wc_children w)" "ch_status (wc_children w ! p) \<noteq> ClusterWatchingStopped" "s \<noteq> []"
  shows "gauge_ok (child_setStatus p s w)"
  using assms
  by (auto simp: gauge_ok_def child_setStatus_def statuses_def map_update count_list_update Let_def)

lemma setPc_simps [simp]:
  "statuses (setPc p pc w) = statuses w" "wc_gauge (setPc p pc w) = wc_gauge w"
  "length (wc_children (setPc p pc w)) = length (wc_children w)" "wc_clusterWatchers (setPc p pc w) = wc_clusterWatchers w"
  "wc_current (setPc p pc w) = wc_current w" "wc_queue (setPc p pc w) = wc_queue w" "wc_hook (setPc p pc w) = wc_hook w"
  by (simp_all add: setPc_def statuses_def map_update_same)

lemma cancel_simps [simp]:
  "statuses (cancel p w) = statuses w" "wc_gauge (cancel p w) = wc_gauge w"
  "length (wc_children (cancel p w)) = length (wc_children w)" "wc_clusterWatchers (cancel p w) = wc_clusterWatchers w"
  "wc_current (cancel p w) = wc_current w" "wc_queue (cancel p w) = wc_queue w" "wc_hook (cancel p w) = wc_hook w"
  by (simp_all add: cancel_def statuses_def map_update_same)

lemma setStatus_simps [simp]:
  "length (wc_children (child_setStatus p s w)) = length (wc_children w)"
  "wc_clusterWatchers (child_setStatus p s w) = wc_clusterWatchers w"
  "wc_current (child_setStatus p s w) = wc_current w" "wc_queue (child_setStatus p s w) = wc_queue w"
  "wc_hook (child_setStatus p s w) = wc_hook w"
  by (simp_all add: child_setStatus_def Let_def)

lemma gauge_frame:
  "gauge_ok (setPc p pc w) = gauge_ok w" "gauge_ok (cancel p w) = gauge_ok w"
  "gauge_ok (w\<lparr> wc_clusterWatchers := m \<rparr>) = gauge_ok w" "gauge_ok (w\<lparr> wc_queue := q \<rparr>) = gauge_ok w"
  "gauge_ok (w\<lparr> wc_current := cur \<rparr>) = gauge_ok w" "gauge_ok (w\<lparr> wc_hook := h \<rparr>) = gauge_ok w"
  by (simp_all add: gauge_ok_def) (simp_all add: statuses_def)

lemma children_after:
  "\<lbrakk>p < length (wc_children w); q < length (wc_children w)\<rbrakk> \<Longrightarrow> wc_children (setPc p pc w) ! q =
    (if q = p then (wc_children w ! p)\<lparr> ch_pc := pc \<rparr> else wc_children w ! q)"
  "\<lbrakk>p < length (wc_children w); q < length (wc_children w)\<rbrakk> \<Longrightarrow> wc_children (cancel p w) ! q =
    (if q = p then (wc_children w ! p)\<lparr> ch_cancelled := True \<rparr> else wc_children w ! q)"
  "\<lbrakk>p < length (wc_children w); q < length (wc_children w)\<rbrakk> \<Longrightarrow> wc_children (child_setStatus p s w) ! q =
    (if q = p then (wc_children w ! p)\<lparr> ch_status := s \<rparr> else wc_children w ! q)"
  by (simp_all add: setPc_def cancel_def child_setStatus_def Let_def nth_list_update)

lemma watchBegin_children:
  assumes "watchBegin cluster w = (p, w')"
  shows "p = length (wc_children w)"
    "wc_children w' = wc_children w @ [\<lparr> ch_cluster = cl_GetName cluster, ch_status = ClusterWatchingStarting,
       ch_cancelled = False, ch_pc = Setup \<rparr>]"
    "wc_clusterWatchers w' = (wc_clusterWatchers w)(cl_GetName cluster \<mapsto> Some p)"
    "wc_current w' = wc_current w" "wc_hook w' = wc_hook w" "wc_queue w' = wc_queue w"
  using assms by (auto simp: watchBegin_def child_setStatus_def Let_def)

lemma watchBegin_gauge:
  assumes "gauge_ok w" "watchBegin cluster w = (p, w')"
  shows "gauge_ok w'"
proof -
  let ?w = "w\<lparr> wc_children := wc_children w @
            [\<lparr> ch_cluster = cl_GetName cluster, ch_status = [], ch_cancelled = False, ch_pc = Setup \<rparr>] \<rparr>"
  have "gauge_ok ?w" using assms(1) by (simp add: gauge_ok_def statuses_def)
  then have "gauge_ok (child_setStatus (length (wc_children w)) ClusterWatchingStarting ?w)"
    by (rule setStatus_gauge) (simp_all add: watching_statuses)
  then show ?thesis using assms(2) by (auto simp: watchBegin_def Let_def gauge_frame)
qed

lemma status_ok_not_stopped: "status_ok pc s \<Longrightarrow> pc \<noteq> Done \<Longrightarrow> s \<noteq> ClusterWatchingStopped"
  by (cases pc) (auto simp: watching_statuses)

text \<open>A child that is written back keeps the invariant when its new status fits its new position.\<close>

lemma children_ok_frame:
  assumes "children_ok w" "wc_children w' = wc_children w" "wc_current w' \<in> {wc_current w, None}"
    "\<forall>n p. wc_clusterWatchers w' n = Some (Some p) \<longrightarrow> wc_clusterWatchers w n = Some (Some p)"
  shows "children_ok w'"
proof -
  have "wc_current w' = Some (p, c) \<Longrightarrow> wc_current w = Some (p, c)" for p c using assms(3) by auto
  then show ?thesis using assms(1,4) unfolding children_ok_def assms(2) by blast
qed

lemma children_ok_update:
  assumes "children_ok w" "p < length (wc_children w)"
    "wc_children w' = (wc_children w)[p := c]" "status_ok (ch_pc c) (ch_status c)"
    "ch_cluster c = ch_cluster (wc_children w ! p)" "wc_clusterWatchers w' = wc_clusterWatchers w"
    "wc_current w' = wc_current w" "\<And>d. wc_current w = Some (p, d) \<Longrightarrow> ch_pc c = Setup"
  shows "children_ok w'"
  using assms unfolding children_ok_def by (auto simp: nth_list_update)

lemma setStatus_children: "wc_children (child_setStatus p s w) = (wc_children w)[p := (wc_children w ! p)\<lparr> ch_status := s \<rparr>]"
  by (simp add: child_setStatus_def Let_def)

lemma setPc_children: "wc_children (setPc p pc w) = (wc_children w)[p := (wc_children w ! p)\<lparr> ch_pc := pc \<rparr>]"
  by (simp add: setPc_def)

lemma cancel_children: "wc_children (cancel p w) = (wc_children w)[p := (wc_children w ! p)\<lparr> ch_cancelled := True \<rparr>]"
  by (simp add: cancel_def)

lemmas child_writes = setStatus_children setPc_children cancel_children

definition winv :: "('c, 'w, 'h) watchingCollector \<Rightarrow> bool" where
  "winv w \<longleftrightarrow> gauge_ok w \<and> children_ok w"

lemma unwatch_state:
  assumes "unwatch n w = (e, w')"
  shows "w' = w \<or> (\<exists>h p. wc_clusterWatchers w n = Some (Some p) \<and>
       w' = (cancel p (w\<lparr> wc_clusterWatchers := (wc_clusterWatchers w)(n := None) \<rparr>))\<lparr> wc_hook := h \<rparr>) \<or>
     watcherOf w n = None \<and> w' = w\<lparr> wc_clusterWatchers := (wc_clusterWatchers w)(n := None) \<rparr>"
  using assms by (auto simp: unwatch_def watcherOf_def Let_def split: if_splits option.splits prod.splits)

lemma wstep_inv:
  assumes "wstep w w'" "winv w"
  shows "winv w'"
  using assms
proof (induction rule: wstep.induct)
  case (enqueue w cluster)
  then show ?case using children_ok_frame [of w "w\<lparr> wc_queue := wc_queue w @ [cluster] \<rparr>"]
    by (simp add: winv_def gauge_frame)
next
  case (noName w cluster)
  then show ?case by simp
next
  case (others w h)
  then show ?case using children_ok_frame [of w "w\<lparr> wc_hook := h \<rparr>"] by (simp add: winv_def gauge_frame)
next
  case (watching w cluster p w')
  note b = watchBegin_children [OF watching(4)]
  have "children_ok (w'\<lparr> wc_current := Some (p, cluster), wc_queue := remove1 cluster (wc_queue w') \<rparr>)"
    using watching(1,3,5) b by (auto simp: winv_def children_ok_def nth_append less_Suc_eq)
  then show ?case using watchBegin_gauge [OF _ watching(4)] watching(5) by (simp add: winv_def gauge_frame)
next
  case (watched w p cluster f w')
  then have c: "p < length (wc_children w)" "ch_pc (wc_children w ! p) = Setup" and i: "children_ok w"
    by (auto simp: winv_def children_ok_def)
  have w': "w' = setPc p Launched w" using watched(2) by (auto simp: watchEnd_def split: sum.splits)
  have "status_ok Setup (ch_status (wc_children w ! p))" using c i by (auto simp: children_ok_def)
  then have "children_ok ((setPc p Launched w)\<lparr> wc_current := None \<rparr>)"
    by (intro children_ok_update [OF children_ok_frame [OF i, of "w\<lparr> wc_current := None \<rparr>"],
        of p _ "(wc_children w ! p)\<lparr> ch_pc := Launched \<rparr>"])
      (simp_all add: c child_writes)
  then show ?case using watched(3) by (simp add: winv_def gauge_frame w')
next
  case (failed w p cluster f e w')
  then have c: "p < length (wc_children w)" "ch_pc (wc_children w ! p) = Setup" and i: "children_ok w" "gauge_ok w"
    by (auto simp: winv_def children_ok_def)
  have w': "w' = setPc p Done (cancel p (child_setStatus p ClusterWatchingFailed w))"
    using failed(2) by (auto simp: watchEnd_def split: sum.splits)
  have s: "status_ok Setup (ch_status (wc_children w ! p))" using c i by (auto simp: children_ok_def)
  have "gauge_ok w'" unfolding w' gauge_frame
    by (rule setStatus_gauge [OF i(2) c(1)]) (use s in \<open>simp_all add: watching_statuses\<close>)
  moreover have "children_ok (w'\<lparr> wc_current := None, wc_queue := wc_queue w' @ [cluster] \<rparr>)"
    unfolding w' by (rule children_ok_update [OF children_ok_frame [OF i(1), of "w\<lparr> wc_current := None \<rparr>"],
        of p _ "(wc_children w ! p)\<lparr> ch_status := ClusterWatchingFailed, ch_cancelled := True, ch_pc := Done \<rparr>"])
      (simp_all add: c child_writes)
  ultimately show ?case by (simp add: winv_def gauge_frame)
next
  case (started p w)
  then have i: "children_ok w" "gauge_ok w" by (auto simp: winv_def)
  have s: "status_ok Launched (ch_status (wc_children w ! p))" using started i by (auto simp: children_ok_def)
  have n: "wc_current w \<noteq> Some (p, d)" for d using i(1) started(2) by (auto simp: children_ok_def)
  have "gauge_ok (childStarted p w)" unfolding childStarted_def gauge_frame
    by (rule setStatus_gauge [OF i(2) started(1)]) (use s in \<open>simp_all add: watching_statuses\<close>)
  moreover have "children_ok (childStarted p w)" unfolding childStarted_def
    by (rule children_ok_update [OF i(1) started(1), of _ "(wc_children w ! p)\<lparr> ch_status := ClusterWatchingStarted, ch_pc := Running \<rparr>"]) (use n in \<open>simp_all add: started child_writes\<close>)
  ultimately show ?case by (simp add: winv_def)
next
  case (errored p w cluster)
  then have i: "children_ok w" "gauge_ok w" by (auto simp: winv_def)
  have s: "status_ok Running (ch_status (wc_children w ! p))" using errored i by (auto simp: children_ok_def)
  have n: "wc_current w \<noteq> Some (p, d)" for d using i(1) errored(2) by (auto simp: children_ok_def)
  have "gauge_ok (childErrored p cluster w)" unfolding childErrored_def gauge_frame Let_def
    by (rule setStatus_gauge [OF i(2) errored(1)]) (use s in \<open>simp_all add: watching_statuses\<close>)
  moreover have "children_ok (childErrored p cluster w)" unfolding childErrored_def Let_def
    by (rule children_ok_update [OF i(1) errored(1), of _ "(wc_children w ! p)\<lparr> ch_status := ClusterWatchingErrored, ch_pc := Done \<rparr>"]) (use n in \<open>simp_all add: errored child_writes\<close>)
  ultimately show ?case by (simp add: winv_def)
next
  case (stopped p w)
  then have i: "children_ok w" "gauge_ok w" by (auto simp: winv_def)
  have s: "status_ok Running (ch_status (wc_children w ! p))" using stopped i by (auto simp: children_ok_def)
  have n: "wc_current w \<noteq> Some (p, d)" for d using i(1) stopped(2) by (auto simp: children_ok_def)
  have "gauge_ok (childStopped p w)" unfolding childStopped_def gauge_frame Let_def
    by (rule setStatus_gauge [OF i(2) stopped(1)]) (use s in \<open>simp_all add: watching_statuses\<close>)
  moreover have "children_ok (setPc p Done (child_setStatus p ClusterWatchingStopped w))"
    by (rule children_ok_update [OF i(1) stopped(1), of _ "(wc_children w ! p)\<lparr> ch_status := ClusterWatchingStopped, ch_pc := Done \<rparr>"]) (use n in \<open>simp_all add: stopped child_writes\<close>)
  then have "children_ok (childStopped p w)" unfolding childStopped_def Let_def
    by (rule children_ok_frame) (auto split: if_splits)
  ultimately show ?case by (simp add: winv_def)
next
  case (removed n w e w')
  then have i: "children_ok w" "gauge_ok w" by (auto simp: winv_def)
  let ?v = "w\<lparr> wc_clusterWatchers := (wc_clusterWatchers w)(n := None) \<rparr>"
  have v: "children_ok ?v" "gauge_ok ?v" using children_ok_frame [OF i(1), of ?v] i(2) by (auto simp: gauge_frame split: if_splits)
  show ?case using unwatch_state [OF removed(1)]
  proof (elim disjE exE conjE)
    fix h p assume p: "wc_clusterWatchers w n = Some (Some p)" and w': "w' = (cancel p ?v)\<lparr> wc_hook := h \<rparr>"
    have len: "p < length (wc_children ?v)" using i(1) p by (simp add: children_ok_def)
    have "children_ok w'" unfolding w'
      by (rule children_ok_update [OF v(1) len, of _ "(wc_children w ! p)\<lparr> ch_cancelled := True \<rparr>"]) (use len v(1) in \<open>auto simp: child_writes children_ok_def\<close>)
    then show ?thesis using v(2) by (simp add: winv_def w' gauge_frame)
  qed (use v i in \<open>simp_all add: winv_def\<close>)
qed

text \<open>A collector that has just been made.\<close>

definition fresh :: "('c, 'w, 'h) watchingCollector \<Rightarrow> bool" where
  "fresh w \<longleftrightarrow> wc_children w = [] \<and> wc_clusterWatchers w = Map.empty \<and> wc_current w = None \<and> (\<forall>s. wc_gauge w s = 0)"

lemma fresh_inv: "fresh w \<Longrightarrow> winv w"
  by (simp add: fresh_def winv_def gauge_ok_def children_ok_def statuses_def)

lemma reachable_inv: "wstep\<^sup>*\<^sup>* w w' \<Longrightarrow> winv w \<Longrightarrow> winv w'"
  by (induction rule: rtranclp_induct) (auto dest: wstep_inv)

text \<open>In every reachable state of a collector, however its goroutines interleave, the gauge of a
  status counts the children that have it. Ended children are counted as well: a watcher that failed
  stays in the gauge for ever, and every retry adds to it.\<close>

theorem gauge_counts_children:
  assumes "fresh w" "wstep\<^sup>*\<^sup>* w w'"
  shows "\<forall>s. s \<noteq> [] \<longrightarrow> wc_gauge w' s = (if s = ClusterWatchingStopped then 0
    else int (length (filter (\<lambda>c. ch_status c = s) (wc_children w'))))"
proof -
  have c: "count_list (map ch_status cs) s = length (filter (\<lambda>c. ch_status c = s) cs)" for cs s
    by (induction cs) auto
  show ?thesis using reachable_inv [OF assms(2) fresh_inv [OF assms(1)]]
    by (auto simp: winv_def gauge_ok_def statuses_def c)
qed

section \<open>Losing a watcher\<close>

text \<open>A cluster that comes back before its old watcher has stopped loses its new watcher: from every
  state in which nothing is known of a named cluster that can be configured, steps lead to one in which a
  watcher of the cluster runs and is not cancelled, and yet Status does not find the cluster, and
  unwatch reports an error, cancels nothing and runs no hook.\<close>

theorem stale_stop_loses_watcher:
  fixes c :: "'c cluster" and w :: "('c, 'w, 'h) watchingCollector"
  assumes "cl_GetName c \<noteq> []" "cl_GetServerConfig c = Inr (Some config)"
    and "isa_Name (wc_sa w) \<noteq> []" "isa_Namespace (wc_sa w) \<noteq> []"
    and "wc_current w = None"
  shows "\<exists>w' p. wstep\<^sup>*\<^sup>* w w' \<and> p < length (wc_children w') \<and> ch_cluster (wc_children w' ! p) = cl_GetName c \<and>
    ch_pc (wc_children w' ! p) = Running \<and> \<not> ch_cancelled (wc_children w' ! p) \<and>
    Status w' (cl_GetName c) = Inl (Errf ''cluster not found: %s'' [cl_GetName c]) \<and>
    fst (unwatch (cl_GetName c) w') = Some (err ''cluster watcher not found'') \<and>
    wc_children (snd (unwatch (cl_GetName c) w')) = wc_children w' \<and>
    wc_hook (snd (unwatch (cl_GetName c) w')) = wc_hook w'"
proof -
  let ?n = "cl_GetName c" and ?k = "length (wc_children w)"
  have up: "\<exists>w'. wstep\<^sup>*\<^sup>* v w' \<and> wc_current w' = None \<and> wc_sa w' = wc_sa v \<and>
      wc_children w' = wc_children v @ [\<lparr> ch_cluster = ?n, ch_status = ClusterWatchingStarted,
        ch_cancelled = False, ch_pc = Running \<rparr>] \<and>
      wc_clusterWatchers w' = (wc_clusterWatchers v)(?n \<mapsto> Some (length (wc_children v)))"
    if "wc_current v = None" "wc_sa v = wc_sa w" for v :: "('c, 'w, 'h) watchingCollector"
  proof -
    let ?v1 = "v\<lparr> wc_queue := wc_queue v @ [c] \<rparr>"
    obtain p v2 where b: "watchBegin c ?v1 = (p, v2)" by force
    let ?v3 = "v2\<lparr> wc_current := Some (p, c), wc_queue := remove1 c (wc_queue v2) \<rparr>"
    note vb = watchBegin_children [OF b]
    have s1: "wstep v ?v1" by (rule wstep.enqueue)
    have s2: "wstep ?v1 ?v3" by (rule wstep.watching [OF _ _ _ b]) (simp_all add: that assms(1))
    have sa: "wc_sa v2 = wc_sa w" using b that by (auto simp: watchBegin_def child_setStatus_def Let_def)
    have "createWatcher c (?v3\<lparr> wc_newWatcherFunc := \<lambda>_ _. Inr undefined \<rparr>) = Inr undefined"
      using assms by (simp add: createWatcher_def makeServiceAccountImpersonationConfig_def sa)
    then have e: "watchEnd p (createWatcher c (?v3\<lparr> wc_newWatcherFunc := \<lambda>_ _. Inr undefined \<rparr>)) ?v3 = (None, setPc p Launched ?v3)"
      by (simp add: watchEnd_def)
    let ?v4 = "(setPc p Launched ?v3)\<lparr> wc_current := None \<rparr>"
    have s3: "wstep ?v3 ?v4" by (rule wstep.watched [OF _ e]) simp
    have l: "p < length (wc_children ?v4)" "ch_pc (wc_children ?v4 ! p) = Launched"
      by (simp_all add: child_writes vb)
    have s4: "wstep ?v4 (childStarted p ?v4)" by (rule wstep.started [OF l])
    have "wstep\<^sup>*\<^sup>* v (childStarted p ?v4)"
      using s1 s2 s3 s4 by (meson converse_rtranclp_into_rtranclp rtranclp.rtrancl_refl)
    moreover have "wc_children (childStarted p ?v4) = wc_children v @ [\<lparr> ch_cluster = ?n,
        ch_status = ClusterWatchingStarted, ch_cancelled = False, ch_pc = Running \<rparr>]"
      by (simp add: childStarted_def child_writes vb)
    moreover have "wc_sa (childStarted p ?v4) = wc_sa v"
      using sa that by (simp add: childStarted_def setPc_def child_setStatus_def Let_def)
    ultimately show ?thesis
      by (intro exI [of _ "childStarted p ?v4"]) (simp add: childStarted_def vb setPc_def child_setStatus_def Let_def)
  qed
  obtain w1 where w1: "wstep\<^sup>*\<^sup>* w w1" "wc_current w1 = None" "wc_sa w1 = wc_sa w"
    "wc_children w1 = wc_children w @ [\<lparr> ch_cluster = ?n, ch_status = ClusterWatchingStarted, ch_cancelled = False, ch_pc = Running \<rparr>]"
    "wc_clusterWatchers w1 = (wc_clusterWatchers w)(?n \<mapsto> Some ?k)"
    using up [of w] assms(5) by auto
  obtain e w2 where u: "unwatch ?n w1 = (e, w2)" by force
  have s2: "wstep w1 w2" using u by (rule wstep.removed)
  have w2: "wc_current w2 = None" "wc_sa w2 = wc_sa w"
    "wc_children w2 = wc_children w @ [\<lparr> ch_cluster = ?n, ch_status = ClusterWatchingStarted, ch_cancelled = True, ch_pc = Running \<rparr>]"
    using u w1 assms(1)
    by (auto simp: unwatch_def watcherOf_def Let_def cancel_def split: prod.splits option.splits)
  obtain w3 where w3: "wstep\<^sup>*\<^sup>* w2 w3" 
    "wc_children w3 = wc_children w2 @ [\<lparr> ch_cluster = ?n, ch_status = ClusterWatchingStarted, ch_cancelled = False, ch_pc = Running \<rparr>]"
    using up [of w2] w2 by auto
  let ?w4 = "childStopped ?k w3"
  have s4: "wstep w3 ?w4" by (rule wstep.stopped) (simp_all add: w3 w2 nth_append)
  have run: "wstep\<^sup>*\<^sup>* w ?w4" using w1(1) s2 w3(1) s4 by (meson rtranclp.rtrancl_into_rtrancl rtranclp_trans)
  have "wc_clusterWatchers ?w4 ?n = Some None"
    by (simp add: childStopped_def Let_def child_writes w3 w2 nth_append)
  then have none: "watcherOf ?w4 ?n = None" by (simp add: watcherOf_def)
  have "wc_children ?w4 ! Suc ?k = \<lparr> ch_cluster = ?n, ch_status = ClusterWatchingStarted, ch_cancelled = False, ch_pc = Running \<rparr>"
    "Suc ?k < length (wc_children ?w4)"
    by (simp_all add: childStopped_def Let_def child_writes w3 w2 nth_append)
  then show ?thesis using run none assms(1)
    by (intro exI [of _ ?w4] exI [of _ "Suc ?k"]) (simp add: Status_def unwatch_def Let_def)
qed

section \<open>Keeping every watcher\<close>

text \<open>
  When a cluster is watched anew only after its earlier watchers have ended, that
  does not happen: every watcher that is not cancelled is the one in the map.
\<close>

definition live :: "child \<Rightarrow> bool" where
  "live c \<longleftrightarrow> ch_pc c \<noteq> Done"

definition settled :: "('c, 'w, 'h) watchingCollector \<Rightarrow> string \<Rightarrow> bool" where
  "settled w n \<longleftrightarrow> (\<forall>c\<in>set (wc_children w). ch_cluster c = n \<longrightarrow> \<not> live c)"

definition quiet :: "('c, 'w, 'h) watchingCollector \<Rightarrow> ('c, 'w, 'h) watchingCollector \<Rightarrow> bool" where
  "quiet w w' \<longleftrightarrow> wstep w w' \<and> (length (wc_children w') = length (wc_children w) \<or>
     settled w (ch_cluster (last (wc_children w'))))"

definition tracked :: "('c, 'w, 'h) watchingCollector \<Rightarrow> bool" where
  "tracked w \<longleftrightarrow>
     (\<forall>p<length (wc_children w). live (wc_children w ! p) \<and> \<not> ch_cancelled (wc_children w ! p) \<longrightarrow>
        wc_clusterWatchers w (ch_cluster (wc_children w ! p)) = Some (Some p)) \<and>
     (\<forall>p<length (wc_children w). \<forall>q<length (wc_children w). live (wc_children w ! p) \<and> live (wc_children w ! q) \<and>
        ch_cluster (wc_children w ! p) = ch_cluster (wc_children w ! q) \<longrightarrow> p = q)"

lemma tracked_update:
  assumes "tracked w" "p < length (wc_children w)" "wc_children w' = (wc_children w)[p := c]"
    "ch_cluster c = ch_cluster (wc_children w ! p)" "live c \<longrightarrow> live (wc_children w ! p)"
    "ch_cancelled (wc_children w ! p) \<longrightarrow> ch_cancelled c"
    "\<forall>n. wc_clusterWatchers w' n = wc_clusterWatchers w n \<or>
       n = ch_cluster (wc_children w ! p) \<and> (ch_cancelled c \<or> \<not> live c) \<and>
         (live (wc_children w ! p) \<or> wc_clusterWatchers w n = Some (Some p))"
  shows "tracked w'"
proof -
  have T: "\<lbrakk>q < length (wc_children w); live (wc_children w ! q); \<not> ch_cancelled (wc_children w ! q)\<rbrakk> \<Longrightarrow>
      wc_clusterWatchers w (ch_cluster (wc_children w ! q)) = Some (Some q)" for q
    using assms(1) by (simp add: tracked_def)
  have U: "\<lbrakk>q < length (wc_children w); r < length (wc_children w); live (wc_children w ! q); live (wc_children w ! r);
      ch_cluster (wc_children w ! q) = ch_cluster (wc_children w ! r)\<rbrakk> \<Longrightarrow> q = r" for q r
    using assms(1) by (simp add: tracked_def)
  have nth: "q < length (wc_children w) \<Longrightarrow> wc_children w' ! q = (if q = p then c else wc_children w ! q)" for q
    using assms(2,3) by (simp add: nth_list_update)
  have "wc_clusterWatchers w' (ch_cluster (wc_children w' ! q)) = Some (Some q)"
    if q: "q < length (wc_children w)" "live (wc_children w' ! q)" "\<not> ch_cancelled (wc_children w' ! q)" for q
  proof (cases "q = p")
    case True
    then show ?thesis using q nth [OF q(1)] T [OF q(1)] assms(4-7) by auto
  next
    case False
    then have old: "wc_children w' ! q = wc_children w ! q" using nth q(1) by simp
    then have "wc_clusterWatchers w (ch_cluster (wc_children w ! q)) = Some (Some q)" using T q by simp
    moreover have "wc_clusterWatchers w' (ch_cluster (wc_children w ! q)) = wc_clusterWatchers w (ch_cluster (wc_children w ! q))"
      using assms(7) U [OF q(1) assms(2)] q old False calculation by fastforce
    ultimately show ?thesis using old by simp
  qed
  moreover have same: "ch_cluster (wc_children w' ! q) = ch_cluster (wc_children w ! q)"
    "live (wc_children w' ! q) \<Longrightarrow> live (wc_children w ! q)" if "q < length (wc_children w)" for q
    using nth [OF that] assms(4,5) by (simp_all split: if_splits)
  moreover have "q = r" if q: "q < length (wc_children w)" "r < length (wc_children w)" "live (wc_children w' ! q)"
      "live (wc_children w' ! r)" "ch_cluster (wc_children w' ! q) = ch_cluster (wc_children w' ! r)" for q r
    by (rule U [OF q(1,2) same(2) [OF q(1,3)] same(2) [OF q(2,4)]]) (use q(5) same(1) [OF q(1)] same(1) [OF q(2)] in simp)
  ultimately show ?thesis using assms(3) by (simp add: tracked_def)
qed

lemma tracked_frame:
  assumes "tracked w" "wc_children w' = wc_children w" "wc_clusterWatchers w' = wc_clusterWatchers w"
  shows "tracked w'"
  using assms by (simp add: tracked_def)

lemma quiet_tracked:
  assumes "wstep w w'" "length (wc_children w') = length (wc_children w) \<or> settled w (ch_cluster (last (wc_children w')))"
    "winv w" "tracked w"
  shows "tracked w'"
  using assms
proof (induction rule: wstep.induct)
  case (watching w cluster p w')
  note b = watchBegin_children [OF watching(4)]
  have "settled w (cl_GetName cluster)" using watching(5) b by simp
  then have s: "q < length (wc_children w) \<Longrightarrow> ch_cluster (wc_children w ! q) = cl_GetName cluster \<Longrightarrow> \<not> live (wc_children w ! q)" for q
    by (auto simp: settled_def)
  show ?case using watching(7) b s unfolding tracked_def by (auto simp: nth_append less_Suc_eq)
next
  case (watched w p cluster f w')
  then have c: "p < length (wc_children w)" "ch_pc (wc_children w ! p) = Setup" by (auto simp: winv_def children_ok_def)
  have w': "w' = setPc p Launched w" using watched(2) by (auto simp: watchEnd_def split: sum.splits)
  show ?case unfolding w'
    by (rule tracked_update [OF watched(5) c(1), of _ "(wc_children w ! p)\<lparr> ch_pc := Launched \<rparr>"])
      (simp_all add: child_writes live_def c)
next
  case (failed w p cluster f e w')
  then have c: "p < length (wc_children w)" by (auto simp: winv_def children_ok_def)
  have w': "w' = setPc p Done (cancel p (child_setStatus p ClusterWatchingFailed w))"
    using failed(2) by (auto simp: watchEnd_def split: sum.splits)
  show ?case unfolding w'
    by (rule tracked_update [OF failed(5) c, of _ "(wc_children w ! p)\<lparr> ch_status := ClusterWatchingFailed,
        ch_cancelled := True, ch_pc := Done \<rparr>"]) (simp_all add: child_writes live_def c)
next
  case (started p w)
  show ?case unfolding childStarted_def
    by (rule tracked_update [OF started(5,1), of _ "(wc_children w ! p)\<lparr> ch_status := ClusterWatchingStarted, ch_pc := Running \<rparr>"])
      (simp_all add: child_writes live_def started)
next
  case (errored p w cluster)
  show ?case unfolding childErrored_def Let_def
    by (rule tracked_update [OF errored(6,1), of _ "(wc_children w ! p)\<lparr> ch_status := ClusterWatchingErrored, ch_pc := Done \<rparr>"])
      (simp_all add: child_writes live_def errored)
next
  case (stopped p w)
  show ?case unfolding childStopped_def Let_def
    by (rule tracked_update [OF stopped(6,1), of _ "(wc_children w ! p)\<lparr> ch_status := ClusterWatchingStopped, ch_pc := Done \<rparr>"])
      (simp_all add: child_writes live_def stopped)
next
  case (removed n w e w')
  show ?case using unwatch_state [OF removed(1)]
  proof (elim disjE exE conjE)
    fix h p assume p: "wc_clusterWatchers w n = Some (Some p)"
      and w': "w' = (cancel p (w\<lparr> wc_clusterWatchers := (wc_clusterWatchers w)(n := None) \<rparr>))\<lparr> wc_hook := h \<rparr>"
    have l: "p < length (wc_children w)" "ch_cluster (wc_children w ! p) = n"
      using removed(3) p by (auto simp: winv_def children_ok_def)
    show ?thesis unfolding w'
      by (rule tracked_update [OF removed(4) l(1), of _ "(wc_children w ! p)\<lparr> ch_cancelled := True \<rparr>"])
        (simp_all add: child_writes live_def l p)
  next
    assume n: "watcherOf w n = None" "w' = w\<lparr> wc_clusterWatchers := (wc_clusterWatchers w)(n := None) \<rparr>"
    show ?thesis using removed(4) n unfolding tracked_def watcherOf_def by auto
  qed (use removed in simp)
qed (auto elim: tracked_frame)

lemma fresh_tracked: "fresh w \<Longrightarrow> tracked w"
  by (simp add: fresh_def tracked_def)

text \<open>C17: As long as a cluster is watched anew only after its earlier watchers have ended, no watcher is
  lost: in every reachable state a watcher that has not ended and is not cancelled is the one that
  Status reports for its cluster, and unwatch cancels it.\<close>

theorem watchers_tracked:
  assumes "fresh w" "quiet\<^sup>*\<^sup>* w w'" "p < length (wc_children w')" "ch_pc (wc_children w' ! p) \<noteq> Done"
    and "\<not> ch_cancelled (wc_children w' ! p)"
  shows "Status w' (ch_cluster (wc_children w' ! p)) = Inr (ch_status (wc_children w' ! p)) \<and>
    ch_cancelled (wc_children (snd (unwatch (ch_cluster (wc_children w' ! p)) w')) ! p)"
proof -
  have "winv w' \<and> tracked w'" using assms(2)
    by (induction rule: rtranclp_induct)
      (auto simp: fresh_inv [OF assms(1)] fresh_tracked [OF assms(1)] quiet_def dest: wstep_inv quiet_tracked)
  then have "wc_clusterWatchers w' (ch_cluster (wc_children w' ! p)) = Some (Some p)" "ch_cluster (wc_children w' ! p) \<noteq> []"
    using assms(3-5) by (auto simp: tracked_def live_def winv_def children_ok_def)
  then show ?thesis using assms(3)
    by (auto simp: Status_def watcherOf_def unwatch_def Let_def cancel_def split: prod.splits option.splits)
qed

section \<open>Examples\<close>

definition exampleOpts :: "(unit, unit, string list) CollectorOpts" where
  "exampleOpts = \<lparr> op_Name = ''objects'', op_Clusters = Some [], op_NewWatcherFunc = Some (\<lambda>_ _. Inr ()),
     op_StopWatcherFunc = Some (\<lambda>n h. (None, h @ [n])),
     op_ServiceAccount = \<lparr> isa_Name = ''collector'', isa_Namespace = ''flux-system'' \<rparr> \<rparr>"

definition exampleCollector :: "(unit, unit, string list) watchingCollector" where
  "exampleCollector = newWatchingCollector exampleOpts (\<lambda>_. 0) []"

definition exampleCluster :: "unit cluster" where
  "exampleCluster = \<lparr> cl_GetName = ''management'', cl_GetServerConfig = Inr (Some \<lparr> rst_UserName = [], rst_Rest = () \<rparr>) \<rparr>"

lemma exampleCollector_fresh: "fresh exampleCollector"
  by (simp add: fresh_def exampleCollector_def newWatchingCollector_def)

definition exampleWatching :: "(unit, unit, string list) watchingCollector" where
  "exampleWatching = (snd (watchBegin exampleCluster (exampleCollector\<lparr> wc_queue := [exampleCluster] \<rparr>)))
     \<lparr> wc_current := Some (0, exampleCluster), wc_queue := [] \<rparr>"

lemma exampleWatching_run: "quiet\<^sup>*\<^sup>* exampleCollector exampleWatching"
proof -
  let ?w = "exampleCollector\<lparr> wc_queue := [exampleCluster] \<rparr>"
  have 1: "quiet exampleCollector ?w"
    using wstep.enqueue [of exampleCollector exampleCluster]
    by (simp add: quiet_def exampleCollector_def newWatchingCollector_def)
  obtain p w' where b: "watchBegin exampleCluster ?w = (p, w')" by force
  have "wstep ?w (w'\<lparr> wc_current := Some (p, exampleCluster), wc_queue := remove1 exampleCluster (wc_queue w') \<rparr>)"
    by (rule wstep.watching [OF _ _ _ b]) (simp_all add: exampleCollector_def newWatchingCollector_def exampleCluster_def)
  moreover have "p = 0" "wc_queue w' = [exampleCluster]"
    using watchBegin_children [OF b] by (simp_all add: exampleCollector_def newWatchingCollector_def)
  ultimately have "quiet ?w exampleWatching"
    using b by (simp add: exampleWatching_def quiet_def settled_def exampleCollector_def newWatchingCollector_def)
  with 1 show ?thesis by (meson converse_rtranclp_into_rtranclp rtranclp.rtrancl_refl)
qed

lemma exampleWatching_children: "wc_children exampleWatching =
    [\<lparr> ch_cluster = ''management'', ch_status = ''starting'', ch_cancelled = False, ch_pc = Setup \<rparr>]"
  by (simp add: exampleWatching_def watchBegin_def child_setStatus_def Let_def exampleCollector_def newWatchingCollector_def
      exampleCluster_def watching_statuses)

lemma gauge_counts_children_witness: "wc_gauge exampleWatching ''starting'' = 1"
proof -
  have "wstep\<^sup>*\<^sup>* exampleCollector exampleWatching"
    using exampleWatching_run by (rule rtranclp_mono [THEN predicate2D, rotated]) (auto simp: quiet_def)
  from gauge_counts_children [OF exampleCollector_fresh this] show ?thesis
    by (simp add: exampleWatching_children watching_statuses)
qed

lemma watchers_tracked_witness: "Status exampleWatching ''management'' = Inr ''starting''"
  using watchers_tracked [OF exampleCollector_fresh exampleWatching_run, of 0] by (simp add: exampleWatching_children)

lemma stale_stop_loses_watcher_witness:
  "\<exists>w p. wstep\<^sup>*\<^sup>* exampleCollector w \<and> ch_pc (wc_children w ! p) = Running \<and> \<not> ch_cancelled (wc_children w ! p) \<and>
     ch_cluster (wc_children w ! p) = ''management'' \<and>
     Status w ''management'' = Inl (Errf ''cluster not found: %s'' [''management''])"
proof -
  have "cl_GetServerConfig exampleCluster = Inr (Some \<lparr> rst_UserName = [], rst_Rest = () \<rparr>)"
    by (simp add: exampleCluster_def)
  from stale_stop_loses_watcher [OF _ this, of exampleCollector]
  show ?thesis by (auto simp: exampleCluster_def exampleCollector_def newWatchingCollector_def exampleOpts_def)
qed

end
