(* ===== verification/QueryServer.thy ===== *)
theory QueryServer
  imports Cleaner Watching AccessRules
begin

text \<open>
  pkg/query/server/server.go: the gRPC server of the explorer, how it is put together
  and what its methods answer, and the constructors of the three collectors. The
  messages are the generated types of pkg/api/query. Temporary directories, the
  database and the index are opened by code that is not modelled, and the manager
  of a cluster is a parameter as it is for the watchers.
\<close>

section \<open>Messages\<close>

record DoQueryRequest =
  dq_Terms :: string
  dq_Filters :: "string list"
  dq_Offset :: int
  dq_Limit :: int
  dq_OrderBy :: string
  dq_Descending :: bool

record pb_object =
  pb_Cluster :: string
  pb_Namespace :: string
  pb_Kind :: string
  pb_Name :: string
  pb_Status :: string
  pb_ApiGroup :: string
  pb_ApiVersion :: string
  pb_Message :: string
  pb_Category :: string
  pb_Unstructured :: string
  pb_Id :: string
  pb_Tenant :: string
  pb_Labels :: "string \<rightharpoonup> string"

record pb_subject =
  ps_Kind :: string
  ps_Name :: string

record pb_access_rule =
  pa_Cluster :: string
  pa_Namespace :: string
  pa_AccessibleKinds :: "string list"
  pa_Subjects :: "pb_subject list"
  pa_ProvidedByRole :: string
  pa_ProvidedByBinding :: string

record pb_facet =
  pf_Field :: string
  pf_Values :: "string list"

definition EnabledComponent_value :: "string \<rightharpoonup> int" where
  "EnabledComponent_value = [''unknown'' \<mapsto> 0, ''applications'' \<mapsto> 1, ''sources'' \<mapsto> 2, ''gitopssets'' \<mapsto> 3,
     ''templates'' \<mapsto> 4, ''clusterdiscovery'' \<mapsto> 5]"

definition convertToPbObject :: "object list \<Rightarrow> pb_object list" where
  "convertToPbObject obj = foldl (\<lambda>pbObjects x. pbObjects @ [\<lparr> pb_Cluster = ob_Cluster x,
     pb_Namespace = ob_Namespace x, pb_Kind = ob_Kind x, pb_Name = ob_Name x, pb_Status = ob_Status x,
     pb_ApiGroup = ob_APIGroup x, pb_ApiVersion = ob_APIVersion x, pb_Message = ob_Message x,
     pb_Category = ob_Category x, pb_Unstructured = ob_Unstructured x, pb_Id = Object_GetID x,
     pb_Tenant = ob_Tenant x, pb_Labels = ob_Labels x \<rparr>]) [] obj"

definition convertToPbAccessRule :: "access_rule list \<Rightarrow> pb_access_rule list" where
  "convertToPbAccessRule rules = foldl (\<lambda>pbRules r. pbRules @ [\<lparr> pa_Cluster = ar_Cluster r,
     pa_Namespace = ar_Namespace r, pa_AccessibleKinds = [] @ ar_AccessibleKinds r,
     pa_Subjects = foldl (\<lambda>ss s. ss @ [\<lparr> ps_Kind = su_Kind s, ps_Name = su_Name s \<rparr>]) [] (ar_Subjects r),
     pa_ProvidedByRole = ar_ProvidedByRole r, pa_ProvidedByBinding = ar_ProvidedByBinding r \<rparr>]) [] rules"

text \<open>The range over a map visits its keys in any order: keys is the order of this visit.\<close>

definition convertToPbFacet :: "string list \<Rightarrow> (string \<rightharpoonup> string list) \<Rightarrow> pb_facet list" where
  "convertToPbFacet keys facets = foldl (\<lambda>pbFacets k. pbFacets @
     [\<lparr> pf_Field = k, pf_Values = (case facets k of None \<Rightarrow> [] | Some v \<Rightarrow> v) \<rparr>]) [] keys"

section \<open>Options\<close>

record ServerOpts =
  so_ClustersManager :: bool
  so_SkipCollection :: bool
  so_DiscoveryClient :: bool
  so_ObjectKinds :: "object_kind list"
  so_ServiceAccount :: ImpersonateServiceAccount
  so_EnableObjectCleaner :: bool
  so_EnabledFor :: "string list"

definition ServerOpts_Validate :: "ServerOpts \<Rightarrow> goerror option" where
  "ServerOpts_Validate so =
     (if length (so_ObjectKinds so) = 0 then Some (err ''object kinds cannot be empty'')
      else if \<not> so_DiscoveryClient so then Some (err ''discovery client cannot be nil'')
      else if \<not> so_ClustersManager so then Some (err ''cluster manager cannot be nil'')
      else if isa_Name (so_ServiceAccount so) = [] then Some (err ''service account name cannot be empty'')
      else if isa_Namespace (so_ServiceAccount so) = [] then Some (err ''service account namespace cannot be empty'')
      else None)"

text \<open>ServerPreferredResources lists, per group version, the name and the kind of each resource.\<close>

definition createKindToResourceMap :: "(string \<times> string) list list res \<Rightarrow> (string \<rightharpoonup> string) res" where
  "createKindToResourceMap resources =
     (case resources of
        Inl e \<Rightarrow> Inl e
      | Inr resourcesList \<Rightarrow>
          Inr (foldl (\<lambda>m resourceList. foldl (\<lambda>m (name, kind). m(kind \<mapsto> name)) m resourceList) Map.empty resourcesList))"

section \<open>The server\<close>

record ('s, 'i, 'a) server =
  sv_qs :: "('s, 'i, 'a) qs"
  sv_collecting :: bool
  sv_cleaner :: "objectCleaner option"
  sv_enabledFor :: "string list"

text \<open>The request is both the query and its options.\<close>

definition DoQuery :: "('s, 'i, 'a) server \<Rightarrow> principal option \<Rightarrow> DoQueryRequest \<Rightarrow> ('s \<times> 'i, pb_object list) action" where
  "DoQuery sv who msg w =
     (case RunQuery (sv_qs sv) who \<lparr> qu_Terms = dq_Terms msg, qu_Filters = dq_Filters msg \<rparr>
         (Some \<lparr> qo_Limit = dq_Limit msg, qo_Offset = dq_Offset msg, qo_OrderBy = dq_OrderBy msg,
            qo_Descending = dq_Descending msg \<rparr>) w of
        (Inl e, w) \<Rightarrow> (Inl (wrap ''failed to run query: %w'' [] e), w)
      | (Inr objs, w) \<Rightarrow> (Inr (convertToPbObject objs), w))"

text \<open>Without a principal in the context the loop over the subjects of a rule dereferences nil.\<close>

definition DebugGetAccessRules :: "('s, 'i, 'a) server \<Rightarrow> principal option \<Rightarrow> ('s, pb_access_rule list) action" where
  "DebugGetAccessRules sv who s =
     (case qs_GetAccessRules (sv_qs sv) s of
        (Inl e, s) \<Rightarrow> (Inl (wrap ''failed to get access rules: %w'' [] e), s)
      | (Inr rules, s) \<Rightarrow>
          (case who of
             None \<Rightarrow> if \<exists>r\<in>set rules. ar_AccessibleKinds r \<noteq> [] \<and> ar_Subjects r \<noteq> [] then (Inl nilCall, s) else (Inr [], s)
           | Some user \<Rightarrow> (Inr (convertToPbAccessRule (RelevantRulesForUser user rules)), s)))"

definition humanReadableLabelKeys :: "api_groups \<Rightarrow> string \<rightharpoonup> string" where
  "humanReadableLabelKeys A = foldl (\<lambda>m k. foldl (\<lambda>m label. foldl (\<lambda>m (labelKey, labelValue).
     if labelKey = label then m(''labels.'' @ label \<mapsto> labelValue) else m) m (ok_HumanReadableLabelKeys k)) m (ok_Labels k))
     Map.empty (SupportedObjectKinds A)"

definition server_ListFacets :: "api_groups \<Rightarrow> ('s, 'i, 'a) server \<Rightarrow> string \<Rightarrow> ((string \<rightharpoonup> string list) \<Rightarrow> string list) \<Rightarrow>
    ('i, pb_facet list \<times> (string \<rightharpoonup> string)) action" where
  "server_ListFacets A sv category visit i =
     (case qs_ListFacets (sv_qs sv) category i of
        (Inl e, i) \<Rightarrow> (Inl (wrap ''failed to list facets: %w'' [] e), i)
      | (Inr facets, i) \<Rightarrow> (Inr (convertToPbFacet (visit facets) facets, humanReadableLabelKeys A), i))"

definition ListEnabledComponents :: "('s, 'i, 'a) server \<Rightarrow> int list" where
  "ListEnabledComponents sv = foldl (\<lambda>enabledFor cmp.
     let key = (case EnabledComponent_value cmp of None \<Rightarrow> 0 | Some v \<Rightarrow> v) in
     if key = 0 then enabledFor else enabledFor @ [key]) [] (sv_enabledFor sv)"

text \<open>None: the send to the stop channel blocks.\<close>

definition StopCollection :: "('s, 'i, 'a) server \<Rightarrow> ('s, 'i, 'a) server option" where
  "StopCollection sv =
     (case sv_cleaner sv of
        None \<Rightarrow> Some sv
      | Some oc \<Rightarrow> map_option (\<lambda>oc. sv\<lparr> sv_cleaner := Some oc \<rparr>) (cleaner_Stop oc))"

section \<open>The collectors\<close>

type_synonym ('c, 'h) collector = "('c, reconciler list, 'h) watchingCollector"

definition watcherFunc :: "('c rest_config \<Rightarrow> manager_env) \<Rightarrow> object_kind list \<Rightarrow> ('c, reconciler list) NewWatcherFunc" where
  "watcherFunc mgr kinds clusterName config = NewWatcher (mgr config) clusterName kinds"

definition NewObjectsCollector :: "'s Store \<Rightarrow> 'i IndexWriter \<Rightarrow> (normalized_object \<Rightarrow> string res) \<Rightarrow> int \<Rightarrow>
    ('c rest_config \<Rightarrow> manager_env) \<Rightarrow> 'c cluster list option \<Rightarrow> ImpersonateServiceAccount \<Rightarrow> object_kind list \<Rightarrow>
    (string \<Rightarrow> int) \<Rightarrow> 's \<times> 'i \<Rightarrow> ('c, 's \<times> 'i) collector res" where
  "NewObjectsCollector S W marshal now mgr clusters sa kinds gauge h =
     (case mapRes (\<lambda>k. case ObjectKind_Validate k of None \<Rightarrow> Inr () | Some e \<Rightarrow> Inl e) kinds of
        Inl e \<Rightarrow> Inl (wrap ''invalid object kind: %w'' [] e)
      | Inr _ \<Rightarrow>
          (case NewCollector \<lparr> op_Name = ''objects'', op_Clusters = clusters,
               op_NewWatcherFunc = Some (watcherFunc mgr kinds),
               op_StopWatcherFunc = Some (objects_deleteWatcher S W marshal now), op_ServiceAccount = sa \<rparr> gauge h of
             Inl e \<Rightarrow> Inl (err ''cannot create collector: %store'')
           | Inr col \<Rightarrow> Inr col))"

definition NewRoleCollector :: "api_groups \<Rightarrow> 's Store \<Rightarrow> ('c rest_config \<Rightarrow> manager_env) \<Rightarrow> 'c cluster list option \<Rightarrow>
    ImpersonateServiceAccount \<Rightarrow> (string \<Rightarrow> int) \<Rightarrow> 's \<Rightarrow> ('c, 's) collector res" where
  "NewRoleCollector A S mgr clusters sa gauge h =
     (case NewCollector \<lparr> op_Name = ''rbac'', op_Clusters = clusters,
          op_NewWatcherFunc = Some (watcherFunc mgr (SupportedRbacKinds A)),
          op_StopWatcherFunc = Some (roles_deleteWatcher S), op_ServiceAccount = sa \<rparr> gauge h of
        Inl e \<Rightarrow> Inl (wrap ''cannot create collector: %w'' [] e)
      | Inr col \<Rightarrow> Inr col)"

definition NewTenantsCollector :: "api_groups \<Rightarrow> ('c rest_config \<Rightarrow> manager_env) \<Rightarrow> 'c cluster list option \<Rightarrow>
    ImpersonateServiceAccount \<Rightarrow> (string \<Rightarrow> int) \<Rightarrow> 's \<Rightarrow> ('c, 's) collector res" where
  "NewTenantsCollector A mgr clusters sa gauge h =
     (case NewCollector \<lparr> op_Name = ''tenants'', op_Clusters = clusters,
          op_NewWatcherFunc = Some (watcherFunc mgr [NamespaceKind A]),
          op_StopWatcherFunc = None, op_ServiceAccount = sa \<rparr> gauge h of
        Inl e \<Rightarrow> Inl (wrap ''cannot create tenants collector: %w'' [] e)
      | Inr col \<Rightarrow> Inr col)"

section \<open>Putting the server together\<close>

record ('s, 'i, 'a) server_env =
  ne_MkdirTemp :: "string \<Rightarrow> string res"
  ne_OpenStore :: "string \<Rightarrow> 's res"
  ne_Store :: "'s Store"
  ne_OpenIndex :: "string \<Rightarrow> 'i res"
  ne_IndexReader :: "'i IndexReader"
  ne_IndexWriter :: "'i IndexWriter"
  ne_Authorizer :: "(string \<rightharpoonup> string) \<Rightarrow> 'a Authorizer"
  ne_Resources :: "(string \<times> string) list list res"

record ('c, 's, 'i) collectors =
  cs_roles :: "('c, 's) collector"
  cs_objects :: "('c, 's \<times> 'i) collector"
  cs_tenants :: "('c, 's) collector"

definition newCollectors :: "('s, 'i, 'a) server_env \<Rightarrow> api_groups \<Rightarrow> (normalized_object \<Rightarrow> string res) \<Rightarrow> int \<Rightarrow>
    ('c rest_config \<Rightarrow> manager_env) \<Rightarrow> 'c cluster list \<Rightarrow> (string \<Rightarrow> int) \<Rightarrow> ServerOpts \<Rightarrow> 's \<times> 'i \<Rightarrow>
    ('c, 's, 'i) collectors res" where
  "newCollectors E A marshal now mgr cl gauge opts w =
     (case NewRoleCollector A (ne_Store E) mgr (Some cl) (so_ServiceAccount opts) gauge (fst w) of
        Inl e \<Rightarrow> Inl (wrap ''failed to create access rules collector: %w'' [] e)
      | Inr roles \<Rightarrow>
     (case NewObjectsCollector (ne_Store E) (ne_IndexWriter E) marshal now mgr (Some cl) (so_ServiceAccount opts)
          (so_ObjectKinds opts) gauge w of
        Inl e \<Rightarrow> Inl (wrap ''failed to create applications collector: %w'' [] e)
      | Inr objects \<Rightarrow>
     (case NewTenantsCollector A mgr (Some cl) (so_ServiceAccount opts) gauge (fst w) of
        Inl e \<Rightarrow> Inl (wrap ''failed to create tenants collector: %w'' [] e)
      | Inr tenants \<Rightarrow> Inr \<lparr> cs_roles = roles, cs_objects = objects, cs_tenants = tenants \<rparr>)))"

text \<open>The server, its store and index, and its collectors when it collects.\<close>

definition NewServer :: "('s, 'i, 'a) server_env \<Rightarrow> api_groups \<Rightarrow> (normalized_object \<Rightarrow> string res) \<Rightarrow> int \<Rightarrow>
    ('c rest_config \<Rightarrow> manager_env) \<Rightarrow> 'c cluster list \<Rightarrow> (string \<Rightarrow> int) \<Rightarrow> cleaner_metrics \<Rightarrow> ServerOpts \<Rightarrow>
    (('s, 'i, 'a) server \<times> ('s \<times> 'i) \<times> ('c, 's, 'i) collectors option) res" where
  "NewServer E A marshal now mgr cl gauge cm opts =
     (case ServerOpts_Validate opts of
        Some e \<Rightarrow> Inl (wrap ''invalid query server options: %w'' [] e)
      | None \<Rightarrow>
     (case ne_MkdirTemp E ''db'' of Inl e \<Rightarrow> Inl e | Inr dbDir \<Rightarrow>
     (case ne_OpenStore E dbDir of Inl e \<Rightarrow> Inl (wrap ''cannot create store:%w'' [] e) | Inr s \<Rightarrow>
     (case createKindToResourceMap (ne_Resources E) of
        Inl e \<Rightarrow> Inl (wrap ''cannot create resources map:%w'' [] e)
      | Inr kindToResourceMap \<Rightarrow>
     (case ne_MkdirTemp E ''index'' of Inl e \<Rightarrow> Inl (wrap ''cannot create index dir: %w'' [] e) | Inr idxDir \<Rightarrow>
     (case ne_OpenIndex E idxDir of Inl e \<Rightarrow> Inl (wrap ''cannot create indexer: %w'' [] e) | Inr i \<Rightarrow>
     (case NewQueryService (Some (ne_Store E)) (Some (ne_IndexReader E)) (Some (ne_Authorizer E kindToResourceMap)) of
        Inl e \<Rightarrow> Inl (wrap ''failed to create query service: %w'' [] e)
      | Inr qs \<Rightarrow>
          let serv = \<lparr> sv_qs = qs, sv_collecting = False, sv_cleaner = None, sv_enabledFor = so_EnabledFor opts \<rparr> in
          if so_SkipCollection opts then Inr (serv, (s, i), None)
          else if length (so_ObjectKinds opts) = 0 then Inl (err ''cannot create collector for empty gvks'')
          else (case newCollectors E A marshal now mgr cl gauge opts (s, i) of
              Inl e \<Rightarrow> Inl e
            | Inr cs \<Rightarrow>
                let oc = (if so_EnableObjectCleaner opts
                          then Some (cleaner_Start (NewObjectCleaner (so_ObjectKinds opts) cm)) else None)
                in Inr (serv\<lparr> sv_cleaner := oc, sv_collecting := True \<rparr>, (s, i), Some cs)))))))))"

section \<open>Answers of the server\<close>

lemma convertToPbObject_map: "convertToPbObject xs = map (\<lambda>x. \<lparr> pb_Cluster = ob_Cluster x,
     pb_Namespace = ob_Namespace x, pb_Kind = ob_Kind x, pb_Name = ob_Name x, pb_Status = ob_Status x,
     pb_ApiGroup = ob_APIGroup x, pb_ApiVersion = ob_APIVersion x, pb_Message = ob_Message x,
     pb_Category = ob_Category x, pb_Unstructured = ob_Unstructured x, pb_Id = Object_GetID x,
     pb_Tenant = ob_Tenant x, pb_Labels = ob_Labels x \<rparr>) xs"
proof -
  have "foldl (\<lambda>ys x. ys @ [f x]) acc zs = acc @ map f zs" for f :: "object \<Rightarrow> pb_object" and acc zs
    by (induction zs arbitrary: acc) auto
  then show ?thesis by (simp add: convertToPbObject_def)
qed

text \<open>The environment of the server as it runs: SQLite, bleve and the Kubernetes rules.\<close>

definition realEnv :: "resolver \<Rightarrow> rule_test \<Rightarrow> api_groups \<Rightarrow>
    ('d SQLiteStore, ('ix, 'j) bleveIndexer, principal \<times> lister) server_env \<Rightarrow> bool" where
  "realEnv rulesFor ra A E \<longleftrightarrow> ne_Store E = SqliteStore \<and> ne_IndexReader E = BleveReader A \<and>
     ne_Authorizer E = RbacAuthorizer rulesFor ra"

lemma NewServer_service:
  assumes "realEnv rulesFor ra A E" "NewServer E A marshal now mgr cl gauge cm opts = Inr (sv, w, cols)"
  obtains km where "createKindToResourceMap (ne_Resources E) = Inr km" "sv_qs sv = explorer rulesFor ra km A"
  using assms
  by (auto simp: NewServer_def realEnv_def NewQueryService_def QueryServiceOpts_Validate_def explorer_def Let_def
      split: option.splits sum.splits if_splits)

text \<open>C10: Everything that the server answers is authorised: an object in the response to DoQuery has the
  identifier of a stored object whose fields it carries, and the roles and bindings that are stored
  for its cluster allow the principal to read it, with the resource names that the discovery client
  listed when the server was made.\<close>

theorem do_query_authorised:
  assumes "realEnv rulesFor ra A E" "NewServer E A marshal now mgr cl gauge cm opts = Inr (sv, w, cols)"
    and "sq_inv s" "bi_inv i" "tables_ok (rows s)" "names_ok (rows s)" "resolver_ok rulesFor p (rows s)"
    and "DoQuery sv (Some p) msg (s, i) = (Inr objs, (s', i'))"
  shows "\<exists>km roles bs. createKindToResourceMap (ne_Resources E) = Inr km \<and> rolesRead (rows s) roles \<and> bindingsRead (rows s) bs \<and>
    (\<forall>y\<in>set objs. \<exists>x t. tb_Objects (rows s) (pb_Id y) = Some x \<and>
       verdict rulesFor ra km p (pb_Cluster y) roles bs (x\<lparr> ob_Tenant := t \<rparr>) = (True, None) \<and>
       (pb_Cluster y, pb_Namespace y, pb_Kind y, pb_Name y, pb_Status y, pb_Message y, pb_Unstructured y, pb_Tenant y) =
       (ob_Cluster x, ob_Namespace x, ob_Kind x, ob_Name x, ob_Status x, ob_Message x, ob_Unstructured x, t))"
proof -
  obtain km where km: "createKindToResourceMap (ne_Resources E) = Inr km" and qs: "sv_qs sv = explorer rulesFor ra km A"
    by (rule NewServer_service [OF assms(1,2)])
  define q where "q = \<lparr> qu_Terms = dq_Terms msg, qu_Filters = dq_Filters msg \<rparr>"
  define opt where "opt = \<lparr> qo_Limit = dq_Limit msg, qo_Offset = dq_Offset msg, qo_OrderBy = dq_OrderBy msg,
            qo_Descending = dq_Descending msg \<rparr>"
  obtain result where run: "RunQuery (explorer rulesFor ra km A) (Some p) q (Some opt) (s, i) = (Inr result, (s', i'))"
    and objs: "objs = convertToPbObject result"
    using assms(8) by (auto simp: DoQuery_def qs q_def opt_def split: prod.splits sum.splits)
  obtain roles bs ts it ks where r: "rolesRead (rows s) roles" "bindingsRead (rows s) bs"
    and live: "\<forall>k\<in>set ks. tb_Objects (rows s) k \<noteq> None"
    and res: "result = takeLimit (case Some opt of Some opt \<Rightarrow> qo_Limit opt | None \<Rightarrow> 0)
       (filter (\<lambda>x. verdict rulesFor ra km p (ob_Cluster x) roles bs x = (True, None))
         (map (\<lambda>k. addTenant (createTenantLookup ts) (the (tb_Objects (rows s) k))) ks))"
    by (rule explorer_run [OF assms(3-7) run])
  have ids: "tb_Objects (rows s) k = Some x \<Longrightarrow> Object_GetID x = k" for k x
    using assms(5) by (simp add: tables_ok_def objects_ok_def)
  have "\<exists>x t. tb_Objects (rows s) (Object_GetID z) = Some x \<and> z = x\<lparr> ob_Tenant := t \<rparr> \<and>
      verdict rulesFor ra km p (ob_Cluster z) roles bs z = (True, None)" if "z \<in> set result" for z
  proof -
    have "z \<in> set (filter (\<lambda>x. verdict rulesFor ra km p (ob_Cluster x) roles bs x = (True, None))
         (map (\<lambda>k. addTenant (createTenantLookup ts) (the (tb_Objects (rows s) k))) ks))"
      using that unfolding res by (rule takeLimit_subset [THEN subsetD])
    then obtain k x where k: "tb_Objects (rows s) k = Some x" "z = addTenant (createTenantLookup ts) x"
      "verdict rulesFor ra km p (ob_Cluster z) roles bs z = (True, None)"
      using live by auto
    have "z = x\<lparr> ob_Tenant := ob_Tenant z \<rparr>"
      using k(2) by (auto simp: addTenant_def split: option.splits)
    then obtain t where t: "z = x\<lparr> ob_Tenant := t \<rparr>" by blast
    have "Object_GetID z = Object_GetID x" by (simp add: t Object_GetID_def Object_GroupVersionKind_def)
    then have "Object_GetID z = k" using ids [OF k(1)] by simp
    then show ?thesis using k t by blast
  qed
  then have "\<forall>y\<in>set objs. \<exists>x t. tb_Objects (rows s) (pb_Id y) = Some x \<and>
       verdict rulesFor ra km p (pb_Cluster y) roles bs (x\<lparr> ob_Tenant := t \<rparr>) = (True, None) \<and>
       (pb_Cluster y, pb_Namespace y, pb_Kind y, pb_Name y, pb_Status y, pb_Message y, pb_Unstructured y, pb_Tenant y) =
       (ob_Cluster x, ob_Namespace x, ob_Kind x, ob_Name x, ob_Status x, ob_Message x, ob_Unstructured x, t)"
    unfolding objs convertToPbObject_map
  proof (intro ballI)
    fix y assume stored: "\<And>z. z \<in> set result \<Longrightarrow> \<exists>x t. tb_Objects (rows s) (Object_GetID z) = Some x \<and> z = x\<lparr> ob_Tenant := t \<rparr> \<and>
      verdict rulesFor ra km p (ob_Cluster z) roles bs z = (True, None)"
      and "y \<in> set (map (\<lambda>x. \<lparr> pb_Cluster = ob_Cluster x, pb_Namespace = ob_Namespace x, pb_Kind = ob_Kind x,
        pb_Name = ob_Name x, pb_Status = ob_Status x, pb_ApiGroup = ob_APIGroup x, pb_ApiVersion = ob_APIVersion x,
        pb_Message = ob_Message x, pb_Category = ob_Category x, pb_Unstructured = ob_Unstructured x,
        pb_Id = Object_GetID x, pb_Tenant = ob_Tenant x, pb_Labels = ob_Labels x \<rparr>) result)"
    then obtain z where z: "z \<in> set result" "pb_Id y = Object_GetID z"
      "(pb_Cluster y, pb_Namespace y, pb_Kind y, pb_Name y, pb_Status y, pb_Message y, pb_Unstructured y, pb_Tenant y) =
       (ob_Cluster z, ob_Namespace z, ob_Kind z, ob_Name z, ob_Status z, ob_Message z, ob_Unstructured z, ob_Tenant z)"
      by auto
    from stored [OF z(1)] obtain x t where x: "tb_Objects (rows s) (Object_GetID z) = Some x" "z = x\<lparr> ob_Tenant := t \<rparr>"
      "verdict rulesFor ra km p (ob_Cluster z) roles bs z = (True, None)" by blast
    show "\<exists>x t. tb_Objects (rows s) (pb_Id y) = Some x \<and>
       verdict rulesFor ra km p (pb_Cluster y) roles bs (x\<lparr> ob_Tenant := t \<rparr>) = (True, None) \<and>
       (pb_Cluster y, pb_Namespace y, pb_Kind y, pb_Name y, pb_Status y, pb_Message y, pb_Unstructured y, pb_Tenant y) =
       (ob_Cluster x, ob_Namespace x, ob_Kind x, ob_Name x, ob_Status x, ob_Message x, ob_Unstructured x, t)"
      by (rule exI [of _ x], rule exI [of _ t]) (use x z(2,3) in simp)
  qed
  then show ?thesis using km r by blast
qed

section \<open>A cluster that goes away\<close>

lemma unwatch_hook:
  assumes "wstep w w'"
  shows "wc_stopWatcherFunc w' = wc_stopWatcherFunc w"
  using assms
  by (induction rule: wstep.induct)
     (auto simp: watchBegin_def watchEnd_def unwatch_def childStarted_def childErrored_def childStopped_def
       setPc_def cancel_def child_setStatus_def Let_def split: sum.splits if_splits option.splits prod.splits)

text \<open>When a cluster goes away, its objects go too: in every state that the objects collector can
  reach, whatever the store and the index hold by then, an unwatch that succeeds has removed the
  objects of that cluster, and only those, from the store.\<close>

theorem unwatch_clears_cluster:
  assumes "NewObjectsCollector SqliteStore BleveWriter marshal now mgr clusters sa kinds gauge h = Inr w0"
    and "wstep\<^sup>*\<^sup>* w0 w" "wc_hook w = (s, i)" "sq_inv s" "bi_inv i"
    and "unwatch c w = (None, w')"
  shows "rows (fst (wc_hook w')) = dropClusterObjects c (rows s)"
proof -
  have "wc_stopWatcherFunc w = wc_stopWatcherFunc w0" using assms(2)
    by (induction rule: rtranclp_induct) (auto dest: unwatch_hook)
  moreover have "wc_stopWatcherFunc w0 = objects_deleteWatcher SqliteStore BleveWriter marshal now"
    using assms(1) by (auto simp: NewObjectsCollector_def NewCollector_def newWatchingCollector_def split: sum.splits option.splits)
  ultimately obtain s1 i1 where h: "objects_deleteWatcher SqliteStore BleveWriter marshal now c (s, i) = (None, (s1, i1))"
    "wc_hook w' = (s1, i1)"
    using assms(3,6) by (auto simp: unwatch_def cancel_def Let_def split: if_splits option.splits prod.splits)
  show ?thesis
    using coll.transaction_effect [OF assms(4,5) h(1) [unfolded objects_deleteWatcher_def]] h(2)
    by (simp add: applyTransaction_def NewDeleteAllTransaction_def)
qed

section \<open>Examples\<close>

definition exampleEnv :: "(memdb SQLiteStore, (memix, unit) bleveIndexer, principal \<times> lister) server_env" where
  "exampleEnv = \<lparr> ne_MkdirTemp = (\<lambda>d. Inr (''/tmp/'' @ d)), ne_OpenStore = (\<lambda>_. Inr memStore), ne_Store = SqliteStore,
     ne_OpenIndex = (\<lambda>_. Inr (memIndexer [])), ne_IndexReader = BleveReader exampleApi, ne_IndexWriter = BleveWriter,
     ne_Authorizer = RbacAuthorizer exampleResolver exampleRuleAllows, ne_Resources = Inr [] \<rparr>"

definition exampleServerOpts :: ServerOpts where
  "exampleServerOpts = \<lparr> so_ClustersManager = True, so_SkipCollection = True, so_DiscoveryClient = True,
     so_ObjectKinds = [BucketObjectKind exampleApi],
     so_ServiceAccount = \<lparr> isa_Name = ''collector'', isa_Namespace = ''flux-system'' \<rparr>,
     so_EnableObjectCleaner = False, so_EnabledFor = [''applications'', ''teapots''] \<rparr>"

definition exampleServer :: "(memdb SQLiteStore, (memix, unit) bleveIndexer, principal \<times> lister) server" where
  "exampleServer = \<lparr> sv_qs = exampleExplorer, sv_collecting = False, sv_cleaner = None,
     sv_enabledFor = [''applications'', ''teapots''] \<rparr>"

lemma exampleServer_made:
  "NewServer exampleEnv exampleApi exampleMarshal 0 (\<lambda>_ :: unit rest_config. undefined) [] (\<lambda>_. 0) cm exampleServerOpts =
     Inr (exampleServer, (memStore, memIndexer []), None)"
  by (simp add: NewServer_def exampleEnv_def exampleServerOpts_def ServerOpts_Validate_def createKindToResourceMap_def
      NewQueryService_def QueryServiceOpts_Validate_def exampleServer_def exampleExplorer_def explorer_def Let_def)

definition exampleRequest :: DoQueryRequest where
  "exampleRequest = \<lparr> dq_Terms = [], dq_Filters = [], dq_Offset = 0, dq_Limit = 0, dq_OrderBy = [], dq_Descending = False \<rparr>"

lemma do_query_authorised_witness:
  "\<exists>objs w. DoQuery exampleServer (Some exampleUser) exampleRequest (queryStore, queryIndex) = (Inr objs, w) \<and>
     (\<forall>y\<in>set objs. tb_Objects (rows queryStore) (pb_Id y) \<noteq> None)"
proof -
  have env: "realEnv exampleResolver exampleRuleAllows exampleApi exampleEnv" by (simp add: realEnv_def exampleEnv_def)
  have q: "tables_ok (rows queryStore)" "names_ok (rows queryStore)" "resolver_ok exampleResolver exampleUser (rows queryStore)"
    by (simp_all add: query_example)
  let ?opt = "Some \<lparr> qo_Limit = 0, qo_Offset = 0, qo_OrderBy = [], qo_Descending = False \<rparr>"
  have "isOk (fst (Search anything ?opt queryIndex))"
    by (simp add: Search_def indexMeasured_def Let_def queryIndex_def memIndexer_def memBleve_def IndexerAddInflightRequests_def)
  then have "isOk (fst (RunQuery exampleExplorer (Some exampleUser) anything ?opt (queryStore, queryIndex)))"
    unfolding exampleExplorer_def run_isOk_iff [OF queryStore_inv(1) query_example_reads(4) q]
    by (simp add: queryStore_inv query_example_reads)
  then obtain result s' i' where "RunQuery exampleExplorer (Some exampleUser) anything ?opt (queryStore, queryIndex) = (Inr result, (s', i'))"
    by (metis isOk_iff prod.collapse)
  then have d: "DoQuery exampleServer (Some exampleUser) exampleRequest (queryStore, queryIndex) = (Inr (convertToPbObject result), (s', i'))"
    by (simp add: DoQuery_def exampleServer_def exampleRequest_def)
  from do_query_authorised [OF env exampleServer_made queryStore_inv(1) query_example_reads(4) q d] show ?thesis
    using d by fastforce
qed

lemma exampleServer_components: "ListEnabledComponents exampleServer = [1]"
  by (simp add: ListEnabledComponents_def exampleServer_def EnabledComponent_value_def)

lemma unwatch_clears_cluster_witness:
  "\<exists>(w :: (unit, memdb SQLiteStore \<times> (memix, unit) bleveIndexer) collector) w'. unwatch ''c'' w = (None, w') \<and> rows (fst (wc_hook w)) = rows queryStore \<and>
     tb_Objects (rows queryStore) ''c/ns/apps/v1/Bucket/b'' \<noteq> None \<and>
     tb_Objects (rows (fst (wc_hook w'))) ''c/ns/apps/v1/Bucket/b'' = None"
proof -
  let ?opts = "\<lparr> op_Name = ''objects'', op_Clusters = Some [], op_NewWatcherFunc = Some (watcherFunc (\<lambda>_ :: unit rest_config. undefined) []),
      op_StopWatcherFunc = Some (objects_deleteWatcher (SqliteStore :: memdb SQLiteStore Store) (BleveWriter :: (memix, unit) bleveIndexer IndexWriter) exampleMarshal 0),
      op_ServiceAccount = \<lparr> isa_Name = ''collector'', isa_Namespace = ''flux-system'' \<rparr> \<rparr>"
  let ?h = "(queryStore, queryIndex)"
  define w0 where "w0 = newWatchingCollector ?opts (\<lambda>_. 0) ?h"
  have n: "NewObjectsCollector SqliteStore BleveWriter exampleMarshal 0 (\<lambda>_ :: unit rest_config. undefined) (Some [])
      \<lparr> isa_Name = ''collector'', isa_Namespace = ''flux-system'' \<rparr> [] (\<lambda>_. 0) ?h = Inr w0"
    by (simp add: NewObjectsCollector_def NewCollector_def CollectorOpts_Validate_def w0_def)
  let ?c = "\<lparr> cl_GetName = ''c'', cl_GetServerConfig = Inr None \<rparr> :: unit cluster"
  let ?w1 = "w0\<lparr> wc_queue := wc_queue w0 @ [?c] \<rparr>"
  obtain p w2 where b: "watchBegin ?c ?w1 = (p, w2)" by force
  note vb = watchBegin_children [OF b]
  have empty: "wc_children w0 = []" "wc_current w0 = None" "wc_hook w0 = ?h"
    "wc_stopWatcherFunc w0 = objects_deleteWatcher SqliteStore BleveWriter exampleMarshal 0"
    by (simp_all add: w0_def newWatchingCollector_def)
  let ?w3 = "w2\<lparr> wc_current := Some (p, ?c), wc_queue := remove1 ?c (wc_queue w2) \<rparr>"
  have s1: "wstep w0 ?w1" by (rule wstep.enqueue)
  have s2: "wstep ?w1 ?w3" by (rule wstep.watching [OF _ _ _ b]) (simp_all add: empty)
  have run: "wstep\<^sup>*\<^sup>* w0 ?w3" using s1 s2 by (meson converse_rtranclp_into_rtranclp rtranclp.rtrancl_refl)
  have stop: "wc_stopWatcherFunc ?w3 = objects_deleteWatcher SqliteStore BleveWriter exampleMarshal 0"
    using unwatch_hook [OF s1] unwatch_hook [OF s2] empty by simp
  have hook: "wc_hook ?w3 = ?h" using vb empty by simp
  have B: "bi_bleve queryIndex = memBleve" by (simp add: queryIndex_def memIndexer_def)
  obtain s1' i1' where d: "objects_deleteWatcher SqliteStore BleveWriter exampleMarshal 0 ''c'' ?h = (None, (s1', i1'))"
    by (rule memBleve_unwatch [OF queryStore_inv(3) B])
  obtain w' where u: "unwatch ''c'' ?w3 = (None, w')"
    using d stop hook vb by (auto simp: unwatch_def watcherOf_def Let_def cancel_def)
  from unwatch_clears_cluster [OF n run hook queryStore_inv(1) query_example_reads(4) u]
  have "tb_Objects (rows (fst (wc_hook w'))) ''c/ns/apps/v1/Bucket/b'' = None"
    by (simp add: queryStore_inv memContents_def queryDb_def dropClusterObjects_def dropRows_def current_def bucketRow_def mkObject_def)
  moreover have "tb_Objects (rows queryStore) ''c/ns/apps/v1/Bucket/b'' \<noteq> None"
    by (simp add: queryStore_inv memContents_def queryDb_def current_def bucketRow_def)
  ultimately show ?thesis using u hook by (intro exI [of _ ?w3] exI [of _ w']) simp
qed

end
