(* ===== verification/Tenancy.thy ===== *)
theory Tenancy
  imports Kube
begin

text \<open>
  pkg/tenancy: tenancy.go, policy.go and utils.go. This theory holds the tenants
  file, its validation, and the resources that are generated for every tenant;
  TenancyApply brings them to a cluster. A slice that a nil variable may hold is an
  option: json.Marshal writes nil as null. The group version, the kind and the
  provider of the policy agent's API, the qualified-name check of Kubernetes and the
  text of an error of another package are fields of the record tenancy_env.
\<close>

section \<open>Types\<close>

type_synonym labels = "string \<rightharpoonup> string"

record type_meta =
  tm_Kind :: string
  tm_APIVersion :: string

record tenancy_env =
  tv_IsQualifiedName :: "string \<Rightarrow> string list"
  tv_PolicyKind :: string
  tv_PolicyGroupVersion :: string
  tv_PolicyKubernetesProvider :: string
  tv_ErrorText :: "goerror \<Rightarrow> string"

record policy_parameters =
  pp_Name :: string
  pp_Type :: string
  pp_Value :: string

record policy_targets =
  pt_Labels :: "labels list"
  pt_Kinds :: "string list"
  pt_Namespaces :: "string list"

record policy_spec =
  ps_ID :: string
  ps_Name :: string
  ps_Category :: string
  ps_Severity :: string
  ps_Description :: string
  ps_Standards :: "string list"
  ps_Provider :: string
  ps_Targets :: policy_targets
  ps_Code :: string
  ps_Tags :: "string list"
  ps_Parameters :: "policy_parameters list"

text \<open>The concrete types behind client.Object; what a List returns is unstructured.\<close>

datatype resource_body =
    NamespaceBody
  | ServiceAccountBody
  | is_RoleBindingBody: RoleBindingBody (body_subjects: "k8s_subject list") (body_ref: k8s_role_ref)
  | is_RoleBody: RoleBody (body_rules: "k8s_rule list")
  | is_PolicyBody: PolicyBody (body_spec: policy_spec)
  | UnstructuredBody

record resource =
  re_TypeMeta :: type_meta
  re_Name :: string
  re_Namespace :: string
  re_Labels :: labels
  re_Body :: resource_body

record allowed_repository =
  ar_URL :: string
  ar_Kind :: string

record team_rbac =
  tr_GroupNames :: "string list"
  tr_Rules :: "k8s_rule list"

record tenant_role_binding =
  tb_Name :: string
  tb_Kind :: string

record deployment_rbac =
  dr_Rules :: "k8s_rule list"
  dr_BindRoles :: "tenant_role_binding list"

text \<open>ServiceAccountOptions and AllowedCluster have a single field, a name.\<close>

type_synonym service_account_options = string
type_synonym allowed_cluster = string

record tenancy_tenant =
  te_Name :: string
  te_Namespaces :: "string list"
  te_Labels :: "labels option"
  te_AllowedRepositories :: "allowed_repository list"
  te_AllowedClusters :: "allowed_cluster list"
  te_TeamRBAC :: "team_rbac option"
  te_DeploymentRBAC :: "deployment_rbac option"

record tenancy_config =
  cf_ServiceAccount :: "service_account_options option"
  cf_Tenants :: "tenancy_tenant list"

definition tenantLabel :: string where "tenantLabel = ''toolkit.fluxcd.io/tenant''"
definition defaultRoleKind :: string where "defaultRoleKind = ''ClusterRole''"
definition defaultRoleName :: string where "defaultRoleName = ''cluster-admin''"

definition typeMeta :: "string \<Rightarrow> string \<Rightarrow> type_meta" where
  "typeMeta kind apiVersion = \<lparr> tm_Kind = kind, tm_APIVersion = apiVersion \<rparr>"

definition namespaceTypeMeta :: type_meta where
  "namespaceTypeMeta = typeMeta ''Namespace'' ''v1''"

definition serviceAccountTypeMeta :: type_meta where
  "serviceAccountTypeMeta = typeMeta ''ServiceAccount'' ''v1''"

definition roleBindingTypeMeta :: type_meta where
  "roleBindingTypeMeta = typeMeta ''RoleBinding'' ''rbac.authorization.k8s.io/v1''"

definition policyTypeMeta :: "tenancy_env \<Rightarrow> type_meta" where
  "policyTypeMeta E = typeMeta (tv_PolicyKind E) (tv_PolicyGroupVersion E)"

definition roleTypeMeta :: type_meta where
  "roleTypeMeta = typeMeta ''Role'' ''rbac.authorization.k8s.io/v1''"

section \<open>Validation\<close>

definition policyRepoGitKind :: string where "policyRepoGitKind = ''GitRepository''"
definition policyRepoBucketKind :: string where "policyRepoBucketKind = ''Bucket''"
definition policyRepoHelmKind :: string where "policyRepoHelmKind = ''HelmRepository''"
definition policyRepoOCIKind :: string where "policyRepoOCIKind = ''OCIRepository''"
definition policyClustersKind :: string where "policyClustersKind = ''GitopsCluster''"
definition policyKustomizationKind :: string where "policyKustomizationKind = ''Kustomization''"
definition policyHelmReleaseKind :: string where "policyHelmReleaseKind = ''HelmRelease''"

definition policyRepoKinds :: "string list" where
  "policyRepoKinds = [policyRepoGitKind, policyRepoBucketKind, policyRepoHelmKind, policyRepoOCIKind]"

lemmas policy_kind_defs = policyRepoGitKind_def policyRepoBucketKind_def policyRepoHelmKind_def
  policyRepoOCIKind_def policyClustersKind_def policyKustomizationKind_def policyHelmReleaseKind_def

fun findKind :: "string \<Rightarrow> string list \<Rightarrow> goerror option" where
  "findKind kind [] = Some (Errf ''invalid repository kind: %s'' [kind])"
| "findKind kind (repoKind # ks) = (if repoKind = kind then None else findKind kind ks)"

definition validatePolicyRepoKind :: "string \<Rightarrow> goerror option" where
  "validatePolicyRepoKind kind = findKind kind policyRepoKinds"

text \<open>multierror.Append: a nil error becomes a list of one error.\<close>

definition appendError :: "goerror option \<Rightarrow> goerror \<Rightarrow> goerror option" where
  "appendError result e = Some (Multi (case result of None \<Rightarrow> [e] | Some (Multi es) \<Rightarrow> es @ [e] | Some e' \<Rightarrow> [e', e]))"

definition Tenancy_Validate :: "tenancy_env \<Rightarrow> tenancy_tenant \<Rightarrow> goerror option" where
  "Tenancy_Validate E t =
     (let result = None;
          errs = tv_IsQualifiedName E (te_Name t);
          result = (if length errs > 0 then appendError result (Errf ''invalid tenant name: %s'' errs) else result);
          result = (if length (te_Namespaces t) = 0 then appendError result (err ''must provide at least one namespace'') else result);
          result = foldl (\<lambda>result r. case validatePolicyRepoKind (ar_Kind r) of
             Some e \<Rightarrow> appendError result e | None \<Rightarrow> result) result (te_AllowedRepositories t);
          result = (case te_TeamRBAC t of None \<Rightarrow> result | Some team \<Rightarrow>
             if length (tr_GroupNames team) = 0 \<or> length (tr_Rules team) = 0
             then appendError result (err ''must provide group names and team rules in team RBAC'') else result)
      in case te_DeploymentRBAC t of None \<Rightarrow> result | Some d \<Rightarrow>
           let result = (if length (dr_Rules d) = 0 \<and> length (dr_BindRoles d) = 0
             then appendError result (err ''must provide rules or bindings in deployment RBAC'') else result)
           in foldl (\<lambda>result b. if tb_Kind b \<noteq> ''Role'' \<and> tb_Kind b \<noteq> ''ClusterRole''
                then appendError result (err ''invalid kind for deployment RBAC rule binds'') else result)
              result (dr_BindRoles d))"

section \<open>JSON\<close>

text \<open>
  json.Marshal of a string and of a slice of strings. Bytes above 127 stand for
  themselves, as the bytes of valid UTF-8 do (the separators U+2028 and U+2029,
  which are escaped too, are left out).
\<close>

definition hexDigit :: "nat \<Rightarrow> char" where
  "hexDigit n = ''0123456789abcdef'' ! n"

definition jsonChar :: "char \<Rightarrow> string" where
  "jsonChar c =
     (if c = CHR 0x22 \<or> c = CHR 0x5C then [CHR 0x5C, c]
      else if c = CHR 0x0A then [CHR 0x5C, CHR ''n'']
      else if c = CHR 0x0D then [CHR 0x5C, CHR ''r'']
      else if c = CHR 0x09 then [CHR 0x5C, CHR ''t'']
      else if of_char c < (32 :: nat) \<or> c \<in> {CHR ''<'', CHR ''>'', CHR ''&''}
        then [CHR 0x5C, CHR ''u'', CHR ''0'', CHR ''0'', hexDigit (of_char c div 16), hexDigit (of_char c mod 16)]
      else [c])"

definition jsonString :: "string \<Rightarrow> string" where
  "jsonString s = [CHR 0x22] @ concat (map jsonChar s) @ [CHR 0x22]"

fun jsonStrings :: "string list option \<Rightarrow> string" where
  "jsonStrings None = ''null''"
| "jsonStrings (Some xs) = ''['' @ joinStr '','' (map jsonString xs) @ '']''"

definition appendSlice :: "'a list option \<Rightarrow> 'a \<Rightarrow> 'a list option" where
  "appendSlice s x = Some (case s of None \<Rightarrow> [x] | Some xs \<Rightarrow> xs @ [x])"

section \<open>The generated resources\<close>

definition newNamespace :: "string \<Rightarrow> labels \<Rightarrow> resource" where
  "newNamespace name labels = \<lparr> re_TypeMeta = namespaceTypeMeta, re_Name = name, re_Namespace = [],
     re_Labels = labels, re_Body = NamespaceBody \<rparr>"

definition newServiceAccount :: "string \<Rightarrow> string \<Rightarrow> labels \<Rightarrow> resource" where
  "newServiceAccount name namespace labels = \<lparr> re_TypeMeta = serviceAccountTypeMeta, re_Name = name,
     re_Namespace = namespace, re_Labels = labels, re_Body = ServiceAccountBody \<rparr>"

definition newRoleBinding :: "string \<Rightarrow> string \<Rightarrow> string \<Rightarrow> string \<Rightarrow> k8s_subject list \<Rightarrow> labels \<Rightarrow> resource" where
  "newRoleBinding name namespace roleKind roleName subjects labels = \<lparr> re_TypeMeta = roleBindingTypeMeta,
     re_Name = name, re_Namespace = namespace, re_Labels = labels,
     re_Body = RoleBindingBody subjects
       \<lparr> rr_APIGroup = ''rbac.authorization.k8s.io'', rr_Kind = roleKind, rr_Name = roleName \<rparr> \<rparr>"

definition newDeploymentRBACRoleBinding :: "string \<Rightarrow> string \<Rightarrow> string \<Rightarrow> labels \<Rightarrow> resource" where
  "newDeploymentRBACRoleBinding tenantName namespace serviceAccountName labels =
     (let name = tenantName @ ''-service-account'' in
      newRoleBinding name namespace ''Role'' name
        [\<lparr> ks_Kind = ''ServiceAccount'', ks_Name = serviceAccountName, ks_Namespace = namespace, ks_APIGroup = [] \<rparr>]
        labels)"

definition newServiceAccountRoleBinding :: "string \<Rightarrow> string \<Rightarrow> string \<Rightarrow> string \<Rightarrow> string \<Rightarrow> labels \<Rightarrow> resource" where
  "newServiceAccountRoleBinding tenantName namespace serviceAccountName roleKind roleName labels =
     (let roleKind = (if roleKind = [] then defaultRoleKind else roleKind);
          roleName = (if roleName = [] then defaultRoleName else roleName)
      in newRoleBinding (tenantName @ ''-service-account-'' @ roleName) namespace roleKind roleName
           [\<lparr> ks_Kind = ''ServiceAccount'', ks_Name = serviceAccountName, ks_Namespace = namespace, ks_APIGroup = [] \<rparr>]
           labels)"

definition newTeamRoleBinding :: "string \<Rightarrow> string \<Rightarrow> string list \<Rightarrow> labels \<Rightarrow> resource" where
  "newTeamRoleBinding tenantName namespace groupNames labels =
     (let name = tenantName @ ''-team'';
          subjects = foldl (\<lambda>subjects groupName. subjects @ [\<lparr> ks_Kind = ''Group'', ks_Name = groupName,
            ks_Namespace = [], ks_APIGroup = ''rbac.authorization.k8s.io'' \<rparr>]) [] groupNames
      in newRoleBinding name namespace ''Role'' name subjects labels)"

definition newRole :: "string \<Rightarrow> string \<Rightarrow> labels \<Rightarrow> k8s_rule list \<Rightarrow> resource" where
  "newRole name namespace labels rules = \<lparr> re_TypeMeta = roleTypeMeta, re_Name = name, re_Namespace = namespace,
     re_Labels = labels, re_Body = RoleBody rules \<rparr>"

definition newTeamRole :: "string \<Rightarrow> string \<Rightarrow> labels \<Rightarrow> k8s_rule list \<Rightarrow> resource" where
  "newTeamRole name namespace labels rules = newRole (name @ ''-team'') namespace labels rules"

definition newServiceAccountRole :: "string \<Rightarrow> string \<Rightarrow> labels \<Rightarrow> k8s_rule list \<Rightarrow> resource" where
  "newServiceAccountRole name namespace labels rules = newRole (name @ ''-service-account'') namespace labels rules"

end
