(* ===== verification/TenancyPolicies.thy ===== *)
theory TenancyPolicies
  imports Tenancy
begin

text \<open>
  The policies of pkg/tenancy: the three embedded Rego files, the parameters that
  policy.go and tenancy.go give them, and the resources of a tenant. The last
  section reads the Rego rules: an undefined value makes the body that uses it
  undefined, so the rule reports no violation.
\<close>

section \<open>The embedded files\<close>

definition repoPolicyCode :: string where
  \<open>repoPolicyCode = joinStr [CHR 0x0A] [
     ''package weave.tenancy.allowed_repositories'',
     [],
     ''controller_input := input.review.object'',
     ''namespace := controller_input.metadata.namespace'',
     ''violation[result] {'',
     ''    controller_input.kind == "GitRepository"'',
     ''    urls := input.parameters.git_urls'',
     ''    url := controller_input.spec.url'',
     ''    not contains_array(url, urls)'',
     ''    result = {'',
     ''    "issue detected": true,'',
     ''    "msg": sprintf("Git repository url %v is not allowed for namespace %v", [url, namespace]),'',
     ''    }'',
     ''}'',
     ''violation[result] {'',
     ''    controller_input.kind == "Bucket"'',
     ''    urls := input.parameters.bucket_endpoints'',
     ''    url := controller_input.spec.endpoint'',
     ''    not contains_array(url, urls)'',
     ''    result = {'',
     ''    "issue detected": true,'',
     ''    "msg": sprintf("Bucket endpoint %v is not allowed for namespace %v", [url, namespace]),'',
     ''    }'',
     ''}'',
     ''violation[result] {'',
     ''    controller_input.kind == "HelmRepository"'',
     ''    urls := input.parameters.helm_urls'',
     ''    url := controller_input.spec.url'',
     ''    not contains_array(url, urls)'',
     ''    result = {'',
     ''    "issue detected": true,'',
     ''    "msg": sprintf("Helm repository url %v is not allowed for namespace %v", [url, namespace]),'',
     ''    }'',
     ''}'',
     ''violation[result] {'',
     ''    controller_input.kind == "OCIRepository"'',
     ''    urls := input.parameters.oci_urls'',
     ''    url := controller_input.spec.url'',
     ''    not contains_array(url, urls)'',
     ''    result = {'',
     ''    "issue detected": true,'',
     ''    "msg": sprintf("OCI repository url %v is not allowed for namespace %v", [url, namespace]),'',
     ''    }'',
     ''}'',
     ''contains_array(item, items) {'',
     ''    items[_] = item'',
     ''}'',
     []]\<close>

definition clusterPolicyCode :: string where
  \<open>clusterPolicyCode = joinStr [CHR 0x0A] [
     ''package weave.tenancy.allowed_clusters'',
     [],
     ''controller_input := input.review.object'',
     ''namespace := controller_input.metadata.namespace'',
     ''secrets := input.parameters.cluster_secrets'',
     ''violation[result] {'',
     ''    controller_input.kind == "GitopsCluster"'',
     ''    secret := controller_input.spec.secretRef.name'',
     ''    not contains_array(secret, secrets)'',
     ''    result = {'',
     ''    "issue detected": true,'',
     ''    "msg": sprintf("cluster secretRef %v is not allowed for namespace %v", [secret, namespace]),'',
     ''    }'',
     ''}'',
     ''violation[result] {'',
     ''    controller_input.kind == "Kustomization"'',
     ''    secret := controller_input.spec.kubeConfig.secretRef.name'',
     ''    not contains_array(secret, secrets)'',
     ''    result = {'',
     ''    "issue detected": true,'',
     ''    "msg": sprintf("kustomization kubeconfig secretRef %v is not allowed for namespace %v", [secret, namespace]),'',
     ''    }'',
     ''}'',
     ''contains_array(item, items) {'',
     ''    items[_] = item'',
     ''}'',
     []]\<close>

definition applicationPolicyCode :: string where
  \<open>applicationPolicyCode = joinStr [CHR 0x0A] [
     ''package weave.tenancy.allowed_application_deploy'',
     [],
     ''controller_input := input.review.object'',
     ''violation[result] {'',
     ''    namespaces := input.parameters.namespaces'',
     ''    targetNamespace := controller_input.spec.targetNamespace'',
     ''    not contains_array(targetNamespace, namespaces)'',
     ''    result = {'',
     ''    "issue detected": true,'',
     ''    "msg": sprintf("using target namespace %v is not allowed", [targetNamespace]),'',
     ''    }'',
     ''}'',
     ''violation[result] {'',
     ''    serviceAccountName := controller_input.spec.serviceAccountName'',
     ''    serviceAccountName != input.parameters.service_account_name'',
     ''    result = {'',
     ''    "issue detected": true,'',
     ''    "msg": sprintf("using service account name %v is not allowed", [serviceAccountName]),'',
     ''    }'',
     ''}'',
     ''contains_array(item, items) {'',
     ''    items[_] = item'',
     ''}'',
     []]\<close>

section \<open>The policy resources\<close>

definition generatePolicyRepoParams :: "string list option \<Rightarrow> string list option \<Rightarrow> string list option \<Rightarrow>
    string list option \<Rightarrow> policy_parameters list res" where
  "generatePolicyRepoParams gitURLs bucketEndpoints helmURLs ociURLs =
     (let gitBytes = jsonStrings gitURLs; bucketBytes = jsonStrings bucketEndpoints;
          helmBytes = jsonStrings helmURLs; ociBytes = jsonStrings ociURLs
      in Inr [\<lparr> pp_Name = ''git_urls'', pp_Type = ''array'', pp_Value = gitBytes \<rparr>,
              \<lparr> pp_Name = ''bucket_endpoints'', pp_Type = ''array'', pp_Value = bucketBytes \<rparr>,
              \<lparr> pp_Name = ''helm_urls'', pp_Type = ''array'', pp_Value = helmBytes \<rparr>,
              \<lparr> pp_Name = ''oci_urls'', pp_Type = ''array'', pp_Value = ociBytes \<rparr>])"

text \<open>The policy that the three constructors share, with the fields in which they differ.\<close>

definition tenancyPolicy :: "tenancy_env \<Rightarrow> string \<Rightarrow> string \<Rightarrow> string \<Rightarrow> string list \<Rightarrow> string list \<Rightarrow> string \<Rightarrow>
    policy_parameters list \<Rightarrow> labels \<Rightarrow> resource" where
  "tenancyPolicy E policyName name description kinds namespaces code params labels = \<lparr>
     re_TypeMeta = policyTypeMeta E, re_Name = policyName, re_Namespace = [], re_Labels = labels,
     re_Body = PolicyBody \<lparr> ps_ID = policyName, ps_Name = name, ps_Category = ''weave.categories.tenancy'',
       ps_Severity = ''high'', ps_Description = description, ps_Standards = [],
       ps_Provider = tv_PolicyKubernetesProvider E,
       ps_Targets = \<lparr> pt_Labels = [], pt_Kinds = kinds, pt_Namespaces = namespaces \<rparr>,
       ps_Code = code, ps_Tags = [''tenancy''], ps_Parameters = params \<rparr> \<rparr>"

text \<open>The four slices of the loop over the allowed repositories.\<close>

definition sortRepository :: "allowed_repository \<Rightarrow> string list option \<times> string list option \<times> string list option \<times> string list option \<Rightarrow>
    string list option \<times> string list option \<times> string list option \<times> string list option" where
  "sortRepository r w = (case w of (git, bucket, helm, oci) \<Rightarrow>
     if ar_Kind r = policyRepoGitKind then (appendSlice git (ar_URL r), bucket, helm, oci)
     else if ar_Kind r = policyRepoBucketKind then (git, appendSlice bucket (ar_URL r), helm, oci)
     else if ar_Kind r = policyRepoHelmKind then (git, bucket, appendSlice helm (ar_URL r), oci)
     else if ar_Kind r = policyRepoOCIKind then (git, bucket, helm, appendSlice oci (ar_URL r))
     else w)"

definition newAllowedRepositoriesPolicy :: "tenancy_env \<Rightarrow> string \<Rightarrow> string list \<Rightarrow> allowed_repository list \<Rightarrow>
    labels \<Rightarrow> resource res" where
  "newAllowedRepositoriesPolicy E tenantName namespaces repos labels =
     (let policyName = ''weave.policies.tenancy.'' @ tenantName @ ''-allowed-repositories'' in
      case foldl (\<lambda>w r. sortRepository r w) (None, None, None, None) repos of (git, bucket, helm, oci) \<Rightarrow>
        case generatePolicyRepoParams git bucket helm oci of
          Inl e \<Rightarrow> Inl e
        | Inr params \<Rightarrow> Inr (tenancyPolicy E policyName (tenantName @ '' allowed repositories'')
            ''Controls the allowed repositories to be used as sources'' policyRepoKinds namespaces
            repoPolicyCode params labels))"

definition newAllowedClustersPolicy :: "tenancy_env \<Rightarrow> string \<Rightarrow> string list \<Rightarrow> allowed_cluster list \<Rightarrow>
    labels \<Rightarrow> resource res" where
  "newAllowedClustersPolicy E tenantName namespaces clusters labels =
     (let policyName = ''weave.policies.tenancy.'' @ tenantName @ ''-allowed-clusters'';
          clusterSecrets = foldl appendSlice None clusters
      in Inr (tenancyPolicy E policyName (tenantName @ '' allowed clusters'')
            ''Controls the allowed clusters to be added'' [policyClustersKind, policyKustomizationKind] namespaces
            clusterPolicyCode
            [\<lparr> pp_Name = ''cluster_secrets'', pp_Type = ''array'', pp_Value = jsonStrings clusterSecrets \<rparr>] labels))"

definition newAllowedApplicationDeployPolicy :: "tenancy_env \<Rightarrow> string \<Rightarrow> string \<Rightarrow> string list \<Rightarrow>
    labels \<Rightarrow> resource res" where
  "newAllowedApplicationDeployPolicy E tenantName serviceAccountName namespaces labels =
     (let policyName = ''weave.policies.tenancy.'' @ tenantName @ ''-allowed-application-deploy''
      in Inr (tenancyPolicy E policyName (tenantName @ '' allowed application deploy'')
            ''Determines which helm release and kustomization can be used in a tenant''
            [policyHelmReleaseKind, policyKustomizationKind] namespaces applicationPolicyCode
            [\<lparr> pp_Name = ''namespaces'', pp_Type = ''array'', pp_Value = jsonStrings (Some namespaces) \<rparr>,
             \<lparr> pp_Name = ''service_account_name'', pp_Type = ''string'', pp_Value = jsonString serviceAccountName \<rparr>] labels))"

section \<open>The resources of a tenant\<close>

definition namespaceResources :: "tenancy_tenant \<Rightarrow> string \<Rightarrow> bool \<Rightarrow> labels \<Rightarrow> string \<Rightarrow> resource list" where
  "namespaceResources t serviceAccountName isGlobalServiceAccount labels namespace =
     [newNamespace namespace labels]
     @ (if \<not> isGlobalServiceAccount then [newServiceAccount serviceAccountName namespace labels] else [])
     @ (case te_DeploymentRBAC t of
          Some d \<Rightarrow>
            (if length (dr_Rules d) \<noteq> 0
             then [newServiceAccountRole (te_Name t) namespace labels (dr_Rules d),
                   newDeploymentRBACRoleBinding (te_Name t) namespace serviceAccountName labels]
             else [])
            @ foldl (\<lambda>generated b. generated @ [newServiceAccountRoleBinding (te_Name t) namespace serviceAccountName
                 (tb_Kind b) (tb_Name b) labels]) [] (dr_BindRoles d)
        | None \<Rightarrow> [newServiceAccountRoleBinding (te_Name t) namespace serviceAccountName [] [] labels])
     @ (case te_TeamRBAC t of
          Some team \<Rightarrow> [newTeamRole (te_Name t) namespace labels (tr_Rules team),
                        newTeamRoleBinding (te_Name t) namespace (tr_GroupNames team) labels]
        | None \<Rightarrow> [])"

definition generateTenantResource :: "tenancy_env \<Rightarrow> tenancy_tenant \<Rightarrow> service_account_options option \<Rightarrow> resource list res" where
  "generateTenantResource E t serviceAccount =
     (case Tenancy_Validate E t of
        Some e \<Rightarrow> Inl e
      | None \<Rightarrow>
          let tenantLabels = (case te_Labels t of None \<Rightarrow> Map.empty | Some m \<Rightarrow> m);
              tenantLabels = tenantLabels(tenantLabel \<mapsto> te_Name t);
              serviceAccountName = (case serviceAccount of None \<Rightarrow> te_Name t | Some sa \<Rightarrow> sa);
              isGlobalServiceAccount = (serviceAccount \<noteq> None);
              generated = foldl (\<lambda>generated namespace. generated @
                namespaceResources t serviceAccountName isGlobalServiceAccount tenantLabels namespace) [] (te_Namespaces t)
          in case newAllowedApplicationDeployPolicy E (te_Name t) serviceAccountName (te_Namespaces t) tenantLabels of
               Inl e \<Rightarrow> Inl e
             | Inr policy \<Rightarrow>
                 let generated = generated @ [policy] in
                 case (if length (te_AllowedRepositories t) \<noteq> 0
                       then (case newAllowedRepositoriesPolicy E (te_Name t) (te_Namespaces t) (te_AllowedRepositories t) tenantLabels of
                               Inl e \<Rightarrow> Inl e | Inr policy \<Rightarrow> Inr (generated @ [policy]))
                       else Inr generated) of
                   Inl e \<Rightarrow> Inl e
                 | Inr generated \<Rightarrow>
                     (if length (te_AllowedClusters t) \<noteq> 0
                      then (case newAllowedClustersPolicy E (te_Name t) (te_Namespaces t) (te_AllowedClusters t) tenantLabels of
                              Inl e \<Rightarrow> Inl e | Inr policy \<Rightarrow> Inr (generated @ [policy]))
                      else Inr generated))"

fun generateAll :: "tenancy_env \<Rightarrow> service_account_options option \<Rightarrow> tenancy_tenant list \<Rightarrow> resource list \<Rightarrow> resource list res" where
  "generateAll E sa [] generated = Inr generated"
| "generateAll E sa (t # ts) generated =
     (case generateTenantResource E t sa of
        Inl e \<Rightarrow> Inl e
      | Inr tenantGenerated \<Rightarrow> generateAll E sa ts (generated @ tenantGenerated))"

definition GenerateTenantResources :: "tenancy_env \<Rightarrow> tenancy_config \<Rightarrow> resource list res" where
  "GenerateTenantResources E config = generateAll E (cf_ServiceAccount config) (cf_Tenants config) []"

section \<open>The rules of the policies\<close>

text \<open>
  The fields of the reviewed object that the rules read; None is undefined. A
  parameter whose value is null is read as None, and has no elements.
\<close>

record reviewed =
  rv_kind :: string
  rv_url :: "string option"
  rv_endpoint :: "string option"
  rv_secretRef :: "string option"
  rv_kubeConfigSecretRef :: "string option"
  rv_targetNamespace :: "string option"
  rv_serviceAccountName :: "string option"

definition contains_array :: "string \<Rightarrow> string list option \<Rightarrow> bool" where
  "contains_array item items = (case items of None \<Rightarrow> False | Some xs \<Rightarrow> item \<in> set xs)"

definition notContained :: "string option \<Rightarrow> string list option \<Rightarrow> bool" where
  "notContained item items = (case item of None \<Rightarrow> False | Some x \<Rightarrow> \<not> contains_array x items)"

definition repositories_violation :: "(string \<Rightarrow> string list option) \<Rightarrow> reviewed \<Rightarrow> bool" where
  "repositories_violation params x \<longleftrightarrow>
     rv_kind x = ''GitRepository'' \<and> notContained (rv_url x) (params ''git_urls'') \<or>
     rv_kind x = ''Bucket'' \<and> notContained (rv_endpoint x) (params ''bucket_endpoints'') \<or>
     rv_kind x = ''HelmRepository'' \<and> notContained (rv_url x) (params ''helm_urls'') \<or>
     rv_kind x = ''OCIRepository'' \<and> notContained (rv_url x) (params ''oci_urls'')"

definition clusters_violation :: "string list option \<Rightarrow> reviewed \<Rightarrow> bool" where
  "clusters_violation cluster_secrets x \<longleftrightarrow>
     rv_kind x = ''GitopsCluster'' \<and> notContained (rv_secretRef x) cluster_secrets \<or>
     rv_kind x = ''Kustomization'' \<and> notContained (rv_kubeConfigSecretRef x) cluster_secrets"

definition application_violation :: "string list option \<Rightarrow> string \<Rightarrow> reviewed \<Rightarrow> bool" where
  "application_violation namespaces service_account_name x \<longleftrightarrow>
     notContained (rv_targetNamespace x) namespaces \<or>
     (case rv_serviceAccountName x of None \<Rightarrow> False | Some n \<Rightarrow> n \<noteq> service_account_name)"

end
