(* ===== verification/TenancyApply.thy ===== *)
theory TenancyApply
  imports TenancyPolicies
begin

text \<open>
  pkg/tenancy: identifiers of resources, what is pruned, and the application of the
  generated resources to a cluster (tenancy.go ApplyTenants, getCurrentResources,
  cleanResources, upsert; utils.go). The client of controller-runtime, the patch
  helper of Flux and the semantic equality of Kubernetes are the fields of
  kube_client; the state is that of the client and what has been printed. A line
  that Fprintf writes to out is a message; errors of that writer are ignored by the
  code there.
\<close>

section \<open>Identifiers\<close>

definition lowerChar :: "char \<Rightarrow> char" where
  "lowerChar c = (if 65 \<le> (of_char c :: nat) \<and> of_char c \<le> (90 :: nat) then char_of (of_char c + 32 :: nat) else c)"

definition toLower :: "string \<Rightarrow> string" where
  "toLower s = map lowerChar s"

record 'k kube_client =
  kc_GroupKind :: "type_meta \<Rightarrow> string"
  kc_List :: "type_meta \<Rightarrow> string \<Rightarrow> 'k \<Rightarrow> resource list res"
  kc_Get :: "resource \<Rightarrow> 'k \<Rightarrow> resource res"
  kc_IsNotFound :: "goerror \<Rightarrow> bool"
  kc_Create :: "resource \<Rightarrow> 'k step"
  kc_Update :: "resource \<Rightarrow> 'k step"
  kc_Delete :: "resource \<Rightarrow> 'k step"
  kc_NewHelper :: "resource \<Rightarrow> 'k \<Rightarrow> goerror option"
  kc_Patch :: "resource \<Rightarrow> resource \<Rightarrow> 'k step"
  kc_EqualSubjects :: "k8s_subject list \<Rightarrow> k8s_subject list \<Rightarrow> bool"
  kc_DerivedRef :: "k8s_role_ref \<Rightarrow> k8s_role_ref \<Rightarrow> bool"
  kc_DerivedLabels :: "labels \<Rightarrow> labels \<Rightarrow> bool"
  kc_DerivedRules :: "k8s_rule list \<Rightarrow> k8s_rule list \<Rightarrow> bool"
  kc_DerivedSpec :: "policy_spec \<Rightarrow> policy_spec \<Rightarrow> bool"

definition getObjectID :: "'k kube_client \<Rightarrow> resource \<Rightarrow> string" where
  "getObjectID K obj =
     (let objectID = toLower (kc_GroupKind K (re_TypeMeta obj)) @ ''/'' @ re_Name obj
      in if re_Namespace obj \<noteq> [] then re_Namespace obj @ ''/'' @ objectID else objectID)"

definition getResourcesToDelete :: "'k kube_client \<Rightarrow> resource list \<Rightarrow> resource list \<Rightarrow> resource list" where
  "getResourcesToDelete K newResources existingResources =
     (let newResourcesMap = foldl (\<lambda>m r. insert (getObjectID K r) m) {} newResources
      in foldl (\<lambda>del r. if getObjectID K r \<notin> newResourcesMap then del @ [r] else del) [] existingResources)"

section \<open>Applying\<close>

datatype out_msg =
    CleanupFailed string goerror
  | Deleted string
  | NoLongerDefined string
  | Created string
  | Recreated string
  | Updated string

type_synonym 'k applying = "'k \<times> out_msg list"

text \<open>A request that the client makes, and a line that is printed.\<close>

definition request :: "'k step \<Rightarrow> 'k applying step" where
  "request f w = (case f (fst w) of (e, k) \<Rightarrow> (e, (k, snd w)))"

definition say :: "out_msg \<Rightarrow> 'k applying \<Rightarrow> 'k applying" where
  "say m w = (fst w, snd w @ [m])"

definition existingTypeMetas :: "tenancy_env \<Rightarrow> type_meta list" where
  "existingTypeMetas E = [namespaceTypeMeta, roleBindingTypeMeta, serviceAccountTypeMeta, roleTypeMeta, policyTypeMeta E]"

fun listAll :: "'k kube_client \<Rightarrow> 'k \<Rightarrow> type_meta list \<Rightarrow> resource list \<Rightarrow> resource list res" where
  "listAll K k [] resources = Inr resources"
| "listAll K k (tm # tms) resources =
     (case kc_List K tm tenantLabel k of
        Inl e \<Rightarrow> Inl (wrap ''failed to list tenant resources: %w'' [] e)
      | Inr items \<Rightarrow> listAll K k tms (resources @ items))"

definition getCurrentResources :: "tenancy_env \<Rightarrow> 'k kube_client \<Rightarrow> 'k \<Rightarrow> resource list res" where
  "getCurrentResources E K k = listAll K k (existingTypeMetas E) []"

definition cleanResource :: "'k kube_client \<Rightarrow> bool \<Rightarrow> resource \<Rightarrow> 'k applying \<Rightarrow> 'k applying" where
  "cleanResource K prune r w =
     (let resourceToDeleteID = getObjectID K r in
      if prune then
        (case request (kc_Delete K r) w of
           (Some e, w) \<Rightarrow> say (CleanupFailed resourceToDeleteID e) w
         | (None, w) \<Rightarrow> say (Deleted resourceToDeleteID) w)
      else say (NoLongerDefined resourceToDeleteID) w)"

definition cleanResources :: "'k kube_client \<Rightarrow> resource list \<Rightarrow> resource list \<Rightarrow> bool \<Rightarrow> 'k applying step" where
  "cleanResources K newResources existingResources prune w =
     (None, foldl (\<lambda>w r. cleanResource K prune r w) w (getResourcesToDelete K newResources existingResources))"

definition conversionPanic :: goerror where
  "conversionPanic = Panic ''interface conversion''"

definition upsertRoleBinding :: "'k kube_client \<Rightarrow> resource \<Rightarrow> k8s_subject list \<Rightarrow> k8s_role_ref \<Rightarrow> resource \<Rightarrow> 'k applying step" where
  "upsertRoleBinding K to subjects ref existing w =
     (case re_Body existing of
        RoleBindingBody subjects' ref' \<Rightarrow>
          (if \<not> kc_EqualSubjects K subjects subjects' \<or> \<not> kc_DerivedRef K ref ref' \<or>
              \<not> kc_DerivedLabels K (re_Labels to) (re_Labels existing)
           then (case request (kc_Delete K existing) w of
                   (Some e, w) \<Rightarrow> (Some e, w)
                 | (None, w) \<Rightarrow>
                     (case request (kc_Create K to) w of
                        (Some e, w) \<Rightarrow> (Some e, w)
                      | (None, w) \<Rightarrow> (None, say (Recreated (getObjectID K to)) w)))
           else (None, w))
      | _ \<Rightarrow> (Some conversionPanic, w))"

definition upsertRole :: "'k kube_client \<Rightarrow> resource \<Rightarrow> k8s_rule list \<Rightarrow> resource \<Rightarrow> 'k applying step" where
  "upsertRole K to rules existing w =
     (case re_Body existing of
        RoleBody rules' \<Rightarrow>
          (let relabel = \<not> kc_DerivedLabels K (re_Labels to) (re_Labels existing);
               existing = (if relabel then existing\<lparr> re_Labels := re_Labels to \<rparr> else existing);
               rerule = \<not> kc_DerivedRules K rules rules';
               existing = (if rerule then existing\<lparr> re_Body := RoleBody rules \<rparr> else existing)
           in if relabel \<or> rerule
              then (case request (kc_Update K existing) w of
                      (Some e, w) \<Rightarrow> (Some (wrap ''failed to update existing role: %w'' [] e), w)
                    | (None, w) \<Rightarrow> (None, say (Updated (getObjectID K to)) w))
              else (None, w))
      | _ \<Rightarrow> (Some conversionPanic, w))"

definition upsertPolicy :: "'k kube_client \<Rightarrow> resource \<Rightarrow> policy_spec \<Rightarrow> resource \<Rightarrow> 'k applying step" where
  "upsertPolicy K to spec before w =
     (case re_Body before of
        PolicyBody spec' \<Rightarrow>
          (let relabel = \<not> kc_DerivedLabels K (re_Labels to) (re_Labels before);
               existing = (if relabel then before\<lparr> re_Labels := re_Labels to \<rparr> else before);
               respec = \<not> kc_DerivedSpec K spec spec';
               existing = (if respec then existing\<lparr> re_Body := PolicyBody spec \<rparr> else existing)
           in if relabel \<or> respec
              then (case request (kc_Patch K before existing) w of
                      (Some e, w) \<Rightarrow> (Some (wrap ''failed to patch existing policy: %w'' [] e), w)
                    | (None, w) \<Rightarrow> (None, say (Updated (getObjectID K to)) w))
              else (None, w))
      | _ \<Rightarrow> (Some conversionPanic, w))"

definition upsertDefault :: "'k kube_client \<Rightarrow> resource \<Rightarrow> resource \<Rightarrow> 'k applying step" where
  "upsertDefault K obj existing w =
     (if \<not> kc_DerivedLabels K (re_Labels obj) (re_Labels existing)
      then (case request (kc_Update K (existing\<lparr> re_Labels := re_Labels obj \<rparr>)) w of
              (Some e, w) \<Rightarrow> (Some e, w)
            | (None, w) \<Rightarrow> (None, say (Updated (getObjectID K obj)) w))
      else (None, w))"

definition upsert :: "'k kube_client \<Rightarrow> resource \<Rightarrow> 'k applying step" where
  "upsert K obj w =
     (case kc_Get K obj (fst w) of
        Inl e \<Rightarrow>
          (if kc_IsNotFound K e
           then (case request (kc_Create K obj) w of
                   (Some e, w) \<Rightarrow> (Some e, w)
                 | (None, w) \<Rightarrow> (None, say (Created (getObjectID K obj)) w))
           else (Some e, w))
      | Inr existing \<Rightarrow>
          (case kc_NewHelper K existing (fst w) of
             Some e \<Rightarrow> (Some e, w)
           | None \<Rightarrow>
               (case re_Body obj of
                  RoleBindingBody subjects ref \<Rightarrow> upsertRoleBinding K obj subjects ref existing w
                | RoleBody rules \<Rightarrow> upsertRole K obj rules existing w
                | PolicyBody spec \<Rightarrow> upsertPolicy K obj spec existing w
                | _ \<Rightarrow> upsertDefault K obj existing w)))"

definition ApplyTenants :: "tenancy_env \<Rightarrow> 'k kube_client \<Rightarrow> tenancy_config \<Rightarrow> bool \<Rightarrow> 'k applying step" where
  "ApplyTenants E K config prune w =
     (case GenerateTenantResources E config of
        Inl e \<Rightarrow> (Some (wrap ''failed to generate tenant output: %w'' [] e), w)
      | Inr newResources \<Rightarrow>
          (case getCurrentResources E K (fst w) of
             Inl e \<Rightarrow> (Some (wrap ''failed to check current tenant resources: %w'' [] e), w)
           | Inr existingResources \<Rightarrow>
               (case wrapStep ''failed to clean up policies resources: %w'' []
                       (cleanResources K newResources existingResources prune) w of
                  (Some e, w) \<Rightarrow> (Some e, w)
                | (None, w) \<Rightarrow>
                    forErr (\<lambda>r. wrapStep ''failed to create resource %s: %w'' [re_Name r] (upsert K r)) newResources w)))"

section \<open>Exporting and parsing\<close>

text \<open>yaml.Marshal and the writer are parameters; so are the file and yaml.Unmarshal of Parse.\<close>

definition marshalOutput :: "tenancy_env \<Rightarrow> (resource \<Rightarrow> string res) \<Rightarrow> (string \<Rightarrow> 'w step) \<Rightarrow> resource \<Rightarrow> 'w step" where
  "marshalOutput E yamlMarshal write r out =
     (case yamlMarshal r of
        Inl e \<Rightarrow> (Some (Errf ''failed to marshal data: %v'' [tv_ErrorText E e]), out)
      | Inr data \<Rightarrow>
          (case write data out of
             (Some e, out) \<Rightarrow> (Some (Errf ''failed to write data: %v'' [tv_ErrorText E e]), out)
           | (None, out) \<Rightarrow> (None, out)))"

definition outputResources :: "tenancy_env \<Rightarrow> (resource \<Rightarrow> string res) \<Rightarrow> (string \<Rightarrow> 'w step) \<Rightarrow> resource list \<Rightarrow> 'w step" where
  "outputResources E yamlMarshal write =
     forErr (\<lambda>r. seqErr (wrapStep ''failed outputting tenant: %w'' [] (marshalOutput E yamlMarshal write r))
       (write (''---'' @ [CHR 0x0A])))"

definition ExportTenants :: "tenancy_env \<Rightarrow> (resource \<Rightarrow> string res) \<Rightarrow> (string \<Rightarrow> 'w step) \<Rightarrow> tenancy_config \<Rightarrow> 'w step" where
  "ExportTenants E yamlMarshal write config out =
     (case GenerateTenantResources E config of
        Inl e \<Rightarrow> (Some (wrap ''failed to generate tenant output: %w'' [] e), out)
      | Inr resources \<Rightarrow> outputResources E yamlMarshal write resources out)"

definition ParseTenants :: "(string \<Rightarrow> string res) \<Rightarrow>
    (string \<Rightarrow> (service_account_options option \<times> tenancy_tenant list) res) \<Rightarrow> string \<Rightarrow> tenancy_config res" where
  "ParseTenants readFile unmarshal filename =
     (case readFile filename of
        Inl e \<Rightarrow> Inl (wrap ''failed to read tenants file for export: %w'' [] e)
      | Inr tenantsYAML \<Rightarrow>
          (case unmarshal tenantsYAML of
             Inl e \<Rightarrow> Inl e
           | Inr (serviceAccount, tenants) \<Rightarrow> Inr \<lparr> cf_ServiceAccount = serviceAccount, cf_Tenants = tenants \<rparr>))"

end
