(* ===== verification/TenancyJson.thy ===== *)
theory TenancyJson
  imports TenancyPolicies
begin

text \<open>
  The parameters of the tenancy policies: what json.Marshal writes is read back
  unchanged, and so the repository policy reports exactly the sources that are not in
  the list of the tenant.
\<close>

section \<open>Reading JSON\<close>

definition hexValue :: "char \<Rightarrow> nat option" where
  "hexValue c = find (\<lambda>n. hexDigit n = c) [0..<16]"

text \<open>The characters up to the closing quote, and what follows it.\<close>

fun readChars :: "string \<Rightarrow> (string \<times> string) option" where
  "readChars [] = None"
| "readChars (c # cs) =
     (if c = CHR 0x22 then Some ([], cs)
      else if c = CHR 0x5C then
        (case cs of
           [] \<Rightarrow> None
         | d # ds \<Rightarrow>
             (if d = CHR ''u'' then
                (case ds of
                   a # b # h # l # rest \<Rightarrow>
                     (case (hexValue h, hexValue l, readChars rest) of
                        (Some m, Some n, Some (s, t)) \<Rightarrow> Some (char_of (16 * m + n) # s, t)
                      | _ \<Rightarrow> None)
                 | _ \<Rightarrow> None)
              else map_option (\<lambda>(s, t). ((if d = CHR ''n'' then CHR 0x0A else if d = CHR ''r'' then CHR 0x0D
                     else if d = CHR ''t'' then CHR 0x09 else d) # s, t)) (readChars ds)))
      else map_option (\<lambda>(s, t). (c # s, t)) (readChars cs))"

lemma readChars_length: "readChars cs = Some (s, t) \<Longrightarrow> length t < length cs"
proof (induction cs arbitrary: s t rule: readChars.induct)
  case (2 c cs)
  show ?case
  proof (cases "c = CHR 0x22 \<or> c \<noteq> CHR 0x5C")
    case True
    then show ?thesis using 2 by (auto split: if_splits)
  next
    case False
    then show ?thesis using 2 by (force split: if_splits list.splits option.splits prod.splits)
  qed
qed simp

function readItems :: "string \<Rightarrow> string list option" where
  "readItems cs =
     (case cs of
        [] \<Rightarrow> None
      | q # ds \<Rightarrow>
          if q \<noteq> CHR 0x22 then None
          else (case readChars ds of
                  None \<Rightarrow> None
                | Some (s, rest) \<Rightarrow>
                    (if rest = '']'' then Some [s]
                     else case rest of
                       [] \<Rightarrow> None
                     | c # rest' \<Rightarrow> if c = CHR '','' then map_option (Cons s) (readItems rest') else None)))"
  by pat_completeness auto
termination
  by (relation "measure length") (auto dest: readChars_length)

declare readItems.simps [simp del]

definition readStrings :: "string \<Rightarrow> string list option option" where
  "readStrings s =
     (if s = ''null'' then Some None
      else if s = ''[]'' then Some (Some [])
      else case s of [] \<Rightarrow> None | c # cs \<Rightarrow> if c = CHR ''['' then map_option Some (readItems cs) else None)"

lemma hexValue_hexDigit: "n < 16 \<Longrightarrow> hexValue (hexDigit n) = Some n"
proof -
  have "\<forall>n\<in>set [0..<16]. hexValue (hexDigit n) = Some n" by code_simp
  then show "n < 16 \<Longrightarrow> hexValue (hexDigit n) = Some n" by simp
qed

lemma readChars_jsonChar: "readChars (jsonChar c @ rest) = map_option (\<lambda>(s, t). (c # s, t)) (readChars rest)"
proof -
  consider (esc) "c = CHR 0x22 \<or> c = CHR 0x5C" | (nl) "c \<in> {CHR 0x0A, CHR 0x0D, CHR 0x09}"
    | (hex) "c \<notin> {CHR 0x22, CHR 0x5C, CHR 0x0A, CHR 0x0D, CHR 0x09}"
        "of_char c < (32 :: nat) \<or> c \<in> {CHR ''<'', CHR ''>'', CHR ''&''}"
    | (plain) "c \<notin> {CHR 0x22, CHR 0x5C, CHR 0x0A, CHR 0x0D, CHR 0x09}"
        "\<not> (of_char c < (32 :: nat) \<or> c \<in> {CHR ''<'', CHR ''>'', CHR ''&''})" by blast
  then show ?thesis
  proof cases
    case hex
    have "of_char c < (256 :: nat)" by simp
    then have "hexValue (hexDigit (of_char c div 16)) = Some (of_char c div 16)"
      "hexValue (hexDigit (of_char c mod 16)) = Some (of_char c mod 16)"
      by (intro hexValue_hexDigit; simp add: less_mult_imp_div_less)+
    moreover have "char_of (16 * (of_char c div 16) + of_char c mod 16 :: nat) = c" by simp
    moreover have "jsonChar c = [CHR 0x5C, CHR ''u'', CHR ''0'', CHR ''0'', hexDigit (of_char c div 16), hexDigit (of_char c mod 16)]"
      using hex by (simp add: jsonChar_def)
    ultimately show ?thesis by (simp split: option.splits prod.splits)
  qed (auto simp: jsonChar_def)
qed

lemma readChars_jsonString: "readChars (concat (map jsonChar s) @ CHR 0x22 # rest) = Some (s, rest)"
  by (induction s) (simp_all add: readChars_jsonChar)

lemma readItems_json:
  "xs \<noteq> [] \<Longrightarrow> readItems (joinStr '','' (map jsonString xs) @ '']'') = Some xs"
proof (induction xs rule: induct_list012)
  case (2 x)
  have "jsonString x @ '']'' = CHR 0x22 # (concat (map jsonChar x) @ CHR 0x22 # '']'')"
    by (simp add: jsonString_def)
  then show ?case by (simp add: readItems.simps [of "_ # _"] readChars_jsonString)
next
  case (3 x y zs)
  let ?rest = "joinStr '','' (map jsonString (y # zs)) @ '']''"
  have "joinStr '','' (map jsonString (x # y # zs)) @ '']'' =
      CHR 0x22 # (concat (map jsonChar x) @ CHR 0x22 # (CHR '','' # ?rest))"
    by (simp add: jsonString_def)
  then show ?case using 3 by (simp only: readItems.simps [of "_ # _"] list.case readChars_jsonString) simp
qed simp

lemma joinStr_json_head: "xs \<noteq> [] \<Longrightarrow> \<exists>cs. joinStr '','' (map jsonString xs) = CHR 0x22 # cs"
  by (cases xs) (auto simp: jsonString_def joinStr_Cons)

lemma read_json: "readStrings (jsonStrings xs) = Some xs"
proof (cases xs)
  case None
  then show ?thesis by (simp add: readStrings_def)
next
  case (Some ys)
  show ?thesis
  proof (cases "ys = []")
    case False
    then obtain cs where "joinStr '','' (map jsonString ys) = CHR 0x22 # cs" using joinStr_json_head by blast
    then show ?thesis using readItems_json [OF False] Some by (simp add: readStrings_def)
  qed (simp add: Some readStrings_def)
qed

text \<open>The parameters of a policy are read back as they were given: from the JSON that is written
  for a slice of strings, whatever characters they hold, the same slice is read, and null for a slice
  that was never appended to.\<close>

theorem policy_params_roundtrip:
  "readStrings (jsonStrings xs) = Some xs"
  by (rule read_json)

section \<open>The repository policy\<close>

definition paramValue :: "policy_parameters list \<Rightarrow> string \<Rightarrow> string list option" where
  "paramValue ps name = (case find (\<lambda>p. pp_Name p = name) ps of
     None \<Rightarrow> None | Some p \<Rightarrow> (case readStrings (pp_Value p) of None \<Rightarrow> None | Some v \<Rightarrow> v))"

definition urlsOf :: "string \<Rightarrow> allowed_repository list \<Rightarrow> string list" where
  "urlsOf kind repos = map ar_URL (filter (\<lambda>r. ar_Kind r = kind) repos)"

definition sliceOf :: "'a list \<Rightarrow> 'a list option" where
  "sliceOf xs = (if xs = [] then None else Some xs)"

lemma appendSlice_sliceOf [simp]: "appendSlice (sliceOf xs) x = sliceOf (xs @ [x])"
  by (simp add: appendSlice_def sliceOf_def)

lemma contains_sliceOf [simp]: "contains_array x (sliceOf xs) \<longleftrightarrow> x \<in> set xs"
  by (simp add: contains_array_def sliceOf_def)

lemma sortRepository_foldl:
  "foldl (\<lambda>w r. sortRepository r w) (sliceOf g, sliceOf b, sliceOf h, sliceOf c) repos =
     (sliceOf (g @ urlsOf ''GitRepository'' repos), sliceOf (b @ urlsOf ''Bucket'' repos),
      sliceOf (h @ urlsOf ''HelmRepository'' repos), sliceOf (c @ urlsOf ''OCIRepository'' repos))"
  by (induction repos arbitrary: g b h c) (simp_all add: sortRepository_def policy_kind_defs urlsOf_def)

lemma sortRepositories:
  "foldl (\<lambda>w r. sortRepository r w) (None, None, None, None) repos =
     (sliceOf (urlsOf ''GitRepository'' repos), sliceOf (urlsOf ''Bucket'' repos),
      sliceOf (urlsOf ''HelmRepository'' repos), sliceOf (urlsOf ''OCIRepository'' repos))"
  using sortRepository_foldl [of "[]" "[]" "[]" "[]" repos] by (simp add: sliceOf_def)

text \<open>Where a source comes from: the endpoint of a bucket, the URL of the other kinds.\<close>

definition sourceURL :: "reviewed \<Rightarrow> string option" where
  "sourceURL x = (if rv_kind x = ''Bucket'' then rv_endpoint x else rv_url x)"

text \<open>C32: The policy that a tenant's allowed repositories become applies to the tenant's namespaces
  and to the four kinds of sources, and its rules, read with the parameters that were generated,
  report exactly the sources with a URL that the tenant does not list for their kind.\<close>

theorem repositories_policy_spec:
  assumes "newAllowedRepositoriesPolicy E name namespaces repos labels = Inr p"
  shows "\<exists>spec. re_Body p = PolicyBody spec \<and> pt_Namespaces (ps_Targets spec) = namespaces \<and>
    pt_Kinds (ps_Targets spec) = policyRepoKinds \<and> ps_Code spec = repoPolicyCode \<and>
    (\<forall>x. repositories_violation (paramValue (ps_Parameters spec)) x \<longleftrightarrow>
       rv_kind x \<in> set policyRepoKinds \<and>
       (\<exists>u. sourceURL x = Some u \<and> \<not> (\<exists>r\<in>set repos. ar_Kind r = rv_kind x \<and> ar_URL r = u)))"
proof -
  define params where "params = [\<lparr> pp_Name = ''git_urls'', pp_Type = ''array'', pp_Value = jsonStrings (sliceOf (urlsOf ''GitRepository'' repos)) \<rparr>,
     \<lparr> pp_Name = ''bucket_endpoints'', pp_Type = ''array'', pp_Value = jsonStrings (sliceOf (urlsOf ''Bucket'' repos)) \<rparr>,
     \<lparr> pp_Name = ''helm_urls'', pp_Type = ''array'', pp_Value = jsonStrings (sliceOf (urlsOf ''HelmRepository'' repos)) \<rparr>,
     \<lparr> pp_Name = ''oci_urls'', pp_Type = ''array'', pp_Value = jsonStrings (sliceOf (urlsOf ''OCIRepository'' repos)) \<rparr>]"
  have pvals: "paramValue params ''git_urls'' = sliceOf (urlsOf ''GitRepository'' repos)"
    "paramValue params ''bucket_endpoints'' = sliceOf (urlsOf ''Bucket'' repos)"
    "paramValue params ''helm_urls'' = sliceOf (urlsOf ''HelmRepository'' repos)"
    "paramValue params ''oci_urls'' = sliceOf (urlsOf ''OCIRepository'' repos)"
    by (simp_all add: params_def paramValue_def read_json)
  have listed: "u \<in> set (urlsOf k repos) \<longleftrightarrow> (\<exists>r\<in>set repos. ar_Kind r = k \<and> ar_URL r = u)" for u k
    by (auto simp: urlsOf_def)
  have violation: "repositories_violation (paramValue params) x \<longleftrightarrow>
       rv_kind x \<in> set policyRepoKinds \<and>
       (\<exists>u. sourceURL x = Some u \<and> \<not> (\<exists>r\<in>set repos. ar_Kind r = rv_kind x \<and> ar_URL r = u))" for x
    unfolding repositories_violation_def pvals notContained_def sourceURL_def policyRepoKinds_def policy_kind_defs
    by (auto simp: listed split: option.splits)
  obtain spec where "re_Body p = PolicyBody spec" "pt_Namespaces (ps_Targets spec) = namespaces"
    "pt_Kinds (ps_Targets spec) = policyRepoKinds" "ps_Code spec = repoPolicyCode" "ps_Parameters spec = params"
    using assms by (auto simp: newAllowedRepositoriesPolicy_def sortRepositories generatePolicyRepoParams_def
        tenancyPolicy_def Let_def params_def)
  then show ?thesis using violation by (intro exI [of _ spec]) simp
qed

definition exampleTenancyEnv :: tenancy_env where
  "exampleTenancyEnv = \<lparr> tv_IsQualifiedName = (\<lambda>n. if n = [] then [''name part must be non-empty''] else []),
     tv_PolicyKind = ''Policy'', tv_PolicyGroupVersion = ''pac.weave.works/v2beta2'',
     tv_PolicyKubernetesProvider = ''kubernetes'', tv_ErrorText = (\<lambda>e. ''error'') \<rparr>"

lemma repositories_policy_spec_witness:
  "\<exists>p spec. newAllowedRepositoriesPolicy exampleTenancyEnv ''t'' [''ns'']
       [\<lparr> ar_URL = ''https://good'', ar_Kind = ''GitRepository'' \<rparr>] Map.empty = Inr p \<and> re_Body p = PolicyBody spec \<and>
     repositories_violation (paramValue (ps_Parameters spec)) \<lparr> rv_kind = ''GitRepository'', rv_url = Some ''https://bad'',
       rv_endpoint = None, rv_secretRef = None, rv_kubeConfigSecretRef = None, rv_targetNamespace = None,
       rv_serviceAccountName = None \<rparr>"
proof -
  let ?repos = "[\<lparr> ar_URL = ''https://good'', ar_Kind = ''GitRepository'' \<rparr>]"
  obtain p where p: "newAllowedRepositoriesPolicy exampleTenancyEnv ''t'' [''ns''] ?repos Map.empty = Inr p"
    by (cases "newAllowedRepositoriesPolicy exampleTenancyEnv ''t'' [''ns''] ?repos Map.empty")
      (simp_all add: newAllowedRepositoriesPolicy_def generatePolicyRepoParams_def Let_def split: prod.splits)
  from repositories_policy_spec [OF p] obtain spec where "re_Body p = PolicyBody spec"
    "\<And>x. repositories_violation (paramValue (ps_Parameters spec)) x \<longleftrightarrow>
       rv_kind x \<in> set policyRepoKinds \<and>
       (\<exists>u. sourceURL x = Some u \<and> \<not> (\<exists>r\<in>set ?repos. ar_Kind r = rv_kind x \<and> ar_URL r = u))" by blast
  then show ?thesis using p
    by (intro exI [of _ p] exI [of _ spec]) (simp add: sourceURL_def policyRepoKinds_def policy_kind_defs)
qed

end
