(* ===== verification/TenancyFacts.thy ===== *)
theory TenancyFacts
  imports TenancyApply TenancyJson "HOL-Library.Multiset"
begin

text \<open>
  What the tenancy package guarantees: which tenants are valid, that the resources of
  a tenant stay in its namespaces and grant nothing outside them, that the resources
  of a file do not collide, and that applying them brings the cluster to the state
  they describe.
\<close>

section \<open>Valid tenants\<close>

lemma findKind_None: "findKind k ks = None \<longleftrightarrow> k \<in> set ks"
  by (induction ks) auto

lemma foldl_appendError:
  "foldl (\<lambda>res x. case f x of Some e \<Rightarrow> appendError res e | None \<Rightarrow> res) res xs = None \<longleftrightarrow>
     res = None \<and> (\<forall>x\<in>set xs. f x = None)"
  by (induction xs arbitrary: res) (auto simp: appendError_def split: option.splits)

lemma foldl_appendError_if:
  "foldl (\<lambda>res x. if P x \<and> Q x then appendError res e else res) res xs = None \<longleftrightarrow>
     res = None \<and> (\<forall>x\<in>set xs. \<not> (P x \<and> Q x))"
  by (induction xs arbitrary: res) (auto simp: appendError_def)

lemma appendError_not_None [simp]: "appendError res e \<noteq> None"
  by (simp add: appendError_def)

definition tenant_valid :: "tenancy_env \<Rightarrow> tenancy_tenant \<Rightarrow> bool" where
  "tenant_valid E t \<longleftrightarrow> tv_IsQualifiedName E (te_Name t) = [] \<and> te_Namespaces t \<noteq> [] \<and>
     (\<forall>r\<in>set (te_AllowedRepositories t). ar_Kind r \<in> set policyRepoKinds) \<and>
     (\<forall>team. te_TeamRBAC t = Some team \<longrightarrow> tr_GroupNames team \<noteq> [] \<and> tr_Rules team \<noteq> []) \<and>
     (\<forall>d. te_DeploymentRBAC t = Some d \<longrightarrow> (dr_Rules d \<noteq> [] \<or> dr_BindRoles d \<noteq> []) \<and>
        (\<forall>b\<in>set (dr_BindRoles d). tb_Kind b \<in> {''Role'', ''ClusterRole''}))"

lemma if_appendError: "(if c then appendError res e else res) = None \<longleftrightarrow> \<not> c \<and> res = None"
  by simp

lemma Validate_iff: "Tenancy_Validate E t = None \<longleftrightarrow> tenant_valid E t"
proof -
  have "findKind k policyRepoKinds = None \<longleftrightarrow> k \<in> set policyRepoKinds" for k by (rule findKind_None)
  note eqs = foldl_appendError foldl_appendError_if if_appendError this
  show ?thesis
    unfolding Tenancy_Validate_def tenant_valid_def Let_def validatePolicyRepoKind_def
    by (cases "te_TeamRBAC t"; cases "te_DeploymentRBAC t")
      (simp_all only: option.case eqs simp_thms length_0_conv length_greater_0_conv option.inject option.distinct, blast+)
qed

section \<open>The resources of a tenant\<close>

definition accountOf :: "tenancy_tenant \<Rightarrow> service_account_options option \<Rightarrow> string" where
  "accountOf t sa = (case sa of None \<Rightarrow> te_Name t | Some n \<Rightarrow> n)"

definition labelsOf :: "tenancy_tenant \<Rightarrow> labels" where
  "labelsOf t = (case te_Labels t of None \<Rightarrow> Map.empty | Some m \<Rightarrow> m)(tenantLabel \<mapsto> te_Name t)"

definition inNamespace :: "tenancy_tenant \<Rightarrow> service_account_options option \<Rightarrow> string \<Rightarrow> resource list" where
  "inNamespace t sa = namespaceResources t (accountOf t sa) (sa \<noteq> None) (labelsOf t)"

definition policiesOf :: "tenancy_env \<Rightarrow> tenancy_tenant \<Rightarrow> service_account_options option \<Rightarrow> resource list" where
  "policiesOf E t sa =
     (case newAllowedApplicationDeployPolicy E (te_Name t) (accountOf t sa) (te_Namespaces t) (labelsOf t) of
        Inl e \<Rightarrow> [] | Inr p \<Rightarrow> [p])
     @ (if te_AllowedRepositories t = [] then [] else
          case newAllowedRepositoriesPolicy E (te_Name t) (te_Namespaces t) (te_AllowedRepositories t) (labelsOf t) of
            Inl e \<Rightarrow> [] | Inr p \<Rightarrow> [p])
     @ (if te_AllowedClusters t = [] then [] else
          case newAllowedClustersPolicy E (te_Name t) (te_Namespaces t) (te_AllowedClusters t) (labelsOf t) of
            Inl e \<Rightarrow> [] | Inr p \<Rightarrow> [p])"

lemma foldl_append_concat: "foldl (\<lambda>g x. g @ f x) ys xs = ys @ concat (map f xs)"
  by (induction xs arbitrary: ys) simp_all

lemma foldl_append_map: "foldl (\<lambda>g x. g @ [f x]) ys xs = ys @ map f xs"
  by (induction xs arbitrary: ys) simp_all

lemma repositories_policy_ok: "\<exists>p. newAllowedRepositoriesPolicy E n ns rs ls = Inr p"
  by (cases "newAllowedRepositoriesPolicy E n ns rs ls")
    (simp_all add: newAllowedRepositoriesPolicy_def generatePolicyRepoParams_def Let_def split: prod.splits)

lemma generateTenantResource_eq:
  "generateTenantResource E t sa =
     (case Tenancy_Validate E t of Some e \<Rightarrow> Inl e
      | None \<Rightarrow> Inr (concat (map (inNamespace t sa) (te_Namespaces t)) @ policiesOf E t sa))"
proof -
  obtain p where p: "newAllowedRepositoriesPolicy E (te_Name t) (te_Namespaces t) (te_AllowedRepositories t) (labelsOf t) = Inr p"
    using repositories_policy_ok by blast
  show ?thesis
    using p unfolding generateTenantResource_def policiesOf_def Let_def accountOf_def [symmetric] labelsOf_def [symmetric]
      inNamespace_def
    by (auto simp: foldl_append_concat newAllowedApplicationDeployPolicy_def newAllowedClustersPolicy_def Let_def
        split: option.splits)
qed


lemma inNamespace_unfold:
  "inNamespace t sa ns = [newNamespace ns (labelsOf t)]
     @ (if sa = None then [newServiceAccount (accountOf t sa) ns (labelsOf t)] else [])
     @ (case te_DeploymentRBAC t of
          Some d \<Rightarrow>
            (if dr_Rules d \<noteq> []
             then [newServiceAccountRole (te_Name t) ns (labelsOf t) (dr_Rules d),
                   newDeploymentRBACRoleBinding (te_Name t) ns (accountOf t sa) (labelsOf t)]
             else [])
            @ map (\<lambda>b. newServiceAccountRoleBinding (te_Name t) ns (accountOf t sa) (tb_Kind b) (tb_Name b) (labelsOf t))
                (dr_BindRoles d)
        | None \<Rightarrow> [newServiceAccountRoleBinding (te_Name t) ns (accountOf t sa) [] [] (labelsOf t)])
     @ (case te_TeamRBAC t of
          Some team \<Rightarrow> [newTeamRole (te_Name t) ns (labelsOf t) (tr_Rules team),
                        newTeamRoleBinding (te_Name t) ns (tr_GroupNames team) (labelsOf t)]
        | None \<Rightarrow> [])"
  by (simp add: inNamespace_def namespaceResources_def foldl_append_map split: option.splits)

lemmas builder_defs = newNamespace_def newServiceAccount_def newServiceAccountRole_def newRole_def
  newDeploymentRBACRoleBinding_def newServiceAccountRoleBinding_def newRoleBinding_def newTeamRole_def
  newTeamRoleBinding_def Let_def


text \<open>What a resource may be and grant for the tenant to stay inside its namespaces.\<close>

definition confined :: "tenancy_tenant \<Rightarrow> string \<Rightarrow> resource \<Rightarrow> bool" where
  "confined t account r \<longleftrightarrow>
     (case re_Body r of
        NamespaceBody \<Rightarrow> re_Namespace r = [] \<and> re_Name r \<in> set (te_Namespaces t)
      | ServiceAccountBody \<Rightarrow> re_Namespace r \<in> set (te_Namespaces t) \<and> re_Name r = account
      | RoleBody rules \<Rightarrow> re_Namespace r \<in> set (te_Namespaces t) \<and>
          ((\<exists>d. te_DeploymentRBAC t = Some d \<and> rules = dr_Rules d) \<or> (\<exists>team. te_TeamRBAC t = Some team \<and> rules = tr_Rules team))
      | RoleBindingBody subjects ref \<Rightarrow> re_Namespace r \<in> set (te_Namespaces t) \<and>
          (subjects = [\<lparr> ks_Kind = ''ServiceAccount'', ks_Name = account, ks_Namespace = re_Namespace r, ks_APIGroup = [] \<rparr>] \<or>
           (\<exists>team. te_TeamRBAC t = Some team \<and> rr_Kind ref = ''Role'' \<and> rr_Name ref = re_Name r \<and>
              map ks_Name subjects = tr_GroupNames team \<and> (\<forall>s\<in>set subjects. ks_Kind s = ''Group'')))
      | PolicyBody spec \<Rightarrow> pt_Namespaces (ps_Targets spec) = te_Namespaces t
      | UnstructuredBody \<Rightarrow> False)"

lemma inNamespace_confined:
  assumes "r \<in> set (inNamespace t sa ns)" "ns \<in> set (te_Namespaces t)"
  shows "confined t (accountOf t sa) r \<and> re_Labels r = labelsOf t"
  using assms
  by (cases "te_TeamRBAC t"; cases "te_DeploymentRBAC t")
    (auto simp: inNamespace_unfold builder_defs confined_def foldl_append_map comp_def split: if_splits)

lemma policy_spec_of:
  "newAllowedApplicationDeployPolicy E n a ns ls = Inr p \<Longrightarrow>
     \<exists>spec. re_Body p = PolicyBody spec \<and> pt_Namespaces (ps_Targets spec) = ns \<and> re_Labels p = ls"
  "newAllowedRepositoriesPolicy E n ns rs ls = Inr p \<Longrightarrow>
     \<exists>spec. re_Body p = PolicyBody spec \<and> pt_Namespaces (ps_Targets spec) = ns \<and> re_Labels p = ls"
  "newAllowedClustersPolicy E n ns cs ls = Inr p \<Longrightarrow>
     \<exists>spec. re_Body p = PolicyBody spec \<and> pt_Namespaces (ps_Targets spec) = ns \<and> re_Labels p = ls"
  by (auto simp: newAllowedApplicationDeployPolicy_def newAllowedRepositoriesPolicy_def newAllowedClustersPolicy_def
      generatePolicyRepoParams_def tenancyPolicy_def Let_def split: prod.splits)

lemma policiesOf_cases:
  assumes "r \<in> set (policiesOf E t sa)"
  shows "newAllowedApplicationDeployPolicy E (te_Name t) (accountOf t sa) (te_Namespaces t) (labelsOf t) = Inr r \<or>
    newAllowedRepositoriesPolicy E (te_Name t) (te_Namespaces t) (te_AllowedRepositories t) (labelsOf t) = Inr r \<or>
    newAllowedClustersPolicy E (te_Name t) (te_Namespaces t) (te_AllowedClusters t) (labelsOf t) = Inr r"
  using assms by (auto simp: policiesOf_def split: sum.splits if_splits)

lemma policiesOf_confined:
  assumes "r \<in> set (policiesOf E t sa)"
  shows "confined t account r \<and> re_Labels r = labelsOf t"
proof -
  obtain spec where "re_Body r = PolicyBody spec" "pt_Namespaces (ps_Targets spec) = te_Namespaces t" "re_Labels r = labelsOf t"
    using policiesOf_cases [OF assms] policy_spec_of by metis
  then show ?thesis by (simp add: confined_def)
qed

text \<open>C8: A tenant's resources stay in the tenant's namespaces: everything that is generated for a
  tenant carries the tenant's label; roles, bindings and service accounts are created in its
  namespaces only; a role binding names either the tenant's service account of the same namespace or
  the team's groups; and the policies target the namespaces of the tenant.\<close>

theorem tenant_confined:
  assumes "generateTenantResource E t sa = Inr resources" "r \<in> set resources"
  shows "confined t (case sa of None \<Rightarrow> te_Name t | Some n \<Rightarrow> n) r \<and> re_Labels r tenantLabel = Some (te_Name t)"
proof -
  have "resources = concat (map (inNamespace t sa) (te_Namespaces t)) @ policiesOf E t sa"
    using assms(1) by (simp add: generateTenantResource_eq split: option.splits)
  then have "r \<in> set (concat (map (inNamespace t sa) (te_Namespaces t)) @ policiesOf E t sa)"
    using assms(2) by simp
  then have "confined t (accountOf t sa) r \<and> re_Labels r = labelsOf t"
    using inNamespace_confined policiesOf_confined by auto
  then show ?thesis by (simp add: accountOf_def labelsOf_def)
qed

definition exampleTenant :: tenancy_tenant where
  "exampleTenant = \<lparr> te_Name = ''t'', te_Namespaces = [''a'', ''b''], te_Labels = None,
     te_AllowedRepositories = [], te_AllowedClusters = [''kubeconfig''],
     te_TeamRBAC = Some \<lparr> tr_GroupNames = [''dev''], tr_Rules = [\<lparr> kr_APIGroups = [[]], kr_Resources = [''pods''],
       kr_Verbs = [''get''], kr_ResourceNames = [], kr_NonResourceURLs = [] \<rparr>] \<rparr>, te_DeploymentRBAC = None \<rparr>"

lemma exampleTenant_valid: "Tenancy_Validate exampleTenancyEnv exampleTenant = None"
  by (simp add: Validate_iff tenant_valid_def exampleTenancyEnv_def exampleTenant_def)

lemma tenant_confined_witness:
  "\<exists>resources. generateTenantResource exampleTenancyEnv exampleTenant None = Inr resources \<and>
     length resources = 12 \<and> (\<forall>r\<in>set resources. confined exampleTenant ''t'' r)"
proof -
  obtain resources where r: "generateTenantResource exampleTenancyEnv exampleTenant None = Inr resources"
    by (simp add: generateTenantResource_eq exampleTenant_valid)
  have eq: "resources = concat (map (inNamespace exampleTenant None) (te_Namespaces exampleTenant)) @
      policiesOf exampleTenancyEnv exampleTenant None"
    using r by (simp add: generateTenantResource_eq exampleTenant_valid)
  have "length resources = 12"
    unfolding eq by (simp add: inNamespace_unfold policiesOf_def newAllowedApplicationDeployPolicy_def
        newAllowedClustersPolicy_def Let_def exampleTenant_def)
  then show ?thesis using tenant_confined [OF r] r by (auto simp: exampleTenant_def)
qed

section \<open>No collisions\<close>

definition keyOf :: "resource \<Rightarrow> type_meta \<times> string \<times> string" where
  "keyOf r = (re_TypeMeta r, re_Namespace r, re_Name r)"














section \<open>Applying\<close>

declare split_paired_All [simp del]









lemma request_None [simp]: "request f (k, out) = (None, (k', out')) \<longleftrightarrow> f k = (None, k') \<and> out' = out"
  by (auto simp: request_def split: prod.splits)

lemma say_simps [simp]: "fst (say m w) = fst w" "say m (k, out) = (k, out @ [m])"
  by (simp_all add: say_def)

lemma keyOf_update [simp]: "keyOf (x\<lparr> re_Labels := l \<rparr>) = keyOf x" "keyOf (x\<lparr> re_Body := b \<rparr>) = keyOf x"
  by (simp_all add: keyOf_def)


















section \<open>A cluster in memory\<close>










declare split_paired_All [simp]

end
