(* ===== verification/Sorting.thy ===== *)
theory Sorting
  imports Prelude "HOL-Library.Multiset"
begin

text \<open>
  sort.Slice with a function that compares two elements, and the order of Go strings.
  sort.Slice need not be stable; where the function is a strict linear order on the
  elements, there is only one sorted list of them.
\<close>

text \<open>A range over a Go map visits its keys in any order.\<close>

type_synonym visit = "string set \<Rightarrow> string list"

definition visit_ok :: "visit \<Rightarrow> bool" where
  "visit_ok visit \<longleftrightarrow> (\<forall>K. finite K \<longrightarrow> set (visit K) = K \<and> distinct (visit K))"

fun insertBy :: "('a \<Rightarrow> 'a \<Rightarrow> bool) \<Rightarrow> 'a \<Rightarrow> 'a list \<Rightarrow> 'a list" where
  "insertBy lt x [] = [x]"
| "insertBy lt x (y # ys) = (if lt y x then y # insertBy lt x ys else x # y # ys)"

definition sortSlice :: "('a \<Rightarrow> 'a \<Rightarrow> bool) \<Rightarrow> 'a list \<Rightarrow> 'a list" where
  "sortSlice lt xs = foldr (insertBy lt) xs []"

fun stringLess :: "string \<Rightarrow> string \<Rightarrow> bool" where
  "stringLess [] ys = (ys \<noteq> [])"
| "stringLess (x # xs) [] = False"
| "stringLess (x # xs) (y # ys) = ((of_char x :: nat) < of_char y \<or> x = y \<and> stringLess xs ys)"

text \<open>sets.NewString(names...).List(): the names sorted, each once.\<close>

definition sortedSet :: "string list \<Rightarrow> string list" where
  "sortedSet xs = sortSlice stringLess (remdups xs)"

lemma mset_insertBy [simp]: "mset (insertBy lt x ys) = add_mset x (mset ys)"
  by (induction ys) auto

lemma mset_sortSlice [simp]: "mset (sortSlice lt xs) = mset xs"
  by (induction xs) (auto simp: sortSlice_def)

lemma set_insertBy [simp]: "set (insertBy lt x ys) = insert x (set ys)"
  by (induction ys) auto

lemma set_sortSlice [simp]: "set (sortSlice lt xs) = set xs"
  using mset_eq_setD [OF mset_sortSlice] .

lemma length_sortSlice [simp]: "length (sortSlice lt xs) = length xs"
  using mset_eq_length [OF mset_sortSlice] .

lemma distinct_sortSlice [simp]: "distinct (sortSlice lt xs) = distinct xs"
  using mset_eq_imp_distinct_iff [OF mset_sortSlice] .

lemma sortSlice_map: "sortSlice lt (map f xs) = map f (sortSlice (\<lambda>x y. lt (f x) (f y)) xs)"
proof -
  have "insertBy lt (f x) (map f ys) = map f (insertBy (\<lambda>x y. lt (f x) (f y)) x ys)" for x ys
    by (induction ys) auto
  then show ?thesis by (induction xs) (simp_all add: sortSlice_def)
qed

text \<open>A strict linear order on a set.\<close>

definition linear_on :: "'a set \<Rightarrow> ('a \<Rightarrow> 'a \<Rightarrow> bool) \<Rightarrow> bool" where
  "linear_on A lt \<longleftrightarrow> (\<forall>x\<in>A. \<not> lt x x) \<and> (\<forall>x\<in>A. \<forall>y\<in>A. \<forall>z\<in>A. lt x y \<longrightarrow> lt y z \<longrightarrow> lt x z) \<and>
     (\<forall>x\<in>A. \<forall>y\<in>A. x \<noteq> y \<longrightarrow> lt x y \<or> lt y x)"

lemma linear_onD:
  assumes "linear_on A lt"
  shows "x \<in> A \<Longrightarrow> \<not> lt x x"
    and "lt x y \<Longrightarrow> lt y z \<Longrightarrow> x \<in> A \<Longrightarrow> y \<in> A \<Longrightarrow> z \<in> A \<Longrightarrow> lt x z"
    and "x \<in> A \<Longrightarrow> y \<in> A \<Longrightarrow> x \<noteq> y \<Longrightarrow> \<not> lt x y \<Longrightarrow> lt y x"
  using assms unfolding linear_on_def by blast+

lemma linear_on_subset: "linear_on A lt \<Longrightarrow> B \<subseteq> A \<Longrightarrow> linear_on B lt"
  unfolding linear_on_def by blast

lemma linear_on_inv: "linear_on (f ` A) lt \<Longrightarrow> inj_on f A \<Longrightarrow> linear_on A (\<lambda>x y. lt (f x) (f y))"
  unfolding linear_on_def inj_on_def by blast

lemma insertBy_sorted_wrt:
  assumes "linear_on A lt" "x \<in> A" "set ys \<subseteq> A" "x \<notin> set ys" "sorted_wrt lt ys"
  shows "sorted_wrt lt (insertBy lt x ys)"
  using assms(3-)
proof (induction ys)
  case (Cons y ys)
  then have y: "y \<in> A" "set ys \<subseteq> A" "x \<noteq> y" by auto
  show ?case
  proof (cases "lt y x")
    case False
    then have xy: "lt x y" using linear_onD(3) [OF assms(1) y(1) assms(2)] y(3) by blast
    have "lt x z" if "z \<in> set ys" for z
      using linear_onD(2) [OF assms(1) xy _ assms(2) y(1)] Cons.prems(3) y(2) that by auto
    with False xy Cons.prems show ?thesis by simp
  qed (use Cons in auto)
qed simp

lemma sortSlice_sorted_wrt:
  "linear_on (set xs) lt \<Longrightarrow> distinct xs \<Longrightarrow> sorted_wrt lt (sortSlice lt xs)"
proof (induction xs)
  case (Cons x xs)
  have "sorted_wrt lt (sortSlice lt xs)"
    using Cons linear_on_subset [OF Cons.prems(1), of "set xs"] by auto
  then have "sorted_wrt lt (insertBy lt x (sortSlice lt xs))"
    using Cons.prems by (intro insertBy_sorted_wrt [of "set (x # xs)"]) auto
  then show ?case by (simp add: sortSlice_def)
qed (simp add: sortSlice_def)

lemma sorted_wrt_unique:
  assumes "linear_on A lt" "sorted_wrt lt xs" "sorted_wrt lt ys" "set xs = set ys" "set xs \<subseteq> A"
  shows "xs = ys"
  using assms(2-)
proof (induction xs arbitrary: ys)
  case (Cons x xs)
  then obtain y zs where ys: "ys = y # zs" by (cases ys) auto
  have irr: "\<not> lt u u" if "u \<in> A" for u using linear_onD(1) [OF assms(1) that] .
  have tr: "\<not> (lt u v \<and> lt v u)" if "u \<in> A" "v \<in> A" for u v
    using linear_onD(2) [OF assms(1), of u v u] irr that by blast
  have A: "x \<in> A" "y \<in> A" "set xs \<subseteq> A" "set zs \<subseteq> A" using Cons.prems(3,4) ys by auto
  have "x = y"
  proof (rule ccontr)
    assume "x \<noteq> y"
    then have "x \<in> set zs" "y \<in> set xs" using Cons.prems(3) ys by auto
    then show False using Cons.prems(1,2) ys tr [OF A(1,2)] by auto
  qed
  moreover have "x \<notin> set xs" "y \<notin> set zs"
    using Cons.prems(1,2) ys irr A by auto
  ultimately have "set xs = set zs" using Cons.prems(3) ys by auto
  then have "xs = zs" using Cons.IH [of zs] Cons.prems ys by simp
  with \<open>x = y\<close> ys show ?case by simp
qed simp

lemma sortSlice_unique:
  assumes "linear_on (set xs) lt" "distinct xs" "distinct ys" "set xs = set ys"
  shows "sortSlice lt xs = sortSlice lt ys"
  using sorted_wrt_unique [OF assms(1) sortSlice_sorted_wrt [OF assms(1,2)] sortSlice_sorted_wrt [of ys lt]] assms
  by simp

section \<open>Strings\<close>

lemma stringLess_irrefl [simp]: "\<not> stringLess s s"
  by (induction s) auto

lemma stringLess_trans: "stringLess s t \<Longrightarrow> stringLess t u \<Longrightarrow> stringLess s u"
proof (induction s u arbitrary: t rule: stringLess.induct)
  case (1 u)
  then show ?case by (cases t; cases u) auto
next
  case (2 x xs)
  then show ?case by (cases t) auto
next
  case (3 x xs z zs)
  then show ?case by (cases t) auto
qed

lemma stringLess_total: "s \<noteq> t \<Longrightarrow> stringLess s t \<or> stringLess t s"
proof (induction s t rule: stringLess.induct)
  case (3 x xs y ys)
  show ?case
  proof (cases "x = y")
    case False
    then have "(of_char x :: nat) \<noteq> of_char y" by simp
    then have "(of_char x :: nat) < of_char y \<or> (of_char y :: nat) < of_char x" by (rule nat_neq_iff [THEN iffD1])
    then show ?thesis by auto
  qed (use 3 in auto)
qed auto

lemma linear_stringLess: "linear_on A stringLess"
  unfolding linear_on_def using stringLess_trans stringLess_total stringLess_irrefl by metis

lemma set_sortedSet [simp]: "set (sortedSet xs) = set xs"
  by (simp add: sortedSet_def)

lemma distinct_sortedSet [simp]: "distinct (sortedSet xs)"
  by (simp add: sortedSet_def)

lemma sorted_sortedSet: "sorted_wrt stringLess (sortedSet xs)"
  by (simp add: sortedSet_def sortSlice_sorted_wrt linear_stringLess)

lemma sortedSet_eq: "set xs = set ys \<Longrightarrow> sortedSet xs = sortedSet ys"
  by (simp add: sortedSet_def sortSlice_unique linear_stringLess)

text \<open>A list sorted by a key never has a greater key before a smaller one.\<close>

lemma insertBy_weak:
  "sorted_wrt (\<lambda>a b. \<not> stringLess (f b) (f a)) ys \<Longrightarrow>
   sorted_wrt (\<lambda>a b. \<not> stringLess (f b) (f a)) (insertBy (\<lambda>a b. stringLess (f a) (f b)) x ys)"
proof (induction ys)
  case (Cons y ys)
  show ?case
  proof (cases "stringLess (f y) (f x)")
    case True
    then have "\<not> stringLess (f x) (f y)" using stringLess_trans stringLess_irrefl by metis
    with Cons True show ?thesis by simp
  next
    case False
    have "\<not> stringLess (f z) (f x)" if "z \<in> set ys" for z
      using that Cons.prems False stringLess_trans stringLess_total by (metis list.set_intros(2) sorted_wrt.simps(2))
    with Cons.prems False show ?thesis by auto
  qed
qed simp

lemma sortSlice_weak: "sorted_wrt (\<lambda>a b. \<not> stringLess (f b) (f a)) (sortSlice (\<lambda>a b. stringLess (f a) (f b)) xs)"
  unfolding sortSlice_def by (induction xs) (simp_all add: insertBy_weak)

end
