(* ===== verification/Estimation.thy ===== *)
theory Estimation
  imports Kube Sorting "HOL-Library.Word"
begin

text \<open>
  pkg/estimation: what the clusters that a template describes will cost. The objects
  of the template are unstructured; their accessors, the parsing of JSON and of query
  strings, lower case and the floating point numbers are parameters. A range over a
  Go map visits the keys in any order, which is a parameter as well: visit gives the
  order in which the keys of a map are visited.
\<close>

section \<open>Numbers, maps and objects\<close>

record 'f float32 =
  fl_zero :: 'f
  fl_add :: "'f \<Rightarrow> 'f \<Rightarrow> 'f"
  fl_mul :: "'f \<Rightarrow> 'f \<Rightarrow> 'f"
  fl_less :: "'f \<Rightarrow> 'f \<Rightarrow> bool"
  fl_ofInt32 :: "32 word \<Rightarrow> 'f"
  fl_invalidPrice :: 'f
  fl_MonthlyHours :: 'f
  fl_Parse64 :: "string \<Rightarrow> 'f res"
  fl_Parse32 :: "string \<Rightarrow> 'f res"

record 'u unstructured =
  un_GetName :: "'u \<Rightarrow> string"
  un_GetKind :: "'u \<Rightarrow> string"
  un_GroupVersionKind :: "'u \<Rightarrow> gvk"
  un_GroupKind :: "'u \<Rightarrow> string"
  un_GetAnnotations :: "'u \<Rightarrow> (string \<rightharpoonup> string)"
  un_NestedString :: "'u \<Rightarrow> string list \<Rightarrow> (string \<times> bool) res"
  un_NestedInt64 :: "'u \<Rightarrow> string list \<Rightarrow> (int \<times> bool) res"
  un_NestedStringMap :: "'u \<Rightarrow> string list \<Rightarrow> (string \<rightharpoonup> string) option res"
  un_ParseGroupVersion :: "string \<Rightarrow> gv res"
  un_GvkString :: "gvk \<Rightarrow> string"
  un_ParseQuery :: "string \<Rightarrow> (string \<rightharpoonup> string list) res"

record 'f CostEstimate =
  ce_High :: 'f
  ce_Low :: 'f
  ce_Currency :: string

section \<open>utils.go\<close>

definition mergeStringMaps :: "(string \<rightharpoonup> string) list \<Rightarrow> (string \<rightharpoonup> string)" where
  "mergeStringMaps stringMaps = foldl (\<lambda>cloned update k.
     case update k of Some v \<Rightarrow> if v \<noteq> [] then Some v else cloned k | None \<Rightarrow> cloned k) Map.empty stringMaps"

definition minMax :: "'f float32 \<Rightarrow> 'f list \<Rightarrow> 'f \<times> 'f" where
  "minMax F vals =
     (if length vals = 0 then (fl_zero F, fl_zero F)
      else let vals = sortSlice (fl_less F) vals in (vals ! 0, vals ! (length vals - 1)))"

text \<open>The two totals are computed in two loops, each with an order of its own.\<close>

definition reduceEstimates :: "'f float32 \<Rightarrow> visit \<Rightarrow> visit \<Rightarrow> (string \<rightharpoonup> 'f CostEstimate) \<Rightarrow> 'f CostEstimate option" where
  "reduceEstimates F visit visitHigh estimates =
     (let vs = map (\<lambda>k. the (estimates k)) (visit (dom estimates));
          ws = map (\<lambda>k. the (estimates k)) (visitHigh (dom estimates)) in
      if dom estimates = {} then None
      else Some \<lparr> ce_High = foldl (\<lambda>total v. fl_add F total (ce_High v)) (fl_zero F) ws,
                  ce_Low = foldl (\<lambda>total v. fl_add F total (ce_Low v)) (fl_zero F) vs,
                  ce_Currency = hd (sortSlice stringLess (remdups (map ce_Currency vs))) \<rparr>)"

definition filtersFromMap :: "visit \<Rightarrow> (string \<rightharpoonup> string) \<Rightarrow> (string \<times> string) list" where
  "filtersFromMap visit items = foldl (\<lambda>filters k. filters @ [(k, mget items k)]) [] (visit (dom items))"

text \<open>The first key of the visit that is refused is the one the error names.\<close>

fun collectFilters :: "(string \<rightharpoonup> string list) \<Rightarrow> string list \<Rightarrow> (string \<rightharpoonup> string) \<Rightarrow> (string \<rightharpoonup> string) res" where
  "collectFilters parsed [] acc = Inr acc"
| "collectFilters parsed (k # ks) acc =
     (let v = (case parsed k of None \<Rightarrow> [] | Some v \<Rightarrow> v) in
      if length v > 1 then Inl (Errf ''annotation values cannot contain multiple values for the same key %s: %v'' [k])
      else if length v < 1 \<or> v ! 0 = [] then Inl (Errf ''invalid annotation values, cannot contain empty values %s: %v'' [k])
      else collectFilters parsed ks (acc(k \<mapsto> v ! 0)))"

definition ParseFilterQueryString :: "'u unstructured \<Rightarrow> visit \<Rightarrow> string \<Rightarrow> (string \<rightharpoonup> string) res" where
  "ParseFilterQueryString U visit annotations =
     (case un_ParseQuery U annotations of
        Inl e \<Rightarrow> Inl e
      | Inr parsed \<Rightarrow> collectFilters parsed (visit (dom parsed)) Map.empty)"

section \<open>aws\_estimator.go: parsing\<close>

record objectRef =
  or_name :: string
  or_gvk :: gvk

definition objectRef_String :: "'u unstructured \<Rightarrow> objectRef \<Rightarrow> string" where
  "objectRef_String U r = un_GvkString U (or_gvk r) @ '':'' @ or_name r"

definition objectKey :: "'u unstructured \<Rightarrow> 'u \<Rightarrow> string" where
  "objectKey U u = un_GvkString U (un_GroupVersionKind U u) @ '':'' @ un_GetName U u"

definition parseObjectRef :: "'u unstructured \<Rightarrow> 'u \<Rightarrow> string list \<Rightarrow> objectRef res" where
  "parseObjectRef U u elems =
     (case un_NestedStringMap U u elems of
        Inl e \<Rightarrow> Inl (wrap ''failed to get infrastructureRef from %s %q: %w'' [un_GetKind U u, un_GetName U u] e)
      | Inr None \<Rightarrow> Inl (Errf ''missing reference: %s'' [joinStr ''.'' elems])
      | Inr (Some elemMap) \<Rightarrow>
          (case un_ParseGroupVersion U (mget elemMap ''apiVersion'') of
             Inl e \<Rightarrow> Inl (wrap ''failed to parse infrastructureRef from %s %q: %w'' [un_GetKind U u, un_GetName U u] e)
           | Inr v \<Rightarrow> Inr \<lparr> or_name = mget elemMap ''name'',
               or_gvk = \<lparr> gvk_Group = gv_Group v, gvk_Version = gv_Version v, gvk_Kind = mget elemMap ''kind'' \<rparr> \<rparr>))"

definition nestedString :: "'u unstructured \<Rightarrow> 'u \<Rightarrow> string list \<Rightarrow> string res" where
  "nestedString U u elems = (case un_NestedString U u elems of Inl e \<Rightarrow> Inl e | Inr (v, _) \<Rightarrow> Inr v)"

definition nestedOptionalInt32 :: "'u unstructured \<Rightarrow> 'u \<Rightarrow> string list \<Rightarrow> 32 word option res" where
  "nestedOptionalInt32 U u elems =
     (case un_NestedInt64 U u elems of
        Inl e \<Rightarrow> Inl e
      | Inr (v, ok) \<Rightarrow> Inr (if ok then Some (word_of_int v) else None))"

record clusterInstances =
  ci_instances :: "32 word"
  ci_instanceType :: string

record composedCluster =
  cc_name :: string
  cc_regionCode :: string
  cc_infrastructure :: clusterInstances
  cc_controlPlane :: clusterInstances
  cc_filterAnnotations :: "string \<rightharpoonup> string"

record machineDeployment =
  mdp_infrastructure :: objectRef
  mdp_replicas :: "32 word"
  mdp_clusterName :: string

record capiCluster =
  ca_name :: string
  ca_infrastructure :: objectRef
  ca_controlPlane :: objectRef
  ca_filterAnnotations :: "string \<rightharpoonup> string"

record controlPlane =
  cp_replicas :: "32 word option"
  cp_machineTemplate :: objectRef

record machinePool =
  mp_replicas :: "32 word"
  mp_infrastructure :: objectRef
  mp_clusterName :: string

record awsMachinePool =
  am_maxSize :: "32 word"
  am_instanceType :: string

record clusterResources =
  cr_capiClusters :: "capiCluster list"
  cr_awsClusters :: "string \<rightharpoonup> string"
  cr_controlPlanes :: "string \<rightharpoonup> controlPlane"
  cr_machineTemplates :: "string \<rightharpoonup> string"
  cr_machineDeployments :: "string \<rightharpoonup> machineDeployment"
  cr_machinePools :: "string \<rightharpoonup> machinePool"
  cr_awsMachinePools :: "string \<rightharpoonup> awsMachinePool"

definition noResources :: clusterResources where
  "noResources = \<lparr> cr_capiClusters = [], cr_awsClusters = Map.empty, cr_controlPlanes = Map.empty,
     cr_machineTemplates = Map.empty, cr_machineDeployments = Map.empty, cr_machinePools = Map.empty,
     cr_awsMachinePools = Map.empty \<rparr>"

text \<open>The cases of the switch in parseResources, each with the resources so far.\<close>

definition parseCluster :: "'u unstructured \<Rightarrow> visit \<Rightarrow> 'u \<Rightarrow> clusterResources \<Rightarrow> clusterResources res" where
  "parseCluster U visit u R =
     (case parseObjectRef U u [''spec'', ''infrastructureRef''] of
        Inl e \<Rightarrow> Inl (wrap ''failed to parse Cluster infrastructureRef %q: %w'' [un_GetName U u] e)
      | Inr infrastructureRef \<Rightarrow>
     (case parseObjectRef U u [''spec'', ''controlPlaneRef''] of
        Inl e \<Rightarrow> Inl (wrap ''failed to parse Cluster controlPlaneRef %q: %w'' [un_GetName U u] e)
      | Inr controlPlaneRef \<Rightarrow>
     (case (case un_GetAnnotations U u ''templates.weave.works/estimation-filters'' of
              Some annot \<Rightarrow> ParseFilterQueryString U visit annot | None \<Rightarrow> Inr Map.empty) of
        Inl e \<Rightarrow> Inl (wrap ''failed to parse estimation-filters annotations %q: %w'' [un_GetName U u] e)
      | Inr additionalFilters \<Rightarrow>
          Inr (R\<lparr> cr_capiClusters := cr_capiClusters R @ [\<lparr> ca_name = un_GetName U u,
            ca_infrastructure = infrastructureRef, ca_controlPlane = controlPlaneRef,
            ca_filterAnnotations = additionalFilters \<rparr>] \<rparr>))))"

definition parseAWSCluster :: "'u unstructured \<Rightarrow> 'u \<Rightarrow> clusterResources \<Rightarrow> clusterResources res" where
  "parseAWSCluster U u R =
     (case nestedString U u [''spec'', ''region''] of
        Inl e \<Rightarrow> Inl (wrap ''failed to parse AWSCluster %q: %w'' [un_GetName U u] e)
      | Inr regionCode \<Rightarrow> Inr (R\<lparr> cr_awsClusters := (cr_awsClusters R)(objectKey U u \<mapsto> regionCode) \<rparr>))"

definition parseControlPlane :: "'u unstructured \<Rightarrow> 'u \<Rightarrow> clusterResources \<Rightarrow> clusterResources res" where
  "parseControlPlane U u R =
     (case parseObjectRef U u [''spec'', ''machineTemplate'', ''infrastructureRef''] of
        Inl e \<Rightarrow> Inl (wrap ''failed to parse KubeadmControlPlane infrastructureRef %q: %w'' [un_GetName U u] e)
      | Inr machineTemplateRef \<Rightarrow>
     (case nestedOptionalInt32 U u [''spec'', ''replicas''] of
        Inl e \<Rightarrow> Inl (wrap ''failed to parse KubeadmControlPlane replicas %q: %w'' [un_GetName U u] e)
      | Inr replicas \<Rightarrow>
          Inr (R\<lparr> cr_controlPlanes := (cr_controlPlanes R)(objectKey U u \<mapsto>
            \<lparr> cp_replicas = replicas, cp_machineTemplate = machineTemplateRef \<rparr>) \<rparr>)))"

definition parseMachineTemplate :: "'u unstructured \<Rightarrow> 'u \<Rightarrow> clusterResources \<Rightarrow> clusterResources res" where
  "parseMachineTemplate U u R =
     (case nestedString U u [''spec'', ''template'', ''spec'', ''instanceType''] of
        Inl e \<Rightarrow> Inl (wrap ''failed to parse AWSMachineTemplate %q: %w'' [un_GetName U u] e)
      | Inr instanceType \<Rightarrow> Inr (R\<lparr> cr_machineTemplates := (cr_machineTemplates R)(objectKey U u \<mapsto> instanceType) \<rparr>))"

text \<open>The replicas of a MachineDeployment are dereferenced without a test.\<close>

definition parseMachineDeployment :: "'u unstructured \<Rightarrow> 'u \<Rightarrow> clusterResources \<Rightarrow> clusterResources res" where
  "parseMachineDeployment U u R =
     (case nestedOptionalInt32 U u [''spec'', ''replicas''] of
        Inl e \<Rightarrow> Inl (wrap ''failed to parse MachineDeployment %q: %w'' [un_GetName U u] e)
      | Inr replicas \<Rightarrow>
     (case parseObjectRef U u [''spec'', ''template'', ''spec'', ''infrastructureRef''] of
        Inl e \<Rightarrow> Inl (wrap ''failed to parse MachineDeployment infrastructureRef %q: %w'' [un_GetName U u] e)
      | Inr infrastructureRef \<Rightarrow>
     (case nestedString U u [''spec'', ''clusterName''] of
        Inl e \<Rightarrow> Inl (Errf ''failed to find clusterName in MachineDeployment %s'' [un_GetName U u])
      | Inr clusterName \<Rightarrow>
     (case replicas of
        None \<Rightarrow> Inl nilDeref
      | Some n \<Rightarrow>
          Inr (R\<lparr> cr_machineDeployments := (cr_machineDeployments R)(objectKey U u \<mapsto>
            \<lparr> mdp_infrastructure = infrastructureRef, mdp_replicas = n, mdp_clusterName = clusterName \<rparr>) \<rparr>)))))"

definition parseMachinePool :: "'u unstructured \<Rightarrow> 'u \<Rightarrow> clusterResources \<Rightarrow> clusterResources res" where
  "parseMachinePool U u R =
     (case nestedOptionalInt32 U u [''spec'', ''replicas''] of
        Inl e \<Rightarrow> Inl (wrap ''failed to parse MachinePool - missing replicas%q: %w'' [un_GetName U u] e)
      | Inr optionalReplicas \<Rightarrow>
          let replicas = (case optionalReplicas of None \<Rightarrow> 1 | Some n \<Rightarrow> n) in
     (case nestedString U u [''spec'', ''clusterName''] of
        Inl e \<Rightarrow> Inl (wrap ''failed to parse MachinePool %q: %w'' [un_GetName U u] e)
      | Inr clusterName \<Rightarrow>
     (case parseObjectRef U u [''spec'', ''template'', ''spec'', ''infrastructureRef''] of
        Inl e \<Rightarrow> Inl (wrap ''failed to parse MachinePool infrastructureRef %q: %w'' [un_GetName U u] e)
      | Inr infrastructureRef \<Rightarrow>
          Inr (R\<lparr> cr_machinePools := (cr_machinePools R)(objectKey U u \<mapsto>
            \<lparr> mp_replicas = replicas, mp_infrastructure = infrastructureRef, mp_clusterName = clusterName \<rparr>) \<rparr>))))"

definition parseAWSMachinePool :: "'u unstructured \<Rightarrow> 'u \<Rightarrow> clusterResources \<Rightarrow> clusterResources res" where
  "parseAWSMachinePool U u R =
     (case nestedOptionalInt32 U u [''spec'', ''maxSize''] of
        Inl e \<Rightarrow> Inl (wrap ''failed to parse AWSMachinePool maxSize%q: %w'' [un_GetName U u] e)
      | Inr optionalMaxSize \<Rightarrow>
          let maxSize = (case optionalMaxSize of None \<Rightarrow> 1 | Some n \<Rightarrow> n) in
     (case nestedString U u [''spec'', ''awsLaunchTemplate'', ''instanceType''] of
        Inl e \<Rightarrow> Inl (wrap ''failed to parse AWSMachinePool %q: %w'' [un_GetName U u] e)
      | Inr instanceType \<Rightarrow>
          Inr (R\<lparr> cr_awsMachinePools := (cr_awsMachinePools R)(objectKey U u \<mapsto>
            \<lparr> am_maxSize = maxSize, am_instanceType = instanceType \<rparr>) \<rparr>)))"

definition parseResource :: "'u unstructured \<Rightarrow> visit \<Rightarrow> 'u \<Rightarrow> clusterResources \<Rightarrow> clusterResources res" where
  "parseResource U visit u R =
     (let k = un_GroupKind U u in
      if k = ''Cluster.cluster.x-k8s.io'' then parseCluster U visit u R
      else if k = ''AWSCluster.infrastructure.cluster.x-k8s.io'' then parseAWSCluster U u R
      else if k = ''KubeadmControlPlane.controlplane.cluster.x-k8s.io'' then parseControlPlane U u R
      else if k = ''AWSMachineTemplate.infrastructure.cluster.x-k8s.io'' then parseMachineTemplate U u R
      else if k = ''MachineDeployment.cluster.x-k8s.io'' then parseMachineDeployment U u R
      else if k = ''MachinePool.cluster.x-k8s.io'' then parseMachinePool U u R
      else if k = ''AWSMachinePool.infrastructure.cluster.x-k8s.io'' then parseAWSMachinePool U u R
      else Inr R)"

fun parseResourcesFrom :: "'u unstructured \<Rightarrow> visit \<Rightarrow> 'u list \<Rightarrow> clusterResources \<Rightarrow> clusterResources res" where
  "parseResourcesFrom U visit [] R = Inr R"
| "parseResourcesFrom U visit (u # us) R =
     (case parseResource U visit u R of Inl e \<Rightarrow> Inl e | Inr R \<Rightarrow> parseResourcesFrom U visit us R)"

definition parseResources :: "'u unstructured \<Rightarrow> visit \<Rightarrow> 'u list \<Rightarrow> clusterResources res" where
  "parseResources U visit items = parseResourcesFrom U visit items noResources"

section \<open>aws\_estimator.go: composition and prices\<close>

text \<open>The first value of the visit whose cluster is the given one.\<close>

definition deploymentOf :: "visit \<Rightarrow> string \<Rightarrow> (string \<rightharpoonup> machineDeployment) \<Rightarrow> machineDeployment option" where
  "deploymentOf visit s deploys =
     find (\<lambda>v. mdp_clusterName v = s) (map (\<lambda>k. the (deploys k)) (visit (dom deploys)))"

definition poolOf :: "visit \<Rightarrow> string \<Rightarrow> (string \<rightharpoonup> machinePool) \<Rightarrow> machinePool option" where
  "poolOf visit s pools = find (\<lambda>v. mp_clusterName v = s) (map (\<lambda>k. the (pools k)) (visit (dom pools)))"

definition deploymentInstances :: "'u unstructured \<Rightarrow> clusterResources \<Rightarrow> string \<Rightarrow> machineDeployment \<Rightarrow> clusterInstances res" where
  "deploymentInstances U R name d =
     (case cr_machineTemplates R (objectRef_String U (mdp_infrastructure d)) of
        None \<Rightarrow> Inl (Errf ''failed to find AWSMachineTemplate for MachineDeployment %s in cluster %s''
          [or_name (mdp_infrastructure d), name])
      | Some ty \<Rightarrow> Inr \<lparr> ci_instances = mdp_replicas d, ci_instanceType = ty \<rparr>)"

definition poolInstances :: "'u unstructured \<Rightarrow> clusterResources \<Rightarrow> string \<Rightarrow> machinePool \<Rightarrow> clusterInstances res" where
  "poolInstances U R name p =
     (case cr_awsMachinePools R (objectRef_String U (mp_infrastructure p)) of
        None \<Rightarrow> Inl (Errf ''failed to find AWSMachinePool for MachinePool %s in cluster %s''
          [objectRef_String U (mp_infrastructure p), name])
      | Some a \<Rightarrow> Inr \<lparr> ci_instances = mp_replicas p, ci_instanceType = am_instanceType a \<rparr>)"

definition infrastructureOf :: "'u unstructured \<Rightarrow> visit \<Rightarrow> clusterResources \<Rightarrow> string \<Rightarrow> clusterInstances res" where
  "infrastructureOf U visit R name =
     (let md = deploymentOf visit name (cr_machineDeployments R); pool = poolOf visit name (cr_machinePools R) in
      if md = None \<and> pool = None
      then Inl (Errf ''failed to find MachineDeployment or MachinePool for Cluster %s'' [name])
      else case (case md of None \<Rightarrow> Inr \<lparr> ci_instances = 0, ci_instanceType = [] \<rparr>
                 | Some d \<Rightarrow> deploymentInstances U R name d) of
             Inl e \<Rightarrow> Inl e
           | Inr instances \<Rightarrow> (case pool of None \<Rightarrow> Inr instances | Some p \<Rightarrow> poolInstances U R name p))"

definition composeCluster :: "'u unstructured \<Rightarrow> visit \<Rightarrow> clusterResources \<Rightarrow> capiCluster \<Rightarrow> composedCluster res" where
  "composeCluster U visit R c =
     (case cr_awsClusters R (objectRef_String U (ca_infrastructure c)) of
        None \<Rightarrow> Inl (Errf ''could not find infrastructure %s'' [objectRef_String U (ca_infrastructure c)])
      | Some regionCode \<Rightarrow>
     (case cr_controlPlanes R (objectRef_String U (ca_controlPlane c)) of
        None \<Rightarrow> Inl (Errf ''could not find control plane %s'' [objectRef_String U (ca_controlPlane c)])
      | Some cp \<Rightarrow>
     (case cr_machineTemplates R (objectRef_String U (cp_machineTemplate cp)) of
        None \<Rightarrow> Inl (Errf ''could not find AWSMachineTemplate for control plane %s'' [objectRef_String U (ca_controlPlane c)])
      | Some ty \<Rightarrow>
     (case cp_replicas cp of
        None \<Rightarrow> Inl nilDeref
      | Some n \<Rightarrow>
     (case infrastructureOf U visit R (ca_name c) of
        Inl e \<Rightarrow> Inl e
      | Inr instances \<Rightarrow>
          Inr \<lparr> cc_name = ca_name c, cc_regionCode = regionCode, cc_infrastructure = instances,
            cc_controlPlane = \<lparr> ci_instances = n, ci_instanceType = ty \<rparr>,
            cc_filterAnnotations = ca_filterAnnotations c \<rparr>)))))"

definition composeClusters :: "'u unstructured \<Rightarrow> visit \<Rightarrow> clusterResources \<Rightarrow> composedCluster list res" where
  "composeClusters U visit R = mapRes (composeCluster U visit R) (cr_capiClusters R)"

text \<open>A pricer, and the estimator that uses it.\<close>

type_synonym 'f Pricer = "string \<Rightarrow> string \<Rightarrow> (string \<rightharpoonup> string) \<Rightarrow> 'f list res"

record 'f AWSClusterEstimator =
  es_Pricer :: "'f Pricer"
  es_EC2Filters :: "string \<rightharpoonup> string"
  es_Currency :: string

definition NewAWSClusterEstimator :: "'f Pricer \<Rightarrow> (string \<rightharpoonup> string) \<Rightarrow> 'f AWSClusterEstimator" where
  "NewAWSClusterEstimator pricer filters = \<lparr> es_Pricer = pricer, es_EC2Filters = filters, es_Currency = ''USD'' \<rparr>"

definition priceRangeFromFilters :: "'f float32 \<Rightarrow> 'f AWSClusterEstimator \<Rightarrow> string \<Rightarrow> string \<Rightarrow> 32 word \<Rightarrow>
    (string \<rightharpoonup> string) \<Rightarrow> ('f \<times> 'f) res" where
  "priceRangeFromFilters F e instanceType regionCode instanceCount additionalFilters =
     (let filters = mergeStringMaps [es_EC2Filters e, additionalFilters,
            [''instanceType'' \<mapsto> instanceType, ''regionCode'' \<mapsto> regionCode]] in
      case es_Pricer e ''AmazonEC2'' (es_Currency e) filters of
        Inl x \<Rightarrow> Inl (wrap ''error getting prices for estimation: %w'' [] x)
      | Inr prices \<Rightarrow>
          let totals = map (\<lambda>v. fl_mul F (fl_mul F (fl_ofInt32 F instanceCount) v) (fl_MonthlyHours F)) prices in
          if length totals = 0
          then Inl (Errf ''no price data returned for instanceType %s in region %s'' [instanceType, regionCode])
          else Inr (minMax F totals))"

text \<open>The estimates are filed under the names of the clusters.\<close>

fun estimateClusters :: "'f float32 \<Rightarrow> 'f AWSClusterEstimator \<Rightarrow> composedCluster list \<Rightarrow>
    (string \<rightharpoonup> 'f CostEstimate) \<Rightarrow> (string \<rightharpoonup> 'f CostEstimate) res" where
  "estimateClusters F e [] estimates = Inr estimates"
| "estimateClusters F e (c # cs) estimates =
     (case priceRangeFromFilters F e (ci_instanceType (cc_controlPlane c)) (cc_regionCode c)
          (ci_instances (cc_controlPlane c)) (cc_filterAnnotations c) of
        Inl x \<Rightarrow> Inl x
      | Inr (controlPlaneMin, controlPlaneMax) \<Rightarrow>
     (case priceRangeFromFilters F e (ci_instanceType (cc_infrastructure c)) (cc_regionCode c)
          (ci_instances (cc_infrastructure c)) (cc_filterAnnotations c) of
        Inl x \<Rightarrow> Inl x
      | Inr (infrastructureMin, infrastructureMax) \<Rightarrow>
          estimateClusters F e cs (estimates(cc_name c \<mapsto>
            \<lparr> ce_High = fl_add F infrastructureMax controlPlaneMax, ce_Low = fl_add F infrastructureMin controlPlaneMin,
              ce_Currency = es_Currency e \<rparr>))))"

definition Estimate :: "'f float32 \<Rightarrow> 'u unstructured \<Rightarrow> visit \<Rightarrow> visit \<Rightarrow> 'f AWSClusterEstimator \<Rightarrow> 'u list \<Rightarrow>
    'f CostEstimate option res" where
  "Estimate F U visit visitHigh e us =
     (case parseResources U visit us of
        Inl x \<Rightarrow> Inl (wrap ''failed to parse templates: %w'' [] x)
      | Inr resources \<Rightarrow>
     (case composeClusters U visit resources of
        Inl x \<Rightarrow> Inl x
      | Inr composed \<Rightarrow>
     (case estimateClusters F e composed Map.empty of
        Inl x \<Rightarrow> Inl (wrap ''failed to estimate clusters: %w'' [] x)
      | Inr estimates \<Rightarrow> Inr (reduceEstimates F visit visitHigh estimates))))"

definition nilEstimator :: "'u list \<Rightarrow> 'f CostEstimate option res" where
  "nilEstimator us = Inr None"

end
