(* ===== verification/Pricers.thy ===== *)
theory Pricers
  imports Estimation "HOL-Library.List_Lexorder" "HOL-Library.Char_ord"
begin

text \<open>
  The two pricers of pkg/estimation. The CSV pricer keeps the rows of a file and
  compares them with a filter; the AWS pricer reads page after page of a service.
  The reader of encoding/csv is the list of what its successive calls of Read give
  before io.EOF; the paginator of the AWS client is a parameter, with its state, and so
  is json.Unmarshal for the type of a product. A paginator need not come to an end:
  the loop over the pages is a partial function, None when it does not return.
\<close>

section \<open>csv\_pricer.go\<close>

type_synonym caseInsensitiveMap = "string \<rightharpoonup> string"

definition cim_set :: "(string \<Rightarrow> string) \<Rightarrow> caseInsensitiveMap \<Rightarrow> string \<Rightarrow> string \<Rightarrow> caseInsensitiveMap" where
  "cim_set lower c key v = c(lower key \<mapsto> v)"

definition cim_get :: "(string \<Rightarrow> string) \<Rightarrow> caseInsensitiveMap \<Rightarrow> string \<Rightarrow> string" where
  "cim_get lower c key = mget c (lower key)"

text \<open>The record of a row; a row shorter than the headers is indexed out of its range.\<close>

fun rowRecord :: "(string \<Rightarrow> string) \<Rightarrow> string list \<Rightarrow> string list \<Rightarrow> caseInsensitiveMap \<Rightarrow> caseInsensitiveMap res" where
  "rowRecord lower [] row c = Inr c"
| "rowRecord lower (h # hs) [] c = Inl (Panic ''index out of range'')"
| "rowRecord lower (h # hs) (v # vs) c = rowRecord lower hs vs (cim_set lower c h v)"

fun readRecords :: "(string \<Rightarrow> string) \<Rightarrow> string list \<Rightarrow> string list res list \<Rightarrow> caseInsensitiveMap list \<Rightarrow>
    caseInsensitiveMap list res" where
  "readRecords lower headers [] records = Inr records"
| "readRecords lower headers (r # rs) records =
     (case r of
        Inl e \<Rightarrow> Inl (wrap ''failed to read pricing CSV: %w'' [] e)
      | Inr row \<Rightarrow>
          (case rowRecord lower headers row Map.empty of
             Inl e \<Rightarrow> Inl e
           | Inr record \<Rightarrow> readRecords lower headers rs (records @ [record])))"

definition NewCSVPricer :: "(string \<Rightarrow> string) \<Rightarrow> string list res list \<Rightarrow> caseInsensitiveMap list res" where
  "NewCSVPricer lower reader =
     (case reader of
        [] \<Rightarrow> Inr []
      | Inl e # _ \<Rightarrow> Inl (wrap ''failed to read pricing CSV: %w'' [] e)
      | Inr headers # rs \<Rightarrow> readRecords lower headers rs [])"

definition matchingKeyCount :: "(string \<Rightarrow> string) \<Rightarrow> visit \<Rightarrow> (string \<rightharpoonup> string) \<Rightarrow> caseInsensitiveMap \<Rightarrow> nat" where
  "matchingKeyCount lower visit flt row =
     foldl (\<lambda>matches k. if Some (cim_get lower row k) = flt k then matches + 1 else matches) 0 (visit (dom flt))"

text \<open>A row whose price cannot be parsed is skipped.\<close>

fun rowPrices :: "'f float32 \<Rightarrow> (string \<Rightarrow> string) \<Rightarrow> caseInsensitiveMap list \<Rightarrow> 'f list" where
  "rowPrices F lower [] = []"
| "rowPrices F lower (row # rows) =
     (case fl_Parse32 F (cim_get lower row ''price'') of
        Inl e \<Rightarrow> rowPrices F lower rows
      | Inr price \<Rightarrow> price # rowPrices F lower rows)"

definition csvFilter :: "string \<Rightarrow> string \<Rightarrow> (string \<rightharpoonup> string) \<Rightarrow> (string \<rightharpoonup> string)" where
  "csvFilter service currency flt = flt(''serviceCode'' \<mapsto> service, ''currency'' \<mapsto> currency)"

definition csv_ListPrices :: "'f float32 \<Rightarrow> (string \<Rightarrow> string) \<Rightarrow> visit \<Rightarrow> caseInsensitiveMap list \<Rightarrow> 'f Pricer" where
  "csv_ListPrices F lower visit records service currency flt =
     (let queryFilter = csvFilter service currency flt;
          matchingRows = filter (\<lambda>r. matchingKeyCount lower visit queryFilter r = card (dom queryFilter)) records
      in Inr (rowPrices F lower matchingRows))"

section \<open>aws\_pricer.go: products\<close>

datatype json = JNull | JBool bool | JNumber string | JString string | JArray "json list" | JObject "string \<rightharpoonup> json"

type_synonym terms = "string \<rightharpoonup> (string \<rightharpoonup> (string \<rightharpoonup> json))"

definition badAssertion :: goerror where
  "badAssertion = Panic ''interface conversion''"

definition priceFromPricePerUnitMap :: "'f float32 \<Rightarrow> visit \<Rightarrow> (string \<rightharpoonup> json) \<Rightarrow> string \<Rightarrow> 'f res" where
  "priceFromPricePerUnitMap F visit pricePerUnit currency =
     (let keys = visit (dom pricePerUnit) in
      if length keys = 1 then
        (case pricePerUnit (keys ! 0) of
           Some (JString rawPrice) \<Rightarrow>
             (case fl_Parse64 F rawPrice of
                Inl e \<Rightarrow> Inl (wrap ''unable to parse unit price %q: %w'' [rawPrice] e)
              | Inr price \<Rightarrow> Inr price)
         | _ \<Rightarrow> Inl badAssertion)
      else Inl (err ''unable to parse the price''))"

text \<open>The first price dimension of a term decides.\<close>

definition dimensionPrice :: "'f float32 \<Rightarrow> visit \<Rightarrow> string \<Rightarrow> json \<Rightarrow> 'f res" where
  "dimensionPrice F visit currency v =
     (case v of
        JObject dim \<Rightarrow>
          (case dim ''pricePerUnit'' of
             None \<Rightarrow> Inl (err ''unable to find on-demand pricing dimensions'')
           | Some (JObject pricePerUnit) \<Rightarrow> priceFromPricePerUnitMap F visit pricePerUnit currency
           | Some _ \<Rightarrow> Inl badAssertion)
      | _ \<Rightarrow> Inl badAssertion)"

fun termsPrice :: "'f float32 \<Rightarrow> visit \<Rightarrow> string \<Rightarrow> (string \<rightharpoonup> json) list \<Rightarrow> 'f res" where
  "termsPrice F visit currency [] = Inl (err ''failed to parse unit price data'')"
| "termsPrice F visit currency (t # ts) =
     (case t ''priceDimensions'' of
        None \<Rightarrow> Inl (err ''unable to find on-demand pricing dimensions'')
      | Some (JObject dims) \<Rightarrow>
          (case visit (dom dims) of
             [] \<Rightarrow> termsPrice F visit currency ts
           | d # _ \<Rightarrow> dimensionPrice F visit currency (the (dims d)))
      | Some _ \<Rightarrow> Inl badAssertion)"

definition parseUnitPrice :: "'f float32 \<Rightarrow> visit \<Rightarrow> (string \<Rightarrow> terms res) \<Rightarrow> string \<Rightarrow> string \<Rightarrow> 'f res" where
  "parseUnitPrice F visit decode body currency =
     (case decode body of
        Inl e \<Rightarrow> Inl (wrap ''failed to unmarshal product response: %w'' [] e)
      | Inr decoded \<Rightarrow>
          (case decoded ''OnDemand'' of
             None \<Rightarrow> Inr (fl_invalidPrice F)
           | Some ondemand \<Rightarrow> termsPrice F visit currency (map (\<lambda>k. the (ondemand k)) (visit (dom ondemand)))))"

section \<open>aws\_pricer.go: pages\<close>

record 'p pricing =
  pr_NewPaginator :: "string \<Rightarrow> (string \<times> string) list \<Rightarrow> 'p"
  pr_HasMorePages :: "'p \<Rightarrow> bool"
  pr_NextPage :: "'p \<Rightarrow> string list res \<times> 'p"

fun pagePrices :: "'f float32 \<Rightarrow> visit \<Rightarrow> (string \<Rightarrow> terms res) \<Rightarrow> string \<Rightarrow> string list \<Rightarrow> 'f list \<Rightarrow> 'f list res" where
  "pagePrices F visit decode currency [] prices = Inr prices"
| "pagePrices F visit decode currency (v # vs) prices =
     (case parseUnitPrice F visit decode v currency of
        Inl e \<Rightarrow> Inl e
      | Inr price \<Rightarrow> pagePrices F visit decode currency vs
          (if fl_less F (fl_invalidPrice F) price then prices @ [price] else prices))"

partial_function (option) loadPages ::
    "'p pricing \<Rightarrow> (string list \<Rightarrow> 'f list \<Rightarrow> 'f list res) \<Rightarrow> 'p \<Rightarrow> 'f list \<Rightarrow> 'f list res option" where
  "loadPages C page p prices =
     (if pr_HasMorePages C p
      then (case pr_NextPage C p of
              (Inl e, p) \<Rightarrow> Some (Inl e)
            | (Inr resp, p) \<Rightarrow>
                (case page resp prices of Inl e \<Rightarrow> Some (Inl e) | Inr prices \<Rightarrow> loadPages C page p prices))
      else Some (Inr prices))"

definition aws_ListPrices :: "'f float32 \<Rightarrow> visit \<Rightarrow> (string \<Rightarrow> terms res) \<Rightarrow> 'p pricing \<Rightarrow>
    string \<Rightarrow> string \<Rightarrow> (string \<rightharpoonup> string) \<Rightarrow> 'f list res option" where
  "aws_ListPrices F visit decode C service currency filters =
     loadPages C (pagePrices F visit decode currency) (pr_NewPaginator C service (filtersFromMap visit filters)) []"

text \<open>The paginator after some pages, and whether the page it gives then cannot be used.\<close>

fun pageState :: "'p pricing \<Rightarrow> nat \<Rightarrow> 'p \<Rightarrow> 'p" where
  "pageState C 0 p = p"
| "pageState C (Suc n) p = pageState C n (snd (pr_NextPage C p))"

definition pageOf :: "'p pricing \<Rightarrow> nat \<Rightarrow> 'p \<Rightarrow> string list res" where
  "pageOf C n p = fst (pr_NextPage C (pageState C n p))"

section \<open>Case-insensitive rows\<close>

lemma foldl_count: "foldl (\<lambda>n k. if P k then n + 1 else n) m ks = m + length (filter P ks)" for m :: nat
  by (induction ks arbitrary: m) auto

lemma length_filter_all: "length (filter P xs) = length xs \<longleftrightarrow> (\<forall>x\<in>set xs. P x)"
  using length_filter_less [of _ xs P] by (fastforce simp: filter_id_conv)

lemma matchingKeyCount_all:
  assumes "visit_ok visit" "finite (dom flt)"
  shows "matchingKeyCount lower visit flt row = card (dom flt) \<longleftrightarrow>
    (\<forall>k\<in>dom flt. Some (cim_get lower row k) = flt k)"
proof -
  have v: "set (visit (dom flt)) = dom flt" "distinct (visit (dom flt))"
    using assms by (auto simp: visit_ok_def)
  have "card (dom flt) = length (visit (dom flt))"
    using distinct_card [OF v(2)] v(1) by simp
  then show ?thesis
    by (simp add: matchingKeyCount_def foldl_count length_filter_all v(1))
qed

lemma agree_upd:
  assumes "a \<noteq> b"
  shows "(\<forall>k\<in>dom (m(a \<mapsto> x, b \<mapsto> y)). Some (f k) = (m(a \<mapsto> x, b \<mapsto> y)) k) \<longleftrightarrow>
    f b = y \<and> f a = x \<and> (\<forall>k v. m k = Some v \<and> k \<noteq> a \<and> k \<noteq> b \<longrightarrow> f k = v)" (is "?L = ?R")
proof
  assume L: ?L
  have "f k = v" if "(m(a \<mapsto> x, b \<mapsto> y)) k = Some v" for k v
    using L that by (metis domI option.inject)
  then show ?R using assms by simp
next
  assume R: ?R
  show ?L
  proof
    fix k assume "k \<in> dom (m(a \<mapsto> x, b \<mapsto> y))"
    then obtain v where v: "(m(a \<mapsto> x, b \<mapsto> y)) k = Some v" by blast
    then have "f k = v"
      using R by (cases "k = b"; cases "k = a") simp_all
    with v show "Some (f k) = (m(a \<mapsto> x, b \<mapsto> y)) k" by simp
  qed
qed

lemma rowPrices_spec:
  "rowPrices F lower rows =
     List.map_filter (\<lambda>row. case fl_Parse32 F (cim_get lower row ''price'') of Inl e \<Rightarrow> None | Inr p \<Rightarrow> Some p) rows"
  by (induction rows) (auto simp: map_filter_simps split: sum.splits)

text \<open>C37: The CSV pricer gives the prices of exactly the rows that agree with the service,
  the currency and every other entry of the filter, in the order of the file, leaving out
  those whose price is not a number; keys are compared without regard to case.\<close>

theorem csv_prices_spec:
  assumes "visit_ok visit" "finite (dom flt)"
  shows "csv_ListPrices F lower visit records service currency flt =
     Inr (List.map_filter (\<lambda>row. case fl_Parse32 F (mget row (lower ''price'')) of Inl e \<Rightarrow> None | Inr p \<Rightarrow> Some p)
       (filter (\<lambda>row. mget row (lower ''currency'') = currency \<and>
                      mget row (lower ''serviceCode'') = service \<and>
                      (\<forall>k v. flt k = Some v \<and> k \<noteq> ''serviceCode'' \<and> k \<noteq> ''currency'' \<longrightarrow> mget row (lower k) = v))
         records))"
proof -
  have fin: "finite (dom (csvFilter service currency flt))"
    using assms(2) by (simp add: csvFilter_def)
  have ne: "''serviceCode'' \<noteq> ''currency''" by simp
  show ?thesis
    unfolding csv_ListPrices_def Let_def matchingKeyCount_all [OF assms(1) fin] rowPrices_spec cim_get_def
    unfolding csvFilter_def agree_upd [OF ne] ..
qed


lemma visit_ok_sorted: "visit_ok sorted_list_of_set"
  by (simp add: visit_ok_def)

definition asciiLower :: "string \<Rightarrow> string" where
  "asciiLower = map (\<lambda>c. let n = (of_char c :: nat) in if 65 \<le> n \<and> n \<le> 90 then char_of (n + 32) else c)"

definition csvSample :: "caseInsensitiveMap list" where
  "csvSample = map (\<lambda>(t, p). [''currency'' \<mapsto> ''USD'', ''servicecode'' \<mapsto> ''AmazonEC2'', ''instancetype'' \<mapsto> t, ''price'' \<mapsto> p])
     [(''a1'', ''2''), (''b1'', ''3''), (''a1'', ''x''), (''a1'', ''5'')]"

definition natFloat :: "nat float32" where
  "natFloat = \<lparr> fl_zero = 0, fl_add = (+), fl_mul = (*), fl_less = (<), fl_ofInt32 = unat, fl_invalidPrice = 0,
     fl_MonthlyHours = 730,
     fl_Parse64 = (\<lambda>s. if s = [] then Inl (err ''syntax'') else Inr (length s)),
     fl_Parse32 = (\<lambda>s. if s = ''2'' then Inr 2 else if s = ''5'' then Inr 5 else Inl (err ''syntax'')) \<rparr>"

lemma csv_prices_spec_witness:
  "csv_ListPrices natFloat asciiLower sorted_list_of_set csvSample ''AmazonEC2'' ''USD'' [''instanceType'' \<mapsto> ''a1'']
     = Inr [2, 5]"
proof -
  have l: "asciiLower ''currency'' = ''currency''" "asciiLower ''price'' = ''price''"
    "asciiLower ''serviceCode'' = ''servicecode''" "asciiLower ''instanceType'' = ''instancetype''"
    by code_simp+
  have "finite (dom [''instanceType'' \<mapsto> ''a1''])" by simp
  note spec = csv_prices_spec [OF visit_ok_sorted this]
  have one: "(\<forall>k v. [a \<mapsto> b] k = Some v \<and> k \<noteq> x \<and> k \<noteq> y \<longrightarrow> P k v) \<longleftrightarrow> (a \<noteq> x \<and> a \<noteq> y \<longrightarrow> P a b)"
    for a b x y :: string and P by simp
  show ?thesis
    unfolding spec one by (simp add: l csvSample_def natFloat_def map_filter_simps)
qed

section \<open>Pages\<close>

lemma loadPages_end: "\<not> pr_HasMorePages C p \<Longrightarrow> loadPages C page p prices = Some (Inr prices)"
  by (simp add: loadPages.simps)

lemma loadPages_step:
  assumes "pr_HasMorePages C p"
  shows "loadPages C page p prices =
    (case pageOf C 0 p of
       Inl e \<Rightarrow> Some (Inl e)
     | Inr resp \<Rightarrow> (case page resp prices of Inl e \<Rightarrow> Some (Inl e)
                   | Inr prices \<Rightarrow> loadPages C page (pageState C 1 p) prices))"
  using assms by (subst loadPages.simps) (auto simp: pageOf_def split: sum.splits prod.splits)

lemma pagePrices_append:
  "pagePrices F visit decode currency vs prices =
     (case pagePrices F visit decode currency vs [] of Inl e \<Rightarrow> Inl e | Inr ps \<Rightarrow> Inr (prices @ ps))"
proof (induction vs arbitrary: prices)
  case (Cons v vs)
  show ?case
  proof (cases "parseUnitPrice F visit decode v currency")
    case (Inr price)
    then show ?thesis
      using Cons.IH [of "prices @ [price]"] Cons.IH [of "[price]"] Cons.IH [of prices]
      by (simp split: sum.splits)
  qed simp
qed simp

text \<open>A page can be used when it is delivered and all its prices can be parsed.\<close>

definition pageUsable :: "'p pricing \<Rightarrow> (string list \<Rightarrow> 'f list \<Rightarrow> 'f list res) \<Rightarrow> nat \<Rightarrow> 'p \<Rightarrow> bool" where
  "pageUsable C page n p \<longleftrightarrow> (\<exists>resp ps. pageOf C n p = Inr resp \<and> page resp [] = Inr ps)"

definition appends :: "(string list \<Rightarrow> 'f list \<Rightarrow> 'f list res) \<Rightarrow> bool" where
  "appends page \<longleftrightarrow> (\<forall>resp prices. page resp prices =
     (case page resp [] of Inl e \<Rightarrow> Inl e | Inr ps \<Rightarrow> Inr (prices @ ps)))"

lemma appends_pagePrices: "appends (pagePrices F visit decode currency)"
  unfolding appends_def using pagePrices_append by metis

lemma pageState_Suc: "pageState C n (pageState C 1 p) = pageState C (Suc n) p"
  by simp

lemma unusable_page:
  assumes "appends page" "\<not> pageUsable C page 0 p" "pr_HasMorePages C p"
  shows "\<exists>e. loadPages C page p prices = Some (Inl e)"
proof (cases "pageOf C 0 p")
  case (Inr resp)
  then obtain e where "page resp [] = Inl e"
    using assms(2) by (cases "page resp []") (auto simp: pageUsable_def)
  moreover have "page resp prices = (case page resp [] of Inl e \<Rightarrow> Inl e | Inr ps \<Rightarrow> Inr (prices @ ps))"
    using assms(1) unfolding appends_def by blast
  ultimately show ?thesis using Inr assms(3) by (simp add: loadPages_step)
qed (simp add: loadPages_step assms(3))

lemma loadPages_stops:
  assumes "\<not> pr_HasMorePages C (pageState C n p) \<or> \<not> pageUsable C page n p" and app: "appends page"
  shows "\<exists>r. loadPages C page p prices = Some r"
  using assms(1)
proof (induction n arbitrary: p prices)
  case 0
  show ?case
  proof (cases "pr_HasMorePages C p")
    case True
    with 0 have "\<not> pageUsable C page 0 p" by simp
    then show ?thesis using unusable_page [OF app _ True] by blast
  qed (simp add: loadPages_end)
next
  case (Suc n)
  have next_page: "\<exists>r. loadPages C page (pageState C 1 p) q = Some r" for q
    using Suc.IH [of "pageState C 1 p" q] Suc.prems by (simp add: pageUsable_def pageOf_def)
  show ?case
  proof (cases "pr_HasMorePages C p")
    case True
    then show ?thesis
      using next_page by (auto simp: loadPages_step split: sum.splits)
  qed (simp add: loadPages_end)
qed

definition stops :: "'p pricing \<Rightarrow> (string list \<Rightarrow> 'f list \<Rightarrow> 'f list res) \<Rightarrow> nat \<Rightarrow> 'p \<Rightarrow> bool" where
  "stops C page n p \<longleftrightarrow> \<not> pr_HasMorePages C (pageState C n p) \<or> \<not> pageUsable C page n p"

lemma stops_Suc: "stops C page n (pageState C 1 p) = stops C page (Suc n) p"
  by (simp add: stops_def pageUsable_def pageOf_def)

lemma loadPages_returns:
  assumes "loadPages C page p prices = Some r"
  shows "appends page \<longrightarrow> (\<exists>n. stops C page n p)"
proof (rule loadPages.raw_induct [where P = "\<lambda>C page p prices r. appends page \<longrightarrow> (\<exists>n. stops C page n p)", OF _ assms])
  fix rec C page p prices r
  assume IH: "\<And>C page p prices r. rec C page p prices = Some r \<Longrightarrow> appends page \<longrightarrow> (\<exists>n. stops C page n p)"
    and body: "(if pr_HasMorePages C p
      then (case pr_NextPage C p of
              (Inl e, p) \<Rightarrow> Some (Inl e)
            | (Inr resp, p) \<Rightarrow>
                (case page resp prices of Inl e \<Rightarrow> Some (Inl e) | Inr prices \<Rightarrow> rec C page p prices))
      else Some (Inr prices)) = Some r"
  show "appends page \<longrightarrow> (\<exists>n. stops C page n p)"
  proof
    assume app: "appends page"
    show "\<exists>n. stops C page n p"
    proof (cases "stops C page 0 p")
      case False
      then obtain resp q ps where np: "pr_NextPage C p = (Inr resp, q)" and ps: "page resp [] = Inr ps"
        by (cases "pr_NextPage C p") (auto simp: stops_def pageUsable_def pageOf_def)
      have "page resp prices = (case page resp [] of Inl e \<Rightarrow> Inl e | Inr ps \<Rightarrow> Inr (prices @ ps))"
        using app unfolding appends_def by blast
      then have "rec C page q (prices @ ps) = Some r"
        using body False np ps by (simp add: stops_def)
      from IH [OF this] app obtain n where "stops C page n (pageState C 1 p)" by (auto simp: np)
      then show ?thesis unfolding stops_Suc by blast
    qed blast
  qed
qed

lemma loadPages_Some:
  assumes "appends page"
  shows "(\<exists>r. loadPages C page p prices = Some r) \<longleftrightarrow>
    (\<exists>n. \<not> pr_HasMorePages C (pageState C n p) \<or> \<not> pageUsable C page n p)"
proof
  assume "\<exists>r. loadPages C page p prices = Some r"
  then show "\<exists>n. \<not> pr_HasMorePages C (pageState C n p) \<or> \<not> pageUsable C page n p"
    using loadPages_returns assms unfolding stops_def by metis
next
  assume "\<exists>n. \<not> pr_HasMorePages C (pageState C n p) \<or> \<not> pageUsable C page n p"
  then show "\<exists>r. loadPages C page p prices = Some r"
    using loadPages_stops [OF _ assms] by (elim exE)
qed

text \<open>The prices of one page.\<close>

definition pricesOf :: "'p pricing \<Rightarrow> (string list \<Rightarrow> 'f list \<Rightarrow> 'f list res) \<Rightarrow> 'p \<Rightarrow> nat \<Rightarrow> 'f list" where
  "pricesOf C page p n =
     (case pageOf C n p of Inl e \<Rightarrow> [] | Inr resp \<Rightarrow> (case page resp [] of Inl e \<Rightarrow> [] | Inr ps \<Rightarrow> ps))"

lemma loadPages_usable:
  assumes "pr_HasMorePages C p" "pageUsable C page 0 p" "appends page"
  shows "loadPages C page p prices = loadPages C page (pageState C 1 p) (prices @ pricesOf C page p 0)"
proof -
  obtain resp ps where r: "pageOf C 0 p = Inr resp" "page resp [] = Inr ps"
    using assms(2) by (auto simp: pageUsable_def)
  moreover have "page resp prices = (case page resp [] of Inl e \<Rightarrow> Inl e | Inr ps \<Rightarrow> Inr (prices @ ps))"
    using assms(3) unfolding appends_def by blast
  ultimately show ?thesis by (simp add: loadPages_step assms(1) pricesOf_def)
qed

lemma pricesOf_Suc: "pricesOf C page (pageState C 1 p) n = pricesOf C page p (Suc n)"
  by (simp add: pricesOf_def pageOf_def)

lemma pageUsable_Suc: "pageUsable C page n (pageState C 1 p) = pageUsable C page (Suc n) p"
  by (simp add: pageUsable_def pageOf_def)

lemma loadPages_all:
  assumes "\<forall>i<n. pr_HasMorePages C (pageState C i p) \<and> pageUsable C page i p" "appends page"
  shows "loadPages C page p prices =
    loadPages C page (pageState C n p) (prices @ concat (map (pricesOf C page p) [0..<n]))"
  using assms(1)
proof (induction n arbitrary: p prices)
  case (Suc n)
  have h: "pr_HasMorePages C (pageState C i p) \<and> pageUsable C page i p" if "i < Suc n" for i
    using Suc.prems that by blast
  have "\<forall>i<n. pr_HasMorePages C (pageState C i (pageState C 1 p)) \<and> pageUsable C page i (pageState C 1 p)"
    unfolding pageUsable_Suc pageState_Suc using h Suc_mono by presburger
  from Suc.IH [OF this, of "prices @ pricesOf C page p 0"]
  have "loadPages C page (pageState C 1 p) (prices @ pricesOf C page p 0) =
      loadPages C page (pageState C (Suc n) p)
        (prices @ pricesOf C page p 0 @ concat (map (\<lambda>i. pricesOf C page p (Suc i)) [0..<n]))"
    unfolding pageState_Suc pricesOf_Suc by simp
  moreover have "[0..<Suc n] = 0 # map Suc [0..<n]"
    by (simp add: map_Suc_upt upt_conv_Cons del: upt_Suc)
  ultimately show ?case
    using loadPages_usable [OF _ _ assms(2), of C p prices] h [of 0] by (simp add: comp_def)
qed simp

lemma loadPages_iff:
  assumes "appends page"
  shows "loadPages C page p [] = Some (Inr ps) \<longleftrightarrow>
    (\<exists>n. (\<forall>i<n. pr_HasMorePages C (pageState C i p) \<and> pageUsable C page i p) \<and>
         \<not> pr_HasMorePages C (pageState C n p) \<and> ps = concat (map (pricesOf C page p) [0..<n]))" (is "?L \<longleftrightarrow> (\<exists>n. ?R n)")
proof
  assume L: ?L
  let ?stop = "\<lambda>n. stops C page n p"
  obtain m where "?stop m" using loadPages_returns [OF L] assms by blast
  define n where "n = (LEAST n. ?stop n)"
  have n: "?stop n" unfolding n_def using \<open>?stop m\<close> by (rule LeastI)
  have before: "\<forall>i<n. pr_HasMorePages C (pageState C i p) \<and> pageUsable C page i p"
    unfolding n_def using not_less_Least unfolding stops_def by blast
  note all = loadPages_all [OF this assms, of "[]"]
  have more: "\<not> pr_HasMorePages C (pageState C n p)"
  proof
    assume h: "pr_HasMorePages C (pageState C n p)"
    with n have "\<not> pageUsable C page 0 (pageState C n p)" by (simp add: stops_def pageUsable_def pageOf_def)
    then show False using unusable_page [OF assms _ h] all L by (metis option.inject sum.distinct(1))
  qed
  have "Some (Inr ps) = Some (Inr (concat (map (pricesOf C page p) [0..<n])))"
    using all loadPages_end [OF more, of page] L by simp
  then have "?R n" using before more by simp
  then show "\<exists>n. ?R n" ..
next
  assume "\<exists>n. ?R n"
  then obtain n where R: "?R n" ..
  then show ?L using loadPages_all [OF _ assms, of n C p "[]"] loadPages_end [of C "pageState C n p" page] by simp
qed

text \<open>C36: Listing the prices of AWS returns exactly when, after some number of pages, the
  paginator says that there are no more, or gives a page that is an error or that cannot be
  parsed; it returns prices exactly when all the pages up to the last one can be used, and
  then these are the prices of the pages, in order. A paginator that keeps giving pages
  makes it run for ever.\<close>

theorem aws_list_prices_returns:
  "let page = pagePrices F visit decode currency; p = pr_NewPaginator C service (filtersFromMap visit filters) in
     ((\<exists>r. aws_ListPrices F visit decode C service currency filters = Some r) \<longleftrightarrow>
        (\<exists>n. \<not> pr_HasMorePages C (pageState C n p) \<or> \<not> pageUsable C page n p)) \<and>
     (\<forall>ps. aws_ListPrices F visit decode C service currency filters = Some (Inr ps) \<longleftrightarrow>
        (\<exists>n. (\<forall>i<n. pr_HasMorePages C (pageState C i p) \<and> pageUsable C page i p) \<and>
             \<not> pr_HasMorePages C (pageState C n p) \<and> ps = concat (map (pricesOf C page p) [0..<n])))"
  unfolding Let_def aws_ListPrices_def loadPages_iff [OF appends_pagePrices] loadPages_Some [OF appends_pagePrices]
  by simp

definition endlessPages :: "unit pricing" where
  "endlessPages = \<lparr> pr_NewPaginator = (\<lambda>_ _. ()), pr_HasMorePages = (\<lambda>_. True), pr_NextPage = (\<lambda>_. (Inr [], ())) \<rparr>"

definition twoPages :: "string list list pricing" where
  "twoPages = \<lparr> pr_NewPaginator = (\<lambda>_ _. [[''p''], [''free'', ''pp'']]), pr_HasMorePages = (\<lambda>p. p \<noteq> []),
     pr_NextPage = (\<lambda>p. (Inr (hd p), tl p)) \<rparr>"

definition sampleDecode :: "string \<Rightarrow> terms res" where
  "sampleDecode body = Inr (if body = ''free'' then Map.empty
     else [''OnDemand'' \<mapsto> [''t'' \<mapsto> [''priceDimensions'' \<mapsto> JObject [''d'' \<mapsto>
            JObject [''pricePerUnit'' \<mapsto> JObject [''CNY'' \<mapsto> JString body]]]]]])"

lemma aws_list_prices_returns_witness:
  "aws_ListPrices natFloat sorted_list_of_set sampleDecode twoPages ''AmazonEC2'' ''USD'' Map.empty = Some (Inr [1, 2]) \<and>
   aws_ListPrices natFloat sorted_list_of_set sampleDecode endlessPages ''AmazonEC2'' ''USD'' Map.empty = None"
proof -
  note spec = aws_list_prices_returns [of natFloat sorted_list_of_set sampleDecode "''USD''" _ "''AmazonEC2''" Map.empty,
    unfolded Let_def]
  have "pageUsable endlessPages (pagePrices natFloat sorted_list_of_set sampleDecode ''USD'') n p" for p n
    by (simp add: pageUsable_def pageOf_def endlessPages_def)
  then have "\<nexists>r. aws_ListPrices natFloat sorted_list_of_set sampleDecode endlessPages ''AmazonEC2'' ''USD'' Map.empty = Some r"
    using spec [of endlessPages] by (simp add: endlessPages_def)
  then have endless: "aws_ListPrices natFloat sorted_list_of_set sampleDecode endlessPages ''AmazonEC2'' ''USD'' Map.empty = None"
    by simp
  have "\<exists>n. (\<forall>i<n. pr_HasMorePages twoPages (pageState twoPages i [[''p''], [''free'', ''pp'']]) \<and>
        pageUsable twoPages (pagePrices natFloat sorted_list_of_set sampleDecode ''USD'') i [[''p''], [''free'', ''pp'']]) \<and>
      \<not> pr_HasMorePages twoPages (pageState twoPages n [[''p''], [''free'', ''pp'']]) \<and> [1, 2] =
      concat (map (pricesOf twoPages (pagePrices natFloat sorted_list_of_set sampleDecode ''USD'') [[''p''], [''free'', ''pp'']]) [0..<n])"
    by (rule exI [of _ "Suc (Suc 0)"]) (auto simp: All_less_Suc pageUsable_def pricesOf_def pageOf_def twoPages_def
      sampleDecode_def parseUnitPrice_def dimensionPrice_def priceFromPricePerUnitMap_def natFloat_def)
  then have "aws_ListPrices natFloat sorted_list_of_set sampleDecode twoPages ''AmazonEC2'' ''USD'' Map.empty = Some (Inr [1, 2])"
    using spec [of twoPages] by (simp add: twoPages_def)
  with endless show ?thesis by blast
qed

end
