(* ===== verification/EstimationFacts.thy ===== *)
theory EstimationFacts
  imports Pricers "HOL-Library.Multiset"
begin

text \<open>
  The estimate of pkg/estimation: its currency is that of the estimator, and its low end is not
  above its high end with at most two clusters, while with three the rounding of the sums can
  make it so; and the only objects that can make it panic are
  control planes and machine deployments that leave their replicas out.
\<close>

section \<open>Ranges\<close>

text \<open>Numbers that are not negative, infinity included: the comparison is a total order that
  addition respects, addition is commutative and zero is neutral. Sums may be rounded, so
  their value may depend on the order of the terms.\<close>

definition numbers :: "'f float32 \<Rightarrow> 'f set \<Rightarrow> bool" where
  "numbers F N \<longleftrightarrow> fl_zero F \<in> N \<and>
     (\<forall>x\<in>N. \<forall>y\<in>N. fl_add F x y \<in> N) \<and>
     (\<forall>x\<in>N. \<forall>y\<in>N. fl_less F x y \<longrightarrow> \<not> fl_less F y x) \<and>
     (\<forall>x\<in>N. \<forall>y\<in>N. \<forall>z\<in>N. \<not> fl_less F y x \<longrightarrow> \<not> fl_less F z y \<longrightarrow> \<not> fl_less F z x) \<and>
     (\<forall>x\<in>N. \<forall>y\<in>N. \<forall>u\<in>N. \<forall>v\<in>N. \<not> fl_less F y x \<longrightarrow> \<not> fl_less F v u \<longrightarrow> \<not> fl_less F (fl_add F y v) (fl_add F x u)) \<and>
     (\<forall>x\<in>N. \<forall>y\<in>N. fl_add F x y = fl_add F y x) \<and> (\<forall>x\<in>N. fl_add F (fl_zero F) x = x)"

lemma numbersD:
  assumes "numbers F N"
  shows "fl_zero F \<in> N"
    and "x \<in> N \<Longrightarrow> \<not> fl_less F x x"
    and "x \<in> N \<Longrightarrow> y \<in> N \<Longrightarrow> fl_add F x y \<in> N"
    and "x \<in> N \<Longrightarrow> y \<in> N \<Longrightarrow> fl_less F x y \<Longrightarrow> \<not> fl_less F y x"
    and "\<not> fl_less F y x \<Longrightarrow> \<not> fl_less F z y \<Longrightarrow> x \<in> N \<Longrightarrow> y \<in> N \<Longrightarrow> z \<in> N \<Longrightarrow> \<not> fl_less F z x"
    and "\<not> fl_less F y x \<Longrightarrow> \<not> fl_less F v u \<Longrightarrow> x \<in> N \<Longrightarrow> y \<in> N \<Longrightarrow> u \<in> N \<Longrightarrow> v \<in> N \<Longrightarrow>
      \<not> fl_less F (fl_add F y v) (fl_add F x u)"
    and "x \<in> N \<Longrightarrow> y \<in> N \<Longrightarrow> fl_add F x y = fl_add F y x"
    and "x \<in> N \<Longrightarrow> fl_add F (fl_zero F) x = x"
  using assms unfolding numbers_def by blast+

text \<open>Sums of two terms do not depend on their order.\<close>

lemma sum_two:
  assumes "numbers F N" "distinct xs" "set xs = set ys" "distinct ys" "length xs \<le> 2" "f ` set xs \<subseteq> N"
  shows "foldl (\<lambda>t v. fl_add F t (f v)) (fl_zero F) xs = foldl (\<lambda>t v. fl_add F t (f v)) (fl_zero F) ys"
proof -
  have len: "length ys = length xs" using assms(2-4) by (metis distinct_card)
  consider "xs = []" | a where "xs = [a]" | a b where "xs = [a, b]"
    using assms(5) by (cases xs; cases "drop 1 xs"; force)
  then show ?thesis
  proof cases
    case (3 a b)
    then obtain c d where ys: "ys = [c, d]" using len by (cases ys; cases "drop 1 ys"; force)
    then have "c = a \<and> d = b \<or> c = b \<and> d = a" using assms(2-4) 3 by auto
    then show ?thesis using 3 ys assms(6) numbersD(7,8) [OF assms(1)] by auto
  qed (use len assms(3) in \<open>auto simp: length_Suc_conv\<close>)
qed

text \<open>The prices of a pricer make totals that are numbers, as long as the number of instances is not negative.\<close>

definition pricesIn :: "'f float32 \<Rightarrow> 'f set \<Rightarrow> 'f Pricer \<Rightarrow> bool" where
  "pricesIn F N pricer \<longleftrightarrow> (\<forall>service currency flt prices n. pricer service currency flt = Inr prices \<longrightarrow> 0 \<le> sint n \<longrightarrow>
     (\<forall>v\<in>set prices. fl_mul F (fl_mul F (fl_ofInt32 F n) v) (fl_MonthlyHours F) \<in> N))"

lemma insertBy_sorted:
  assumes "numbers F N" "x \<in> N" "set ys \<subseteq> N" "sorted_wrt (\<lambda>a b. \<not> fl_less F b a) ys"
  shows "sorted_wrt (\<lambda>a b. \<not> fl_less F b a) (insertBy (fl_less F) x ys)"
  using assms(3,4)
proof (induction ys)
  case (Cons y ys)
  then have y: "y \<in> N" and sub: "set ys \<subseteq> N" by simp_all
  show ?case
  proof (cases "fl_less F y x")
    case True
    with Cons y sub numbersD(4) [OF assms(1) y assms(2)] show ?thesis by simp
  next
    case False
    have "\<not> fl_less F z x" if "z \<in> set ys" for z
      using numbersD(5) [OF assms(1) False _ assms(2) y] Cons.prems that by auto
    with False Cons.prems show ?thesis by simp
  qed
qed simp

lemma sortSlice_sorted:
  "numbers F N \<Longrightarrow> set xs \<subseteq> N \<Longrightarrow> sorted_wrt (\<lambda>a b. \<not> fl_less F b a) (sortSlice (fl_less F) xs)"
proof (induction xs)
  case (Cons x xs)
  then have "sorted_wrt (\<lambda>a b. \<not> fl_less F b a) (insertBy (fl_less F) x (sortSlice (fl_less F) xs))"
    by (intro insertBy_sorted) auto
  then show ?case by (simp add: sortSlice_def)
qed (simp add: sortSlice_def)

lemma minMax_range:
  assumes F: "numbers F N" and "set vals \<subseteq> N" "minMax F vals = (lo, hi)"
  shows "lo \<in> N" "hi \<in> N" "\<not> fl_less F hi lo"
proof -
  let ?s = "sortSlice (fl_less F) vals"
  note z = numbersD(1) [OF F] and refl = numbersD(2) [OF F]
  show "lo \<in> N" "hi \<in> N" "\<not> fl_less F hi lo"
  proof (atomize (full), cases "vals = []")
    case True
    with assms(3) have "lo = fl_zero F" "hi = fl_zero F" by (auto simp: minMax_def)
    with z refl show "lo \<in> N \<and> hi \<in> N \<and> \<not> fl_less F hi lo" by simp
  next
    case False
    then have n: "0 < length ?s" by simp
    have eq: "lo = ?s ! 0" "hi = ?s ! (length vals - 1)"
      using assms(3) False by (auto simp: minMax_def Let_def)
    have mem: "lo \<in> N" "hi \<in> N"
      using nth_mem [of 0 ?s] nth_mem [of "length vals - 1" ?s] False assms(2) by (auto simp: eq)
    have "\<not> fl_less F hi lo"
    proof (cases "length vals = 1")
      case True
      then show ?thesis using refl [OF mem(1)] by (simp add: eq)
    next
      case False
      then have "0 < length vals - 1" using \<open>vals \<noteq> []\<close> by (cases vals) auto
      then show ?thesis
        using sortSlice_sorted [OF F assms(2)] unfolding sorted_wrt_iff_nth_less eq by simp
    qed
    with mem show "lo \<in> N \<and> hi \<in> N \<and> \<not> fl_less F hi lo" by blast
  qed
qed

lemma priceRange_range:
  assumes "numbers F N" "pricesIn F N (es_Pricer e)" "0 \<le> sint n" "priceRangeFromFilters F e ty region n flt = Inr (lo, hi)"
  shows "lo \<in> N \<and> hi \<in> N \<and> \<not> fl_less F hi lo"
proof -
  obtain prices where p: "es_Pricer e ''AmazonEC2'' (es_Currency e)
      (mergeStringMaps [es_EC2Filters e, flt, [''instanceType'' \<mapsto> ty, ''regionCode'' \<mapsto> region]]) = Inr prices"
    and m: "minMax F (map (\<lambda>v. fl_mul F (fl_mul F (fl_ofInt32 F n) v) (fl_MonthlyHours F)) prices) = (lo, hi)"
    using assms(4) by (auto simp: priceRangeFromFilters_def Let_def split: sum.splits if_splits)
  have "set (map (\<lambda>v. fl_mul F (fl_mul F (fl_ofInt32 F n) v) (fl_MonthlyHours F)) prices) \<subseteq> N"
    using assms(2,3) p by (auto simp: pricesIn_def)
  from minMax_range [OF assms(1) this m] show ?thesis by blast
qed

definition goodEstimate :: "'f float32 \<Rightarrow> 'f set \<Rightarrow> string \<Rightarrow> 'f CostEstimate \<Rightarrow> bool" where
  "goodEstimate F N currency c \<longleftrightarrow> ce_High c \<in> N \<and> ce_Low c \<in> N \<and> \<not> fl_less F (ce_High c) (ce_Low c) \<and>
     ce_Currency c = currency"

lemma estimateClusters_good:
  assumes F: "numbers F N" and P: "pricesIn F N (es_Pricer e)"
    and "\<forall>c\<in>set cs. 0 \<le> sint (ci_instances (cc_controlPlane c)) \<and> 0 \<le> sint (ci_instances (cc_infrastructure c))"
    and "estimateClusters F e cs acc = Inr estimates"
    and "\<forall>c\<in>ran acc. goodEstimate F N (es_Currency e) c" "finite (dom acc)"
  shows "(\<forall>c\<in>ran estimates. goodEstimate F N (es_Currency e) c) \<and> finite (dom estimates) \<and>
    card (dom estimates) \<le> card (dom acc) + length cs"
  using assms(3-)
proof (induction cs arbitrary: acc)
  case (Cons c cs)
  obtain a b a' b' where r:
    "priceRangeFromFilters F e (ci_instanceType (cc_controlPlane c)) (cc_regionCode c)
       (ci_instances (cc_controlPlane c)) (cc_filterAnnotations c) = Inr (a, b)"
    "priceRangeFromFilters F e (ci_instanceType (cc_infrastructure c)) (cc_regionCode c)
       (ci_instances (cc_infrastructure c)) (cc_filterAnnotations c) = Inr (a', b')"
    using Cons.prems(2) by (auto split: sum.splits)
  have n: "0 \<le> sint (ci_instances (cc_controlPlane c))" "0 \<le> sint (ci_instances (cc_infrastructure c))" using Cons.prems(1) by simp_all
  note ranges = priceRange_range [OF F P n(1) r(1)] priceRange_range [OF F P n(2) r(2)]
  let ?c = "\<lparr> ce_High = fl_add F b' b, ce_Low = fl_add F a' a, ce_Currency = es_Currency e \<rparr>"
  have "goodEstimate F N (es_Currency e) ?c"
    using ranges numbersD(3,6) [OF F] unfolding goodEstimate_def by simp
  then have acc: "\<forall>c\<in>ran (acc(cc_name c \<mapsto> ?c)). goodEstimate F N (es_Currency e) c"
    using Cons.prems(3) by (auto simp: ran_def)
  have fin: "finite (dom (acc(cc_name c \<mapsto> ?c)))" using Cons.prems(4) by simp
  have run: "estimateClusters F e cs (acc(cc_name c \<mapsto> ?c)) = Inr estimates"
    using Cons.prems(2) r by simp
  have rest: "\<forall>c\<in>set cs. 0 \<le> sint (ci_instances (cc_controlPlane c)) \<and> 0 \<le> sint (ci_instances (cc_infrastructure c))"
    using Cons.prems(1) by simp
  define acc' where "acc' = acc(cc_name c \<mapsto> ?c)"
  have "card (dom acc') \<le> card (dom acc) + 1"
    using Cons.prems(4) by (simp add: acc'_def card_insert_if)
  with Cons.IH [OF rest run acc fin, folded acc'_def] show ?case by auto
qed simp

lemma total_range:
  assumes F: "numbers F N" and "\<forall>c\<in>set vs. goodEstimate F N currency c"
    and "h \<in> N" "l \<in> N" "\<not> fl_less F h l"
  shows "\<not> fl_less F (foldl (\<lambda>t v. fl_add F t (ce_High v)) h vs) (foldl (\<lambda>t v. fl_add F t (ce_Low v)) l vs)"
  using assms(2-)
proof (induction vs arbitrary: h l)
  case (Cons v vs)
  have "fl_add F h (ce_High v) \<in> N" "fl_add F l (ce_Low v) \<in> N"
    "\<not> fl_less F (fl_add F h (ce_High v)) (fl_add F l (ce_Low v))"
    using Cons.prems numbersD(3,6) [OF F] by (simp_all add: goodEstimate_def)
  with Cons.IH Cons.prems(1) show ?case by simp
qed simp

lemma reduceEstimates_good:
  assumes F: "numbers F N" and v: "visit_ok visit" "visit_ok visitHigh" and "finite (dom estimates)"
    and good: "\<forall>c\<in>ran estimates. goodEstimate F N currency c"
    and "reduceEstimates F visit visitHigh estimates = Some c"
  shows "ce_Currency c = currency \<and> (visitHigh = visit \<or> card (dom estimates) \<le> 2 \<longrightarrow> \<not> fl_less F (ce_High c) (ce_Low c))"
proof -
  let ?vs = "map (\<lambda>k. the (estimates k)) (visit (dom estimates))"
  have ne: "dom estimates \<noteq> {}" and c: "c = \<lparr> ce_High = foldl (\<lambda>t k. fl_add F t (ce_High (the (estimates k)))) (fl_zero F) (visitHigh (dom estimates)),
      ce_Low = foldl (\<lambda>t v. fl_add F t (ce_Low v)) (fl_zero F) ?vs,
      ce_Currency = hd (sortSlice stringLess (remdups (map ce_Currency ?vs))) \<rparr>"
    using assms(6) by (auto simp: reduceEstimates_def Let_def foldl_map split: if_splits)
  have sv: "set (visit (dom estimates)) = dom estimates" "distinct (visit (dom estimates))"
    "set (visitHigh (dom estimates)) = dom estimates" "distinct (visitHigh (dom estimates))"
    using v assms(4) by (auto simp: visit_ok_def)
  have vs: "\<forall>x\<in>set ?vs. goodEstimate F N currency x"
    using good sv(1) by (auto simp: ran_def)
  note z = numbersD(1) [OF F] and refl = numbersD(2) [OF F]
  have "set (sortSlice stringLess (remdups (map ce_Currency ?vs))) = ce_Currency ` set ?vs" by (simp add: image_image)
  moreover have "ce_Currency ` set ?vs \<subseteq> {currency}" "ce_Currency ` set ?vs \<noteq> {}"
    using vs ne sv(1) by (auto simp: goodEstimate_def)
  ultimately have currency: "hd (sortSlice stringLess (remdups (map ce_Currency ?vs))) = currency"
    by (metis (no_types, lifting) hd_in_set set_empty singletonD subsetD)
  have "ce_High c = foldl (\<lambda>t v. fl_add F t (ce_High v)) (fl_zero F) ?vs" if few: "visitHigh = visit \<or> card (dom estimates) \<le> 2"
  proof (cases "visitHigh = visit")
    case False
    then have "length (visitHigh (dom estimates)) \<le> 2" using few sv(3,4) by (metis distinct_card)
    moreover have "(\<lambda>k. ce_High (the (estimates k))) ` set (visitHigh (dom estimates)) \<subseteq> N"
      using good sv(3) by (auto simp: goodEstimate_def ran_def)
    ultimately show ?thesis
      using sum_two [OF F sv(4) _ sv(2), of "\<lambda>k. ce_High (the (estimates k))"] sv(1,3) by (simp add: c foldl_map)
  qed (simp add: c foldl_map)
  then show ?thesis using total_range [OF F vs z z refl [OF z]] currency by (simp add: c)
qed

section \<open>Counts of instances\<close>

text \<open>The integers in the objects are not negative and fit in 32 bits.\<close>

definition countsIn :: "'u unstructured \<Rightarrow> 'u list \<Rightarrow> bool" where
  "countsIn U us \<longleftrightarrow> (\<forall>u\<in>set us. \<forall>elems v. un_NestedInt64 U u elems = Inr (v, True) \<longrightarrow> 0 \<le> v \<and> v < 2 ^ 31)"

definition countsOf :: "clusterResources \<Rightarrow> bool" where
  "countsOf R \<longleftrightarrow> finite (dom (cr_machineDeployments R)) \<and> finite (dom (cr_machinePools R)) \<and>
     (\<forall>cp\<in>ran (cr_controlPlanes R). \<forall>n. cp_replicas cp = Some n \<longrightarrow> 0 \<le> sint n) \<and>
     (\<forall>d\<in>ran (cr_machineDeployments R). 0 \<le> sint (mdp_replicas d)) \<and>
     (\<forall>p\<in>ran (cr_machinePools R). 0 \<le> sint (mp_replicas p))"

lemma ran_upd: "x \<in> ran (m(k \<mapsto> v)) \<Longrightarrow> x = v \<or> x \<in> ran m"
  by (auto simp: ran_def split: if_splits)

lemma sint_of_int: "0 \<le> v \<Longrightarrow> v < 2 ^ 31 \<Longrightarrow> 0 \<le> sint (word_of_int v :: 32 word)"
  by (simp add: sint_uint signed_take_bit_int_eq_self_iff uint_word_of_int signed_take_bit_int_eq_self take_bit_int_eq_self)

lemma replicas_count:
  assumes "countsIn U us" "u \<in> set us" "nestedOptionalInt32 U u elems = Inr (Some n)"
  shows "0 \<le> sint n"
proof -
  obtain v where "un_NestedInt64 U u elems = Inr (v, True)" "n = word_of_int v"
    using assms(3) by (auto simp: nestedOptionalInt32_def split: sum.splits if_splits)
  then show ?thesis using assms(1,2) sint_of_int unfolding countsIn_def by blast
qed

lemma parseResource_counts:
  assumes "countsIn U us" "u \<in> set us" "countsOf R" "parseResource U visit u R = Inr R'"
  shows "countsOf R'"
    and "length (cr_capiClusters R') =
      length (cr_capiClusters R) + (if un_GroupKind U u = ''Cluster.cluster.x-k8s.io'' then 1 else 0)"
proof -
  note n = replicas_count [OF assms(1,2)]
  have "countsOf R' \<and> length (cr_capiClusters R') = length (cr_capiClusters R) + 1" if "parseCluster U visit u R = Inr R'"
    using that assms(3) by (auto simp: parseCluster_def countsOf_def split: sum.splits option.splits)
  moreover have "countsOf R' \<and> length (cr_capiClusters R') = length (cr_capiClusters R)" if "parseControlPlane U u R = Inr R'"
    using that assms(3) n by (auto simp: parseControlPlane_def countsOf_def split: sum.splits dest!: ran_upd)
  moreover have "countsOf R' \<and> length (cr_capiClusters R') = length (cr_capiClusters R)" if "parseMachineDeployment U u R = Inr R'"
    using that assms(3) n by (auto simp: parseMachineDeployment_def countsOf_def split: sum.splits option.splits dest!: ran_upd)
  moreover have "countsOf R' \<and> length (cr_capiClusters R') = length (cr_capiClusters R)" if "parseMachinePool U u R = Inr R'"
    using that assms(3) n by (auto simp: parseMachinePool_def countsOf_def Let_def split: sum.splits option.splits dest!: ran_upd)
  moreover have "countsOf R' \<and> length (cr_capiClusters R') = length (cr_capiClusters R)"
    if "parseAWSCluster U u R = Inr R' \<or> parseMachineTemplate U u R = Inr R' \<or> parseAWSMachinePool U u R = Inr R'"
    using that assms(3)
    by (auto simp: parseAWSCluster_def parseMachineTemplate_def parseAWSMachinePool_def countsOf_def Let_def split: sum.splits option.splits)
  ultimately show "countsOf R'" "length (cr_capiClusters R') =
      length (cr_capiClusters R) + (if un_GroupKind U u = ''Cluster.cluster.x-k8s.io'' then 1 else 0)"
    using assms(3,4) unfolding parseResource_def Let_def by (auto split: if_splits)
qed

lemma parseResourcesFrom_counts:
  assumes "countsIn U us" "set vs \<subseteq> set us" "countsOf R" "parseResourcesFrom U visit vs R = Inr R'"
  shows "countsOf R' \<and> length (cr_capiClusters R') =
    length (cr_capiClusters R) + length (filter (\<lambda>u. un_GroupKind U u = ''Cluster.cluster.x-k8s.io'') vs)"
  using assms(2-)
proof (induction vs arbitrary: R)
  case (Cons u vs)
  then obtain R1 where R1: "parseResource U visit u R = Inr R1" "parseResourcesFrom U visit vs R1 = Inr R'"
    by (auto split: sum.splits)
  have "u \<in> set us" using Cons.prems(1) by simp
  note step = parseResource_counts [OF assms(1) this Cons.prems(2) R1(1)]
  show ?case using Cons.IH [OF _ step(1) R1(2)] Cons.prems(1) step(2) by auto
qed simp

lemma find_ran:
  assumes "visit_ok visit" "finite (dom m)" "find P (map (\<lambda>k. the (m k)) (visit (dom m))) = Some d"
  shows "d \<in> ran m"
proof -
  have "d \<in> set (map (\<lambda>k. the (m k)) (visit (dom m)))" using assms(3) by (auto simp: find_Some_iff intro: nth_mem)
  then show ?thesis using assms(1,2) by (auto simp: visit_ok_def ran_def)
qed

lemma composed_counts:
  assumes "visit_ok visit" "countsOf R" "composeCluster U visit R c = Inr cc"
  shows "0 \<le> sint (ci_instances (cc_controlPlane cc)) \<and> 0 \<le> sint (ci_instances (cc_infrastructure cc))"
proof -
  have "0 \<le> sint (ci_instances i)" if "infrastructureOf U visit R name = Inr i" for name i
  proof -
    have "0 \<le> sint (mdp_replicas d)" if "deploymentOf visit name (cr_machineDeployments R) = Some d" for d
    proof -
      have "d \<in> ran (cr_machineDeployments R)"
        by (rule find_ran [OF assms(1) _ that [unfolded deploymentOf_def]]) (use assms(2) in \<open>simp add: countsOf_def\<close>)
      then show ?thesis using assms(2) by (simp add: countsOf_def)
    qed
    moreover have "0 \<le> sint (mp_replicas p)" if "poolOf visit name (cr_machinePools R) = Some p" for p
    proof -
      have "p \<in> ran (cr_machinePools R)"
        by (rule find_ran [OF assms(1) _ that [unfolded poolOf_def]]) (use assms(2) in \<open>simp add: countsOf_def\<close>)
      then show ?thesis using assms(2) by (simp add: countsOf_def)
    qed
    ultimately show ?thesis
      using that by (auto simp: infrastructureOf_def Let_def deploymentInstances_def poolInstances_def split: option.splits sum.splits if_splits)
  qed
  moreover have "0 \<le> sint n" if "cr_controlPlanes R k = Some cp" "cp_replicas cp = Some n" for k cp n
    using assms(2) that by (auto simp: countsOf_def ran_def)
  ultimately show ?thesis using assms(3) by (auto simp: composeCluster_def split: option.splits sum.splits)
qed

text \<open>C35: An estimate is in the currency of the estimator. When the prices make totals that are numbers
  (not negative, rounded sums allowed) and the replicas are not negative 32-bit integers, its low
  end is not above its high end if the template has at most two clusters, or if the two loops of
  the code that add the totals visit the clusters in the same order.\<close>

theorem estimate_is_range:
  assumes "numbers F N" "pricesIn F N (es_Pricer e)" "countsIn U us" "visit_ok visit" "visit_ok visitHigh"
    and "Estimate F U visit visitHigh e us = Inr (Some c)"
  shows "ce_Currency c = es_Currency e \<and>
    (visitHigh = visit \<or> length (filter (\<lambda>u. un_GroupKind U u = ''Cluster.cluster.x-k8s.io'') us) \<le> 2 \<longrightarrow>
      \<not> fl_less F (ce_High c) (ce_Low c))"
proof -
  obtain R composed estimates where R: "parseResourcesFrom U visit us noResources = Inr R"
    and composed: "mapRes (composeCluster U visit R) (cr_capiClusters R) = Inr composed"
    and est: "estimateClusters F e composed Map.empty = Inr estimates"
    and r: "reduceEstimates F visit visitHigh estimates = Some c"
    using assms(6) by (auto simp: Estimate_def parseResources_def composeClusters_def split: sum.splits)
  have counts: "countsOf R" "length (cr_capiClusters R) = length (filter (\<lambda>u. un_GroupKind U u = ''Cluster.cluster.x-k8s.io'') us)"
    using parseResourcesFrom_counts [OF assms(3) subset_refl _ R] by (simp_all add: countsOf_def noResources_def)
  have "\<forall>cc\<in>set composed. 0 \<le> sint (ci_instances (cc_controlPlane cc)) \<and> 0 \<le> sint (ci_instances (cc_infrastructure cc))"
    using mapRes_set [OF composed] composed_counts [OF assms(4) counts(1)] by blast
  note good = estimateClusters_good [OF assms(1,2) this est, simplified]
  have "length composed = length (cr_capiClusters R)" using composed by (simp add: mapRes_Inr list_all2_lengthD)
  with good counts(2) have "card (dom estimates) \<le> length (filter (\<lambda>u. un_GroupKind U u = ''Cluster.cluster.x-k8s.io'') us)" by simp
  with reduceEstimates_good [OF assms(1,4,5) _ _ r] good show ?thesis by (meson le_trans)
qed

text \<open>With three clusters the two loops can add the same amounts in different orders, and a sum that is
  rounded then makes the high end smaller than the low end, although both ends of every cluster
  are the same: here above four only even numbers are represented.\<close>

definition rounded :: "nat \<Rightarrow> nat" where
  "rounded n = (if n \<le> 4 then n else 2 * (n div 2))"

definition roundFloat :: "nat float32" where
  "roundFloat = natFloat\<lparr> fl_add := (\<lambda>x y. rounded (x + y)) \<rparr>"

definition flatEstimates :: "string \<rightharpoonup> nat CostEstimate" where
  "flatEstimates = map_option (\<lambda>n. \<lparr> ce_High = n, ce_Low = n, ce_Currency = ''USD'' \<rparr>) \<circ> [''a'' \<mapsto> 1, ''b'' \<mapsto> 1, ''c'' \<mapsto> 4]"

lemma totals_can_cross:
  "numbers roundFloat {n. rounded n = n} \<and>
   (\<exists>c. reduceEstimates roundFloat sorted_list_of_set (rev \<circ> sorted_list_of_set) flatEstimates = Some c \<and> ce_High c < ce_Low c)"
proof
  show "numbers roundFloat {n. rounded n = n}"
    unfolding numbers_def roundFloat_def natFloat_def by (auto simp: rounded_def)
  have "dom flatEstimates = {''a'', ''b'', ''c''}" by (auto simp: flatEstimates_def dom_def)
  moreover have "sorted_list_of_set {''a'', ''b'', ''c''} = [''a'', ''b'', ''c'']" by (simp add: less_list_code)
  ultimately show "\<exists>c. reduceEstimates roundFloat sorted_list_of_set (rev \<circ> sorted_list_of_set) flatEstimates = Some c \<and> ce_High c < ce_Low c"
    by (simp add: reduceEstimates_def flatEstimates_def roundFloat_def natFloat_def rounded_def)
qed

text \<open>A template with one cluster; the objects are their names.\<close>

definition sampleTemplate :: "(int \<times> bool) \<Rightarrow> string unstructured" where
  "sampleTemplate replicas = \<lparr> un_GetName = id, un_GetKind = id,
     un_GroupVersionKind = (\<lambda>u. \<lparr> gvk_Group = [], gvk_Version = [], gvk_Kind = u \<rparr>),
     un_GroupKind = (\<lambda>u. mget [''c'' \<mapsto> ''Cluster.cluster.x-k8s.io'', ''a'' \<mapsto> ''AWSCluster.infrastructure.cluster.x-k8s.io'',
       ''k'' \<mapsto> ''KubeadmControlPlane.controlplane.cluster.x-k8s.io'', ''t'' \<mapsto> ''AWSMachineTemplate.infrastructure.cluster.x-k8s.io'',
       ''m'' \<mapsto> ''MachineDeployment.cluster.x-k8s.io''] u),
     un_GetAnnotations = (\<lambda>_. Map.empty),
     un_NestedString = (\<lambda>u _. Inr (mget [''a'' \<mapsto> ''eu'', ''t'' \<mapsto> ''a1'', ''m'' \<mapsto> ''c''] u, True)),
     un_NestedInt64 = (\<lambda>u _. Inr (if u = ''k'' then replicas else (2, True))),
     un_NestedStringMap = (\<lambda>u elems. let n = (if last elems = ''controlPlaneRef'' then ''k'' else if u = ''c'' then ''a'' else ''t'')
       in Inr (Some [''name'' \<mapsto> n, ''kind'' \<mapsto> n])),
     un_ParseGroupVersion = (\<lambda>s. Inr \<lparr> gv_Group = s, gv_Version = s \<rparr>),
     un_GvkString = gvk_Kind,
     un_ParseQuery = (\<lambda>_. Inr Map.empty) \<rparr>"

definition sampleEstimator :: "nat AWSClusterEstimator" where
  "sampleEstimator = NewAWSClusterEstimator (\<lambda>_ _ _. Inr [3, 1]) Map.empty"

lemmas estimate_simps = Let_def Estimate_def parseResources_def parseResource_def parseCluster_def parseAWSCluster_def
  parseControlPlane_def parseMachineTemplate_def parseMachineDeployment_def nestedString_def nestedOptionalInt32_def
  parseObjectRef_def objectKey_def objectRef_String_def noResources_def composeClusters_def composeCluster_def
  infrastructureOf_def deploymentOf_def poolOf_def deploymentInstances_def

lemma sample_estimate:
  "Estimate natFloat (sampleTemplate (2, True)) sorted_list_of_set sorted_list_of_set sampleEstimator [''c'', ''a'', ''k'', ''t'', ''m''] =
     Inr (Some \<lparr> ce_High = 8760, ce_Low = 2920, ce_Currency = ''USD'' \<rparr>)"
  by (simp add: estimate_simps sampleTemplate_def sampleEstimator_def NewAWSClusterEstimator_def
    priceRangeFromFilters_def natFloat_def minMax_def sortSlice_def reduceEstimates_def)

lemma sample_panic:
  "Estimate natFloat (sampleTemplate (0, False)) sorted_list_of_set sorted_list_of_set sampleEstimator [''c'', ''a'', ''k'', ''t'', ''m''] = Inl nilDeref"
  by (simp add: estimate_simps sampleTemplate_def sampleEstimator_def NewAWSClusterEstimator_def nilDeref_def)

lemma estimate_is_range_witness:
  "\<exists>c. Estimate natFloat (sampleTemplate (2, True)) sorted_list_of_set sorted_list_of_set sampleEstimator [''c'', ''a'', ''k'', ''t'', ''m''] = Inr (Some c) \<and>
     ce_Low c \<le> ce_High c \<and> ce_Currency c = ''USD''"
proof -
  have "numbers natFloat UNIV" "pricesIn natFloat UNIV (es_Pricer sampleEstimator)"
    "countsIn (sampleTemplate (2, True)) [''c'', ''a'', ''k'', ''t'', ''m'']"
    by (auto simp: numbers_def natFloat_def pricesIn_def countsIn_def sampleTemplate_def split: if_splits)
  from estimate_is_range [OF this visit_ok_sorted visit_ok_sorted sample_estimate] sample_estimate
  show ?thesis by (intro exI conjI) (auto simp: natFloat_def sampleEstimator_def NewAWSClusterEstimator_def)
qed

section \<open>Panics\<close>

definition quiet :: "'a res \<Rightarrow> bool" where
  "quiet r \<longleftrightarrow> (\<forall>e. r = Inl e \<longrightarrow> \<not> isPanic e)"

lemma quiet_simps [simp]: "quiet (Inr x)" "quiet (Inl e) = (\<not> isPanic e)"
  by (simp_all add: quiet_def)

definition unstructuredQuiet :: "'u unstructured \<Rightarrow> bool" where
  "unstructuredQuiet U \<longleftrightarrow> (\<forall>u elems. quiet (un_NestedString U u elems) \<and> quiet (un_NestedInt64 U u elems) \<and>
     quiet (un_NestedStringMap U u elems)) \<and> (\<forall>s. quiet (un_ParseGroupVersion U s) \<and> quiet (un_ParseQuery U s))"

definition pricerQuiet :: "'f Pricer \<Rightarrow> bool" where
  "pricerQuiet pricer \<longleftrightarrow> (\<forall>service currency flt. quiet (pricer service currency flt))"

definition noReplicas :: "'u unstructured \<Rightarrow> 'u \<Rightarrow> bool" where
  "noReplicas U u \<longleftrightarrow> un_GroupKind U u \<in> {''KubeadmControlPlane.controlplane.cluster.x-k8s.io'', ''MachineDeployment.cluster.x-k8s.io''} \<and>
     (\<exists>v. un_NestedInt64 U u [''spec'', ''replicas''] = Inr (v, False))"

lemma quiet_bind: "quiet r \<Longrightarrow> (\<And>x. r = Inr x \<Longrightarrow> quiet (f x)) \<Longrightarrow> (\<And>e. \<not> isPanic e \<Longrightarrow> \<not> isPanic (g e)) \<Longrightarrow>
    quiet (case r of Inl e \<Rightarrow> Inl (g e) | Inr x \<Rightarrow> f x)"
  by (cases r) simp_all

lemma quiet_let: "(\<And>x. quiet (f x)) \<Longrightarrow> quiet (let x = v in f x)"
  by simp

lemma accessors_quiet:
  assumes "unstructuredQuiet U"
  shows "quiet (un_NestedString U u elems)" "quiet (un_NestedInt64 U u elems)" "quiet (un_NestedStringMap U u elems)"
    "quiet (un_ParseGroupVersion U s)" "quiet (un_ParseQuery U s)"
  using assms by (simp_all add: unstructuredQuiet_def)

lemma collectFilters_quiet: "quiet (collectFilters parsed ks acc)"
  by (induction ks arbitrary: acc) (simp_all add: Let_def)

lemma parsers_quiet:
  assumes U: "unstructuredQuiet U"
  shows "quiet (nestedString U u elems)" "quiet (nestedOptionalInt32 U u elems)" "quiet (parseObjectRef U u elems)"
    "quiet (ParseFilterQueryString U visit annot)"
  unfolding nestedString_def nestedOptionalInt32_def parseObjectRef_def ParseFilterQueryString_def
  by (auto simp: accessors_quiet [OF U] collectFilters_quiet intro!: quiet_bind split: option.splits)

text \<open>A case of the switch panics only on replicas that are not there.\<close>

lemma parseResource_quiet:
  assumes U: "unstructuredQuiet U" and bad: "\<not> noReplicas U u"
  shows "quiet (parseResource U visit u R)"
proof -
  note q = parsers_quiet [OF U]
  have "quiet (parseCluster U visit u R)" unfolding parseCluster_def
    by (intro quiet_bind q) (auto simp: q split: option.splits)
  moreover have "quiet (parseAWSCluster U u R)" "quiet (parseControlPlane U u R)" "quiet (parseMachineTemplate U u R)"
    "quiet (parseMachinePool U u R)" "quiet (parseAWSMachinePool U u R)"
    unfolding parseAWSCluster_def parseControlPlane_def parseMachineTemplate_def parseMachinePool_def parseAWSMachinePool_def
    by (intro quiet_bind quiet_let q; simp)+
  moreover have "quiet (parseMachineDeployment U u R)" if "un_GroupKind U u = ''MachineDeployment.cluster.x-k8s.io''"
  proof -
    have "nestedOptionalInt32 U u [''spec'', ''replicas''] \<noteq> Inr None"
      using bad that by (auto simp: noReplicas_def nestedOptionalInt32_def split: sum.splits)
    then show ?thesis unfolding parseMachineDeployment_def
      by (intro quiet_bind q) (auto simp: q split: option.splits sum.splits)
  qed
  ultimately show ?thesis by (auto simp: parseResource_def Let_def)
qed

definition replicasGiven :: "clusterResources \<Rightarrow> bool" where
  "replicasGiven R \<longleftrightarrow> (\<forall>cp\<in>ran (cr_controlPlanes R). cp_replicas cp \<noteq> None)"

lemma parseResource_replicas:
  assumes "\<not> noReplicas U u" "replicasGiven R" "parseResource U visit u R = Inr R'"
  shows "replicasGiven R'"
proof (cases "un_GroupKind U u = ''KubeadmControlPlane.controlplane.cluster.x-k8s.io''")
  case True
  then have "parseControlPlane U u R = Inr R'"
    using assms(3) by (simp add: parseResource_def)
  moreover have "nestedOptionalInt32 U u [''spec'', ''replicas''] \<noteq> Inr None"
    using assms(1) True by (auto simp: noReplicas_def nestedOptionalInt32_def split: sum.splits)
  ultimately show ?thesis
    using assms(2) by (force simp: parseControlPlane_def replicasGiven_def ran_def split: sum.splits if_splits)
next
  case False
  then have "cr_controlPlanes R' = cr_controlPlanes R"
    using assms(3)
    by (auto simp: parseResource_def Let_def parseCluster_def parseAWSCluster_def parseMachineTemplate_def
        parseMachineDeployment_def parseMachinePool_def parseAWSMachinePool_def
        split: sum.splits option.splits if_splits)
  with assms(2) show ?thesis by (simp add: replicasGiven_def)
qed

lemma parseResourcesFrom_quiet:
  assumes "unstructuredQuiet U" "\<forall>u\<in>set us. \<not> noReplicas U u" "replicasGiven R"
  shows "quiet (parseResourcesFrom U visit us R)"
    and "parseResourcesFrom U visit us R = Inr R' \<Longrightarrow> replicasGiven R'"
  using assms(2,3)
proof (induction us arbitrary: R)
  case (Cons u us)
  {
    case 1
    then have u: "\<not> noReplicas U u" by simp
    show ?case
    proof (cases "parseResource U visit u R")
      case (Inl e)
      then show ?thesis using parseResource_quiet [OF assms(1) u, of visit R] by simp
    next
      case (Inr R1)
      then show ?thesis using Cons.IH(1) [of R1] parseResource_replicas [OF u] 1 by simp
    qed
  next
    case 2
    then have u: "\<not> noReplicas U u" by simp
    obtain R1 where "parseResource U visit u R = Inr R1" "parseResourcesFrom U visit us R1 = Inr R'"
      using 2 by (auto split: sum.splits)
    then show ?case using Cons.IH(2) [of R1] parseResource_replicas [OF u] 2 by simp
  }
qed simp_all

lemma composeCluster_quiet:
  assumes "replicasGiven R"
  shows "quiet (composeCluster U visit R c)"
proof -
  have "quiet (infrastructureOf U visit R name)" for name
    by (auto simp: infrastructureOf_def deploymentInstances_def poolInstances_def Let_def split: option.splits)
  then show ?thesis
    using assms by (auto simp: composeCluster_def replicasGiven_def ran_def quiet_def split: option.splits sum.splits)
qed

lemma mapRes_quiet: "(\<And>x. quiet (f x)) \<Longrightarrow> quiet (mapRes f xs)"
  by (induction xs) (force simp: quiet_def split: sum.splits)+

lemma estimateClusters_quiet:
  assumes "pricerQuiet (es_Pricer e)"
  shows "quiet (estimateClusters F e cs acc)"
proof (induction cs arbitrary: acc)
  case (Cons c cs)
  have "quiet (priceRangeFromFilters F e ty region n flt)" for ty region n flt
    using assms unfolding priceRangeFromFilters_def Let_def by (intro quiet_bind) (auto simp: pricerQuiet_def)
  with Cons show ?case by (auto simp: quiet_def split: sum.splits)
qed simp

text \<open>Estimating the costs of a template panics only when the template has a control plane or
  a machine deployment that leaves its replicas out, which Cluster API allows.\<close>

theorem estimate_panics_only:
  assumes "unstructuredQuiet U" "pricerQuiet (es_Pricer e)"
    and "Estimate F U visit visitHigh e us = Inl x" "isPanic x"
  shows "\<exists>u\<in>set us. noReplicas U u"
proof (rule ccontr)
  assume "\<not> (\<exists>u\<in>set us. noReplicas U u)"
  then have all: "\<forall>u\<in>set us. \<not> noReplicas U u" by blast
  have none: "replicasGiven noResources" by (simp add: replicasGiven_def noResources_def)
  note q = parseResourcesFrom_quiet [OF assms(1) all none]
  have "quiet (Estimate F U visit visitHigh e us)"
    unfolding Estimate_def parseResources_def composeClusters_def
    using estimateClusters_quiet [OF assms(2)]
    by (intro quiet_bind q mapRes_quiet composeCluster_quiet) auto
  with assms(3,4) show False by simp
qed

lemma estimate_panics_only_witness:
  "Estimate natFloat (sampleTemplate (0, False)) sorted_list_of_set sorted_list_of_set sampleEstimator [''c'', ''a'', ''k'', ''t'', ''m''] = Inl nilDeref \<and>
   (\<exists>u\<in>set [''c'', ''a'', ''k'', ''t'', ''m'']. noReplicas (sampleTemplate (0, False)) u)"
proof -
  have "unstructuredQuiet (sampleTemplate (0, False))" "pricerQuiet (es_Pricer sampleEstimator)" "isPanic nilDeref"
    by (simp_all add: unstructuredQuiet_def sampleTemplate_def pricerQuiet_def sampleEstimator_def
      NewAWSClusterEstimator_def nilDeref_def Let_def)
  from estimate_panics_only [OF this(1,2) sample_panic this(3)] show ?thesis using sample_panic by blast
qed

end
