(* ===== verification/IndexMapping.thy ===== *)
theory IndexMapping
  imports Indexer
begin

text \<open>
  The constructor of the index in pkg/query/store/indexer.go: how the fields of an
  object are mapped. The mappings of bleve and their operations are parameters; what a
  document mapping says of a property is the list of the fields it indexes it with.
\<close>

record field_mapping =
  fm_Name :: string
  fm_Type :: string
  fm_Analyzer :: string

record ('d, 'i) mapping_lib =
  ml_NewIndexMapping :: 'i
  ml_NewDocumentMapping :: 'd
  ml_NewDocumentDisabledMapping :: 'd
  ml_NewTextFieldMapping :: field_mapping
  ml_AddFieldMappingsAt :: "string \<Rightarrow> field_mapping \<Rightarrow> 'd \<Rightarrow> 'd"
  ml_AddSubDocumentMapping :: "string \<Rightarrow> 'd \<Rightarrow> 'd \<Rightarrow> 'd"
  ml_AddDocumentMapping :: "string \<Rightarrow> 'd \<Rightarrow> 'i \<Rightarrow> 'i"

definition commonField :: "('d, 'i) mapping_lib \<Rightarrow> string \<Rightarrow> 'd \<Rightarrow> 'd" where
  "commonField M field objMapping =
     (let fieldMapping = (ml_NewTextFieldMapping M)\<lparr> fm_Analyzer := ''keyword'' \<rparr>;
          objMapping = ml_AddFieldMappingsAt M field fieldMapping objMapping;
          facetMapping = (ml_NewTextFieldMapping M)\<lparr> fm_Name := field @ facetSuffix, fm_Analyzer := ''keyword'' \<rparr>
      in ml_AddFieldMappingsAt M field facetMapping objMapping)"

text \<open>The parameter fields is not used: the loop runs over commonFields.\<close>

definition addFieldMappings :: "('d, 'i) mapping_lib \<Rightarrow> string list \<Rightarrow> 'i \<Rightarrow> 'i" where
  "addFieldMappings M flds index =
     (let objMapping = ml_NewDocumentMapping M;
          nameFieldMapping = (ml_NewTextFieldMapping M)\<lparr> fm_Analyzer := ''keyword'' \<rparr>;
          objMapping = ml_AddFieldMappingsAt M ''name'' nameFieldMapping objMapping;
          objMapping = ml_AddSubDocumentMapping M ''unstructured'' (ml_NewDocumentDisabledMapping M) objMapping;
          objMapping = foldl (\<lambda>d f. commonField M f d) objMapping commonFields
      in ml_AddDocumentMapping M ''object'' objMapping index)"

definition indexFile :: string where "indexFile = ''index.db''"

definition NewIndexer :: "('d, 'i) mapping_lib \<Rightarrow> (string list \<Rightarrow> string) \<Rightarrow> (string \<Rightarrow> 'i \<Rightarrow> ('fs \<Rightarrow> 'ix res \<times> 'fs)) \<Rightarrow>
    ('ix, 'j) bleve \<Rightarrow> string \<Rightarrow> 'fs \<Rightarrow> ('ix, 'j) bleveIndexer res \<times> 'fs" where
  "NewIndexer M joinPath bleveNew B path fs =
     (let idxFileLocation = joinPath [path, indexFile];
          mapping = addFieldMappings M commonFields (ml_NewIndexMapping M)
      in case bleveNew idxFileLocation mapping fs of
           (Inl e, fs) \<Rightarrow> (Inl (wrap ''failed to create indexer: %w'' [] e), fs)
         | (Inr ix, fs) \<Rightarrow> (Inr \<lparr> bi_bleve = B, bi_idx = ix, bi_inflight = (\<lambda>_. 0), bi_latency = [] \<rparr>, fs))"

text \<open>
  The documented behaviour of the mappings, for an observer that gives the fields of a
  property: AddFieldMappingsAt adds one, the other properties keep theirs.
\<close>

definition fieldsAt_ok :: "('d, 'i) mapping_lib \<Rightarrow> ('d \<Rightarrow> string \<Rightarrow> field_mapping list) \<Rightarrow> bool" where
  "fieldsAt_ok M fieldsAt \<longleftrightarrow> (\<forall>p. fieldsAt (ml_NewDocumentMapping M) p = []) \<and>
     (\<forall>p fm d q. fieldsAt (ml_AddFieldMappingsAt M p fm d) q = fieldsAt d q @ (if q = p then [fm] else [])) \<and>
     (\<forall>p sub d q. q \<noteq> p \<longrightarrow> fieldsAt (ml_AddSubDocumentMapping M p sub d) q = fieldsAt d q) \<and>
     fm_Name (ml_NewTextFieldMapping M) = []"

text \<open>Every common field is indexed twice as a keyword, under its own name and as a facet.\<close>

lemma common_fields_mapped:
  assumes M: "fieldsAt_ok M fieldsAt" and "f \<in> set commonFields"
  shows "\<exists>obj. addFieldMappings M fs index = ml_AddDocumentMapping M ''object'' obj index \<and>
    map fm_Name (fieldsAt obj f) = [[], f @ ''.facet''] \<and> set (map fm_Analyzer (fieldsAt obj f)) = {''keyword''}"
  unfolding addFieldMappings_def Let_def
  by (intro exI conjI, rule refl) (insert assms, auto simp: fieldsAt_ok_def commonFields_def commonField_def Let_def facetSuffix_def)

end
