(* ===== verification/TextParser.thy ===== *)
theory TextParser
  imports Sorting
begin

text \<open>
  cmd/clusters-service/pkg/templates/text\_parser.go: the walk over the parse tree of a
  text/template that lists the parameters it uses. A pipeline is the list of its
  commands, a command the list of its arguments; a node of a type that the walk does
  not look at is OtherNode. Indexing an empty slice panics.
\<close>

datatype branch_type = NodeIf | NodeWith | NodeRange

datatype node =
    PipeNode "node list list"
  | ActionNode "node list list"
  | ListNode "node list"
  | CommandNode "node list"
  | BranchNode branch_type "node list list option" "node list option" "node list option"
  | FieldNode "string list"
  | OtherNode

definition indexPanic :: goerror where
  "indexPanic = Panic ''index out of range''"

definition concatRes :: "'a list list res \<Rightarrow> 'a list res" where
  "concatRes r = bindR r (\<lambda>xss. Inr (concat xss))"

definition optRes :: "('a \<Rightarrow> 'b list res) \<Rightarrow> 'a option \<Rightarrow> 'b list res" where
  "optRes f x = (case x of None \<Rightarrow> Inr [] | Some y \<Rightarrow> f y)"

text \<open>What a node adds to the result, given the fields of its pipeline or of its branches.\<close>

definition actionParams :: "string list \<Rightarrow> string list" where
  "actionParams items =
     (if length items > 0 \<and> items ! 0 = ''params'' then [joinStr ''.'' (drop 1 items)] else [])"

definition branchParams :: "string list \<Rightarrow> string list res" where
  "branchParams items =
     (if items = [] then Inl indexPanic
      else if items ! 0 = ''params'' then Inr (drop 1 items) else Inr [])"

fun nodeFields :: "node \<Rightarrow> string list res"
and listNodeFields :: "node list \<Rightarrow> string list res"
and listNodeFieldsFromPipe :: "node list list \<Rightarrow> string list res" where
  "nodeFields (PipeNode cmds) = listNodeFieldsFromPipe cmds"
| "nodeFields (ActionNode cmds) = bindR (listNodeFieldsFromPipe cmds) (\<lambda>items. Inr (actionParams items))"
| "nodeFields (ListNode nodes) = listNodeFields nodes"
| "nodeFields (CommandNode args) = listNodeFields args"
| "nodeFields (BranchNode t pipe body els) =
     bindR (case pipe of None \<Rightarrow> Inr [] | Some cmds \<Rightarrow> listNodeFieldsFromPipe cmds) (\<lambda>a.
     bindR (case body of None \<Rightarrow> Inr [] | Some nodes \<Rightarrow> listNodeFields nodes) (\<lambda>b.
     bindR (case els of None \<Rightarrow> Inr [] | Some nodes \<Rightarrow> listNodeFields nodes) (\<lambda>c.
       branchParams (a @ b @ c))))"
| "nodeFields (FieldNode ident) = Inr ident"
| "nodeFields OtherNode = Inr []"
| "listNodeFields [] = Inr []"
| "listNodeFields (n # ns) = bindR (nodeFields n) (\<lambda>a. bindR (listNodeFields ns) (\<lambda>b. Inr (a @ b)))"
| "listNodeFieldsFromPipe [] = Inr []"
| "listNodeFieldsFromPipe (c # cs) = bindR (listNodeFields c) (\<lambda>a. bindR (listNodeFieldsFromPipe cs) (\<lambda>b. Inr (a @ b)))"

definition parseTextParamNames :: "node list \<Rightarrow> string list res" where
  "parseTextParamNames root = bindR (listNodeFields [ListNode root]) (\<lambda>names. Inr (sortedSet names))"

end
