(* ===== verification/Templates.thy ===== *)
theory Templates
  imports TextParser Kube
begin

text \<open>
  cmd/clusters-service/pkg/templates: the parameters of a template, its rendering and
  its profiles. A template is a record with the fields of the types of the templates
  controller that the code reads. text/template, envsubst, the YAML and JSON codecs and
  the REST mapper are parameters (the record tlib). A decoded object is a record of the
  fields that the render options read or write; u\_Rest stands for the others.
\<close>

section \<open>Templates\<close>

record Param =
  pa_Name :: string
  pa_Description :: string
  pa_Required :: bool
  pa_Options :: "string list"
  pa_Default :: string

record resource_template =
  rt_Content :: "string list option"
  rt_Raw :: string
  rt_Path :: string

record chart_item =
  ch_Chart :: string
  ch_Version :: string
  ch_TargetNamespace :: string
  ch_Layer :: string
  ch_Required :: bool
  ch_Editable :: bool
  ch_Values :: "string option"
  ch_TemplateContent :: "string option"
  ch_TemplatePath :: string

record template =
  tm_Name :: string
  tm_Namespace :: string
  tm_Kind :: string
  tm_Annotations :: "string \<rightharpoonup> string"
  tm_Labels :: "string \<rightharpoonup> string"
  tm_RenderType :: string
  tm_Description :: string
  tm_ResourceTemplates :: "resource_template list"
  tm_Params :: "Param list"
  tm_Charts :: "chart_item list"
  tm_HelmRepositoryPath :: string

record 'u uns =
  u_Gvk :: gvk
  u_Name :: string
  u_Namespace :: string
  u_Labels :: "string \<rightharpoonup> string"
  u_Annotations :: "(string \<rightharpoonup> string) res"
  u_Rest :: 'u

datatype rest_mapping = NoKindMatch | MappingFailed goerror | RootScope | NamespaceScope

record profileAnnotation =
  an_Name :: string
  an_Version :: string
  an_Namespace :: string
  an_Required :: "bool option"
  an_Editable :: bool
  an_Values :: string

record 'u tlib =
  tl_JSONToYAML :: "string \<Rightarrow> string res"
  tl_Decode :: "string \<Rightarrow> 'u uns res"
  tl_Marshal :: "'u uns \<Rightarrow> string res"
  tl_ParseText :: "string \<Rightarrow> string \<times> string \<Rightarrow> string \<Rightarrow> node list res"
  tl_Execute :: "node list \<Rightarrow> (string \<rightharpoonup> string) \<Rightarrow> string \<times> string \<Rightarrow> string res"
  tl_Process :: "string \<Rightarrow> (string \<Rightarrow> string res) \<Rightarrow> string res"
  tl_GetVariables :: "string \<Rightarrow> string list res"
  tl_RESTMapping :: "gvk \<Rightarrow> rest_mapping"
  tl_UnmarshalProfile :: "string \<Rightarrow> profileAnnotation res"
  tl_MarshalRaw :: "string \<Rightarrow> string res"

section \<open>processors.go: the two processors\<close>

record Processor =
  pc_Render :: "string \<Rightarrow> (string \<rightharpoonup> string) \<Rightarrow> string res"
  pc_ParamNames :: "string \<Rightarrow> string list res"

definition TemplateDelimiterAnnotation :: string where
  "TemplateDelimiterAnnotation = ''templates.weave.works/delimiters''"

definition templateDelims :: "template \<Rightarrow> string \<times> string" where
  "templateDelims t =
     (case tm_Annotations t TemplateDelimiterAnnotation of
        Some ann \<Rightarrow> (let elems = splitChar (CHR '','') ann in
          if length elems = 2 then (elems ! 0, elems ! 1) else (''{{'', ''}}''))
      | None \<Rightarrow> (''{{'', ''}}''))"

definition parseToTemplate :: "'u tlib \<Rightarrow> template \<Rightarrow> string \<Rightarrow> node list res" where
  "parseToTemplate L t tmpl =
     wrapR ''failed to parse template: %w'' [] (tl_ParseText L (tm_Name t) (templateDelims t) tmpl)"

definition text_Render :: "'u tlib \<Rightarrow> template \<Rightarrow> string \<Rightarrow> (string \<rightharpoonup> string) \<Rightarrow> string res" where
  "text_Render L t tmpl values =
     bindR (parseToTemplate L t tmpl) (\<lambda>parsed.
       wrapR ''failed to render template: %w'' [] (tl_Execute L parsed values (tm_Name t, tm_Namespace t)))"

definition text_ParamNames :: "'u tlib \<Rightarrow> template \<Rightarrow> string \<Rightarrow> string list res" where
  "text_ParamNames L t raw =
     bindR (wrapR ''failed to convert back to YAML: %w'' [] (tl_JSONToYAML L raw)) (\<lambda>b.
     bindR (parseToTemplate L t b) parseTextParamNames)"

definition NewTextTemplateProcessor :: "'u tlib \<Rightarrow> template \<Rightarrow> Processor" where
  "NewTextTemplateProcessor L t = \<lparr> pc_Render = text_Render L t, pc_ParamNames = text_ParamNames L t \<rparr>"

definition envsubst_Render :: "'u tlib \<Rightarrow> string \<Rightarrow> (string \<rightharpoonup> string) \<Rightarrow> string res" where
  "envsubst_Render L tmpl values =
     wrapR ''failed to process template values: %w'' [] (tl_Process L tmpl (\<lambda>n.
       case values n of Some s \<Rightarrow> Inr s | None \<Rightarrow> Inl (Errf ''variable %s not found'' [n])))"

definition envsubst_ParamNames :: "'u tlib \<Rightarrow> string \<Rightarrow> string list res" where
  "envsubst_ParamNames L raw =
     bindR (wrapR ''processing template: %w'' [] (tl_GetVariables L raw)) (\<lambda>tv. Inr (sortedSet tv))"

definition NewEnvsubstTemplateProcessor :: "'u tlib \<Rightarrow> Processor" where
  "NewEnvsubstTemplateProcessor L = \<lparr> pc_Render = envsubst_Render L, pc_ParamNames = envsubst_ParamNames L \<rparr>"

record TemplateProcessor =
  tp_Template :: template
  tp_Processor :: Processor

definition NewProcessorForTemplate :: "'u tlib \<Rightarrow> template \<Rightarrow> TemplateProcessor res" where
  "NewProcessorForTemplate L t =
     (let ty = tm_RenderType t in
      if ty = [] \<or> ty = ''envsubst'' then Inr \<lparr> tp_Template = t, tp_Processor = NewEnvsubstTemplateProcessor L \<rparr>
      else if ty = ''templating'' then Inr \<lparr> tp_Template = t, tp_Processor = NewTextTemplateProcessor L t \<rparr>
      else Inl (Errf ''unknown template renderType: %s'' [ty]))"

section \<open>processors.go: the parameters of a template\<close>

definition ProfilesAnnotation :: string where "ProfilesAnnotation = ''capi.weave.works/profile-''"

definition ProfileAnnotations :: "template \<Rightarrow> (string \<rightharpoonup> string)" where
  "ProfileAnnotations t k = (if prefix ProfilesAnnotation k then tm_Annotations t k else None)"

definition contents :: "resource_template \<Rightarrow> string list" where
  "contents rt = (case rt_Content rt of None \<Rightarrow> [] | Some vs \<Rightarrow> vs)"

definition bothRawAndContent :: "template \<Rightarrow> resource_template \<Rightarrow> goerror option" where
  "bothRawAndContent t rt =
     (if rt_Content rt \<noteq> None \<and> rt_Raw rt \<noteq> []
      then Some (Errf ''cannot specify both raw and content in the same resource template: %s/%s'' [tm_Name t, tm_Namespace t])
      else None)"

definition namesIn :: "TemplateProcessor \<Rightarrow> string \<Rightarrow> string list \<Rightarrow> string \<Rightarrow> string list res" where
  "namesIn p msg args text = wrapR msg args (pc_ParamNames (tp_Processor p) text)"

definition resourceNames :: "TemplateProcessor \<Rightarrow> resource_template \<Rightarrow> string list res" where
  "resourceNames p rt =
     (case bothRawAndContent (tp_Template p) rt of
        Some e \<Rightarrow> Inl e
      | None \<Rightarrow>
          bindR (namesIn p ''failed to get params from template path: %w'' [] (rt_Path rt)) (\<lambda>a.
          bindR (mapRes (namesIn p ''failed to get params from template: %w'' []) (contents rt)) (\<lambda>b.
          bindR (if rt_Raw rt \<noteq> [] then namesIn p ''failed to get params from raw template: %w'' [] (rt_Raw rt) else Inr []) (\<lambda>c.
            Inr (a @ concat b @ c)))))"

definition chartNames :: "TemplateProcessor \<Rightarrow> chart_item \<Rightarrow> string list res" where
  "chartNames p ch =
     bindR (case ch_TemplateContent ch of None \<Rightarrow> Inr []
            | Some raw \<Rightarrow> namesIn p ''failed to get params from profile.spec of %s: %w'' [ch_Chart ch] raw) (\<lambda>a.
     bindR (if ch_TemplatePath ch \<noteq> [] then namesIn p ''failed to get params from profile.spec of %s: %w'' [ch_Chart ch] (ch_TemplatePath ch)
            else Inr []) (\<lambda>b.
     bindR (case ch_Values ch of None \<Rightarrow> Inr []
            | Some raw \<Rightarrow> namesIn p ''failed to get params from profile.values of %s: %w'' [ch_Chart ch] raw) (\<lambda>c.
       Inr (a @ b @ c))))"

definition discoveredNames :: "visit \<Rightarrow> TemplateProcessor \<Rightarrow> string list res" where
  "discoveredNames visit p =
     (let t = tp_Template p; anns = ProfileAnnotations t; path = tm_HelmRepositoryPath t in
      bindR (mapRes (resourceNames p) (tm_ResourceTemplates t)) (\<lambda>a.
      bindR (mapRes (\<lambda>k. namesIn p ''failed to get params from annotation: %w'' [] (the (anns k))) (visit (dom anns))) (\<lambda>b.
      bindR (mapRes (chartNames p) (tm_Charts t)) (\<lambda>c.
      bindR (if path \<noteq> [] then namesIn p ''failed to get params from chart.helmRepositoryTemplate.path of %s: %w'' [path] path
             else Inr []) (\<lambda>d.
        Inr (concat a @ concat b @ concat c @ d))))))"

text \<open>A parameter with the details of its declaration; the last declaration of a name wins.\<close>

definition newParam :: "string \<Rightarrow> Param" where
  "newParam n = \<lparr> pa_Name = n, pa_Description = [], pa_Required = False, pa_Options = [], pa_Default = [] \<rparr>"

definition enrich :: "(string \<rightharpoonup> Param) \<Rightarrow> Param \<Rightarrow> (string \<rightharpoonup> Param)" where
  "enrich meta v =
     (case meta (pa_Name v) of
        Some m \<Rightarrow> meta(pa_Name v \<mapsto> m\<lparr> pa_Description := pa_Description v, pa_Options := pa_Options v,
          pa_Required := pa_Required v, pa_Default := pa_Default v \<rparr>)
      | None \<Rightarrow> meta)"

definition paramsMeta :: "Param list \<Rightarrow> string list \<Rightarrow> (string \<rightharpoonup> Param)" where
  "paramsMeta declared names =
     foldl enrich (foldl (\<lambda>m v. m(v \<mapsto> newParam v)) Map.empty (sortedSet names)) declared"

definition paramOrders :: "Param list \<Rightarrow> (string \<rightharpoonup> nat)" where
  "paramOrders declared = foldl (\<lambda>m (i, v). m(pa_Name v \<mapsto> i)) Map.empty (zip [0..<length declared] declared)"

definition paramLess :: "(string \<rightharpoonup> nat) \<Rightarrow> Param \<Rightarrow> Param \<Rightarrow> bool" where
  "paramLess orders p q =
     (case (orders (pa_Name p), orders (pa_Name q)) of
        (Some i, Some j) \<Rightarrow> i < j
      | (None, None) \<Rightarrow> stringLess (pa_Name p) (pa_Name q)
      | (Some _, None) \<Rightarrow> True
      | (None, Some _) \<Rightarrow> False)"

definition Params :: "visit \<Rightarrow> TemplateProcessor \<Rightarrow> Param list res" where
  "Params visit p =
     bindR (discoveredNames visit p) (\<lambda>names.
       let declared = tm_Params (tp_Template p); meta = paramsMeta declared names in
       Inr (sortSlice (paramLess (paramOrders declared)) (map (\<lambda>k. the (meta k)) (visit (dom meta)))))"

definition ParamsFromTemplate :: "'u tlib \<Rightarrow> visit \<Rightarrow> template \<Rightarrow> Param list res" where
  "ParamsFromTemplate L visit t = bindR (NewProcessorForTemplate L t) (Params visit)"

section \<open>render.go\<close>

type_synonym 'u RenderOptFunc = "'u uns \<Rightarrow> 'u uns res"

definition InjectPruneAnnotation :: "'u RenderOptFunc" where
  "InjectPruneAnnotation u =
     (if gvk_Kind (u_Gvk u) \<noteq> ''Cluster'' \<and> gvk_Kind (u_Gvk u) \<noteq> ''GitopsCluster''
      then bindR (wrapR ''failed trying to inject prune annotation: %w'' [] (u_Annotations u)) (\<lambda>ann.
        Inr (u\<lparr> u_Annotations := Inr (ann(''kustomize.toolkit.fluxcd.io/prune'' \<mapsto> ''disabled'')) \<rparr>))
      else Inr u)"

text \<open>A kind that the mapper does not know gets the namespace even when it has one.\<close>

definition InNamespace :: "'u tlib \<Rightarrow> string \<Rightarrow> 'u RenderOptFunc" where
  "InNamespace L ns u =
     (case tl_RESTMapping L (u_Gvk u) of
        NoKindMatch \<Rightarrow> Inr (u\<lparr> u_Namespace := ns \<rparr>)
      | MappingFailed e \<Rightarrow> Inl e
      | RootScope \<Rightarrow> Inr u
      | NamespaceScope \<Rightarrow> Inr (if u_Namespace u = [] then u\<lparr> u_Namespace := ns \<rparr> else u))"

definition InjectLabels :: "(string \<rightharpoonup> string) \<Rightarrow> 'u RenderOptFunc" where
  "InjectLabels labels u = Inr (u\<lparr> u_Labels := u_Labels u ++ labels \<rparr>)"

fun applyOpts :: "'u RenderOptFunc list \<Rightarrow> 'u uns \<Rightarrow> 'u uns res" where
  "applyOpts [] u = Inr u"
| "applyOpts (opt # opts) u = bindR (opt u) (applyOpts opts)"

definition processUnstructured :: "'u tlib \<Rightarrow> 'u RenderOptFunc list \<Rightarrow> string \<Rightarrow> string res" where
  "processUnstructured L opts b =
     bindR (wrapR ''failed to decode the YAML: %w'' [] (tl_Decode L b)) (\<lambda>u.
     bindR (applyOpts opts u) (\<lambda>u.
       wrapR ''failed to marshal the updated object: %w'' [] (tl_Marshal L u)))"

definition ConvertToUnstructured :: "'u tlib \<Rightarrow> string list \<Rightarrow> 'u uns list res" where
  "ConvertToUnstructured L values = mapRes (\<lambda>v. wrapR ''failed to decode the YAML: %w'' [] (tl_Decode L v)) values"

section \<open>processors.go: rendering\<close>

record RenderedTemplate =
  rd_Data :: "string list"
  rd_Path :: string

text \<open>The defaults are written to the map of the caller.\<close>

fun fillParams :: "Param list \<Rightarrow> (string \<rightharpoonup> string) \<Rightarrow> goerror option \<times> (string \<rightharpoonup> string)" where
  "fillParams [] vars = (None, vars)"
| "fillParams (param # params) vars =
     (if mget vars (pa_Name param) = [] then
        (if pa_Default param \<noteq> [] then fillParams params (vars(pa_Name param \<mapsto> pa_Default param))
         else if pa_Required param then (Some (Errf ''missing required parameter: %s'' [pa_Name param]), vars)
         else fillParams params (vars(pa_Name param \<mapsto> [])))
      else fillParams params vars)"

definition renderContent :: "'u tlib \<Rightarrow> 'u RenderOptFunc list \<Rightarrow> Processor \<Rightarrow> (string \<rightharpoonup> string) \<Rightarrow> string \<Rightarrow> string res" where
  "renderContent L opts pc vars raw =
     bindR (wrapR ''failed to convert back to YAML: %w'' [] (tl_JSONToYAML L raw)) (\<lambda>b.
     bindR (wrapR ''processing template: %w'' [] (pc_Render pc b vars)) (\<lambda>d.
       wrapR ''modifying template: %w'' [] (processUnstructured L opts d)))"

definition renderResource :: "'u tlib \<Rightarrow> 'u RenderOptFunc list \<Rightarrow> TemplateProcessor \<Rightarrow> (string \<rightharpoonup> string) \<Rightarrow>
    resource_template \<Rightarrow> RenderedTemplate res" where
  "renderResource L opts p vars rt =
     (let pc = tp_Processor p in
      case bothRawAndContent (tp_Template p) rt of
        Some e \<Rightarrow> Inl e
      | None \<Rightarrow>
          bindR (if rt_Path rt \<noteq> [] then wrapR ''failed to render resource template definition path: %w'' [] (pc_Render pc (rt_Path rt) vars)
                 else Inr []) (\<lambda>path.
          bindR (if rt_Raw rt \<noteq> [] then bindR (wrapR ''processing template: %w'' [] (pc_Render pc (rt_Raw rt) vars)) (\<lambda>d. Inr [d])
                 else mapRes (renderContent L opts pc vars) (contents rt)) (\<lambda>processed.
            Inr \<lparr> rd_Data = processed, rd_Path = path \<rparr>)))"

text \<open>The values of the caller are its map, or nil, which is not changed.\<close>

definition RenderTemplates :: "'u tlib \<Rightarrow> visit \<Rightarrow> TemplateProcessor \<Rightarrow> 'u RenderOptFunc list \<Rightarrow>
    (string \<rightharpoonup> string) option \<Rightarrow> RenderedTemplate list res \<times> (string \<rightharpoonup> string) option" where
  "RenderTemplates L visit p opts values =
     (case Params visit p of
        Inl e \<Rightarrow> (Inl e, values)
      | Inr params \<Rightarrow>
          (case fillParams params (case values of None \<Rightarrow> Map.empty | Some vars \<Rightarrow> vars) of
             (Some e, vars) \<Rightarrow> (Inl e, map_option (\<lambda>_. vars) values)
           | (None, vars) \<Rightarrow>
               (mapRes (renderResource L opts p vars) (tm_ResourceTemplates (tp_Template p)), map_option (\<lambda>_. vars) values)))"

end
