(* ===== verification/TemplateFacts.thy ===== *)
theory TemplateFacts
  imports Templates "HOL-Library.List_Lexorder" "HOL-Library.Char_ord"
begin

text \<open>
  The parameters of a template do not depend on the order in which maps are visited;
  defaults and required parameters are respected; the envsubst processor never meets a
  variable without a value, while the text processor overlooks parameters.
\<close>

section \<open>Parameters\<close>

definition described :: "Param list \<Rightarrow> string \<Rightarrow> Param" where
  "described declared n = (case find (\<lambda>d. pa_Name d = n) (rev declared) of None \<Rightarrow> newParam n | Some d \<Rightarrow> d)"

lemma described_name [simp]: "pa_Name (described declared n) = n"
  by (auto simp: described_def newParam_def find_Some_iff split: option.splits)

lemma described_snoc: "described (ds @ [d]) n = (if pa_Name d = n then d else described ds n)"
  by (simp add: described_def)

lemma foldl_upd_names: "foldl (\<lambda>m v. m(v \<mapsto> f v)) m ns k = (if k \<in> set ns then Some (f k) else m k)"
  by (induction ns arbitrary: m) auto

lemma paramsMeta_eq: "paramsMeta declared names k = (if k \<in> set names then Some (described declared k) else None)"
proof (induction declared arbitrary: k rule: rev_induct)
  case Nil
  then show ?case by (simp add: paramsMeta_def foldl_upd_names described_def)
next
  case (snoc d ds)
  let ?m = "paramsMeta ds names"
  have step: "paramsMeta (ds @ [d]) names = enrich ?m d" by (simp add: paramsMeta_def)
  show ?case
  proof (cases "pa_Name d \<in> set names")
    case True
    then have m: "?m (pa_Name d) = Some (described ds (pa_Name d))" by (simp add: snoc.IH)
    have copied: "pa_Name m = pa_Name d \<Longrightarrow> m\<lparr> pa_Description := pa_Description d, pa_Options := pa_Options d,
        pa_Required := pa_Required d, pa_Default := pa_Default d \<rparr> = d" for m :: Param
      by (cases m; cases d) simp
    have "enrich ?m d = ?m(pa_Name d \<mapsto> d)"
      unfolding enrich_def m option.case by (subst copied) simp_all
    with True show ?thesis by (simp add: step snoc.IH described_snoc)
  next
    case False
    then have "enrich ?m d = ?m" by (simp add: enrich_def snoc.IH)
    with False show ?thesis by (auto simp: step snoc.IH described_snoc)
  qed
qed

lemma paramOrders_Some:
  "paramOrders declared n = Some i \<Longrightarrow> i < length declared \<and> pa_Name (declared ! i) = n"
proof -
  have "foldl (\<lambda>m (i, v). m(pa_Name v \<mapsto> i)) m ps n = Some i \<Longrightarrow> m n = Some i \<or> (\<exists>v. (i, v) \<in> set ps \<and> pa_Name v = n)"
    for m ps
    by (induction ps arbitrary: m) (fastforce split: if_splits prod.splits)+
  from this [of Map.empty "zip [0..<length declared] declared"]
  show "paramOrders declared n = Some i \<Longrightarrow> i < length declared \<and> pa_Name (declared ! i) = n"
    by (auto simp: paramOrders_def set_zip)
qed

lemma linear_paramLess: "inj_on pa_Name A \<Longrightarrow> linear_on A (paramLess (paramOrders declared))"
proof -
  let ?o = "paramOrders declared"
  define lt where "lt m n = (case (?o m, ?o n) of (Some i, Some j) \<Rightarrow> i < j | (None, None) \<Rightarrow> stringLess m n
      | (Some _, None) \<Rightarrow> True | (None, Some _) \<Rightarrow> False)" for m n
  have inj: "m = n" if "?o m = Some i" "?o n = Some i" for m n i
    using paramOrders_Some [OF that(1)] paramOrders_Some [OF that(2)] by simp
  have "linear_on (pa_Name ` A) lt"
    unfolding linear_on_def
  proof (intro conjI ballI impI)
    fix m n k assume "lt m n" "lt n k"
    then show "lt m k" by (auto simp: lt_def split: option.splits intro: stringLess_trans)
  next
    fix m n :: string assume ne: "m \<noteq> n"
    show "lt m n \<or> lt n m"
    proof (cases "?o m"; cases "?o n")
      fix i j assume o: "?o m = Some i" "?o n = Some j"
      with inj ne have "i < j \<or> j < i" using nat_neq_iff [of i j] by auto
      with o show ?thesis by (simp add: lt_def)
    qed (use stringLess_total [OF ne] in \<open>auto simp: lt_def\<close>)
  qed (auto simp: lt_def split: option.splits)
  then have "linear_on A (\<lambda>p q. lt (pa_Name p) (pa_Name q))" if "inj_on pa_Name A"
    using that by (rule linear_on_inv)
  moreover have "(\<lambda>p q. lt (pa_Name p) (pa_Name q)) = paramLess ?o"
    by (intro ext) (simp add: lt_def paramLess_def)
  ultimately show "inj_on pa_Name A \<Longrightarrow> linear_on A (paramLess ?o)" by simp
qed

lemma mapRes_perm:
  assumes "set xs = set ys" "mapRes f xs = Inr as"
  shows "\<exists>bs. mapRes f ys = Inr bs \<and> set bs = set as"
proof -
  have all: "\<forall>x\<in>set xs. isOk (f x)" using assms(2) mapRes_ok_iff [of f xs] by blast
  then obtain bs where bs: "mapRes f ys = Inr bs" using assms(1) mapRes_ok_iff [of f ys] by blast
  have "set cs = {y. \<exists>x\<in>set zs. f x = Inr y}" if "mapRes f zs = Inr cs" for zs cs
    using that unfolding mapRes_Inr
    by (induction rule: list_all2_induct) auto
  from this [OF bs] this [OF assms(2)] assms(1) bs show ?thesis by simp
qed

lemma discoveredNames_visit:
  assumes "visit_ok visit" "visit_ok visit'" "finite (dom (tm_Annotations (tp_Template p)))"
    and "discoveredNames visit p = Inr names"
  shows "\<exists>names'. discoveredNames visit' p = Inr names' \<and> set names' = set names"
proof -
  let ?a = "ProfileAnnotations (tp_Template p)"
  have "dom ?a \<subseteq> dom (tm_Annotations (tp_Template p))" by (auto simp: ProfileAnnotations_def split: if_splits)
  then have "finite (dom ?a)" using assms(3) finite_subset by blast
  then have eq: "set (visit (dom ?a)) = set (visit' (dom ?a))" using assms(1,2) by (simp add: visit_ok_def)
  let ?f = "\<lambda>k. namesIn p ''failed to get params from annotation: %w'' [] (the (?a k))"
  obtain a b c d where r: "mapRes (resourceNames p) (tm_ResourceTemplates (tp_Template p)) = Inr a"
    "mapRes ?f (visit (dom ?a)) = Inr b" "mapRes (chartNames p) (tm_Charts (tp_Template p)) = Inr c"
    "(if tm_HelmRepositoryPath (tp_Template p) \<noteq> [] then namesIn p ''failed to get params from chart.helmRepositoryTemplate.path of %s: %w''
       [tm_HelmRepositoryPath (tp_Template p)] (tm_HelmRepositoryPath (tp_Template p)) else Inr []) = Inr d"
    and names: "names = concat a @ concat b @ concat c @ d"
    using assms(4) by (auto simp: discoveredNames_def Let_def bindR_Inr)
  obtain b' where b': "mapRes ?f (visit' (dom ?a)) = Inr b'" "set b' = set b" using mapRes_perm [OF eq r(2)] by blast
  then have "discoveredNames visit' p = Inr (concat a @ concat b' @ concat c @ d)"
    unfolding discoveredNames_def Let_def by (simp only: r b' bindR_simps)
  then show ?thesis using b'(2) names by simp
qed

lemma params_facts:
  assumes "visit_ok visit" "finite (dom (tm_Annotations (tp_Template p)))" "Params visit p = Inr ps"
  shows "(\<exists>names. discoveredNames visit p = Inr names \<and> set (map pa_Name ps) = set names) \<and>
    distinct (map pa_Name ps) \<and> (\<forall>q\<in>set ps. q = described (tm_Params (tp_Template p)) (pa_Name q)) \<and>
    sorted_wrt (paramLess (paramOrders (tm_Params (tp_Template p)))) ps \<and>
    (\<forall>visit'. visit_ok visit' \<longrightarrow> Params visit' p = Inr ps)"
proof -
  let ?ds = "tm_Params (tp_Template p)"
  define sorted where "sorted xs = sortSlice (paramLess (paramOrders ?ds)) (map (described ?ds) xs)" for xs
  have eval: "Params v p = Inr (sorted (v (set names)))" if "visit_ok v" "discoveredNames v p = Inr names" for v names
  proof -
    have d: "dom (paramsMeta ?ds names) = set names" by (auto simp: paramsMeta_eq split: if_splits)
    have "set (v (set names)) = set names" using that(1) by (simp add: visit_ok_def)
    then have "map (\<lambda>k. the (paramsMeta ?ds names k)) (v (set names)) = map (described ?ds) (v (set names))"
      by (intro map_cong) (simp_all add: paramsMeta_eq)
    then show ?thesis unfolding sorted_def Params_def that(2) bindR_simps Let_def d by (simp only:)
  qed
  have inj: "inj_on pa_Name (described ?ds ` N)" for N by (auto simp: inj_on_def)
  have uniq: "sorted xs = sorted ys" if "distinct xs" "distinct ys" "set xs = set ys" for xs ys
    unfolding sorted_def using that inj
    by (intro sortSlice_unique linear_paramLess) (auto simp: distinct_map inj_on_def dest: arg_cong [of _ _ pa_Name])
  obtain names where n: "discoveredNames visit p = Inr names"
    using assms(3) by (auto simp: Params_def bindR_Inr)
  let ?xs = "visit (set names)"
  have xs: "set ?xs = set names" "distinct ?xs" using assms(1) by (auto simp: visit_ok_def)
  have ps: "ps = sorted ?xs" using eval [OF assms(1) n] assms(3) by simp
  have dist: "distinct (map (described ?ds) ?xs)"
    using xs(2) by (auto simp: distinct_map inj_on_def dest: arg_cong [of _ _ pa_Name])
  have set_ps: "set ps = described ?ds ` set names" by (simp add: ps sorted_def xs(1))
  have "distinct ps" using dist by (simp add: ps sorted_def)
  then have "distinct (map pa_Name ps)" using inj set_ps by (simp add: distinct_map)
  moreover have "sorted_wrt (paramLess (paramOrders ?ds)) ps"
    unfolding ps sorted_def using dist inj by (intro sortSlice_sorted_wrt linear_paramLess) auto
  moreover have "Params v p = Inr ps" if v: "visit_ok v" for v
  proof -
    obtain names' where n': "discoveredNames v p = Inr names'" "set names' = set names"
      using discoveredNames_visit [OF assms(1) v assms(2) n] by blast
    then show ?thesis
      using eval [OF v n'(1)] uniq [of "v (set names')" ?xs] v xs by (simp add: ps visit_ok_def)
  qed
  ultimately show ?thesis using n set_ps by (auto simp: image_image)
qed

text \<open>C38: The parameters of a template are exactly the names its processor discovers, each once and
  with the details of its last declaration: the declared ones in the order of their declarations,
  then the others by name (the comment of Params says that all are sorted by name). The order in
  which Go visits the maps does not matter.\<close>

theorem params_spec:
  assumes "visit_ok visit" "finite (dom (tm_Annotations (tp_Template p)))" "Params visit p = Inr ps"
  shows "(\<exists>names. discoveredNames visit p = Inr names \<and> set (map pa_Name ps) = set names) \<and>
    distinct (map pa_Name ps) \<and> (\<forall>q\<in>set ps. q = described (tm_Params (tp_Template p)) (pa_Name q)) \<and>
    sorted_wrt (paramLess (paramOrders (tm_Params (tp_Template p)))) ps \<and>
    (\<forall>visit'. visit_ok visit' \<longrightarrow> Params visit' p = Inr ps)"
  using params_facts [OF assms] .

text \<open>A template with two parameters, one of them declared; every text is a list of names.\<close>

definition sampleProcessor :: Processor where
  "sampleProcessor = \<lparr> pc_Render = (\<lambda>s vars. Inr (mget vars s)), pc_ParamNames = (\<lambda>s. Inr (if s = [] then [] else [s])) \<rparr>"

definition sampleTemplate :: template where
  "sampleTemplate = \<lparr> tm_Name = ''t'', tm_Namespace = ''default'', tm_Kind = ''GitOpsTemplate'', tm_Annotations = Map.empty,
     tm_Labels = Map.empty, tm_RenderType = [], tm_Description = [],
     tm_ResourceTemplates = [\<lparr> rt_Content = None, rt_Raw = ''a'', rt_Path = ''b'' \<rparr>],
     tm_Params = [(newParam ''b'')\<lparr> pa_Default := ''x'' \<rparr>, newParam ''c''], tm_Charts = [], tm_HelmRepositoryPath = [] \<rparr>"

definition sampleTP :: TemplateProcessor where
  "sampleTP = \<lparr> tp_Template = sampleTemplate, tp_Processor = sampleProcessor \<rparr>"

lemma visit_ok_slos: "visit_ok sorted_list_of_set"
  by (simp add: visit_ok_def)

lemma sample_params:
  "Params sorted_list_of_set sampleTP = Inr [(newParam ''b'')\<lparr> pa_Default := ''x'' \<rparr>, newParam ''a'']"
proof -
  have d: "discoveredNames sorted_list_of_set sampleTP = Inr [''b'', ''a'']"
    by (simp add: discoveredNames_def sampleTP_def sampleTemplate_def sampleProcessor_def resourceNames_def
      bothRawAndContent_def namesIn_def contents_def ProfileAnnotations_def dom_def)
  have "dom (paramsMeta (tm_Params sampleTemplate) [''b'', ''a'']) = {''a'', ''b''}"
    by (auto simp: paramsMeta_eq split: if_splits)
  moreover have "sorted_list_of_set {''a'', ''b''} = [''a'', ''b'']"
    by (simp add: less_list_code)
  ultimately show ?thesis
    unfolding Params_def d
    by (simp add: sampleTP_def paramsMeta_eq sampleTemplate_def described_def newParam_def sortSlice_def
      paramLess_def paramOrders_def)
qed

lemma params_spec_witness:
  "Params (\<lambda>K. rev (sorted_list_of_set K)) sampleTP = Inr [(newParam ''b'')\<lparr> pa_Default := ''x'' \<rparr>, newParam ''a'']"
proof -
  have "finite (dom (tm_Annotations (tp_Template sampleTP)))" by (simp add: sampleTP_def sampleTemplate_def)
  from params_spec [OF visit_ok_slos this sample_params]
  have "visit_ok v \<longrightarrow> Params v sampleTP = Inr [(newParam ''b'')\<lparr> pa_Default := ''x'' \<rparr>, newParam ''a'']" for v
    by blast
  then show ?thesis by (simp add: visit_ok_def)
qed

section \<open>Values\<close>

definition given :: "(string \<rightharpoonup> string) option \<Rightarrow> (string \<rightharpoonup> string)" where
  "given values = (case values of None \<Rightarrow> Map.empty | Some vars \<Rightarrow> vars)"

definition valueOf :: "(string \<rightharpoonup> string) \<Rightarrow> Param \<Rightarrow> string" where
  "valueOf vars q = (if mget vars (pa_Name q) \<noteq> [] then mget vars (pa_Name q) else pa_Default q)"

lemma fillParams_ok:
  assumes "distinct (map pa_Name ps)" "fillParams ps vars = (None, vars')"
  shows "(\<forall>q\<in>set ps. vars' (pa_Name q) = Some (valueOf vars q) \<and> (pa_Required q \<longrightarrow> valueOf vars q \<noteq> [])) \<and>
    (\<forall>n. n \<notin> pa_Name ` set ps \<longrightarrow> vars' n = vars n)"
  using assms
proof (induction ps arbitrary: vars)
  case (Cons p ps)
  let ?vars = "if mget vars (pa_Name p) = [] then vars(pa_Name p \<mapsto> pa_Default p) else vars"
  have rest: "fillParams ps ?vars = (None, vars')" and req: "pa_Required p \<longrightarrow> valueOf vars p \<noteq> []"
    using Cons.prems(2) by (auto simp: valueOf_def split: if_splits)
  have other: "pa_Name q \<noteq> pa_Name p" if "q \<in> set ps" for q
    using Cons.prems(1) that by (auto simp: image_iff)
  have "valueOf ?vars q = valueOf vars q" if "q \<in> set ps" for q
    using other [OF that] by (simp add: valueOf_def)
  moreover have "?vars (pa_Name p) = Some (valueOf vars p)"
    by (auto simp: valueOf_def mget_def split: option.splits)
  moreover have "pa_Name p \<notin> pa_Name ` set ps" using Cons.prems(1) by auto
  ultimately show ?case using Cons.IH [OF _ rest] Cons.prems(1) req by (auto split: if_splits)
qed simp

lemma fillParams_err:
  assumes "fillParams ps vars = (Some e, vars')" "distinct (map pa_Name ps)"
  shows "\<exists>q\<in>set ps. pa_Required q \<and> valueOf vars q = [] \<and> e = Errf ''missing required parameter: %s'' [pa_Name q]"
  using assms
proof (induction ps arbitrary: vars)
  case (Cons p ps)
  show ?case
  proof (cases "mget vars (pa_Name p) = [] \<and> pa_Default p = [] \<and> pa_Required p")
    case True
    then show ?thesis using Cons.prems(1) by (auto simp: valueOf_def)
  next
    case False
    let ?vars = "if mget vars (pa_Name p) = [] then vars(pa_Name p \<mapsto> pa_Default p) else vars"
    have "fillParams ps ?vars = (Some e, vars')" using Cons.prems(1) False by (auto split: if_splits)
    from Cons.IH [OF this] Cons.prems(2) obtain q where
      q: "q \<in> set ps" "pa_Required q" "valueOf ?vars q = []" "e = Errf ''missing required parameter: %s'' [pa_Name q]"
      by auto
    moreover have "pa_Name q \<noteq> pa_Name p" using Cons.prems(2) q(1) by (auto simp: image_iff)
    ultimately show ?thesis by (auto simp: valueOf_def split: if_splits)
  qed
qed simp

lemma render_all:
  assumes "visit_ok visit" "finite (dom (tm_Annotations (tp_Template p)))"
    and "RenderTemplates L visit p opts values = (Inr rendered, values')"
  shows "\<exists>params vars. Params visit p = Inr params \<and>
    mapRes (renderResource L opts p vars) (tm_ResourceTemplates (tp_Template p)) = Inr rendered \<and>
    (\<forall>q\<in>set params. vars (pa_Name q) = Some (valueOf (given values) q) \<and> (pa_Required q \<longrightarrow> valueOf (given values) q \<noteq> [])) \<and>
    (\<forall>n. n \<notin> pa_Name ` set params \<longrightarrow> vars n = given values n) \<and> values' = map_option (\<lambda>_. vars) values"
proof -
  obtain params vars where ps: "Params visit p = Inr params" and f: "fillParams params (given values) = (None, vars)"
    and r: "mapRes (renderResource L opts p vars) (tm_ResourceTemplates (tp_Template p)) = Inr rendered"
      "values' = map_option (\<lambda>_. vars) values"
    using assms(3) by (auto simp: RenderTemplates_def given_def split: sum.splits prod.splits option.splits)
  have "distinct (map pa_Name params)" using params_facts [OF assms(1,2) ps] by blast
  from fillParams_ok [OF this f] ps r show ?thesis by blast
qed

text \<open>C39: Rendering a template gives every parameter its value: the one of the request, or, when that is
  empty, the default; a required parameter never renders as the empty string, and a parameter of
  the request that the template does not use is passed on unchanged.\<close>

theorem render_values:
  assumes "visit_ok visit" "finite (dom (tm_Annotations (tp_Template p)))"
    and "RenderTemplates L visit p opts values = (Inr rendered, values')"
  shows "\<exists>params vars. Params visit p = Inr params \<and>
    mapRes (renderResource L opts p vars) (tm_ResourceTemplates (tp_Template p)) = Inr rendered \<and>
    (\<forall>q\<in>set params. vars (pa_Name q) = Some (valueOf (given values) q) \<and> (pa_Required q \<longrightarrow> valueOf (given values) q \<noteq> [])) \<and>
    (\<forall>n. n \<notin> pa_Name ` set params \<longrightarrow> vars n = given values n) \<and> values' = map_option (\<lambda>_. vars) values"
  by (rule render_all [OF assms])

text \<open>A library in which every text is a variable and decodes to an object with that name.\<close>

definition sampleLib :: "unit tlib" where
  "sampleLib = \<lparr> tl_JSONToYAML = Inr,
     tl_Decode = (\<lambda>s. Inr \<lparr> u_Gvk = \<lparr> gvk_Group = [], gvk_Version = ''v1'', gvk_Kind = ''ConfigMap'' \<rparr>, u_Name = s,
       u_Namespace = [], u_Labels = Map.empty, u_Annotations = Inr Map.empty, u_Rest = () \<rparr>),
     tl_Marshal = (\<lambda>u. Inr (u_Name u)),
     tl_ParseText = (\<lambda>_ _ s. Inr [if s = ''if'' then BranchNode NodeIf (Some [[FieldNode [''template'']]])
       (Some [ActionNode [[FieldNode [''params'', ''X'']]]]) None else OtherNode]),
     tl_Execute = (\<lambda>_ _ _. Inr []),
     tl_Process = (\<lambda>s lookup. if s = [] then Inr [] else lookup s), tl_GetVariables = (\<lambda>s. Inr (if s = [] then [] else [s])),
     tl_RESTMapping = (\<lambda>_. NamespaceScope), tl_UnmarshalProfile = (\<lambda>_. Inl indexPanic), tl_MarshalRaw = Inr \<rparr>"

lemma render_values_witness:
  "\<exists>params vars. Params sorted_list_of_set sampleTP = Inr params \<and>
    mapRes (renderResource sampleLib [] sampleTP vars) (tm_ResourceTemplates sampleTemplate) =
      Inr [\<lparr> rd_Data = [''1''], rd_Path = ''x'' \<rparr>] \<and> vars ''b'' = Some ''x''"
proof -
  have fin: "finite (dom (tm_Annotations (tp_Template sampleTP)))" by (simp add: sampleTP_def sampleTemplate_def)
  have "RenderTemplates sampleLib sorted_list_of_set sampleTP [] (Some [''a'' \<mapsto> ''1'']) =
      (Inr [\<lparr> rd_Data = [''1''], rd_Path = ''x'' \<rparr>], Some [''a'' \<mapsto> ''1'', ''b'' \<mapsto> ''x''])"
    unfolding RenderTemplates_def sample_params
    by (simp add: newParam_def sampleTP_def sampleTemplate_def renderResource_def bothRawAndContent_def
      sampleProcessor_def mget_def fun_upd_twist)
  from render_values [OF visit_ok_slos fin this] obtain params vars where
    p: "Params sorted_list_of_set sampleTP = Inr params"
    "mapRes (renderResource sampleLib [] sampleTP vars) (tm_ResourceTemplates (tp_Template sampleTP)) =
      Inr [\<lparr> rd_Data = [''1''], rd_Path = ''x'' \<rparr>]"
    "\<forall>q\<in>set params. vars (pa_Name q) = Some (valueOf (given (Some [''a'' \<mapsto> ''1''])) q)" by blast
  have "vars ''b'' = Some ''x''"
    using p(1,3) unfolding sample_params by (auto simp: valueOf_def given_def newParam_def mget_def)
  with p(1,2) show ?thesis by (auto simp: sampleTP_def)
qed

section \<open>Variables without a value\<close>

lemma mapRes_in: "mapRes f xs = Inr ys \<Longrightarrow> x \<in> set xs \<Longrightarrow> \<exists>y\<in>set ys. f x = Inr y"
  unfolding mapRes_Inr by (auto simp: list_all2_conv_all_nth in_set_conv_nth)

lemma discoveredNames_cong:
  assumes "tp_Template p = tp_Template q" "pc_ParamNames (tp_Processor p) = pc_ParamNames (tp_Processor q)"
  shows "discoveredNames visit p = discoveredNames visit q"
proof -
  have n: "namesIn p = namesIn q" by (intro ext) (simp only: namesIn_def assms(2))
  have r: "resourceNames p = resourceNames q" by (intro ext) (simp only: resourceNames_def n assms(1))
  have c: "chartNames p = chartNames q" by (intro ext) (simp only: chartNames_def n)
  show ?thesis by (simp only: discoveredNames_def n r c assms(1))
qed

lemma discovered_resource:
  assumes "discoveredNames visit p = Inr names" "rt \<in> set (tm_ResourceTemplates (tp_Template p))"
  shows "\<exists>ns. resourceNames p rt = Inr ns \<and> set ns \<subseteq> set names"
proof -
  obtain a b c d where "mapRes (resourceNames p) (tm_ResourceTemplates (tp_Template p)) = Inr a"
    "names = concat a @ concat b @ concat c @ d"
    using assms(1) by (auto simp: discoveredNames_def Let_def bindR_Inr)
  with mapRes_in [OF this(1) assms(2)] show ?thesis by fastforce
qed

lemma resourceNames_texts:
  assumes "resourceNames p rt = Inr ns" "text = rt_Path rt \<or> text \<in> set (contents rt) \<or> text = rt_Raw rt \<and> text \<noteq> []"
  shows "\<exists>ms. pc_ParamNames (tp_Processor p) text = Inr ms \<and> set ms \<subseteq> set ns"
proof -
  obtain a b c where r: "pc_ParamNames (tp_Processor p) (rt_Path rt) = Inr a"
    "mapRes (namesIn p ''failed to get params from template: %w'' []) (contents rt) = Inr b"
    "(if rt_Raw rt \<noteq> [] then namesIn p ''failed to get params from raw template: %w'' [] (rt_Raw rt) else Inr []) = Inr c"
    "ns = a @ concat b @ c"
    using assms(1) by (auto simp: resourceNames_def bindR_Inr namesIn_def split: option.splits)
  then show ?thesis
    using assms(2) mapRes_in [OF r(2)] by (fastforce simp: namesIn_def)
qed

text \<open>What is relied on of envsubst: it succeeds when the variables it lists have values, and
  the variables of a document do not change with its format.\<close>

definition process_ok :: "'u tlib \<Rightarrow> bool" where
  "process_ok L \<longleftrightarrow> (\<forall>raw vs lookup. tl_GetVariables L raw = Inr vs \<longrightarrow> (\<forall>n\<in>set vs. isOk (lookup n)) \<longrightarrow>
     isOk (tl_Process L raw lookup))"

definition yaml_ok :: "'u tlib \<Rightarrow> bool" where
  "yaml_ok L \<longleftrightarrow> (\<forall>raw vs. tl_GetVariables L raw = Inr vs \<longrightarrow>
     (\<exists>y ws. tl_JSONToYAML L raw = Inr y \<and> tl_GetVariables L y = Inr ws \<and> set ws \<subseteq> set vs))"

lemma envsubst_renders:
  assumes "process_ok L" "tl_GetVariables L raw = Inr vs" "set vs \<subseteq> dom vars"
  shows "isOk (envsubst_Render L raw vars)"
proof -
  have "\<forall>n\<in>set vs. isOk (case vars n of Some s \<Rightarrow> Inr s | None \<Rightarrow> Inl (Errf ''variable %s not found'' [n]))"
    using assms(3) by (auto split: option.splits)
  then show ?thesis
    unfolding envsubst_Render_def isOk_wrapR
    by (rule assms(1) [unfolded process_ok_def, THEN spec, THEN spec, THEN spec, THEN mp, OF assms(2), THEN mp])
qed

lemma envsubst_names:
  "pc_ParamNames (NewEnvsubstTemplateProcessor L) raw = Inr ns \<longleftrightarrow> (\<exists>vs. tl_GetVariables L raw = Inr vs \<and> ns = sortedSet vs)"
  by (auto simp: NewEnvsubstTemplateProcessor_def envsubst_ParamNames_def bindR_Inr)

text \<open>A template of the default type never fails on a variable without a value: once its parameters
  can be listed and every required one has a value, all its paths and documents are rendered, as
  long as the rendered objects can be decoded, changed and written.\<close>

theorem envsubst_never_undefined:
  assumes "visit_ok visit" "finite (dom (tm_Annotations t))" "process_ok L" "yaml_ok L"
    and "NewProcessorForTemplate L t = Inr p" "tm_RenderType t \<noteq> ''templating''"
    and "Params visit p = Inr params" "\<forall>q\<in>set params. pa_Required q \<longrightarrow> valueOf (given values) q \<noteq> []"
    and "\<forall>d. isOk (processUnstructured L opts d)"
  shows "isOk (fst (RenderTemplates L visit p opts values))"
proof -
  have p: "tp_Template p = t" "tp_Processor p = NewEnvsubstTemplateProcessor L"
    using assms(5,6) by (auto simp: NewProcessorForTemplate_def Let_def split: if_splits)
  note spec = params_facts [OF assms(1) _ assms(7), unfolded p(1), OF assms(2)]
  obtain names where names: "discoveredNames visit p = Inr names" "set (map pa_Name params) = set names"
    using spec by blast
  obtain vars where f: "fillParams params (given values) = (None, vars)"
    using fillParams_err [of params "given values"] spec assms(8) by (cases "fillParams params (given values)") force
  have dist: "distinct (map pa_Name params)" using spec by blast
  have "pa_Name q \<in> dom vars" if "q \<in> set params" for q
    using fillParams_ok [OF dist f] that by blast
  then have dom: "set names \<subseteq> dom vars"
    unfolding names(2) [symmetric] set_map by (rule image_subsetI)
  have pc: "pc_Render (tp_Processor p) = envsubst_Render L" by (simp add: p NewEnvsubstTemplateProcessor_def)
  have "isOk (renderResource L opts p vars rt)" if rt: "rt \<in> set (tm_ResourceTemplates t)" for rt
  proof -
    obtain ns where ns: "resourceNames p rt = Inr ns" "set ns \<subseteq> dom vars"
      using discovered_resource [OF names(1), unfolded p(1), OF rt] dom by blast
    have vars_of: "\<exists>vs. tl_GetVariables L txt0 = Inr vs \<and> set vs \<subseteq> dom vars"
      if t: "txt0 = rt_Path rt \<or> txt0 \<in> set (contents rt) \<or> txt0 = rt_Raw rt \<and> txt0 \<noteq> []" for txt0
    proof -
      obtain ms where ms: "pc_ParamNames (tp_Processor p) txt0 = Inr ms" "set ms \<subseteq> set ns"
        using resourceNames_texts [OF ns(1) t] by blast
      obtain vs where "tl_GetVariables L txt0 = Inr vs" "ms = sortedSet vs"
        using ms(1) unfolding p(2) envsubst_names by blast
      with ms(2) ns(2) show ?thesis by auto
    qed
    have plain: "isOk (envsubst_Render L txt0 vars)"
      if "txt0 = rt_Path rt \<or> txt0 = rt_Raw rt \<and> txt0 \<noteq> []" for txt0
      using vars_of [of txt0] that envsubst_renders [OF assms(3)] by blast
    have content: "isOk (renderContent L opts (tp_Processor p) vars raw)" if raw: "raw \<in> set (contents rt)" for raw
    proof -
      obtain vs where vs: "tl_GetVariables L raw = Inr vs" "set vs \<subseteq> dom vars"
        using vars_of [of raw] raw by blast
      obtain y ws where y: "tl_JSONToYAML L raw = Inr y" "tl_GetVariables L y = Inr ws" "set ws \<subseteq> set vs"
        using assms(4) vs(1) unfolding yaml_ok_def by blast
      then obtain d where "envsubst_Render L y vars = Inr d"
        using envsubst_renders [OF assms(3) y(2), of vars] vs(2) unfolding isOk_iff by blast
      with y(1) show ?thesis using assms(9) by (simp add: renderContent_def pc)
    qed
    have "bothRawAndContent t rt = None"
      using ns(1) by (auto simp: resourceNames_def p split: option.splits)
    moreover have "isOk (mapRes (renderContent L opts (tp_Processor p) vars) (contents rt))"
      using content mapRes_ok_iff isOk_iff by metis
    ultimately show ?thesis
      using plain [of "rt_Path rt"] plain [of "rt_Raw rt"]
      by (auto simp: renderResource_def Let_def p pc isOk_iff isOk_bindR simp flip: p(2))
  qed
  then have "isOk (mapRes (renderResource L opts p vars) (tm_ResourceTemplates t))"
    using mapRes_ok_iff isOk_iff by metis
  with f show ?thesis by (simp add: RenderTemplates_def assms(7) p given_def)
qed

lemma envsubst_never_undefined_witness:
  "isOk (fst (RenderTemplates sampleLib sorted_list_of_set \<lparr> tp_Template = sampleTemplate, tp_Processor = NewEnvsubstTemplateProcessor sampleLib \<rparr>
     [InNamespace sampleLib ''ns''] None))"
proof (rule envsubst_never_undefined [OF visit_ok_slos])
  show "finite (dom (tm_Annotations sampleTemplate))" "tm_RenderType sampleTemplate \<noteq> ''templating''"
    "process_ok sampleLib" "yaml_ok sampleLib"
    "NewProcessorForTemplate sampleLib sampleTemplate =
       Inr \<lparr> tp_Template = sampleTemplate, tp_Processor = NewEnvsubstTemplateProcessor sampleLib \<rparr>"
    "\<forall>d. isOk (processUnstructured sampleLib [InNamespace sampleLib ''ns''] d)"
    by (auto simp: sampleTemplate_def process_ok_def yaml_ok_def sampleLib_def NewProcessorForTemplate_def
      processUnstructured_def InNamespace_def)
  have "pc_ParamNames (NewEnvsubstTemplateProcessor sampleLib) = pc_ParamNames sampleProcessor"
    by (simp add: NewEnvsubstTemplateProcessor_def envsubst_ParamNames_def sampleLib_def sampleProcessor_def
      sortedSet_def sortSlice_def fun_eq_iff)
  then have "discoveredNames v \<lparr> tp_Template = sampleTemplate, tp_Processor = NewEnvsubstTemplateProcessor sampleLib \<rparr> =
      discoveredNames v sampleTP" for v
    by (intro discoveredNames_cong) (simp_all add: sampleTP_def)
  then show "Params sorted_list_of_set \<lparr> tp_Template = sampleTemplate, tp_Processor = NewEnvsubstTemplateProcessor sampleLib \<rparr> =
      Inr [(newParam ''b'')\<lparr> pa_Default := ''x'' \<rparr>, newParam ''a'']"
    using sample_params by (simp add: Params_def sampleTP_def)
qed (simp add: newParam_def)

section \<open>What the text processor overlooks\<close>

text \<open>The parameters of a text template are incomplete: those used in a branch whose condition starts with
  another field, such as the name of the template, are not listed, so that their defaults and the
  check that they are given are skipped; and a branch in which no field occurs makes the listing
  panic.\<close>

theorem text_params_overlooked:
  assumes "tl_JSONToYAML L raw = Inr y"
    and "tl_ParseText L (tm_Name t) (templateDelims t) y = Inr [BranchNode ty (Some [[cond]]) (Some body) None]"
    and "listNodeFields body = Inr used"
  shows "(\<forall>f fs. cond = FieldNode (f # fs) \<and> f \<noteq> ''params'' \<longrightarrow> text_ParamNames L t raw = Inr []) \<and>
    (cond = OtherNode \<and> used = [] \<longrightarrow> text_ParamNames L t raw = Inl indexPanic)"
  using assms
  by (auto simp: text_ParamNames_def parseToTemplate_def parseTextParamNames_def branchParams_def sortedSet_def sortSlice_def)

definition hidingTemplate :: template where
  "hidingTemplate = sampleTemplate\<lparr> tm_RenderType := ''templating'',
     tm_ResourceTemplates := [\<lparr> rt_Content = None, rt_Raw = ''if'', rt_Path = ''if'' \<rparr>],
     tm_Params := [(newParam ''X'')\<lparr> pa_Required := True \<rparr>] \<rparr>"

lemma text_params_overlooked_witness:
  "Params sorted_list_of_set \<lparr> tp_Template = hidingTemplate, tp_Processor = NewTextTemplateProcessor sampleLib hidingTemplate \<rparr> = Inr []"
proof -
  have "tl_JSONToYAML sampleLib ''if'' = Inr ''if''"
    "tl_ParseText sampleLib (tm_Name hidingTemplate) (templateDelims hidingTemplate) ''if'' = Inr [BranchNode NodeIf
       (Some [[FieldNode [''template'']]]) (Some [ActionNode [[FieldNode [''params'', ''X'']]]]) None]"
    "listNodeFields [ActionNode [[FieldNode [''params'', ''X'']]]] = Inr [''X'']"
    by (simp_all add: sampleLib_def actionParams_def)
  from text_params_overlooked [OF this]
  have "text_ParamNames sampleLib hidingTemplate ''if'' = Inr []" by simp
  then have "discoveredNames sorted_list_of_set \<lparr> tp_Template = hidingTemplate,
      tp_Processor = NewTextTemplateProcessor sampleLib hidingTemplate \<rparr> = Inr []"
    by (simp add: discoveredNames_def hidingTemplate_def sampleTemplate_def resourceNames_def NewTextTemplateProcessor_def
      bothRawAndContent_def namesIn_def contents_def ProfileAnnotations_def dom_def)
  then show ?thesis
    by (simp add: Params_def hidingTemplate_def paramsMeta_def sortedSet_def sortSlice_def enrich_def newParam_def)
qed

end
