(* ===== verification/TemplateMeta.thy ===== *)
theory TemplateMeta
  imports Templates
begin

text \<open>
  The rest of cmd/clusters-service/pkg/templates: the profiles of a template (profiles.go),
  the description of its objects (meta.go), the JSON annotation of rendered resources
  (resources.go) and their validation (validation.go); and template\_response.go of the server,
  which turns a template into the message of the API.
\<close>

section \<open>profiles.go\<close>

record TemplateProfile =
  pf_Name :: string
  pf_Version :: string
  pf_Namespace :: string
  pf_Layer :: string
  pf_Required :: bool
  pf_Editable :: bool
  pf_Values :: string
  pf_ProfileTemplate :: string

definition annotationProfile :: "profileAnnotation \<Rightarrow> TemplateProfile" where
  "annotationProfile a = \<lparr> pf_Name = an_Name a, pf_Version = an_Version a, pf_Namespace = an_Namespace a, pf_Layer = [],
     pf_Required = (case an_Required a of None \<Rightarrow> True | Some b \<Rightarrow> b), pf_Editable = an_Editable a,
     pf_Values = an_Values a, pf_ProfileTemplate = [] \<rparr>"

fun indexAnnotations :: "'u tlib \<Rightarrow> string list \<Rightarrow> (string \<rightharpoonup> TemplateProfile) \<Rightarrow> (string \<rightharpoonup> TemplateProfile) res" where
  "indexAnnotations L [] profilesIndex = Inr profilesIndex"
| "indexAnnotations L (v # vs) profilesIndex =
     bindR (wrapR ''failed to unmarshal profiles: %w'' [] (tl_UnmarshalProfile L v)) (\<lambda>profile.
       if an_Name profile = [] then Inl (err ''profile name is required'')
       else indexAnnotations L vs (profilesIndex(an_Name profile \<mapsto> annotationProfile profile)))"

definition getProfilesFromAnnotations :: "'u tlib \<Rightarrow> visit \<Rightarrow> template \<Rightarrow> (string \<rightharpoonup> TemplateProfile) res" where
  "getProfilesFromAnnotations L visit t =
     (let anns = ProfileAnnotations t in indexAnnotations L (map (\<lambda>k. the (anns k)) (visit (dom anns))) Map.empty)"

definition chartProfile :: "'u tlib \<Rightarrow> chart_item \<Rightarrow> TemplateProfile res" where
  "chartProfile L v =
     bindR (case ch_Values v of None \<Rightarrow> Inr []
            | Some raw \<Rightarrow> wrapR ''failed to marshal profile.values for %s: %w'' [ch_Chart v] (tl_MarshalRaw L raw)) (\<lambda>values.
     bindR (case ch_TemplateContent v of None \<Rightarrow> Inr []
            | Some raw \<Rightarrow> wrapR ''failed to marshal spec for %s: %w'' [ch_Chart v] (tl_MarshalRaw L raw)) (\<lambda>content.
       Inr \<lparr> pf_Name = ch_Chart v, pf_Version = ch_Version v, pf_Namespace = ch_TargetNamespace v, pf_Layer = ch_Layer v,
         pf_Required = ch_Required v, pf_Editable = ch_Editable v, pf_Values = values, pf_ProfileTemplate = content \<rparr>))"

fun indexCharts :: "'u tlib \<Rightarrow> chart_item list \<Rightarrow> (string \<rightharpoonup> TemplateProfile) \<Rightarrow> (string \<rightharpoonup> TemplateProfile) res" where
  "indexCharts L [] profilesIndex = Inr profilesIndex"
| "indexCharts L (v # vs) profilesIndex =
     bindR (chartProfile L v) (\<lambda>profile. indexCharts L vs (profilesIndex(pf_Name profile \<mapsto> profile)))"

definition GetProfilesFromTemplate :: "'u tlib \<Rightarrow> visit \<Rightarrow> template \<Rightarrow> TemplateProfile list res" where
  "GetProfilesFromTemplate L visit t =
     bindR (wrapR ''failed to get profiles from annotations: %w'' [] (getProfilesFromAnnotations L visit t)) (\<lambda>annIndex.
     bindR (indexCharts L (tm_Charts t) annIndex) (\<lambda>profilesIndex.
       Inr (sortSlice (\<lambda>p q. stringLess (pf_Name p) (pf_Name q))
         (map (\<lambda>k. the (profilesIndex k)) (visit (dom profilesIndex))))))"

definition TemplateHasRequiredProfiles :: "'u tlib \<Rightarrow> visit \<Rightarrow> template \<Rightarrow> bool res" where
  "TemplateHasRequiredProfiles L visit t =
     bindR (wrapR ''failed to get profiles from template: %w'' [] (GetProfilesFromTemplate L visit t)) (\<lambda>profiles.
       Inr (list_ex pf_Required profiles))"

section \<open>meta.go\<close>

record template_object =
  to_Kind :: string
  to_APIVersion :: string
  to_Name :: string
  to_Params :: "string list"
  to_DisplayName :: string

record TemplateMeta =
  me_Name :: string
  me_Description :: string
  me_Params :: "Param list"
  me_Objects :: "template_object list"

definition apiVersionOf :: "gvk \<Rightarrow> string" where
  "apiVersionOf g = (if gvk_Group g = [] then gvk_Version g else gvk_Group g @ ''/'' @ gvk_Version g)"

definition contentObject :: "'u tlib \<Rightarrow> Processor \<Rightarrow> string \<Rightarrow> string \<Rightarrow> template_object res" where
  "contentObject L pc annotation raw =
     bindR (wrapR ''failed to parse params in template: %w'' [] (pc_ParamNames pc raw)) (\<lambda>params.
     bindR (wrapR ''failed to unmarshal resourceTemplate: %w'' [] (tl_Decode L raw)) (\<lambda>uv.
       Inr \<lparr> to_Kind = gvk_Kind (u_Gvk uv), to_APIVersion = apiVersionOf (u_Gvk uv), to_Name = u_Name uv, to_Params = params,
         to_DisplayName = (case u_Annotations uv of Inl _ \<Rightarrow> [] | Inr ann \<Rightarrow> mget ann annotation) \<rparr>))"

definition ParseTemplateMeta :: "'u tlib \<Rightarrow> visit \<Rightarrow> template \<Rightarrow> string \<Rightarrow> TemplateMeta res" where
  "ParseTemplateMeta L visit s annotation =
     bindR (NewProcessorForTemplate L s) (\<lambda>processor.
     bindR (mapRes (contentObject L (tp_Processor processor) annotation) (concat (map contents (tm_ResourceTemplates s)))) (\<lambda>objects.
     bindR (wrapR ''failed to parse parameters from the spec: %w'' [] (Params visit processor)) (\<lambda>enriched.
       Inr \<lparr> me_Name = tm_Name s, me_Description = tm_Description s, me_Params = enriched, me_Objects = objects \<rparr>)))"

section \<open>resources.go\<close>

text \<open>
  The documents of kyaml. A node that is not there is nil, and a pipeline from nil does
  nothing. A read takes two steps, and its failure names the step that failed.
\<close>

datatype node_failure = FirstFails | SecondFails

record 'y kyaml =
  ky_Parse :: "string \<Rightarrow> 'y res"
  ky_Kind :: "'y \<Rightarrow> node_failure + string"
  ky_APIVersion :: "'y \<Rightarrow> node_failure + string"
  ky_HasAnnotations :: "'y \<Rightarrow> node_failure + bool"
  ky_AddAnnotations :: "'y \<Rightarrow> 'y res"
  ky_SetAnnotation :: "string \<Rightarrow> string \<Rightarrow> 'y \<Rightarrow> 'y res"
  ky_String :: "'y \<Rightarrow> string"

definition isSpaceChar :: "char \<Rightarrow> bool" where
  "isSpaceChar c \<longleftrightarrow> c \<in> {CHR 0x20, CHR 0x09, CHR 0x0A, CHR 0x0B, CHR 0x0C, CHR 0x0D}"

definition trimSpace :: "string \<Rightarrow> string" where
  "trimSpace s = rev (dropWhile isSpaceChar (rev (dropWhile isSpaceChar s)))"

definition readNode :: "string \<Rightarrow> string \<Rightarrow> node_failure + 'a \<Rightarrow> 'a res" where
  "readNode first second r =
     (case r of Inl FirstFails \<Rightarrow> Inl (err first) | Inl SecondFails \<Rightarrow> Inl (err second) | Inr x \<Rightarrow> Inr x)"

definition annotateResource :: "'y kyaml \<Rightarrow> string \<Rightarrow> string \<Rightarrow> nat \<Rightarrow> string \<Rightarrow> string res" where
  "annotateResource Y annotation b i resource =
     bindR (case ky_Parse Y resource of Inl e \<Rightarrow> Inl (Errf ''unable to parse object: %v %v'' [resource]) | Inr obj \<Rightarrow> Inr obj) (\<lambda>obj.
     bindR (readNode ''failed to get kind: %v'' ''failed to convert kind to string: %v'' (ky_Kind Y obj)) (\<lambda>kind.
     bindR (readNode ''failed to get apiVersion: %v'' ''failed to convert apiVersion to string: %v'' (ky_APIVersion Y obj)) (\<lambda>apiVersion.
       if trimSpace kind \<noteq> [] \<and> trimSpace apiVersion \<noteq> [] then
         bindR (readNode ''failed to get metadata: %v'' ''failed to get annotations: %v'' (ky_HasAnnotations Y obj)) (\<lambda>has.
         bindR (if \<not> has \<and> i = 0
                then (case ky_AddAnnotations Y obj of Inl e \<Rightarrow> Inl (err ''failed to add annotations: %v'') | Inr o' \<Rightarrow> Inr o')
                else Inr obj) (\<lambda>obj.
         bindR (if has \<or> i = 0
                then (case ky_SetAnnotation Y annotation b obj of Inl e \<Rightarrow> Inl (err ''failed to add annotation: %v'') | Inr o' \<Rightarrow> Inr o')
                else Inr obj) (\<lambda>obj.
           Inr (ky_String Y obj))))
       else Inr resource)))"

definition InjectJSONAnnotation :: "'y kyaml \<Rightarrow> string list \<Rightarrow> string \<Rightarrow> string res \<Rightarrow> string list res" where
  "InjectJSONAnnotation Y resources annotation marshalled =
     bindR (wrapR ''error marshaling data when annotating resource: %w'' [] marshalled) (\<lambda>b.
       mapRes (\<lambda>(i, r). annotateResource Y annotation b i r) (zip [0..<length resources] resources))"

section \<open>validation.go\<close>

definition validateRendered :: "'u tlib \<Rightarrow> (string \<Rightarrow> string list) \<Rightarrow> string \<Rightarrow> unit res" where
  "validateRendered L IsDNS1123Subdomain v =
     bindR (wrapR ''failed to unmarshal resourceTemplate: %w'' [] (tl_Decode L v)) (\<lambda>uv.
       if u_Name uv \<noteq> [] \<and> IsDNS1123Subdomain (u_Name uv) \<noteq> []
       then Inl (Errf ''invalid value for metadata.name: %s, %s'' [u_Name uv, joinStr ''. '' (IsDNS1123Subdomain (u_Name uv))])
       else Inr ())"

definition ValidateRenderedTemplates :: "'u tlib \<Rightarrow> (string \<Rightarrow> string list) \<Rightarrow> string list \<Rightarrow> unit res" where
  "ValidateRenderedTemplates L IsDNS1123Subdomain processed =
     bindR (mapRes (validateRendered L IsDNS1123Subdomain) processed) (\<lambda>_. Inr ())"

section \<open>template\_response.go\<close>

definition CAPIKind :: string where "CAPIKind = ''CAPITemplate''"
definition GitOpsKind :: string where "GitOpsKind = ''GitOpsTemplate''"

definition displayAnnotation :: "string \<Rightarrow> string" where
  "displayAnnotation kind = (if kind = CAPIKind then ''capi.weave.works/display-name''
     else if kind = GitOpsKind then ''templates.weave.works/display-name'' else [])"

definition providers :: "string \<rightharpoonup> string" where
  "providers = map_of [(''AWSCluster'', ''aws''), (''AWSManagedCluster'', ''aws''), (''AWSManagedControlPlane'', ''aws''),
     (''AzureCluster'', ''azure''), (''AzureManagedCluster'', ''azure''), (''DOCluster'', ''digitalocean''),
     (''DockerCluster'', ''docker''), (''GCPCluster'', ''gcp''), (''OpenStackCluster'', ''openstack''),
     (''PacketCluster'', ''packet''), (''VSphereCluster'', ''vsphere'')]"

text \<open>An error is used as a value; a panic goes on.\<close>

definition catchErr :: "(goerror \<Rightarrow> 'b) \<Rightarrow> ('a \<Rightarrow> 'b res) \<Rightarrow> 'a res \<Rightarrow> 'b res" where
  "catchErr h f r = (case r of Inl e \<Rightarrow> if isPanic e then Inl e else Inr (h e) | Inr x \<Rightarrow> f x)"

definition getProvider :: "'u tlib \<Rightarrow> visit \<Rightarrow> template \<Rightarrow> string \<Rightarrow> string res" where
  "getProvider L visit t annotation =
     catchErr (\<lambda>_. []) (\<lambda>meta. Inr (case List.map_filter (\<lambda>obj. providers (to_Kind obj)) (me_Objects meta) of [] \<Rightarrow> [] | p # _ \<Rightarrow> p))
       (ParseTemplateMeta L visit t annotation)"

record template_response =
  tr_Name :: string
  tr_Description :: string
  tr_Provider :: string
  tr_Annotations :: "string \<rightharpoonup> string"
  tr_Labels :: "string \<rightharpoonup> string"
  tr_TemplateKind :: string
  tr_TemplateType :: string
  tr_Namespace :: string
  tr_Parameters :: "Param list"
  tr_Objects :: "template_object list"
  tr_Profiles :: "TemplateProfile list"
  tr_Error :: "(string \<times> goerror) option"

text \<open>The error of a response is the message with the error that it quotes; None is the empty string.\<close>

definition ToTemplateResponse :: "'u tlib \<Rightarrow> visit \<Rightarrow> template \<Rightarrow> template_response res" where
  "ToTemplateResponse L visit t =
     (let annotation = displayAnnotation (tm_Kind t) in
      bindR (getProvider L visit t annotation) (\<lambda>provider.
        let res = \<lparr> tr_Name = tm_Name t, tr_Description = tm_Description t, tr_Provider = provider,
              tr_Annotations = tm_Annotations t, tr_Labels = tm_Labels t, tr_TemplateKind = tm_Kind t,
              tr_TemplateType = mget (tm_Labels t) ''weave.works/template-type'', tr_Namespace = tm_Namespace t,
              tr_Parameters = [], tr_Objects = [], tr_Profiles = [], tr_Error = None \<rparr>
        in catchErr (\<lambda>e. res\<lparr> tr_Error := Some (''Couldn't load template body: %s'', e) \<rparr>) (\<lambda>meta.
          let res = res\<lparr> tr_Parameters := me_Params meta, tr_Objects := me_Objects meta \<rparr>
          in catchErr (\<lambda>e. res\<lparr> tr_Error := Some (''Couldn't load profiles from template: %s'', e) \<rparr>)
               (\<lambda>profiles. Inr (res\<lparr> tr_Profiles := profiles \<rparr>)) (GetProfilesFromTemplate L visit t))
          (ParseTemplateMeta L visit t annotation)))"

end
