(* ===== verification/Namespaces.thy ===== *)
theory Namespaces
  imports Prelude "HOL-Library.List_Lexorder" "HOL-Library.Char_ord"
begin

text \<open>
  pkg/cluster/namespaces and cmd/clusters-service/pkg/mgmtfetcher: the list requests of the
  management cluster go to the namespaces in which the user may list and get the kind. They
  are asked for with self subject rules reviews and kept for a minute. The cache of
  cheshir/ttlcache, the hash functions and the cluster are parameters; the time of a
  request is an argument, so that reviews may change between requests.
\<close>

section \<open>filter.go\<close>

record RequiredResource =
  rq_Kind :: string
  rq_Group :: string
  rq_Resource :: string

record api_groups =
  ag_pipelines :: string
  ag_capi :: string
  ag_templates :: string
  ag_gitopssets :: string
  ag_clusters :: string

definition requiredResources :: "api_groups \<Rightarrow> RequiredResource list" where
  "requiredResources G =
     [\<lparr> rq_Kind = ''Pipeline'', rq_Group = ag_pipelines G, rq_Resource = ''pipelines'' \<rparr>,
      \<lparr> rq_Kind = ''CAPITemplate'', rq_Group = ag_capi G, rq_Resource = ''capitemplates'' \<rparr>,
      \<lparr> rq_Kind = ''GitOpsTemplate'', rq_Group = ag_templates G, rq_Resource = ''gitopstemplates'' \<rparr>,
      \<lparr> rq_Kind = ''GitOpsSet'', rq_Group = ag_gitopssets G, rq_Resource = ''gitopssets'' \<rparr>,
      \<lparr> rq_Kind = ''GitopsCluster'', rq_Group = ag_clusters G, rq_Resource = ''gitopsclusters'' \<rparr>]"

record resource_rule =
  rr_Verbs :: "string list"
  rr_APIGroups :: "string list"
  rr_Resources :: "string list"

record ruleCache =
  rc_apiGroups :: "string set"
  rc_resources :: "string set"

definition containsKey :: "string \<Rightarrow> string set \<Rightarrow> bool" where
  "containsKey key cache \<longleftrightarrow> key \<in> cache \<or> ''*'' \<in> cache"

definition buildRules :: "resource_rule list \<Rightarrow> ruleCache list" where
  "buildRules rules =
     List.map_filter (\<lambda>rule.
       let verbs = set (rr_Verbs rule) in
       if containsKey ''list'' verbs \<and> containsKey ''get'' verbs
       then Some \<lparr> rc_apiGroups = set (rr_APIGroups rule), rc_resources = set (rr_Resources rule) \<rparr>
       else None) rules"

definition findRequiredResource :: "RequiredResource \<Rightarrow> ruleCache list \<Rightarrow> bool" where
  "findRequiredResource resource rulesCache =
     list_ex (\<lambda>rc. containsKey (rq_Group resource) (rc_apiGroups rc) \<and> containsKey (rq_Resource resource) (rc_resources rc)) rulesCache"

text \<open>The namespaces of each kind; review asks for the rules of the user in a namespace.\<close>

definition addNamespace :: "api_groups \<Rightarrow> string \<Rightarrow> ruleCache list \<Rightarrow> (string \<rightharpoonup> string list) \<Rightarrow> (string \<rightharpoonup> string list)" where
  "addNamespace G ns rulesCache m =
     foldl (\<lambda>m r. if findRequiredResource r rulesCache
       then m(rq_Kind r \<mapsto> (case m (rq_Kind r) of None \<Rightarrow> [] | Some l \<Rightarrow> l) @ [ns]) else m) m (requiredResources G)"

fun addNamespaces :: "api_groups \<Rightarrow> (string \<Rightarrow> resource_rule list res) \<Rightarrow> string list \<Rightarrow> (string \<rightharpoonup> string list) \<Rightarrow>
    (string \<rightharpoonup> string list) res" where
  "addNamespaces G review [] m = Inr m"
| "addNamespaces G review (ns # nss) m =
     (case review ns of
        Inl e \<Rightarrow> Inl (wrap ''failed to get user rules for namespace %s: %w'' [ns] e)
      | Inr rules \<Rightarrow> addNamespaces G review nss (addNamespace G ns (buildRules rules) m))"

definition buildCache :: "api_groups \<Rightarrow> (string \<Rightarrow> resource_rule list res) \<Rightarrow> string list \<Rightarrow> (string \<rightharpoonup> string list) res" where
  "buildCache G review namespaces =
     addNamespaces G review namespaces (foldl (\<lambda>m r. m(rq_Kind r \<mapsto> [])) Map.empty (requiredResources G))"

section \<open>userCache.go\<close>

definition cacheTTL :: int where "cacheTTL = 60000000000"
definition cacheResolutionTime :: int where "cacheResolutionTime = 30000000000"

text \<open>A cache; Set and Get happen at a time.\<close>

record ('k, 'c) ttlcache =
  tc_New :: "int \<Rightarrow> 'c"
  tc_StringKey :: "string \<Rightarrow> 'k"
  tc_Get :: "int \<Rightarrow> 'k \<Rightarrow> 'c \<Rightarrow> string list option"
  tc_Set :: "int \<Rightarrow> 'k \<Rightarrow> string list \<Rightarrow> int \<Rightarrow> 'c \<Rightarrow> 'c"

definition ttlcache_ok :: "('k, 'c) ttlcache \<Rightarrow> bool" where
  "ttlcache_ok T \<longleftrightarrow> (\<forall>res now k. tc_Get T now k (tc_New T res) = None) \<and>
     (\<forall>now t k k' v w ttl c. tc_Get T now k (tc_Set T t k' v ttl c) = Some w \<longrightarrow>
        (if k = k' then w = v \<and> now \<le> t + ttl else tc_Get T now k c = Some w))"

definition NewUsersResourcesNamespaces :: "('k, 'c) ttlcache \<Rightarrow> 'c" where
  "NewUsersResourcesNamespaces T = tc_New T cacheResolutionTime"

definition cacheKey :: "('k, 'c) ttlcache \<Rightarrow> string \<Rightarrow> string \<Rightarrow> 'k" where
  "cacheKey T userID kind = tc_StringKey T (userID @ '':'' @ kind)"

definition urn_Get :: "('k, 'c) ttlcache \<Rightarrow> int \<Rightarrow> string \<Rightarrow> string \<Rightarrow> 'c \<Rightarrow> string list option" where
  "urn_Get T now userID kind c = tc_Get T now (cacheKey T userID kind) c"

definition urn_Set :: "('k, 'c) ttlcache \<Rightarrow> int \<Rightarrow> string \<Rightarrow> string \<Rightarrow> string list \<Rightarrow> 'c \<Rightarrow> 'c" where
  "urn_Set T now userID kind namespaces c = tc_Set T now (cacheKey T userID kind) namespaces cacheTTL c"

text \<open>The kinds are set in the order in which the map is visited.\<close>

definition urn_Build :: "('k, 'c) ttlcache \<Rightarrow> api_groups \<Rightarrow> (string set \<Rightarrow> string list) \<Rightarrow> int \<Rightarrow> string \<Rightarrow>
    (string \<Rightarrow> resource_rule list res) \<Rightarrow> string list \<Rightarrow> 'c step" where
  "urn_Build T G visit now userID review namespaces c =
     (case buildCache G review namespaces of
        Inl e \<Rightarrow> (Some e, c)
      | Inr m \<Rightarrow> (None, foldl (\<lambda>c kind. urn_Set T now userID kind (the (m kind)) c) c (visit (dom m))))"

section \<open>mgmtfetcher.go\<close>

record user_principal =
  up_ID :: string
  up_Token :: string
  up_Groups :: "string list"

definition principalText :: "user_principal \<Rightarrow> string" where
  "principalText p = up_ID p @ ''/'' @ up_Token p @ ''/['' @ joinStr '' '' (up_Groups p) @ '']''"

text \<open>What the fetcher asks of the cluster at a time: the namespaces, a client for the rules of a
  user, which answers for a namespace, and the list of the objects in a namespace.\<close>

record ('k, 'c, 'o) mgmt_env =
  me_ttl :: "('k, 'c) ttlcache"
  me_groups :: api_groups
  me_visit :: "string set \<Rightarrow> string list"
  me_md5 :: "string \<Rightarrow> string"
  me_Client :: "user_principal \<Rightarrow> unit res"
  me_Namespaces :: "int \<Rightarrow> string list res"
  me_AuthClient :: "user_principal \<Rightarrow> unit res"
  me_Review :: "int \<Rightarrow> user_principal \<Rightarrow> string \<Rightarrow> resource_rule list res"
  me_List :: "int \<Rightarrow> user_principal \<Rightarrow> string \<Rightarrow> string \<Rightarrow> 'o list \<times> goerror option"

definition hash :: "('k, 'c, 'o) mgmt_env \<Rightarrow> user_principal \<Rightarrow> string" where
  "hash E p = me_md5 E (principalText p)"

definition getUserNamespaces :: "('k, 'c, 'o) mgmt_env \<Rightarrow> int \<Rightarrow> user_principal \<Rightarrow> string \<Rightarrow> ('c, string list) action" where
  "getUserNamespaces E now user resourceKind c =
     (case me_Namespaces E now of
        Inl e \<Rightarrow> (Inl e, c)
      | Inr namespaces \<Rightarrow>
     (case me_AuthClient E user of
        Inl e \<Rightarrow> (Inl e, c)
      | Inr _ \<Rightarrow>
     (case urn_Get (me_ttl E) now (hash E user) resourceKind c of
        Some userNamespaces \<Rightarrow> (Inr userNamespaces, c)
      | None \<Rightarrow>
     (case urn_Build (me_ttl E) (me_groups E) (me_visit E) now (hash E user) (me_Review E now user) namespaces c of
        (Some e, c) \<Rightarrow> (Inl e, c)
      | (None, c) \<Rightarrow>
          (case urn_Get (me_ttl E) now (hash E user) resourceKind c of
             Some userNamespaces \<Rightarrow> (Inr userNamespaces, c)
           | None \<Rightarrow> (Inl (Errf ''unsupported resource kind: %s'' [resourceKind]), c))))))"

record 'o NamespacedList =
  nl_Namespace :: string
  nl_List :: "'o list"
  nl_Error :: "goerror option"

text \<open>Every namespace has a goroutine; perm gives the order in which they append their results.\<close>

definition Fetch :: "('k, 'c, 'o) mgmt_env \<Rightarrow> (string list \<Rightarrow> string list) \<Rightarrow> int \<Rightarrow> user_principal \<Rightarrow> string \<Rightarrow>
    ('c, 'o NamespacedList list) action" where
  "Fetch E perm now user resourceKind c =
     (case me_Client E user of
        Inl e \<Rightarrow> (Inl (wrap ''failed to get client: %w'' [] e), c)
      | Inr _ \<Rightarrow>
     (case getUserNamespaces E now user resourceKind c of
        (Inl e, c) \<Rightarrow> (Inl e, c)
      | (Inr userNamespaces, c) \<Rightarrow>
          (Inr (map (\<lambda>ns. case me_List E now user resourceKind ns of (items, e) \<Rightarrow>
             \<lparr> nl_Namespace = ns, nl_List = items, nl_Error = e \<rparr>) (perm userNamespaces)), c)))"

section \<open>The namespaces that are asked\<close>

text \<open>A rule that allows both verbs on a resource.\<close>

definition permits :: "RequiredResource \<Rightarrow> resource_rule \<Rightarrow> bool" where
  "permits r rule \<longleftrightarrow> containsKey ''list'' (set (rr_Verbs rule)) \<and> containsKey ''get'' (set (rr_Verbs rule)) \<and>
     containsKey (rq_Group r) (set (rr_APIGroups rule)) \<and> containsKey (rq_Resource r) (set (rr_Resources rule))"

lemma findRequiredResource_iff: "findRequiredResource r (buildRules rules) \<longleftrightarrow> (\<exists>rule\<in>set rules. permits r rule)"
  by (induction rules) (auto simp: findRequiredResource_def buildRules_def map_filter_simps permits_def Let_def)

definition allowedNs :: "api_groups \<Rightarrow> (string \<Rightarrow> resource_rule list res) \<Rightarrow> string list \<Rightarrow> string \<Rightarrow> string \<Rightarrow> bool" where
  "allowedNs G review namespaces kind ns \<longleftrightarrow> ns \<in> set namespaces \<and>
     (\<exists>r\<in>set (requiredResources G). rq_Kind r = kind \<and> (\<exists>rules. review ns = Inr rules \<and> (\<exists>rule\<in>set rules. permits r rule)))"

text \<open>An invariant of the maps that buildCache goes through: the namespaces of a kind are allowed.\<close>

definition allowedMap :: "(string \<Rightarrow> string \<Rightarrow> bool) \<Rightarrow> (string \<rightharpoonup> string list) \<Rightarrow> bool" where
  "allowedMap P m \<longleftrightarrow> finite (dom m) \<and> (\<forall>kind nss. m kind = Some nss \<longrightarrow> (\<forall>ns\<in>set nss. P kind ns))"

lemma allowedMap_upd: "allowedMap P m \<Longrightarrow> (\<And>ns. ns \<in> set nss \<Longrightarrow> P k ns) \<Longrightarrow> allowedMap P (m(k \<mapsto> nss))"
  by (auto simp: allowedMap_def)

lemma addNamespace_allowed:
  assumes "allowedMap (allowedNs G review namespaces) m" "ns \<in> set namespaces" "review ns = Inr rules"
  shows "allowedMap (allowedNs G review namespaces) (addNamespace G ns (buildRules rules) m)"
proof -
  let ?P = "allowedNs G review namespaces"
  let ?l = "\<lambda>m r. case m (rq_Kind r) of None \<Rightarrow> [] | Some l \<Rightarrow> l"
  have "allowedMap ?P (foldl (\<lambda>m r. if findRequiredResource r (buildRules rules)
       then m(rq_Kind r \<mapsto> ?l m r @ [ns]) else m) m rs)"
    if "set rs \<subseteq> set (requiredResources G)" for rs
    using that assms(1)
  proof (induction rs arbitrary: m)
    case (Cons r rs)
    have "allowedMap ?P (m(rq_Kind r \<mapsto> ?l m r @ [ns]))" if "findRequiredResource r (buildRules rules)"
    proof (rule allowedMap_upd [OF Cons.prems(2)])
      fix n assume "n \<in> set (?l m r @ [ns])"
      then consider l where "m (rq_Kind r) = Some l" "n \<in> set l" | "n = ns" by (cases "m (rq_Kind r)") auto
      then show "?P (rq_Kind r) n"
      proof cases
        case 2
        with that Cons.prems(1) assms(2,3) show ?thesis
          unfolding findRequiredResource_iff allowedNs_def by auto
      qed (use Cons.prems(2) in \<open>auto simp: allowedMap_def\<close>)
    qed
    with Cons show ?case by simp
  qed simp
  then show ?thesis by (simp add: addNamespace_def)
qed

lemma addNamespaces_allowed:
  "addNamespaces G review nss m = Inr m' \<Longrightarrow> allowedMap (allowedNs G review namespaces) m \<Longrightarrow> set nss \<subseteq> set namespaces \<Longrightarrow>
    allowedMap (allowedNs G review namespaces) m'"
  by (induction nss arbitrary: m) (auto split: sum.splits intro: addNamespace_allowed)

lemma buildCache_allowed: "buildCache G review namespaces = Inr m \<Longrightarrow> allowedMap (allowedNs G review namespaces) m"
  unfolding buildCache_def
  by (rule addNamespaces_allowed) (auto simp: allowedMap_def requiredResources_def split: if_splits)

text \<open>The invariant of the cache: what it holds under a key was allowed, at the time of a request
  that is at most a minute old, to a user whose key is that.\<close>

definition wasAllowed :: "('k, 'c, 'o) mgmt_env \<Rightarrow> (int \<times> user_principal) set \<Rightarrow> int \<Rightarrow> 'k \<Rightarrow> string \<Rightarrow> bool" where
  "wasAllowed E past now k ns \<longleftrightarrow> (\<exists>t user kind namespaces. (t, user) \<in> past \<and> now \<le> t + cacheTTL \<and>
     cacheKey (me_ttl E) (hash E user) kind = k \<and> me_Namespaces E t = Inr namespaces \<and>
     allowedNs (me_groups E) (me_Review E t user) namespaces kind ns)"

definition cacheAllowed :: "('k, 'c, 'o) mgmt_env \<Rightarrow> (int \<times> user_principal) set \<Rightarrow> 'c \<Rightarrow> bool" where
  "cacheAllowed E past c \<longleftrightarrow> (\<forall>now k w. tc_Get (me_ttl E) now k c = Some w \<longrightarrow> (\<forall>ns\<in>set w. wasAllowed E past now k ns))"

lemma wasAllowed_mono: "wasAllowed E past now k ns \<Longrightarrow> past \<subseteq> past' \<Longrightarrow> wasAllowed E past' now k ns"
  unfolding wasAllowed_def by blast

lemma urn_Set_allowed:
  assumes "ttlcache_ok (me_ttl E)" "cacheAllowed E past c" "(t, user) \<in> past" "me_Namespaces E t = Inr namespaces"
    and "\<And>ns. ns \<in> set nss \<Longrightarrow> allowedNs (me_groups E) (me_Review E t user) namespaces kind ns"
  shows "cacheAllowed E past (urn_Set (me_ttl E) t (hash E user) kind nss c)"
  unfolding cacheAllowed_def urn_Set_def
proof (intro allI impI ballI)
  fix now k w ns
  assume get: "tc_Get (me_ttl E) now k (tc_Set (me_ttl E) t (cacheKey (me_ttl E) (hash E user) kind) nss cacheTTL c) = Some w"
    and ns: "ns \<in> set w"
  show "wasAllowed E past now k ns"
  proof (cases "k = cacheKey (me_ttl E) (hash E user) kind")
    case True
    then have "w = nss" "now \<le> t + cacheTTL"
      using assms(1) get unfolding ttlcache_ok_def by (metis, metis)
    with True ns assms(3-) show ?thesis unfolding wasAllowed_def by blast
  next
    case False
    then have "tc_Get (me_ttl E) now k c = Some w"
      using assms(1) get unfolding ttlcache_ok_def by metis
    with ns assms(2) show ?thesis unfolding cacheAllowed_def by blast
  qed
qed

lemma urn_Build_allowed:
  assumes "ttlcache_ok (me_ttl E)" "cacheAllowed E past c" "(t, user) \<in> past" "me_Namespaces E t = Inr namespaces"
    and visit: "\<And>K. finite K \<Longrightarrow> set (me_visit E K) = K"
  shows "cacheAllowed E past (snd (urn_Build (me_ttl E) (me_groups E) (me_visit E) t (hash E user) (me_Review E t user) namespaces c))"
proof (cases "buildCache (me_groups E) (me_Review E t user) namespaces")
  case (Inr m)
  note m = buildCache_allowed [OF Inr, unfolded allowedMap_def]
  have "cacheAllowed E past (foldl (\<lambda>c kind. urn_Set (me_ttl E) t (hash E user) kind (the (m kind)) c) c ks)"
    if "set ks \<subseteq> dom m" for ks
    using that assms(2)
  proof (induction ks arbitrary: c)
    case (Cons kind ks)
    then have "cacheAllowed E past (urn_Set (me_ttl E) t (hash E user) kind (the (m kind)) c)"
      using m by (intro urn_Set_allowed [OF assms(1) _ assms(3,4)]) auto
    with Cons show ?case by simp
  qed simp
  moreover have "set (me_visit E (dom m)) = dom m" using visit m by blast
  ultimately show ?thesis by (simp add: urn_Build_def Inr)
qed (simp add: urn_Build_def assms(2))

lemma getUserNamespaces_allowed:
  assumes "ttlcache_ok (me_ttl E)" "\<And>K. finite K \<Longrightarrow> set (me_visit E K) = K"
    and "cacheAllowed E past c" "getUserNamespaces E now user kind c = (r, c')"
  shows "cacheAllowed E (insert (now, user) past) c'"
    and "r = Inr nss \<Longrightarrow> ns \<in> set nss \<Longrightarrow> wasAllowed E (insert (now, user) past) now (cacheKey (me_ttl E) (hash E user) kind) ns"
proof -
  let ?past = "insert (now, user) past"
  have c: "cacheAllowed E ?past c"
    using assms(3) wasAllowed_mono unfolding cacheAllowed_def by (metis subset_insertI)
  have "cacheAllowed E ?past c' \<and> (\<forall>nss. r = Inr nss \<longrightarrow> urn_Get (me_ttl E) now (hash E user) kind c' = Some nss)"
    using assms(4) c urn_Build_allowed [OF assms(1) c, of now user] assms(2)
    by (auto simp: getUserNamespaces_def split: sum.splits option.splits prod.splits)
  then have "cacheAllowed E ?past c'" "r = Inr nss \<Longrightarrow> urn_Get (me_ttl E) now (hash E user) kind c' = Some nss" by blast+
  then show "cacheAllowed E ?past c'"
    "r = Inr nss \<Longrightarrow> ns \<in> set nss \<Longrightarrow> wasAllowed E ?past now (cacheKey (me_ttl E) (hash E user) kind) ns"
    unfolding cacheAllowed_def urn_Get_def by blast+
qed

text \<open>A history of requests: the time, the user, the kind and the order of the goroutines of each.\<close>

type_synonym fetch_request = "int \<times> user_principal \<times> string \<times> (string list \<Rightarrow> string list)"

fun fetchAll :: "('k, 'c, 'o) mgmt_env \<Rightarrow> fetch_request list \<Rightarrow> 'c \<Rightarrow> 'c" where
  "fetchAll E [] c = c"
| "fetchAll E ((now, user, kind, perm) # reqs) c = fetchAll E reqs (snd (Fetch E perm now user kind c))"

definition past :: "fetch_request list \<Rightarrow> (int \<times> user_principal) set" where
  "past reqs = (\<lambda>(now, user, kind, perm). (now, user)) ` set reqs"

lemma Fetch_allowed:
  assumes "ttlcache_ok (me_ttl E)" "\<And>K. finite K \<Longrightarrow> set (me_visit E K) = K" "cacheAllowed E P c"
  shows "cacheAllowed E (insert (now, user) P) (snd (Fetch E perm now user kind c))"
proof -
  have "cacheAllowed E (insert (now, user) P) c"
    using assms(3) wasAllowed_mono unfolding cacheAllowed_def by (metis subset_insertI)
  moreover obtain r c' where g: "getUserNamespaces E now user kind c = (r, c')" by force
  ultimately show ?thesis
    using getUserNamespaces_allowed(1) [OF assms(1,2,3) g]
    by (auto simp: Fetch_def g split: sum.splits)
qed

lemma fetchAll_allowed:
  assumes "ttlcache_ok (me_ttl E)" "\<And>K. finite K \<Longrightarrow> set (me_visit E K) = K" "cacheAllowed E P c"
  shows "cacheAllowed E (P \<union> past reqs) (fetchAll E reqs c)"
  using assms(3)
proof (induction reqs arbitrary: P c)
  case (Cons req reqs)
  obtain now user kind perm where req: "req = (now, user, kind, perm)" by (cases req) auto
  from Cons.IH [OF Fetch_allowed [OF assms(1,2) Cons.prems, of now user perm kind]]
  show ?case by (simp add: req past_def)
qed (simp add: past_def)

lemma nl_Namespace_case [simp]:
  "nl_Namespace (case p of (items, e) \<Rightarrow> \<lparr> nl_Namespace = ns, nl_List = items, nl_Error = e \<rparr>) = ns"
  by (cases p) simp

lemma snd_Fetch: "me_Client E user = Inr u \<Longrightarrow> snd (Fetch E perm now user kind c) = snd (getUserNamespaces E now user kind c)"
  by (auto simp: Fetch_def split: sum.splits prod.splits)

text \<open>C18: Whatever requests came before, a request lists only namespaces that existed and in which the
  user, or one with the same key in the cache, was allowed to list and get the kind by one rule, at
  the time of a request at most a minute ago.\<close>

theorem fetch_confined:
  assumes "ttlcache_ok (me_ttl E)" "\<And>K. finite K \<Longrightarrow> set (me_visit E K) = K" "\<And>xs. set (perm xs) = set xs"
    and "fst (Fetch E perm now user kind (fetchAll E reqs (NewUsersResourcesNamespaces (me_ttl E)))) = Inr listed" "l \<in> set listed"
  shows "\<exists>t user' kind' namespaces r rules rule. (t, user') \<in> insert (now, user) (past reqs) \<and> now \<le> t + cacheTTL \<and>
    cacheKey (me_ttl E) (hash E user') kind' = cacheKey (me_ttl E) (hash E user) kind \<and>
    me_Namespaces E t = Inr namespaces \<and> nl_Namespace l \<in> set namespaces \<and>
    r \<in> set (requiredResources (me_groups E)) \<and> rq_Kind r = kind' \<and>
    me_Review E t user' (nl_Namespace l) = Inr rules \<and> rule \<in> set rules \<and> permits r rule"
proof -
  let ?c0 = "NewUsersResourcesNamespaces (me_ttl E)"
  have "cacheAllowed E {} ?c0"
    using assms(1) by (simp add: cacheAllowed_def ttlcache_ok_def NewUsersResourcesNamespaces_def)
  from fetchAll_allowed [OF assms(1,2) this] have c: "cacheAllowed E (past reqs) (fetchAll E reqs ?c0)" by simp
  obtain nss c' where g: "getUserNamespaces E now user kind (fetchAll E reqs ?c0) = (Inr nss, c')"
    and "nl_Namespace ` set listed = set nss"
    using assms(3,4) by (auto simp: Fetch_def image_image split: sum.splits prod.splits)
  then have "nl_Namespace l \<in> set nss" using assms(5) by blast
  from getUserNamespaces_allowed(2) [OF assms(1,2) c g refl this]
  show ?thesis unfolding wasAllowed_def allowedNs_def by blast
qed

text \<open>A cluster with two namespaces; the user may read everything in one of them, until time 5.\<close>

definition sampleTtl :: "(string, string \<rightharpoonup> string list \<times> int) ttlcache" where
  "sampleTtl = \<lparr> tc_New = (\<lambda>_. Map.empty), tc_StringKey = id,
     tc_Get = (\<lambda>now k c. case c k of Some (v, d) \<Rightarrow> if now \<le> d then Some v else None | None \<Rightarrow> None),
     tc_Set = (\<lambda>t k v ttl c. c(k \<mapsto> (v, t + ttl))) \<rparr>"

definition sampleEnv :: "(string, string \<rightharpoonup> string list \<times> int, string) mgmt_env" where
  "sampleEnv = \<lparr> me_ttl = sampleTtl, me_groups = \<lparr> ag_pipelines = ''p'', ag_capi = ''c'', ag_templates = ''t'', ag_gitopssets = ''s'', ag_clusters = ''g'' \<rparr>,
     me_visit = sorted_list_of_set, me_md5 = id, me_Client = (\<lambda>_. Inr ()), me_Namespaces = (\<lambda>_. Inr [''a'', ''b'']),
     me_AuthClient = (\<lambda>_. Inr ()),
     me_Review = (\<lambda>t _ ns. Inr (if ns = ''a'' \<and> t \<le> 5 then [\<lparr> rr_Verbs = [''*''], rr_APIGroups = [''*''], rr_Resources = [''*''] \<rparr>] else [])),
     me_List = (\<lambda>_ _ kind ns. ([kind @ ns], None)) \<rparr>"

definition sampleUser :: user_principal where
  "sampleUser = \<lparr> up_ID = ''u'', up_Token = [], up_Groups = [] \<rparr>"

lemma sample_build:
  "buildCache (me_groups sampleEnv) (me_Review sampleEnv 0 sampleUser) [''a'', ''b''] =
     Inr [''Pipeline'' \<mapsto> [''a''], ''CAPITemplate'' \<mapsto> [''a''], ''GitOpsTemplate'' \<mapsto> [''a''], ''GitOpsSet'' \<mapsto> [''a''], ''GitopsCluster'' \<mapsto> [''a'']]"
  by (simp add: buildCache_def sampleEnv_def requiredResources_def addNamespace_def findRequiredResource_def buildRules_def
    map_filter_simps containsKey_def Let_def fun_eq_iff)

lemma sample_fetch:
  "fst (Fetch sampleEnv id 10 sampleUser ''GitopsCluster'' (fetchAll sampleEnv [(0, sampleUser, ''GitopsCluster'', id)]
     (NewUsersResourcesNamespaces (me_ttl sampleEnv)))) = Inr [\<lparr> nl_Namespace = ''a'', nl_List = [''GitopsClustera''], nl_Error = None \<rparr>]"
proof -
  define c where "c = snd (getUserNamespaces sampleEnv 0 sampleUser ''GitopsCluster'' Map.empty)"
  have s: "sorted_list_of_set {''Pipeline'', ''CAPITemplate'', ''GitOpsTemplate'', ''GitOpsSet'', ''GitopsCluster''} =
      [''CAPITemplate'', ''GitOpsSet'', ''GitOpsTemplate'', ''GitopsCluster'', ''Pipeline'']"
    by (simp add: less_list_code)
  have "c (hash sampleEnv sampleUser @ '':GitopsCluster'') = Some ([''a''], cacheTTL)"
    using sample_build s
    by (simp add: c_def getUserNamespaces_def sampleEnv_def urn_Get_def sampleTtl_def urn_Build_def urn_Set_def cacheKey_def
      hash_def insert_commute)
  then have get: "urn_Get (me_ttl sampleEnv) 10 (hash sampleEnv sampleUser) ''GitopsCluster'' c = Some [''a'']"
    by (simp add: urn_Get_def sampleEnv_def sampleTtl_def cacheKey_def cacheTTL_def hash_def)
  have client: "me_Client sampleEnv u = Inr ()" "me_Namespaces sampleEnv t = Inr [''a'', ''b'']" "me_AuthClient sampleEnv u = Inr ()"
    for u t by (simp_all add: sampleEnv_def)
  have "fetchAll sampleEnv [(0, sampleUser, ''GitopsCluster'', id)] (NewUsersResourcesNamespaces (me_ttl sampleEnv)) = c"
    by (simp add: snd_Fetch [OF client(1)] c_def) (simp add: sampleEnv_def sampleTtl_def NewUsersResourcesNamespaces_def)
  moreover have "getUserNamespaces sampleEnv 10 sampleUser ''GitopsCluster'' c = (Inr [''a''], c)"
    by (simp add: getUserNamespaces_def client get)
  ultimately show ?thesis by (simp add: Fetch_def client) (simp add: sampleEnv_def)
qed

lemma fetch_confined_witness:
  "\<exists>t namespaces rules rule r. t \<in> {0, 10} \<and> me_Namespaces sampleEnv t = Inr namespaces \<and> ''a'' \<in> set namespaces \<and>
     me_Review sampleEnv t sampleUser ''a'' = Inr rules \<and> rule \<in> set rules \<and> permits r rule"
proof -
  have ttl: "ttlcache_ok (me_ttl sampleEnv)"
    by (auto simp: ttlcache_ok_def sampleEnv_def sampleTtl_def split: option.splits if_splits)
  have vis: "set (me_visit sampleEnv K) = K" if "finite K" for K
    using that by (simp add: sampleEnv_def)
  have perm: "set (id xs) = set xs" for xs :: "string list" by simp
  let ?l = "\<lparr> nl_Namespace = ''a'', nl_List = [''GitopsClustera''], nl_Error = None \<rparr>"
  have "?l \<in> set [?l]" by simp
  from fetch_confined [OF ttl vis perm sample_fetch this]
  obtain t user' kind' namespaces r rules rule where
    w: "(t, user') \<in> insert (10, sampleUser) (past [(0, sampleUser, ''GitopsCluster'', id)])"
      "me_Namespaces sampleEnv t = Inr namespaces" "nl_Namespace ?l \<in> set namespaces"
      "me_Review sampleEnv t user' (nl_Namespace ?l) = Inr rules" "rule \<in> set rules" "permits r rule"
    by blast
  from w(1) have "t \<in> {0, 10}" "user' = sampleUser" by (auto simp: past_def)
  with w(2-) show ?thesis
    by (intro exI [of _ t] exI [of _ namespaces] exI [of _ rules] exI [of _ rule] exI [of _ r]) simp
qed

text \<open>The text that is hashed does not determine the user: the separators may be part of what
  they separate, so that users with different groups share the entries of the cache.\<close>

lemma principalText_ambiguous:
  "principalText \<lparr> up_ID = ''u'', up_Token = [], up_Groups = [''dev'', ''admin''] \<rparr> =
   principalText \<lparr> up_ID = ''u'', up_Token = [], up_Groups = [''dev admin''] \<rparr>"
  by (simp add: principalText_def)

end
