(* ===== verification/HelmReleases.thy ===== *)
theory HelmReleases
  imports Sorting "HOL-Library.List_Lexorder" "HOL-Library.Char_ord"
begin

text \<open>
  cmd/clusters-service/pkg/charts/values.go: the Helm releases of a set of charts, with
  dependencies from each layer to the one below it. json.Marshal of the values and
  yaml.Unmarshal of a profile template into a release are parameters. The fields of a
  release that are the same for all (the interval, the policies for CRDs, the kinds) are
  left out.
\<close>

record 'v ChartInstall =
  in_Chart :: string
  in_Version :: string
  in_SourceName :: string
  in_SourceNamespace :: string
  in_Layer :: string
  in_Values :: 'v
  in_Namespace :: string
  in_ProfileTemplate :: string

record helm_release =
  hl_Name :: string
  hl_Namespace :: string
  hl_Labels :: "string \<rightharpoonup> string"
  hl_Chart :: string
  hl_Version :: string
  hl_SourceName :: string
  hl_SourceNamespace :: string
  hl_Values :: string
  hl_TargetNamespace :: string
  hl_CreateNamespace :: bool
  hl_DependsOn :: "string list"

definition LayerLabel :: string where "LayerLabel = ''weave.works/applied-layer''"

text \<open>A layer and the layer it depends on.\<close>

type_synonym layerDependency = "string \<times> string"

definition pairSorted :: "string list \<Rightarrow> layerDependency list" where
  "pairSorted names = map (\<lambda>i.
     if i < length names - 1 then (names ! i, names ! (i + 1))
     else (names ! i, if names ! i = [] \<and> length names > 0 then names ! 0 else [])) [0..<length names]"

definition pairLayers :: "string list \<Rightarrow> layerDependency list" where
  "pairLayers names = pairSorted (sortSlice (\<lambda>s t. stringLess t s) names)"

definition layerInstalls :: "'v ChartInstall list \<Rightarrow> (string \<rightharpoonup> 'v ChartInstall list)" where
  "layerInstalls installs = foldl (\<lambda>m v.
     let current = (case m (in_Layer v) of None \<Rightarrow> [] | Some c \<Rightarrow> c) in m(in_Layer v \<mapsto> current @ [v])) Map.empty installs"

definition installsOf :: "(string \<rightharpoonup> 'v ChartInstall list) \<Rightarrow> string \<Rightarrow> 'v ChartInstall list" where
  "installsOf m layer = (case m layer of None \<Rightarrow> [] | Some c \<Rightarrow> c)"

definition makeRelease :: "('v \<Rightarrow> string res) \<Rightarrow> (string \<Rightarrow> helm_release \<Rightarrow> helm_release res) \<Rightarrow> string \<Rightarrow>
    (string \<rightharpoonup> 'v ChartInstall list) \<Rightarrow> layerDependency \<Rightarrow> 'v ChartInstall \<Rightarrow> helm_release res" where
  "makeRelease marshal unmarshal namespace m layer install =
     bindR (wrapR ''failed to marshal values for chart %s: %w'' [in_Chart install] (marshal (in_Values install))) (\<lambda>jsonValues.
       let hr = \<lparr> hl_Name = in_Chart install, hl_Namespace = namespace,
             hl_Labels = (if fst layer \<noteq> [] then [LayerLabel \<mapsto> fst layer] else Map.empty),
             hl_Chart = in_Chart install, hl_Version = in_Version install,
             hl_SourceName = in_SourceName install, hl_SourceNamespace = in_SourceNamespace install,
             hl_Values = jsonValues, hl_TargetNamespace = in_Namespace install, hl_CreateNamespace = (in_Namespace install \<noteq> []),
             hl_DependsOn = (if snd layer \<noteq> [] then map in_Chart (installsOf m (snd layer)) else []) \<rparr>
       in if in_ProfileTemplate install \<noteq> []
          then wrapR ''failed to unmarshal spec for chart %s: %w'' [in_Chart install] (unmarshal (in_ProfileTemplate install) hr)
          else Inr hr)"

definition MakeHelmReleasesInLayers :: "('v \<Rightarrow> string res) \<Rightarrow> (string \<Rightarrow> helm_release \<Rightarrow> helm_release res) \<Rightarrow> visit \<Rightarrow> string \<Rightarrow>
    'v ChartInstall list \<Rightarrow> helm_release list res" where
  "MakeHelmReleasesInLayers marshal unmarshal visit namespace installs =
     (let m = layerInstalls installs in
      bindR (mapRes (\<lambda>layer. mapRes (makeRelease marshal unmarshal namespace m layer) (installsOf m (fst layer)))
          (pairLayers (visit (dom m)))) (\<lambda>releases.
        Inr (sortSlice (\<lambda>r s. stringLess (hl_Name r) (hl_Name s)) (concat releases))))"

section \<open>Layers\<close>

lemma layerInstalls_eq:
  "layerInstalls installs l = (if \<exists>v\<in>set installs. in_Layer v = l then Some (filter (\<lambda>v. in_Layer v = l) installs) else None)"
proof (induction installs rule: rev_induct)
  case (snoc v vs)
  have step: "layerInstalls (vs @ [v]) = (let m = layerInstalls vs; current = (case m (in_Layer v) of None \<Rightarrow> [] | Some c \<Rightarrow> c)
      in m(in_Layer v \<mapsto> current @ [v]))"
    by (simp add: layerInstalls_def Let_def)
  show ?case
  proof (cases "in_Layer v = l")
    case True
    have "filter (\<lambda>v. in_Layer v = l) vs = []" if "\<not> (\<exists>v\<in>set vs. in_Layer v = l)"
      using that by (simp add: filter_empty_conv)
    with True snoc.IH show ?thesis by (simp add: step Let_def)
  qed (use snoc.IH in \<open>simp add: step Let_def\<close>)
qed (simp add: layerInstalls_def)

lemma installsOf_eq: "installsOf (layerInstalls installs) l = filter (\<lambda>v. in_Layer v = l) installs"
  by (auto simp: installsOf_def layerInstalls_eq filter_empty_conv)

lemma dom_layerInstalls: "dom (layerInstalls installs) = in_Layer ` set installs"
  by (auto simp: layerInstalls_eq split: if_splits)

text \<open>The layer that a layer depends on, and the layers there are.\<close>

definition below :: "string set \<Rightarrow> string \<Rightarrow> string \<Rightarrow> bool" where
  "below Ls l d \<longleftrightarrow> d \<in> Ls \<and> d \<noteq> [] \<and>
     (if l = [] then (\<forall>x\<in>Ls. \<not> stringLess d x)
      else stringLess d l \<and> (\<forall>x\<in>Ls. \<not> (stringLess d x \<and> stringLess x l)))"

lemma linear_flip: "linear_on A (\<lambda>s t. stringLess t s)"
  unfolding linear_on_def using stringLess_trans stringLess_total stringLess_irrefl by metis

lemma stringLess_Nil [simp]: "\<not> stringLess s []"
  by (cases s) auto

lemma pairLayers_below:
  assumes "distinct names" "(l, d) \<in> set (pairLayers names)"
  shows "l \<in> set names" and "d \<noteq> [] \<Longrightarrow> below (set names) l d" and "below (set names) l x \<Longrightarrow> d = x"
proof -
  let ?s = "sortSlice (\<lambda>s t. stringLess t s) names"
  have s: "set ?s = set names" "distinct ?s" "length ?s = length names" using assms(1) by simp_all
  have desc: "stringLess (?s ! j) (?s ! i)" if "i < j" "j < length ?s" for i j
    using sortSlice_sorted_wrt [OF linear_flip assms(1)] that unfolding sorted_wrt_iff_nth_less by blast
  obtain i where i: "i < length ?s" "l = ?s ! i"
    and d: "d = (if i < length ?s - 1 then ?s ! (i + 1) else if ?s ! i = [] \<and> length ?s > 0 then ?s ! 0 else [])"
    using assms(2) by (auto simp: pairLayers_def pairSorted_def split: if_splits)
  have asym: "\<not> stringLess u t" if "stringLess t u" for t u using stringLess_trans [OF that, of t] by auto
  have pos: "\<exists>k<length ?s. ?s ! k = x" if "x \<in> set names" for x using that s(1) by (metis in_set_conv_nth)
  have le: "i = k \<or> i < k \<or> k < i" for k :: nat by linarith
  have last_Nil: "k = length ?s - 1" if "k < length ?s" "?s ! k = []" for k
  proof (rule ccontr)
    assume "k \<noteq> length ?s - 1"
    then have "stringLess (?s ! (k + 1)) (?s ! k)" using desc [of k "k + 1"] that(1) by simp
    with that(2) show False by simp
  qed
  show l: "l \<in> set names" using i s(1) nth_mem by metis
  have first: "\<not> stringLess (?s ! 0) x" if xn: "x \<in> set names" for x
  proof -
    obtain k where "k < length ?s" "?s ! k = x" using pos [OF xn] by blast
    then show ?thesis using desc [of 0 k] asym by (cases "k = 0") auto
  qed
  have next_below: "\<not> (stringLess (?s ! (i + 1)) x \<and> stringLess x (?s ! i))"
    if xn: "x \<in> set names" and "i + 1 < length ?s" for x
  proof
    assume x: "stringLess (?s ! (i + 1)) x \<and> stringLess x (?s ! i)"
    obtain k where k: "k < length ?s" "?s ! k = x" using pos [OF xn] by blast
    have "k \<noteq> i" "k \<noteq> i + 1" using x k(2) by auto
    moreover have "\<not> k < i" using desc [of k i] i(1) k(2) x asym by blast
    moreover have "\<not> i + 1 < k" using desc [of "i + 1" k] k x asym by blast
    ultimately show False by linarith
  qed
  show "below (set names) l d" if "d \<noteq> []"
  proof (cases "i < length ?s - 1")
    case True
    then have d': "d = ?s ! (i + 1)" "i + 1 < length ?s" using d by simp_all
    have "stringLess d l" using desc [of i "i + 1"] d' i(2) by simp
    moreover from this have "l \<noteq> []" by auto
    moreover have "d \<in> set names" using d' s(1) nth_mem by metis
    ultimately show ?thesis using next_below d' i(2) that unfolding below_def by simp
  next
    case False
    then have d': "d = ?s ! 0" "l = []" "length ?s > 0" using d i that by (simp_all split: if_splits)
    moreover have "d \<in> set names" using d' s(1) nth_mem by metis
    ultimately show ?thesis using first that unfolding below_def by simp
  qed
  show "d = x" if x: "below (set names) l x"
  proof -
    obtain k where k: "k < length ?s" "?s ! k = x" using pos x unfolding below_def by blast
    show ?thesis
    proof (cases "l = []")
      case True
      then have "?s ! i = []" using i(2) by simp
      then have "i = length ?s - 1" by (rule last_Nil [OF i(1)])
      then have dl: "d = ?s ! 0" using d i(1) \<open>?s ! i = []\<close> by (auto split: if_splits)
      have "0 < length ?s" using i(1) by linarith
      then have "?s ! 0 \<in> set names" using s(1) nth_mem by metis
      then have "\<not> stringLess x (?s ! 0)"
        using x True unfolding below_def by auto
      moreover have "\<not> stringLess (?s ! 0) x" using first x unfolding below_def by blast
      ultimately show ?thesis using dl stringLess_total by metis
    next
      case False
      then have xl: "stringLess x l" "\<forall>y\<in>set names. \<not> (stringLess x y \<and> stringLess y l)"
        using x unfolding below_def by simp_all
      have "i < k" using desc [of k i] i k xl(1) asym le [of k] by (metis stringLess_irrefl)
      then have i1: "i + 1 < length ?s" using k(1) by simp
      then have "i < length ?s - 1" by linarith
      then have dn: "d = ?s ! (i + 1)" using d by (simp only: if_True)
      have "k = i + 1"
      proof (rule ccontr)
        assume "k \<noteq> i + 1"
        then have "stringLess x (?s ! (i + 1))" using desc [of "i + 1" k] k \<open>i < k\<close> by simp
        moreover have "stringLess (?s ! (i + 1)) l" using desc [of i "i + 1"] i1 i(2) by simp
        moreover have "?s ! (i + 1) \<in> set names" using i1 s(1) nth_mem by metis
        ultimately show False using xl(2) by blast
      qed
      with dn k(2) show ?thesis by simp
    qed
  qed
qed

lemma map_fst_pairLayers: "map fst (pairLayers names) = sortSlice (\<lambda>s t. stringLess t s) names"
  unfolding pairLayers_def pairSorted_def by (rule nth_equalityI) (simp_all add: map_nth)

lemma pairLayers_all: "l \<in> set names \<Longrightarrow> \<exists>d. (l, d) \<in> set (pairLayers names)"
proof -
  assume "l \<in> set names"
  then have "l \<in> set (sortSlice (\<lambda>s t. stringLess t s) names)" by simp
  then have "l \<in> fst ` set (pairLayers names)" by (simp only: map_fst_pairLayers [symmetric] set_map)
  then show ?thesis by force
qed

definition layerRank :: "string set \<Rightarrow> string \<Rightarrow> nat" where
  "layerRank Ls l = (if l = [] then card Ls + 1 else card {x \<in> Ls. stringLess x l})"

lemma below_rank:
  assumes "finite Ls" "below Ls l d"
  shows "layerRank Ls d < layerRank Ls l"
proof (cases "l = []")
  case True
  have "card {x \<in> Ls. stringLess x d} \<le> card Ls" using assms(1) by (intro card_mono) auto
  with True assms(2) show ?thesis by (simp add: layerRank_def below_def)
next
  case False
  have d: "d \<in> Ls" "stringLess d l" "d \<noteq> []" using assms(2) False unfolding below_def by simp_all
  have "stringLess x l" if "stringLess x d" for x using stringLess_trans [OF that d(2)] .
  then have "{x \<in> Ls. stringLess x d} \<subseteq> {x \<in> Ls. stringLess x l}" by auto
  moreover have "d \<in> {x \<in> Ls. stringLess x l} - {x \<in> Ls. stringLess x d}" using d by simp
  ultimately have "{x \<in> Ls. stringLess x d} \<subset> {x \<in> Ls. stringLess x l}" by blast
  with False d(3) show ?thesis unfolding layerRank_def by (simp add: psubset_card_mono assms(1))
qed

section \<open>Releases\<close>

text \<open>A profile template is unmarshalled over the release, so it can set any field of it: these are
  the templates that set no name, and those that set no dependencies.\<close>

definition setsNoName :: "(string \<Rightarrow> helm_release \<Rightarrow> helm_release res) \<Rightarrow> string \<Rightarrow> bool" where
  "setsNoName unmarshal t \<longleftrightarrow> (\<forall>r r'. unmarshal t r = Inr r' \<longrightarrow> hl_Name r' = hl_Name r)"

definition setsNoDependencies :: "(string \<Rightarrow> helm_release \<Rightarrow> helm_release res) \<Rightarrow> string \<Rightarrow> bool" where
  "setsNoDependencies unmarshal t \<longleftrightarrow> (\<forall>r r'. unmarshal t r = Inr r' \<longrightarrow> hl_DependsOn r' = hl_DependsOn r)"

definition namesKept :: "(string \<Rightarrow> helm_release \<Rightarrow> helm_release res) \<Rightarrow> 'v ChartInstall list \<Rightarrow> bool" where
  "namesKept unmarshal installs \<longleftrightarrow>
     (\<forall>v\<in>set installs. in_ProfileTemplate v \<noteq> [] \<longrightarrow> setsNoName unmarshal (in_ProfileTemplate v))"

definition dependenciesKept :: "(string \<Rightarrow> helm_release \<Rightarrow> helm_release res) \<Rightarrow> 'v ChartInstall list \<Rightarrow> bool" where
  "dependenciesKept unmarshal installs \<longleftrightarrow>
     (\<forall>v\<in>set installs. in_ProfileTemplate v \<noteq> [] \<longrightarrow> setsNoDependencies unmarshal (in_ProfileTemplate v))"

lemma makeRelease_name:
  assumes "namesKept unmarshal installs" "v \<in> set installs" "makeRelease marshal unmarshal namespace m layer v = Inr r"
  shows "hl_Name r = in_Chart v"
  using assms by (auto simp: makeRelease_def bindR_Inr wrapR_Inr Let_def namesKept_def setsNoName_def split: if_splits)

lemma makeRelease_dependencies:
  assumes "dependenciesKept unmarshal installs" "v \<in> set installs" "makeRelease marshal unmarshal namespace m layer v = Inr r"
  shows "hl_DependsOn r = (if snd layer \<noteq> [] then map in_Chart (installsOf m (snd layer)) else [])"
  using assms by (auto simp: makeRelease_def bindR_Inr wrapR_Inr Let_def dependenciesKept_def setsNoDependencies_def split: if_splits)

lemma mapRes_nested_set:
  "mapRes (\<lambda>x. mapRes (g x) (h x)) xs = Inr yss \<Longrightarrow>
    y \<in> set (concat yss) \<longleftrightarrow> (\<exists>x\<in>set xs. \<exists>z\<in>set (h x). g x z = Inr y)"
  using mapRes_set [of "\<lambda>x. mapRes (g x) (h x)" xs yss] mapRes_ok [of "\<lambda>x. mapRes (g x) (h x)" xs yss]
  by (auto simp: mapRes_set) (metis mapRes_set)+

lemma mapRes_nested_ok:
  "mapRes (\<lambda>x. mapRes (g x) (h x)) xs = Inr yss \<Longrightarrow> x \<in> set xs \<Longrightarrow> z \<in> set (h x) \<Longrightarrow> \<exists>y. g x z = Inr y"
  using mapRes_ok [of "\<lambda>x. mapRes (g x) (h x)" xs yss x] mapRes_ok [of "g x" "h x" _ z] by blast

lemma layer_releases:
  assumes "namesKept unmarshal installs" "visit_ok visit"
    and "MakeHelmReleasesInLayers marshal unmarshal visit namespace installs = Inr releases"
  shows "set (map hl_Name releases) = in_Chart ` set installs"
    and "dependenciesKept unmarshal installs \<Longrightarrow> r \<in> set releases \<Longrightarrow> \<exists>v\<in>set installs. hl_Name r = in_Chart v \<and>
      set (hl_DependsOn r) = in_Chart ` {w \<in> set installs. below (in_Layer ` set installs) (in_Layer v) (in_Layer w)}"
proof -
  let ?m = "layerInstalls installs" and ?Ls = "in_Layer ` set installs"
  let ?names = "visit (dom ?m)"
  have names: "set ?names = ?Ls" "distinct ?names"
    using assms(2) by (auto simp: visit_ok_def dom_layerInstalls)
  obtain rss where rss: "mapRes (\<lambda>layer. mapRes (makeRelease marshal unmarshal namespace ?m layer) (installsOf ?m (fst layer)))
      (pairLayers ?names) = Inr rss" and rel: "set releases = set (concat rss)"
    using assms(3) by (auto simp: MakeHelmReleasesInLayers_def Let_def bindR_Inr)
  have releases: "r \<in> set releases \<longleftrightarrow> (\<exists>layer\<in>set (pairLayers ?names). \<exists>v\<in>set (installsOf ?m (fst layer)).
      makeRelease marshal unmarshal namespace ?m layer v = Inr r)" for r
    using rel mapRes_nested_set [OF rss] by simp
  show "dependenciesKept unmarshal installs \<Longrightarrow> r \<in> set releases \<Longrightarrow> \<exists>v\<in>set installs. hl_Name r = in_Chart v \<and>
      set (hl_DependsOn r) = in_Chart ` {w \<in> set installs. below ?Ls (in_Layer v) (in_Layer w)}"
  proof -
    assume deps: "dependenciesKept unmarshal installs" and "r \<in> set releases"
    then obtain l d v where ld: "(l, d) \<in> set (pairLayers ?names)" and v: "v \<in> set (installsOf ?m l)"
      and mk: "makeRelease marshal unmarshal namespace ?m (l, d) v = Inr r"
      using releases by fastforce
    note pl = pairLayers_below [OF names(2) ld, unfolded names(1)]
    have v': "v \<in> set installs" "in_Layer v = l" using v by (simp_all add: installsOf_eq)
    have "set (hl_DependsOn r) = in_Chart ` {w \<in> set installs. d \<noteq> [] \<and> in_Layer w = d}"
      using makeRelease_dependencies [OF deps v'(1) mk] by (auto simp: installsOf_eq)
    moreover have eq: "(d \<noteq> [] \<and> in_Layer w = d) = below ?Ls l (in_Layer w)" for w
    proof
      assume "d \<noteq> [] \<and> in_Layer w = d"
      then show "below ?Ls l (in_Layer w)" using pl(2) by simp
    next
      assume b: "below ?Ls l (in_Layer w)"
      then have "d = in_Layer w" by (rule pl(3))
      moreover have "in_Layer w \<noteq> []" using b unfolding below_def by blast
      ultimately show "d \<noteq> [] \<and> in_Layer w = d" by simp
    qed
    ultimately have "set (hl_DependsOn r) = in_Chart ` {w \<in> set installs. below ?Ls l (in_Layer w)}" by (simp only: eq)
    with v' makeRelease_name [OF assms(1) v'(1) mk] show ?thesis by blast
  qed
  show "set (map hl_Name releases) = in_Chart ` set installs"
  proof
    show "set (map hl_Name releases) \<subseteq> in_Chart ` set installs"
    proof
      fix n assume "n \<in> set (map hl_Name releases)"
      then obtain r where r: "r \<in> set releases" "n = hl_Name r" by auto
      then obtain layer v where "v \<in> set (installsOf ?m (fst layer))"
        "makeRelease marshal unmarshal namespace ?m layer v = Inr r" using releases by blast
      then show "n \<in> in_Chart ` set installs"
        using makeRelease_name [OF assms(1), of v marshal namespace ?m layer r] r(2) by (auto simp: installsOf_eq)
    qed
    show "in_Chart ` set installs \<subseteq> set (map hl_Name releases)"
    proof
      fix n assume "n \<in> in_Chart ` set installs"
      then obtain v where v: "v \<in> set installs" "n = in_Chart v" by blast
      obtain d where d: "(in_Layer v, d) \<in> set (pairLayers ?names)"
        using pairLayers_all [of "in_Layer v" ?names] names(1) v(1) by blast
      have "v \<in> set (installsOf ?m (fst (in_Layer v, d)))" using v(1) by (simp add: installsOf_eq)
      moreover from this obtain r where mk: "makeRelease marshal unmarshal namespace ?m (in_Layer v, d) v = Inr r"
        using mapRes_nested_ok [OF rss d] by blast
      ultimately have "r \<in> set releases" using releases d by blast
      note r = this mk
      then show "n \<in> set (map hl_Name releases)"
        using makeRelease_name [OF assms(1) v(1) r(2)] r(1) v(2) by (force simp: image_iff)
    qed
  qed
qed

text \<open>C40: When the charts have different names and none of their profile templates sets the name or
  the dependencies of a release, every chart gets a release of its name that depends on exactly
  the charts of the nearest layer below its own, or, when it has no layer, of the highest layer,
  and no release waits for itself.\<close>

theorem helm_layers:
  assumes "visit_ok visit" "distinct (map in_Chart installs)" "namesKept unmarshal installs" "dependenciesKept unmarshal installs"
    and "MakeHelmReleasesInLayers marshal unmarshal visit namespace installs = Inr releases"
  shows "set (map hl_Name releases) = in_Chart ` set installs \<and>
    (\<forall>r\<in>set releases. \<exists>v\<in>set installs. hl_Name r = in_Chart v \<and>
      set (hl_DependsOn r) = in_Chart ` {w \<in> set installs. below (in_Layer ` set installs) (in_Layer v) (in_Layer w)}) \<and>
    acyclic {(hl_Name r, d) |r d. r \<in> set releases \<and> d \<in> set (hl_DependsOn r)}"
proof (intro conjI ballI)
  note layers = layer_releases [OF assms(3,1,5)]
  note facts = layers(1) layers(2) [OF assms(4)]
  show "set (map hl_Name releases) = in_Chart ` set installs" by (rule facts(1))
  show "\<exists>v\<in>set installs. hl_Name r = in_Chart v \<and>
      set (hl_DependsOn r) = in_Chart ` {w \<in> set installs. below (in_Layer ` set installs) (in_Layer v) (in_Layer w)}"
    if "r \<in> set releases" for r using facts(2) that .
  define layerOf where "layerOf n = the (map_of (map (\<lambda>v. (in_Chart v, in_Layer v)) installs) n)" for n
  have layerOf: "layerOf (in_Chart v) = in_Layer v" if "v \<in> set installs" for v
  proof -
    have "map fst (map (\<lambda>v. (in_Chart v, in_Layer v)) installs) = map in_Chart installs" by simp
    then have "map_of (map (\<lambda>v. (in_Chart v, in_Layer v)) installs) (in_Chart v) = Some (in_Layer v)"
      using assms(2) that by (intro map_of_is_SomeI) (simp only:, simp)
    then show ?thesis by (simp add: layerOf_def)
  qed
  let ?Ls = "in_Layer ` set installs"
  have "{(hl_Name r, d) |r d. r \<in> set releases \<and> d \<in> set (hl_DependsOn r)}\<inverse> \<subseteq> measure (\<lambda>n. layerRank ?Ls (layerOf n))"
  proof clarsimp
    fix r d assume r: "r \<in> set releases" and "d \<in> set (hl_DependsOn r)"
    with facts(2) [OF r] obtain v w where vw: "v \<in> set installs" "w \<in> set installs" "hl_Name r = in_Chart v"
      "d = in_Chart w" "below ?Ls (in_Layer v) (in_Layer w)" by blast
    have "layerRank ?Ls (in_Layer w) < layerRank ?Ls (in_Layer v)" by (rule below_rank [OF _ vw(5)]) simp
    then show "layerRank ?Ls (layerOf d) < layerRank ?Ls (layerOf (hl_Name r))"
      by (simp only: vw(3,4) layerOf [OF vw(1)] layerOf [OF vw(2)])
  qed
  then have "acyclic ({(hl_Name r, d) |r d. r \<in> set releases \<and> d \<in> set (hl_DependsOn r)}\<inverse>)"
    by (rule wf_acyclic [OF wf_subset [OF wf_measure]])
  then show "acyclic {(hl_Name r, d) |r d. r \<in> set releases \<and> d \<in> set (hl_DependsOn r)}"
    by (rule acyclic_converse [THEN iffD1])
qed

definition sampleInstall :: "string \<Rightarrow> string \<Rightarrow> unit ChartInstall" where
  "sampleInstall chart layer = \<lparr> in_Chart = chart, in_Version = ''1'', in_SourceName = ''s'', in_SourceNamespace = ''ns'',
     in_Layer = layer, in_Values = (), in_Namespace = [], in_ProfileTemplate = [] \<rparr>"

definition sampleInstalls :: "unit ChartInstall list" where
  "sampleInstalls = [sampleInstall ''app'' [], sampleInstall ''cni'' ''layer-0'', sampleInstall ''mesh'' ''layer-1'']"

definition sampleReleases :: "helm_release list res" where
  "sampleReleases = MakeHelmReleasesInLayers (\<lambda>_. Inr ''{}'') (\<lambda>_ r. Inr r) sorted_list_of_set ''flux'' sampleInstalls"

lemma sample_releases:
  "map (\<lambda>r. (hl_Name r, hl_DependsOn r)) (case sampleReleases of Inr rs \<Rightarrow> rs | Inl e \<Rightarrow> []) =
     [(''app'', [''mesh'']), (''cni'', []), (''mesh'', [''cni''])]"
  "isOk sampleReleases"
proof -
  have "dom (layerInstalls sampleInstalls) = {[], ''layer-0'', ''layer-1''}"
    by (auto simp: dom_layerInstalls sampleInstalls_def sampleInstall_def)
  moreover have "sorted_list_of_set {[], ''layer-0'', ''layer-1''} = [[], ''layer-0'', ''layer-1'']"
    by (simp add: less_list_code)
  moreover have "pairLayers [[], ''layer-0'', ''layer-1''] = [(''layer-1'', ''layer-0''), (''layer-0'', []), ([], ''layer-1'')]"
    by (simp add: pairLayers_def pairSorted_def sortSlice_def numeral_eq_Suc upt_rec)
  ultimately have layers: "pairLayers (sorted_list_of_set (dom (layerInstalls sampleInstalls))) =
      [(''layer-1'', ''layer-0''), (''layer-0'', []), ([], ''layer-1'')]" by simp
  note eval = sampleReleases_def MakeHelmReleasesInLayers_def Let_def layers installsOf_eq sampleInstalls_def [symmetric]
  show "isOk sampleReleases"
    unfolding eval by (simp add: installsOf_eq makeRelease_def bindR_def wrapR_def sampleInstalls_def sampleInstall_def)
  show "map (\<lambda>r. (hl_Name r, hl_DependsOn r)) (case sampleReleases of Inr rs \<Rightarrow> rs | Inl e \<Rightarrow> []) =
     [(''app'', [''mesh'']), (''cni'', []), (''mesh'', [''cni''])]"
    unfolding eval by (simp add: installsOf_eq makeRelease_def bindR_def wrapR_def sampleInstalls_def sampleInstall_def sortSlice_def)
qed

theorem helm_layers_witness:
  "\<exists>rs. sampleReleases = Inr rs \<and> map (\<lambda>r. (hl_Name r, hl_DependsOn r)) rs = [(''app'', [''mesh'']), (''cni'', []), (''mesh'', [''cni''])] \<and>
     acyclic {(hl_Name r, d) |r d. r \<in> set rs \<and> d \<in> set (hl_DependsOn r)}"
proof -
  obtain rs where rs: "sampleReleases = Inr rs" using sample_releases(2) unfolding isOk_def by (auto split: sum.splits)
  have "visit_ok sorted_list_of_set" "distinct (map in_Chart sampleInstalls)" "namesKept (\<lambda>_ r. Inr r) sampleInstalls"
    "dependenciesKept (\<lambda>_ r. Inr r) sampleInstalls"
    by (simp_all add: visit_ok_def namesKept_def dependenciesKept_def setsNoName_def setsNoDependencies_def sampleInstalls_def sampleInstall_def)
  note acyc = helm_layers [OF this rs [unfolded sampleReleases_def], THEN conjunct2, THEN conjunct2]
  have "map (\<lambda>r. (hl_Name r, hl_DependsOn r)) rs = [(''app'', [''mesh'']), (''cni'', []), (''mesh'', [''cni''])]"
    using sample_releases(1) unfolding rs by (simp only: sum.case)
  then show ?thesis by (intro exI [of _ rs] conjI rs acyc)
qed

end
