(* ===== verification/Paths.thy ===== *)
theory Paths
  imports Prelude
begin

text \<open>
  path/filepath of the Go library on Unix, as far as the repository uses it: Clean and
  Join. A path is read component by component over a stack; a component ``..'' takes the
  last real component away, is kept at the front of a relative path and dropped at the
  root.
\<close>

definition pathStep :: "bool \<Rightarrow> string list \<Rightarrow> string \<Rightarrow> string list" where
  "pathStep rooted stack c =
     (if c = [] \<or> c = ''.'' then stack
      else if c = ''..'' then
        (if stack \<noteq> [] \<and> hd stack \<noteq> ''..'' then tl stack else if rooted then stack else ''..'' # stack)
      else c # stack)"

definition isRooted :: "string \<Rightarrow> bool" where
  "isRooted p \<longleftrightarrow> p \<noteq> [] \<and> hd p = CHR ''/''"

definition components :: "string \<Rightarrow> string list" where
  "components p = rev (foldl (pathStep (isRooted p)) [] (splitChar (CHR ''/'') p))"

definition cleanPath :: "string \<Rightarrow> string" where
  "cleanPath p =
     (let cs = components p in
      if isRooted p then CHR ''/'' # joinStr ''/'' cs
      else if cs = [] then ''.'' else joinStr ''/'' cs)"

definition joinPath :: "string list \<Rightarrow> string" where
  "joinPath elems =
     (case dropWhile (\<lambda>e. e = []) elems of [] \<Rightarrow> [] | es \<Rightarrow> cleanPath (joinStr ''/'' es))"

text \<open>A component that stands for itself.\<close>

definition plain :: "string \<Rightarrow> bool" where
  "plain c \<longleftrightarrow> c \<noteq> [] \<and> c \<noteq> ''.'' \<and> c \<noteq> ''..'' \<and> CHR ''/'' \<notin> set c"

lemma pathStep_plain: "plain c \<Longrightarrow> pathStep r stack c = c # stack"
  by (simp add: pathStep_def plain_def)

lemma pathSteps_plain: "\<forall>c\<in>set cs. plain c \<Longrightarrow> foldl (pathStep r) stack cs = rev cs @ stack"
  by (induction cs arbitrary: stack) (simp_all add: pathStep_plain)

lemma splitChar_join_tail:
  "splitChar c (s @ c # t) = splitChar c s @ splitChar c t"
proof (induction s)
  case (Cons x s)
  obtain w ws where "splitChar c s = w # ws"
    using splitChar_not_Nil by (metis list.exhaust)
  with Cons show ?case by simp
qed simp

lemma joinStr_append:
  "xs \<noteq> [] \<Longrightarrow> ys \<noteq> [] \<Longrightarrow> joinStr sep (xs @ ys) = joinStr sep xs @ sep @ joinStr sep ys"
  by (induction xs) (auto simp: joinStr_Cons)

lemma components_join:
  assumes "base \<noteq> []" "cs \<noteq> []" "\<forall>c\<in>set cs. plain c"
  shows "components (joinStr ''/'' (base # cs)) = components base @ cs"
proof -
  have "joinStr ''/'' (base # cs) = base @ CHR ''/'' # joinStr ''/'' cs"
    using assms(2) by (simp add: joinStr_Cons)
  moreover have "splitChar (CHR ''/'') (joinStr ''/'' cs) = cs"
    using assms(2,3) by (intro splitChar_joinStr) (auto simp: plain_def)
  moreover have "isRooted (base @ x) = isRooted base" for x using assms(1) by (cases base) (simp_all add: isRooted_def)
  ultimately show ?thesis
    using assms(3) by (simp add: components_def splitChar_join_tail pathSteps_plain)
qed

lemma isRooted_join: "base \<noteq> [] \<Longrightarrow> isRooted (joinStr ''/'' (base # cs)) = isRooted base"
  by (cases base; cases cs) (simp_all add: isRooted_def joinStr_Cons)

text \<open>Plain components below a directory: the cleaned directory, followed by them.\<close>

lemma joinPath_plain:
  assumes "base \<noteq> []" "cs \<noteq> []" "\<forall>c\<in>set cs. plain c"
  shows "joinPath (base # cs) =
    (if isRooted base then ''/'' else []) @ joinStr ''/'' (components base @ cs)"
  using assms by (simp add: joinPath_def cleanPath_def Let_def components_join isRooted_join)

lemma joinPath_plain_Nil:
  assumes "cs \<noteq> []" "\<forall>c\<in>set cs. plain c"
  shows "joinPath ([] # cs) = joinStr ''/'' cs"
proof -
  obtain a c ds where cs: "cs = (a # c) # ds" and a: "a \<noteq> CHR ''/''"
    using assms by (cases cs) (auto simp: plain_def neq_Nil_conv)
  have split: "splitChar (CHR ''/'') (joinStr ''/'' cs) = cs"
    using assms by (intro splitChar_joinStr) (auto simp: plain_def)
  have "\<not> isRooted (joinStr ''/'' cs)"
    using a unfolding cs by (simp add: joinStr_Cons isRooted_def)
  with split assms cs have "cleanPath (joinStr ''/'' cs) = joinStr ''/'' cs"
    by (simp add: cleanPath_def components_def pathSteps_plain pathStep_plain)
  moreover have "dropWhile (\<lambda>e. e = []) ([] # cs) = cs" using cs by simp
  ultimately show ?thesis unfolding joinPath_def using cs by simp
qed

lemma plain_append: "plain c \<Longrightarrow> CHR ''/'' \<notin> set d \<Longrightarrow> length (c @ d) > 2 \<Longrightarrow> plain (c @ d)"
  by (auto simp: plain_def append_eq_Cons_conv)

end
