(* ===== verification/ClusterFiles.thy ===== *)
theory ClusterFiles
  imports Sorting Paths
begin

text \<open>
  cmd/clusters-service/pkg/server/clusters.go and helpers.go: the files of a cluster in
  the repository, with their paths, the Flux kustomizations that requests ask for with
  their validation, and the files that an edit deletes. The configuration (viper), the
  YAML codec, the check of a namespace name and multierror.Append are parameters. The
  messages of a validation are in the order in which they are appended.
\<close>

record nsname =
  nn_Name :: string
  nn_Namespace :: string

definition createNamespacedName :: "string \<Rightarrow> string \<Rightarrow> nsname" where
  "createNamespacedName name namespace = \<lparr> nn_Name = name, nn_Namespace = namespace \<rparr>"

text \<open>viper.GetString.\<close>

type_synonym config = "string \<Rightarrow> string"

text \<open>A file of a commit; a file without content is deleted.\<close>

record commit_file =
  cf_Path :: string
  cf_Content :: "string option"

section \<open>Paths\<close>

definition getClusterNamespace :: "config \<Rightarrow> string \<Rightarrow> string" where
  "getClusterNamespace cfg clusterNamespace =
     (if clusterNamespace = [] then
        (let ns = cfg ''capi-clusters-namespace'' in if ns \<noteq> [] then ns else ''default'')
      else clusterNamespace)"

definition getClusterManifestPath :: "config \<Rightarrow> nsname \<Rightarrow> string" where
  "getClusterManifestPath cfg cluster =
     joinPath [cfg ''capi-repository-path'', nn_Namespace cluster, nn_Name cluster @ ''.yaml'']"

definition getClusterDirPath :: "config \<Rightarrow> nsname \<Rightarrow> string" where
  "getClusterDirPath cfg cluster =
     joinPath [cfg ''capi-repository-clusters-path'', nn_Namespace cluster, nn_Name cluster]"

definition getCommonKustomizationPath :: "config \<Rightarrow> nsname \<Rightarrow> string" where
  "getCommonKustomizationPath cfg cluster = joinPath [getClusterDirPath cfg cluster, ''clusters-bases-kustomization.yaml'']"

definition getSopsKustomizationPath :: "config \<Rightarrow> nsname \<Rightarrow> string" where
  "getSopsKustomizationPath cfg cluster = joinPath [getClusterDirPath cfg cluster, ''sops-kustomization.yaml'']"

definition ManifestFileName :: string where "ManifestFileName = ''profiles.yaml''"

definition getClusterProfilesPath :: "config \<Rightarrow> nsname \<Rightarrow> string" where
  "getClusterProfilesPath cfg cluster = joinPath [getClusterDirPath cfg cluster, ManifestFileName]"

definition resourceFileName :: "string \<Rightarrow> nsname \<Rightarrow> string" where
  "resourceFileName resourceType resource =
     (if nn_Namespace resource = [] \<or> resourceType = ''namespace''
      then nn_Name resource @ ''-'' @ resourceType @ ''.yaml''
      else nn_Name resource @ ''-'' @ nn_Namespace resource @ ''-'' @ resourceType @ ''.yaml'')"

definition getClusterResourcePath :: "config \<Rightarrow> bool \<Rightarrow> string \<Rightarrow> nsname \<Rightarrow> nsname \<Rightarrow> string" where
  "getClusterResourcePath cfg isControlPlane resourceType cluster resource =
     (let clusterNamespace = (if isControlPlane then [] else nn_Namespace cluster);
          fileName = resourceFileName resourceType resource;
          root = cfg ''capi-repository-clusters-path''
      in if resourceType = ''externalsecret'' then joinPath [root, clusterNamespace, nn_Name cluster, ''secrets'', fileName]
         else if resourceType = ''policy-config'' then joinPath [root, clusterNamespace, nn_Name cluster, ''policy-configs'', fileName]
         else if resourceType = ''sops-secret'' then joinPath [''%s'', fileName]
         else joinPath [root, clusterNamespace, nn_Name cluster, fileName])"

section \<open>Kustomizations\<close>

record metadata =
  md_Name :: string
  md_Namespace :: string
  md_Annotations :: "string \<rightharpoonup> string"

record source_ref =
  sr_Name :: string
  sr_Namespace :: string

record decryption =
  dc_Provider :: string
  dc_SecretRef :: "string option"

record kustomization_spec =
  ks_Path :: string
  ks_SourceRef :: "source_ref option"
  ks_TargetNamespace :: string
  ks_CreateNamespace :: bool
  ks_Decryption :: "decryption option"

record kustomization =
  ku_Metadata :: "metadata option"
  ku_Spec :: "kustomization_spec option"

text \<open>kustomizev1.Kustomization; the interval is in minutes.\<close>

record kustomization_object =
  ko_Name :: string
  ko_Namespace :: string
  ko_Annotations :: "string \<rightharpoonup> string"
  ko_SourceKind :: string
  ko_SourceName :: string
  ko_SourceNamespace :: string
  ko_Decryption :: "(string \<times> string) option"
  ko_Interval :: nat
  ko_Prune :: bool
  ko_Path :: string
  ko_TargetNamespace :: string

definition kustomizationKind :: string where "kustomizationKind = ''GitRepository''"

definition createKustomizationObject :: "kustomization \<Rightarrow> kustomization_object res" where
  "createKustomizationObject k =
     bindR (deref (ku_Metadata k)) (\<lambda>md.
     bindR (deref (ku_Spec k)) (\<lambda>spec.
     bindR (deref (ks_SourceRef spec)) (\<lambda>source.
       Inr \<lparr> ko_Name = md_Name md, ko_Namespace = md_Namespace md, ko_Annotations = Map.empty,
         ko_SourceKind = kustomizationKind, ko_SourceName = sr_Name source, ko_SourceNamespace = sr_Namespace source,
         ko_Decryption = None, ko_Interval = 10, ko_Prune = True, ko_Path = ks_Path spec,
         ko_TargetNamespace = ks_TargetNamespace spec \<rparr>)))"

definition createSopsKustomizationObject :: "kustomization \<Rightarrow> kustomization_object res" where
  "createSopsKustomizationObject k =
     bindR (deref (ku_Metadata k)) (\<lambda>md.
     bindR (deref (ku_Spec k)) (\<lambda>spec.
     bindR (deref (ks_SourceRef spec)) (\<lambda>source.
     bindR (deref (ks_Decryption spec)) (\<lambda>d.
     bindR (deref (dc_SecretRef d)) (\<lambda>secret.
       Inr \<lparr> ko_Name = md_Name md, ko_Namespace = md_Namespace md, ko_Annotations = md_Annotations md,
         ko_SourceKind = kustomizationKind, ko_SourceName = sr_Name source, ko_SourceNamespace = sr_Namespace source,
         ko_Decryption = Some (dc_Provider d, secret), ko_Interval = 10, ko_Prune = True, ko_Path = ks_Path spec,
         ko_TargetNamespace = ks_TargetNamespace spec \<rparr>)))))"

text \<open>yaml.Marshal for the types of objects that are written.\<close>

record marshaller =
  ym_Kustomization :: "kustomization_object \<Rightarrow> string res"
  ym_Namespace :: "string \<Rightarrow> string res"

definition getCommonKustomization :: "config \<Rightarrow> marshaller \<Rightarrow> nsname \<Rightarrow> commit_file res" where
  "getCommonKustomization cfg Y cluster =
     bindR (createKustomizationObject
       \<lparr> ku_Metadata = Some \<lparr> md_Name = ''clusters-bases-kustomization'', md_Namespace = ''flux-system'', md_Annotations = Map.empty \<rparr>,
         ku_Spec = Some \<lparr> ks_Path = joinPath [cfg ''capi-repository-clusters-path'', ''bases''],
           ks_SourceRef = Some \<lparr> sr_Name = ''flux-system'', sr_Namespace = [] \<rparr>, ks_TargetNamespace = [], ks_CreateNamespace = False,
           ks_Decryption = None \<rparr> \<rparr>) (\<lambda>ko.
     bindR (wrapR ''error marshalling common kustomization, %w'' [] (ym_Kustomization Y ko)) (\<lambda>b.
       Inr \<lparr> cf_Path = getCommonKustomizationPath cfg cluster, cf_Content = Some b \<rparr>))"

definition getSopsKustomization :: "config \<Rightarrow> marshaller \<Rightarrow> nsname \<Rightarrow> (string \<rightharpoonup> string) \<Rightarrow> commit_file res" where
  "getSopsKustomization cfg Y cluster parameterValues =
     bindR (createSopsKustomizationObject
       \<lparr> ku_Metadata = Some \<lparr> md_Name = mget parameterValues ''SOPS_KUSTOMIZATION_NAME'', md_Namespace = ''flux-system'',
           md_Annotations = [''sops-public-key/name'' \<mapsto> mget parameterValues ''SOPS_SECRET_REF'' @ ''-pub'',
             ''sops-public-key/namespace'' \<mapsto> mget parameterValues ''SOPS_SECRET_REF_NAMESPACE''] \<rparr>,
         ku_Spec = Some \<lparr> ks_Path = joinPath [cfg ''capi-repository-clusters-path'', nn_Namespace cluster, nn_Name cluster, ''sops''],
           ks_SourceRef = Some \<lparr> sr_Name = ''flux-system'', sr_Namespace = [] \<rparr>, ks_TargetNamespace = [], ks_CreateNamespace = False,
           ks_Decryption = Some \<lparr> dc_Provider = ''sops'', dc_SecretRef = Some (mget parameterValues ''SOPS_SECRET_REF'') \<rparr> \<rparr> \<rparr>) (\<lambda>ko.
     bindR (wrapR ''error marshalling sops kustomization, %w'' [] (ym_Kustomization Y ko)) (\<lambda>b.
       Inr \<lparr> cf_Path = getSopsKustomizationPath cfg cluster, cf_Content = Some b \<rparr>))"

definition generateKustomizationFile :: "config \<Rightarrow> marshaller \<Rightarrow> bool \<Rightarrow> nsname \<Rightarrow> kustomization \<Rightarrow> string \<Rightarrow> commit_file res" where
  "generateKustomizationFile cfg Y isControlPlane cluster k filePath =
     bindR (createKustomizationObject k) (\<lambda>ko.
     bindR (wrapR ''error marshalling %s kustomization, %w'' [ko_Name ko] (ym_Kustomization Y ko)) (\<lambda>b.
       let path = getClusterResourcePath cfg isControlPlane ''kustomization'' cluster (createNamespacedName (ko_Name ko) (ko_Namespace ko))
       in Inr \<lparr> cf_Path = (if filePath \<noteq> [] then filePath else path), cf_Content = Some b \<rparr>))"

definition generateNamespaceFile :: "config \<Rightarrow> marshaller \<Rightarrow> bool \<Rightarrow> nsname \<Rightarrow> string \<Rightarrow> string \<Rightarrow> commit_file res" where
  "generateNamespaceFile cfg Y isControlPlane cluster name filePath =
     bindR (wrapR ''error marshalling %s namespace, %w'' [name] (ym_Namespace Y name)) (\<lambda>b.
       let path = getClusterResourcePath cfg isControlPlane ''namespace'' cluster (createNamespacedName name [])
       in Inr \<lparr> cf_Path = (if filePath \<noteq> [] then filePath else path), cf_Content = Some b \<rparr>)"

section \<open>Validation\<close>

record validator =
  vl_Append :: "goerror option \<Rightarrow> goerror option \<Rightarrow> goerror option"
  vl_NamespaceErrors :: "string \<Rightarrow> string list"

text \<open>multierror.Append gives its second argument when the first is nil, and never loses an error.\<close>

definition validator_ok :: "validator \<Rightarrow> bool" where
  "validator_ok V \<longleftrightarrow> (\<forall>e. vl_Append V None e = e) \<and> (\<forall>e e'. vl_Append V (Some e) e' \<noteq> None)"

definition validateNamespace :: "validator \<Rightarrow> string \<Rightarrow> goerror option" where
  "validateNamespace V namespace =
     (if namespace = [] then None
      else (let errs = vl_NamespaceErrors V namespace in
        if length errs \<noteq> 0 then Some (Errf ''invalid namespace: %s, %s'' [namespace, joinStr '','' errs]) else None))"

definition appendIf :: "validator \<Rightarrow> bool \<Rightarrow> goerror \<Rightarrow> goerror option \<Rightarrow> goerror option" where
  "appendIf V b e acc = (if b then vl_Append V acc (Some e) else acc)"

definition appendNamespace :: "validator \<Rightarrow> string \<Rightarrow> goerror option \<Rightarrow> goerror option" where
  "appendNamespace V ns acc =
     (case validateNamespace V ns of None \<Rightarrow> acc | Some e \<Rightarrow> vl_Append V acc (Some e))"

text \<open>The error that is returned, nil when there is none, or a panic.\<close>

definition validateKustomization :: "validator \<Rightarrow> kustomization \<Rightarrow> goerror option res" where
  "validateKustomization V k =
     (let acc = (case ku_Metadata k of
        None \<Rightarrow> vl_Append V None (Some (err ''kustomization metadata must be specified''))
      | Some md \<Rightarrow> appendNamespace V (md_Namespace md)
          (appendIf V (md_Name md = []) (err ''kustomization name must be specified'') None))
      in bindR (deref (ku_Spec k)) (\<lambda>spec.
         case ks_SourceRef spec of
           None \<Rightarrow> Inr acc
         | Some source \<Rightarrow>
             bindR (if sr_Name source = [] then bindR (deref (ku_Metadata k)) (\<lambda>md.
                 Inr (vl_Append V acc (Some (Errf ''sourceRef name must be specified in Kustomization %s'' [md_Name md]))))
               else Inr acc) (\<lambda>acc.
             Inr (appendNamespace V (sr_Namespace source) acc))))"

definition defaultAutomationNamespace :: string where "defaultAutomationNamespace = ''flux-system''"

definition defaultNamespace :: "kustomization \<Rightarrow> kustomization" where
  "defaultNamespace k =
     (case ku_Metadata k of
        Some md \<Rightarrow> if md_Namespace md = [] then k\<lparr> ku_Metadata := Some (md\<lparr> md_Namespace := defaultAutomationNamespace \<rparr>) \<rparr> else k
      | None \<Rightarrow> k)"

definition hasSource :: "kustomization \<Rightarrow> bool" where
  "hasSource k = (case ku_Spec k of Some spec \<Rightarrow> ks_SourceRef spec \<noteq> None | None \<Rightarrow> False)"

section \<open>Deleted files\<close>

definition filePaths :: "commit_file list \<Rightarrow> string list" where
  "filePaths files = map cf_Path files"

definition getMissingFiles :: "commit_file list \<Rightarrow> commit_file list \<Rightarrow> commit_file list" where
  "getMissingFiles originalFiles extraFiles =
     map (\<lambda>p. \<lparr> cf_Path = p, cf_Content = None \<rparr>)
       (filter (\<lambda>p. p \<notin> set (filePaths extraFiles)) (sortedSet (filePaths originalFiles)))"

record 'c GetFilesReturn =
  gr_RenderedTemplate :: "commit_file list"
  gr_ProfileFiles :: "commit_file list"
  gr_KustomizationFiles :: "commit_file list"
  gr_CostEstimate :: "'c option"
  gr_ExternalSecretsFiles :: "commit_file list"

definition getDeletedFiles :: "'c GetFilesReturn \<Rightarrow> 'c GetFilesReturn \<Rightarrow> commit_file list" where
  "getDeletedFiles prevFiles newFiles =
     getMissingFiles (gr_KustomizationFiles prevFiles) (gr_KustomizationFiles newFiles) @
     getMissingFiles (gr_ProfileFiles prevFiles) (gr_ProfileFiles newFiles) @
     getMissingFiles (gr_RenderedTemplate prevFiles) (gr_RenderedTemplate newFiles)"

text \<open>getHash: the inputs run together, hashed and in hexadecimal.\<close>

definition getHash :: "(string \<Rightarrow> string) \<Rightarrow> string list \<Rightarrow> string" where
  "getHash md5hex inputs = ''wego-'' @ md5hex (concat inputs)"

end
