(* ===== verification/Base64.thy ===== *)
theory Base64
  imports Prelude
begin

text \<open>
  The standard encoding of encoding/base64, with padding, in which profile values and
  kubeconfigs travel. Bytes are characters; DecodeString skips the line breaks.
\<close>

definition b64Char :: "nat \<Rightarrow> char" where
  "b64Char n =
     (if n < 26 then char_of (65 + n) else if n < 52 then char_of (71 + n)
      else if n < 62 then char_of (n - 4) else if n = 62 then CHR ''+'' else CHR ''/'')"

definition b64Index :: "char \<Rightarrow> nat option" where
  "b64Index c =
     (let n = (of_char c :: nat) in
      if 65 \<le> n \<and> n < 91 then Some (n - 65) else if 97 \<le> n \<and> n < 123 then Some (n - 71)
      else if 48 \<le> n \<and> n < 58 then Some (n + 4) else if n = 43 then Some 62 else if n = 47 then Some 63 else None)"

fun b64Encode :: "string \<Rightarrow> string" where
  "b64Encode [] = []"
| "b64Encode [a] = (let x = of_char a :: nat in [b64Char (x div 4), b64Char (x mod 4 * 16), CHR ''='', CHR ''=''])"
| "b64Encode [a, b] = (let x = of_char a :: nat; y = of_char b :: nat in
     [b64Char (x div 4), b64Char (x mod 4 * 16 + y div 16), b64Char (y mod 16 * 4), CHR ''=''])"
| "b64Encode (a # b # c # rest) = (let x = of_char a :: nat; y = of_char b :: nat; z = of_char c :: nat in
     b64Char (x div 4) # b64Char (x mod 4 * 16 + y div 16) # b64Char (y mod 16 * 4 + z div 64) # b64Char (z mod 64) # b64Encode rest)"

fun b64Groups :: "string \<Rightarrow> string option" where
  "b64Groups [] = Some []"
| "b64Groups (p # q # r # s # rest) =
     (case (b64Index p, b64Index q) of
        (Some i, Some j) \<Rightarrow>
          let a = char_of (i * 4 + j div 16) in
          if r = CHR ''='' then (if s = CHR ''='' \<and> rest = [] then Some [a] else None)
          else (case b64Index r of
              None \<Rightarrow> None
            | Some k \<Rightarrow>
                let b = char_of (j mod 16 * 16 + k div 4) in
                if s = CHR ''='' then (if rest = [] then Some [a, b] else None)
                else (case b64Index s of
                    None \<Rightarrow> None
                  | Some l \<Rightarrow> map_option (\<lambda>bs. a # b # char_of (k mod 4 * 64 + l) # bs) (b64Groups rest)))
      | _ \<Rightarrow> None)"
| "b64Groups xs = None"

definition b64Decode :: "string \<Rightarrow> string res" where
  "b64Decode s =
     (case b64Groups (filter (\<lambda>c. c \<noteq> CHR 0x0A \<and> c \<noteq> CHR 0x0D) s) of
        None \<Rightarrow> Inl (err ''illegal base64 data at input byte'')
      | Some bs \<Rightarrow> Inr bs)"

lemma b64Char_index: "n < 64 \<Longrightarrow> b64Index (b64Char n) = Some n"
  by (auto simp: b64Index_def b64Char_def Let_def)

lemma b64Char_not: "n < 64 \<Longrightarrow> b64Char n \<noteq> CHR ''='' \<and> b64Char n \<noteq> CHR 0x0A \<and> b64Char n \<noteq> CHR 0x0D"
proof -
  have "b64Index (CHR ''='') = None" "b64Index (CHR 0x0A) = None" "b64Index (CHR 0x0D) = None"
    by (simp_all add: b64Index_def)
  moreover assume "n < 64"
  ultimately show ?thesis using b64Char_index [of n] by auto
qed

lemma byte_quotients [simp]:
  "(of_char a :: nat) div 4 < 64" "(of_char a :: nat) div 16 < 16" "(of_char a :: nat) div 64 < 4"
  by (rule less_mult_imp_div_less, simp)+

lemma byte_bounds [simp]:
  "(of_char a :: nat) mod 4 * 16 < 64" "(of_char a :: nat) mod 16 * 4 < 64"
  "(of_char a :: nat) mod 4 * 16 + of_char b div 16 < 64" "(of_char a :: nat) mod 16 * 4 + of_char b div 64 < 64"
proof -
  have "(of_char a :: nat) mod 4 < 4" "(of_char a :: nat) mod 16 < 16" by simp_all
  moreover have "(of_char b :: nat) div 16 < 16" "(of_char b :: nat) div 64 < 4" by simp_all
  ultimately show "(of_char a :: nat) mod 4 * 16 < 64" "(of_char a :: nat) mod 16 * 4 < 64"
    "(of_char a :: nat) mod 4 * 16 + of_char b div 16 < 64" "(of_char a :: nat) mod 16 * 4 + of_char b div 64 < 64"
    by linarith+
qed

lemma b64Encode_plain: "c \<in> set (b64Encode s) \<Longrightarrow> c \<noteq> CHR 0x0A \<and> c \<noteq> CHR 0x0D"
  by (induction s rule: b64Encode.induct) (auto simp: Let_def b64Char_not)

lemma b64Groups_encode: "b64Groups (b64Encode s) = Some s"
proof (induction s rule: b64Encode.induct)
  case (2 a)
  show ?case by (simp add: Let_def b64Char_index)
next
  case (3 a b)
  show ?case by (simp add: Let_def b64Char_index b64Char_not)
next
  case (4 a b c rest)
  then show ?case by (simp add: Let_def b64Char_index b64Char_not)
qed simp

lemma b64_roundtrip [simp]: "b64Decode (b64Encode s) = Inr s"
proof -
  have "filter (\<lambda>c. c \<noteq> CHR 0x0A \<and> c \<noteq> CHR 0x0D) (b64Encode s) = b64Encode s"
    by (rule filter_True) (use b64Encode_plain in blast)
  then show ?thesis by (simp add: b64Decode_def b64Groups_encode)
qed

declare b64Encode.simps [simp del]

end
