(* ===== verification/ProfileFiles.thy ===== *)
theory ProfileFiles
  imports TemplateMeta ClusterFiles HelmReleases Base64
begin

text \<open>
  The profiles of a cluster in cmd/clusters-service/pkg/server/clusters.go: the profiles
  that the template names are joined with those of the request, completed from the cache
  of charts, rendered, and written as Helm releases to one file per path. The cache of
  charts and the YAML and JSON codecs are parameters. The profiles of the request are
  completed in place, but nothing reads them afterwards.
\<close>

record ProfileValues =
  pv_Name :: string
  pv_Version :: string
  pv_Values :: string
  pv_Layer :: string
  pv_Namespace :: string

text \<open>helm.ProfilesGeneratorCache; its operations take the cluster, the repository and a chart.\<close>

record charts_cache =
  cc_GetLatestVersion :: "nsname \<Rightarrow> nsname \<Rightarrow> string \<Rightarrow> string res"
  cc_GetLayer :: "nsname \<Rightarrow> nsname \<Rightarrow> string \<Rightarrow> string \<Rightarrow> string res"

record 'h helm_repository =
  hp_Name :: string
  hp_Namespace :: string
  hp_Spec :: 'h

record ('v, 'h) profile_codec =
  px_ParseYAML :: "string \<Rightarrow> 'v res"
  px_MarshalJSON :: "'v \<Rightarrow> string res"
  px_UnmarshalRelease :: "string \<Rightarrow> helm_release \<Rightarrow> helm_release res"
  px_MarshalRelease :: "helm_release \<Rightarrow> string res"
  px_MarshalRepository :: "'h helm_repository \<Rightarrow> string res"

record profile_args =
  ga_helmRepositoryCluster :: nsname
  ga_helmRepository :: nsname
  ga_chartsCache :: charts_cache
  ga_profileValues :: "ProfileValues list"
  ga_parameterValues :: "string \<rightharpoonup> string"

section \<open>Joining the profiles\<close>

definition indexProfiles :: "ProfileValues list \<Rightarrow> (string \<rightharpoonup> ProfileValues)" where
  "indexProfiles profileValues = foldl (\<lambda>m v. m(pv_Name v \<mapsto> v)) Map.empty profileValues"

definition indexRequired :: "TemplateProfile list \<Rightarrow> (string \<rightharpoonup> TemplateProfile)" where
  "indexRequired profiles = foldl (\<lambda>m v. m(pf_Name v \<mapsto> v)) Map.empty profiles"

definition overwrite :: "TemplateProfile \<Rightarrow> ProfileValues \<Rightarrow> ProfileValues" where
  "overwrite required p =
     (let p = (if pf_Editable required then p else p\<lparr> pv_Values := b64Encode (pf_Values required) \<rparr>);
          p = (if pv_Namespace p = [] then p\<lparr> pv_Namespace := pf_Namespace required \<rparr> else p);
          p = (if pv_Version p = [] then p\<lparr> pv_Version := pf_Version required \<rparr> else p)
      in if pv_Layer p = [] then p\<lparr> pv_Layer := pf_Layer required \<rparr> else p)"

definition fromTemplate :: "TemplateProfile \<Rightarrow> ProfileValues" where
  "fromTemplate required = \<lparr> pv_Name = pf_Name required, pv_Version = pf_Version required,
     pv_Values = b64Encode (pf_Values required), pv_Layer = pf_Layer required, pv_Namespace = pf_Namespace required \<rparr>"

definition addRequired :: "(string \<rightharpoonup> ProfileValues) \<Rightarrow> TemplateProfile \<Rightarrow> (string \<rightharpoonup> ProfileValues)" where
  "addRequired index required =
     (case index (pf_Name required) of
        Some p \<Rightarrow> index(pf_Name required \<mapsto> overwrite required p)
      | None \<Rightarrow> index(pf_Name required \<mapsto> fromTemplate required))"

definition joinProfiles :: "ProfileValues list \<Rightarrow> TemplateProfile list \<Rightarrow> (string \<rightharpoonup> ProfileValues)" where
  "joinProfiles profileValues required = foldl addRequired (indexProfiles profileValues) required"

section \<open>Completing and rendering\<close>

definition completeProfile :: "profile_args \<Rightarrow> ProfileValues \<Rightarrow> ProfileValues res" where
  "completeProfile args v =
     bindR (if pv_Version v = [] then wrapR ''cannot retrieve latest version of profile: %w'' []
         (cc_GetLatestVersion (ga_chartsCache args) (ga_helmRepositoryCluster args) (ga_helmRepository args) (pv_Name v))
       else Inr (pv_Version v)) (\<lambda>version.
     bindR (if pv_Layer v = [] then wrapR ''cannot retrieve layer of profile: %w'' []
         (cc_GetLayer (ga_chartsCache args) (ga_helmRepositoryCluster args) (ga_helmRepository args) (pv_Name v) version)
       else Inr (pv_Layer v)) (\<lambda>layer.
       Inr (v\<lparr> pv_Version := version, pv_Layer := layer \<rparr>)))"

definition ParseValues :: "('v, 'h) profile_codec \<Rightarrow> string \<Rightarrow> 'v res" where
  "ParseValues X v = wrapR ''failed to parse values from JSON: %w'' [] (px_ParseYAML X v)"

definition renderValues :: "('v, 'h) profile_codec \<Rightarrow> ProfileValues \<Rightarrow> Processor \<Rightarrow> (string \<rightharpoonup> string) \<Rightarrow> 'v res" where
  "renderValues X v pc parameterValues =
     bindR (wrapR ''failed to base64 decode values: %w'' [] (b64Decode (pv_Values v))) (\<lambda>decoded.
     bindR (wrapR ''failed to render values for profile %s/%s: %w'' [pv_Name v, pv_Version v] (pc_Render pc decoded parameterValues)) (\<lambda>d.
       wrapR ''failed to parse values for profile %s/%s: %w'' [pv_Name v, pv_Version v] (ParseValues X d)))"

definition profileInstall :: "('v, 'h) profile_codec \<Rightarrow> Processor \<Rightarrow> 'h helm_repository \<Rightarrow> profile_args \<Rightarrow>
    (string \<rightharpoonup> TemplateProfile) \<Rightarrow> ProfileValues \<Rightarrow> 'v ChartInstall res" where
  "profileInstall X pc helmRepo args requiredIndex v =
     bindR (completeProfile args v) (\<lambda>v.
     bindR (wrapR ''cannot get values for profile %s: %w'' [pv_Name v] (renderValues X v pc (ga_parameterValues args))) (\<lambda>values.
     bindR (case requiredIndex (pv_Name v) of
          None \<Rightarrow> Inr []
        | Some required \<Rightarrow> wrapR ''cannot render spec of profile %s: %w'' [pv_Name v]
            (pc_Render pc (pf_ProfileTemplate required) (ga_parameterValues args))) (\<lambda>profileTemplate.
       Inr \<lparr> in_Chart = pv_Name v, in_Version = pv_Version v, in_SourceName = hp_Name helmRepo,
         in_SourceNamespace = hp_Namespace helmRepo, in_Layer = pv_Layer v, in_Values = values,
         in_Namespace = pv_Namespace v, in_ProfileTemplate = profileTemplate \<rparr>)))"

definition chartInstalls :: "'u tlib \<Rightarrow> ('v, 'h) profile_codec \<Rightarrow> visit \<Rightarrow> template \<Rightarrow> Processor \<Rightarrow> 'h helm_repository \<Rightarrow> profile_args \<Rightarrow>
    'v ChartInstall list res" where
  "chartInstalls L X visit tmpl pc helmRepo args =
     bindR (wrapR ''cannot retrieve default profiles: %w'' [] (GetProfilesFromTemplate L visit tmpl)) (\<lambda>required.
       let index = joinProfiles (ga_profileValues args) required in
       mapRes (profileInstall X pc helmRepo args (indexRequired required)) (map (\<lambda>k. the (index k)) (visit (dom index))))"

section \<open>Files\<close>

text \<open>The path of a release: of the last chart of the template with its name that names one.\<close>

definition releasePath :: "template \<Rightarrow> string \<Rightarrow> string \<Rightarrow> string" where
  "releasePath t defaultPath name =
     foldl (\<lambda>path ch. if ch_Chart ch = name \<and> ch_TemplatePath ch \<noteq> [] then ch_TemplatePath ch else path) defaultPath (tm_Charts t)"

definition appendAt :: "(string \<rightharpoonup> string list) \<Rightarrow> string \<Rightarrow> string \<Rightarrow> (string \<rightharpoonup> string list)" where
  "appendAt m path b = m(path \<mapsto> (case m path of None \<Rightarrow> [] | Some bs \<Rightarrow> bs) @ [b])"

fun addReleases :: "('v, 'h) profile_codec \<Rightarrow> template \<Rightarrow> string \<Rightarrow> helm_release list \<Rightarrow> (string \<rightharpoonup> string list) \<Rightarrow> (string \<rightharpoonup> string list) res" where
  "addReleases X t defaultPath [] m = Inr m"
| "addReleases X t defaultPath (r # rs) m =
     bindR (wrapR ''failed to marshal HelmRelease object to YAML: %w'' [] (px_MarshalRelease X r)) (\<lambda>b.
       addReleases X t defaultPath rs (appendAt m (releasePath t defaultPath (hl_Name r)) b))"

definition createProfileYAML :: "('v, 'h) profile_codec \<Rightarrow> 'h helm_repository \<Rightarrow> helm_release list \<Rightarrow> template \<Rightarrow> string \<Rightarrow> (string \<rightharpoonup> string list) res" where
  "createProfileYAML X helmRepo helmReleases t defaultPath =
     (let helmRepoPath = (if tm_HelmRepositoryPath t \<noteq> [] then tm_HelmRepositoryPath t else defaultPath) in
      bindR (wrapR ''failed to marshal HelmRepository object to YAML: %w'' [] (px_MarshalRepository X helmRepo)) (\<lambda>b.
        addReleases X t defaultPath helmReleases (appendAt Map.empty helmRepoPath b)))"

definition HelmReleaseNamespace :: string where "HelmReleaseNamespace = ''flux-system''"

definition separator :: string where "separator = ''---'' @ [CHR 0x0A]"

definition profileFile :: "Processor \<Rightarrow> (string \<rightharpoonup> string) \<Rightarrow> (string \<rightharpoonup> string list) \<Rightarrow> string \<Rightarrow> commit_file res" where
  "profileFile pc parameterValues byPath path =
     bindR (wrapR ''cannot render path %s: %w'' [path] (pc_Render pc path parameterValues)) (\<lambda>rendered.
       Inr \<lparr> cf_Path = rendered, cf_Content = Some (joinStr separator (the (byPath path))) \<rparr>)"

definition generateProfileFiles :: "'u tlib \<Rightarrow> ('v, 'h) profile_codec \<Rightarrow> visit \<Rightarrow> config \<Rightarrow> template \<Rightarrow> nsname \<Rightarrow> 'h helm_repository \<Rightarrow>
    profile_args \<Rightarrow> commit_file list res" where
  "generateProfileFiles L X visit cfg tmpl cluster helmRepo args =
     bindR (NewProcessorForTemplate L tmpl) (\<lambda>tp.
       let pc = tp_Processor tp in
       bindR (chartInstalls L X visit tmpl pc helmRepo args) (\<lambda>installs.
       bindR (wrapR ''making helm releases for cluster %w'' []
         (MakeHelmReleasesInLayers (px_MarshalJSON X) (px_UnmarshalRelease X) visit HelmReleaseNamespace installs)) (\<lambda>helmReleases.
       bindR (createProfileYAML X helmRepo helmReleases tmpl (getClusterProfilesPath cfg cluster)) (\<lambda>byPath.
       bindR (mapRes (profileFile pc (ga_parameterValues args) byPath) (visit (dom byPath))) (\<lambda>files.
         Inr (sortSlice (\<lambda>f g. stringLess (cf_Path f) (cf_Path g)) files))))))"

end
