(* ===== verification/Credentials.thy ===== *)
theory Credentials
  imports TemplateMeta ClusterFiles
begin

text \<open>
  cmd/clusters-service/pkg/credentials/credentials.go and server/credentials.go: the
  identities of infrastructure providers, and the reference to one of them that is set in
  the rendered clusters. The Kubernetes client, the discovery client and kyaml are
  parameters.
\<close>

record identity_params =
  ip_Group :: string
  ip_Versions :: "string list"
  ip_Kind :: string
  ip_ClusterKinds :: "string list"

definition identityParamsList :: "identity_params list" where
  "identityParamsList =
     (let infra = ''infrastructure.cluster.x-k8s.io'' in
     [\<lparr> ip_Group = infra, ip_Versions = [''v1alpha3'', ''v1alpha4'', ''v1beta1'', ''v1beta2''],
        ip_Kind = ''AWSClusterStaticIdentity'', ip_ClusterKinds = [''AWSCluster'', ''AWSManagedControlPlane''] \<rparr>,
      \<lparr> ip_Group = infra, ip_Versions = [''v1alpha3'', ''v1alpha4'', ''v1beta1''],
        ip_Kind = ''AWSClusterRoleIdentity'', ip_ClusterKinds = [''AWSCluster'', ''AWSManagedControlPlane''] \<rparr>,
      \<lparr> ip_Group = infra, ip_Versions = [''v1alpha3'', ''v1alpha4'', ''v1beta1''],
        ip_Kind = ''AzureClusterIdentity'', ip_ClusterKinds = [''AzureCluster'', ''AzureManagedControlPlane''] \<rparr>,
      \<lparr> ip_Group = infra, ip_Versions = [''v1alpha3'', ''v1alpha4'', ''v1beta1''],
        ip_Kind = ''VSphereClusterIdentity'', ip_ClusterKinds = [''VSphereCluster''] \<rparr>])"

record Credential =
  cr_Group :: string
  cr_Version :: string
  cr_Kind :: string
  cr_Name :: string
  cr_Namespace :: string

definition isEmptyCredentials :: "Credential \<Rightarrow> bool" where
  "isEmptyCredentials c \<longleftrightarrow> cr_Name c = [] \<and> cr_Namespace c = [] \<and> cr_Kind c = [] \<and> cr_Version c = [] \<and> cr_Group c = []"

record identity =
  id_Gvk :: gvk
  id_UID :: string
  id_Name :: string
  id_Namespace :: string

record identity_client =
  ic_Get :: "gvk \<Rightarrow> nsname \<Rightarrow> goerror option"
  ic_List :: "gvk \<Rightarrow> identity list res"
  ic_ServerResources :: "string \<Rightarrow> string list res"
  ic_IsNotFound :: "goerror \<Rightarrow> bool"

section \<open>Finding identities\<close>

definition gvString :: "gvk \<Rightarrow> string" where
  "gvString g = (if gvk_Group g = [] then gvk_Version g else gvk_Group g @ ''/'' @ gvk_Version g)"

definition checkCRDExists :: "identity_client \<Rightarrow> gvk \<Rightarrow> bool res" where
  "checkCRDExists C g =
     (case ic_ServerResources C (gvString g) of
        Inl e \<Rightarrow> if ic_IsNotFound C e then Inr False else Inl (wrap ''failed to get resources for GV %v: %w'' [gvString g] e)
      | Inr kinds \<Rightarrow> Inr (gvk_Kind g \<in> set kinds))"

definition identityGvks :: "gvk list" where
  "identityGvks = concat (map (\<lambda>p. map (\<lambda>v. \<lparr> gvk_Group = ip_Group p, gvk_Version = v, gvk_Kind = ip_Kind p \<rparr>) (ip_Versions p)) identityParamsList)"

definition identitiesOf :: "identity_client \<Rightarrow> gvk \<Rightarrow> identity list res" where
  "identitiesOf C g =
     bindR (wrapR ''failed to check if CRD exists, %v: %w'' [gvk_Kind g] (checkCRDExists C g)) (\<lambda>exists.
       if \<not> exists then Inr [] else wrapR ''failed to list CRs of %v: %w'' [gvk_Kind g] (ic_List C g))"

text \<open>The identities are returned in the order in which the map of their identifiers is visited.\<close>

definition FindCredentials :: "identity_client \<Rightarrow> visit \<Rightarrow> identity list res" where
  "FindCredentials C visit =
     bindR (mapRes (identitiesOf C) identityGvks) (\<lambda>idss.
       let index = foldl (\<lambda>m i. m(id_UID i \<mapsto> i)) Map.empty (concat idss) in
       Inr (map (\<lambda>k. the (index k)) (visit (dom index))))"

definition credentialOf :: "identity \<Rightarrow> Credential" where
  "credentialOf i = \<lparr> cr_Group = gvk_Group (id_Gvk i), cr_Version = gvk_Version (id_Gvk i), cr_Kind = gvk_Kind (id_Gvk i),
     cr_Name = id_Name i, cr_Namespace = id_Namespace i \<rparr>"

definition ListCredentials :: "identity_client res \<Rightarrow> visit \<Rightarrow> (Credential list \<times> nat) res" where
  "ListCredentials getClient visit =
     bindR getClient (\<lambda>C. bindR (FindCredentials C visit) (\<lambda>found.
       let creds = map credentialOf found in Inr (creds, length creds)))"

section \<open>Injecting a reference\<close>

record 'y cred_kyaml = "'y kyaml" +
  ky_SetIdentityRef :: "'y \<Rightarrow> 'y \<Rightarrow> 'y res"
  ky_Remarshal :: "'y \<Rightarrow> string res"

definition credsText :: "Credential \<Rightarrow> string" where
  "credsText c = [CHR 0x0A] @ ''kind: '' @ cr_Kind c @ [CHR 0x0A] @ ''name: '' @ cr_Name c @ [CHR 0x0A]"

definition MaybeInjectCredentials :: "'y cred_kyaml \<Rightarrow> string \<Rightarrow> string \<Rightarrow> Credential \<Rightarrow> string res" where
  "MaybeInjectCredentials Y templateObject clusterKind creds =
     bindR (case ky_Parse Y templateObject of Inl e \<Rightarrow> Inl (Errf ''unable to parse object: %v %v'' [templateObject]) | Inr obj \<Rightarrow> Inr obj) (\<lambda>obj.
     bindR (readNode ''failed to get kind: %v'' ''failed to stringify kind: %v'' (ky_Kind Y obj)) (\<lambda>kind.
       if trimSpace kind \<noteq> clusterKind then Inr templateObject
       else
         bindR (case ky_Parse Y (credsText creds) of Inl e \<Rightarrow> Inl (err ''failed to create creds node: %v'') | Inr n \<Rightarrow> Inr n) (\<lambda>credsNode.
         bindR (case ky_SetIdentityRef Y credsNode obj of Inl e \<Rightarrow> Inl (err ''failed to add identityRef node: %v'') | Inr o' \<Rightarrow> Inr o') (\<lambda>obj.
           case ky_Remarshal Y obj of Inl e \<Rightarrow> Inl (err ''failed to remarshall obj: %v'') | Inr s \<Rightarrow> Inr s))))"

definition matchingKinds :: "Credential \<Rightarrow> string list" where
  "matchingKinds creds = concat (map (\<lambda>p. concat (map (\<lambda>v.
     if cr_Group creds = ip_Group p \<and> cr_Kind creds = ip_Kind p \<and> cr_Version creds = v then ip_ClusterKinds p else [])
       (ip_Versions p))) identityParamsList)"

fun injectKinds :: "'y cred_kyaml \<Rightarrow> Credential \<Rightarrow> string list \<Rightarrow> string \<Rightarrow> string res" where
  "injectKinds Y creds [] doc = Inr doc"
| "injectKinds Y creds (clusterKind # ks) doc =
     (case MaybeInjectCredentials Y doc clusterKind creds of
        Inl e \<Rightarrow> Inl (Errf ''unable to inject credentials %v %v %v: %v'' [cr_Name creds, doc, clusterKind])
      | Inr doc \<Rightarrow> injectKinds Y creds ks doc)"

definition InjectCredentials :: "'y cred_kyaml \<Rightarrow> string list \<Rightarrow> Credential option \<Rightarrow> string list res" where
  "InjectCredentials Y tmplWithValues creds =
     (case creds of
        None \<Rightarrow> Inr tmplWithValues
      | Some c \<Rightarrow> mapRes (injectKinds Y c (matchingKinds c)) tmplWithValues)"

definition CheckCredentialsExist :: "identity_client \<Rightarrow> Credential \<Rightarrow> bool res" where
  "CheckCredentialsExist C creds =
     (case ic_Get C \<lparr> gvk_Group = cr_Group creds, gvk_Version = cr_Version creds, gvk_Kind = cr_Kind creds \<rparr>
        (createNamespacedName (cr_Name creds) (cr_Namespace creds)) of
        None \<Rightarrow> Inr True
      | Some e \<Rightarrow> if ic_IsNotFound C e then Inr False else Inl e)"

definition CheckAndInjectCredentials :: "'y cred_kyaml \<Rightarrow> identity_client \<Rightarrow> string list \<Rightarrow> Credential option \<Rightarrow> string \<Rightarrow> string list res" where
  "CheckAndInjectCredentials Y C tmplWithValues creds tmpName =
     (case creds of
        None \<Rightarrow> Inr tmplWithValues
      | Some c \<Rightarrow>
          if isEmptyCredentials c then Inr tmplWithValues
          else bindR (wrapR ''failed to check if credentials exist: %w'' [] (CheckCredentialsExist C c)) (\<lambda>exist.
            if exist then wrapR ''unable to inject credentials %q: %w'' [tmpName] (InjectCredentials Y tmplWithValues creds)
            else Inr tmplWithValues))"

section \<open>Facts\<close>

text \<open>What a document names as its kind, and what kyaml promises of a document that it has changed.\<close>

definition kindOf :: "'y cred_kyaml \<Rightarrow> string \<Rightarrow> string option" where
  "kindOf Y doc = (case ky_Parse Y doc of Inl e \<Rightarrow> None
     | Inr obj \<Rightarrow> (case ky_Kind Y obj of Inl e \<Rightarrow> None | Inr k \<Rightarrow> Some (trimSpace k)))"

definition keepsKind :: "'y cred_kyaml \<Rightarrow> bool" where
  "keepsKind Y \<longleftrightarrow> (\<forall>obj n obj' s. ky_SetIdentityRef Y n obj = Inr obj' \<longrightarrow> ky_Remarshal Y obj' = Inr s \<longrightarrow>
     (\<exists>o2. ky_Parse Y s = Inr o2 \<and> ky_Kind Y o2 = ky_Kind Y obj))"

lemma concat_select:
  "distinct vs \<Longrightarrow> concat (map (\<lambda>v. if P \<and> w = v then xs else []) vs) = (if P \<and> w \<in> set vs then xs else [])"
  by (induction vs) auto

text \<open>At most one entry of the list matches, whose kinds are all different.\<close>

lemma matchingKinds_cases:
  "matchingKinds creds \<in> {[], [''AWSCluster'', ''AWSManagedControlPlane''], [''AzureCluster'', ''AzureManagedControlPlane''], [''VSphereCluster'']}"
proof -
  let ?sel = "\<lambda>p. if (cr_Group creds = ip_Group p \<and> cr_Kind creds = ip_Kind p) \<and> cr_Version creds \<in> set (ip_Versions p) then ip_ClusterKinds p else []"
  have "distinct (ip_Versions p)" if "p \<in> set identityParamsList" for p
    using that by (auto simp: identityParamsList_def Let_def)
  then have sel: "matchingKinds creds = concat (map ?sel identityParamsList)"
    unfolding matchingKinds_def conj_assoc [symmetric]
    by (intro arg_cong [where f = concat] map_cong refl concat_select) blast
  consider "cr_Kind creds = ''AWSClusterStaticIdentity''" | "cr_Kind creds = ''AWSClusterRoleIdentity''"
    | "cr_Kind creds = ''AzureClusterIdentity''" | "cr_Kind creds = ''VSphereClusterIdentity''"
    | "cr_Kind creds \<notin> {''AWSClusterStaticIdentity'', ''AWSClusterRoleIdentity'', ''AzureClusterIdentity'', ''VSphereClusterIdentity''}"
    by blast
  then show ?thesis
    by cases (simp_all add: sel identityParamsList_def Let_def)
qed

lemma distinct_matchingKinds: "distinct (matchingKinds creds)"
  using matchingKinds_cases [of creds] by auto

lemma MaybeInject_other:
  "kindOf Y doc = Some k \<Longrightarrow> k \<noteq> clusterKind \<Longrightarrow> MaybeInjectCredentials Y doc clusterKind creds = Inr doc"
  by (auto simp: kindOf_def MaybeInjectCredentials_def readNode_def split: sum.splits node_failure.splits)

lemma MaybeInject_keeps_kind:
  assumes "keepsKind Y" "MaybeInjectCredentials Y doc clusterKind creds = Inr doc'"
  shows "kindOf Y doc' = kindOf Y doc \<and> kindOf Y doc \<noteq> None"
proof -
  obtain obj k where obj: "ky_Parse Y doc = Inr obj" "ky_Kind Y obj = Inr k"
    using assms(2) by (auto simp: MaybeInjectCredentials_def readNode_def bindR_Inr split: sum.splits node_failure.splits)
  have "doc' = doc \<or> (\<exists>n obj'. ky_SetIdentityRef Y n obj = Inr obj' \<and> ky_Remarshal Y obj' = Inr doc')"
    using assms(2) obj by (auto simp: MaybeInjectCredentials_def readNode_def bindR_Inr split: sum.splits if_splits)
  then show ?thesis
  proof (elim disjE exE conjE)
    fix n obj' assume set: "ky_SetIdentityRef Y n obj = Inr obj'" "ky_Remarshal Y obj' = Inr doc'"
    then obtain o2 where "ky_Parse Y doc' = Inr o2" "ky_Kind Y o2 = ky_Kind Y obj"
      using assms(1) unfolding keepsKind_def by blast
    with obj show ?thesis by (simp add: kindOf_def)
  qed (simp add: kindOf_def obj)
qed

lemma injectKinds_spec:
  assumes "keepsKind Y" "kindOf Y doc = Some k" "distinct ks"
  shows "injectKinds Y creds ks doc =
    (if k \<in> set ks then (case MaybeInjectCredentials Y doc k creds of
        Inl e \<Rightarrow> Inl (Errf ''unable to inject credentials %v %v %v: %v'' [cr_Name creds, doc, k]) | Inr doc' \<Rightarrow> Inr doc')
     else Inr doc)"
  using assms(2,3)
proof (induction ks arbitrary: doc)
  case (Cons c ks)
  show ?case
  proof (cases "c = k")
    case True
    show ?thesis
    proof (cases "MaybeInjectCredentials Y doc k creds")
      case (Inr doc')
      then have "kindOf Y doc' = Some k" using MaybeInject_keeps_kind [OF assms(1) Inr] Cons.prems(1) by simp
      from Cons.IH [OF this] Cons.prems True Inr show ?thesis by simp
    qed (simp add: True)
  next
    case False
    with Cons MaybeInject_other [OF Cons.prems(1), of c creds] show ?thesis by auto
  qed
qed simp

end
