(* ===== verification/TemplateServer.thy ===== *)
theory TemplateServer
  imports ProfileFiles Credentials Namespaces
begin

text \<open>
  cmd/clusters-service/pkg/server/templates.go with helpers.go: listing, describing and
  rendering templates. The maps of parameter values are shared with the request, so a
  function that fills in defaults returns the map as it leaves it. The Kubernetes client,
  the estimator, the codecs and the text of an error are parameters; strings.EqualFold
  compares ASCII letters.
\<close>

section \<open>helpers.go\<close>

record ('u, 'v, 'h, 'y) render_env =
  re_tlib :: "'u tlib"
  re_codec :: "('v, 'h) profile_codec"
  re_yaml :: marshaller
  re_kyaml :: "'y cred_kyaml"
  re_IsDNS1123Subdomain :: "string \<Rightarrow> string list"
  re_visit :: visit
  re_config :: config
  re_MarshalFiles :: "string list \<Rightarrow> string res"
  re_ErrorText :: "goerror \<Rightarrow> string"

type_synonym rest_mapper = "gvk \<Rightarrow> rest_mapping"

definition isCAPITemplate :: "template \<Rightarrow> bool" where
  "isCAPITemplate t \<longleftrightarrow> tm_Kind t = CAPIKind"

definition shouldInjectPruneAnnotation :: "config \<Rightarrow> template \<Rightarrow> bool" where
  "shouldInjectPruneAnnotation cfg t =
     (let anno = mget (tm_Annotations t) ''templates.weave.works/inject-prune-annotation'' in
      if anno \<noteq> [] then anno = ''true''
      else cfg ''inject-prune-annotation'' \<noteq> ''disabled'' \<and> isCAPITemplate t)"

text \<open>strings.Index: where a string occurs first.\<close>

fun strIndex :: "string \<Rightarrow> string \<Rightarrow> nat option" where
  "strIndex s sub =
     (if prefix sub s then Some 0
      else case s of [] \<Rightarrow> None | _ # s' \<Rightarrow> map_option Suc (strIndex s' sub))"

definition isMissingVariableError :: "string \<Rightarrow> string option" where
  "isMissingVariableError errStr =
     (let pre = ''processing template: value for variables'';
          suf = ''is not set. Please set the value using os environment variables or the clusterctl config file'' in
      if prefix pre errStr \<and> suffix suf errStr
      then Some (trimSpace (drop (length pre) (take (the (strIndex errStr suf)) errStr)))
      else None)"

definition renderTemplateWithValues :: "('u, 'v, 'h, 'y) render_env \<Rightarrow> rest_mapper option \<Rightarrow> template \<Rightarrow> string \<Rightarrow> string \<Rightarrow>
    (string \<rightharpoonup> string) option \<Rightarrow> RenderedTemplate list res \<times> (string \<rightharpoonup> string) option" where
  "renderTemplateWithValues E mapper t name namespace vals =
     (let L = re_tlib E;
          opts = [InjectLabels [''templates.weave.works/template-name'' \<mapsto> name,
              ''templates.weave.works/template-namespace'' \<mapsto> re_config E ''capi-templates-namespace'']]
            @ (case mapper of None \<Rightarrow> [] | Some rm \<Rightarrow> [InNamespace (L\<lparr> tl_RESTMapping := rm \<rparr>) namespace])
            @ (if shouldInjectPruneAnnotation (re_config E) t then [InjectPruneAnnotation] else [])
      in case NewProcessorForTemplate L t of
           Inl e \<Rightarrow> (Inl e, vals)
         | Inr processor \<Rightarrow>
             (case RenderTemplates L (re_visit E) processor opts vals of
                (Inr templateBits, vals) \<Rightarrow> (Inr templateBits, vals)
              | (Inl e, vals) \<Rightarrow>
                  (newErr (case isMissingVariableError (re_ErrorText E e) of
                      Some missing \<Rightarrow> Errf ''error rendering template %v due to missing variables: %s'' [name, missing]
                    | None \<Rightarrow> Errf ''error rendering template %v, %v'' [name, re_ErrorText E e]) (Inl e), vals)))"

section \<open>templates.go: the files of a request\<close>

record 'h files_request =
  fr_TemplateName :: string
  fr_ParameterValues :: "(string \<rightharpoonup> string) option"
  fr_Credentials :: "Credential option"
  fr_Profiles :: "ProfileValues list"
  fr_Kustomizations :: "kustomization list"
  fr_HelmRepository :: "'h helm_repository option"

record 'h files_client =
  fc_identities :: identity_client
  fc_GetHelmRepository :: "nsname \<Rightarrow> 'h helm_repository res"
  fc_RESTMapping :: rest_mapper

text \<open>Reading from a map that may be nil.\<close>

definition mread :: "(string \<rightharpoonup> string) option \<Rightarrow> string \<Rightarrow> string" where
  "mread m k = (case m of None \<Rightarrow> [] | Some m \<Rightarrow> mget m k)"

definition getCluster :: "string \<Rightarrow> (string \<rightharpoonup> string) option \<Rightarrow> nsname res" where
  "getCluster namespace parameterValues =
     (let clusterName = mread parameterValues ''CLUSTER_NAME''; resourceName = mread parameterValues ''RESOURCE_NAME'' in
      if clusterName = [] \<and> resourceName = []
      then Inl (err ''unable to find 'CLUSTER_NAME' or 'RESOURCE_NAME' parameter in supplied values'')
      else Inr (createNamespacedName (if resourceName = [] then clusterName else resourceName) namespace))"

definition getDefaultPath :: "config \<Rightarrow> string \<Rightarrow> (string \<rightharpoonup> string) option \<Rightarrow> string res" where
  "getDefaultPath cfg namespace parameterValues =
     bindR (wrapR ''failed to get cluster: %w'' [] (getCluster namespace parameterValues)) (\<lambda>cluster.
       Inr (getClusterManifestPath cfg cluster))"

definition shouldAddCommonBases :: "config \<Rightarrow> template \<Rightarrow> bool" where
  "shouldAddCommonBases cfg t =
     (let anno = mget (tm_Annotations t) ''templates.weave.works/add-common-bases'' in
      if anno \<noteq> [] then anno = ''true''
      else cfg ''add-bases-kustomization'' \<noteq> ''disabled'' \<and> isCAPITemplate t)"

definition shouldAddSopsKustomization :: "template \<Rightarrow> bool" where
  "shouldAddSopsKustomization t =
     (let anno = mget (tm_Annotations t) ''templates.weave.works/sops-enabled'' in if anno \<noteq> [] then anno = ''true'' else False)"

record 'f cost_estimate =
  ct_Message :: "(string \<times> goerror option) option"
  ct_Currency :: string
  ct_Range :: "('f \<times> 'f) option"

record 'f estimate_result =
  er_Low :: 'f
  er_High :: 'f
  er_Currency :: string

definition getCostEstimate :: "'u tlib \<Rightarrow> ('u uns list \<Rightarrow> 'f estimate_result option res) \<Rightarrow> RenderedTemplate list \<Rightarrow> 'f cost_estimate res" where
  "getCostEstimate L estimator rendered =
     (let msg = (\<lambda>m e. \<lparr> ct_Message = Some (m, e), ct_Currency = [], ct_Range = None \<rparr>) in
      catchErr (\<lambda>e. msg ''failed to parse rendered templates: %s'' (Some e)) (\<lambda>us.
        catchErr (\<lambda>e. msg ''failed to calculate estimate for cluster costs: %s'' (Some e)) (\<lambda>estimate.
          case estimate of
            None \<Rightarrow> Inr (msg ''no estimate returned'' None)
          | Some es \<Rightarrow> Inr \<lparr> ct_Message = None, ct_Currency = er_Currency es, ct_Range = Some (er_Low es, er_High es) \<rparr>)
          (estimator us))
        (ConvertToUnstructured L (concat (map rd_Data rendered))))"

definition copyHelmRepository :: "'h files_client \<Rightarrow> nsname \<Rightarrow> 'h helm_repository res" where
  "copyHelmRepository C repo =
     bindR (wrapR ''cannot find Helm repository %s/%s: %w'' [nn_Name repo, nn_Namespace repo] (fc_GetHelmRepository C repo)) (\<lambda>existing.
       Inr \<lparr> hp_Name = nn_Name repo, hp_Namespace = nn_Namespace repo, hp_Spec = hp_Spec existing \<rparr>)"

record renderedItem =
  ri_filename :: string
  ri_content :: "string list"

text \<open>The request that is annotated is given by its JSON, for the parameter values it holds.\<close>

definition renderItem :: "('u, 'v, 'h, 'y) render_env \<Rightarrow> 'h files_client option \<Rightarrow> ((string \<rightharpoonup> string) option \<Rightarrow> string res) option \<Rightarrow>
    string \<Rightarrow> 'h files_request \<Rightarrow> RenderedTemplate \<Rightarrow> renderedItem res" where
  "renderItem E client createRequest ns msg rendered =
     (let Y = re_kyaml E; vals = fr_ParameterValues msg in
      bindR (case createRequest of
          None \<Rightarrow> Inr (rd_Data rendered)
        | Some json \<Rightarrow> wrapR ''failed to annotate template with parameter values: %w'' []
            (InjectJSONAnnotation (kyaml.truncate Y) (rd_Data rendered) ''templates.weave.works/create-request'' (json vals))) (\<lambda>content.
      bindR (newErr (Errf ''validation error rendering template %v, %v'' [fr_TemplateName msg])
          (ValidateRenderedTemplates (re_tlib E) (re_IsDNS1123Subdomain E) content)) (\<lambda>_.
      bindR (case client of
          None \<Rightarrow> Inr content
        | Some C \<Rightarrow> wrapR ''failed to inject credentials: %w'' []
            (CheckAndInjectCredentials Y (fc_identities C) content (fr_Credentials msg) (fr_TemplateName msg))) (\<lambda>content.
      bindR (if rd_Path rendered = [] then wrapR ''failed to get default path: %w'' [] (getDefaultPath (re_config E) ns vals)
          else Inr (rd_Path rendered)) (\<lambda>path.
        Inr \<lparr> ri_filename = path, ri_content = content \<rparr>)))))"

text \<open>The first item is annotated with the names of all files.\<close>

definition annotateFirst :: "('u, 'v, 'h, 'y) render_env \<Rightarrow> renderedItem list \<Rightarrow> renderedItem list res" where
  "annotateFirst E items =
     (case items of
        [] \<Rightarrow> Inr []
      | item # rest \<Rightarrow>
          bindR (wrapR ''failed to annotate template with created files: %w'' []
            (InjectJSONAnnotation (kyaml.truncate (re_kyaml E)) (ri_content item) ''templates.weave.works/created-files''
              (re_MarshalFiles E (map ri_filename items)))) (\<lambda>annotated.
            Inr (item\<lparr> ri_content := annotated \<rparr> # rest)))"

definition documentSeparator :: string where
  "documentSeparator = [CHR 0x0A] @ ''---'' @ [CHR 0x0A]"

definition itemFile :: "renderedItem \<Rightarrow> commit_file" where
  "itemFile r = \<lparr> cf_Path = ri_filename r, cf_Content = Some (joinStr documentSeparator (ri_content r)) \<rparr>"

definition clusterFor :: "string \<Rightarrow> (string \<rightharpoonup> string) option \<Rightarrow> nsname res" where
  "clusterFor ns vals = newErr (err ''failed to get cluster for %s: %s'') (getCluster ns vals)"

definition sopsFiles :: "('u, 'v, 'h, 'y) render_env \<Rightarrow> template \<Rightarrow> string \<Rightarrow> (string \<rightharpoonup> string) option \<Rightarrow> commit_file list res" where
  "sopsFiles E t ns vals =
     (if shouldAddSopsKustomization t then
        bindR (clusterFor ns vals) (\<lambda>cluster.
        bindR (newErr (err ''failed to get sops kustomization for %s: %s'')
          (getSopsKustomization (re_config E) (re_yaml E) cluster (case vals of None \<Rightarrow> Map.empty | Some m \<Rightarrow> m))) (\<lambda>f. Inr [f]))
      else Inr [])"

definition commonBasesFiles :: "('u, 'v, 'h, 'y) render_env \<Rightarrow> template \<Rightarrow> string \<Rightarrow> (string \<rightharpoonup> string) option \<Rightarrow> commit_file list res" where
  "commonBasesFiles E t ns vals =
     (if shouldAddCommonBases (re_config E) t then
        bindR (clusterFor ns vals) (\<lambda>cluster.
        bindR (newErr (err ''failed to get common kustomization for %s: %s'')
          (getCommonKustomization (re_config E) (re_yaml E) cluster)) (\<lambda>f. Inr [f]))
      else Inr [])"

definition profileFiles :: "('u, 'v, 'h, 'y) render_env \<Rightarrow> 'h files_client option \<Rightarrow> charts_cache \<Rightarrow> nsname \<Rightarrow> nsname \<Rightarrow> template \<Rightarrow> string \<Rightarrow>
    'h files_request \<Rightarrow> commit_file list res" where
  "profileFiles E client chartsCache repoCluster repo t ns msg =
     bindR (wrapR ''failed to check if template has required profiles: %w'' [] (TemplateHasRequiredProfiles (re_tlib E) (re_visit E) t)) (\<lambda>hasRequired.
       if fr_Profiles msg \<noteq> [] \<or> hasRequired then
         bindR (clusterFor ns (fr_ParameterValues msg)) (\<lambda>cluster.
         bindR (case fr_HelmRepository msg of
             Some h \<Rightarrow> Inr h
           | None \<Rightarrow> (case client of
               None \<Rightarrow> Inl (err ''client is nil, cannot get Helm repository'')
             | Some C \<Rightarrow> wrapR ''failed to copy Helm repository: %w'' [] (copyHelmRepository C repo))) (\<lambda>helmRepo.
           generateProfileFiles (re_tlib E) (re_codec E) (re_visit E) (re_config E) t cluster helmRepo
             \<lparr> ga_helmRepositoryCluster = repoCluster, ga_helmRepository = repo, ga_chartsCache = chartsCache,
               ga_profileValues = fr_Profiles msg,
               ga_parameterValues = (case fr_ParameterValues msg of None \<Rightarrow> Map.empty | Some m \<Rightarrow> m) \<rparr>))
       else Inr [])"

definition kustomizationFile :: "('u, 'v, 'h, 'y) render_env \<Rightarrow> nsname \<Rightarrow> kustomization \<Rightarrow> commit_file list res" where
  "kustomizationFile E cluster k =
     bindR (deref (ku_Spec k)) (\<lambda>spec.
     bindR (if ks_CreateNamespace spec
         then bindR (generateNamespaceFile (re_config E) (re_yaml E) False cluster (ks_TargetNamespace spec) []) (\<lambda>f. Inr [f])
         else Inr []) (\<lambda>namespaces.
     bindR (generateKustomizationFile (re_config E) (re_yaml E) False cluster k []) (\<lambda>f.
       Inr (namespaces @ [f]))))"

definition kustomizationFiles :: "('u, 'v, 'h, 'y) render_env \<Rightarrow> string \<Rightarrow> 'h files_request \<Rightarrow> commit_file list res" where
  "kustomizationFiles E ns msg =
     (if fr_Kustomizations msg = [] then Inr []
      else bindR (clusterFor ns (fr_ParameterValues msg)) (\<lambda>cluster.
        bindR (mapRes (kustomizationFile E cluster) (fr_Kustomizations msg)) (\<lambda>fss. Inr (concat fss))))"

text \<open>The rest of GetFiles, once the template is rendered and the defaults are filled in.\<close>

definition filesOf :: "('u, 'v, 'h, 'y) render_env \<Rightarrow> ('u uns list \<Rightarrow> 'f estimate_result option res) \<Rightarrow> 'h files_client option \<Rightarrow> charts_cache \<Rightarrow>
    nsname \<Rightarrow> nsname \<Rightarrow> template \<Rightarrow> string \<Rightarrow> ((string \<rightharpoonup> string) option \<Rightarrow> string res) option \<Rightarrow> 'h files_request \<Rightarrow>
    RenderedTemplate list \<Rightarrow> 'f cost_estimate GetFilesReturn res" where
  "filesOf E estimator client chartsCache repoCluster repo t ns createRequest msg renderedTemplates =
     (let vals = fr_ParameterValues msg in
      bindR (mapRes (renderItem E client createRequest ns msg) renderedTemplates) (\<lambda>items.
      bindR (annotateFirst E items) (\<lambda>items.
      bindR (getCostEstimate (re_tlib E) estimator renderedTemplates) (\<lambda>estimate.
      bindR (sopsFiles E t ns vals) (\<lambda>sops.
      bindR (commonBasesFiles E t ns vals) (\<lambda>bases.
      bindR (profileFiles E client chartsCache repoCluster repo t ns msg) (\<lambda>profiles.
      bindR (kustomizationFiles E ns msg) (\<lambda>ks.
        Inr \<lparr> gr_RenderedTemplate = map itemFile items, gr_ProfileFiles = profiles,
          gr_KustomizationFiles = sops @ bases @ ks, gr_CostEstimate = Some estimate, gr_ExternalSecretsFiles = [] \<rparr>))))))))"

text \<open>The namespace of the files is read before the defaults are filled in, the cluster after it.\<close>

definition GetFiles :: "('u, 'v, 'h, 'y) render_env \<Rightarrow> ('u uns list \<Rightarrow> 'f estimate_result option res) \<Rightarrow> 'h files_client option \<Rightarrow> rest_mapper option \<Rightarrow>
    charts_cache \<Rightarrow> nsname \<Rightarrow> nsname \<Rightarrow> template \<Rightarrow> ((string \<rightharpoonup> string) option \<Rightarrow> string res) option \<Rightarrow> 'h files_request \<Rightarrow>
    'f cost_estimate GetFilesReturn res \<times> (string \<rightharpoonup> string) option" where
  "GetFiles E estimator client mapper chartsCache repoCluster repo t createRequest msg =
     (let ns = getClusterNamespace (re_config E) (mread (fr_ParameterValues msg) ''NAMESPACE'') in
      case renderTemplateWithValues E mapper t (fr_TemplateName msg) ns (fr_ParameterValues msg) of
        (Inl e, vals) \<Rightarrow> (Inl (wrap ''failed to render template with parameter values: %w'' [] e), vals)
      | (Inr renderedTemplates, vals) \<Rightarrow>
          (filesOf E estimator client chartsCache repoCluster repo t ns createRequest (msg\<lparr> fr_ParameterValues := vals \<rparr>) renderedTemplates, vals))"

end
