(* ===== verification/TemplateHandlers.thy ===== *)
theory TemplateHandlers
  imports TemplateServer
begin

text \<open>
  The handlers of cmd/clusters-service/pkg/server/templates.go. The fetcher of the
  management cluster is given by what it returns for a kind. An unknown kind of template
  gives a nil template without an error, and the handlers read through it.
\<close>

section \<open>Responses\<close>

definition lowerAscii :: "char \<Rightarrow> char" where
  "lowerAscii c = (let n = (of_char c :: nat) in if 65 \<le> n \<and> n \<le> 90 then char_of (n + 32) else c)"

definition equalFold :: "string \<Rightarrow> string \<Rightarrow> bool" where
  "equalFold s t \<longleftrightarrow> map lowerAscii s = map lowerAscii t"

definition isProviderRecognised :: "string \<Rightarrow> bool" where
  "isProviderRecognised provider \<longleftrightarrow> (\<exists>p\<in>ran providers. equalFold provider p)"

definition filterTemplatesByProvider :: "template_response list \<Rightarrow> string \<Rightarrow> template_response list" where
  "filterTemplatesByProvider ts provider = filter (\<lambda>t. equalFold (tr_Provider t) provider) ts"

definition toCommitFileProtos :: "commit_file list \<Rightarrow> (string \<times> string) list res" where
  "toCommitFileProtos files = mapRes (\<lambda>f. bindR (deref (cf_Content f)) (\<lambda>c. Inr (cf_Path f, c))) files"

section \<open>The server\<close>

record 'h server_client = "'h files_client" +
  sc_GetTemplate :: "string \<Rightarrow> nsname \<Rightarrow> template res"

record ('u, 'v, 'h, 'y, 'f) templates_server =
  ts_env :: "('u, 'v, 'h, 'y) render_env"
  ts_estimator :: "'u uns list \<Rightarrow> 'f estimate_result option res"
  ts_client :: "'h server_client res"
  ts_chartsCache :: charts_cache
  ts_cluster :: string
  ts_profileHelmRepository :: nsname
  ts_Fetch :: "string \<Rightarrow> template NamespacedList list res"

definition getTemplate :: "('u, 'v, 'h, 'y, 'f) templates_server \<Rightarrow> string \<Rightarrow> string \<Rightarrow> string \<Rightarrow> template option res" where
  "getTemplate s name namespace templateKind =
     (if namespace = [] then Inl (err ''need to specify template namespace'')
      else bindR (ts_client s) (\<lambda>cl.
        let get = sc_GetTemplate cl templateKind (createNamespacedName name namespace) in
        if templateKind = CAPIKind
        then bindR (wrapR ''error getting capitemplate %s/%s: %w'' [namespace, name] get) (\<lambda>t. Inr (Some (t\<lparr> tm_Kind := CAPIKind \<rparr>)))
        else if templateKind = GitOpsKind
        then bindR (wrapR ''error getting gitops template %s/%s: %w'' [namespace, name] get) (\<lambda>t. Inr (Some (t\<lparr> tm_Kind := GitOpsKind \<rparr>)))
        else Inr None))"

definition templateResponse :: "('u, 'v, 'h, 'y, 'f) templates_server \<Rightarrow> template option \<Rightarrow> template_response res" where
  "templateResponse s tm = bindR (deref tm) (ToTemplateResponse (re_tlib (ts_env s)) (re_visit (ts_env s)))"

text \<open>The responses for the templates of a kind, and an error for every namespace that could not be listed.\<close>

definition listKind :: "('u, 'v, 'h, 'y, 'f) templates_server \<Rightarrow> string \<Rightarrow> string \<Rightarrow>
    (template_response list \<times> (string \<times> goerror) list) res" where
  "listKind s kind msg =
     bindR (wrapR msg [] (ts_Fetch s kind)) (\<lambda>lists.
     bindR (mapRes (\<lambda>t. templateResponse s (Some t)) (concat (map nl_List lists))) (\<lambda>ts.
       Inr (ts, List.map_filter (\<lambda>l. map_option (\<lambda>e. (nl_Namespace l, e)) (nl_Error l)) lists)))"

definition ListTemplates :: "('u, 'v, 'h, 'y, 'f) templates_server \<Rightarrow> string \<Rightarrow> string \<Rightarrow>
    (template_response list \<times> nat \<times> (string \<times> goerror) list) res" where
  "ListTemplates s templateKind provider =
     bindR (if templateKind = [] \<or> templateKind = GitOpsKind
         then listKind s GitOpsKind ''failed to query gitops templates: %w'' else Inr ([], [])) (\<lambda>(gitops, errs).
     bindR (if templateKind = [] \<or> templateKind = CAPIKind
         then listKind s CAPIKind ''failed to query capi templates: %w'' else Inr ([], [])) (\<lambda>(capi, errs').
       let ts = gitops @ capi; total = length ts in
       bindR (if provider = [] then Inr ts
           else if \<not> isProviderRecognised provider then Inl (Errf ''provider %q is not recognised'' [provider])
           else Inr (filterTemplatesByProvider ts provider)) (\<lambda>ts.
         Inr (sortSlice (\<lambda>t u. stringLess (tr_Name t) (tr_Name u)) ts, total, errs @ errs'))))"

definition defaultKind :: "string \<Rightarrow> string" where
  "defaultKind kind = (if kind = [] then CAPIKind else kind)"

definition lookedUp :: "('u, 'v, 'h, 'y, 'f) templates_server \<Rightarrow> string \<Rightarrow> string \<Rightarrow> string \<Rightarrow> template option res" where
  "lookedUp s name namespace kind =
     newErr (Errf ''error looking up template %v: %v'' [name]) (getTemplate s name namespace (defaultKind kind))"

definition described :: "('u, 'v, 'h, 'y, 'f) templates_server \<Rightarrow> string \<Rightarrow> string \<Rightarrow> string \<Rightarrow> string \<Rightarrow> (template option \<times> template_response) res" where
  "described s msg name namespace kind =
     bindR (lookedUp s name namespace kind) (\<lambda>tm.
     bindR (templateResponse s tm) (\<lambda>t.
       if tr_Error t \<noteq> None then Inl (Errf msg [name]) else Inr (tm, t)))"

definition GetTemplate :: "('u, 'v, 'h, 'y, 'f) templates_server \<Rightarrow> string \<Rightarrow> string \<Rightarrow> string \<Rightarrow> template_response res" where
  "GetTemplate s name namespace kind =
     bindR (described s ''error reading template %v, %v'' name namespace kind) (\<lambda>(tm, t). Inr t)"

definition ListTemplateParams :: "('u, 'v, 'h, 'y, 'f) templates_server \<Rightarrow> string \<Rightarrow> string \<Rightarrow> string \<Rightarrow> (Param list \<times> template_object list) res" where
  "ListTemplateParams s name namespace kind =
     bindR (described s ''error looking up template params for %v, %v'' name namespace kind) (\<lambda>(tm, t).
       Inr (tr_Parameters t, tr_Objects t))"

definition ListTemplateProfiles :: "('u, 'v, 'h, 'y, 'f) templates_server \<Rightarrow> string \<Rightarrow> string \<Rightarrow> string \<Rightarrow> (TemplateProfile list \<times> template_object list) res" where
  "ListTemplateProfiles s name namespace kind =
     bindR (described s ''error looking up template annotations for %v, %v'' name namespace kind) (\<lambda>(tm, t).
     bindR (deref tm) (\<lambda>tm.
     bindR (newErr (Errf ''error getting profiles from template %v, %v'' [name])
         (GetProfilesFromTemplate (re_tlib (ts_env s)) (re_visit (ts_env s)) tm)) (\<lambda>profiles.
       Inr (profiles, tr_Objects t))))"

record 'f render_response =
  rr_RenderedTemplates :: "(string \<times> string) list"
  rr_ProfileFiles :: "(string \<times> string) list"
  rr_KustomizationFiles :: "(string \<times> string) list"
  rr_CostEstimate :: "'f cost_estimate option"
  rr_ExternalSecretsFiles :: "(string \<times> string) list"

definition serverFiles :: "('u, 'v, 'h, 'y, 'f) templates_server \<Rightarrow> 'h server_client \<Rightarrow> template \<Rightarrow>
    ((string \<rightharpoonup> string) option \<Rightarrow> string res) option \<Rightarrow> 'h files_request \<Rightarrow>
    'f cost_estimate GetFilesReturn res \<times> (string \<rightharpoonup> string) option" where
  "serverFiles s client tm createRequest msg =
     GetFiles (ts_env s) (ts_estimator s) (Some (files_client.truncate client)) (Some (fc_RESTMapping client)) (ts_chartsCache s)
       (createNamespacedName (ts_cluster s) []) (ts_profileHelmRepository s) tm createRequest msg"

definition RenderTemplate :: "('u, 'v, 'h, 'y, 'f) templates_server \<Rightarrow> string \<Rightarrow> string \<Rightarrow> 'h files_request \<Rightarrow> 'f render_response res" where
  "RenderTemplate s namespace kind msg =
     bindR (lookedUp s (fr_TemplateName msg) namespace kind) (\<lambda>tm.
     bindR (newErr (err ''error getting client: %v'') (ts_client s)) (\<lambda>client.
     bindR (deref tm) (\<lambda>tm.
     bindR (fst (serverFiles s client tm None (msg\<lparr> fr_HelmRepository := None \<rparr>))) (\<lambda>files.
     bindR (toCommitFileProtos (gr_ProfileFiles files)) (\<lambda>profiles.
     bindR (toCommitFileProtos (gr_KustomizationFiles files)) (\<lambda>kustomizations.
     bindR (toCommitFileProtos (gr_RenderedTemplate files)) (\<lambda>rendered.
     bindR (toCommitFileProtos (gr_ExternalSecretsFiles files)) (\<lambda>secrets.
       Inr \<lparr> rr_RenderedTemplates = rendered, rr_ProfileFiles = profiles, rr_KustomizationFiles = kustomizations,
         rr_CostEstimate = gr_CostEstimate files, rr_ExternalSecretsFiles = secrets \<rparr>))))))))"

end
