(* ===== verification/ProfileFacts.thy ===== *)
theory ProfileFacts
  imports ProfileFiles
begin

text \<open>
  The profiles that a request installs: which charts, with which values, and where their
  releases are written.
\<close>

section \<open>The profiles of a template\<close>

definition keyed :: "('a \<Rightarrow> string) \<Rightarrow> (string \<rightharpoonup> 'a) \<Rightarrow> bool" where
  "keyed name m \<longleftrightarrow> finite (dom m) \<and> (\<forall>k v. m k = Some v \<longrightarrow> name v = k)"

lemma keyed_empty [simp]: "keyed name Map.empty"
  by (simp add: keyed_def)

lemma keyed_upd: "keyed name m \<Longrightarrow> name v = k \<Longrightarrow> keyed name (m(k \<mapsto> v))"
  by (simp add: keyed_def)

lemma keyed_foldl:
  "keyed name m \<Longrightarrow> keyed name (foldl (\<lambda>m v. m(name v \<mapsto> v)) m vs)"
  by (induction vs arbitrary: m) (simp_all add: keyed_upd)

lemma foldl_upd_dom: "dom (foldl (\<lambda>m v. m(name v \<mapsto> v)) m vs) = dom m \<union> name ` set vs"
  by (induction vs arbitrary: m) auto

lemma foldl_upd_mem: "foldl (\<lambda>m v. m(name v \<mapsto> v)) m vs k = Some x \<Longrightarrow> m k = Some x \<or> x \<in> set vs \<and> name x = k"
proof (induction vs arbitrary: m)
  case (Cons v vs)
  from Cons.IH [of "m(name v \<mapsto> v)"] Cons.prems show ?case by (auto split: if_splits)
qed simp

lemma foldl_upd_distinct:
  "distinct (map name vs) \<Longrightarrow> x \<in> set vs \<Longrightarrow> foldl (\<lambda>m v. m(name v \<mapsto> v)) m vs (name x) = Some x"
proof (induction vs rule: rev_induct)
  case (snoc v vs)
  then show ?case by (cases "x = v") (auto simp: image_iff)
qed simp

lemma keyed_listing:
  assumes "keyed name m" "visit_ok visit"
  shows "distinct (map name (map (\<lambda>k. the (m k)) (visit (dom m))))"
    and "set (map (\<lambda>k. the (m k)) (visit (dom m))) = ran m"
proof -
  have visited: "set (visit (dom m)) = dom m" "distinct (visit (dom m))"
    using assms by (auto simp: keyed_def visit_ok_def)
  have "map name (map (\<lambda>k. the (m k)) (visit (dom m))) = visit (dom m)"
    using assms(1) visited(1) by (auto simp: keyed_def intro!: map_idI)
  with visited(2) show "distinct (map name (map (\<lambda>k. the (m k)) (visit (dom m))))" by simp
  show "set (map (\<lambda>k. the (m k)) (visit (dom m))) = ran m"
    using visited(1) by (force simp: ran_def)
qed

lemma keyed_ran: "keyed name m \<Longrightarrow> name ` ran m = dom m"
  by (force simp: keyed_def ran_def)

lemma indexAnnotations_keyed:
  "indexAnnotations L vs m = Inr m' \<Longrightarrow> keyed pf_Name m \<Longrightarrow> keyed pf_Name m'"
proof (induction vs arbitrary: m)
  case (Cons v vs)
  obtain a where a: "indexAnnotations L vs (m(an_Name a \<mapsto> annotationProfile a)) = Inr m'"
    using Cons.prems(1) by (auto simp: bindR_Inr split: if_splits)
  have "keyed pf_Name (m(an_Name a \<mapsto> annotationProfile a))"
    using Cons.prems(2) by (rule keyed_upd) (simp add: annotationProfile_def)
  with Cons.IH a show ?case by blast
qed simp

lemma indexCharts_keyed:
  "indexCharts L vs m = Inr m' \<Longrightarrow> keyed pf_Name m \<Longrightarrow> keyed pf_Name m'"
proof (induction vs arbitrary: m)
  case (Cons v vs)
  then obtain p where "indexCharts L vs (m(pf_Name p \<mapsto> p)) = Inr m'" by (auto simp: bindR_Inr)
  with Cons.IH keyed_upd [OF Cons.prems(2) refl] show ?case by blast
qed simp

lemma template_profiles_distinct:
  assumes "GetProfilesFromTemplate L visit t = Inr ps" "visit_ok visit"
  shows "distinct (map pf_Name ps)"
proof -
  obtain m m' where m: "getProfilesFromAnnotations L visit t = Inr m" "indexCharts L (tm_Charts t) m = Inr m'"
    and ps: "ps = sortSlice (\<lambda>p q. stringLess (pf_Name p) (pf_Name q)) (map (\<lambda>k. the (m' k)) (visit (dom m')))"
    using assms(1) by (auto simp: GetProfilesFromTemplate_def bindR_Inr)
  have "keyed pf_Name m'"
    using m indexAnnotations_keyed indexCharts_keyed keyed_empty
    unfolding getProfilesFromAnnotations_def Let_def by metis
  from keyed_listing(1) [OF this assms(2)] show ?thesis
    unfolding ps by (simp add: sortSlice_map [symmetric] del: map_map)
qed

section \<open>Joining\<close>

lemma overwrite_fields [simp]:
  "pv_Name (overwrite r p) = pv_Name p"
  "pv_Values (overwrite r p) = (if pf_Editable r then pv_Values p else b64Encode (pf_Values r))"
  "pv_Version (overwrite r p) = (if pv_Version p = [] then pf_Version r else pv_Version p)"
  "pv_Layer (overwrite r p) = (if pv_Layer p = [] then pf_Layer r else pv_Layer p)"
  "pv_Namespace (overwrite r p) = (if pv_Namespace p = [] then pf_Namespace r else pv_Namespace p)"
  by (simp_all add: overwrite_def Let_def)

lemma addRequired_keyed: "keyed pv_Name m \<Longrightarrow> keyed pv_Name (addRequired m r)"
  by (auto simp: addRequired_def fromTemplate_def keyed_def split: option.splits if_splits)

lemma dom_addRequired: "dom (addRequired m r) = insert (pf_Name r) (dom m)"
  by (auto simp: addRequired_def split: option.splits)

lemma joined_keyed: "keyed pv_Name (joinProfiles vs rs)"
proof -
  have "keyed pv_Name m \<Longrightarrow> keyed pv_Name (foldl addRequired m rs)" for m
    by (induction rs arbitrary: m) (simp_all add: addRequired_keyed)
  then show ?thesis by (simp add: joinProfiles_def indexProfiles_def keyed_foldl)
qed

lemma dom_joined: "dom (joinProfiles vs rs) = pv_Name ` set vs \<union> pf_Name ` set rs"
proof -
  have "dom (foldl addRequired m rs) = dom m \<union> pf_Name ` set rs" for m
    by (induction rs arbitrary: m) (auto simp: dom_addRequired)
  then show ?thesis by (simp add: joinProfiles_def indexProfiles_def foldl_upd_dom)
qed

lemma addRequired_other: "n \<noteq> pf_Name r \<Longrightarrow> addRequired m r n = m n"
  by (simp add: addRequired_def split: option.split)

lemma joined_template:
  assumes "distinct (map pf_Name rs)" "r \<in> set rs"
  shows "joinProfiles vs rs (pf_Name r) = Some (case indexProfiles vs (pf_Name r) of
    None \<Rightarrow> fromTemplate r | Some p \<Rightarrow> overwrite r p)"
proof -
  have other: "pf_Name r \<notin> pf_Name ` set qs \<Longrightarrow> foldl addRequired m qs (pf_Name r) = m (pf_Name r)" for qs m
    by (induction qs arbitrary: m) (simp_all add: addRequired_other)
  obtain before after where rs: "rs = before @ r # after" using assms(2) by (auto simp: in_set_conv_decomp)
  with assms(1) have "pf_Name r \<notin> pf_Name ` set before" "pf_Name r \<notin> pf_Name ` set after" by auto
  then show ?thesis
    by (simp add: joinProfiles_def rs other addRequired_def split: option.split)
qed

lemma joined_request:
  assumes "n \<notin> pf_Name ` set rs"
  shows "joinProfiles vs rs n = indexProfiles vs n"
proof -
  have "foldl addRequired m rs n = m n" for m
    using assms by (induction rs arbitrary: m) (simp_all add: addRequired_other)
  then show ?thesis by (simp add: joinProfiles_def)
qed

section \<open>Installs\<close>

lemma completeProfile_fields:
  assumes "completeProfile args v = Inr v'"
  shows "pv_Name v' = pv_Name v \<and> pv_Values v' = pv_Values v \<and> pv_Namespace v' = pv_Namespace v \<and>
    (pv_Version v \<noteq> [] \<longrightarrow> pv_Version v' = pv_Version v) \<and> (pv_Layer v \<noteq> [] \<longrightarrow> pv_Layer v' = pv_Layer v) \<and>
    (pv_Version v = [] \<longrightarrow> cc_GetLatestVersion (ga_chartsCache args) (ga_helmRepositoryCluster args) (ga_helmRepository args) (pv_Name v)
      = Inr (pv_Version v'))"
  using assms by (auto simp: completeProfile_def bindR_Inr split: if_splits)

lemma profileInstall_fields:
  assumes "profileInstall X pc repo args ri v = Inr i"
  shows "in_Chart i = pv_Name v \<and> in_Namespace i = pv_Namespace v \<and>
    (pv_Version v \<noteq> [] \<longrightarrow> in_Version i = pv_Version v) \<and> (pv_Layer v \<noteq> [] \<longrightarrow> in_Layer i = pv_Layer v) \<and>
    (pv_Version v = [] \<longrightarrow> cc_GetLatestVersion (ga_chartsCache args) (ga_helmRepositoryCluster args) (ga_helmRepository args) (pv_Name v)
      = Inr (in_Version i)) \<and>
    (\<exists>d s. b64Decode (pv_Values v) = Inr d \<and> pc_Render pc d (ga_parameterValues args) = Inr s \<and> px_ParseYAML X s = Inr (in_Values i))"
proof -
  obtain v' vals tmpl where v': "completeProfile args v = Inr v'"
    and vals: "renderValues X v' pc (ga_parameterValues args) = Inr vals"
    and i: "i = \<lparr> in_Chart = pv_Name v', in_Version = pv_Version v', in_SourceName = hp_Name repo,
         in_SourceNamespace = hp_Namespace repo, in_Layer = pv_Layer v', in_Values = vals,
         in_Namespace = pv_Namespace v', in_ProfileTemplate = tmpl \<rparr>"
    using assms by (auto simp: profileInstall_def bindR_Inr)
  from vals have "\<exists>d s. b64Decode (pv_Values v') = Inr d \<and> pc_Render pc d (ga_parameterValues args) = Inr s \<and> px_ParseYAML X s = Inr vals"
    by (auto simp: renderValues_def ParseValues_def bindR_Inr)
  with completeProfile_fields [OF v'] show ?thesis by (simp add: i)
qed

lemma profile_installs:
  assumes "visit_ok visit" "GetProfilesFromTemplate L visit tmpl = Inr required"
    and "chartInstalls L X visit tmpl pc repo args = Inr installs"
  shows "distinct (map in_Chart installs) \<and>
    in_Chart ` set installs = pv_Name ` set (ga_profileValues args) \<union> pf_Name ` set required \<and>
    (\<forall>i\<in>set installs. \<forall>r\<in>set required. pf_Name r = in_Chart i \<longrightarrow>
      indexProfiles (ga_profileValues args) (in_Chart i) = None \<or> \<not> pf_Editable r \<longrightarrow>
      (\<exists>s. pc_Render pc (pf_Values r) (ga_parameterValues args) = Inr s \<and> px_ParseYAML X s = Inr (in_Values i))) \<and>
    (\<forall>i\<in>set installs. \<forall>p. indexProfiles (ga_profileValues args) (in_Chart i) = Some p \<longrightarrow>
      (pv_Version p \<noteq> [] \<longrightarrow> in_Version i = pv_Version p) \<and>
      ((\<forall>r\<in>set required. pf_Name r = in_Chart i \<longrightarrow> pf_Editable r) \<longrightarrow>
        (\<exists>d s. b64Decode (pv_Values p) = Inr d \<and> pc_Render pc d (ga_parameterValues args) = Inr s \<and> px_ParseYAML X s = Inr (in_Values i))))"
proof -
  let ?index = "joinProfiles (ga_profileValues args) required"
  let ?vs = "map (\<lambda>k. the (?index k)) (visit (dom ?index))"
  have inst: "mapRes (profileInstall X pc repo args (indexRequired required)) ?vs = Inr installs"
    using assms(2,3) by (simp add: chartInstalls_def Let_def del: map_map)
  note names = template_profiles_distinct [OF assms(2,1)]
  note vs = keyed_listing [OF joined_keyed [of "ga_profileValues args" required] assms(1)]
  have "map in_Chart installs = map pv_Name ?vs"
    using inst [unfolded mapRes_Inr] by (induction rule: list_all2_induct) (simp_all add: profileInstall_fields)
  then have charts: "distinct (map in_Chart installs)" "in_Chart ` set installs = pv_Name ` set ?vs"
    using vs(1) by (metis, metis set_map)
  have dom: "pv_Name ` set ?vs = dom ?index"
    using vs(2) keyed_ran [OF joined_keyed [of "ga_profileValues args" required]] by simp
  have source: "\<exists>v. ?index (in_Chart i) = Some v \<and> profileInstall X pc repo args (indexRequired required) v = Inr i"
    if "i \<in> set installs" for i
  proof -
    obtain v where v: "v \<in> set ?vs" "profileInstall X pc repo args (indexRequired required) v = Inr i"
      using mapRes_set [OF inst] \<open>i \<in> set installs\<close> by blast
    then have "v \<in> ran ?index" using vs(2) by simp
    then have "?index (pv_Name v) = Some v" using joined_keyed [of "ga_profileValues args" required]
      by (auto simp: keyed_def ran_def)
    with v(2) profileInstall_fields [OF v(2)] show ?thesis by auto
  qed
  show ?thesis
  proof (intro conjI ballI allI impI)
    show "in_Chart ` set installs = pv_Name ` set (ga_profileValues args) \<union> pf_Name ` set required"
      using charts(2) dom dom_joined by simp
  next
    fix i r assume i: "i \<in> set installs" and r: "r \<in> set required" "pf_Name r = in_Chart i"
      and fixed: "indexProfiles (ga_profileValues args) (in_Chart i) = None \<or> \<not> pf_Editable r"
    obtain v where v: "?index (in_Chart i) = Some v" "profileInstall X pc repo args (indexRequired required) v = Inr i"
      using source [OF i] by blast
    from joined_template [OF names r(1), of "ga_profileValues args"] v(1) fixed r(2)
    have "pv_Values v = b64Encode (pf_Values r)" by (auto simp: fromTemplate_def split: option.splits)
    with profileInstall_fields [OF v(2)] show "\<exists>s. pc_Render pc (pf_Values r) (ga_parameterValues args) = Inr s \<and> px_ParseYAML X s = Inr (in_Values i)"
      by auto
  next
    fix i p assume i: "i \<in> set installs" and p: "indexProfiles (ga_profileValues args) (in_Chart i) = Some p"
    obtain v where v: "?index (in_Chart i) = Some v" "profileInstall X pc repo args (indexRequired required) v = Inr i"
      using source [OF i] by blast
    have joined: "v = p \<and> in_Chart i \<notin> pf_Name ` set required \<or> (\<exists>r\<in>set required. pf_Name r = in_Chart i \<and> v = overwrite r p)"
    proof (cases "in_Chart i \<in> pf_Name ` set required")
      case True
      then obtain r where r: "r \<in> set required" "pf_Name r = in_Chart i" by auto
      with joined_template [OF names r(1), of "ga_profileValues args"] v(1) p show ?thesis by auto
    next
      case False
      with joined_request [OF False, of "ga_profileValues args"] v(1) p show ?thesis by simp
    qed
    show "pv_Version p \<noteq> [] \<Longrightarrow> in_Version i = pv_Version p"
      using joined profileInstall_fields [OF v(2)] by auto
    show "\<exists>d s. b64Decode (pv_Values p) = Inr d \<and> pc_Render pc d (ga_parameterValues args) = Inr s \<and> px_ParseYAML X s = Inr (in_Values i)"
      if "\<forall>r\<in>set required. pf_Name r = in_Chart i \<longrightarrow> pf_Editable r"
      using joined that profileInstall_fields [OF v(2)] by auto
  qed (use charts in simp)
qed

text \<open>C22: Every profile of the request or of the template is installed once. The values of the template
  are used when the profile is not editable or not asked for, those of the request otherwise, and a
  version that the request names is the one that is installed.\<close>

theorem profile_installs_spec:
  assumes "visit_ok visit" "GetProfilesFromTemplate L visit tmpl = Inr required"
    and "chartInstalls L X visit tmpl pc repo args = Inr installs"
  shows "distinct (map in_Chart installs) \<and>
    in_Chart ` set installs = pv_Name ` set (ga_profileValues args) \<union> pf_Name ` set required \<and>
    (\<forall>i\<in>set installs. \<forall>r\<in>set required. pf_Name r = in_Chart i \<longrightarrow>
      indexProfiles (ga_profileValues args) (in_Chart i) = None \<or> \<not> pf_Editable r \<longrightarrow>
      (\<exists>s. pc_Render pc (pf_Values r) (ga_parameterValues args) = Inr s \<and> px_ParseYAML X s = Inr (in_Values i))) \<and>
    (\<forall>i\<in>set installs. \<forall>p. indexProfiles (ga_profileValues args) (in_Chart i) = Some p \<longrightarrow>
      (pv_Version p \<noteq> [] \<longrightarrow> in_Version i = pv_Version p) \<and>
      ((\<forall>r\<in>set required. pf_Name r = in_Chart i \<longrightarrow> pf_Editable r) \<longrightarrow>
        (\<exists>d s. b64Decode (pv_Values p) = Inr d \<and> pc_Render pc d (ga_parameterValues args) = Inr s \<and> px_ParseYAML X s = Inr (in_Values i))))"
  by (rule profile_installs [OF assms])

definition echoLib :: "unit tlib" where
  "echoLib = \<lparr> tl_JSONToYAML = Inr, tl_Decode = (\<lambda>_. Inl (err ''no object'')), tl_Marshal = (\<lambda>_. Inr []),
     tl_ParseText = (\<lambda>_ _ _. Inr []), tl_Execute = (\<lambda>_ _ _. Inr []), tl_Process = (\<lambda>s _. Inr s), tl_GetVariables = (\<lambda>_. Inr []),
     tl_RESTMapping = (\<lambda>_. NoKindMatch), tl_UnmarshalProfile = (\<lambda>_. Inl (err ''no profile'')), tl_MarshalRaw = Inr \<rparr>"

definition echoCodec :: "(string, unit) profile_codec" where
  "echoCodec = \<lparr> px_ParseYAML = Inr, px_MarshalJSON = Inr, px_UnmarshalRelease = (\<lambda>_ r. Inr r), px_MarshalRelease = (\<lambda>r. Inr (hl_Name r)),
     px_MarshalRepository = (\<lambda>h. Inr (hp_Name h)) \<rparr>"

definition cniChart :: chart_item where
  "cniChart = \<lparr> ch_Chart = ''cni'', ch_Version = ''1'', ch_TargetNamespace = [], ch_Layer = ''layer-0'', ch_Required = True, ch_Editable = False,
     ch_Values = Some ''x: 1'', ch_TemplateContent = None, ch_TemplatePath = [] \<rparr>"

definition clusterTemplate :: template where
  "clusterTemplate = \<lparr> tm_Name = ''t'', tm_Namespace = ''default'', tm_Kind = CAPIKind, tm_Annotations = Map.empty, tm_Labels = Map.empty,
     tm_RenderType = [], tm_Description = [], tm_ResourceTemplates = [], tm_Params = [], tm_Charts = [cniChart], tm_HelmRepositoryPath = [] \<rparr>"

definition cniProfile :: TemplateProfile where
  "cniProfile = \<lparr> pf_Name = ''cni'', pf_Version = ''1'', pf_Namespace = [], pf_Layer = ''layer-0'', pf_Required = True, pf_Editable = False,
     pf_Values = ''x: 1'', pf_ProfileTemplate = [] \<rparr>"

definition appValues :: ProfileValues where
  "appValues = \<lparr> pv_Name = ''app'', pv_Version = ''2'', pv_Values = b64Encode ''y: 2'', pv_Layer = ''layer-1'', pv_Namespace = [] \<rparr>"

definition hackedValues :: ProfileValues where
  "hackedValues = \<lparr> pv_Name = ''cni'', pv_Version = [], pv_Values = b64Encode ''x: 9'', pv_Layer = [], pv_Namespace = [] \<rparr>"

definition sampleArgs :: profile_args where
  "sampleArgs = \<lparr> ga_helmRepositoryCluster = createNamespacedName ''mgmt'' [], ga_helmRepository = createNamespacedName ''charts'' ''flux-system'',
     ga_chartsCache = \<lparr> cc_GetLatestVersion = (\<lambda>_ _ _. Inr ''9''), cc_GetLayer = (\<lambda>_ _ _ _. Inr []) \<rparr>,
     ga_profileValues = [appValues, hackedValues], ga_parameterValues = Map.empty \<rparr>"

definition sampleRepo :: "unit helm_repository" where
  "sampleRepo = \<lparr> hp_Name = ''charts'', hp_Namespace = ''flux-system'', hp_Spec = () \<rparr>"

lemma visit_ok_sample: "visit_ok sorted_list_of_set"
  by (simp add: visit_ok_def)

lemma sample_required: "GetProfilesFromTemplate echoLib sorted_list_of_set clusterTemplate = Inr [cniProfile]"
proof -
  have "dom (ProfileAnnotations clusterTemplate) = {}"
    by (auto simp: ProfileAnnotations_def clusterTemplate_def split: if_splits)
  then have "getProfilesFromAnnotations echoLib sorted_list_of_set clusterTemplate = Inr Map.empty"
    unfolding getProfilesFromAnnotations_def Let_def by simp
  moreover have "indexCharts echoLib (tm_Charts clusterTemplate) Map.empty = Inr [''cni'' \<mapsto> cniProfile]"
    by (simp add: clusterTemplate_def cniChart_def chartProfile_def echoLib_def cniProfile_def)
  ultimately show ?thesis
    by (simp add: GetProfilesFromTemplate_def sortSlice_def)
qed

definition sampleInstallList :: "string ChartInstall list res" where
  "sampleInstallList = chartInstalls echoLib echoCodec sorted_list_of_set clusterTemplate (NewEnvsubstTemplateProcessor echoLib) sampleRepo sampleArgs"

lemma sample_install_list: "sampleInstallList = Inr
   [\<lparr> in_Chart = ''app'', in_Version = ''2'', in_SourceName = ''charts'', in_SourceNamespace = ''flux-system'', in_Layer = ''layer-1'',
      in_Values = ''y: 2'', in_Namespace = [], in_ProfileTemplate = [] \<rparr>,
    \<lparr> in_Chart = ''cni'', in_Version = ''1'', in_SourceName = ''charts'', in_SourceNamespace = ''flux-system'', in_Layer = ''layer-0'',
      in_Values = ''x: 1'', in_Namespace = [], in_ProfileTemplate = [] \<rparr>]"
proof -
  have index: "joinProfiles (ga_profileValues sampleArgs) [cniProfile] = [''app'' \<mapsto> appValues, ''cni'' \<mapsto> overwrite cniProfile hackedValues]"
    by (simp add: joinProfiles_def sampleArgs_def indexProfiles_def addRequired_def appValues_def hackedValues_def cniProfile_def)
  have "dom (joinProfiles (ga_profileValues sampleArgs) [cniProfile]) = {''app'', ''cni''}" unfolding index by auto
  moreover have "sorted_list_of_set {''app'', ''cni''} = [''app'', ''cni'']" by (simp add: less_list_code)
  ultimately have visited: "map (\<lambda>k. the (joinProfiles (ga_profileValues sampleArgs) [cniProfile] k))
      (sorted_list_of_set (dom (joinProfiles (ga_profileValues sampleArgs) [cniProfile]))) = [appValues, overwrite cniProfile hackedValues]"
    by (simp add: index)
  note fields = profileInstall_def completeProfile_def renderValues_def ParseValues_def envsubst_Render_def NewEnvsubstTemplateProcessor_def
    echoLib_def echoCodec_def sampleArgs_def sampleRepo_def indexRequired_def
  have app: "profileInstall echoCodec (NewEnvsubstTemplateProcessor echoLib) sampleRepo sampleArgs (indexRequired [cniProfile]) appValues = Inr
     \<lparr> in_Chart = ''app'', in_Version = ''2'', in_SourceName = ''charts'', in_SourceNamespace = ''flux-system'', in_Layer = ''layer-1'',
      in_Values = ''y: 2'', in_Namespace = [], in_ProfileTemplate = [] \<rparr>"
    by (simp add: fields appValues_def cniProfile_def)
  have cni: "profileInstall echoCodec (NewEnvsubstTemplateProcessor echoLib) sampleRepo sampleArgs (indexRequired [cniProfile]) (overwrite cniProfile hackedValues) = Inr
     \<lparr> in_Chart = ''cni'', in_Version = ''1'', in_SourceName = ''charts'', in_SourceNamespace = ''flux-system'', in_Layer = ''layer-0'',
      in_Values = ''x: 1'', in_Namespace = [], in_ProfileTemplate = [] \<rparr>"
    by (simp add: fields overwrite_def hackedValues_def cniProfile_def)
  show ?thesis
    unfolding sampleInstallList_def chartInstalls_def sample_required Let_def
    by (simp only: bindR_simps visited mapRes.simps app cni sum.case)
qed

theorem profile_installs_spec_witness:
  "\<exists>installs. sampleInstallList = Inr installs \<and> in_Chart ` set installs = {''app'', ''cni''} \<and>
     (\<forall>i\<in>set installs. in_Chart i = ''cni'' \<longrightarrow> in_Values i = ''x: 1'')"
proof -
  obtain installs where ok: "sampleInstallList = Inr installs" using sample_install_list by blast
  note spec = profile_installs_spec [OF visit_ok_sample sample_required ok [unfolded sampleInstallList_def]]
  have "in_Chart ` set installs = {''app'', ''cni''}"
    using spec [THEN conjunct2, THEN conjunct1] by (auto simp: sampleArgs_def appValues_def hackedValues_def cniProfile_def)
  moreover have "in_Values i = ''x: 1''" if "i \<in> set installs" "in_Chart i = ''cni''" for i
    using spec [THEN conjunct2, THEN conjunct2, THEN conjunct1] that
    by (auto simp: cniProfile_def echoCodec_def envsubst_Render_def NewEnvsubstTemplateProcessor_def echoLib_def)
  ultimately show ?thesis using ok by blast
qed

section \<open>Files\<close>

lemma addReleases_spec:
  assumes "addReleases X t dp rs m = Inr m'"
  shows "(\<forall>k bs. m k = Some bs \<longrightarrow> (\<exists>cs. m' k = Some (bs @ cs))) \<and>
    (\<forall>r\<in>set rs. \<exists>d ds. px_MarshalRelease X r = Inr d \<and> m' (releasePath t dp (hl_Name r)) = Some ds \<and> d \<in> set ds)"
  using assms
proof (induction rs arbitrary: m)
  case (Cons r rs)
  let ?path = "releasePath t dp (hl_Name r)"
  obtain b where b: "px_MarshalRelease X r = Inr b" "addReleases X t dp rs (appendAt m ?path b) = Inr m'"
    using Cons.prems by (auto simp: bindR_Inr)
  note IH = Cons.IH [OF b(2)]
  have "\<exists>bs. appendAt m ?path b ?path = Some (bs @ [b])" by (simp add: appendAt_def)
  with IH have head: "\<exists>ds. m' ?path = Some ds \<and> b \<in> set ds" by fastforce
  have "\<exists>cs. m' k = Some (bs @ cs)" if "m k = Some bs" for k bs
  proof -
    have "\<exists>cs. appendAt m ?path b k = Some (bs @ cs)" using that by (auto simp: appendAt_def)
    with IH show ?thesis by (metis append.assoc)
  qed
  with IH head b(1) show ?case by auto
qed simp

lemma addReleases_finite: "addReleases X t dp rs m = Inr m' \<Longrightarrow> finite (dom m) \<Longrightarrow> finite (dom m')"
  by (induction rs arbitrary: m) (auto simp: bindR_Inr appendAt_def)

text \<open>The profile template of an install is empty or rendered from that of a profile of the template.\<close>

lemma indexRequired_in: "indexRequired required n = Some p \<Longrightarrow> p \<in> set required"
  by (induction required rule: rev_induct) (auto simp: indexRequired_def split: if_splits)

lemma install_template:
  assumes "GetProfilesFromTemplate L visit tmpl = Inr required" "chartInstalls L X visit tmpl pc repo args = Inr installs"
    and "i \<in> set installs" "in_ProfileTemplate i \<noteq> []"
  shows "\<exists>p\<in>set required. pc_Render pc (pf_ProfileTemplate p) (ga_parameterValues args) = Inr (in_ProfileTemplate i)"
proof -
  obtain v where "profileInstall X pc repo args (indexRequired required) v = Inr i"
    using assms(2,3) mapRes_set by (fastforce simp: chartInstalls_def Let_def assms(1) bindR_Inr wrapR_Inr)
  then show ?thesis using assms(4)
    by (auto simp: profileInstall_def bindR_Inr wrapR_Inr split: option.split_asm) (blast dest: indexRequired_in)
qed

text \<open>C23: When no profile template of the template sets the name of a release, every profile of the
  request or of the template has a Helm release of its name in the file at its path: that of the
  template's chart with its name, or the profiles file of the cluster.\<close>

theorem profile_files_complete:
  assumes "visit_ok visit" "GetProfilesFromTemplate L visit tmpl = Inr required" "NewProcessorForTemplate L tmpl = Inr tp"
    and "\<forall>p\<in>set required. \<forall>t. pc_Render (tp_Processor tp) (pf_ProfileTemplate p) (ga_parameterValues args) = Inr t \<longrightarrow> t \<noteq> [] \<longrightarrow>
      setsNoName (px_UnmarshalRelease X) t"
    and "generateProfileFiles L X visit cfg tmpl cluster repo args = Inr files"
    and "n \<in> pv_Name ` set (ga_profileValues args) \<union> pf_Name ` set required"
  shows "\<exists>r d f docs. hl_Name r = n \<and> px_MarshalRelease X r = Inr d \<and> f \<in> set files \<and>
    cf_Content f = Some (joinStr separator docs) \<and> d \<in> set docs \<and>
    pc_Render (tp_Processor tp) (releasePath tmpl (getClusterProfilesPath cfg cluster) n) (ga_parameterValues args) = Inr (cf_Path f)"
proof -
  let ?dp = "getClusterProfilesPath cfg cluster" and ?pc = "tp_Processor tp"
  obtain installs releases byPath fs where installs: "chartInstalls L X visit tmpl ?pc repo args = Inr installs"
    and releases: "MakeHelmReleasesInLayers (px_MarshalJSON X) (px_UnmarshalRelease X) visit HelmReleaseNamespace installs = Inr releases"
    and byPath: "createProfileYAML X repo releases tmpl ?dp = Inr byPath"
    and fs: "mapRes (profileFile ?pc (ga_parameterValues args) byPath) (visit (dom byPath)) = Inr fs" "set files = set fs"
    using assms(5) by (auto simp: generateProfileFiles_def Let_def bindR_Inr assms(3))
  obtain m where add: "addReleases X tmpl ?dp releases m = Inr byPath" "finite (dom m)"
    using byPath by (auto simp: createProfileYAML_def Let_def bindR_Inr appendAt_def)
  have "n \<in> in_Chart ` set installs"
    using profile_installs [OF assms(1,2) installs] assms(6) by blast
  moreover have "namesKept (px_UnmarshalRelease X) installs"
    unfolding namesKept_def using install_template [OF assms(2) installs] assms(4) by blast
  ultimately obtain r where r: "r \<in> set releases" "hl_Name r = n"
    using layer_releases(1) [OF _ assms(1) releases] by force
  then obtain d ds where d: "px_MarshalRelease X r = Inr d" "byPath (releasePath tmpl ?dp n) = Some ds" "d \<in> set ds"
    using addReleases_spec [OF add(1)] by blast
  have "finite (dom byPath)" by (rule addReleases_finite [OF add])
  then have "releasePath tmpl ?dp n \<in> set (visit (dom byPath))"
    using assms(1) d(2) by (auto simp: visit_ok_def)
  then obtain f where f: "f \<in> set files" "profileFile ?pc (ga_parameterValues args) byPath (releasePath tmpl ?dp n) = Inr f"
    using mapRes_ok [OF fs(1)] mapRes_set [OF fs(1)] fs(2) by metis
  from f(2) d(2) have "cf_Content f = Some (joinStr separator ds)"
    "pc_Render ?pc (releasePath tmpl ?dp n) (ga_parameterValues args) = Inr (cf_Path f)"
    by (auto simp: profileFile_def bindR_Inr)
  with r f(1) d show ?thesis by blast
qed

definition sampleFiles :: "commit_file list res" where
  "sampleFiles = generateProfileFiles echoLib echoCodec sorted_list_of_set (\<lambda>_. ''clusters'') clusterTemplate (createNamespacedName ''c'' ''ns'') sampleRepo sampleArgs"

lemma sample_processor: "NewProcessorForTemplate echoLib clusterTemplate =
    Inr \<lparr> tp_Template = clusterTemplate, tp_Processor = NewEnvsubstTemplateProcessor echoLib \<rparr>"
  by (simp add: NewProcessorForTemplate_def clusterTemplate_def)

lemma sample_path: "getClusterProfilesPath (\<lambda>_. ''clusters'') (createNamespacedName ''c'' ''ns'') = ''clusters/ns/c/profiles.yaml''"
  by code_simp

lemma echo_releases: "isOk (MakeHelmReleasesInLayers (px_MarshalJSON echoCodec) (px_UnmarshalRelease echoCodec) sorted_list_of_set HelmReleaseNamespace installs)"
proof -
  have "isOk (makeRelease Inr (\<lambda>_ r. Inr r) HelmReleaseNamespace m layer v)" for m layer and v :: "string ChartInstall"
    by (simp add: makeRelease_def Let_def)
  then show ?thesis
    by (simp add: MakeHelmReleasesInLayers_def Let_def isOk_bindR mapRes_ok_iff isOk_iff [symmetric] echoCodec_def isOk_iff [where r = "mapRes _ _"])
qed

lemma echo_addReleases: "isOk (addReleases echoCodec t dp rs m)"
  by (induction rs arbitrary: m) (simp_all add: echoCodec_def)

lemma echo_yaml: "isOk (createProfileYAML echoCodec sampleRepo rs clusterTemplate dp)"
  using echo_addReleases by (simp add: createProfileYAML_def Let_def isOk_bindR) (simp add: echoCodec_def)

lemma echo_files: "isOk (mapRes (profileFile (NewEnvsubstTemplateProcessor echoLib) vars byPath) ps)"
  by (simp add: isOk_iff [where r = "mapRes _ _"] mapRes_ok_iff profileFile_def NewEnvsubstTemplateProcessor_def
      envsubst_Render_def echoLib_def)

lemma sample_files: "isOk sampleFiles"
proof -
  obtain installs where installs: "sampleInstallList = Inr installs" using sample_install_list by blast
  obtain rs where rs: "MakeHelmReleasesInLayers (px_MarshalJSON echoCodec) (px_UnmarshalRelease echoCodec) sorted_list_of_set
      HelmReleaseNamespace installs = Inr rs"
    by (rule isOkE [OF echo_releases])
  obtain byPath where byPath: "createProfileYAML echoCodec sampleRepo rs clusterTemplate
      (getClusterProfilesPath (\<lambda>_. ''clusters'') (createNamespacedName ''c'' ''ns'')) = Inr byPath"
    by (rule isOkE [OF echo_yaml])
  obtain fs where fs: "mapRes (profileFile (NewEnvsubstTemplateProcessor echoLib) (ga_parameterValues sampleArgs) byPath)
      (sorted_list_of_set (dom byPath)) = Inr fs"
    by (rule isOkE [OF echo_files])
  show ?thesis
    unfolding sampleFiles_def generateProfileFiles_def sample_processor
    by (simp only: Let_def bindR_simps TemplateProcessor.simps installs [unfolded sampleInstallList_def] rs byPath fs isOk_simps)
qed

theorem profile_files_complete_witness:
  "\<exists>files f docs. sampleFiles = Inr files \<and> f \<in> set files \<and> cf_Path f = ''clusters/ns/c/profiles.yaml'' \<and>
     cf_Content f = Some (joinStr separator docs) \<and> ''app'' \<in> set docs"
proof -
  obtain files where files: "sampleFiles = Inr files" by (rule isOkE [OF sample_files])
  have keeps: "\<forall>p\<in>set [cniProfile]. \<forall>t. pc_Render (tp_Processor \<lparr> tp_Template = clusterTemplate, tp_Processor = NewEnvsubstTemplateProcessor echoLib \<rparr>)
      (pf_ProfileTemplate p) (ga_parameterValues sampleArgs) = Inr t \<longrightarrow> t \<noteq> [] \<longrightarrow> setsNoName (px_UnmarshalRelease echoCodec) t"
    by (simp add: setsNoName_def echoCodec_def)
  have mem: "''app'' \<in> pv_Name ` set (ga_profileValues sampleArgs) \<union> pf_Name ` set [cniProfile]"
    by (simp add: sampleArgs_def appValues_def)
  note spec = profile_files_complete [OF visit_ok_sample sample_required sample_processor keeps files [unfolded sampleFiles_def] mem]
  obtain r d f docs where r: "hl_Name r = ''app''" "px_MarshalRelease echoCodec r = Inr d" and f: "f \<in> set files"
    "cf_Content f = Some (joinStr separator docs)" "d \<in> set docs"
    and path: "pc_Render (tp_Processor \<lparr> tp_Template = clusterTemplate, tp_Processor = NewEnvsubstTemplateProcessor echoLib \<rparr>)
      (releasePath clusterTemplate (getClusterProfilesPath (\<lambda>_. ''clusters'') (createNamespacedName ''c'' ''ns'')) ''app'')
      (ga_parameterValues sampleArgs) = Inr (cf_Path f)"
    using spec by (elim exE conjE) (rule that)
  from path have "cf_Path f = ''clusters/ns/c/profiles.yaml''"
    by (simp add: sample_path releasePath_def clusterTemplate_def cniChart_def NewEnvsubstTemplateProcessor_def envsubst_Render_def echoLib_def)
  moreover have "d = ''app''" using r by (simp add: echoCodec_def)
  ultimately show ?thesis using files f by (intro exI [of _ files] exI [of _ f] exI [of _ docs] conjI) simp_all
qed

end
