(* ===== verification/TemplateServerFacts.thy ===== *)
theory TemplateServerFacts
  imports TemplateHandlers TemplateFacts ProfileFacts
begin

text \<open>
  Where GetFiles puts the rendered resources, and with which values: a default for the
  name of the cluster is respected, one for its namespace is not.
\<close>

lemma annotateFirst_names: "annotateFirst E items = Inr items' \<Longrightarrow> map ri_filename items' = map ri_filename items"
  by (auto simp: annotateFirst_def bindR_Inr split: list.splits)

definition itemPath :: "config \<Rightarrow> string \<Rightarrow> (string \<rightharpoonup> string) option \<Rightarrow> RenderedTemplate \<Rightarrow> string res" where
  "itemPath cfg ns vals rendered = (if rd_Path rendered = [] then getDefaultPath cfg ns vals else Inr (rd_Path rendered))"

lemma renderItem_path:
  "renderItem E client req ns msg rendered = Inr item \<Longrightarrow> itemPath (re_config E) ns (fr_ParameterValues msg) rendered = Inr (ri_filename item)"
  by (auto simp: renderItem_def itemPath_def Let_def bindR_Inr split: if_splits)

lemma filesOf_paths:
  assumes "filesOf E est client cache rc repo t ns req msg rendered = Inr r"
  shows "list_all2 (\<lambda>x f. itemPath (re_config E) ns (fr_ParameterValues msg) x = Inr (cf_Path f)) rendered (gr_RenderedTemplate r)"
proof -
  obtain items items' where items: "mapRes (renderItem E client req ns msg) rendered = Inr items" "annotateFirst E items = Inr items'"
    and r: "gr_RenderedTemplate r = map itemFile items'"
    using assms by (auto simp: filesOf_def Let_def bindR_Inr)
  have "map (\<lambda>i. cf_Path (itemFile i)) items' = map ri_filename items"
    using annotateFirst_names [OF items(2)] by (simp add: itemFile_def)
  then have paths: "list_all2 (\<lambda>i i'. cf_Path (itemFile i') = ri_filename i) items items'"
    unfolding list_all2_conv_all_nth by (metis (no_types, lifting) length_map nth_map)
  have "list_all2 (\<lambda>x i. itemPath (re_config E) ns (fr_ParameterValues msg) x = Inr (ri_filename i)) rendered items"
    using items(1) [unfolded mapRes_Inr] by (rule list_all2_mono) (rule renderItem_path)
  from list_all2_trans [OF _ this paths, of "\<lambda>x i'. itemPath (re_config E) ns (fr_ParameterValues msg) x = Inr (cf_Path (itemFile i'))"]
  show ?thesis unfolding r by (simp add: list_all2_map2)
qed

lemma render_paths:
  assumes "RenderTemplates L visit p opts vals = (Inr rendered, vals')" "\<forall>rt\<in>set (tm_ResourceTemplates (tp_Template p)). rt_Path rt = []"
  shows "\<forall>x\<in>set rendered. rd_Path x = []"
proof -
  obtain vars where "mapRes (renderResource L opts p vars) (tm_ResourceTemplates (tp_Template p)) = Inr rendered"
    using assms(1) by (auto simp: RenderTemplates_def split: sum.splits prod.splits option.splits)
  with assms(2) show ?thesis
    by (auto simp: mapRes_set renderResource_def Let_def bindR_Inr split: option.splits)
qed

lemma GetFiles_ok:
  assumes "GetFiles E est client mapper cache rc repo t req msg = (Inr r, vals')"
  obtains tp opts rendered where "NewProcessorForTemplate (re_tlib E) t = Inr tp"
    "RenderTemplates (re_tlib E) (re_visit E) tp opts (fr_ParameterValues msg) = (Inr rendered, vals')"
    "filesOf E est client cache rc repo t (getClusterNamespace (re_config E) (mread (fr_ParameterValues msg) ''NAMESPACE'')) req
      (msg\<lparr> fr_ParameterValues := vals' \<rparr>) rendered = Inr r"
  using assms unfolding GetFiles_def renderTemplateWithValues_def Let_def
  by (auto split: sum.splits prod.splits simp: newErr_def)

text \<open>When the request leaves the parameter NAMESPACE out and the template declares a default for it,
  the template is rendered with the default, but its files are put into the directory of the
  configured namespace.\<close>

theorem default_namespace_ignored:
  assumes "visit_ok (re_visit E)" "finite (dom (tm_Annotations t))"
    and "GetFiles E est client mapper cache rc repo t req msg = (Inr r, Some vals')"
    and "mread (fr_ParameterValues msg) ''NAMESPACE'' = []"
    and "ParamsFromTemplate (re_tlib E) (re_visit E) t = Inr ps" "q \<in> set ps" "pa_Name q = ''NAMESPACE''" "pa_Default q \<noteq> []"
    and "\<forall>rt\<in>set (tm_ResourceTemplates t). rt_Path rt = []"
  shows "vals' ''NAMESPACE'' = Some (pa_Default q) \<and>
    (\<forall>f\<in>set (gr_RenderedTemplate r). \<exists>name. cf_Path f =
      getClusterManifestPath (re_config E) (createNamespacedName name (getClusterNamespace (re_config E) [])))"
proof -
  obtain tp opts rendered where tp: "NewProcessorForTemplate (re_tlib E) t = Inr tp"
    and rend: "RenderTemplates (re_tlib E) (re_visit E) tp opts (fr_ParameterValues msg) = (Inr rendered, Some vals')"
    and files: "filesOf E est client cache rc repo t (getClusterNamespace (re_config E) []) req
      (msg\<lparr> fr_ParameterValues := Some vals' \<rparr>) rendered = Inr r"
    using assms(3,4) by (elim GetFiles_ok) simp
  have t: "tp_Template tp = t" using tp by (auto simp: NewProcessorForTemplate_def Let_def split: if_splits)
  have ps: "Params (re_visit E) tp = Inr ps" using assms(5) tp by (simp add: ParamsFromTemplate_def)
  have fin: "finite (dom (tm_Annotations (tp_Template tp)))" using assms(2) t by simp
  obtain params vars where v: "Params (re_visit E) tp = Inr params" "map_option (\<lambda>_. vars) (fr_ParameterValues msg) = Some vals'"
    "\<forall>q\<in>set params. vars (pa_Name q) = Some (valueOf (given (fr_ParameterValues msg)) q)"
    using render_all [OF assms(1) fin rend] by metis
  have "vars = vals'" using v(2) by auto
  moreover have "valueOf (given (fr_ParameterValues msg)) q = pa_Default q"
    using assms(4,7) by (auto simp: valueOf_def given_def mread_def split: option.splits)
  ultimately have val: "vals' ''NAMESPACE'' = Some (pa_Default q)" using v(1,3) ps assms(6,7) by auto
  have empty: "\<forall>x\<in>set rendered. rd_Path x = []" by (rule render_paths [OF rend]) (simp add: t assms(9))
  have path: "\<exists>name. cf_Path f = getClusterManifestPath (re_config E) (createNamespacedName name (getClusterNamespace (re_config E) []))"
    if f: "f \<in> set (gr_RenderedTemplate r)" for f
  proof -
    obtain x where "x \<in> set rendered" "itemPath (re_config E) (getClusterNamespace (re_config E) []) (Some vals') x = Inr (cf_Path f)"
      using list_all2_right [OF filesOf_paths [OF files] f] by auto
    with empty have "\<exists>name. getClusterManifestPath (re_config E) (createNamespacedName name (getClusterNamespace (re_config E) [])) = cf_Path f"
      by (auto simp: itemPath_def getDefaultPath_def getCluster_def Let_def bindR_Inr split: if_splits)
    then show ?thesis by metis
  qed
  from val path show ?thesis by blast
qed

definition docLib :: "unit tlib" where
  "docLib = echoLib\<lparr> tl_GetVariables := (\<lambda>s. Inr (if s = ''doc'' then [''CLUSTER_NAME'', ''NAMESPACE''] else [])),
     tl_Decode := (\<lambda>_. Inr \<lparr> u_Gvk = \<lparr> gvk_Group = [], gvk_Version = ''v1'', gvk_Kind = ''ConfigMap'' \<rparr>, u_Name = [], u_Namespace = [],
       u_Labels = Map.empty, u_Annotations = Inr Map.empty, u_Rest = () \<rparr>) \<rparr>"

definition docTemplate :: template where
  "docTemplate = clusterTemplate\<lparr> tm_Kind := GitOpsKind, tm_Charts := [],
     tm_ResourceTemplates := [\<lparr> rt_Content = Some [''doc''], rt_Raw = [], rt_Path = [] \<rparr>],
     tm_Params := [(newParam ''NAMESPACE'')\<lparr> pa_Default := ''prod'' \<rparr>] \<rparr>"

definition docKyaml :: "string cred_kyaml" where
  "docKyaml = \<lparr> ky_Parse = Inr, ky_Kind = (\<lambda>_. Inr []), ky_APIVersion = (\<lambda>_. Inr []), ky_HasAnnotations = (\<lambda>_. Inr False),
     ky_AddAnnotations = Inr, ky_SetAnnotation = (\<lambda>_ _ y. Inr y), ky_String = id, ky_SetIdentityRef = (\<lambda>_ y. Inr y), ky_Remarshal = Inr \<rparr>"

definition docEnv :: "(unit, string, unit, string) render_env" where
  "docEnv = \<lparr> re_tlib = docLib, re_codec = echoCodec, re_yaml = \<lparr> ym_Kustomization = (\<lambda>_. Inr []), ym_Namespace = Inr \<rparr>,
     re_kyaml = docKyaml, re_IsDNS1123Subdomain = (\<lambda>_. []), re_visit = sorted_list_of_set,
     re_config = (\<lambda>k. if k = ''capi-repository-path'' then ''repo'' else []), re_MarshalFiles = (\<lambda>_. Inr ''{}''), re_ErrorText = (\<lambda>_. []) \<rparr>"

definition docRequest :: "unit files_request" where
  "docRequest = \<lparr> fr_TemplateName = ''t'', fr_ParameterValues = Some [''CLUSTER_NAME'' \<mapsto> ''c''], fr_Credentials = None, fr_Profiles = [],
     fr_Kustomizations = [], fr_HelmRepository = None \<rparr>"

definition docFiles :: "unit cost_estimate GetFilesReturn res \<times> (string \<rightharpoonup> string) option" where
  "docFiles = GetFiles docEnv (\<lambda>_. Inr None) None None (ga_chartsCache sampleArgs) (createNamespacedName ''m'' []) (createNamespacedName ''charts'' ''flux-system'')
     docTemplate None docRequest"

lemma doc_params: "ParamsFromTemplate docLib sorted_list_of_set docTemplate =
    Inr [(newParam ''NAMESPACE'')\<lparr> pa_Default := ''prod'' \<rparr>, newParam ''CLUSTER_NAME'']"
proof -
  let ?tp = "\<lparr> tp_Template = docTemplate, tp_Processor = NewEnvsubstTemplateProcessor docLib \<rparr>"
  have tp: "NewProcessorForTemplate docLib docTemplate = Inr ?tp"
    by (simp add: NewProcessorForTemplate_def docTemplate_def clusterTemplate_def)
  have sorted: "sortedSet [''CLUSTER_NAME'', ''NAMESPACE''] = [''CLUSTER_NAME'', ''NAMESPACE'']" "sortedSet [] = []"
    by (simp_all add: sortedSet_def sortSlice_def)
  have d: "discoveredNames sorted_list_of_set ?tp = Inr [''CLUSTER_NAME'', ''NAMESPACE'']"
    by (simp add: discoveredNames_def docTemplate_def clusterTemplate_def docLib_def echoLib_def resourceNames_def NewEnvsubstTemplateProcessor_def
      envsubst_ParamNames_def bothRawAndContent_def namesIn_def contents_def ProfileAnnotations_def dom_def sorted)
  have "dom (paramsMeta (tm_Params docTemplate) [''CLUSTER_NAME'', ''NAMESPACE'']) = {''CLUSTER_NAME'', ''NAMESPACE''}"
    by (auto simp: paramsMeta_eq split: if_splits)
  moreover have "sorted_list_of_set {''CLUSTER_NAME'', ''NAMESPACE''} = [''CLUSTER_NAME'', ''NAMESPACE'']"
    by (simp add: less_list_code)
  ultimately have "Params sorted_list_of_set ?tp = Inr [(newParam ''NAMESPACE'')\<lparr> pa_Default := ''prod'' \<rparr>, newParam ''CLUSTER_NAME'']"
    unfolding Params_def d
    by (simp add: paramsMeta_eq docTemplate_def clusterTemplate_def described_def newParam_def sortSlice_def paramLess_def paramOrders_def)
  then show ?thesis by (simp add: ParamsFromTemplate_def tp)
qed

definition docValues :: "string \<rightharpoonup> string" where
  "docValues = [''CLUSTER_NAME'' \<mapsto> ''c'', ''NAMESPACE'' \<mapsto> ''prod'']"

lemma doc_processor: "NewProcessorForTemplate docLib docTemplate = Inr \<lparr> tp_Template = docTemplate, tp_Processor = NewEnvsubstTemplateProcessor docLib \<rparr>"
  by (simp add: NewProcessorForTemplate_def docTemplate_def clusterTemplate_def)

lemma doc_rendered:
  "RenderTemplates docLib sorted_list_of_set \<lparr> tp_Template = docTemplate, tp_Processor = NewEnvsubstTemplateProcessor docLib \<rparr> [InjectLabels labels]
     (Some [''CLUSTER_NAME'' \<mapsto> ''c'']) = (Inr [\<lparr> rd_Data = [[]], rd_Path = [] \<rparr>], Some docValues)"
proof -
  have "Params sorted_list_of_set \<lparr> tp_Template = docTemplate, tp_Processor = NewEnvsubstTemplateProcessor docLib \<rparr> =
      Inr [(newParam ''NAMESPACE'')\<lparr> pa_Default := ''prod'' \<rparr>, newParam ''CLUSTER_NAME'']"
    using doc_params by (simp add: ParamsFromTemplate_def doc_processor)
  then show ?thesis
    by (simp add: RenderTemplates_def newParam_def renderResource_def bothRawAndContent_def renderContent_def contents_def docTemplate_def
      clusterTemplate_def processUnstructured_def InjectLabels_def docLib_def echoLib_def NewEnvsubstTemplateProcessor_def envsubst_Render_def
      docValues_def fun_upd_twist mget_def)
qed

lemma doc_profiles: "GetProfilesFromTemplate docLib sorted_list_of_set docTemplate = Inr []"
proof -
  have "dom (ProfileAnnotations docTemplate) = {}"
    by (auto simp: ProfileAnnotations_def docTemplate_def clusterTemplate_def split: if_splits)
  then show ?thesis
    by (simp add: GetProfilesFromTemplate_def getProfilesFromAnnotations_def docTemplate_def sortSlice_def)
qed

lemma docEnv_simps [simp]:
  "re_tlib docEnv = docLib" "re_visit docEnv = sorted_list_of_set" "re_codec docEnv = echoCodec" "re_kyaml docEnv = docKyaml"
  "re_IsDNS1123Subdomain docEnv = (\<lambda>_. [])" "re_MarshalFiles docEnv = (\<lambda>_. Inr ''{}'')"
  by (simp_all add: docEnv_def)

lemma doc_item:
  "\<exists>i. renderItem docEnv None None ns (docRequest\<lparr> fr_ParameterValues := Some docValues \<rparr>) \<lparr> rd_Data = [[]], rd_Path = [] \<rparr> = Inr i \<and> ri_content i = [[]]"
  by (simp add: renderItem_def docRequest_def ValidateRenderedTemplates_def validateRendered_def docLib_def echoLib_def
    getDefaultPath_def getCluster_def Let_def mread_def docValues_def bindR_Inr)

lemma doc_files: "\<exists>r f. docFiles = (Inr r, Some docValues) \<and> gr_RenderedTemplate r = [f]"
proof -
  let ?ns = "getClusterNamespace (re_config docEnv) []" and ?x = "\<lparr> rd_Data = [[]], rd_Path = [] \<rparr>"
  have flags: "shouldInjectPruneAnnotation (re_config docEnv) docTemplate = False" "shouldAddSopsKustomization docTemplate = False"
    "shouldAddCommonBases (re_config docEnv) docTemplate = False"
    by (simp_all add: shouldInjectPruneAnnotation_def shouldAddSopsKustomization_def shouldAddCommonBases_def isCAPITemplate_def docTemplate_def
      clusterTemplate_def CAPIKind_def GitOpsKind_def)
  have render: "renderTemplateWithValues docEnv None docTemplate ''t'' ns (Some [''CLUSTER_NAME'' \<mapsto> ''c'']) = (Inr [?x], Some docValues)" for ns
    by (simp add: renderTemplateWithValues_def Let_def flags doc_processor doc_rendered)
  obtain i where i: "renderItem docEnv None None ?ns (docRequest\<lparr> fr_ParameterValues := Some docValues \<rparr>) ?x = Inr i" "ri_content i = [[]]"
    using doc_item by blast
  have annotated: "annotateFirst docEnv [i] = Inr [i]"
    using i(2) by (simp add: annotateFirst_def InjectJSONAnnotation_def annotateResource_def readNode_def docKyaml_def trimSpace_def kyaml.defs)
  let ?none = "(\<lambda>_. Inr None) :: unit uns list \<Rightarrow> unit estimate_result option res"
  have "\<exists>c. getCostEstimate docLib ?none [?x] = Inr c"
    by (simp add: getCostEstimate_def Let_def ConvertToUnstructured_def docLib_def echoLib_def catchErr_def)
  then obtain c where c: "getCostEstimate docLib ?none [?x] = Inr c" by blast
  have msg: "fr_ParameterValues docRequest = Some [''CLUSTER_NAME'' \<mapsto> ''c'']" "fr_TemplateName docRequest = ''t''" "fr_Profiles docRequest = []"
    "fr_Kustomizations docRequest = []"
    by (simp_all add: docRequest_def)
  have ns: "mread (Some [''CLUSTER_NAME'' \<mapsto> ''c'']) ''NAMESPACE'' = []"
    by (simp add: mread_def)
  have all: "\<exists>r. filesOf docEnv ?none None cache rc repo docTemplate ?ns None (docRequest\<lparr> fr_ParameterValues := Some docValues \<rparr>) [?x] = Inr r
      \<and> gr_RenderedTemplate r = [itemFile i]" for cache rc repo
    by (simp add: filesOf_def Let_def i annotated c sopsFiles_def commonBasesFiles_def flags profileFiles_def
      TemplateHasRequiredProfiles_def doc_profiles msg kustomizationFiles_def)
  from all [of "ga_chartsCache sampleArgs" "createNamespacedName ''m'' []" "createNamespacedName ''charts'' ''flux-system''"]
  show ?thesis unfolding docFiles_def GetFiles_def Let_def msg render ns by auto
qed

theorem default_namespace_ignored_witness:
  "\<exists>r f name. docFiles = (Inr r, Some docValues) \<and> docValues ''NAMESPACE'' = Some ''prod'' \<and>
    gr_RenderedTemplate r = [f] \<and> cf_Path f = joinPath [''repo'', ''default'', name @ ''.yaml'']"
proof -
  obtain r f where r: "docFiles = (Inr r, Some docValues)" "gr_RenderedTemplate r = [f]" using doc_files by blast
  have "visit_ok (re_visit docEnv)" "finite (dom (tm_Annotations docTemplate))" "mread (fr_ParameterValues docRequest) ''NAMESPACE'' = []"
    "\<forall>rt\<in>set (tm_ResourceTemplates docTemplate). rt_Path rt = []"
    by (simp_all add: visit_ok_def docTemplate_def clusterTemplate_def docRequest_def mread_def)
  note pre = this
  have params: "ParamsFromTemplate (re_tlib docEnv) (re_visit docEnv) docTemplate =
      Inr [(newParam ''NAMESPACE'')\<lparr> pa_Default := ''prod'' \<rparr>, newParam ''CLUSTER_NAME'']"
    using doc_params by simp
  let ?q = "(newParam ''NAMESPACE'')\<lparr> pa_Default := ''prod'' \<rparr>"
  have q: "?q \<in> set [?q, newParam ''CLUSTER_NAME'']" "pa_Name ?q = ''NAMESPACE''" "pa_Default ?q \<noteq> []"
    by (simp_all add: newParam_def)
  note spec = default_namespace_ignored [OF pre(1,2) r(1) [unfolded docFiles_def] pre(3) params q pre(4)]
  then obtain name where "cf_Path f = getClusterManifestPath (re_config docEnv) (createNamespacedName name (getClusterNamespace (re_config docEnv) []))"
    using spec r(2) by auto
  then have "cf_Path f = joinPath [''repo'', ''default'', name @ ''.yaml'']"
    by (simp add: getClusterManifestPath_def docEnv_def createNamespacedName_def getClusterNamespace_def)
  with r show ?thesis by (auto simp: docValues_def)
qed

end
