(* ===== verification/GitProviders.thy ===== *)
theory GitProviders
  imports ClusterFiles
begin

text \<open>
  pkg/git: the providers that turn a set of files into a branch with commits and a pull
  request. The clients of go-git-providers are parameters: an operation takes the state of
  the host and returns a result with the new state. So are retry.OnError, once for each
  type of result, the parser of repository URLs and the regular expression for Bitbucket,
  which gives host, key and repository.
\<close>

section \<open>factory.go and utils.go\<close>

definition addSchemeToDomain :: "string \<Rightarrow> string" where
  "addSchemeToDomain domain =
     (if domain \<noteq> ''github.com'' \<and> domain \<noteq> ''gitlab.com'' \<and> \<not> prefix ''http://'' domain \<and> \<not> prefix ''https://'' domain
      then ''https://'' @ domain else domain)"

record ProviderOption =
  po_Hostname :: string
  po_OAuth2Token :: string
  po_TokenType :: string
  po_Token :: string
  po_Username :: string
  po_ConditionalRequests :: bool

type_synonym ProviderWithFn = "ProviderOption \<Rightarrow> ProviderOption res"

definition WithDomain :: "string \<Rightarrow> ProviderWithFn" where
  "WithDomain domain p = Inr (p\<lparr> po_Hostname := addSchemeToDomain domain \<rparr>)"

definition WithOAuth2Token :: "string \<Rightarrow> ProviderWithFn" where
  "WithOAuth2Token token p = Inr (p\<lparr> po_OAuth2Token := token \<rparr>)"

definition WithToken :: "string \<Rightarrow> string \<Rightarrow> ProviderWithFn" where
  "WithToken tokenType token p = Inr (p\<lparr> po_TokenType := tokenType, po_Token := token \<rparr>)"

definition WithConditionalRequests :: ProviderWithFn where
  "WithConditionalRequests p = Inr (p\<lparr> po_ConditionalRequests := True \<rparr>)"

definition WithoutConditionalRequests :: ProviderWithFn where
  "WithoutConditionalRequests p = Inr (p\<lparr> po_ConditionalRequests := False \<rparr>)"

definition WithUsername :: "string \<Rightarrow> ProviderWithFn" where
  "WithUsername username p = Inr (p\<lparr> po_Username := username \<rparr>)"

datatype provider_kind = GitHub | GitLab | BitBucketServer | AzureDevOps

definition providerKind :: "string \<Rightarrow> provider_kind option" where
  "providerKind name =
     (if name = ''github'' then Some GitHub else if name = ''gitlab'' then Some GitLab
      else if name = ''bitbucket-server'' then Some BitBucketServer else if name = ''azure-devops'' then Some AzureDevOps else None)"

text \<open>Setup, up to the call that makes the client, with the options that this call gets.\<close>

definition Setup :: "provider_kind \<Rightarrow> ProviderOption \<Rightarrow> ProviderOption res" where
  "Setup k opts =
     (case k of
        GitHub \<Rightarrow> if po_OAuth2Token opts = [] then Inl (err ''missing required option: OAuth2Token'') else Inr opts
      | GitLab \<Rightarrow> if po_Token opts = [] then Inl (err ''missing required option: Token'') else Inr opts
      | BitBucketServer \<Rightarrow>
          (let opts = (if po_Username opts = [] then opts\<lparr> po_Username := ''git'' \<rparr> else opts) in
           if po_Token opts = [] then Inl (err ''missing required option: Token'')
           else if po_Hostname opts = [] then Inl (err ''missing required option: Hostname'') else Inr opts)
      | AzureDevOps \<Rightarrow>
          if po_Token opts = [] then Inl (err ''missing required option: Token'')
          else Inr (if po_Hostname opts = [] then opts\<lparr> po_Hostname := ''dev.azure.com'' \<rparr> else opts))"

fun applyProviderOpts :: "ProviderWithFn list \<Rightarrow> ProviderOption \<Rightarrow> ProviderOption res" where
  "applyProviderOpts [] p = Inr p"
| "applyProviderOpts (f # fs) p = bindR (f p) (applyProviderOpts fs)"

definition Create :: "(provider_kind \<Rightarrow> ProviderOption \<Rightarrow> 'c res) \<Rightarrow> string \<Rightarrow> ProviderWithFn list \<Rightarrow> (provider_kind \<times> 'c) res" where
  "Create newClient providerName opts =
     (case providerKind providerName of
        None \<Rightarrow> Inl (Errf ''provider %q is not supported'' [providerName])
      | Some k \<Rightarrow>
          bindR (wrapR ''unable to gather options on provider %q: %w'' [providerName] (applyProviderOpts opts
            \<lparr> po_Hostname = [], po_OAuth2Token = [], po_TokenType = [], po_Token = [], po_Username = [], po_ConditionalRequests = False \<rparr>)) (\<lambda>option.
          bindR (wrapR ''unable to apply options on provider %q: %w'' [providerName] (bindR (Setup k option) (newClient k))) (\<lambda>client.
            Inr (k, client))))"

section \<open>cmd/clusters-service/pkg/git: the client for a request\<close>

record GitProvider =
  gp_Token :: string
  gp_TokenType :: string
  gp_Type :: string
  gp_Hostname :: string

definition getGitProviderClient :: "(provider_kind \<Rightarrow> ProviderOption \<Rightarrow> 'c res) \<Rightarrow> GitProvider \<Rightarrow> (provider_kind \<times> 'c) res" where
  "getGitProviderClient newClient gpi =
     (let hostname = addSchemeToDomain (gp_Hostname gpi); create = Create newClient (gp_Type gpi) in
      case providerKind (gp_Type gpi) of
        Some GitHub \<Rightarrow> create ([WithOAuth2Token (gp_Token gpi)] @ (if gp_Hostname gpi \<noteq> ''github.com'' then [WithDomain hostname] else []))
      | Some GitLab \<Rightarrow> create ([WithConditionalRequests, WithToken (gp_TokenType gpi) (gp_Token gpi)]
          @ (if gp_Hostname gpi \<noteq> ''gitlab.com'' then [WithDomain hostname] else []))
      | Some BitBucketServer \<Rightarrow> create [WithUsername ''git'', WithToken (gp_TokenType gpi) (gp_Token gpi), WithDomain hostname, WithConditionalRequests]
      | Some AzureDevOps \<Rightarrow> create [WithToken (gp_TokenType gpi) (gp_Token gpi)]
      | None \<Rightarrow> Inl (Errf ''the Git provider %q is not supported'' [gp_Type gpi]))"

section \<open>gitprovider.go\<close>

record repo_ref =
  rf_Domain :: string
  rf_Organization :: string
  rf_SubOrganizations :: "string list"
  rf_RepositoryName :: string
  rf_Key :: string

record tree_entry =
  te_Path :: string
  te_Type :: string
  te_Size :: int
  te_SHA :: string
  te_Link :: string

record PullRequest =
  pr_Title :: string
  pr_Description :: string
  pr_Link :: string
  pr_Merged :: bool

record 's org_repo =
  or_Identity :: string
  or_Name :: string
  or_ListCommits :: "string \<Rightarrow> ('s, string list) action"
  or_CreateBranch :: "string \<Rightarrow> string \<Rightarrow> 's step"
  or_CreateCommit :: "string \<Rightarrow> string \<Rightarrow> commit_file list \<Rightarrow> ('s, string) action"
  or_CreatePullRequest :: "string \<Rightarrow> string \<Rightarrow> string \<Rightarrow> string \<Rightarrow> ('s, string) action"
  or_ListTrees :: "string \<Rightarrow> string \<Rightarrow> bool \<Rightarrow> ('s, tree_entry list) action"
  or_ListPullRequests :: "('s, PullRequest list) action"

text \<open>transport.Endpoint, with the fields that are used.\<close>

record endpoint =
  ep_Protocol :: string
  ep_Host :: string
  ep_Path :: string

record 's git_client =
  gc_GetRepository :: "repo_ref \<Rightarrow> ('s, 's org_repo) action"
  gc_IsNotFound :: "goerror \<Rightarrow> bool"
  gc_ParseURL :: "string \<Rightarrow> repo_ref res"
  gc_MatchBitbucket :: "string \<Rightarrow> (string \<times> string \<times> string) option"
  gc_config :: config
  gc_NewEndpoint :: "string \<Rightarrow> endpoint res"
  gc_EndpointString :: "endpoint \<Rightarrow> string"
  gc_RetryCommits :: "(goerror \<Rightarrow> bool) \<Rightarrow> ('s, string list) action \<Rightarrow> ('s, string list) action"
  gc_RetryRepository :: "(goerror \<Rightarrow> bool) \<Rightarrow> ('s, 's org_repo) action \<Rightarrow> ('s, 's org_repo) action"

definition GetGitProviderUrl :: "'s git_client \<Rightarrow> string \<Rightarrow> string res" where
  "GetGitProviderUrl C giturl =
     (let repositoryAPIURL = gc_config C ''capi-templates-repository-api-url'' in
      if repositoryAPIURL \<noteq> [] then Inr repositoryAPIURL
      else bindR (gc_NewEndpoint C giturl) (\<lambda>ep.
        if ep_Protocol ep = ''http'' \<or> ep_Protocol ep = ''https'' then Inr giturl
        else Inr (gc_EndpointString C \<lparr> ep_Protocol = ''https'', ep_Host = ep_Host ep, ep_Path = ep_Path ep \<rparr>)))"

record commit =
  ci_Message :: string
  ci_Files :: "commit_file list"

record PullRequestInput =
  pi_RepositoryURL :: string
  pi_Title :: string
  pi_Body :: string
  pi_Head :: string
  pi_Base :: string
  pi_Commits :: "commit list"

text \<open>Going on with the result of an action, and adding a message to its error.\<close>

definition bindA :: "('s, 'a) action \<Rightarrow> ('a \<Rightarrow> ('s, 'b) action) \<Rightarrow> ('s, 'b) action" where
  "bindA f g s = (case f s of (Inl e, s) \<Rightarrow> (Inl e, s) | (Inr x, s) \<Rightarrow> g x s)"

definition wrapA :: "string \<Rightarrow> string list \<Rightarrow> ('s, 'a) action \<Rightarrow> ('s, 'a) action" where
  "wrapA m args f s = (case f s of (r, s) \<Rightarrow> (wrapR m args r, s))"

definition liftR :: "'a res \<Rightarrow> ('s, 'a) action" where
  "liftR r s = (r, s)"

definition stepA :: "'s step \<Rightarrow> ('s, unit) action" where
  "stepA f s = (case f s of (None, s) \<Rightarrow> (Inr (), s) | (Some e, s) \<Rightarrow> (Inl e, s))"

definition CreateBranch :: "'s git_client \<Rightarrow> 's org_repo \<Rightarrow> string \<Rightarrow> string \<Rightarrow> ('s, unit) action" where
  "CreateBranch C repo base head =
     bindA (wrapA ''unable to get most recent commit for branch %q: %w'' [base] (gc_RetryCommits C (\<lambda>_. True) (or_ListCommits repo base))) (\<lambda>commits.
       case commits of
         [] \<Rightarrow> liftR (Inl (Errf ''no commits were found for branch %q, is the repository empty?'' [base]))
       | sha # _ \<Rightarrow> wrapA ''unable to create new branch %q from commit %q in branch %q: %w'' [head, sha, base] (stepA (or_CreateBranch repo head sha)))"

fun writeCommits :: "'s org_repo \<Rightarrow> string \<Rightarrow> commit list \<Rightarrow> ('s, unit) action" where
  "writeCommits repo head [] = liftR (Inr ())"
| "writeCommits repo head (c # cs) =
     bindA (wrapA ''unable to commit changes to %q: %w'' [head] (or_CreateCommit repo head (ci_Message c) (ci_Files c))) (\<lambda>_. writeCommits repo head cs)"

definition WriteFilesToBranch :: "'s git_client \<Rightarrow> 's org_repo \<Rightarrow> bool \<Rightarrow> string \<Rightarrow> string \<Rightarrow> commit list \<Rightarrow> ('s, unit) action" where
  "WriteFilesToBranch C repo createBranch base head commits =
     bindA (if createBranch then CreateBranch C repo base head else liftR (Inr ())) (\<lambda>_. writeCommits repo head commits)"

definition ggp_CreatePullRequest :: "'s org_repo \<Rightarrow> string \<Rightarrow> string \<Rightarrow> string \<Rightarrow> string \<Rightarrow> ('s, string) action" where
  "ggp_CreatePullRequest repo head base title description =
     wrapA ''unable to create new pull request for branch %q: %w'' [head] (or_CreatePullRequest repo title head base description)"

definition WithCombinedSubOrgs :: "repo_ref \<Rightarrow> repo_ref" where
  "WithCombinedSubOrgs ref = ref\<lparr> rf_Organization := joinPath (rf_Organization ref # rf_SubOrganizations ref), rf_SubOrganizations := [] \<rparr>"

definition ggp_GetRepository :: "'s git_client \<Rightarrow> string \<Rightarrow> ('s, 's org_repo) action" where
  "ggp_GetRepository C url =
     bindA (liftR (wrapR ''unable to parse url %q: %w'' [url] (gc_ParseURL C url))) (\<lambda>ref.
       let ref = WithCombinedSubOrgs (ref\<lparr> rf_Domain := addSchemeToDomain (rf_Domain ref) \<rparr>)
       in wrapA ''unable to get repository %q: %w, (client domain: %s)'' [url] (gc_RetryRepository C (gc_IsNotFound C) (gc_GetRepository C ref)))"

text \<open>When the expression does not match, its groups are read from a nil slice.\<close>

definition GetBitbucketRepository :: "'s git_client \<Rightarrow> string \<Rightarrow> ('s, 's org_repo) action" where
  "GetBitbucketRepository C url =
     (case gc_MatchBitbucket C url of
        None \<Rightarrow> liftR (Inl (Panic ''index out of range''))
      | Some (host, key, repo) \<Rightarrow>
          wrapA ''unable to get repository %q: %w, (client domain: %s)'' [url] (gc_RetryRepository C (gc_IsNotFound C)
            (gc_GetRepository C \<lparr> rf_Domain = addSchemeToDomain host, rf_Organization = key, rf_SubOrganizations = [],
               rf_RepositoryName = repo, rf_Key = key \<rparr>)))"

definition ggp_GetTreeList :: "'s git_client \<Rightarrow> string \<Rightarrow> string \<Rightarrow> string \<Rightarrow> bool \<Rightarrow> ('s, tree_entry list) action" where
  "ggp_GetTreeList C repoUrl sha path recursive =
     bindA (ggp_GetRepository C repoUrl) (\<lambda>repo. or_ListTrees repo sha path recursive)"

text \<open>filepath.Split: the directory of a path, with its last separator.\<close>

definition splitDir :: "string \<Rightarrow> string" where
  "splitDir path = rev (dropWhile (\<lambda>c. c \<noteq> CHR ''/'') (rev path))"

fun GetUpdatedFiles :: "'s git_client \<Rightarrow> commit_file list \<Rightarrow> string \<Rightarrow> string \<Rightarrow> ('s, commit_file list) action" where
  "GetUpdatedFiles C [] repoURL branch = liftR (Inr [])"
| "GetUpdatedFiles C (f # fs) repoURL branch =
     (if cf_Content f = None then GetUpdatedFiles C fs repoURL branch
      else bindA (wrapA ''error getting list of trees in repo: %s@%s: %w'' [repoURL, branch]
            (ggp_GetTreeList C repoURL branch (splitDir (cf_Path f)) True)) (\<lambda>treeEntries.
          bindA (GetUpdatedFiles C fs repoURL branch) (\<lambda>rest.
            liftR (Inr (map (\<lambda>e. \<lparr> cf_Path = te_Path e, cf_Content = None \<rparr>) (filter (\<lambda>e. te_Path e = cf_Path f) treeEntries) @ rest)))))"

section \<open>The providers of go-git-providers\<close>

definition repositoryOf :: "provider_kind \<Rightarrow> 's git_client \<Rightarrow> string \<Rightarrow> ('s, 's org_repo) action" where
  "repositoryOf k C url = (if k = BitBucketServer then GetBitbucketRepository C url else ggp_GetRepository C url)"

definition prov_GetRepository :: "provider_kind \<Rightarrow> 's git_client \<Rightarrow> string \<Rightarrow> ('s, string \<times> string) action" where
  "prov_GetRepository k C url = bindA (repositoryOf k C url) (\<lambda>repo. liftR (Inr (or_Identity repo, or_Name repo)))"

text \<open>github.go and bitbucket_server.go.\<close>

definition ggp_CreateFromBranch :: "provider_kind \<Rightarrow> 's git_client \<Rightarrow> PullRequestInput \<Rightarrow> ('s, string) action" where
  "ggp_CreateFromBranch k C input =
     bindA (liftR (wrapR ''unable to get git provider url: %w'' [] (GetGitProviderUrl C (pi_RepositoryURL input)))) (\<lambda>url.
     bindA (repositoryOf k C url) (\<lambda>repo.
     bindA (wrapA ''unable to write files to branch %q: %w'' [pi_Head input]
       (WriteFilesToBranch C repo True (pi_Base input) (pi_Head input) (pi_Commits input))) (\<lambda>_.
       wrapA ''unable to create pull request for branch %q: %w'' [pi_Head input]
         (ggp_CreatePullRequest repo (pi_Head input) (pi_Base input) (pi_Title input) (pi_Body input)))))"

definition deleteFilesCommitMessage :: string where
  "deleteFilesCommitMessage = ''Delete old files for resources''"

text \<open>gitlab.go: files that are already there are deleted in a commit of their own before they are written.\<close>

definition gitlab_CreatePullRequest :: "'s git_client \<Rightarrow> PullRequestInput \<Rightarrow> ('s, string) action" where
  "gitlab_CreatePullRequest C input =
     bindA (liftR (wrapR ''unable to get git provider url: %w'' [] (GetGitProviderUrl C (pi_RepositoryURL input)))) (\<lambda>url.
     bindA (ggp_GetRepository C url) (\<lambda>repo.
     bindA (CreateBranch C repo (pi_Base input) (pi_Head input)) (\<lambda>_.
     bindA (GetUpdatedFiles C (concat (map ci_Files (pi_Commits input))) (pi_RepositoryURL input) (pi_Head input)) (\<lambda>updated.
     let commits = (if length updated > 0 then [\<lparr> ci_Message = deleteFilesCommitMessage, ci_Files = updated \<rparr>] else []) @ pi_Commits input in
     bindA (wrapA ''unable to write files to branch %q: %w'' [pi_Head input]
       (WriteFilesToBranch C repo False (pi_Base input) (pi_Head input) commits)) (\<lambda>_.
       wrapA ''unable to create pull request for branch %q: %w'' [pi_Head input]
         (ggp_CreatePullRequest repo (pi_Head input) (pi_Base input) (pi_Title input) (pi_Body input)))))))"

text \<open>All three list trees and pull requests through the plain repository.\<close>

definition prov_GetTreeList :: "'s git_client \<Rightarrow> string \<Rightarrow> string \<Rightarrow> string \<Rightarrow> ('s, tree_entry list) action" where
  "prov_GetTreeList C repoUrl sha path =
     bindA (liftR (wrapR ''unable to get git provider url: %w'' [] (GetGitProviderUrl C repoUrl))) (\<lambda>url.
     bindA (ggp_GetRepository C url) (\<lambda>repo. or_ListTrees repo sha path True))"

definition prov_ListPullRequests :: "'s git_client \<Rightarrow> string \<Rightarrow> ('s, PullRequest list) action" where
  "prov_ListPullRequests C repoURL = bindA (ggp_GetRepository C repoURL) or_ListPullRequests"

end
