(* ===== verification/Clusters.thy ===== *)
theory Clusters
  imports TemplateHandlers
begin

text \<open>
  The clusters of cmd/clusters-service/pkg/server: cluster_response.go, the listing of
  clusters in clusters.go and the kubeconfig of a cluster. Maps of labels are visited in an
  arbitrary order. client.Get decodes into the object it is given, so it takes the object
  that the loop reuses; what the decoder leaves of it is the client's. The merge of
  kubeconfigs is mergo's, with the transformer of the code.
\<close>

section \<open>cluster_response.go\<close>

record Condition =
  gn_Type :: string
  gn_Status :: string
  gn_Reason :: string
  gn_Message :: string
  gn_Timestamp :: string

text \<open>A GitopsCluster; its conditions have the fields of the response.\<close>

record gitops_cluster =
  gl_Name :: string
  gl_Namespace :: string
  gl_Annotations :: "string \<rightharpoonup> string"
  gl_Labels :: "string \<rightharpoonup> string"
  gl_Conditions :: "Condition list"
  gl_Kind :: string
  gl_CAPIClusterRef :: "string option"
  gl_SecretRef :: "string option"

record capi_cluster =
  cx_Name :: string
  cx_Namespace :: string
  cx_Annotations :: "string \<rightharpoonup> string"
  cx_Labels :: "string \<rightharpoonup> string"
  cx_Phase :: string
  cx_InfrastructureReady :: bool
  cx_ControlPlaneReady :: bool
  cx_ObservedGeneration :: int
  cx_Conditions :: "Condition list"
  cx_InfrastructureRef :: "(string \<times> string \<times> string) option"

record CapiClusterStatus =
  cz_Phase :: string
  cz_InfrastructureReady :: bool
  cz_ControlPlaneInitialized :: bool
  cz_ControlPlaneReady :: bool
  cz_ObservedGeneration :: int
  cz_Conditions :: "Condition list"

record CapiCluster =
  cy_Name :: string
  cy_Namespace :: string
  cy_Annotations :: "string \<rightharpoonup> string"
  cy_Labels :: "string \<rightharpoonup> string"
  cy_Status :: CapiClusterStatus
  cy_InfrastructureRef :: "(string \<times> string \<times> string) option"

record GitopsCluster =
  gk_Name :: string
  gk_Namespace :: string
  gk_Annotations :: "string \<rightharpoonup> string"
  gk_Labels :: "string \<rightharpoonup> string"
  gk_Conditions :: "Condition list"
  gk_Type :: string
  gk_CapiClusterRef :: "string option"
  gk_SecretRef :: "string option"
  gk_CapiCluster :: "CapiCluster option"
  gk_ControlPlane :: bool

definition ToClusterResponse :: "gitops_cluster \<Rightarrow> GitopsCluster" where
  "ToClusterResponse c = \<lparr> gk_Name = gl_Name c, gk_Namespace = gl_Namespace c, gk_Annotations = gl_Annotations c,
     gk_Labels = gl_Labels c, gk_Conditions = gl_Conditions c, gk_Type = gl_Kind c,
     gk_CapiClusterRef = gl_CAPIClusterRef c, gk_SecretRef = gl_SecretRef c, gk_CapiCluster = None, gk_ControlPlane = False \<rparr>"

text \<open>strconv.ParseBool.\<close>

definition parseBool :: "string \<Rightarrow> bool res" where
  "parseBool s =
     (if s \<in> {''1'', ''t'', ''T'', ''true'', ''TRUE'', ''True''} then Inr True
      else if s \<in> {''0'', ''f'', ''F'', ''false'', ''FALSE'', ''False''} then Inr False
      else Inl (Errf ''strconv.ParseBool: parsing %q: invalid syntax'' [s]))"

definition ControlPlaneInitializedCondition :: string where
  "ControlPlaneInitializedCondition = ''ControlPlaneInitialized''"

fun cpInitialized :: "capi_cluster \<Rightarrow> bool \<Rightarrow> Condition list \<Rightarrow> bool res" where
  "cpInitialized c b [] = Inr b"
| "cpInitialized c b (cond # conds) =
     (if gn_Type cond = ControlPlaneInitializedCondition then
        bindR (wrapR ''could not parse bool from '%s'. Check the %s condition of cluster %s/%s: %w''
            [gn_Status cond, gn_Type cond, cx_Namespace c, cx_Name c] (parseBool (gn_Status cond))) (\<lambda>b.
          cpInitialized c b conds)
      else cpInitialized c b conds)"

definition capiResponse :: "capi_cluster \<Rightarrow> bool \<Rightarrow> CapiCluster" where
  "capiResponse c initialized = \<lparr> cy_Name = cx_Name c, cy_Namespace = cx_Namespace c, cy_Annotations = cx_Annotations c,
     cy_Labels = cx_Labels c,
     cy_Status = \<lparr> cz_Phase = cx_Phase c, cz_InfrastructureReady = cx_InfrastructureReady c, cz_ControlPlaneInitialized = initialized,
       cz_ControlPlaneReady = cx_ControlPlaneReady c, cz_ObservedGeneration = cx_ObservedGeneration c, cz_Conditions = cx_Conditions c \<rparr>,
     cy_InfrastructureRef = cx_InfrastructureRef c \<rparr>"

record capi_client =
  kk_Get :: "nsname \<Rightarrow> capi_cluster \<Rightarrow> goerror option \<times> capi_cluster"
  kk_IsNotFound :: "goerror \<Rightarrow> bool"

fun addCAPI :: "capi_client \<Rightarrow> capi_cluster \<Rightarrow> GitopsCluster list \<Rightarrow> GitopsCluster list res" where
  "addCAPI K capiCluster [] = Inr []"
| "addCAPI K capiCluster (cluster # rest) =
     (if gk_CapiClusterRef cluster = None then bindR (addCAPI K capiCluster rest) (\<lambda>cs. Inr (cluster # cs))
      else case kk_Get K (createNamespacedName (gk_Name cluster) (gk_Namespace cluster)) capiCluster of
        (Some e, capiCluster) \<Rightarrow>
          if kk_IsNotFound K e then bindR (addCAPI K capiCluster rest) (\<lambda>cs. Inr (cluster # cs))
          else Inl (wrap ''failed to get capi-cluster: %w'' [] e)
      | (None, capiCluster) \<Rightarrow>
          bindR (cpInitialized capiCluster False (cx_Conditions capiCluster)) (\<lambda>initialized.
          bindR (addCAPI K capiCluster rest) (\<lambda>cs.
            Inr (cluster\<lparr> gk_CapiCluster := Some (capiResponse capiCluster initialized) \<rparr> # cs))))"

definition emptyCAPI :: capi_cluster where
  "emptyCAPI = \<lparr> cx_Name = [], cx_Namespace = [], cx_Annotations = Map.empty, cx_Labels = Map.empty, cx_Phase = [],
     cx_InfrastructureReady = False, cx_ControlPlaneReady = False, cx_ObservedGeneration = 0, cx_Conditions = [],
     cx_InfrastructureRef = None \<rparr>"

definition AddCAPIClusters :: "capi_client \<Rightarrow> GitopsCluster list \<Rightarrow> GitopsCluster list res" where
  "AddCAPIClusters K clusters = addCAPI K emptyCAPI clusters"

section \<open>Listing clusters\<close>

definition labels :: "string list" where "labels = []"

definition isLabelRecognised :: "string \<Rightarrow> bool" where
  "isLabelRecognised label \<longleftrightarrow> (\<exists>l\<in>set labels. equalFold label l)"

definition filterClustersByLabel :: "visit \<Rightarrow> GitopsCluster list \<Rightarrow> string \<Rightarrow> GitopsCluster list" where
  "filterClustersByLabel visit cl label =
     concat (map (\<lambda>c. concat (map (\<lambda>k. if equalFold (mget (gk_Labels c) k) label then [c] else []) (visit (dom (gk_Labels c))))) cl)"

definition capiClusterRef :: string where "capiClusterRef = ''CAPICluster''"
definition secretRef :: string where "secretRef = ''Secret''"

definition filterClustersByType :: "GitopsCluster list \<Rightarrow> string \<Rightarrow> GitopsCluster list res" where
  "filterClustersByType cl refType =
     bindR (mapRes (\<lambda>c.
       if refType = capiClusterRef then Inr (if gk_CapiClusterRef c \<noteq> None then [c] else [])
       else if refType = secretRef then Inr (if gk_SecretRef c \<noteq> None then [c] else [])
       else Inl (Errf ''reference type %q is not recognised'' [refType])) cl) (\<lambda>cs. Inr (concat cs))"

definition getManagementCluster :: "string \<Rightarrow> GitopsCluster res" where
  "getManagementCluster name = Inr \<lparr> gk_Name = name, gk_Namespace = [], gk_Annotations = Map.empty, gk_Labels = Map.empty,
     gk_Conditions = [\<lparr> gn_Type = ''Ready'', gn_Status = ''True'', gn_Reason = [], gn_Message = [], gn_Timestamp = [] \<rparr>],
     gk_Type = [], gk_CapiClusterRef = None, gk_SecretRef = None, gk_CapiCluster = None, gk_ControlPlane = True \<rparr>"

record clusters_server =
  cs_Fetch :: "gitops_cluster NamespacedList list res"
  cs_client :: "capi_client res"
  cs_capiEnabled :: bool
  cs_cluster :: string
  cs_visit :: visit

definition ListGitopsClusters :: "clusters_server \<Rightarrow> string \<Rightarrow> string \<Rightarrow> (GitopsCluster list \<times> nat \<times> (string \<times> goerror) list) res" where
  "ListGitopsClusters s label refType =
     bindR (wrapR ''failed to query clusters: %w'' [] (cs_Fetch s)) (\<lambda>lists.
     let clusters = map ToClusterResponse (concat (map nl_List lists));
         errs = List.map_filter (\<lambda>l. map_option (\<lambda>e. (nl_Namespace l, e)) (nl_Error l)) lists in
     bindR (cs_client s) (\<lambda>client.
     bindR (if cs_capiEnabled s then AddCAPIClusters client clusters else Inr clusters) (\<lambda>clusters.
     bindR (if label \<noteq> [] then
         (if \<not> isLabelRecognised label then Inl (Errf ''label %q is not recognised'' [label])
          else Inr (filterClustersByLabel (cs_visit s) clusters label))
       else Inr clusters) (\<lambda>clusters.
     bindR (if refType \<noteq> [] then filterClustersByType clusters refType else Inr clusters) (\<lambda>clusters.
     bindR (getManagementCluster (cs_cluster s)) (\<lambda>mgmtCluster.
       let clusters = sortSlice (\<lambda>c d. stringLess (gk_Name c) (gk_Name d)) (clusters @ [mgmtCluster]) in
       Inr (clusters, length clusters, errs)))))))"

section \<open>The kubeconfig of a cluster\<close>

record ('a, 'c) kube_config =
  kf_AuthInfos :: "string \<rightharpoonup> 'a"
  kf_Contexts :: "string \<rightharpoonup> string"
  kf_CurrentContext :: string
  kf_Clusters :: 'c

text \<open>The context of a kubeconfig is given by its user. The transformer takes the users of the source.\<close>

type_synonym 'a users = "string \<rightharpoonup> 'a"

definition authInfoTransformer :: "'a users \<Rightarrow> 'a users \<Rightarrow> 'a users" where
  "authInfoTransformer dst src = src"

record ('a, 'c) config_codec =
  kg_Load :: "string \<Rightarrow> ('a, 'c) kube_config res"
  kg_Merge :: "('a users \<Rightarrow> 'a users \<Rightarrow> 'a users) \<Rightarrow> ('a, 'c) kube_config \<Rightarrow> ('a, 'c) kube_config \<Rightarrow> ('a, 'c) kube_config res"
  kg_Write :: "('a, 'c) kube_config \<Rightarrow> string res"

text \<open>The context named by CurrentContext is written through a pointer.\<close>

definition replaceContextUser :: "visit \<Rightarrow> ('a, 'c) kube_config \<Rightarrow> ('a, 'c) kube_config res" where
  "replaceContextUser visit cfg =
     (let authUsers = visit (dom (kf_AuthInfos cfg));
          replaceUser = (if length authUsers = 1 then hd authUsers else []) in
      if length (visit (dom (kf_Contexts cfg))) = 1 \<and> kf_CurrentContext cfg \<noteq> [] then
        (case kf_Contexts cfg (kf_CurrentContext cfg) of
           None \<Rightarrow> Inl nilDeref
         | Some _ \<Rightarrow> Inr (cfg\<lparr> kf_Contexts := (kf_Contexts cfg)(kf_CurrentContext cfg \<mapsto> replaceUser) \<rparr>))
      else Inr cfg)"

definition mergeKubeConfigs :: "('a, 'c) config_codec \<Rightarrow> visit \<Rightarrow> string \<Rightarrow> string \<Rightarrow> string res" where
  "mergeKubeConfigs G visit main overrides =
     bindR (wrapR ''failed to parse the KubeConfig: %w'' [] (kg_Load G main)) (\<lambda>mainCfg.
     bindR (wrapR ''failed to parse the override KubeConfig: %w'' [] (kg_Load G overrides)) (\<lambda>overrideCfg.
     bindR (wrapR ''failed to merge override config: %w'' [] (kg_Merge G authInfoTransformer mainCfg overrideCfg)) (\<lambda>mainCfg.
     bindR (replaceContextUser visit mainCfg) (kg_Write G))))"

text \<open>A GitopsCluster is given by the name of its secret.\<close>

record kube_client =
  kq_GetCluster :: "nsname \<Rightarrow> string option res"
  kq_GetSecret :: "nsname \<Rightarrow> (string \<rightharpoonup> string) res"
  kq_IsNotFound :: "goerror \<Rightarrow> bool"
  kq_IsForbidden :: "goerror \<Rightarrow> bool"

definition nsString :: "nsname \<Rightarrow> string" where
  "nsString n = nn_Namespace n @ ''/'' @ nn_Name n"

definition kubeConfigFromSecret :: "(string \<rightharpoonup> string) \<Rightarrow> string option" where
  "kubeConfigFromSecret s = (case s ''value.yaml'' of Some v \<Rightarrow> Some v | None \<Rightarrow> s ''value'')"

text \<open>The secret of a name, nil when it may be missing, with the content of its key.\<close>

definition secretByName :: "kube_client \<Rightarrow> nsname \<Rightarrow> (string \<rightharpoonup> string) res" where
  "secretByName K name = kq_GetSecret K name"

definition optionalSecret :: "kube_client \<Rightarrow> (goerror \<Rightarrow> bool) \<Rightarrow> nsname \<Rightarrow> nsname \<Rightarrow> string \<Rightarrow> string option res" where
  "optionalSecret K missing cluster name shown =
     (case secretByName K name of
        Inl e \<Rightarrow> if missing e then Inr None else Inl (wrap ''failed to get secret for cluster %s: %w'' [nsString cluster] e)
      | Inr sec \<Rightarrow> (case kubeConfigFromSecret sec of
          None \<Rightarrow> Inl (Errf ''secret %q was found but is missing key %q'' [shown, ''value''])
        | Some v \<Rightarrow> Inr (Some v)))"

definition referencedSecret :: "kube_client \<Rightarrow> nsname \<Rightarrow> string \<Rightarrow> string res" where
  "referencedSecret K cluster secret =
     (let name = createNamespacedName secret (nn_Namespace cluster) in
      bindR (optionalSecret K (kq_IsNotFound K) cluster name (nsString name)) (\<lambda>v.
        case v of None \<Rightarrow> Inl (Errf ''failed to load referenced secret %s for cluster %s'' [nsString name, nsString cluster])
        | Some v \<Rightarrow> Inr v))"

definition overridden :: "('a, 'c) config_codec \<Rightarrow> visit \<Rightarrow> string option \<Rightarrow> string \<Rightarrow> string res" where
  "overridden G visit override val = (case override of Some o' \<Rightarrow> mergeKubeConfigs G visit val o' | None \<Rightarrow> Inr val)"

definition discoveredSecret :: "('a, 'c) config_codec \<Rightarrow> visit \<Rightarrow> config \<Rightarrow> kube_client \<Rightarrow> nsname \<Rightarrow> string res" where
  "discoveredSecret G visit cfg K cluster =
     (let ns = getClusterNamespace cfg (nn_Namespace cluster);
          missing = (\<lambda>e. kq_IsNotFound K e \<or> kq_IsForbidden K e);
          user = createNamespacedName (nn_Name cluster @ ''-user-kubeconfig'') ns;
          own = createNamespacedName (nn_Name cluster @ ''-kubeconfig'') ns in
      bindR (optionalSecret K missing cluster (createNamespacedName ''cluster-kubeconfig-override'' ns) []) (\<lambda>override.
      bindR (optionalSecret K missing cluster user (nsString user)) (\<lambda>v.
      case v of
        Some val \<Rightarrow> overridden G visit override val
      | None \<Rightarrow>
          bindR (optionalSecret K (kq_IsNotFound K) cluster own (nsString own)) (\<lambda>v.
          case v of
            Some val \<Rightarrow> overridden G visit override val
          | None \<Rightarrow> Inl (Errf ''unable to get kubeconfig secret for cluster %s'' [nsString cluster])))))"

definition kubeConfigForCluster :: "('a, 'c) config_codec \<Rightarrow> visit \<Rightarrow> config \<Rightarrow> kube_client res \<Rightarrow> nsname \<Rightarrow> string res" where
  "kubeConfigForCluster G visit cfg getClient cluster =
     bindR getClient (\<lambda>K.
     bindR (wrapR ''failed to get GitopsCluster %s: %w'' [nsString cluster] (kq_GetCluster K cluster)) (\<lambda>secretRef.
     case secretRef of
       Some secret \<Rightarrow> referencedSecret K cluster secret
     | None \<Rightarrow> discoveredSecret G visit cfg K cluster))"

record HttpBody =
  hb_ContentType :: string
  hb_Data :: string

definition GetKubeconfig :: "('a, 'c) config_codec \<Rightarrow> visit \<Rightarrow> config \<Rightarrow> kube_client res \<Rightarrow> (string \<Rightarrow> string res) \<Rightarrow> string list \<Rightarrow> string \<Rightarrow> string \<Rightarrow> HttpBody res" where
  "GetKubeconfig G visit cfg getClient marshal accept name namespace =
     bindR (kubeConfigForCluster G visit cfg getClient (createNamespacedName name (getClusterNamespace cfg namespace))) (\<lambda>val.
       if strContains (joinStr '','' accept) ''application/octet-stream''
       then Inr \<lparr> hb_ContentType = ''application/octet-stream'', hb_Data = val \<rparr>
       else bindR (wrapR ''failed to marshal response to JSON: %w'' [] (marshal (b64Encode val))) (\<lambda>res.
         Inr \<lparr> hb_ContentType = ''application/json'', hb_Data = res \<rparr>))"

end
