(* ===== verification/ClusterFacts.thy ===== *)
theory ClusterFacts
  imports Clusters
begin

text \<open>
  What the listing of clusters and the kubeconfig of a cluster give.
\<close>

section \<open>CAPI clusters\<close>

text \<open>What the conditions of a CAPI cluster say of its control plane: the last condition of that
  type counts, and each of them has to be a boolean.\<close>

definition initialised :: "Condition list \<Rightarrow> bool \<Rightarrow> bool" where
  "initialised conds b \<longleftrightarrow> (let cs = filter (\<lambda>c. gn_Type c = ControlPlaneInitializedCondition) conds in
     (\<forall>c\<in>set cs. isOk (parseBool (gn_Status c))) \<and> (if cs = [] then \<not> b else parseBool (gn_Status (last cs)) = Inr b))"

lemma cpInitialized_Inr:
  "cpInitialized c b0 conds = Inr b \<Longrightarrow> (let cs = filter (\<lambda>c. gn_Type c = ControlPlaneInitializedCondition) conds in
     (\<forall>c\<in>set cs. isOk (parseBool (gn_Status c))) \<and> (if cs = [] then b = b0 else parseBool (gn_Status (last cs)) = Inr b))"
proof (induction conds arbitrary: b0)
  case (Cons cond conds)
  show ?case
  proof (cases "gn_Type cond = ControlPlaneInitializedCondition")
    case True
    then obtain x where x: "parseBool (gn_Status cond) = Inr x" "cpInitialized c x conds = Inr b"
      using Cons.prems by (auto simp: bindR_Inr wrapR_Inr)
    show ?thesis using Cons.IH [OF x(2)] x(1) True by (auto simp: Let_def split: if_splits)
  qed (use Cons in simp)
qed simp

text \<open>A cluster as the listing returns it: with CAPI enabled, a cluster with a reference has gained
  the CAPI cluster that is found under its own name, unless there is none; any other cluster is
  as it was. The client decodes into an object that is used again, old.\<close>

definition enriched :: "bool \<Rightarrow> capi_client \<Rightarrow> GitopsCluster \<Rightarrow> GitopsCluster \<Rightarrow> bool" where
  "enriched capi K c c' \<longleftrightarrow>
     (if \<not> capi \<or> gk_CapiClusterRef c = None then c' = c
      else \<exists>old. case kk_Get K (createNamespacedName (gk_Name c) (gk_Namespace c)) old of
        (Some e, new) \<Rightarrow> kk_IsNotFound K e \<and> c' = c
      | (None, new) \<Rightarrow> \<exists>b. initialised (cx_Conditions new) b \<and> c' = c\<lparr> gk_CapiCluster := Some (capiResponse new b) \<rparr>)"

lemma addCAPI_enriched: "addCAPI K old cs = Inr cs' \<Longrightarrow> list_all2 (enriched True K) cs cs'"
proof (induction cs arbitrary: old cs')
  case (Cons c cs)
  show ?case
  proof (cases "gk_CapiClusterRef c")
    case None
    then have "enriched True K c c" by (simp add: enriched_def)
    with Cons None show ?thesis by (auto simp: bindR_Inr)
  next
    case (Some ref)
    obtain e new where get: "kk_Get K (createNamespacedName (gk_Name c) (gk_Namespace c)) old = (e, new)" by force
    show ?thesis
    proof (cases e)
      case None
      obtain b ds where b: "cpInitialized new False (cx_Conditions new) = Inr b"
        and ds: "addCAPI K new cs = Inr ds" "cs' = c\<lparr> gk_CapiCluster := Some (capiResponse new b) \<rparr> # ds"
        using Cons.prems get Some None by (auto simp: bindR_Inr)
      have "initialised (cx_Conditions new) b" using cpInitialized_Inr [OF b] by (auto simp: initialised_def Let_def)
      then have "enriched True K c (c\<lparr> gk_CapiCluster := Some (capiResponse new b) \<rparr>)"
        unfolding enriched_def using get Some None by (auto intro!: exI [of _ old])
      with Cons.IH [OF ds(1)] ds(2) show ?thesis by simp
    next
      case (Some e')
      then obtain ds where ds: "addCAPI K new cs = Inr ds" "cs' = c # ds" "kk_IsNotFound K e'"
        using Cons.prems get \<open>gk_CapiClusterRef c = Some ref\<close> by (auto simp: bindR_Inr split: if_splits)
      then have "enriched True K c c"
        unfolding enriched_def using get Some by (auto intro!: exI [of _ old])
      with Cons.IH [OF ds(1)] ds(2) show ?thesis by simp
    qed
  qed
qed simp

text \<open>A cluster whose initialisation is unknown.\<close>

definition unknownInit :: "capi_cluster \<Rightarrow> bool" where
  "unknownInit c \<longleftrightarrow> (\<exists>cond\<in>set (cx_Conditions c). gn_Type cond = ControlPlaneInitializedCondition \<and> gn_Status cond = ''Unknown'')"

lemma cpInitialized_unknown:
  "\<exists>cond\<in>set conds. gn_Type cond = ControlPlaneInitializedCondition \<and> gn_Status cond = ''Unknown'' \<Longrightarrow>
   \<not> isOk (cpInitialized c b conds)"
proof (induction conds arbitrary: b)
  case (Cons cond conds)
  have unknown: "parseBool ''Unknown'' = Inl (Errf ''strconv.ParseBool: parsing %q: invalid syntax'' [''Unknown''])"
    by (simp add: parseBool_def)
  show ?case
  proof (cases "gn_Type cond = ControlPlaneInitializedCondition \<and> gn_Status cond = ''Unknown''")
    case False
    with Cons.prems have "\<not> isOk (cpInitialized c b' conds)" for b' using Cons.IH by auto
    then show ?thesis by (auto simp: isOk_bindR)
  qed (simp add: unknown)
qed simp

lemma addCAPI_unknown:
  assumes "c \<in> set cs" "gk_CapiClusterRef c \<noteq> None"
    and "\<And>old. fst (kk_Get K (createNamespacedName (gk_Name c) (gk_Namespace c)) old) = None \<and>
      unknownInit (snd (kk_Get K (createNamespacedName (gk_Name c) (gk_Namespace c)) old))"
  shows "\<not> isOk (addCAPI K old cs)"
  using assms(1)
proof (induction cs arbitrary: old)
  case (Cons d cs)
  show ?case
  proof (cases "d = c")
    case True
    obtain new where get: "kk_Get K (createNamespacedName (gk_Name c) (gk_Namespace c)) old = (None, new)" "unknownInit new"
      using assms(3) [of old] by (metis prod.collapse)
    then have "\<not> isOk (cpInitialized new False (cx_Conditions new))"
      by (intro cpInitialized_unknown) (simp add: unknownInit_def)
    with True get assms(2) show ?thesis by (auto simp: isOk_bindR)
  next
    case False
    with Cons have IH: "\<not> isOk (addCAPI K o' cs)" for o' by simp
    show ?thesis
    proof
      assume "isOk (addCAPI K old (d # cs))"
      then obtain r where "addCAPI K old (d # cs) = Inr r" by (rule isOkE)
      then obtain o' x where "addCAPI K o' cs = Inr x"
        by (auto simp: bindR_Inr split: if_splits option.splits prod.splits)
      with IH [of o'] show False by simp
    qed
  qed
qed simp

section \<open>Listing\<close>

definition listedClusters :: "clusters_server \<Rightarrow> gitops_cluster list" where
  "listedClusters s = (case cs_Fetch s of Inl e \<Rightarrow> [] | Inr ls \<Rightarrow> concat (map nl_List ls))"

text \<open>C20: A listing without a label and without a reference type returns the clusters that were
  fetched, with CAPI enabled each one that has a reference completed with the CAPI cluster of
  its own name where there is one, together with the management cluster, sorted by name, and
  their number.\<close>

theorem cluster_listing_spec:
  assumes "ListGitopsClusters s [] [] = Inr (cs, n, errs)" "cs_client s = Inr K"
  shows "(\<exists>ds mgmt. list_all2 (enriched (cs_capiEnabled s) K) (map ToClusterResponse (listedClusters s)) ds \<and>
      getManagementCluster (cs_cluster s) = Inr mgmt \<and> mset cs = add_mset mgmt (mset ds)) \<and>
    sorted_wrt (\<lambda>c d. \<not> stringLess (gk_Name d) (gk_Name c)) cs \<and> n = length (listedClusters s) + 1"
proof -
  let ?lt = "\<lambda>c d. stringLess (gk_Name c) (gk_Name d)"
  obtain ls where ls: "cs_Fetch s = Inr ls" using assms(1) by (auto simp: ListGitopsClusters_def bindR_Inr)
  then have listed: "listedClusters s = concat (map nl_List ls)" by (simp add: listedClusters_def)
  obtain ds mgmt where ds: "(if cs_capiEnabled s then AddCAPIClusters K (map ToClusterResponse (listedClusters s))
        else Inr (map ToClusterResponse (listedClusters s))) = Inr ds"
    and mgmt: "getManagementCluster (cs_cluster s) = Inr mgmt" and cs: "cs = sortSlice ?lt (ds @ [mgmt])" "n = length cs"
    using assms ls unfolding listed
    by (clarsimp simp: ListGitopsClusters_def Let_def bindR_Inr)
  have all: "list_all2 (enriched (cs_capiEnabled s) K) (map ToClusterResponse (listedClusters s)) ds"
  proof (cases "cs_capiEnabled s")
    case True
    with ds addCAPI_enriched show ?thesis by (simp add: AddCAPIClusters_def)
  next
    case False
    with ds have "ds = map ToClusterResponse (listedClusters s)" by simp
    with False show ?thesis by (simp add: list_all2_same enriched_def)
  qed
  moreover have "n = length (listedClusters s) + 1" using cs list_all2_lengthD [OF all] by simp
  moreover have "mset cs = add_mset mgmt (mset ds)" using cs(1) by simp
  moreover have "sorted_wrt (\<lambda>c d. \<not> stringLess (gk_Name d) (gk_Name c)) cs" unfolding cs(1) by (rule sortSlice_weak)
  ultimately show ?thesis using mgmt by blast
qed

definition demoCluster :: "string \<Rightarrow> gitops_cluster" where
  "demoCluster name = \<lparr> gl_Name = name, gl_Namespace = ''ns'', gl_Annotations = Map.empty, gl_Labels = Map.empty, gl_Conditions = [],
     gl_Kind = ''GitopsCluster'', gl_CAPIClusterRef = Some ''ref'', gl_SecretRef = None \<rparr>"

definition demoCAPI :: "string \<Rightarrow> capi_client" where
  "demoCAPI status = \<lparr> kk_Get = (\<lambda>n old. (None, emptyCAPI\<lparr> cx_Name := nn_Name n, cx_Conditions :=
       [\<lparr> gn_Type = ControlPlaneInitializedCondition, gn_Status = status, gn_Reason = [], gn_Message = [], gn_Timestamp = [] \<rparr>] \<rparr>)),
     kk_IsNotFound = (\<lambda>_. False) \<rparr>"

definition demoClusters :: "string \<Rightarrow> clusters_server" where
  "demoClusters status = \<lparr> cs_Fetch = Inr [\<lparr> nl_Namespace = ''ns'', nl_List = [demoCluster ''b'', demoCluster ''a''], nl_Error = None \<rparr>],
     cs_client = Inr (demoCAPI status), cs_capiEnabled = True, cs_cluster = ''mgmt'', cs_visit = sorted_list_of_set \<rparr>"

theorem cluster_listing_spec_witness:
  "\<exists>cs errs. ListGitopsClusters (demoClusters ''True'') [] [] = Inr (cs, 3, errs) \<and>
     sorted_wrt (\<lambda>c d. \<not> stringLess (gk_Name d) (gk_Name c)) cs \<and>
     (\<exists>c\<in>set cs. gk_Name c = ''a'' \<and> (\<exists>x. gk_CapiCluster c = Some x \<and> cy_Name x = ''a'' \<and> cz_ControlPlaneInitialized (cy_Status x)))"
proof -
  have client: "cs_client (demoClusters ''True'') = Inr (demoCAPI ''True'')" by (simp add: demoClusters_def)
  obtain cs n errs where run: "ListGitopsClusters (demoClusters ''True'') [] [] = Inr (cs, n, errs)"
    by (simp add: ListGitopsClusters_def demoClusters_def demoCluster_def demoCAPI_def AddCAPIClusters_def getManagementCluster_def
      ToClusterResponse_def parseBool_def emptyCAPI_def createNamespacedName_def Let_def)
  have ls: "listedClusters (demoClusters ''True'') = [demoCluster ''b'', demoCluster ''a'']" "cs_capiEnabled (demoClusters ''True'')"
    by (simp_all add: listedClusters_def demoClusters_def)
  obtain d2 where e: "enriched True (demoCAPI ''True'') (ToClusterResponse (demoCluster ''a'')) d2"
    and cs: "d2 \<in> set cs" and rest: "n = 3" "sorted_wrt (\<lambda>c d. \<not> stringLess (gk_Name d) (gk_Name c)) cs"
    using cluster_listing_spec [OF run client] unfolding ls by (auto simp: list_all2_Cons1 ls simp flip: set_mset_mset)
  have "gk_Name d2 = ''a'' \<and> (\<exists>x. gk_CapiCluster d2 = Some x \<and> cy_Name x = ''a'' \<and> cz_ControlPlaneInitialized (cy_Status x))"
    using e by (auto simp: enriched_def ToClusterResponse_def demoCluster_def demoCAPI_def initialised_def capiResponse_def parseBool_def
      createNamespacedName_def Let_def)
  with run cs rest show ?thesis by auto
qed

text \<open>Two requests fail as a whole: a listing with a label, since no label is
  recognised; and, with CAPI enabled, every listing while the control plane of one fetched
  cluster is in an unknown state, since Unknown is not a boolean.\<close>

theorem cluster_listing_fails:
  assumes "label \<noteq> [] \<or> (cs_capiEnabled s \<and> (\<exists>K c. cs_client s = Inr K \<and> c \<in> set (listedClusters s) \<and> gl_CAPIClusterRef c \<noteq> None \<and>
      (\<forall>old. fst (kk_Get K (createNamespacedName (gl_Name c) (gl_Namespace c)) old) = None \<and>
        unknownInit (snd (kk_Get K (createNamespacedName (gl_Name c) (gl_Namespace c)) old)))))"
  shows "\<not> isOk (ListGitopsClusters s label refType)"
proof
  assume "isOk (ListGitopsClusters s label refType)"
  then obtain r where run: "ListGitopsClusters s label refType = Inr r" by (rule isOkE)
  then have unlabelled: "label = []"
    by (auto simp: ListGitopsClusters_def Let_def bindR_Inr isLabelRecognised_def labels_def split: if_splits)
  with assms obtain K c where capi: "cs_capiEnabled s" "cs_client s = Inr K" and c: "c \<in> set (listedClusters s)" "gl_CAPIClusterRef c \<noteq> None"
    and get: "\<And>old. fst (kk_Get K (createNamespacedName (gl_Name c) (gl_Namespace c)) old) = None \<and>
        unknownInit (snd (kk_Get K (createNamespacedName (gl_Name c) (gl_Namespace c)) old))"
    by auto
  have "isOk (addCAPI K emptyCAPI (map ToClusterResponse (listedClusters s)))"
    using run capi by (auto simp: ListGitopsClusters_def Let_def bindR_Inr AddCAPIClusters_def listedClusters_def)
  moreover have "\<not> isOk (addCAPI K emptyCAPI (map ToClusterResponse (listedClusters s)))"
    by (rule addCAPI_unknown [of "ToClusterResponse c"]) (use c get in \<open>auto simp: ToClusterResponse_def\<close>)
  ultimately show False by blast
qed

theorem cluster_listing_fails_witness:
  "\<not> isOk (ListGitopsClusters (demoClusters ''Unknown'') [] []) \<and> \<not> isOk (ListGitopsClusters (demoClusters ''True'') ''env'' [])"
proof
  show "\<not> isOk (ListGitopsClusters (demoClusters ''True'') ''env'' [])"
    by (rule cluster_listing_fails) simp
  show "\<not> isOk (ListGitopsClusters (demoClusters ''Unknown'') [] [])"
    by (rule cluster_listing_fails, rule disjI2, intro conjI exI [of _ "demoCAPI ''Unknown''"] exI [of _ "demoCluster ''a''"])
      (simp_all add: demoClusters_def demoCAPI_def listedClusters_def demoCluster_def unknownInit_def)
qed

section \<open>Kubeconfigs\<close>

text \<open>The content that a named secret gives, if there is such a secret.\<close>

definition secretContent :: "kube_client \<Rightarrow> nsname \<Rightarrow> string option" where
  "secretContent K name = (case kq_GetSecret K name of Inl e \<Rightarrow> None | Inr s \<Rightarrow> kubeConfigFromSecret s)"

lemma optionalSecret_Inr:
  "optionalSecret K missing cluster name shown = Inr v \<Longrightarrow> v = secretContent K name"
  by (auto simp: optionalSecret_def secretByName_def secretContent_def split: sum.splits if_splits option.splits)

lemma optionalSecret_present:
  "optionalSecret K missing cluster name shown = Inr None \<Longrightarrow> \<exists>e. kq_GetSecret K name = Inl e \<and> missing e"
  by (auto simp: optionalSecret_def secretByName_def split: sum.splits if_splits option.splits)

text \<open>C21: The kubeconfig of a cluster is the one in the secret that the cluster names, in
  the namespace of the cluster; without a named secret it is the one of the user's secret,
  or of the cluster's own when the user's cannot be read, each merged with the override
  secret of the namespace when that can be read.\<close>

theorem kubeconfig_precedence:
  assumes "kubeConfigForCluster G visit cfg (Inr K) cluster = Inr val"
  shows "case kq_GetCluster K cluster of
      Inl e \<Rightarrow> False
    | Inr (Some secret) \<Rightarrow> secretContent K (createNamespacedName secret (nn_Namespace cluster)) = Some val
    | Inr None \<Rightarrow>
        (let ns = getClusterNamespace cfg (nn_Namespace cluster);
             user = secretContent K (createNamespacedName (nn_Name cluster @ ''-user-kubeconfig'') ns);
             own = secretContent K (createNamespacedName (nn_Name cluster @ ''-kubeconfig'') ns);
             override = secretContent K (createNamespacedName ''cluster-kubeconfig-override'' ns)
         in \<exists>base. (if user \<noteq> None then user else own) = Some base \<and> overridden G visit override base = Inr val)"
proof -
  obtain ref where ref: "kq_GetCluster K cluster = Inr ref"
    and rest: "(case ref of Some secret \<Rightarrow> referencedSecret K cluster secret | None \<Rightarrow> discoveredSecret G visit cfg K cluster) = Inr val"
    using assms by (auto simp: kubeConfigForCluster_def bindR_Inr)
  show ?thesis
  proof (cases ref)
    case (Some secret)
    with ref rest show ?thesis
      by (auto simp: referencedSecret_def Let_def bindR_Inr dest!: optionalSecret_Inr split: option.splits)
  next
    case None
    let ?ns = "getClusterNamespace cfg (nn_Namespace cluster)"
    let ?content = "\<lambda>name. secretContent K (createNamespacedName name ?ns)"
    let ?override = "?content ''cluster-kubeconfig-override''"
    let ?user = "?content (nn_Name cluster @ ''-user-kubeconfig'')" and ?own = "?content (nn_Name cluster @ ''-kubeconfig'')"
    obtain ov v where ov: "ov = ?override" and v: "v = ?user"
      and use: "(case v of Some b \<Rightarrow> overridden G visit ov b | None \<Rightarrow>
         bindR (optionalSecret K (kq_IsNotFound K) cluster (createNamespacedName (nn_Name cluster @ ''-kubeconfig'') ?ns)
             (nsString (createNamespacedName (nn_Name cluster @ ''-kubeconfig'') ?ns)))
           (\<lambda>w. case w of Some b \<Rightarrow> overridden G visit ov b
             | None \<Rightarrow> Inl (Errf ''unable to get kubeconfig secret for cluster %s'' [nsString cluster]))) = Inr val"
      using rest unfolding None discoveredSecret_def Let_def option.case bindR_Inr
      by (blast dest: optionalSecret_Inr)
    have "\<exists>base. (if ?user \<noteq> None then ?user else ?own) = Some base \<and> overridden G visit ?override base = Inr val"
    proof (cases v)
      case None
      with use obtain b where "?own = Some b" "overridden G visit ov b = Inr val"
        by (auto simp: bindR_Inr dest!: optionalSecret_Inr [THEN sym] split: option.splits)
      with ov v None show ?thesis by simp
    qed (use use ov v in auto)
    with ref None show ?thesis by (simp add: Let_def)
  qed
qed

definition demoSecrets :: "nsname \<Rightarrow> (string \<rightharpoonup> string) res" where
  "demoSecrets n =
     (if nn_Name n = ''c-user-kubeconfig'' then Inr [''value'' \<mapsto> ''user'']
      else if nn_Name n = ''c-kubeconfig'' then Inr [''value'' \<mapsto> ''own''] else Inl (err ''not found''))"

definition demoKube :: kube_client where
  "demoKube = \<lparr> kq_GetCluster = (\<lambda>_. Inr None), kq_GetSecret = demoSecrets, kq_IsNotFound = (\<lambda>_. True), kq_IsForbidden = (\<lambda>_. False) \<rparr>"

definition plainCodec :: "(string, unit) config_codec" where
  "plainCodec = \<lparr> kg_Load = (\<lambda>s. Inr \<lparr> kf_AuthInfos = [s \<mapsto> s], kf_Contexts = [''ctx'' \<mapsto> s], kf_CurrentContext = ''ctx'', kf_Clusters = () \<rparr>),
     kg_Merge = (\<lambda>f a b. Inr (a\<lparr> kf_AuthInfos := f (kf_AuthInfos a) (kf_AuthInfos b) \<rparr>)),
     kg_Write = (\<lambda>c. Inr (mget (kf_Contexts c) (kf_CurrentContext c))) \<rparr>"

theorem kubeconfig_precedence_witness:
  "kubeConfigForCluster plainCodec sorted_list_of_set (\<lambda>_. []) (Inr demoKube) (createNamespacedName ''c'' ''ns'') = Inr ''user'' \<and>
   secretContent demoKube (createNamespacedName ''c-user-kubeconfig'' ''ns'') = Some ''user''"
proof -
  have run: "kubeConfigForCluster plainCodec sorted_list_of_set (\<lambda>_. []) (Inr demoKube) (createNamespacedName ''c'' ''ns'') = Inr ''user''"
    by (simp add: kubeConfigForCluster_def demoKube_def demoSecrets_def discoveredSecret_def optionalSecret_def secretByName_def
      kubeConfigFromSecret_def createNamespacedName_def getClusterNamespace_def overridden_def Let_def)
  from kubeconfig_precedence [OF run] run show ?thesis
    by (simp add: demoKube_def demoSecrets_def secretContent_def kubeConfigFromSecret_def createNamespacedName_def getClusterNamespace_def overridden_def Let_def)
qed

text \<open>A merged kubeconfig has the users of the override alone. When it has a single
  context, which is the current one, this context gets the only user there is; with several
  users, or none, the user of the context is lost.\<close>

theorem merged_context_user:
  assumes "visit_ok visit" "finite (dom (kf_AuthInfos m))" "dom (kf_Contexts m) = {kf_CurrentContext m}" "kf_CurrentContext m \<noteq> []"
    and "kg_Load G main = Inr a" "kg_Load G overrides = Inr b" "kg_Merge G authInfoTransformer a b = Inr m"
    and "kf_AuthInfos m = authInfoTransformer (kf_AuthInfos a) (kf_AuthInfos b)"
  shows "\<exists>user. mergeKubeConfigs G visit main overrides = kg_Write G (m\<lparr> kf_Contexts := [kf_CurrentContext m \<mapsto> user] \<rparr>) \<and>
    kf_AuthInfos m = kf_AuthInfos b \<and>
    (if card (dom (kf_AuthInfos b)) = 1 then dom (kf_AuthInfos b) = {user} else user = [])"
proof -
  let ?users = "visit (dom (kf_AuthInfos m))"
  let ?user = "if length ?users = 1 then hd ?users else []"
  have ctx: "length (visit (dom (kf_Contexts m))) = 1"
    using assms(1,3) unfolding visit_ok_def by (metis distinct_card finite.emptyI finite.insertI is_singletonI is_singleton_altdef)
  have users: "set ?users = dom (kf_AuthInfos m)" "length ?users = card (dom (kf_AuthInfos m))"
    using assms(1,2) unfolding visit_ok_def by (metis distinct_card)+
  obtain c where c: "kf_Contexts m (kf_CurrentContext m) = Some c" using assms(3) by auto
  have only: "(kf_Contexts m)(kf_CurrentContext m \<mapsto> ?user) = [kf_CurrentContext m \<mapsto> ?user]"
    using assms(3) by (auto simp: fun_eq_iff dom_def)
  have "mergeKubeConfigs G visit main overrides = kg_Write G (m\<lparr> kf_Contexts := [kf_CurrentContext m \<mapsto> ?user] \<rparr>)"
    using assms(4-7) ctx c only by (simp add: mergeKubeConfigs_def replaceContextUser_def Let_def)
  moreover have "kf_AuthInfos m = kf_AuthInfos b" using assms(8) by (simp add: authInfoTransformer_def)
  moreover have "dom (kf_AuthInfos m) = {?user}" if "length ?users = 1"
    using that users(1) by (cases ?users) auto
  ultimately show ?thesis using users(2) by (intro exI [of _ ?user]) auto
qed

theorem merged_context_user_witness:
  "mergeKubeConfigs plainCodec sorted_list_of_set ''main'' ''override'' = Inr ''override''"
proof -
  let ?m = "\<lparr> kf_AuthInfos = [''override'' \<mapsto> ''override''], kf_Contexts = [''ctx'' \<mapsto> ''main''], kf_CurrentContext = ''ctx'', kf_Clusters = () \<rparr>"
  have visit: "visit_ok sorted_list_of_set" by (simp add: visit_ok_def)
  have merge: "kg_Merge plainCodec authInfoTransformer
     \<lparr> kf_AuthInfos = [''main'' \<mapsto> ''main''], kf_Contexts = [''ctx'' \<mapsto> ''main''], kf_CurrentContext = ''ctx'', kf_Clusters = () \<rparr>
     \<lparr> kf_AuthInfos = [''override'' \<mapsto> ''override''], kf_Contexts = [''ctx'' \<mapsto> ''override''], kf_CurrentContext = ''ctx'', kf_Clusters = () \<rparr> = Inr ?m"
    by (simp add: plainCodec_def authInfoTransformer_def)
  from merged_context_user [OF visit _ _ _ _ _ merge, of "''main''" "''override''"]
  show ?thesis by (auto simp: plainCodec_def authInfoTransformer_def)
qed

end
