(* ===== verification/GitFacts.thy ===== *)
theory GitFacts
  imports GitProviders
begin

text \<open>
  What a pull request leaves in the repository. A host is seen through the tree of each of
  its branches, a map from paths to contents, and the tree of each commit. The laws of a
  host are those of the git operations; retry.OnError runs its function again after errors.
\<close>

section \<open>Hosts\<close>

type_synonym file_tree = "string \<rightharpoonup> string"

definition applyFiles :: "file_tree \<Rightarrow> commit_file list \<Rightarrow> file_tree" where
  "applyFiles t files = foldl (\<lambda>t f. t(cf_Path f := cf_Content f)) t files"

inductive attempts :: "('s, 'a) action \<Rightarrow> 's \<Rightarrow> 's \<Rightarrow> bool" for f where
  start: "attempts f s s"
| again: "attempts f s s1 \<Longrightarrow> f s1 = (Inl e, s2) \<Longrightarrow> attempts f s s2"

record 's host_view =
  hv_repo :: "'s org_repo"
  hv_tree :: "'s \<Rightarrow> string \<rightharpoonup> file_tree"
  hv_commit :: "'s \<Rightarrow> string \<Rightarrow> file_tree"

definition sameTrees :: "'s host_view \<Rightarrow> 's \<Rightarrow> 's \<Rightarrow> bool" where
  "sameTrees H s s' \<longleftrightarrow> hv_tree H s' = hv_tree H s \<and> hv_commit H s' = hv_commit H s"

definition only :: "'s host_view \<Rightarrow> string \<Rightarrow> 's \<Rightarrow> 's \<Rightarrow> bool" where
  "only H head s s' \<longleftrightarrow> (\<forall>b. b \<noteq> head \<longrightarrow> hv_tree H s' b = hv_tree H s b)"

definition retry_ok :: "((goerror \<Rightarrow> bool) \<Rightarrow> ('s, 'a) action \<Rightarrow> ('s, 'a) action) \<Rightarrow> bool" where
  "retry_ok retry \<longleftrightarrow> (\<forall>p f s r s'. retry p f s = (r, s') \<longrightarrow> (\<exists>s1. attempts f s s1 \<and> f s1 = (r, s')))"

definition host_ok :: "'s git_client \<Rightarrow> 's host_view \<Rightarrow> bool" where
  "host_ok C H \<longleftrightarrow>
     retry_ok (gc_RetryCommits C) \<and> retry_ok (gc_RetryRepository C) \<and>
     (\<forall>ref s r s'. gc_GetRepository C ref s = (r, s') \<longrightarrow> sameTrees H s s' \<and> (isOk r \<longrightarrow> r = Inr (hv_repo H))) \<and>
     (\<forall>b s r s'. or_ListCommits (hv_repo H) b s = (r, s') \<longrightarrow> sameTrees H s s' \<and>
        (\<forall>sha rest. r = Inr (sha # rest) \<longrightarrow> hv_tree H s b = Some (hv_commit H s sha))) \<and>
     (\<forall>h sha s e s'. or_CreateBranch (hv_repo H) h sha s = (e, s') \<longrightarrow> only H h s s' \<and>
        (e = None \<longrightarrow> hv_tree H s' h = Some (hv_commit H s sha))) \<and>
     (\<forall>h m files s r s'. or_CreateCommit (hv_repo H) h m files s = (r, s') \<longrightarrow> only H h s s' \<and>
        (isOk r \<longrightarrow> hv_tree H s' h = map_option (\<lambda>t. applyFiles t files) (hv_tree H s h))) \<and>
     (\<forall>d p rec s r s'. or_ListTrees (hv_repo H) d p rec s = (r, s') \<longrightarrow> sameTrees H s s') \<and>
     (\<forall>t h b d s r s'. or_CreatePullRequest (hv_repo H) t h b d s = (r, s') \<longrightarrow> sameTrees H s s')"

lemma same_refl: "sameTrees H s s"
  by (simp add: sameTrees_def)

lemma same_trans: "sameTrees H s s1 \<Longrightarrow> sameTrees H s1 s2 \<Longrightarrow> sameTrees H s s2"
  by (simp add: sameTrees_def)

lemma only_refl: "only H h s s"
  by (simp add: only_def)

lemma only_trans: "only H h s s1 \<Longrightarrow> only H h s1 s2 \<Longrightarrow> only H h s s2"
  by (simp add: only_def)

lemma same_only: "sameTrees H s s' \<Longrightarrow> only H h s s'"
  by (simp add: sameTrees_def only_def)

text \<open>What every outcome of a chain of actions keeps.\<close>

definition keeps :: "('s \<Rightarrow> 's \<Rightarrow> bool) \<Rightarrow> ('s, 'a) action \<Rightarrow> bool" where
  "keeps R f \<longleftrightarrow> (\<forall>s. R s (snd (f s)))"

lemma keepsD: "keeps R f \<Longrightarrow> f s = (r, s') \<Longrightarrow> R s s'"
  unfolding keeps_def by (metis snd_conv)

lemma keepsI: "(\<And>s r s'. f s = (r, s') \<Longrightarrow> R s s') \<Longrightarrow> keeps R f"
  unfolding keeps_def by (metis prod.collapse)

lemma attempts_same:
  assumes "keeps (sameTrees H) f" "attempts f s s1"
  shows "sameTrees H s s1"
  using assms(2)
proof induction
  case (again s1 e s2)
  show ?case by (rule same_trans [OF again.IH keepsD [OF assms(1) again.hyps(2)]])
qed (rule same_refl)

lemma retried:
  assumes "retry_ok retry" "keeps (sameTrees H) f" "retry p f s = (r, s')"
  shows "\<exists>s1. sameTrees H s s1 \<and> f s1 = (r, s') \<and> sameTrees H s s'"
proof -
  obtain s1 where s1: "attempts f s s1" "f s1 = (r, s')" using assms(1,3) unfolding retry_ok_def by blast
  have first: "sameTrees H s s1" by (rule attempts_same [OF assms(2) s1(1)])
  from same_trans [OF first keepsD [OF assms(2) s1(2)]] first s1(2) show ?thesis by (intro exI conjI)
qed

lemma retry_keeps:
  assumes "retry_ok retry" "keeps (sameTrees H) f"
  shows "keeps (sameTrees H) (retry p f)"
proof (rule keepsI)
  fix s r s' assume "retry p f s = (r, s')"
  from retried [OF assms this] show "sameTrees H s s'" by blast
qed

section \<open>Actions\<close>

named_theorems action_simps \<open>actions that return a result in a state\<close>

lemma bindA_Inr [action_simps]: "bindA f g s = (Inr y, s') \<longleftrightarrow> (\<exists>x s1. f s = (Inr x, s1) \<and> g x s1 = (Inr y, s'))"
  by (auto simp: bindA_def split: prod.splits sum.splits)

lemma wrapA_Inr [action_simps]: "wrapA m a f s = (Inr y, s') \<longleftrightarrow> f s = (Inr y, s')"
  by (auto simp: wrapA_def wrapR_def split: prod.splits sum.splits)

lemma liftR_Inr [action_simps]: "liftR r s = (Inr y, s') \<longleftrightarrow> r = Inr y \<and> s' = s"
  by (auto simp: liftR_def)

lemma stepA_Inr [action_simps]: "stepA f s = (Inr y, s') \<longleftrightarrow> f s = (None, s')"
  by (auto simp: stepA_def split: prod.splits option.splits)

lemma keeps_bindA:
  assumes "\<And>s s1 s2. R s s1 \<Longrightarrow> R s1 s2 \<Longrightarrow> R s s2" "keeps R f" "\<And>x s s1. f s = (Inr x, s1) \<Longrightarrow> keeps R (g x)"
  shows "keeps R (bindA f g)"
  unfolding keeps_def
proof
  fix s
  obtain r s1 where f: "f s = (r, s1)" by force
  have s1: "R s s1" using assms(2) f unfolding keeps_def by (metis snd_conv)
  show "R s (snd (bindA f g s))"
  proof (cases r)
    case (Inr x)
    have "R s1 (snd (g x s1))" using assms(3) [of s x s1] f Inr unfolding keeps_def by blast
    with s1 Inr f assms(1) show ?thesis by (simp add: bindA_def)
  qed (simp add: bindA_def f s1)
qed

lemma snd_wrapA [simp]: "snd (wrapA m a f s) = snd (f s)"
  by (cases "f s") (simp add: wrapA_def)

lemma snd_stepA [simp]: "snd (stepA f s) = snd (f s)"
  by (cases "f s"; cases "fst (f s)") (simp_all add: stepA_def)

lemma keeps_wrapA [simp]: "keeps R (wrapA m a f) = keeps R f"
  by (simp add: keeps_def)

lemma keeps_stepA [simp]: "keeps R (stepA f) = (\<forall>s. R s (snd (f s)))"
  by (simp add: keeps_def)

lemma keeps_liftR: "(\<And>s. R s s) \<Longrightarrow> keeps R (liftR r)"
  by (simp add: keeps_def liftR_def)

section \<open>Trees\<close>

lemma applyFiles_Nil [simp]: "applyFiles t [] = t"
  by (simp add: applyFiles_def)

lemma applyFiles_append: "applyFiles t (fs @ gs) = applyFiles (applyFiles t fs) gs"
  by (simp add: applyFiles_def)

lemma applyFiles_other: "p \<notin> cf_Path ` set fs \<Longrightarrow> applyFiles t fs p = t p"
  by (induction fs arbitrary: t) (auto simp: applyFiles_def)

lemma applyFiles_same: "(\<And>p. p \<notin> cf_Path ` set fs \<Longrightarrow> t p = t' p) \<Longrightarrow> applyFiles t fs = applyFiles t' fs"
proof (induction fs arbitrary: t t')
  case (Cons f fs)
  have "applyFiles (t(cf_Path f := cf_Content f)) fs = applyFiles (t'(cf_Path f := cf_Content f)) fs"
    using Cons.prems by (intro Cons.IH) auto
  then show ?case by (simp add: applyFiles_def)
qed auto

text \<open>Deleting first what is written afterwards changes nothing.\<close>

lemma applyFiles_delete_first:
  assumes "cf_Path ` set dels \<subseteq> cf_Path ` set fs"
  shows "applyFiles (applyFiles t dels) fs = applyFiles t fs"
  using assms by (intro applyFiles_same applyFiles_other) blast

section \<open>The operations on a lawful host\<close>

lemma host_laws:
  assumes "host_ok C H"
  shows "retry_ok (gc_RetryCommits C)" "retry_ok (gc_RetryRepository C)"
    "\<forall>ref s r s'. gc_GetRepository C ref s = (r, s') \<longrightarrow> sameTrees H s s' \<and> (isOk r \<longrightarrow> r = Inr (hv_repo H))"
    "\<forall>b s r s'. or_ListCommits (hv_repo H) b s = (r, s') \<longrightarrow> sameTrees H s s' \<and>
       (\<forall>sha rest. r = Inr (sha # rest) \<longrightarrow> hv_tree H s b = Some (hv_commit H s sha))"
    "\<forall>h sha s e s'. or_CreateBranch (hv_repo H) h sha s = (e, s') \<longrightarrow> only H h s s' \<and>
       (e = None \<longrightarrow> hv_tree H s' h = Some (hv_commit H s sha))"
    "\<forall>h m files s r s'. or_CreateCommit (hv_repo H) h m files s = (r, s') \<longrightarrow> only H h s s' \<and>
       (isOk r \<longrightarrow> hv_tree H s' h = map_option (\<lambda>t. applyFiles t files) (hv_tree H s h))"
    "\<forall>d p rec s r s'. or_ListTrees (hv_repo H) d p rec s = (r, s') \<longrightarrow> sameTrees H s s'"
    "\<forall>t h b d s r s'. or_CreatePullRequest (hv_repo H) t h b d s = (r, s') \<longrightarrow> sameTrees H s s'"
  using assms unfolding host_ok_def by - (elim conjE, assumption)+

lemmas host_get = host_laws(3) [rule_format]
lemmas host_list = host_laws(4) [rule_format]
lemmas host_branch = host_laws(5) [rule_format]
lemmas host_commit = host_laws(6) [rule_format]

lemma host_reads:
  assumes "host_ok C H"
  shows "keeps (sameTrees H) (gc_GetRepository C ref)" "keeps (sameTrees H) (or_ListCommits (hv_repo H) b)"
    "keeps (sameTrees H) (or_ListTrees (hv_repo H) d p rec)"
    "keeps (sameTrees H) (or_CreatePullRequest (hv_repo H) t h b ds)"
  by (rule keepsI, use host_get [OF assms] host_list [OF assms] in blast)+
    (rule keepsI, use host_laws(7,8) [OF assms] in blast)+

lemma keeps_only: "keeps (sameTrees H) f \<Longrightarrow> keeps (only H h) f"
  by (rule keepsI, rule same_only, rule keepsD)

lemma get_retried:
  assumes "host_ok C H"
  shows "keeps (sameTrees H) (gc_RetryRepository C p (gc_GetRepository C ref))"
    and "gc_RetryRepository C p (gc_GetRepository C ref) s = (Inr r, s') \<Longrightarrow> r = hv_repo H"
proof -
  have ok: "retry_ok (gc_RetryRepository C)" by (rule host_laws [OF assms])
  show "keeps (sameTrees H) (gc_RetryRepository C p (gc_GetRepository C ref))"
    by (rule retry_keeps [OF ok host_reads(1) [OF assms]])
  assume "gc_RetryRepository C p (gc_GetRepository C ref) s = (Inr r, s')"
  then obtain s1 where "gc_GetRepository C ref s1 = (Inr r, s')"
    using ok unfolding retry_ok_def by blast
  from host_get [OF assms this] show "r = hv_repo H" by simp
qed

lemma repository_keeps:
  assumes "host_ok C H"
  shows "keeps (sameTrees H) (ggp_GetRepository C url)" "keeps (sameTrees H) (repositoryOf k C url)"
proof -
  show first: "keeps (sameTrees H) (ggp_GetRepository C url)"
    unfolding ggp_GetRepository_def Let_def
    by (intro keeps_bindA keeps_liftR same_refl) (auto intro: same_trans get_retried [OF assms])
  have "keeps (sameTrees H) (GetBitbucketRepository C url)"
    by (auto simp: GetBitbucketRepository_def intro!: keeps_liftR same_refl get_retried [OF assms] split: option.split)
  with first show "keeps (sameTrees H) (repositoryOf k C url)" by (simp add: repositoryOf_def)
qed

lemma repository_Inr:
  assumes "host_ok C H" "repositoryOf k C url s = (Inr r, s')"
  shows "r = hv_repo H"
  using assms(2) get_retried(2) [OF assms(1)]
  by (auto simp: repositoryOf_def ggp_GetRepository_def GetBitbucketRepository_def action_simps Let_def split: if_splits option.splits)

lemma CreateBranch_keeps:
  assumes "host_ok C H"
  shows "keeps (only H head) (CreateBranch C (hv_repo H) base head)"
proof -
  have commits: "keeps (sameTrees H) (gc_RetryCommits C p (or_ListCommits (hv_repo H) base))" for p
    by (rule retry_keeps [OF host_laws(1) [OF assms] host_reads(2) [OF assms]])
  have branch: "only H head s (snd (or_CreateBranch (hv_repo H) head sha s))" for sha s
    using host_branch [OF assms, of head sha s] by (metis prod.collapse)
  show ?thesis
    unfolding CreateBranch_def
    by (rule keeps_bindA) (auto intro: only_trans keeps_only commits keeps_liftR only_refl simp: branch split: list.split)
qed

lemma CreateBranch_Inr:
  assumes "host_ok C H" "CreateBranch C (hv_repo H) base head s = (Inr x, s')"
  shows "\<exists>t. hv_tree H s base = Some t \<and> hv_tree H s' head = Some t"
proof -
  obtain commits s2 where c: "gc_RetryCommits C (\<lambda>_. True) (or_ListCommits (hv_repo H) base) s = (Inr commits, s2)"
    and rest: "(case commits of [] \<Rightarrow> liftR (Inl (Errf ''no commits were found for branch %q, is the repository empty?'' [base]))
       | sha # _ \<Rightarrow> wrapA ''unable to create new branch %q from commit %q in branch %q: %w'' [head, sha, base]
           (stepA (or_CreateBranch (hv_repo H) head sha))) s2 = (Inr x, s')"
    using assms(2) by (auto simp: CreateBranch_def action_simps)
  obtain s1 where s1: "sameTrees H s s1" "or_ListCommits (hv_repo H) base s1 = (Inr commits, s2)" "sameTrees H s s2"
    using retried [OF host_laws(1) [OF assms(1)] host_reads(2) [OF assms(1)] c] by blast
  obtain sha shas where cs: "commits = sha # shas" and b: "or_CreateBranch (hv_repo H) head sha s2 = (None, s')"
    using rest by (cases commits) (auto simp: action_simps)
  have "hv_tree H s1 base = Some (hv_commit H s1 sha)" using host_list [OF assms(1) s1(2)] cs by blast
  moreover have "hv_tree H s' head = Some (hv_commit H s2 sha)" using host_branch [OF assms(1) b] by blast
  ultimately show ?thesis using s1(1,3) by (simp add: sameTrees_def)
qed

lemma writeCommits_keeps: "host_ok C H \<Longrightarrow> keeps (only H head) (writeCommits (hv_repo H) head cs)"
proof (induction cs)
  case (Cons c cs)
  have "keeps (only H head) (or_CreateCommit (hv_repo H) head (ci_Message c) (ci_Files c))"
    using host_commit [OF Cons.prems] by (blast intro: keepsI)
  with Cons show ?case by (auto intro!: keeps_bindA intro: only_trans)
qed (simp add: keeps_liftR only_refl)

lemma writeCommits_Inr:
  assumes "host_ok C H"
  shows "writeCommits (hv_repo H) head cs s = (Inr x, s') \<Longrightarrow> hv_tree H s head = Some t \<Longrightarrow>
    hv_tree H s' head = Some (applyFiles t (concat (map ci_Files cs)))"
proof (induction cs arbitrary: s t)
  case (Cons c cs)
  obtain y s1 where c: "or_CreateCommit (hv_repo H) head (ci_Message c) (ci_Files c) s = (Inr y, s1)"
    and rest: "writeCommits (hv_repo H) head cs s1 = (Inr x, s')"
    using Cons.prems(1) by (auto simp: action_simps)
  have "hv_tree H s1 head = Some (applyFiles t (ci_Files c))"
    using host_commit [OF assms c] Cons.prems(2) by simp
  from Cons.IH [OF rest this] show ?case by (simp add: applyFiles_append)
qed (simp add: action_simps)

lemma GetUpdatedFiles_keeps: "host_ok C H \<Longrightarrow> keeps (sameTrees H) (GetUpdatedFiles C fs url branch)"
proof (induction fs)
  case (Cons f fs)
  have "keeps (sameTrees H) (ggp_GetTreeList C url branch d True)" for d
    unfolding ggp_GetTreeList_def
  proof (rule keeps_bindA [OF same_trans])
    fix repo s s1 assume "ggp_GetRepository C url s = (Inr repo, s1)"
    with repository_Inr [OF Cons.prems, of GitHub url s repo s1] have "repo = hv_repo H" by (simp add: repositoryOf_def)
    then show "keeps (sameTrees H) (or_ListTrees repo branch d True)" using host_reads(3) [OF Cons.prems] by simp
  qed (auto intro: repository_keeps Cons.prems)
  then have "keeps (sameTrees H) (bindA (wrapA m a (ggp_GetTreeList C url branch d True))
      (\<lambda>es. bindA (GetUpdatedFiles C fs url branch) (\<lambda>rest. liftR (Inr (g es rest)))))" for m a d and g :: "tree_entry list \<Rightarrow> commit_file list \<Rightarrow> commit_file list"
    using Cons by (intro keeps_bindA keeps_liftR same_refl) (auto intro: same_trans)
  with Cons show ?case by simp
qed (simp add: keeps_liftR same_refl)

lemma GetUpdatedFiles_paths:
  "GetUpdatedFiles C fs url branch s = (Inr us, s') \<Longrightarrow> cf_Path ` set us \<subseteq> cf_Path ` set fs"
proof (induction fs arbitrary: s us)
  case (Cons f fs)
  show ?case
  proof (cases "cf_Content f")
    case None with Cons show ?thesis by auto
  next
    case (Some c)
    with Cons.prems show ?thesis by (auto simp: action_simps dest!: Cons.IH) blast
  qed
qed (simp add: action_simps)

section \<open>Providers\<close>

text \<open>
  What every provider of go-git-providers promises: only the head branch is written,
  whatever the outcome, and when it succeeds the head branch has the tree of the base
  branch with the files of the commits applied.
\<close>

locale pull_request_provider =
  fixes create :: "'s git_client \<Rightarrow> PullRequestInput \<Rightarrow> ('s, string) action"
  assumes only_head: "host_ok C H \<Longrightarrow> keeps (only H (pi_Head i)) (create C i)"
    and writes: "host_ok C H \<Longrightarrow> create C i s = (Inr link, s') \<Longrightarrow>
      \<exists>t. hv_tree H s (pi_Base i) = Some t \<and> hv_tree H s' (pi_Head i) = Some (applyFiles t (concat (map ci_Files (pi_Commits i))))"
begin

lemma outcome:
  assumes "host_ok C H" "create C i s = (r, s')"
  shows "only H (pi_Head i) s s' \<and> (isOk r \<longrightarrow> (\<exists>t. hv_tree H s (pi_Base i) = Some t \<and>
    hv_tree H s' (pi_Head i) = Some (applyFiles t (concat (map ci_Files (pi_Commits i))))))"
proof
  show "only H (pi_Head i) s s'" by (rule keepsD [OF only_head [OF assms(1)] assms(2)])
  show "isOk r \<longrightarrow> (\<exists>t. hv_tree H s (pi_Base i) = Some t \<and>
    hv_tree H s' (pi_Head i) = Some (applyFiles t (concat (map ci_Files (pi_Commits i)))))"
    using writes [OF assms(1)] assms(2) by (auto elim!: isOkE)
qed

text \<open>A file that the commits write holds what the last of them writes, one they delete is gone.\<close>

lemma last_file:
  assumes "host_ok C H" "create C i s = (Inr link, s')" "concat (map ci_Files (pi_Commits i)) = fs @ f # gs"
    "cf_Path f \<notin> cf_Path ` set gs"
  shows "\<exists>t. hv_tree H s' (pi_Head i) = Some t \<and> t (cf_Path f) = cf_Content f"
proof -
  obtain t where "hv_tree H s' (pi_Head i) = Some (applyFiles t (fs @ f # gs))"
    using writes [OF assms(1,2)] assms(3) by auto
  moreover have "applyFiles t (fs @ f # gs) (cf_Path f) = cf_Content f"
    using applyFiles_other [OF assms(4), of "(applyFiles t fs)(cf_Path f := cf_Content f)"]
    by (simp add: applyFiles_def)
  ultimately show ?thesis by blast
qed

end

lemma ggp_writes_branch:
  assumes "host_ok C H"
  shows "keeps (only H head) (WriteFilesToBranch C (hv_repo H) b base head cs)"
  unfolding WriteFilesToBranch_def
  by (intro keeps_bindA) (auto intro: only_trans CreateBranch_keeps writeCommits_keeps keeps_liftR only_refl assms)

lemma repo_keeps:
  assumes "host_ok C H" "repositoryOf k C url s = (Inr repo, s1)"
  shows "keeps (only H h) (WriteFilesToBranch C repo b base h cs)" "keeps (only H h) (CreateBranch C repo base h)"
    "keeps (only H h) (or_CreatePullRequest repo title head base' description)"
  using repository_Inr [OF assms] ggp_writes_branch [OF assms(1)] CreateBranch_keeps [OF assms(1)] keeps_only [OF host_reads(4) [OF assms(1)]]
  by simp_all

lemma ggp_create_only:
  assumes "host_ok C H"
  shows "keeps (only H (pi_Head i)) (ggp_CreateFromBranch k C i)"
  unfolding ggp_CreateFromBranch_def
  by (intro keeps_bindA keeps_liftR only_refl)
    (auto intro: only_trans keeps_only repository_keeps repo_keeps assms simp: ggp_CreatePullRequest_def)

lemma ggp_create_writes:
  assumes "host_ok C H" "ggp_CreateFromBranch k C i s = (Inr link, s')"
  shows "\<exists>t. hv_tree H s (pi_Base i) = Some t \<and> hv_tree H s' (pi_Head i) = Some (applyFiles t (concat (map ci_Files (pi_Commits i))))"
proof -
  obtain url repo s1 s2 s3 where repo: "repositoryOf k C url s = (Inr repo, s1)"
    and branch: "CreateBranch C repo (pi_Base i) (pi_Head i) s1 = (Inr (), s2)"
    and commits: "writeCommits repo (pi_Head i) (pi_Commits i) s2 = (Inr (), s3)"
    and pr: "or_CreatePullRequest repo (pi_Title i) (pi_Head i) (pi_Base i) (pi_Body i) s3 = (Inr link, s')"
    using assms(2) by (auto simp: ggp_CreateFromBranch_def WriteFilesToBranch_def ggp_CreatePullRequest_def action_simps)
  have [simp]: "repo = hv_repo H" by (rule repository_Inr [OF assms(1) repo])
  obtain t where "hv_tree H s1 (pi_Base i) = Some t" "hv_tree H s2 (pi_Head i) = Some t"
    using CreateBranch_Inr [OF assms(1), of "pi_Base i" "pi_Head i" s1 "()" s2] branch by auto
  moreover have "sameTrees H s s1" by (rule keepsD [OF repository_keeps(2) [OF assms(1)] repo])
  moreover have "sameTrees H s3 s'" using keepsD [OF host_reads(4) [OF assms(1)]] pr by simp
  ultimately show ?thesis
    using writeCommits_Inr [OF assms(1)] commits by (auto simp: sameTrees_def)
qed

lemma gitlab_repository: "ggp_GetRepository C url = repositoryOf GitLab C url"
  by (simp add: repositoryOf_def)

lemma gitlab_create_only:
  assumes "host_ok C H"
  shows "keeps (only H (pi_Head i)) (gitlab_CreatePullRequest C i)"
  unfolding gitlab_CreatePullRequest_def Let_def gitlab_repository
  by (intro keeps_bindA keeps_liftR only_refl)
    (auto intro: only_trans keeps_only repository_keeps repo_keeps GetUpdatedFiles_keeps assms simp: ggp_CreatePullRequest_def)

lemma gitlab_create_writes:
  assumes "host_ok C H" "gitlab_CreatePullRequest C i s = (Inr link, s')"
  shows "\<exists>t. hv_tree H s (pi_Base i) = Some t \<and> hv_tree H s' (pi_Head i) = Some (applyFiles t (concat (map ci_Files (pi_Commits i))))"
proof -
  let ?files = "concat (map ci_Files (pi_Commits i))"
  obtain url repo s1 s2 s3 us s4 where repo: "repositoryOf GitLab C url s = (Inr repo, s1)"
    and branch: "CreateBranch C repo (pi_Base i) (pi_Head i) s1 = (Inr (), s2)"
    and updated: "GetUpdatedFiles C ?files (pi_RepositoryURL i) (pi_Head i) s2 = (Inr us, s3)"
    and commits: "writeCommits repo (pi_Head i) ((if length us > 0 then [\<lparr> ci_Message = deleteFilesCommitMessage, ci_Files = us \<rparr>] else []) @ pi_Commits i) s3 = (Inr (), s4)"
    and pr: "or_CreatePullRequest repo (pi_Title i) (pi_Head i) (pi_Base i) (pi_Body i) s4 = (Inr link, s')"
    using assms(2) by (auto simp: gitlab_CreatePullRequest_def Let_def WriteFilesToBranch_def ggp_CreatePullRequest_def repositoryOf_def action_simps)
  have [simp]: "repo = hv_repo H" by (rule repository_Inr [OF assms(1) repo])
  obtain t where base: "hv_tree H s1 (pi_Base i) = Some t" and head: "hv_tree H s2 (pi_Head i) = Some t"
    using CreateBranch_Inr [OF assms(1), of "pi_Base i" "pi_Head i" s1 "()" s2] branch by auto
  have same: "sameTrees H s s1" "sameTrees H s2 s3" "sameTrees H s4 s'"
    using keepsD [OF repository_keeps(2) [OF assms(1)] repo] keepsD [OF GetUpdatedFiles_keeps [OF assms(1)] updated]
      keepsD [OF host_reads(4) [OF assms(1)]] pr by auto
  have "hv_tree H s3 (pi_Head i) = Some t" using same(2) head by (simp add: sameTrees_def)
  from writeCommits_Inr [OF assms(1) _ this] commits
  have "hv_tree H s4 (pi_Head i) = Some (applyFiles (applyFiles t us) ?files)"
    by (auto simp: applyFiles_append split: if_splits)
  then have "hv_tree H s4 (pi_Head i) = Some (applyFiles t ?files)"
    using applyFiles_delete_first [OF GetUpdatedFiles_paths [OF updated]] by simp
  with base same(1,3) show ?thesis by (auto simp: sameTrees_def)
qed

interpretation github: pull_request_provider "ggp_CreateFromBranch GitHub"
  by unfold_locales (rule ggp_create_only ggp_create_writes; assumption)+

interpretation bitbucket: pull_request_provider "ggp_CreateFromBranch BitBucketServer"
  by unfold_locales (rule ggp_create_only ggp_create_writes; assumption)+

interpretation gitlab: pull_request_provider gitlab_CreatePullRequest
  by unfold_locales (rule gitlab_create_only gitlab_create_writes; assumption)+

end
