(* ===== verification/AzureDevOps.thy ===== *)
theory AzureDevOps
  imports GitProviders Base64
begin

text \<open>
  pkg/git/azure.go, jenkins_scm.go and jenkins_scm_structs.go: the provider for Azure
  DevOps, which makes its own requests. The client of go-scm, the parser of URLs,
  retry.OnError and the decoders are parameters; the body of a request is the value that
  is encoded. url.Values.Encode sorts by key and escapes for a query.
\<close>

section \<open>url.Values\<close>

definition upperHex :: "nat \<Rightarrow> char" where
  "upperHex n = (''0123456789ABCDEF'' ! n)"

definition isUnreserved :: "char \<Rightarrow> bool" where
  "isUnreserved c \<longleftrightarrow> (let n = (of_char c :: nat) in
     65 \<le> n \<and> n \<le> 90 \<or> 97 \<le> n \<and> n \<le> 122 \<or> 48 \<le> n \<and> n \<le> 57 \<or> c \<in> set ''-_.~'')"

definition escapeChar :: "char \<Rightarrow> string" where
  "escapeChar c =
     (if isUnreserved c then [c] else if c = CHR '' '' then ''+''
      else (let n = (of_char c :: nat) in [CHR ''%'', upperHex (n div 16), upperHex (n mod 16)]))"

definition queryEscape :: "string \<Rightarrow> string" where
  "queryEscape s = concat (map escapeChar s)"

type_synonym url_values = "(string \<times> string) list"

definition encodeValues :: "url_values \<Rightarrow> string" where
  "encodeValues vs = joinStr ''&'' (map (\<lambda>(k, v). queryEscape k @ ''='' @ queryEscape v)
     (sortSlice (\<lambda>p q. stringLess (fst p) (fst q)) vs))"

section \<open>jenkins_scm_structs.go and the client\<close>

record ref_update =
  ru_Name :: string
  ru_OldObjectID :: string

record scm_change =
  ch_ChangeType :: string
  ch_ItemPath :: string
  ch_Content :: string
  ch_ContentType :: string

record commit_ref =
  cm_Comment :: string
  cm_Changes :: "scm_change list"

record content_update =
  cu_RefUpdates :: "ref_update list"
  cu_Commits :: "commit_ref list"

record scm_content =
  sn_GitObjectType :: string
  sn_CommitID :: string
  sn_Path :: string
  sn_URL :: string

record scm_request =
  rq_Method :: string
  rq_Path :: string
  rq_ContentType :: string
  rq_Body :: "content_update option"

record scm_repository =
  sm_FullName :: string
  sm_Namespace :: string
  sm_Name :: string

record parsed_url =
  ur_Host :: string
  ur_Path :: string
  ur_Text :: string

record 's scm_client =
  sc_ParseURL :: "string \<Rightarrow> parsed_url res"
  sc_Find :: "string \<Rightarrow> ('s, scm_repository) action"
  sc_Retry :: "(goerror \<Rightarrow> bool) \<Rightarrow> ('s, scm_repository) action \<Rightarrow> ('s, scm_repository) action"
  sc_IsNotFound :: "goerror \<Rightarrow> bool"
  sc_ListCommits :: "string \<Rightarrow> string \<Rightarrow> string \<Rightarrow> ('s, string list) action"
  sc_CreateRef :: "string \<Rightarrow> string \<Rightarrow> string \<Rightarrow> 's step"
  sc_Do :: "scm_request \<Rightarrow> ('s, int \<times> string) action"
  sc_DecodeError :: "string \<Rightarrow> goerror"
  sc_DecodeContents :: "string \<Rightarrow> scm_content list"
  sc_CreatePullRequest :: "string \<Rightarrow> PullRequestInput \<Rightarrow> ('s, PullRequest) action"
  sc_ListPullRequests :: "string \<Rightarrow> ('s, PullRequest list) action"
  sc_ProviderURL :: "string \<Rightarrow> string res"

section \<open>jenkins_scm.go\<close>

definition trimSlashes :: "string \<Rightarrow> string" where
  "trimSlashes s = rev (dropWhile (\<lambda>c. c = CHR ''/'') (rev (dropWhile (\<lambda>c. c = CHR ''/'') s)))"

definition scm_ParseURL :: "parsed_url \<Rightarrow> (string \<times> string \<times> string) res" where
  "scm_ParseURL repoURL =
     (case splitChar (CHR ''/'') (trimSlashes (ur_Path repoURL)) of
        [org, project, _, name] \<Rightarrow> Inr (org, project, name)
      | _ \<Rightarrow> Inl (Errf ''unbale to parse url %+v'' [ur_Text repoURL]))"

definition scm_GetRepository :: "'s scm_client \<Rightarrow> parsed_url \<Rightarrow> ('s, scm_repository) action" where
  "scm_GetRepository D repoURL =
     bindA (liftR (scm_ParseURL repoURL)) (\<lambda>(org, project, name).
       wrapA ''unable to get repository %q: %w'' [ur_Text repoURL]
         (sc_Retry D (sc_IsNotFound D) (sc_Find D (joinStr ''/'' [org, project, name]))))"

definition GetCurrentCommitOfBranch :: "'s scm_client \<Rightarrow> scm_repository \<Rightarrow> string \<Rightarrow> string \<Rightarrow> ('s, string) action" where
  "GetCurrentCommitOfBranch D repo branch path =
     bindA (wrapA ''failed to list commits: %w'' [] (sc_ListCommits D (sm_FullName repo) branch path)) (\<lambda>commits.
       liftR (case commits of [] \<Rightarrow> Inl (Panic ''index out of range'') | sha # _ \<Rightarrow> Inr sha))"

definition Endpoint :: "'s scm_client \<Rightarrow> string \<Rightarrow> string \<Rightarrow> url_values \<Rightarrow> string res" where
  "Endpoint D repoURL path params =
     bindR (wrapR ''unbale to parse url %q: %w'' [repoURL] (sc_ParseURL D repoURL)) (\<lambda>u.
     bindR (scm_ParseURL u) (\<lambda>(org, project, name).
       Inr (org @ ''/'' @ project @ ''/_apis/git/repositories/'' @ name @ ''/'' @ path @ ''?''
         @ encodeValues (params @ [(''api-version'', ''6.0'')]))))"

definition fileChange :: "commit_file \<Rightarrow> scm_change" where
  "fileChange file =
     (case cf_Content file of
        None \<Rightarrow> \<lparr> ch_ChangeType = ''edit'', ch_ItemPath = cf_Path file, ch_Content = [], ch_ContentType = [] \<rparr>
      | Some c \<Rightarrow> \<lparr> ch_ChangeType = ''add'', ch_ItemPath = cf_Path file, ch_Content = b64Encode c, ch_ContentType = ''base64encoded'' \<rparr>)"

text \<open>The error of the endpoint is dropped; its string is then empty.\<close>

definition CommitFilesRequest :: "'s scm_client \<Rightarrow> string \<Rightarrow> string \<Rightarrow> string \<Rightarrow> string \<Rightarrow> commit_file list \<Rightarrow> scm_request" where
  "CommitFilesRequest D sha repoURL head message files =
     \<lparr> rq_Method = ''POST'',
       rq_Path = (case Endpoint D repoURL ''pushes'' [] of Inl e \<Rightarrow> [] | Inr p \<Rightarrow> p),
       rq_ContentType = ''application/json'',
       rq_Body = Some \<lparr> cu_RefUpdates = [\<lparr> ru_Name = ''refs/heads/'' @ head, ru_OldObjectID = sha \<rparr>],
         cu_Commits = [\<lparr> cm_Comment = message, cm_Changes = map fileChange files \<rparr>] \<rparr> \<rparr>"

definition addRefToParams :: "url_values \<Rightarrow> string \<Rightarrow> url_values" where
  "addRefToParams params ref =
     (if ref = [] then params
      else params @ [(''versionDescriptor.versionType'', if length ref = 40 then ''commit'' else ''branch''),
        (''versionDescriptor.version'', ref)])"

text \<open>The reference is added to the parameters after the endpoint has been made from them.\<close>

definition ListContents :: "'s scm_client \<Rightarrow> string \<Rightarrow> string \<Rightarrow> string \<Rightarrow> scm_request res" where
  "ListContents D repoURL path ref =
     (let params = [(''scopePath'', path), (''recursionLevel'', ''full''), (''format'', ''json'')] in
      bindR (Endpoint D repoURL ''items'' params) (\<lambda>endpoint.
        let params = addRefToParams params ref in
        Inr \<lparr> rq_Method = ''GET'', rq_Path = endpoint, rq_ContentType = ''application/json'', rq_Body = None \<rparr>))"

section \<open>azure.go\<close>

definition sendRawRequest :: "'s scm_client \<Rightarrow> scm_request \<Rightarrow> ('s, string) action" where
  "sendRawRequest D request =
     bindA (wrapA ''failed to commit files: %w'' [] (sc_Do D request)) (\<lambda>(status, body).
       liftR (if status > 300 then Inl (sc_DecodeError D body) else Inr body))"

definition azure_GetRepository :: "'s scm_client \<Rightarrow> string \<Rightarrow> ('s, string \<times> string \<times> string) action" where
  "azure_GetRepository D repoURL =
     bindA (liftR (wrapR ''unbale to parse url %q: %w'' [repoURL] (sc_ParseURL D repoURL))) (\<lambda>u.
     bindA (scm_GetRepository D u) (\<lambda>repo. liftR (Inr (ur_Host u, sm_Namespace repo, sm_Name repo))))"

text \<open>A result whose error is dropped: the zero value, unless the call panics.\<close>

definition ignoreErr :: "('s, string) action \<Rightarrow> ('s, string) action" where
  "ignoreErr f s = (case f s of (Inl e, s) \<Rightarrow> (if isPanic e then Inl e else Inr [], s) | (Inr x, s) \<Rightarrow> (Inr x, s))"

fun pushCommits :: "'s scm_client \<Rightarrow> scm_repository \<Rightarrow> PullRequestInput \<Rightarrow> string \<Rightarrow> commit list \<Rightarrow> ('s, unit) action" where
  "pushCommits D repo input headCommit [] = liftR (Inr ())"
| "pushCommits D repo input headCommit (c # cs) =
     bindA (sendRawRequest D (CommitFilesRequest D headCommit (pi_RepositoryURL input) (pi_Head input) (ci_Message c) (ci_Files c))) (\<lambda>_.
     bindA (ignoreErr (GetCurrentCommitOfBranch D repo (pi_Head input) [])) (\<lambda>headCommit.
       pushCommits D repo input headCommit cs))"

definition headCommitOf :: "'s scm_client \<Rightarrow> scm_repository \<Rightarrow> PullRequestInput \<Rightarrow> ('s, string) action" where
  "headCommitOf D repo input =
     bindA (ignoreErr (GetCurrentCommitOfBranch D repo (pi_Head input) [])) (\<lambda>headCommit.
       if headCommit = [] then
         bindA (GetCurrentCommitOfBranch D repo (pi_Base input) []) (\<lambda>headCommit.
         bindA (wrapA ''failed to create new branch: %w'' [] (stepA (sc_CreateRef D (sm_FullName repo) (pi_Head input) headCommit))) (\<lambda>_.
           liftR (Inr headCommit)))
       else liftR (Inr headCommit))"

definition azure_CreatePullRequest :: "'s scm_client \<Rightarrow> PullRequestInput \<Rightarrow> ('s, PullRequest) action" where
  "azure_CreatePullRequest D input =
     bindA (liftR (wrapR ''unable to parse url %q: %w'' [pi_RepositoryURL input] (sc_ParseURL D (pi_RepositoryURL input)))) (\<lambda>u.
     bindA (scm_GetRepository D u) (\<lambda>repo.
     bindA (headCommitOf D repo input) (\<lambda>headCommit.
     bindA (pushCommits D repo input headCommit (pi_Commits input)) (\<lambda>_.
       wrapA ''unable to create pull request for branch %q: %w'' [pi_Head input] (sc_CreatePullRequest D (sm_FullName repo) input)))))"

definition azure_GetTreeList :: "'s scm_client \<Rightarrow> string \<Rightarrow> string \<Rightarrow> string \<Rightarrow> ('s, tree_entry list) action" where
  "azure_GetTreeList D repoURL sha path =
     bindA (liftR (wrapR ''unable to get git provider url: %w'' [] (sc_ProviderURL D repoURL))) (\<lambda>repoURL.
     bindA (liftR (wrapR ''unable to create list request: %w'' [] (ListContents D repoURL path sha))) (\<lambda>request.
     bindA (wrapA ''failed list request: %w'' [] (sendRawRequest D request)) (\<lambda>body.
       liftR (Inr (map (\<lambda>f. \<lparr> te_Path = sn_Path f, te_Type = sn_GitObjectType f, te_Size = 0, te_SHA = sn_CommitID f, te_Link = sn_URL f \<rparr>)
         (sc_DecodeContents D body))))))"

text \<open>The error of url.Parse is dropped, so its nil result is read.\<close>

definition azure_ListPullRequests :: "'s scm_client \<Rightarrow> string \<Rightarrow> ('s, PullRequest list) action" where
  "azure_ListPullRequests D repoURL =
     bindA (liftR (wrapR ''unable to get git provider url: %w'' [] (sc_ProviderURL D repoURL))) (\<lambda>repoURL.
     bindA (liftR (case sc_ParseURL D repoURL of Inl e \<Rightarrow> Inl nilDeref | Inr u \<Rightarrow> Inr u)) (\<lambda>u.
     bindA (wrapA ''unable to find repository: %w'' [] (scm_GetRepository D u)) (\<lambda>repo.
       sc_ListPullRequests D (sm_FullName repo))))"

section \<open>Properties\<close>

text \<open>A push to Azure DevOps adds every file that has content, with content that
  decodes to it, and sends a deletion as an edit without content, so nothing is ever
  deleted; and a listing asks for the same contents whatever the branch or commit it is for.\<close>

theorem azure_requests:
  "(case rq_Body (CommitFilesRequest D sha url head msg files) of
      None \<Rightarrow> False
    | Some b \<Rightarrow> map (\<lambda>ch. (ch_ItemPath ch, ch_ChangeType ch, b64Decode (ch_Content ch))) (concat (map cm_Changes (cu_Commits b)))
        = map (\<lambda>f. (cf_Path f, case cf_Content f of None \<Rightarrow> (''edit'', Inr []) | Some c \<Rightarrow> (''add'', Inr c))) files)
   \<and> ListContents D url path ref = ListContents D url path ref'"
proof -
  have "b64Decode [] = Inr []" by (simp add: b64Decode_def)
  then show ?thesis
    by (simp add: CommitFilesRequest_def fileChange_def ListContents_def Let_def split: option.split)
qed

end
