(* ===== verification/GitService.thy ===== *)
theory GitService
  imports GitFacts AzureDevOps
begin

text \<open>
  cmd/clusters-service/pkg/git/git.go: the service that the handlers use. It makes a
  provider for each request and passes the request on to it. What a provider of
  go-git-providers leaves in the repository carries over to the service.
\<close>

datatype 's provider_client = GoGitProvider "'s git_client" | GoScm "'s scm_client"

record Repository =
  rp_Domain :: string
  rp_Org :: string
  rp_Name :: string

record write_request =
  wr_GitProvider :: GitProvider
  wr_RepositoryURL :: string
  wr_HeadBranch :: string
  wr_BaseBranch :: string
  wr_Title :: string
  wr_Description :: string
  wr_CommitMessage :: string
  wr_Files :: "commit_file list"

text \<open>The methods of the interface Provider.\<close>

definition create_go :: "provider_kind \<Rightarrow> 's git_client \<Rightarrow> PullRequestInput \<Rightarrow> ('s, string) action" where
  "create_go k C i = (if k = GitLab then gitlab_CreatePullRequest C i else ggp_CreateFromBranch k C i)"

definition prov_CreatePullRequest :: "provider_kind \<times> 's provider_client \<Rightarrow> PullRequestInput \<Rightarrow> ('s, PullRequest) action" where
  "prov_CreatePullRequest p i =
     (case p of (k, cl) \<Rightarrow> (case cl of
        GoGitProvider C \<Rightarrow> bindA (create_go k C i) (\<lambda>link.
          liftR (Inr \<lparr> pr_Title = [], pr_Description = [], pr_Link = link, pr_Merged = False \<rparr>))
      | GoScm D \<Rightarrow> azure_CreatePullRequest D i))"

definition provider_GetRepository :: "provider_kind \<times> 's provider_client \<Rightarrow> string \<Rightarrow> ('s, Repository) action" where
  "provider_GetRepository p url =
     (case p of (k, cl) \<Rightarrow> (case cl of
        GoGitProvider C \<Rightarrow> bindA (prov_GetRepository k C url) (\<lambda>(org, name).
          liftR (Inr \<lparr> rp_Domain = [], rp_Org = org, rp_Name = name \<rparr>))
      | GoScm D \<Rightarrow> bindA (azure_GetRepository D url) (\<lambda>(domain, org, name).
          liftR (Inr \<lparr> rp_Domain = domain, rp_Org = org, rp_Name = name \<rparr>))))"

definition provider_GetTreeList :: "provider_kind \<times> 's provider_client \<Rightarrow> string \<Rightarrow> string \<Rightarrow> string \<Rightarrow> ('s, tree_entry list) action" where
  "provider_GetTreeList p url sha path =
     (case p of (k, cl) \<Rightarrow> (case cl of
        GoGitProvider C \<Rightarrow> prov_GetTreeList C url sha path | GoScm D \<Rightarrow> azure_GetTreeList D url sha path))"

definition provider_ListPullRequests :: "provider_kind \<times> 's provider_client \<Rightarrow> string \<Rightarrow> ('s, PullRequest list) action" where
  "provider_ListPullRequests p url =
     (case p of (k, cl) \<Rightarrow> (case cl of
        GoGitProvider C \<Rightarrow> prov_ListPullRequests C url | GoScm D \<Rightarrow> azure_ListPullRequests D url))"

type_synonym 's new_client = "provider_kind \<Rightarrow> ProviderOption \<Rightarrow> 's provider_client res"

definition WriteFilesToBranchAndCreatePullRequest :: "'s new_client \<Rightarrow> write_request \<Rightarrow> ('s, string) action" where
  "WriteFilesToBranchAndCreatePullRequest newClient req =
     bindA (liftR (wrapR ''unable to create provider: %w'' [] (getGitProviderClient newClient (wr_GitProvider req)))) (\<lambda>provider.
     bindA (wrapA ''unable to create pull request for branch %q: %w'' [wr_HeadBranch req] (prov_CreatePullRequest provider
       \<lparr> pi_RepositoryURL = wr_RepositoryURL req, pi_Title = wr_Title req, pi_Body = wr_Description req,
         pi_Head = wr_HeadBranch req, pi_Base = wr_BaseBranch req,
         pi_Commits = [\<lparr> ci_Message = wr_CommitMessage req, ci_Files = wr_Files req \<rparr>] \<rparr>)) (\<lambda>pr.
       liftR (Inr (pr_Link pr))))"

definition clientFor :: "'s new_client \<Rightarrow> GitProvider \<Rightarrow> ('s, provider_kind \<times> 's provider_client) action" where
  "clientFor newClient gp =
     liftR (wrapR ''unable to get a git provider client for %q: %w'' [gp_Type gp] (getGitProviderClient newClient gp))"

definition service_GetRepository :: "'s new_client \<Rightarrow> GitProvider \<Rightarrow> string \<Rightarrow> ('s, Repository) action" where
  "service_GetRepository newClient gp url = bindA (clientFor newClient gp) (\<lambda>p. provider_GetRepository p url)"

text \<open>The parameter recursive is not passed on.\<close>

definition service_GetTreeList :: "'s new_client \<Rightarrow> GitProvider \<Rightarrow> string \<Rightarrow> string \<Rightarrow> string \<Rightarrow> bool \<Rightarrow> ('s, tree_entry list) action" where
  "service_GetTreeList newClient gp repoUrl sha path recursive =
     bindA (clientFor newClient gp) (\<lambda>p. provider_GetTreeList p repoUrl sha path)"

definition service_ListPullRequests :: "'s new_client \<Rightarrow> GitProvider \<Rightarrow> string \<Rightarrow> ('s, PullRequest list) action" where
  "service_ListPullRequests newClient gp repoURL = bindA (clientFor newClient gp) (\<lambda>p. provider_ListPullRequests p repoURL)"

section \<open>What a pull request leaves in the repository\<close>

interpretation go_provider: pull_request_provider "create_go k" for k
  by unfold_locales
    (auto simp: create_go_def intro: gitlab_create_only gitlab_create_writes ggp_create_only ggp_create_writes split: if_splits)

lemma service_outcome:
  assumes "getGitProviderClient newClient (wr_GitProvider req) = Inr (k, GoGitProvider C)"
    and "WriteFilesToBranchAndCreatePullRequest newClient req s = (r, s')"
  shows "\<exists>i r0. pi_Head i = wr_HeadBranch req \<and> pi_Base i = wr_BaseBranch req \<and> concat (map ci_Files (pi_Commits i)) = wr_Files req
    \<and> create_go k C i s = (r0, s') \<and> isOk r0 = isOk r"
proof -
  let ?i = "\<lparr> pi_RepositoryURL = wr_RepositoryURL req, pi_Title = wr_Title req, pi_Body = wr_Description req,
    pi_Head = wr_HeadBranch req, pi_Base = wr_BaseBranch req,
    pi_Commits = [\<lparr> ci_Message = wr_CommitMessage req, ci_Files = wr_Files req \<rparr>] \<rparr>"
  obtain r0 s0 where c: "create_go k C ?i s = (r0, s0)" by force
  then have "s0 = s' \<and> isOk r0 = isOk r"
    using assms by (cases r0) (auto simp: WriteFilesToBranchAndCreatePullRequest_def prov_CreatePullRequest_def bindA_def liftR_def wrapA_def)
  with c show ?thesis by (intro exI [of _ ?i] exI [of _ r0]) simp
qed

text \<open>C15: A request to write files to a new branch touches no other branch of the
  repository, whatever its outcome; when it succeeds, with GitHub, GitLab or Bitbucket,
  the branch has the tree of the base branch in which the files are written and deleted in
  their order. GitLab's separate commit, which first deletes the files that are there
  already, makes no difference.\<close>

theorem pull_request_applies_files:
  assumes "getGitProviderClient newClient (wr_GitProvider req) = Inr (k, GoGitProvider C)"
    and "host_ok C H"
    and "WriteFilesToBranchAndCreatePullRequest newClient req s = (r, s')"
  shows "(\<forall>b. b \<noteq> wr_HeadBranch req \<longrightarrow> hv_tree H s' b = hv_tree H s b) \<and>
    (isOk r \<longrightarrow> (\<exists>t. hv_tree H s (wr_BaseBranch req) = Some t \<and>
       hv_tree H s' (wr_HeadBranch req) = Some (applyFiles t (wr_Files req))))"
proof -
  obtain i r0 where "pi_Head i = wr_HeadBranch req" "pi_Base i = wr_BaseBranch req"
      "concat (map ci_Files (pi_Commits i)) = wr_Files req" "create_go k C i s = (r0, s')" "isOk r0 = isOk r"
    using service_outcome [OF assms(1,3)] by blast
  with go_provider.outcome [OF assms(2), of k i s r0 s'] show ?thesis by (auto simp: only_def)
qed

text \<open>A host that keeps a tree for each branch and names a commit by its branch.\<close>

type_synonym branches = "string \<rightharpoonup> file_tree"

definition treeRepo :: "branches org_repo" where
  "treeRepo = \<lparr> or_Identity = ''org'', or_Name = ''repo'',
     or_ListCommits = (\<lambda>b s. (Inr (case s b of None \<Rightarrow> [] | Some t \<Rightarrow> [b]), s)),
     or_CreateBranch = (\<lambda>h sha s. case s sha of None \<Rightarrow> (Some (err ''no commit''), s) | Some t \<Rightarrow> (None, s(h \<mapsto> t))),
     or_CreateCommit = (\<lambda>h m fs s. case s h of None \<Rightarrow> (Inl (err ''no branch''), s) | Some t \<Rightarrow> (Inr ''sha'', s(h \<mapsto> applyFiles t fs))),
     or_CreatePullRequest = (\<lambda>t h b d s. (Inr ''link'', s)),
     or_ListTrees = (\<lambda>sha p rec s. (Inr (case s sha of None \<Rightarrow> [] | Some t \<Rightarrow>
        map (\<lambda>q. \<lparr> te_Path = q, te_Type = ''blob'', te_Size = 0, te_SHA = [], te_Link = [] \<rparr>) (filter (\<lambda>q. t q \<noteq> None) [''a'', ''b''])), s)),
     or_ListPullRequests = (\<lambda>s. (Inr [], s)) \<rparr>"

definition treeClient :: "branches git_client" where
  "treeClient = \<lparr> gc_GetRepository = (\<lambda>ref s. (Inr treeRepo, s)), gc_IsNotFound = (\<lambda>_. False),
     gc_ParseURL = (\<lambda>u. Inr \<lparr> rf_Domain = ''gitlab.com'', rf_Organization = ''org'', rf_SubOrganizations = [], rf_RepositoryName = ''repo'', rf_Key = [] \<rparr>),
     gc_MatchBitbucket = (\<lambda>_. None), gc_config = (\<lambda>_. []),
     gc_NewEndpoint = (\<lambda>u. Inr \<lparr> ep_Protocol = ''https'', ep_Host = ''gitlab.com'', ep_Path = [] \<rparr>), gc_EndpointString = ep_Path,
     gc_RetryCommits = (\<lambda>_ f. f), gc_RetryRepository = (\<lambda>_ f. f) \<rparr>"

definition treeHost :: "branches host_view" where
  "treeHost = \<lparr> hv_repo = treeRepo, hv_tree = (\<lambda>s. s), hv_commit = (\<lambda>s sha. case s sha of None \<Rightarrow> Map.empty | Some t \<Rightarrow> t) \<rparr>"

definition treeRequest :: write_request where
  "treeRequest = \<lparr> wr_GitProvider = \<lparr> gp_Token = ''t'', gp_TokenType = [], gp_Type = ''gitlab'', gp_Hostname = ''gitlab.com'' \<rparr>,
     wr_RepositoryURL = ''https://gitlab.com/org/repo'', wr_HeadBranch = ''h'', wr_BaseBranch = ''main'', wr_Title = [], wr_Description = [],
     wr_CommitMessage = [], wr_Files = [\<lparr> cf_Path = ''a'', cf_Content = Some ''new'' \<rparr>, \<lparr> cf_Path = ''b'', cf_Content = None \<rparr>] \<rparr>"

lemma retry_once: "retry_ok (\<lambda>_ f. f)"
  unfolding retry_ok_def using attempts.start by fast

lemma treeHost_ok: "host_ok treeClient treeHost"
  by (auto simp: host_ok_def treeClient_def treeHost_def treeRepo_def retry_once sameTrees_def only_def split: option.splits)

definition treeNew :: "branches new_client" where
  "treeNew k opts = Inr (GoGitProvider treeClient)"

theorem pull_request_applies_files_witness:
  "isOk (fst (WriteFilesToBranchAndCreatePullRequest treeNew treeRequest [''main'' \<mapsto> [''a'' \<mapsto> ''old'', ''b'' \<mapsto> ''x'']])) \<and>
   snd (WriteFilesToBranchAndCreatePullRequest treeNew treeRequest [''main'' \<mapsto> [''a'' \<mapsto> ''old'', ''b'' \<mapsto> ''x'']]) ''h'' = Some [''a'' \<mapsto> ''new'']"
proof -
  let ?s = "[''main'' \<mapsto> [''a'' \<mapsto> ''old'', ''b'' \<mapsto> ''x'']] :: branches"
  have client: "getGitProviderClient treeNew (wr_GitProvider treeRequest) = Inr (GitLab, GoGitProvider treeClient)"
    by (simp add: getGitProviderClient_def treeRequest_def providerKind_def Create_def WithConditionalRequests_def WithToken_def Setup_def treeNew_def Let_def)
  have ok: "isOk (fst (WriteFilesToBranchAndCreatePullRequest treeNew treeRequest ?s))"
    using client by (simp add: WriteFilesToBranchAndCreatePullRequest_def prov_CreatePullRequest_def create_go_def gitlab_CreatePullRequest_def
      bindA_def liftR_def wrapA_def treeRequest_def GetGitProviderUrl_def treeClient_def treeRepo_def ggp_GetRepository_def CreateBranch_def
      stepA_def ggp_GetTreeList_def WriteFilesToBranch_def ggp_CreatePullRequest_def Let_def)
  obtain r s' where run: "WriteFilesToBranchAndCreatePullRequest treeNew treeRequest ?s = (r, s')" by force
  have "s' ''h'' = Some (applyFiles [''a'' \<mapsto> ''old'', ''b'' \<mapsto> ''x''] (wr_Files treeRequest))"
    using pull_request_applies_files [OF client treeHost_ok run] ok run by (auto simp: treeHost_def treeRequest_def)
  moreover have "applyFiles [''a'' \<mapsto> ''old'', ''b'' \<mapsto> ''x''] (wr_Files treeRequest) = [''a'' \<mapsto> ''new'']"
    by (auto simp: applyFiles_def treeRequest_def)
  ultimately show ?thesis using ok run by simp
qed

end
