(* ===== verification/RepoUrl.thy ===== *)
theory RepoUrl
  imports ClusterFiles
begin

text \<open>
  pkg/gitauth/server/gitproviders/repo_url.go: the provider, the owner and the normal form
  of the URL of a repository. url.Parse, with the string of the URL it gives, the name of a
  repository and the configuration are parameters.
\<close>

record parsed_repo_url =
  pu_Scheme :: string
  pu_Host :: string
  pu_Path :: string

record repo_env =
  ev_Parse :: "string \<Rightarrow> parsed_repo_url res"
  ev_RepoName :: "string \<Rightarrow> string"
  ev_StringMap :: "string \<Rightarrow> (string \<times> string) list"
  ev_StringSlice :: "string \<Rightarrow> string list"

datatype RepositoryURLProtocol = ProtocolHTTPS | ProtocolSSH

record RepoURL =
  ro_repoName :: string
  ro_owner :: string
  ro_url :: parsed_repo_url
  ro_normalized :: string
  ro_provider :: string
  ro_protocol :: RepositoryURLProtocol

definition GitProviderGitHub :: string where "GitProviderGitHub = ''github''"
definition GitProviderGitLab :: string where "GitProviderGitLab = ''gitlab''"
definition GitProviderAzureDevOps :: string where "GitProviderAzureDevOps = ''azure-devops''"

definition AzureDevOpsHTTPDefaultDomain :: string where "AzureDevOpsHTTPDefaultDomain = ''dev.azure.com''"
definition AzureDevOpsSSHDefaultDomain :: string where "AzureDevOpsSSHDefaultDomain = ''ssh.dev.azure.com''"

text \<open>strings.Replace with the count 1, for one byte, and strings.SplitN with the count 2.\<close>

fun replaceFirst :: "char \<Rightarrow> char \<Rightarrow> string \<Rightarrow> string" where
  "replaceFirst c d [] = []"
| "replaceFirst c d (x # xs) = (if x = c then d # xs else x # replaceFirst c d xs)"

definition splitFirst :: "char \<Rightarrow> string \<Rightarrow> (string \<times> string) option" where
  "splitFirst c s = (if c \<in> set s then Some (takeWhile (\<lambda>x. x \<noteq> c) s, tl (dropWhile (\<lambda>x. x \<noteq> c) s)) else None)"

definition trimPrefix :: "string \<Rightarrow> string \<Rightarrow> string" where
  "trimPrefix s p = (if prefix p s then drop (length p) s else s)"

definition trimSuffix :: "string \<Rightarrow> string \<Rightarrow> string" where
  "trimSuffix s p = (if suffix p s then take (length s - length p) s else s)"

definition parseGitURL :: "repo_env \<Rightarrow> string \<Rightarrow> parsed_repo_url res" where
  "parseGitURL V raw =
     ev_Parse V (if prefix ''git@'' raw then ''ssh://'' @ replaceFirst (CHR '':'') (CHR ''/'') raw else raw)"

definition normalizeRepoURLString :: "repo_env \<Rightarrow> string \<Rightarrow> string res" where
  "normalizeRepoURLString V url =
     (let url = trimSuffix url ''/''; url = (if suffix ''.git'' url then url else url @ ''.git'') in
      bindR (wrapR ''could not parse git repo url while normalizing %q: %w'' [url] (parseGitURL V url)) (\<lambda>u.
        Inr (''ssh://git@'' @ pu_Host u @ pu_Path u)))"

definition ViperGetStringMapString :: "repo_env \<Rightarrow> string \<Rightarrow> (string \<rightharpoonup> string)" where
  "ViperGetStringMapString V key =
     (if ev_StringMap V key \<noteq> [] then map_of (ev_StringMap V key)
      else foldl (\<lambda>out pair. case splitFirst (CHR ''='') pair of None \<Rightarrow> out | Some (k, v) \<Rightarrow> out(k \<mapsto> v)) Map.empty (ev_StringSlice V key))"

definition GitHostTypes :: "(string \<rightharpoonup> string) \<Rightarrow> (string \<rightharpoonup> string)" where
  "GitHostTypes gitHostTypesConfig =
     [''github.com'' \<mapsto> GitProviderGitHub, ''gitlab.com'' \<mapsto> GitProviderGitLab,
      AzureDevOpsHTTPDefaultDomain \<mapsto> GitProviderAzureDevOps, AzureDevOpsSSHDefaultDomain \<mapsto> GitProviderAzureDevOps] ++ gitHostTypesConfig"

definition detectGitProviderFromURL :: "repo_env \<Rightarrow> string \<Rightarrow> (string \<rightharpoonup> string) \<Rightarrow> string res" where
  "detectGitProviderFromURL V raw gitHostTypesConfig =
     bindR (wrapR ''could not parse git repo url %q: %w'' [raw] (parseGitURL V raw)) (\<lambda>u.
       let provider = mget (GitHostTypes gitHostTypesConfig) (pu_Host u) in
       if provider = [] then Inl (Errf ''no git providers found for %q'' [raw]) else Inr provider)"

text \<open>Slicing beyond the end of the parts panics.\<close>

definition getOwnerFromURL :: "parsed_repo_url \<Rightarrow> string \<Rightarrow> string res" where
  "getOwnerFromURL url providerName =
     (let parts = splitChar (CHR ''/'') (trimPrefix (pu_Path url) ''/'') in
      if length parts < 2 then Inl (Errf ''could not get owner from url %v'' [pu_Path url])
      else if providerName = GitProviderAzureDevOps then
        (if parts ! (length parts - 2) = ''_git'' then Inr (joinStr ''/'' (take 2 parts))
         else if length parts < 3 then Inl (Panic ''slice bounds out of range'')
         else Inr (joinStr ''/'' (take 2 (drop 1 parts))))
      else Inr (joinStr ''/'' (butlast parts)))"

definition NewRepoURL :: "repo_env \<Rightarrow> string \<Rightarrow> RepoURL res" where
  "NewRepoURL V uri =
     bindR (wrapR ''could not get provider name from URL %s: %w'' [uri]
       (detectGitProviderFromURL V uri (ViperGetStringMapString V ''git-host-types''))) (\<lambda>providerName.
     bindR (wrapR ''could not normalize repo URL %s: %w'' [uri] (normalizeRepoURLString V uri)) (\<lambda>normalized.
     bindR (wrapR ''could not create normalized repo URL %s: %w'' [uri] (ev_Parse V normalized)) (\<lambda>u.
     bindR (wrapR ''could not get owner name from URL %s: %w'' [uri] (getOwnerFromURL u providerName)) (\<lambda>owner.
       Inr \<lparr> ro_repoName = ev_RepoName V uri, ro_owner = owner, ro_url = u, ro_normalized = normalized,
         ro_provider = providerName, ro_protocol = (if pu_Scheme u = ''https'' then ProtocolHTTPS else ProtocolSSH) \<rparr>))))"

section \<open>Properties\<close>

text \<open>url.Parse takes an ssh URL with a host and a path apart.\<close>

definition parses_ssh :: "repo_env \<Rightarrow> bool" where
  "parses_ssh V \<longleftrightarrow> (\<forall>host path u. CHR ''/'' \<notin> set host \<longrightarrow> (path = [] \<or> hd path = CHR ''/'') \<longrightarrow>
     ev_Parse V (''ssh://git@'' @ host @ path) = Inr u \<longrightarrow> u = \<lparr> pu_Scheme = ''ssh'', pu_Host = host, pu_Path = path \<rparr>)"

text \<open>Every URL that url.Parse gives has a host without slashes and a path that is empty or rooted.\<close>

definition parses_rooted :: "repo_env \<Rightarrow> bool" where
  "parses_rooted V \<longleftrightarrow> (\<forall>s u. ev_Parse V s = Inr u \<longrightarrow> CHR ''/'' \<notin> set (pu_Host u) \<and> (pu_Path u = [] \<or> hd (pu_Path u) = CHR ''/''))"

lemma getOwner_Inr:
  assumes "getOwnerFromURL u p = Inr owner" "p \<noteq> GitProviderAzureDevOps"
  shows "\<exists>name. CHR ''/'' \<notin> set name \<and> trimPrefix (pu_Path u) ''/'' = owner @ ''/'' @ name"
proof -
  let ?parts = "splitChar (CHR ''/'') (trimPrefix (pu_Path u) ''/'')"
  have len: "2 \<le> length ?parts" and owner: "owner = joinStr ''/'' (butlast ?parts)"
    using assms by (auto simp: getOwnerFromURL_def Let_def split: if_splits)
  have "butlast ?parts \<noteq> []" using len by (cases ?parts rule: rev_cases) auto
  moreover have "?parts = butlast ?parts @ [last ?parts]" using len by (metis append_butlast_last_id list.size(3) not_numeral_le_zero)
  ultimately have "joinStr ''/'' ?parts = owner @ ''/'' @ last ?parts"
    unfolding owner by (metis joinStr.simps(2) joinStr_append list.discI)
  moreover have "CHR ''/'' \<notin> set (last ?parts)"
    by (rule splitChar_sep_free [OF last_in_set]) simp
  ultimately show ?thesis by (metis joinStr_splitChar)
qed

text \<open>Whatever the protocol of the URL that a user gives, the normal form and with it
  the reported protocol is ssh; the host is kept; and for every provider but Azure DevOps
  the path is the owner followed by a single name.\<close>

theorem repo_url_normal_form:
  assumes "parses_ssh V" "parses_rooted V" "NewRepoURL V uri = Inr r"
  shows "ro_protocol r = ProtocolSSH \<and> pu_Scheme (ro_url r) = ''ssh'' \<and>
    (\<exists>u. parseGitURL V (let url = trimSuffix uri ''/'' in if suffix ''.git'' url then url else url @ ''.git'') = Inr u \<and>
       pu_Host (ro_url r) = pu_Host u \<and> pu_Path (ro_url r) = pu_Path u \<and> ro_normalized r = ''ssh://git@'' @ pu_Host u @ pu_Path u) \<and>
    (ro_provider r = GitProviderAzureDevOps \<or>
       (\<exists>name. CHR ''/'' \<notin> set name \<and> trimPrefix (pu_Path (ro_url r)) ''/'' = ro_owner r @ ''/'' @ name))"
proof -
  let ?url = "let url = trimSuffix uri ''/'' in if suffix ''.git'' url then url else url @ ''.git''"
  obtain u v owner p where u: "parseGitURL V ?url = Inr u" and v: "ev_Parse V (''ssh://git@'' @ pu_Host u @ pu_Path u) = Inr v"
    and owner: "getOwnerFromURL v p = Inr owner"
    and r: "r = \<lparr> ro_repoName = ev_RepoName V uri, ro_owner = owner, ro_url = v, ro_normalized = ''ssh://git@'' @ pu_Host u @ pu_Path u,
         ro_provider = p, ro_protocol = (if pu_Scheme v = ''https'' then ProtocolHTTPS else ProtocolSSH) \<rparr>"
    using assms(3) by (auto simp: NewRepoURL_def normalizeRepoURLString_def Let_def bindR_Inr)
  have "CHR ''/'' \<notin> set (pu_Host u) \<and> (pu_Path u = [] \<or> hd (pu_Path u) = CHR ''/'')"
    using assms(2) u unfolding parses_rooted_def parseGitURL_def by blast
  with assms(1) v have "v = \<lparr> pu_Scheme = ''ssh'', pu_Host = pu_Host u, pu_Path = pu_Path u \<rparr>"
    unfolding parses_ssh_def by blast
  with u r getOwner_Inr [OF owner] show ?thesis by auto
qed

text \<open>A parser for the URLs of the witness.\<close>

definition demoParse :: "string \<Rightarrow> parsed_repo_url res" where
  "demoParse s = (case splitFirst (CHR '':'') s of
     None \<Rightarrow> Inl (err ''no scheme'')
   | Some (scheme, rest) \<Rightarrow>
       (let rest = trimPrefix rest ''//''; rest = trimPrefix rest ''git@'' in
        Inr \<lparr> pu_Scheme = scheme, pu_Host = takeWhile (\<lambda>c. c \<noteq> CHR ''/'') rest, pu_Path = dropWhile (\<lambda>c. c \<noteq> CHR ''/'') rest \<rparr>))"

definition demoEnv :: repo_env where
  "demoEnv = \<lparr> ev_Parse = demoParse, ev_RepoName = id, ev_StringMap = (\<lambda>_. []), ev_StringSlice = (\<lambda>_. []) \<rparr>"

lemma demo_parses: "parses_ssh demoEnv" "parses_rooted demoEnv"
proof -
  have "takeWhile (\<lambda>c. c \<noteq> CHR ''/'') (host @ path) = host \<and> dropWhile (\<lambda>c. c \<noteq> CHR ''/'') (host @ path) = path"
    if "CHR ''/'' \<notin> set host" "path = [] \<or> hd path = CHR ''/''" for host path
    using that by (cases path) (auto simp: takeWhile_append dropWhile_append takeWhile_eq_all_conv)
  then show "parses_ssh demoEnv"
    by (simp add: parses_ssh_def demoEnv_def demoParse_def splitFirst_def trimPrefix_def)
  have "hd (dropWhile (\<lambda>c. c \<noteq> CHR ''/'') x) = CHR ''/''" if "dropWhile (\<lambda>c. c \<noteq> CHR ''/'') x \<noteq> []" for x
    using hd_dropWhile [OF that] by simp
  then show "parses_rooted demoEnv"
    by (auto simp: parses_rooted_def demoEnv_def demoParse_def Let_def dest: set_takeWhileD split: option.splits)
qed

theorem repo_url_normal_form_witness:
  "\<exists>r. NewRepoURL demoEnv ''https://github.com/weave/sub/repo/'' = Inr r \<and> ro_protocol r = ProtocolSSH \<and>
     ro_owner r = ''weave/sub'' \<and> ro_normalized r = ''ssh://git@github.com/weave/sub/repo.git''"
proof -
  obtain r where r: "NewRepoURL demoEnv ''https://github.com/weave/sub/repo/'' = Inr r"
      "ro_owner r = ''weave/sub''" "ro_normalized r = ''ssh://git@github.com/weave/sub/repo.git''"
    by (simp add: NewRepoURL_def detectGitProviderFromURL_def ViperGetStringMapString_def parseGitURL_def normalizeRepoURLString_def
      demoEnv_def demoParse_def splitFirst_def trimPrefix_def trimSuffix_def GitHostTypes_def GitProviderGitHub_def
      GitProviderAzureDevOps_def AzureDevOpsHTTPDefaultDomain_def AzureDevOpsSSHDefaultDomain_def getOwnerFromURL_def mget_def Let_def suffix_def)
  from repo_url_normal_form [OF demo_parses r(1)] r show ?thesis by blast
qed

end
