(* ===== verification/PullRequests.thy ===== *)
theory PullRequests
  imports TemplateHandlers GitService RepoUrl
begin

text \<open>
  The pull requests of cmd/clusters-service/pkg/server/clusters.go and tfcontroller.go:
  creating or editing the files of a template, and deleting the files of clusters. A
  handler acts on the state of the git host. The token in the context, the JSON of a
  request and MD5 are parameters.
\<close>

section \<open>The provider of a request\<close>

definition getToken :: "config \<Rightarrow> string res \<Rightarrow> string \<times> string" where
  "getToken cfg providerToken =
     (case providerToken of Inl e \<Rightarrow> (cfg ''git-provider-token'', []) | Inr token \<Rightarrow> (token, ''oauth2''))"

definition getGitProvider :: "config \<Rightarrow> repo_env \<Rightarrow> string res \<Rightarrow> string \<Rightarrow> GitProvider res" where
  "getGitProvider cfg V providerToken repositoryURL =
     (case getToken cfg providerToken of (token, tokenType) \<Rightarrow>
        bindR (if repositoryURL \<noteq> [] then
            bindR (wrapR ''failed to parse repository URL: %w'' [] (NewRepoURL V repositoryURL)) (\<lambda>repoURL.
              Inr (ro_provider repoURL, pu_Host (ro_url repoURL)))
          else Inr (cfg ''git-provider-type'', cfg ''git-provider-hostname'')) (\<lambda>(repoType, repoHostname).
          Inr \<lparr> gp_Token = token, gp_TokenType = tokenType, gp_Type = repoType, gp_Hostname = repoHostname \<rparr>))"

section \<open>Requests\<close>

record PreviousValues =
  pq_ParameterValues :: "(string \<rightharpoonup> string) option"
  pq_Credentials :: "Credential option"
  pq_Values :: "ProfileValues list"
  pq_Kustomizations :: "kustomization list"

record create_request =
  cq_RepositoryUrl :: string
  cq_HeadBranch :: string
  cq_BaseBranch :: string
  cq_Title :: string
  cq_Description :: string
  cq_Name :: string
  cq_Namespace :: string
  cq_TemplateKind :: string
  cq_ParameterValues :: "(string \<rightharpoonup> string) option"
  cq_CommitMessage :: string
  cq_Credentials :: "Credential option"
  cq_Values :: "ProfileValues list"
  cq_Kustomizations :: "kustomization list"
  cq_PreviousValues :: "PreviousValues option"

record delete_request =
  dl_RepositoryUrl :: string
  dl_HeadBranch :: string
  dl_BaseBranch :: string
  dl_Title :: string
  dl_Description :: string
  dl_ClusterNames :: "string list"
  dl_CommitMessage :: string
  dl_ClusterNamespacedNames :: "nsname list"

record ('u, 'v, 'h, 'y, 'f, 's) pr_server = "('u, 'v, 'h, 'y, 'f) templates_server" +
  sv_validator :: validator
  sv_md5hex :: "string \<Rightarrow> string"
  sv_newClient :: "'s new_client"
  sv_repoEnv :: repo_env
  sv_ProviderToken :: "string res"
  sv_MarshalRequest :: "create_request \<Rightarrow> string res"

definition applyCreateClusterDefaults :: "create_request \<Rightarrow> create_request" where
  "applyCreateClusterDefaults msg = msg\<lparr> cq_Kustomizations := map defaultNamespace (cq_Kustomizations msg) \<rparr>"

fun validateKustomizations :: "validator \<Rightarrow> kustomization list \<Rightarrow> goerror option \<Rightarrow> goerror option res" where
  "validateKustomizations V [] acc = Inr acc"
| "validateKustomizations V (k # ks) acc =
     bindR (validateKustomization V k) (\<lambda>e. validateKustomizations V ks (vl_Append V acc e))"

definition validateCreateClusterPR :: "validator \<Rightarrow> create_request \<Rightarrow> goerror option res" where
  "validateCreateClusterPR V msg =
     (let acc = appendIf V (cq_Name msg = []) (err ''template name must be specified'') None;
          acc = appendIf V (cq_ParameterValues msg = None) (err ''parameter values must be specified'') acc;
          acc = appendNamespace V (mread (cq_ParameterValues msg) ''NAMESPACE'') acc;
          acc = foldl (\<lambda>acc v. appendNamespace V (pv_Namespace v) acc) acc (cq_Values msg)
      in validateKustomizations V (cq_Kustomizations msg) acc)"

definition deleteClustersRequiredErr :: string where
  "deleteClustersRequiredErr = ''at least one cluster must be specified''"

definition validateDeleteClustersPR :: "validator \<Rightarrow> delete_request \<Rightarrow> goerror option" where
  "validateDeleteClustersPR V msg =
     appendIf V (length (dl_ClusterNamespacedNames msg) = 0 \<and> length (dl_ClusterNames msg) = 0) (err deleteClustersRequiredErr) None"

text \<open>A validation that returned an error stops the handler.\<close>

definition checked :: "goerror option res \<Rightarrow> unit res" where
  "checked r = bindR r (\<lambda>e. case e of None \<Rightarrow> Inr () | Some e \<Rightarrow> Inl e)"

definition orElse :: "string \<Rightarrow> string \<Rightarrow> string" where
  "orElse s t = (if s = [] then t else s)"

definition newErrA :: "goerror \<Rightarrow> ('s, 'a) action \<Rightarrow> ('s, 'a) action" where
  "newErrA e f s = (case f s of (r, s) \<Rightarrow> (newErr e r, s))"

fun mapA :: "('a \<Rightarrow> ('s, 'b) action) \<Rightarrow> 'a list \<Rightarrow> ('s, 'b list) action" where
  "mapA f [] = liftR (Inr [])"
| "mapA f (x # xs) = bindA (f x) (\<lambda>y. bindA (mapA f xs) (\<lambda>ys. liftR (Inr (y # ys))))"

section \<open>CreatePullRequest\<close>

definition noFiles :: "'c GetFilesReturn" where
  "noFiles = \<lparr> gr_RenderedTemplate = [], gr_ProfileFiles = [], gr_KustomizationFiles = [], gr_CostEstimate = None, gr_ExternalSecretsFiles = [] \<rparr>"

definition previousFiles :: "('u, 'v, 'h, 'y, 'f, 's) pr_server \<Rightarrow> 'h server_client \<Rightarrow> template \<Rightarrow> create_request \<Rightarrow> 'f cost_estimate GetFilesReturn res" where
  "previousFiles s client tm msg =
     (case cq_PreviousValues msg of
        None \<Rightarrow> Inr noFiles
      | Some pv \<Rightarrow> fst (serverFiles (templates_server.truncate s) client tm
          (Some (\<lambda>vals. sv_MarshalRequest s (msg\<lparr> cq_PreviousValues := Some (pv\<lparr> pq_ParameterValues := vals \<rparr>) \<rparr>)))
          \<lparr> fr_TemplateName = cq_Name msg, fr_ParameterValues = pq_ParameterValues pv, fr_Credentials = pq_Credentials pv,
            fr_Profiles = pq_Values pv, fr_Kustomizations = pq_Kustomizations pv, fr_HelmRepository = None \<rparr>))"

text \<open>The files of the request, with the parameter values as rendering has completed them.\<close>

definition requestFiles :: "('u, 'v, 'h, 'y, 'f, 's) pr_server \<Rightarrow> 'h server_client \<Rightarrow> template \<Rightarrow> create_request \<Rightarrow>
    ('f cost_estimate GetFilesReturn \<times> (string \<rightharpoonup> string) option) res" where
  "requestFiles s client tm msg =
     (case serverFiles (templates_server.truncate s) client tm
         (Some (\<lambda>vals. sv_MarshalRequest s (msg\<lparr> cq_ParameterValues := vals \<rparr>)))
         \<lparr> fr_TemplateName = cq_Name msg, fr_ParameterValues = cq_ParameterValues msg, fr_Credentials = cq_Credentials msg,
           fr_Profiles = cq_Values msg, fr_Kustomizations = cq_Kustomizations msg, fr_HelmRepository = None \<rparr>
      of (r, vals) \<Rightarrow> bindR r (\<lambda>files. Inr (files, vals)))"

definition filesToWrite :: "'c GetFilesReturn \<Rightarrow> commit_file list" where
  "filesToWrite g = gr_RenderedTemplate g @ gr_ProfileFiles g @ gr_KustomizationFiles g @ gr_ExternalSecretsFiles g"

definition writeRequest :: "('u, 'v, 'h, 'y, 'f, 's) pr_server \<Rightarrow> GitProvider \<Rightarrow> create_request \<Rightarrow> (string \<rightharpoonup> string) option \<Rightarrow> commit_file list \<Rightarrow> write_request" where
  "writeRequest s gp msg vals files =
     (let cfg = re_config (ts_env s); cluster = mread vals ''CLUSTER_NAME'' in
      \<lparr> wr_GitProvider = gp,
        wr_RepositoryURL = orElse (cq_RepositoryUrl msg) (cfg ''capi-templates-repository-url''),
        wr_HeadBranch = orElse (cq_HeadBranch msg) (getHash (sv_md5hex s) [cq_RepositoryUrl msg, cluster, cq_BaseBranch msg]),
        wr_BaseBranch = orElse (cq_BaseBranch msg) (cfg ''capi-templates-repository-base-branch''),
        wr_Title = orElse (cq_Title msg) (''Gitops add cluster '' @ cluster),
        wr_Description = orElse (cq_Description msg) (''Pull request to create cluster '' @ cluster),
        wr_CommitMessage = orElse (cq_CommitMessage msg) ''Add Cluster Manifests'',
        wr_Files = files \<rparr>)"

definition CreatePullRequest :: "('u, 'v, 'h, 'y, 'f, 's) pr_server \<Rightarrow> create_request \<Rightarrow> ('s, string) action" where
  "CreatePullRequest s msg =
     (let cfg = re_config (ts_env s); msg = msg\<lparr> cq_TemplateKind := defaultKind (cq_TemplateKind msg) \<rparr> in
      bindA (liftR (newErr (StatusErr ''Unauthenticated'' ''error creating pull request: %s'')
        (getGitProvider cfg (sv_repoEnv s) (sv_ProviderToken s) (cq_RepositoryUrl msg)))) (\<lambda>gp.
      let msg = applyCreateClusterDefaults msg in
      bindA (liftR (checked (validateCreateClusterPR (sv_validator s) msg))) (\<lambda>_.
      bindA (liftR (newErr (Errf ''error looking up template %v: %v'' [cq_Name msg])
        (getTemplate (templates_server.truncate s) (cq_Name msg) (cq_Namespace msg) (cq_TemplateKind msg)))) (\<lambda>tm.
      bindA (liftR (ts_client s)) (\<lambda>client.
      bindA (liftR (deref tm)) (\<lambda>tm.
      bindA (liftR (previousFiles s client tm msg)) (\<lambda>prevFiles.
      let msg = msg\<lparr> cq_PreviousValues := None \<rparr> in
      bindA (liftR (requestFiles s client tm msg)) (\<lambda>(gitFiles, vals).
      let req = writeRequest s gp msg vals (filesToWrite gitFiles @ getDeletedFiles prevFiles gitFiles) in
      bindA (newErrA (StatusErr ''Unauthenticated'' ''failed to access repo %s: %s'')
        (service_GetRepository (sv_newClient s) gp (wr_RepositoryURL req))) (\<lambda>_.
        wrapA ''unable to create pull request for %q: %w'' [cq_Name msg]
          (WriteFilesToBranchAndCreatePullRequest (sv_newClient s) req))))))))))"

text \<open>tfcontroller.go.\<close>

record tf_request =
  tf_RepositoryUrl :: string
  tf_HeadBranch :: string
  tf_BaseBranch :: string
  tf_Title :: string
  tf_Description :: string
  tf_Name :: string
  tf_Namespace :: string
  tf_ParameterValues :: "(string \<rightharpoonup> string) option"
  tf_CommitMessage :: string

definition CreateTfControllerPullRequest :: "('u, 'v, 'h, 'y, 'f, 's) pr_server \<Rightarrow> tf_request \<Rightarrow> ('s, string) action" where
  "CreateTfControllerPullRequest s msg =
     CreatePullRequest s \<lparr> cq_RepositoryUrl = tf_RepositoryUrl msg, cq_HeadBranch = tf_HeadBranch msg, cq_BaseBranch = tf_BaseBranch msg,
       cq_Title = tf_Title msg, cq_Description = tf_Description msg, cq_Name = tf_Name msg, cq_Namespace = tf_Namespace msg,
       cq_TemplateKind = GitOpsKind, cq_ParameterValues = tf_ParameterValues msg, cq_CommitMessage = tf_CommitMessage msg,
       cq_Credentials = None, cq_Values = [], cq_Kustomizations = [], cq_PreviousValues = None \<rparr>"

section \<open>CreateDeletionPullRequest\<close>

definition deletion :: "string \<Rightarrow> commit_file" where
  "deletion path = \<lparr> cf_Path = path, cf_Content = None \<rparr>"

definition clusterDeletions :: "'s new_client \<Rightarrow> config \<Rightarrow> GitProvider \<Rightarrow> string \<Rightarrow> string \<Rightarrow> nsname \<Rightarrow> ('s, commit_file list) action" where
  "clusterDeletions newClient cfg gp repositoryURL baseBranch cluster =
     (let c = createNamespacedName (nn_Name cluster) (getClusterNamespace cfg (nn_Namespace cluster)) in
      bindA (wrapA ''error getting list of trees in repo: %s@%s: %w'' [repositoryURL, baseBranch]
        (service_GetTreeList newClient gp repositoryURL baseBranch (getClusterDirPath cfg c) True)) (\<lambda>treeEntries.
        liftR (Inr (deletion (getClusterManifestPath cfg c) # map (\<lambda>e. deletion (te_Path e)) treeEntries))))"

definition clustersToDelete :: "delete_request \<Rightarrow> nsname list" where
  "clustersToDelete msg =
     (if length (dl_ClusterNamespacedNames msg) > 0 then dl_ClusterNamespacedNames msg
      else map (\<lambda>n. createNamespacedName n []) (dl_ClusterNames msg))"

definition deletionRequest :: "('u, 'v, 'h, 'y, 'f, 's) pr_server \<Rightarrow> GitProvider \<Rightarrow> delete_request \<Rightarrow> commit_file list \<Rightarrow> write_request" where
  "deletionRequest s gp msg files =
     (let cfg = re_config (ts_env s); names = dl_ClusterNames msg in
      \<lparr> wr_GitProvider = gp,
        wr_RepositoryURL = orElse (dl_RepositoryUrl msg) (cfg ''capi-templates-repository-url''),
        wr_HeadBranch = orElse (dl_HeadBranch msg) (getHash (sv_md5hex s) [dl_RepositoryUrl msg, joinStr [] names, dl_BaseBranch msg]),
        wr_BaseBranch = orElse (dl_BaseBranch msg) (cfg ''capi-templates-repository-base-branch''),
        wr_Title = orElse (dl_Title msg) (''Gitops delete clusters: ['' @ joinStr '' '' names @ '']''),
        wr_Description = orElse (dl_Description msg) (''Pull request to delete clusters: '' @ joinStr '', '' names),
        wr_CommitMessage = orElse (dl_CommitMessage msg) ''Remove Clusters Manifests'',
        wr_Files = files \<rparr>)"

definition CreateDeletionPullRequest :: "('u, 'v, 'h, 'y, 'f, 's) pr_server \<Rightarrow> delete_request \<Rightarrow> ('s, string) action" where
  "CreateDeletionPullRequest s msg =
     (let cfg = re_config (ts_env s); newClient = sv_newClient s in
      bindA (liftR (newErr (StatusErr ''Unauthenticated'' ''error creating pull request: %s'')
        (getGitProvider cfg (sv_repoEnv s) (sv_ProviderToken s) (dl_RepositoryUrl msg)))) (\<lambda>gp.
      bindA (liftR (checked (Inr (validateDeleteClustersPR (sv_validator s) msg)))) (\<lambda>_.
      let r0 = deletionRequest s gp msg [] in
      bindA (mapA (clusterDeletions newClient cfg gp (wr_RepositoryURL r0) (wr_BaseBranch r0)) (clustersToDelete msg)) (\<lambda>files.
      let req = deletionRequest s gp msg (concat files) in
      bindA (newErrA (StatusErr ''Unauthenticated'' ''failed to get repo %s: %s'')
        (service_GetRepository newClient gp (wr_RepositoryURL req))) (\<lambda>_.
        WriteFilesToBranchAndCreatePullRequest newClient req)))))"

end
