(* ===== verification/PullRequestFacts.thy ===== *)
theory PullRequestFacts
  imports PullRequests TemplateServerFacts
begin

text \<open>
  What the pull requests of the clusters service leave in the repository, on a lawful host.
\<close>

section \<open>The service on a lawful host\<close>

text \<open>The provider is GitHub, GitLab or Bitbucket, whose clients are those of go-git-providers, and
  its client works on the host that is looked at. Azure DevOps has a client of go-scm, with
  different operations, and is not hosted in this sense.\<close>

definition hosted :: "'s new_client \<Rightarrow> GitProvider \<Rightarrow> 's host_view \<Rightarrow> bool" where
  "hosted newClient gp H \<longleftrightarrow> (\<forall>k cl. getGitProviderClient newClient gp = Inr (k, cl) \<longrightarrow>
     k \<in> {GitHub, GitLab, BitBucketServer} \<and> (\<exists>C. cl = GoGitProvider C \<and> host_ok C H))"

lemma hosted_client:
  assumes "hosted newClient gp H" "getGitProviderClient newClient gp = Inr (k, cl)"
  shows "\<exists>C. cl = GoGitProvider C \<and> host_ok C H"
  using assms unfolding hosted_def by blast

lemma clientFor_Inr:
  "clientFor newClient gp s = (Inr p, s') \<longleftrightarrow> getGitProviderClient newClient gp = Inr p \<and> s' = s"
  by (simp add: clientFor_def action_simps)

lemma prov_GetTreeList_keeps:
  assumes "host_ok C H"
  shows "keeps (sameTrees H) (prov_GetTreeList C url sha path)"
proof -
  have "keeps (sameTrees H) (or_ListTrees repo sha path True)" if "ggp_GetRepository C u s = (Inr repo, s1)" for u repo s s1
    using repository_Inr [OF assms, of GitLab] that host_reads(3) [OF assms] by (simp add: repositoryOf_def)
  then show ?thesis
    unfolding prov_GetTreeList_def
    by (intro keeps_bindA keeps_liftR same_refl) (auto intro: same_trans repository_keeps assms)
qed

lemma service_reads:
  assumes "hosted newClient gp H"
  shows "service_GetRepository newClient gp url s = (Inr r, s') \<Longrightarrow> sameTrees H s s'"
    and "service_GetTreeList newClient gp url sha path b s = (Inr es, s') \<Longrightarrow> sameTrees H s s'"
proof -
  assume "service_GetRepository newClient gp url s = (Inr r, s')"
  then obtain k cl where cl: "getGitProviderClient newClient gp = Inr (k, cl)" "provider_GetRepository (k, cl) url s = (Inr r, s')"
    by (auto simp: service_GetRepository_def action_simps clientFor_Inr)
  obtain C where C: "cl = GoGitProvider C" "host_ok C H" using hosted_client [OF assms cl(1)] by blast
  have "\<exists>repo. repositoryOf k C url s = (Inr repo, s')"
    using cl(2) C(1) by (auto simp: provider_GetRepository_def prov_GetRepository_def action_simps)
  then show "sameTrees H s s'" using keepsD [OF repository_keeps(2) [OF C(2)]] by blast
next
  assume "service_GetTreeList newClient gp url sha path b s = (Inr es, s')"
  then obtain k cl where cl: "getGitProviderClient newClient gp = Inr (k, cl)" "provider_GetTreeList (k, cl) url sha path s = (Inr es, s')"
    by (auto simp: service_GetTreeList_def action_simps clientFor_Inr)
  obtain C where C: "cl = GoGitProvider C" "host_ok C H" using hosted_client [OF assms cl(1)] by blast
  with cl(2) show "sameTrees H s s'"
    using keepsD [OF prov_GetTreeList_keeps [OF C(2)]] by (simp add: provider_GetTreeList_def)
qed

lemma service_writes:
  assumes "hosted newClient (wr_GitProvider req) H" "WriteFilesToBranchAndCreatePullRequest newClient req s = (Inr link, s')"
  shows "only H (wr_HeadBranch req) s s' \<and> (\<exists>t. hv_tree H s (wr_BaseBranch req) = Some t \<and>
    hv_tree H s' (wr_HeadBranch req) = Some (applyFiles t (wr_Files req)))"
proof -
  obtain k cl where cl: "getGitProviderClient newClient (wr_GitProvider req) = Inr (k, cl)"
    using assms(2) by (auto simp: WriteFilesToBranchAndCreatePullRequest_def action_simps)
  obtain C where C: "cl = GoGitProvider C" "host_ok C H" using hosted_client [OF assms(1) cl] by blast
  obtain i r0 where i: "pi_Head i = wr_HeadBranch req" "pi_Base i = wr_BaseBranch req"
      "concat (map ci_Files (pi_Commits i)) = wr_Files req" "create_go k C i s = (r0, s')" "isOk r0"
    using service_outcome [OF cl [unfolded C(1)] assms(2)] by auto
  with go_provider.outcome [OF C(2) i(4)] show ?thesis by auto
qed

section \<open>Creating\<close>

text \<open>The paths that are in a category of the previous files and not in the same one of the new files.\<close>

definition dropped :: "'c GetFilesReturn \<Rightarrow> 'c GetFilesReturn \<Rightarrow> string set" where
  "dropped prev new =
     (cf_Path ` set (gr_KustomizationFiles prev) - cf_Path ` set (gr_KustomizationFiles new)) \<union>
     (cf_Path ` set (gr_ProfileFiles prev) - cf_Path ` set (gr_ProfileFiles new)) \<union>
     (cf_Path ` set (gr_RenderedTemplate prev) - cf_Path ` set (gr_RenderedTemplate new))"

lemma missing_paths: "cf_Path ` set (getMissingFiles fs gs) = cf_Path ` set fs - cf_Path ` set gs"
  by (auto simp: getMissingFiles_def filePaths_def image_image)

lemma missing_content: "f \<in> set (getMissingFiles fs gs) \<Longrightarrow> cf_Content f = None"
  by (auto simp: getMissingFiles_def)

lemma deleted_paths: "cf_Path ` set (getDeletedFiles prev new) = dropped prev new"
  by (auto simp: getDeletedFiles_def dropped_def image_Un missing_paths)

lemma applyFiles_deletions:
  "\<forall>f\<in>set ds. cf_Content f = None \<Longrightarrow> applyFiles t ds p = (if p \<in> cf_Path ` set ds then None else t p)"
proof (induction ds arbitrary: t)
  case (Cons d ds)
  then have "applyFiles (t(cf_Path d := None)) ds p = (if p \<in> cf_Path ` set ds then None else (t(cf_Path d := None)) p)" by simp
  with Cons.prems show ?case by (auto simp: applyFiles_def)
qed simp

lemma applyFiles_deleted:
  "applyFiles t (fs @ getDeletedFiles prev new) = (\<lambda>p. if p \<in> dropped prev new then None else applyFiles t fs p)"
proof -
  have "\<forall>f\<in>set (getDeletedFiles prev new). cf_Content f = None" by (auto simp: getDeletedFiles_def dest: missing_content)
  then show ?thesis by (auto simp: applyFiles_append applyFiles_deletions deleted_paths)
qed

text \<open>A request as the handler sees it, with its defaults.\<close>

definition withDefaults :: "create_request \<Rightarrow> create_request" where
  "withDefaults msg = applyCreateClusterDefaults (msg\<lparr> cq_TemplateKind := defaultKind (cq_TemplateKind msg) \<rparr>)"

lemma checked_Inr [action_simps]: "checked r = Inr () \<longleftrightarrow> r = Inr None"
  by (cases r) (auto simp: checked_def split: option.splits)

lemma newErrA_Inr [action_simps]: "newErrA e f s = (Inr y, s') \<longleftrightarrow> f s = (Inr y, s')"
  by (auto simp: newErrA_def split: prod.splits)

lemma CreatePullRequest_Inr:
  assumes "CreatePullRequest s msg h = (Inr link, h')"
  obtains gp client tm prev new vals repo r h1 where
    "getGitProvider (re_config (ts_env s)) (sv_repoEnv s) (sv_ProviderToken s) (cq_RepositoryUrl msg) = Inr gp"
    "ts_client s = Inr client"
    "getTemplate (templates_server.truncate s) (cq_Name msg) (cq_Namespace msg) (defaultKind (cq_TemplateKind msg)) = Inr (Some tm)"
    "validateCreateClusterPR (sv_validator s) (withDefaults msg) = Inr None"
    "previousFiles s client tm (withDefaults msg) = Inr prev"
    "requestFiles s client tm ((withDefaults msg)\<lparr> cq_PreviousValues := None \<rparr>) = Inr (new, vals)"
    "service_GetRepository (sv_newClient s) gp repo h = (Inr r, h1)"
    "WriteFilesToBranchAndCreatePullRequest (sv_newClient s)
       (writeRequest s gp ((withDefaults msg)\<lparr> cq_PreviousValues := None \<rparr>) vals (filesToWrite new @ getDeletedFiles prev new)) h1 = (Inr link, h')"
proof -
  have kept: "cq_Name (withDefaults msg) = cq_Name msg" "cq_Namespace (withDefaults msg) = cq_Namespace msg"
    "cq_TemplateKind (withDefaults msg) = defaultKind (cq_TemplateKind msg)"
    by (simp_all add: withDefaults_def applyCreateClusterDefaults_def)
  show thesis
    using assms unfolding CreatePullRequest_def Let_def withDefaults_def [symmetric] kept
    by (auto simp: action_simps deref_Inr intro: that split: prod.splits)
qed

lemma withDefaults_simps [simp]:
  "cq_HeadBranch (withDefaults msg) = cq_HeadBranch msg" "cq_BaseBranch (withDefaults msg) = cq_BaseBranch msg"
  "cq_RepositoryUrl (withDefaults msg) = cq_RepositoryUrl msg" "cq_PreviousValues (withDefaults msg) = cq_PreviousValues msg"
  "cq_Kustomizations (withDefaults msg) = map defaultNamespace (cq_Kustomizations msg)"
  by (simp_all add: withDefaults_def applyCreateClusterDefaults_def)

lemma writeRequest_simps [simp]:
  "wr_BaseBranch (writeRequest s gp msg vals fs) = orElse (cq_BaseBranch msg) (re_config (ts_env s) ''capi-templates-repository-base-branch'')"
  "wr_HeadBranch (writeRequest s gp msg vals fs) =
     orElse (cq_HeadBranch msg) (getHash (sv_md5hex s) [cq_RepositoryUrl msg, mread vals ''CLUSTER_NAME'', cq_BaseBranch msg])"
  "wr_GitProvider (writeRequest s gp msg vals fs) = gp"
  "wr_Files (writeRequest s gp msg vals fs) = fs"
  by (simp_all add: writeRequest_def Let_def)

text \<open>C2: On GitHub, GitLab and Bitbucket, a pull request that was created changes only its head branch, which then has the
  tree of the base branch with the files of the request written, except that every path is
  deleted that is in a category of the previous files and not in the same category of the
  new ones, even when the request writes it in another category.\<close>

theorem create_pull_request_files:
  assumes "getGitProvider (re_config (ts_env s)) (sv_repoEnv s) (sv_ProviderToken s) (cq_RepositoryUrl msg) = Inr gp"
    and "hosted (sv_newClient s) gp H" "CreatePullRequest s msg h = (Inr link, h')"
  shows "\<exists>client tm prev new vals head t. ts_client s = Inr client \<and>
    getTemplate (templates_server.truncate s) (cq_Name msg) (cq_Namespace msg) (defaultKind (cq_TemplateKind msg)) = Inr (Some tm) \<and>
    previousFiles s client tm (withDefaults msg) = Inr prev \<and>
    requestFiles s client tm ((withDefaults msg)\<lparr> cq_PreviousValues := None \<rparr>) = Inr (new, vals) \<and>
    head = orElse (cq_HeadBranch msg) (getHash (sv_md5hex s) [cq_RepositoryUrl msg, mread vals ''CLUSTER_NAME'', cq_BaseBranch msg]) \<and>
    hv_tree H h (orElse (cq_BaseBranch msg) (re_config (ts_env s) ''capi-templates-repository-base-branch'')) = Some t \<and>
    hv_tree H h' head = Some (\<lambda>p. if p \<in> dropped prev new then None else applyFiles t (filesToWrite new) p) \<and>
    (\<forall>b. b \<noteq> head \<longrightarrow> hv_tree H h' b = hv_tree H h b)"
proof -
  obtain client tm prev new vals repo r h1 where tm: "ts_client s = Inr client"
      "getTemplate (templates_server.truncate s) (cq_Name msg) (cq_Namespace msg) (defaultKind (cq_TemplateKind msg)) = Inr (Some tm)"
    and prev: "previousFiles s client tm (withDefaults msg) = Inr prev"
    and new: "requestFiles s client tm ((withDefaults msg)\<lparr> cq_PreviousValues := None \<rparr>) = Inr (new, vals)"
    and repo: "service_GetRepository (sv_newClient s) gp repo h = (Inr r, h1)"
    and pr: "WriteFilesToBranchAndCreatePullRequest (sv_newClient s)
       (writeRequest s gp ((withDefaults msg)\<lparr> cq_PreviousValues := None \<rparr>) vals (filesToWrite new @ getDeletedFiles prev new)) h1 = (Inr link, h')"
    by (rule CreatePullRequest_Inr [OF assms(3)]) (metis assms(1) sum.inject(2))
  have same: "sameTrees H h h1" by (rule service_reads(1) [OF assms(2) repo])
  let ?head = "orElse (cq_HeadBranch msg) (getHash (sv_md5hex s) [cq_RepositoryUrl msg, mread vals ''CLUSTER_NAME'', cq_BaseBranch msg])"
  obtain t where "hv_tree H h (orElse (cq_BaseBranch msg) (re_config (ts_env s) ''capi-templates-repository-base-branch'')) = Some t"
      "hv_tree H h' ?head = Some (\<lambda>p. if p \<in> dropped prev new then None else applyFiles t (filesToWrite new) p)"
      "\<forall>b. b \<noteq> ?head \<longrightarrow> hv_tree H h' b = hv_tree H h b"
    using service_writes [where H = H, OF _ pr] assms(2) same by (auto simp: only_def sameTrees_def applyFiles_deleted)
  with tm prev new show ?thesis by (intro exI conjI) (assumption | rule refl)+
qed

section \<open>Kustomizations\<close>

lemma requestFiles_kustomizations:
  assumes "requestFiles s client tm msg = Inr (new, vals)"
  shows "\<exists>ns req :: 'h files_request. fr_Kustomizations req = cq_Kustomizations msg \<and> isOk (kustomizationFiles (ts_env (templates_server.truncate s)) ns req)"
proof -
  let ?req = "\<lparr> fr_TemplateName = cq_Name msg, fr_ParameterValues = cq_ParameterValues msg, fr_Credentials = cq_Credentials msg,
    fr_Profiles = cq_Values msg, fr_Kustomizations = cq_Kustomizations msg, fr_HelmRepository = None \<rparr>"
  have "serverFiles (templates_server.truncate s) client tm (Some (\<lambda>vals. sv_MarshalRequest s (msg\<lparr> cq_ParameterValues := vals \<rparr>))) ?req = (Inr new, vals)"
    using assms by (auto simp: requestFiles_def bindR_Inr split: prod.splits)
  then show ?thesis
    unfolding serverFiles_def
  proof (rule GetFiles_ok, goal_cases)
    case (1 tp opts rendered)
    then have "isOk (kustomizationFiles (ts_env (templates_server.truncate s))
        (getClusterNamespace (re_config (ts_env (templates_server.truncate s))) (mread (fr_ParameterValues ?req) ''NAMESPACE''))
        (?req\<lparr> fr_ParameterValues := vals \<rparr>))"
      by (auto simp: filesOf_def Let_def bindR_Inr)
    then show ?case by (intro exI conjI) simp_all
  qed
qed

text \<open>The validation of a request accepts a kustomization without a source, whose file
  cannot be made: a pull request is only ever created when each of its kustomizations has
  metadata and a source.\<close>

theorem kustomizations_need_source:
  assumes "CreatePullRequest s msg h = (Inr link, h')" "k \<in> set (cq_Kustomizations msg)"
  shows "ku_Metadata k \<noteq> None \<and> hasSource k"
proof -
  obtain client tm new vals where "requestFiles s client tm ((withDefaults msg)\<lparr> cq_PreviousValues := None \<rparr>) = Inr (new, vals)"
    by (rule CreatePullRequest_Inr [OF assms(1)])
  from requestFiles_kustomizations [OF this] obtain ns req fs where ks: "fr_Kustomizations req = map defaultNamespace (cq_Kustomizations msg)"
      "kustomizationFiles (ts_env (templates_server.truncate s)) ns req = Inr fs"
    by (auto elim!: isOkE)
  with assms(2) have "fr_Kustomizations req \<noteq> []" by auto
  with ks obtain cluster gs where "mapRes (kustomizationFile (ts_env (templates_server.truncate s)) cluster) (map defaultNamespace (cq_Kustomizations msg)) = Inr gs"
    by (auto simp: kustomizationFiles_def bindR_Inr)
  from mapRes_ok [OF this, of "defaultNamespace k"] assms(2) obtain y where "kustomizationFile (ts_env (templates_server.truncate s)) cluster (defaultNamespace k) = Inr y" by auto
  then have "ku_Metadata (defaultNamespace k) \<noteq> None \<and> hasSource (defaultNamespace k)"
    by (auto simp: kustomizationFile_def bindR_Inr generateKustomizationFile_def createKustomizationObject_def hasSource_def deref_Inr)
  then show ?thesis by (auto simp: defaultNamespace_def hasSource_def split: option.splits if_splits)
qed

section \<open>Deleting\<close>

text \<open>A listing of the service is one of the host, in a state with the same trees.\<close>

lemma service_lists:
  assumes "hosted newClient gp H" "service_GetTreeList newClient gp url b d rec s = (Inr es, s')"
  shows "\<exists>s1. sameTrees H s s1 \<and> or_ListTrees (hv_repo H) b d True s1 = (Inr es, s')"
proof -
  obtain k cl where cl: "getGitProviderClient newClient gp = Inr (k, cl)" "provider_GetTreeList (k, cl) url b d s = (Inr es, s')"
    using assms(2) by (auto simp: service_GetTreeList_def action_simps clientFor_Inr)
  obtain C where C: "cl = GoGitProvider C" "host_ok C H" using hosted_client [OF assms(1) cl(1)] by blast
  obtain u repo s1 where repo: "repositoryOf GitLab C u s = (Inr repo, s1)" and ls: "or_ListTrees repo b d True s1 = (Inr es, s')"
    using cl(2) C(1) by (auto simp: provider_GetTreeList_def prov_GetTreeList_def action_simps repositoryOf_def)
  have "repo = hv_repo H" by (rule repository_Inr [OF C(2) repo])
  with keepsD [OF repository_keeps(2) [OF C(2)] repo] ls show ?thesis by blast
qed

definition normalized :: "config \<Rightarrow> nsname \<Rightarrow> nsname" where
  "normalized cfg c = createNamespacedName (nn_Name c) (getClusterNamespace cfg (nn_Namespace c))"

text \<open>What the host lists below the directory of a cluster, at some point while the trees are those of a state.\<close>

definition listedFor :: "'s host_view \<Rightarrow> config \<Rightarrow> string \<Rightarrow> 's \<Rightarrow> nsname \<Rightarrow> tree_entry list \<Rightarrow> bool" where
  "listedFor H cfg base s c es \<longleftrightarrow>
     (\<exists>s1 s2. sameTrees H s s1 \<and> or_ListTrees (hv_repo H) base (getClusterDirPath cfg (normalized cfg c)) True s1 = (Inr es, s2))"

lemma clusterDeletions_Inr:
  "clusterDeletions newClient cfg gp url base c s = (Inr fs, s') \<longleftrightarrow>
   (\<exists>es. service_GetTreeList newClient gp url base (getClusterDirPath cfg (normalized cfg c)) True s = (Inr es, s') \<and>
     fs = deletion (getClusterManifestPath cfg (normalized cfg c)) # map (\<lambda>e. deletion (te_Path e)) es)"
  by (auto simp: clusterDeletions_def Let_def action_simps normalized_def)

lemma listedFor_same: "sameTrees H s s1 \<Longrightarrow> listedFor H cfg base s1 c es \<Longrightarrow> listedFor H cfg base s c es"
  unfolding listedFor_def by (blast intro: same_trans)

lemma clusterDeletions_spec:
  assumes "hosted newClient gp H" "mapA (clusterDeletions newClient cfg gp url base) cs s = (Inr fss, s')"
  shows "sameTrees H s s' \<and> (\<exists>ess. list_all2 (listedFor H cfg base s) cs ess \<and> (\<forall>f\<in>set (concat fss). cf_Content f = None) \<and>
    cf_Path ` set (concat fss) = (\<lambda>c. getClusterManifestPath cfg (normalized cfg c)) ` set cs \<union> te_Path ` set (concat ess))"
  using assms(2)
proof (induction cs arbitrary: s fss)
  case (Cons c cs)
  obtain es s1 gss where es: "service_GetTreeList newClient gp url base (getClusterDirPath cfg (normalized cfg c)) True s = (Inr es, s1)"
    and gss: "mapA (clusterDeletions newClient cfg gp url base) cs s1 = (Inr gss, s')"
    and fss: "fss = (deletion (getClusterManifestPath cfg (normalized cfg c)) # map (\<lambda>e. deletion (te_Path e)) es) # gss"
    using Cons.prems by (auto simp: action_simps clusterDeletions_Inr)
  have same: "sameTrees H s s1" by (rule service_reads(2) [OF assms(1) es])
  obtain ess where ess: "list_all2 (listedFor H cfg base s1) cs ess" "\<forall>f\<in>set (concat gss). cf_Content f = None"
      "cf_Path ` set (concat gss) = (\<lambda>c. getClusterManifestPath cfg (normalized cfg c)) ` set cs \<union> te_Path ` set (concat ess)"
    and rest: "sameTrees H s1 s'"
    using Cons.IH [OF gss] by blast
  have "listedFor H cfg base s c es" using service_lists [OF assms(1) es] unfolding listedFor_def by blast
  moreover have "list_all2 (listedFor H cfg base s) cs ess"
    using ess(1) by (rule list_all2_mono) (rule listedFor_same [OF same])
  ultimately have "list_all2 (listedFor H cfg base s) (c # cs) (es # ess)" by simp
  moreover have "\<forall>f\<in>set (concat fss). cf_Content f = None" using ess(2) by (auto simp: fss deletion_def)
  moreover have "cf_Path ` set (concat fss) =
      (\<lambda>c. getClusterManifestPath cfg (normalized cfg c)) ` set (c # cs) \<union> te_Path ` set (concat (es # ess))"
    unfolding fss concat.simps set_append image_Un ess(3) by (auto simp: deletion_def image_image)
  ultimately show ?case using same_trans [OF same rest] by blast
qed (simp add: action_simps same_refl)

lemma deletionRequest_simps [simp]:
  "wr_BaseBranch (deletionRequest s gp msg fs) = orElse (dl_BaseBranch msg) (re_config (ts_env s) ''capi-templates-repository-base-branch'')"
  "wr_Files (deletionRequest s gp msg fs) = fs"
  "wr_GitProvider (deletionRequest s gp msg fs) = gp"
  "wr_HeadBranch (deletionRequest s gp msg fs) =
     orElse (dl_HeadBranch msg) (getHash (sv_md5hex s) [dl_RepositoryUrl msg, joinStr [] (dl_ClusterNames msg), dl_BaseBranch msg])"
  by (simp_all add: deletionRequest_def Let_def)

lemma bindA_E:
  assumes "bindA f g s = (Inr y, s')"
  obtains x s1 where "f s = (Inr x, s1)" "g x s1 = (Inr y, s')"
  using assms by (auto simp: action_simps)

lemma CreateDeletionPullRequest_Inr:
  assumes "CreateDeletionPullRequest s msg h = (Inr link, h')"
  obtains gp fss h1 r h2 where
    "getGitProvider (re_config (ts_env s)) (sv_repoEnv s) (sv_ProviderToken s) (dl_RepositoryUrl msg) = Inr gp"
    "mapA (clusterDeletions (sv_newClient s) (re_config (ts_env s)) gp (wr_RepositoryURL (deletionRequest s gp msg []))
       (wr_BaseBranch (deletionRequest s gp msg []))) (clustersToDelete msg) h = (Inr fss, h1)"
    "service_GetRepository (sv_newClient s) gp (wr_RepositoryURL (deletionRequest s gp msg (concat fss))) h1 = (Inr r, h2)"
    "WriteFilesToBranchAndCreatePullRequest (sv_newClient s) (deletionRequest s gp msg (concat fss)) h2 = (Inr link, h')"
proof -
  show thesis
    using assms unfolding CreateDeletionPullRequest_def Let_def
  proof (elim bindA_E, goal_cases)
    case (1 gp h0 u h0' fss h1 r h2)
    then have "h0 = h" "h0' = h0" by (simp_all only: liftR_Inr)
    moreover have "getGitProvider (re_config (ts_env s)) (sv_repoEnv s) (sv_ProviderToken s) (dl_RepositoryUrl msg) = Inr gp"
      using 1(1) by (simp only: liftR_Inr newErr_Inr)
    ultimately show ?case using 1 by (intro that [of gp fss h1 r h2]) (simp_all only: newErrA_Inr)
  qed
qed

text \<open>C4: On GitHub, GitLab and Bitbucket, a pull request that deletes clusters changes only the
  head branch of the request, which then has the tree of the base branch without the manifest
  of each of the clusters and without every path that the host lists below their directories,
  and with nothing else changed.\<close>

theorem deletion_pull_request_files:
  assumes "getGitProvider (re_config (ts_env s)) (sv_repoEnv s) (sv_ProviderToken s) (dl_RepositoryUrl msg) = Inr gp"
    and "hosted (sv_newClient s) gp H" "CreateDeletionPullRequest s msg h = (Inr link, h')"
  shows "\<exists>ess t base head. base = orElse (dl_BaseBranch msg) (re_config (ts_env s) ''capi-templates-repository-base-branch'') \<and>
    head = orElse (dl_HeadBranch msg) (getHash (sv_md5hex s) [dl_RepositoryUrl msg, joinStr [] (dl_ClusterNames msg), dl_BaseBranch msg]) \<and>
    list_all2 (listedFor H (re_config (ts_env s)) base h) (clustersToDelete msg) ess \<and> hv_tree H h base = Some t \<and>
    hv_tree H h' head = Some (\<lambda>p.
      if (\<exists>c\<in>set (clustersToDelete msg). p = getClusterManifestPath (re_config (ts_env s)) (normalized (re_config (ts_env s)) c)) \<or>
         p \<in> te_Path ` set (concat ess) then None else t p) \<and>
    (\<forall>b. b \<noteq> head \<longrightarrow> hv_tree H h' b = hv_tree H h b)"
proof -
  let ?cfg = "re_config (ts_env s)"
  let ?base = "orElse (dl_BaseBranch msg) (?cfg ''capi-templates-repository-base-branch'')"
  let ?head = "orElse (dl_HeadBranch msg) (getHash (sv_md5hex s) [dl_RepositoryUrl msg, joinStr [] (dl_ClusterNames msg), dl_BaseBranch msg])"
  obtain fss h1 r h2 where del: "mapA (clusterDeletions (sv_newClient s) ?cfg gp
        (wr_RepositoryURL (deletionRequest s gp msg [])) (wr_BaseBranch (deletionRequest s gp msg []))) (clustersToDelete msg) h = (Inr fss, h1)"
    and repo: "service_GetRepository (sv_newClient s) gp (wr_RepositoryURL (deletionRequest s gp msg (concat fss))) h1 = (Inr r, h2)"
    and pr: "WriteFilesToBranchAndCreatePullRequest (sv_newClient s) (deletionRequest s gp msg (concat fss)) h2 = (Inr link, h')"
    by (rule CreateDeletionPullRequest_Inr [OF assms(3)]) (metis assms(1) sum.inject(2))
  obtain ess where same1: "sameTrees H h h1" and ess: "list_all2 (listedFor H ?cfg ?base h) (clustersToDelete msg) ess"
    and none: "\<forall>f\<in>set (concat fss). cf_Content f = None"
    and paths: "cf_Path ` set (concat fss) = (\<lambda>c. getClusterManifestPath ?cfg (normalized ?cfg c)) ` set (clustersToDelete msg) \<union> te_Path ` set (concat ess)"
    using clusterDeletions_spec [OF assms(2) del [unfolded deletionRequest_simps]] by blast
  have same: "sameTrees H h h2" by (rule same_trans [OF same1 service_reads(1) [OF assms(2) repo]])
  obtain t where "hv_tree H h ?base = Some t" "hv_tree H h' ?head = Some (applyFiles t (concat fss))" "\<forall>b. b \<noteq> ?head \<longrightarrow> hv_tree H h' b = hv_tree H h b"
    using service_writes [where H = H, OF _ pr] assms(2) same by (auto simp: only_def sameTrees_def)
  moreover have "applyFiles t (concat fss) = (\<lambda>p.
      if (\<exists>c\<in>set (clustersToDelete msg). p = getClusterManifestPath ?cfg (normalized ?cfg c)) \<or> p \<in> te_Path ` set (concat ess) then None else t p)"
    by (rule ext) (simp only: applyFiles_deletions [OF none] paths Un_iff image_iff Bex_def)
  ultimately show ?thesis using ess by (intro exI conjI) (assumption | rule refl | simp only:)+
qed

section \<open>Examples\<close>

definition listRepo :: "branches org_repo" where
  "listRepo = treeRepo\<lparr> or_ListTrees := (\<lambda>sha p rec s.
     (case s sha of None \<Rightarrow> Inr []
      | Some t \<Rightarrow> if finite (dom t) then Inr (map (\<lambda>q. \<lparr> te_Path = q, te_Type = ''blob'', te_Size = 0, te_SHA = [], te_Link = [] \<rparr>)
            (sorted_list_of_set {q \<in> dom t. prefix (p @ ''/'') q})) else Inl (err ''infinite''), s)) \<rparr>"

definition listClient :: "branches git_client" where
  "listClient = treeClient\<lparr> gc_GetRepository := (\<lambda>ref s. (Inr listRepo, s)) \<rparr>"

definition listHost :: "branches host_view" where
  "listHost = treeHost\<lparr> hv_repo := listRepo \<rparr>"

lemma listHost_ok: "host_ok listClient listHost"
  by (auto simp: host_ok_def listClient_def treeClient_def listHost_def treeHost_def listRepo_def treeRepo_def retry_once sameTrees_def only_def
    split: option.splits)

lemma listHost_listed:
  assumes "listedFor listHost cfg base s c es" "s base = Some t"
  shows "te_Path ` set es = {p \<in> dom t. prefix (getClusterDirPath cfg (normalized cfg c) @ ''/'') p}"
proof -
  have "finite {q \<in> dom t. prefix d q}" if "finite (dom t)" for d using that by simp
  with assms show ?thesis
    by (auto simp: listedFor_def sameTrees_def listHost_def treeHost_def listRepo_def image_image split: if_splits)
qed

definition listNew :: "branches new_client" where
  "listNew k opts = Inr (GoGitProvider listClient)"


definition sampleConfig :: config where
  "sampleConfig = (\<lambda>_. [])(''git-provider-type'' := ''github'', ''git-provider-hostname'' := ''github.com'',
     ''capi-templates-repository-base-branch'' := ''main'', ''capi-repository-path'' := ''repo'', ''capi-repository-clusters-path'' := ''clusters'')"

definition bareTemplate :: template where
  "bareTemplate = docTemplate\<lparr> tm_ResourceTemplates := [], tm_Params := [] \<rparr>"

definition sampleServer :: "(unit, string, unit, string, unit, branches) pr_server" where
  "sampleServer = \<lparr> ts_env = docEnv\<lparr> re_config := sampleConfig \<rparr>, ts_estimator = (\<lambda>_. Inr None),
     ts_client = Inr \<lparr> fc_identities = \<lparr> ic_Get = (\<lambda>_ _. None), ic_List = (\<lambda>_. Inr []), ic_ServerResources = (\<lambda>_. Inr []), ic_IsNotFound = (\<lambda>_. False) \<rparr>,
       fc_GetHelmRepository = (\<lambda>_. Inl (err ''none'')), fc_RESTMapping = (\<lambda>_. NoKindMatch), sc_GetTemplate = (\<lambda>_ _. Inr bareTemplate) \<rparr>,
     ts_chartsCache = ga_chartsCache sampleArgs, ts_cluster = ''m'', ts_profileHelmRepository = createNamespacedName ''charts'' ''flux-system'',
     ts_Fetch = (\<lambda>_. Inr []),
     sv_validator = \<lparr> vl_Append = (\<lambda>a e. case a of None \<Rightarrow> e | Some x \<Rightarrow> Some x), vl_NamespaceErrors = (\<lambda>_. []) \<rparr>,
     sv_md5hex = id, sv_newClient = listNew, sv_repoEnv = demoEnv, sv_ProviderToken = Inr ''t'', sv_MarshalRequest = (\<lambda>_. Inr ''{}'') \<rparr>"

definition sampleTree :: file_tree where
  "sampleTree = [''repo/default/c.yaml'' \<mapsto> ''c'', ''clusters/default/c/k.yaml'' \<mapsto> ''k'', ''other'' \<mapsto> ''o'']"

definition deleteRequest :: delete_request where
  "deleteRequest = \<lparr> dl_RepositoryUrl = [], dl_HeadBranch = ''h'', dl_BaseBranch = [], dl_Title = [], dl_Description = [],
     dl_ClusterNames = [''c''], dl_CommitMessage = [], dl_ClusterNamespacedNames = [] \<rparr>"

lemma sample_provider:
  "getGitProvider sampleConfig demoEnv (Inr ''t'') [] = Inr \<lparr> gp_Token = ''t'', gp_TokenType = ''oauth2'', gp_Type = ''github'', gp_Hostname = ''github.com'' \<rparr>"
  "getGitProviderClient listNew \<lparr> gp_Token = ''t'', gp_TokenType = ''oauth2'', gp_Type = ''github'', gp_Hostname = ''github.com'' \<rparr> = Inr (GitHub, GoGitProvider listClient)"
  by (simp_all add: getGitProvider_def getToken_def sampleConfig_def getGitProviderClient_def providerKind_def Create_def WithOAuth2Token_def
    Setup_def listNew_def Let_def)

lemma listNew_hosted: "hosted listNew \<lparr> gp_Token = ''t'', gp_TokenType = ''oauth2'', gp_Type = ''github'', gp_Hostname = ''github.com'' \<rparr> listHost"
  by (simp add: hosted_def sample_provider listHost_ok)

lemma list_repository: "repositoryOf GitHub listClient url s = (Inr listRepo, s)"
  by (simp add: repositoryOf_def ggp_GetRepository_def bindA_def liftR_def wrapA_def listClient_def treeClient_def Let_def)

lemma list_simps:
  "GetGitProviderUrl listClient u = Inr u" "gc_RetryCommits listClient = (\<lambda>_ f. f)"
  "or_ListCommits listRepo b s = (Inr (case s b of None \<Rightarrow> [] | Some t \<Rightarrow> [b]), s)"
  "or_CreateBranch listRepo hb sha s = (case s sha of None \<Rightarrow> (Some (err ''no commit''), s) | Some t \<Rightarrow> (None, s(hb \<mapsto> t)))"
  "or_CreateCommit listRepo hb m fs s = (case s hb of None \<Rightarrow> (Inl (err ''no branch''), s) | Some t \<Rightarrow> (Inr ''sha'', s(hb \<mapsto> applyFiles t fs)))"
  "or_CreatePullRequest listRepo ti hb b d s = (Inr ''link'', s)"
  by (simp_all add: GetGitProviderUrl_def listClient_def treeClient_def listRepo_def treeRepo_def)

lemma list_create:
  assumes "s ''main'' = Some t"
  shows "ggp_CreateFromBranch GitHub listClient \<lparr> pi_RepositoryURL = u, pi_Title = ti, pi_Body = b, pi_Head = ''h'', pi_Base = ''main'',
      pi_Commits = [\<lparr> ci_Message = m, ci_Files = fs \<rparr>] \<rparr> s = (Inr ''link'', s(''h'' \<mapsto> applyFiles t fs))"
  using assms
  by (simp add: ggp_CreateFromBranch_def bindA_def liftR_def wrapA_def list_repository list_simps WriteFilesToBranch_def CreateBranch_def
    stepA_def ggp_CreatePullRequest_def)

definition sampleProvider :: GitProvider where
  "sampleProvider = \<lparr> gp_Token = ''t'', gp_TokenType = ''oauth2'', gp_Type = ''github'', gp_Hostname = ''github.com'' \<rparr>"

lemma sample_write:
  assumes "s ''main'' = Some t" "wr_GitProvider req = sampleProvider" "wr_HeadBranch req = ''h''" "wr_BaseBranch req = ''main''"
  shows "WriteFilesToBranchAndCreatePullRequest listNew req s = (Inr ''link'', s(''h'' \<mapsto> applyFiles t (wr_Files req)))"
  using assms(2-4)
  by (simp add: WriteFilesToBranchAndCreatePullRequest_def sampleProvider_def sample_provider prov_CreatePullRequest_def create_go_def bindA_def liftR_def
    wrapA_def list_create [of s, OF assms(1)])

lemma sample_repository: "service_GetRepository listNew sampleProvider url s = (Inr \<lparr> rp_Domain = [], rp_Org = ''org'', rp_Name = ''repo'' \<rparr>, s)"
  by (simp add: service_GetRepository_def clientFor_def sampleProvider_def sample_provider provider_GetRepository_def prov_GetRepository_def list_repository
    bindA_def liftR_def listRepo_def treeRepo_def)

lemma sample_list:
  assumes "s ''main'' = Some t" "finite (dom t)"
  shows "\<exists>es. service_GetTreeList listNew sampleProvider url ''main'' d True s = (Inr es, s)"
proof -
  have "ggp_GetRepository listClient u s = (Inr listRepo, s)" for u
    by (simp add: ggp_GetRepository_def bindA_def liftR_def wrapA_def listClient_def treeClient_def Let_def)
  moreover have "\<exists>es. or_ListTrees listRepo ''main'' d True s = (Inr es, s)"
    using assms by (simp add: listRepo_def)
  moreover have "\<exists>u. GetGitProviderUrl listClient url = Inr u"
    by (simp add: GetGitProviderUrl_def listClient_def treeClient_def)
  ultimately show ?thesis
    by (auto simp: service_GetTreeList_def clientFor_def sampleProvider_def sample_provider provider_GetTreeList_def prov_GetTreeList_def
      bindA_def liftR_def wrapA_def)
qed

lemma sample_config: "re_config (ts_env sampleServer) = sampleConfig" "sv_newClient sampleServer = listNew"
  by (simp_all add: sampleServer_def)

lemma sample_base: "orElse [] (sampleConfig ''capi-templates-repository-base-branch'') = ''main''"
  by (simp add: orElse_def sampleConfig_def)

lemma sample_deletion:
  "\<exists>h'. CreateDeletionPullRequest sampleServer deleteRequest [''main'' \<mapsto> sampleTree] = (Inr ''link'', h')"
proof -
  let ?s = "[''main'' \<mapsto> sampleTree] :: branches"
  have gp: "getGitProvider sampleConfig (sv_repoEnv sampleServer) (sv_ProviderToken sampleServer) (dl_RepositoryUrl deleteRequest) = Inr sampleProvider"
    by (simp add: sampleServer_def sample_provider sampleProvider_def deleteRequest_def)
  have ok: "checked (Inr (validateDeleteClustersPR (sv_validator sampleServer) deleteRequest)) = Inr ()"
    by (simp add: checked_def validateDeleteClustersPR_def appendIf_def deleteRequest_def)
  have base: "wr_BaseBranch (deletionRequest sampleServer gp deleteRequest fs) = ''main''" for gp fs
    using sample_base by (simp add: sample_config deleteRequest_def)
  have head: "wr_GitProvider (deletionRequest sampleServer sampleProvider deleteRequest fs) = sampleProvider"
    "wr_HeadBranch (deletionRequest sampleServer sampleProvider deleteRequest fs) = ''h''" for fs
    by (simp_all add: deletionRequest_def Let_def deleteRequest_def orElse_def)
  have "finite (dom sampleTree)" by (simp add: sampleTree_def)
  with sample_list [of ?s sampleTree]
  have "\<exists>es. service_GetTreeList listNew sampleProvider url ''main'' d True ?s = (Inr es, ?s)" for url d by simp
  then have "\<exists>fs. clusterDeletions listNew sampleConfig sampleProvider url ''main'' c ?s = (Inr fs, ?s)" for c url
    unfolding clusterDeletions_Inr by blast
  then have "\<exists>fss. mapA (clusterDeletions listNew sampleConfig sampleProvider url ''main'') (clustersToDelete deleteRequest) ?s = (Inr fss, ?s)" for url
    by (auto simp: clustersToDelete_def deleteRequest_def action_simps)
  then obtain fss where fss: "mapA (clusterDeletions listNew sampleConfig sampleProvider (wr_RepositoryURL (deletionRequest sampleServer sampleProvider deleteRequest [])) ''main'')
      (clustersToDelete deleteRequest) ?s = (Inr fss, ?s)" by blast
  have wrote: "WriteFilesToBranchAndCreatePullRequest listNew (deletionRequest sampleServer sampleProvider deleteRequest fs) ?s =
      (Inr ''link'', ?s(''h'' \<mapsto> applyFiles sampleTree fs))" for fs
    using sample_write [of ?s sampleTree, OF _ head(1) head(2) base] by simp
  have "CreateDeletionPullRequest sampleServer deleteRequest ?s = (Inr ''link'', ?s(''h'' \<mapsto> applyFiles sampleTree (concat fss)))"
    unfolding CreateDeletionPullRequest_def Let_def sample_config gp ok base newErr_simps
    by (simp add: action_simps fss sample_repository wrote)
  then show ?thesis by blast
qed

lemma sample_deleted: "getClusterManifestPath sampleConfig (normalized sampleConfig (createNamespacedName ''c'' [])) = ''repo/default/c.yaml''"
  "getClusterDirPath sampleConfig (normalized sampleConfig (createNamespacedName ''c'' [])) = ''clusters/default/c''"
  by (simp_all add: normalized_def createNamespacedName_def getClusterNamespace_def sampleConfig_def getClusterManifestPath_def
    getClusterDirPath_def joinPath_def cleanPath_def components_def isRooted_def pathStep_def)

theorem deletion_pull_request_files_witness:
  "\<exists>h' t. CreateDeletionPullRequest sampleServer deleteRequest [''main'' \<mapsto> sampleTree] = (Inr ''link'', h') \<and> h' ''h'' = Some t \<and>
     h' ''main'' = Some sampleTree \<and> t ''repo/default/c.yaml'' = None \<and> t ''clusters/default/c/k.yaml'' = None \<and> t ''other'' = Some ''o''"
proof -
  let ?s = "[''main'' \<mapsto> sampleTree] :: branches"
  obtain h' where run: "CreateDeletionPullRequest sampleServer deleteRequest ?s = (Inr ''link'', h')"
    using sample_deletion by blast
  have hosted: "hosted (sv_newClient sampleServer) sampleProvider listHost" by (simp add: sample_config sampleProvider_def listNew_hosted)
  have gp: "getGitProvider (re_config (ts_env sampleServer)) (sv_repoEnv sampleServer) (sv_ProviderToken sampleServer) (dl_RepositoryUrl deleteRequest) = Inr sampleProvider"
    by (simp add: sampleServer_def sample_provider sampleProvider_def deleteRequest_def)
  have set_up: "orElse (dl_BaseBranch deleteRequest) (sampleConfig ''capi-templates-repository-base-branch'') = ''main''"
    "orElse (dl_HeadBranch deleteRequest) x = ''h''" "clustersToDelete deleteRequest = [createNamespacedName ''c'' []]"
    "hv_tree listHost b n = b n" for x b n
    using sample_base by (simp_all add: deleteRequest_def orElse_def clustersToDelete_def listHost_def treeHost_def)
  from deletion_pull_request_files [OF gp hosted run] obtain es where
      es: "listedFor listHost sampleConfig ''main'' ?s (createNamespacedName ''c'' []) es"
    and head: "h' ''h'' = Some (\<lambda>p. if p = ''repo/default/c.yaml'' \<or> p \<in> te_Path ` set es then None else sampleTree p)"
    and others: "\<forall>b. b \<noteq> ''h'' \<longrightarrow> h' b = ?s b"
    unfolding sample_config set_up by (auto simp: list_all2_Cons1 sample_deleted)
  have "te_Path ` set es = {p \<in> dom sampleTree. prefix ''clusters/default/c/'' p}"
    using listHost_listed [OF es, of sampleTree] by (simp add: sample_deleted)
  then have "''clusters/default/c/k.yaml'' \<in> te_Path ` set es" "''other'' \<notin> te_Path ` set es"
    by (auto simp: sampleTree_def)
  with others show ?thesis by - (intro exI conjI, rule run, rule head, simp_all, simp add: sampleTree_def)
qed

definition sampleKustomization :: "string \<Rightarrow> kustomization" where
  "sampleKustomization name = \<lparr> ku_Metadata = Some \<lparr> md_Name = name, md_Namespace = ''n'', md_Annotations = Map.empty \<rparr>,
     ku_Spec = Some \<lparr> ks_Path = [], ks_SourceRef = Some \<lparr> sr_Name = ''src'', sr_Namespace = [] \<rparr>, ks_TargetNamespace = [],
       ks_CreateNamespace = False, ks_Decryption = None \<rparr> \<rparr>"

definition createRequest :: create_request where
  "createRequest = \<lparr> cq_RepositoryUrl = [], cq_HeadBranch = ''h'', cq_BaseBranch = [], cq_Title = [], cq_Description = [], cq_Name = ''t'',
     cq_Namespace = ''default'', cq_TemplateKind = GitOpsKind, cq_ParameterValues = Some [''CLUSTER_NAME'' \<mapsto> ''c''], cq_CommitMessage = [],
     cq_Credentials = None, cq_Values = [], cq_Kustomizations = [sampleKustomization ''new''],
     cq_PreviousValues = Some \<lparr> pq_ParameterValues = Some [''CLUSTER_NAME'' \<mapsto> ''c''], pq_Credentials = None, pq_Values = [],
       pq_Kustomizations = [sampleKustomization ''old''] \<rparr> \<rparr>"

lemma bare_params: "Params sorted_list_of_set \<lparr> tp_Template = bareTemplate, tp_Processor = NewEnvsubstTemplateProcessor docLib \<rparr> = Inr []"
proof -
  have d: "discoveredNames sorted_list_of_set \<lparr> tp_Template = bareTemplate, tp_Processor = NewEnvsubstTemplateProcessor docLib \<rparr> = Inr []"
    by (simp add: discoveredNames_def bareTemplate_def docTemplate_def clusterTemplate_def ProfileAnnotations_def dom_def sortedSet_def sortSlice_def)
  then show ?thesis
    unfolding Params_def d by (simp add: paramsMeta_eq bareTemplate_def sortSlice_def dom_def)
qed

lemma bare_processor: "NewProcessorForTemplate docLib bareTemplate = Inr \<lparr> tp_Template = bareTemplate, tp_Processor = NewEnvsubstTemplateProcessor docLib \<rparr>"
  by (simp add: NewProcessorForTemplate_def bareTemplate_def docTemplate_def clusterTemplate_def)

lemma bare_resources: "tm_ResourceTemplates bareTemplate = []"
  by (simp add: bareTemplate_def)

lemma bare_rendered:
  "RenderTemplates docLib sorted_list_of_set \<lparr> tp_Template = bareTemplate, tp_Processor = NewEnvsubstTemplateProcessor docLib \<rparr> opts
     (Some vals) = (Inr [], Some vals)"
  by (simp add: RenderTemplates_def bare_params bare_resources)

lemma bare_profiles: "GetProfilesFromTemplate docLib sorted_list_of_set bareTemplate = Inr []"
proof -
  have "dom (ProfileAnnotations bareTemplate) = {}"
    by (auto simp: ProfileAnnotations_def bareTemplate_def docTemplate_def clusterTemplate_def split: if_splits)
  then show ?thesis
    by (simp add: GetProfilesFromTemplate_def getProfilesFromAnnotations_def bareTemplate_def docTemplate_def sortSlice_def)
qed

definition sampleFile :: "string \<Rightarrow> commit_file" where
  "sampleFile name = \<lparr> cf_Path = joinPath [''clusters'', ''default'', ''c'', name @ ''-n-kustomization.yaml''], cf_Content = Some [] \<rparr>"

lemma sample_serverFiles:
  "\<exists>r. serverFiles (templates_server.truncate sampleServer) client bareTemplate (Some j)
     \<lparr> fr_TemplateName = tn, fr_ParameterValues = Some [''CLUSTER_NAME'' \<mapsto> ''c''], fr_Credentials = cr, fr_Profiles = [],
       fr_Kustomizations = [sampleKustomization name], fr_HelmRepository = None \<rparr> = (Inr r, Some [''CLUSTER_NAME'' \<mapsto> ''c'']) \<and>
     gr_RenderedTemplate r = [] \<and> gr_ProfileFiles r = [] \<and> gr_ExternalSecretsFiles r = [] \<and> gr_KustomizationFiles r = [sampleFile name]"
proof -
  have flags: "shouldInjectPruneAnnotation sampleConfig bareTemplate = False" "shouldAddSopsKustomization bareTemplate = False"
    "shouldAddCommonBases sampleConfig bareTemplate = False"
    by (simp_all add: shouldInjectPruneAnnotation_def shouldAddSopsKustomization_def shouldAddCommonBases_def isCAPITemplate_def bareTemplate_def
      docTemplate_def clusterTemplate_def CAPIKind_def GitOpsKind_def sampleConfig_def)
  have ns: "getClusterNamespace sampleConfig [] = ''default''" by (simp add: getClusterNamespace_def sampleConfig_def)
  have one: "kustomizationFile (docEnv\<lparr> re_config := sampleConfig \<rparr>) (createNamespacedName ''c'' ''default'') (sampleKustomization name) = Inr [sampleFile name]"
    by (simp add: kustomizationFile_def sampleKustomization_def generateKustomizationFile_def createKustomizationObject_def docEnv_def
      getClusterResourcePath_def resourceFileName_def createNamespacedName_def sampleFile_def sampleConfig_def Let_def)
  show ?thesis
    by (simp add: serverFiles_def sampleServer_def templates_server.defs GetFiles_def Let_def mread_def ns renderTemplateWithValues_def flags
      bare_processor bare_rendered filesOf_def annotateFirst_def getCostEstimate_def ConvertToUnstructured_def catchErr_def sopsFiles_def
      commonBasesFiles_def profileFiles_def TemplateHasRequiredProfiles_def bare_profiles kustomizationFiles_def clusterFor_def getCluster_def one)
qed


lemma sample_request_files:
  assumes "ts_client sampleServer = Inr client"
  shows "\<exists>prev. previousFiles sampleServer client bareTemplate (withDefaults createRequest) = Inr prev \<and>
      gr_RenderedTemplate prev = [] \<and> gr_ProfileFiles prev = [] \<and> gr_KustomizationFiles prev = [sampleFile ''old'']"
    and "\<exists>new. requestFiles sampleServer client bareTemplate ((withDefaults createRequest)\<lparr> cq_PreviousValues := None \<rparr>) =
        Inr (new, Some [''CLUSTER_NAME'' \<mapsto> ''c'']) \<and>
      gr_RenderedTemplate new = [] \<and> gr_ProfileFiles new = [] \<and> gr_KustomizationFiles new = [sampleFile ''new''] \<and> gr_ExternalSecretsFiles new = []"
proof -
  have kept: "map defaultNamespace [sampleKustomization name] = [sampleKustomization name]" for name
    by (simp add: defaultNamespace_def sampleKustomization_def)
  show "\<exists>prev. previousFiles sampleServer client bareTemplate (withDefaults createRequest) = Inr prev \<and>
      gr_RenderedTemplate prev = [] \<and> gr_ProfileFiles prev = [] \<and> gr_KustomizationFiles prev = [sampleFile ''old'']"
    using sample_serverFiles [of client "\<lambda>_. Inr ''{}''" "''t''" None "''old''"]
    by (auto simp: previousFiles_def createRequest_def sampleServer_def withDefaults_def applyCreateClusterDefaults_def)
  show "\<exists>new. requestFiles sampleServer client bareTemplate ((withDefaults createRequest)\<lparr> cq_PreviousValues := None \<rparr>) =
        Inr (new, Some [''CLUSTER_NAME'' \<mapsto> ''c'']) \<and>
      gr_RenderedTemplate new = [] \<and> gr_ProfileFiles new = [] \<and> gr_KustomizationFiles new = [sampleFile ''new''] \<and> gr_ExternalSecretsFiles new = []"
    using sample_serverFiles [of client "\<lambda>_. Inr ''{}''" "''t''" None "''new''"] kept
    by (auto simp: requestFiles_def createRequest_def sampleServer_def withDefaults_def applyCreateClusterDefaults_def bindR_Inr)
qed

lemma sample_template:
  "getTemplate (templates_server.truncate sampleServer) (cq_Name createRequest) (cq_Namespace createRequest)
     (defaultKind (cq_TemplateKind createRequest)) = Inr (Some bareTemplate)"
  by (simp add: getTemplate_def sampleServer_def templates_server.defs createRequest_def defaultKind_def GitOpsKind_def CAPIKind_def
    Let_def bareTemplate_def docTemplate_def clusterTemplate_def)

lemma sample_creation:
  "\<exists>h'. CreatePullRequest sampleServer createRequest [''main'' \<mapsto> t] = (Inr ''link'', h')"
proof -
  let ?s = "[''main'' \<mapsto> t] :: branches"
  let ?msg = "withDefaults createRequest"
  have gp: "getGitProvider sampleConfig (sv_repoEnv sampleServer) (sv_ProviderToken sampleServer) (cq_RepositoryUrl createRequest) = Inr sampleProvider"
    by (simp add: sampleServer_def sample_provider sampleProvider_def createRequest_def)
  have kept: "cq_Name ?msg = cq_Name createRequest" "cq_Namespace ?msg = cq_Namespace createRequest"
    "cq_TemplateKind ?msg = defaultKind (cq_TemplateKind createRequest)" "cq_Name ?msg = ''t''"
    "cq_Kustomizations ?msg = [sampleKustomization ''new'']" "cq_Values ?msg = []" "cq_ParameterValues ?msg = Some [''CLUSTER_NAME'' \<mapsto> ''c'']"
    by (simp_all add: withDefaults_def applyCreateClusterDefaults_def createRequest_def defaultNamespace_def sampleKustomization_def)
  have ok: "checked (validateCreateClusterPR (sv_validator sampleServer) ?msg) = Inr ()"
    unfolding validateCreateClusterPR_def kept(4-7)
    by (simp add: checked_def appendIf_def appendNamespace_def mread_def sampleServer_def validateKustomization_def validateNamespace_def sampleKustomization_def Let_def)
  obtain client where client: "ts_client sampleServer = Inr client" by (simp add: sampleServer_def)
  obtain prev where prev: "previousFiles sampleServer client bareTemplate ?msg = Inr prev" using sample_request_files(1) [OF client] by blast
  obtain new where new: "requestFiles sampleServer client bareTemplate (?msg\<lparr> cq_PreviousValues := None \<rparr>) = Inr (new, Some [''CLUSTER_NAME'' \<mapsto> ''c''])"
    using sample_request_files(2) [OF client] by blast
  have heads: "cq_HeadBranch ?msg = ''h''" "cq_BaseBranch ?msg = []" "orElse (cq_HeadBranch createRequest) x = ''h''"
    "cq_BaseBranch createRequest = []" for x by (simp_all add: createRequest_def orElse_def)
  let ?req = "writeRequest sampleServer sampleProvider (?msg\<lparr> cq_PreviousValues := None \<rparr>) (Some [''CLUSTER_NAME'' \<mapsto> ''c''])
    (filesToWrite new @ getDeletedFiles prev new)"
  have "wr_GitProvider ?req = sampleProvider" "wr_HeadBranch ?req = ''h''" "wr_BaseBranch ?req = ''main''"
    unfolding writeRequest_simps by (simp_all add: sample_config sample_base heads writeRequest_def Let_def)
  from sample_write [of ?s t, OF _ this]
  have wrote: "WriteFilesToBranchAndCreatePullRequest listNew ?req ?s = (Inr ''link'', ?s(''h'' \<mapsto> applyFiles t (wr_Files ?req)))" by simp
  have "CreatePullRequest sampleServer createRequest ?s = (Inr ''link'', ?s(''h'' \<mapsto> applyFiles t (wr_Files ?req)))"
    unfolding CreatePullRequest_def Let_def withDefaults_def [symmetric] sample_config gp ok kept(1-3) sample_template client newErr_simps
    by (simp add: action_simps gp prev new sample_repository wrote deref_def)
  then show ?thesis by blast
qed

theorem create_pull_request_files_witness:
  "\<exists>h' t. CreatePullRequest sampleServer createRequest [''main'' \<mapsto> sampleTree(cf_Path (sampleFile ''old'') \<mapsto> [])] = (Inr ''link'', h') \<and>
     h' ''h'' = Some t \<and> t (cf_Path (sampleFile ''new'')) = Some [] \<and> t (cf_Path (sampleFile ''old'')) = None \<and> t ''other'' = Some ''o''"
proof -
  let ?tree = "sampleTree(cf_Path (sampleFile ''old'') \<mapsto> [])"
  obtain h' where run: "CreatePullRequest sampleServer createRequest [''main'' \<mapsto> ?tree] = (Inr ''link'', h')"
    using sample_creation by blast
  have hosted: "hosted (sv_newClient sampleServer) sampleProvider listHost" by (simp add: sample_config sampleProvider_def listNew_hosted)
  have gp: "getGitProvider (re_config (ts_env sampleServer)) (sv_repoEnv sampleServer) (sv_ProviderToken sampleServer) (cq_RepositoryUrl createRequest) = Inr sampleProvider"
    by (simp add: sampleServer_def sample_provider sampleProvider_def createRequest_def)
  have set_up: "orElse (cq_HeadBranch createRequest) x = ''h''" "cq_BaseBranch createRequest = []" "hv_tree listHost b n = b n" for x b n
    by (simp_all add: createRequest_def orElse_def listHost_def treeHost_def)
  obtain client tm prev new vals t where client: "ts_client sampleServer = Inr client"
    and tm: "getTemplate (templates_server.truncate sampleServer) (cq_Name createRequest) (cq_Namespace createRequest)
       (defaultKind (cq_TemplateKind createRequest)) = Inr (Some tm)"
    and prev: "previousFiles sampleServer client tm (withDefaults createRequest) = Inr prev"
    and new: "requestFiles sampleServer client tm ((withDefaults createRequest)\<lparr> cq_PreviousValues := None \<rparr>) = Inr (new, vals)"
    and t: "[''main'' \<mapsto> ?tree] ''main'' = Some t"
    and head: "h' ''h'' = Some (\<lambda>p. if p \<in> dropped prev new then None else applyFiles t (filesToWrite new) p)"
    using create_pull_request_files [OF gp hosted run] unfolding set_up sample_config sample_base by (elim exE conjE) (rule that, assumption, assumption, assumption, assumption, assumption, hypsubst, assumption)
  have "tm = bareTemplate" using tm by (simp add: sample_template)
  with prev new sample_request_files [OF client] have fs: "filesToWrite new = [sampleFile ''new'']" "dropped prev new = {cf_Path (sampleFile ''old'')}"
    by (auto simp: filesToWrite_def dropped_def sampleFile_def joinPath_def cleanPath_def components_def isRooted_def pathStep_def)
  have "cf_Path (sampleFile ''new'') \<noteq> cf_Path (sampleFile ''old'')" "cf_Path (sampleFile ''old'') \<noteq> ''other''" "cf_Path (sampleFile ''new'') \<noteq> ''other''"
    by (simp_all add: sampleFile_def joinPath_def cleanPath_def components_def isRooted_def pathStep_def)
  with t show ?thesis by - (intro exI conjI, rule run, rule head, auto simp: fs applyFiles_def sampleFile_def sampleTree_def)
qed

theorem kustomizations_need_source_witness:
  "ku_Metadata (sampleKustomization ''new'') \<noteq> None \<and> hasSource (sampleKustomization ''new'')"
proof -
  obtain h' where run: "CreatePullRequest sampleServer createRequest [''main'' \<mapsto> sampleTree] = (Inr ''link'', h')"
    using sample_creation by blast
  show ?thesis by (rule kustomizations_need_source [OF run]) (simp add: createRequest_def)
qed

end
