(* ===== verification/AutomationFiles.thy ===== *)
theory AutomationFiles
  imports ProfileFiles
begin

text \<open>
  The resources of an automation in cmd/clusters-service/pkg/server/automations.go: Helm
  releases, external secrets, policy configs and SOPS secrets, with their validation and
  the file of each. The YAML and JSON codecs and time.ParseDuration are parameters, and so
  is fmt.Sprintf for a format that has more than the one verb.
\<close>

section \<open>Requests\<close>

record chart_spec =
  ct_Chart :: string
  ct_SourceRef :: "source_ref option"
  ct_Version :: string

text \<open>A chart is given by its specification, which may be nil.\<close>

record release_spec =
  rs_Chart :: "chart_spec option option"
  rs_Values :: string

record release =
  rl_Metadata :: "metadata option"
  rl_Spec :: "release_spec option"

record remote_ref =
  rr_Key :: string
  rr_Property :: string

record secret_data =
  sd_SecretKey :: string
  sd_RemoteRef :: "remote_ref option"

record secret_store_ref =
  so_Name :: string
  so_Kind :: string

text \<open>The target is given by its name, and dataFrom by the key of its extract, which may be nil.\<close>

record external_secret_spec =
  xs_RefreshInterval :: string
  xs_SecretStoreRef :: "secret_store_ref option"
  xs_Target :: "string option"
  xs_Data :: "secret_data list option"
  xs_DataFrom :: "string option option"

record external_secret =
  es_Metadata :: "metadata option"
  es_Spec :: "external_secret_spec option"

record policy_target =
  pt_Name :: string
  pt_Kind :: string
  pt_Namespace :: string

record policy_match =
  pm_Namespaces :: "string list"
  pm_Workspaces :: "string list"
  pm_Apps :: "policy_target list"
  pm_Resources :: "policy_target list"

record 'j policy_config_spec =
  po_Match :: "policy_match option"
  po_Config :: "string \<rightharpoonup> (string \<rightharpoonup> 'j)"

record 'j policy_config =
  po_Metadata :: "metadata option"
  po_Spec :: "'j policy_config_spec option"

record 'j sops_secret =
  ss_ApiVersion :: string
  ss_Kind :: string
  ss_Metadata :: "(string \<times> string \<times> (string \<rightharpoonup> string)) option"
  ss_Data :: "(string \<rightharpoonup> string) option"
  ss_StringData :: "(string \<rightharpoonup> string) option"
  ss_Type :: string
  ss_Immutable :: bool
  ss_Sops :: "'j option"

section \<open>Objects\<close>

text \<open>helmv2.HelmRelease, with the interval in minutes.\<close>

record release_object =
  ho_Name :: string
  ho_Namespace :: string
  ho_TargetNamespace :: string
  ho_Chart :: string
  ho_SourceName :: string
  ho_SourceNamespace :: string
  ho_Version :: string
  ho_Interval :: nat
  ho_Values :: string

text \<open>esv1beta1.ExternalSecret, with the interval in nanoseconds.\<close>

record secret_object =
  eo_Name :: string
  eo_Namespace :: string
  eo_SecretStore :: secret_store_ref
  eo_RefreshInterval :: int
  eo_Target :: string
  eo_CreationPolicy :: string
  eo_Data :: "(string \<times> remote_ref) list"
  eo_DataFrom :: "string list"

text \<open>pacv2beta2.PolicyConfig.\<close>

record policy_config_object =
  pj_Name :: string
  pj_Workspaces :: "string list"
  pj_Namespaces :: "string list"
  pj_Applications :: "policy_target list"
  pj_Resources :: "policy_target list"
  pj_Config :: "string \<rightharpoonup> (string \<rightharpoonup> string)"

record ('v, 'j) automation_codec =
  ac_yaml :: marshaller
  ac_ParseYAML :: "string \<Rightarrow> 'v res"
  ac_MarshalJSON :: "'v \<Rightarrow> string res"
  ac_MarshalRelease :: "release_object \<Rightarrow> string res"
  ac_MarshalSecret :: "secret_object \<Rightarrow> string res"
  ac_MarshalPolicyConfig :: "policy_config_object \<Rightarrow> string res"
  ac_MarshalSops :: "'j sops_secret \<Rightarrow> string res"
  ac_MarshalValue :: "'j \<Rightarrow> string res"
  ac_ParseDuration :: "string \<Rightarrow> int res"
  ac_Sprintf :: "string \<Rightarrow> string \<Rightarrow> string"

section \<open>Helm releases\<close>

definition releaseValues :: "('v, 'j) automation_codec \<Rightarrow> string \<Rightarrow> string res" where
  "releaseValues X v =
     (if v \<noteq> [] then
        bindR (wrapR ''failed to yaml-unmarshal values: %w'' []
          (wrapR ''failed to parse values from JSON: %w'' [] (ac_ParseYAML X v))) (\<lambda>valuesData.
          wrapR ''failed to json-marshal values: %w'' [] (ac_MarshalJSON X valuesData))
      else Inr [])"

definition createHelmReleaseObject :: "('v, 'j) automation_codec \<Rightarrow> release \<Rightarrow> release_object res" where
  "createHelmReleaseObject X hr =
     bindR (deref (rl_Spec hr)) (\<lambda>spec.
     bindR (releaseValues X (rs_Values spec)) (\<lambda>jsonValues.
     bindR (deref (rl_Metadata hr)) (\<lambda>md.
     bindR (deref (rs_Chart spec)) (\<lambda>chart.
     bindR (deref chart) (\<lambda>chart.
     bindR (deref (ct_SourceRef chart)) (\<lambda>source.
       Inr \<lparr> ho_Name = md_Name md, ho_Namespace = HelmReleaseNamespace, ho_TargetNamespace = md_Namespace md,
         ho_Chart = ct_Chart chart, ho_SourceName = sr_Name source, ho_SourceNamespace = sr_Namespace source,
         ho_Version = ct_Version chart, ho_Interval = 10, ho_Values = jsonValues \<rparr>))))))"

text \<open>The name and the namespace in the metadata, read through the pointer.\<close>

definition nameOf :: "metadata option \<Rightarrow> nsname res" where
  "nameOf m = bindR (deref m) (\<lambda>md. Inr (createNamespacedName (md_Name md) (md_Namespace md)))"

text \<open>An object that could not be made is reported under the name in the metadata.\<close>

definition objectErr :: "string \<Rightarrow> metadata option \<Rightarrow> 'a res \<Rightarrow> 'a res" where
  "objectErr msg m r =
     (case r of Inr x \<Rightarrow> Inr x
      | Inl e \<Rightarrow> if isPanic e then Inl e
          else bindR (nameOf m) (\<lambda>n. Inl (wrap msg [nn_Namespace n, nn_Name n] e)))"

definition resourceFile :: "config \<Rightarrow> bool \<Rightarrow> string \<Rightarrow> nsname \<Rightarrow> nsname \<Rightarrow> string \<Rightarrow> string \<Rightarrow> commit_file" where
  "resourceFile cfg isControlPlane kind cluster name filePath content =
     \<lparr> cf_Path = (if filePath \<noteq> [] then filePath else getClusterResourcePath cfg isControlPlane kind cluster name), cf_Content = Some content \<rparr>"

definition generateHelmReleaseFile :: "config \<Rightarrow> ('v, 'j) automation_codec \<Rightarrow> bool \<Rightarrow> nsname \<Rightarrow> release \<Rightarrow> string \<Rightarrow> commit_file res" where
  "generateHelmReleaseFile cfg X isControlPlane cluster hr filePath =
     bindR (objectErr ''failed to create Helm Release object: %s/%s: %w'' (rl_Metadata hr) (createHelmReleaseObject X hr)) (\<lambda>obj.
     bindR (nameOf (rl_Metadata hr)) (\<lambda>name.
     bindR (wrapR ''error marshalling %s helmrelease, %w'' [nn_Name name] (ac_MarshalRelease X obj)) (\<lambda>b.
       Inr (resourceFile cfg isControlPlane ''helmrelease'' cluster name filePath b))))"

definition validateHelmRelease :: "validator \<Rightarrow> release \<Rightarrow> goerror option res" where
  "validateHelmRelease V hr =
     (let acc = (case rl_Metadata hr of
            None \<Rightarrow> vl_Append V None (Some (err ''helmrelease metadata must be specified''))
          | Some md \<Rightarrow> appendNamespace V (md_Namespace md) (appendIf V (md_Name md = []) (err ''helmrelease name must be specified'') None));
          named = (\<lambda>b msg args acc. if b then bindR (deref (rl_Metadata hr)) (\<lambda>md. Inr (vl_Append V acc (Some (Errf msg (args @ [md_Name md]))))) else Inr acc)
      in bindR (deref (rl_Spec hr)) (\<lambda>spec.
         case rs_Chart spec of
           None \<Rightarrow> named True ''chart must be specified in HelmRelease %s'' [] acc
         | Some chart \<Rightarrow>
             bindR (deref chart) (\<lambda>chart.
             bindR (named (ct_Chart chart = []) ''chart name must be specified in HelmRelease %s'' [] acc) (\<lambda>acc.
             case ct_SourceRef chart of
               None \<Rightarrow> Inr acc
             | Some source \<Rightarrow>
                 bindR (named (sr_Name source = []) ''sourceRef name must be specified in chart %s in HelmRelease %s'' [ct_Chart chart] acc) (\<lambda>acc.
                 Inr (appendNamespace V (sr_Namespace source) acc))))))"

section \<open>External secrets\<close>

definition secretData :: "secret_data \<Rightarrow> (string \<times> remote_ref) res" where
  "secretData d =
     bindR (if sd_SecretKey d \<noteq> [] then Inr (sd_SecretKey d) else bindR (deref (sd_RemoteRef d)) (\<lambda>r. Inr (rr_Property r))) (\<lambda>key.
     bindR (deref (sd_RemoteRef d)) (\<lambda>r. Inr (key, r)))"

definition createExternalSecretObject :: "('v, 'j) automation_codec \<Rightarrow> external_secret \<Rightarrow> secret_object res" where
  "createExternalSecretObject X es =
     bindR (deref (es_Spec es)) (\<lambda>spec.
     bindR (ac_ParseDuration X (xs_RefreshInterval spec)) (\<lambda>refreshInterval.
     bindR (deref (es_Metadata es)) (\<lambda>md.
     bindR (deref (xs_SecretStoreRef spec)) (\<lambda>store.
     bindR (deref (xs_Target spec)) (\<lambda>target.
     bindR (case xs_DataFrom spec of
         Some (Some (k # key)) \<Rightarrow> Inr ([], [k # key])
       | _ \<Rightarrow> bindR (mapRes secretData (case xs_Data spec of None \<Rightarrow> [] | Some ds \<Rightarrow> ds)) (\<lambda>ds. Inr (ds, []))) (\<lambda>(ds, dataFrom).
       Inr \<lparr> eo_Name = md_Name md, eo_Namespace = md_Namespace md, eo_SecretStore = store, eo_RefreshInterval = refreshInterval,
         eo_Target = target, eo_CreationPolicy = ''Owner'', eo_Data = ds, eo_DataFrom = dataFrom \<rparr>))))))"

definition generateExternalSecretFile :: "config \<Rightarrow> ('v, 'j) automation_codec \<Rightarrow> bool \<Rightarrow> nsname \<Rightarrow> external_secret \<Rightarrow> string \<Rightarrow> commit_file res" where
  "generateExternalSecretFile cfg X isControlPlane cluster es filePath =
     bindR (objectErr ''failed to create External Secret object: %s/%s: %w'' (es_Metadata es) (createExternalSecretObject X es)) (\<lambda>obj.
     bindR (nameOf (es_Metadata es)) (\<lambda>name.
     bindR (wrapR ''error marshalling %s external secret, %w'' [nn_Name name] (ac_MarshalSecret X obj)) (\<lambda>b.
       Inr (resourceFile cfg isControlPlane ''externalsecret'' cluster name filePath b))))"

fun validateRemoteRefs :: "validator \<Rightarrow> string \<Rightarrow> secret_data list \<Rightarrow> goerror option \<Rightarrow> goerror option res" where
  "validateRemoteRefs V name [] acc = Inr acc"
| "validateRemoteRefs V name (d # ds) acc =
     bindR (deref (sd_RemoteRef d)) (\<lambda>r.
       validateRemoteRefs V name ds
         (appendIf V (rr_Property r = []) (Errf ''remoteRef property kind must be specified in ExternalSecret %s'' [name])
           (appendIf V (rr_Key r = []) (Errf ''remoteRef key kind must be specified in ExternalSecret %s'' [name]) acc)))"

definition validateExternalSecretSpec :: "validator \<Rightarrow> string \<Rightarrow> external_secret_spec \<Rightarrow> goerror option \<Rightarrow> goerror option res" where
  "validateExternalSecretSpec V name spec acc =
     (let say = (\<lambda>b msg acc. appendIf V b (Errf msg [name]) acc);
          acc = (case xs_SecretStoreRef spec of
            None \<Rightarrow> say True ''external secret secretStoreRef must be specified in ExternalSecret %s'' acc
          | Some store \<Rightarrow> say (so_Kind store = []) ''secretStoreRef kind must be specified in ExternalSecret %s''
              (say (so_Name store = []) ''secretStoreRef name must be specified in ExternalSecret %s'' acc));
          acc = (case xs_Target spec of
            None \<Rightarrow> say True ''external secret target must be specified in ExternalSecret %s'' acc
          | Some target \<Rightarrow> say (target = []) ''target name must be specified in ExternalSecret %s'' acc)
      in case (xs_Data spec, xs_DataFrom spec) of
           (None, None) \<Rightarrow> Inr (say True ''external secret data or dataFrom must be specified in ExternalSecret %s'' acc)
         | (Some ds, None) \<Rightarrow> validateRemoteRefs V name ds acc
         | (None, Some extract) \<Rightarrow>
             bindR (deref extract) (\<lambda>key. Inr (say (key = []) ''extract key must be specified in dataFrom in ExternalSecret %s'' acc))
         | (Some ds, Some extract) \<Rightarrow> Inr acc)"

definition validateExternalSecret :: "validator \<Rightarrow> external_secret \<Rightarrow> goerror option res" where
  "validateExternalSecret V es =
     (case es_Metadata es of
        None \<Rightarrow> Inr (vl_Append V None (Some (err ''external secret metadata must be specified'')))
      | Some md \<Rightarrow>
          if md_Name md = [] then Inr (vl_Append V None (Some (err ''external secret name must be specified'')))
          else (let acc = (if md_Namespace md = []
              then vl_Append V None (Some (Errf ''external secret namespace must be specified in ExternalSecret %s'' [md_Name md]))
              else appendNamespace V (md_Namespace md) None)
            in bindR (deref (es_Spec es)) (\<lambda>spec. validateExternalSecretSpec V (md_Name md) spec acc)))"

section \<open>Policy configs\<close>

definition configParameters :: "('v, 'j) automation_codec \<Rightarrow> visit \<Rightarrow> (string \<rightharpoonup> 'j) \<Rightarrow> (string \<rightharpoonup> string) res" where
  "configParameters X visit ps =
     bindR (mapRes (\<lambda>k. bindR (ac_MarshalValue X (the (ps k))) (\<lambda>b. Inr (k, b))) (visit (dom ps))) (\<lambda>kvs. Inr (map_of kvs))"

definition createPolicyConfigObject :: "('v, 'j) automation_codec \<Rightarrow> visit \<Rightarrow> 'j policy_config \<Rightarrow> policy_config_object res" where
  "createPolicyConfigObject X visit c =
     bindR (deref (po_Metadata c)) (\<lambda>md.
     bindR (deref (po_Spec c)) (\<lambda>spec.
     bindR (deref (po_Match spec)) (\<lambda>mt.
     bindR (mapRes (\<lambda>k. bindR (configParameters X visit (the (po_Config spec k))) (\<lambda>ps. Inr (k, ps))) (visit (dom (po_Config spec)))) (\<lambda>cs.
       Inr \<lparr> pj_Name = md_Name md, pj_Workspaces = pm_Workspaces mt, pj_Namespaces = pm_Namespaces mt,
         pj_Applications = pm_Apps mt, pj_Resources = pm_Resources mt, pj_Config = map_of cs \<rparr>))))"

definition generatePolicyConfigFile :: "config \<Rightarrow> ('v, 'j) automation_codec \<Rightarrow> visit \<Rightarrow> bool \<Rightarrow> nsname \<Rightarrow> 'j policy_config \<Rightarrow> string \<Rightarrow> commit_file res" where
  "generatePolicyConfigFile cfg X visit isControlPlane cluster c filePath =
     bindR (objectErr ''failed to create Policy Config object: %s/%s: %w'' (po_Metadata c) (createPolicyConfigObject X visit c)) (\<lambda>obj.
     bindR (nameOf (po_Metadata c)) (\<lambda>name.
     bindR (wrapR ''error marshalling %s Policy Config, %w'' [nn_Name name] (ac_MarshalPolicyConfig X obj)) (\<lambda>b.
       Inr (resourceFile cfg isControlPlane ''policy-config'' cluster name filePath b))))"

definition validateTargets :: "validator \<Rightarrow> string \<Rightarrow> policy_target list \<Rightarrow> goerror option \<Rightarrow> goerror option" where
  "validateTargets V what ts acc =
     foldl (\<lambda>acc t. appendIf V (pt_Name t = []) (err (''invalid matches, '' @ what @ '' name is required''))
       (appendIf V (pt_Kind t = []) (err (''invalid matches, '' @ what @ '' kind is required'')) acc)) acc ts"

text \<open>
  The target that a config has so far is empty until one of its lists is not. A second one
  ends the validation with an error.
\<close>

definition addTarget :: "validator \<Rightarrow> string \<Rightarrow> bool \<Rightarrow> (goerror option \<Rightarrow> goerror option) \<Rightarrow>
    goerror option + (string \<times> goerror option) \<Rightarrow> goerror option + (string \<times> goerror option)" where
  "addTarget V name present check st =
     (case st of
        Inl e \<Rightarrow> Inl e
      | Inr (target, acc) \<Rightarrow>
          if \<not> present then Inr (target, acc)
          else if target \<noteq> []
          then Inl (vl_Append V acc (Some (Errf (''cannot target %s and '' @ name @ '' in same policy config'') [target])))
          else Inr (name, check acc))"

definition policyTargets :: "validator \<Rightarrow> policy_match \<Rightarrow> goerror option + (string \<times> goerror option)" where
  "policyTargets V mt =
     addTarget V ''resources'' (pm_Resources mt \<noteq> []) (validateTargets V ''resource'' (pm_Resources mt))
       (addTarget V ''apps'' (pm_Apps mt \<noteq> []) (validateTargets V ''application'' (pm_Apps mt))
         (addTarget V ''namespaces'' (pm_Namespaces mt \<noteq> []) id
           (addTarget V ''workspaces'' (pm_Workspaces mt \<noteq> []) id (Inr ([], None)))))"

definition validatePolicyConfig :: "validator \<Rightarrow> visit \<Rightarrow> 'j policy_config \<Rightarrow> goerror option" where
  "validatePolicyConfig V visit c =
     (let fail = (\<lambda>msg. vl_Append V None (Some (err msg))) in
      case po_Metadata c of
        None \<Rightarrow> fail ''policy config metadata must be specified''
      | Some md \<Rightarrow>
      if md_Name md = [] then fail ''policy config name must be specified'' else
      case po_Spec c of
        None \<Rightarrow> fail ''policy config spec must be specified''
      | Some spec \<Rightarrow>
      case po_Match spec of
        None \<Rightarrow> fail ''policy config matches must be specified''
      | Some mt \<Rightarrow>
      if dom (po_Config spec) = {} then fail ''policy config configuration must be specified'' else
      case policyTargets V mt of
        Inl e \<Rightarrow> e
      | Inr (target, acc) \<Rightarrow>
          if target = [] then vl_Append V acc (Some (err ''policy config must target workspaces, namespaces, applications or resources''))
          else foldl (\<lambda>acc k. appendIf V (dom (the (po_Config spec k)) = {})
              (Errf ''policy %s configuration must have at least one parameter'' [k]) acc) acc (visit (dom (po_Config spec))))"

section \<open>SOPS secrets\<close>

text \<open>filepath.Rel with the base dot.\<close>

definition relPath :: "string \<Rightarrow> string res" where
  "relPath p = (if isRooted (cleanPath p) then Inl (err (''Rel: can't make '' @ p @ '' relative to .'')) else Inr (cleanPath p))"

text \<open>fmt.Sprintf with one string; the verb s at the front is the only one in the format of a resource without a percent sign in its name.\<close>

definition sprintf1 :: "(string \<Rightarrow> string \<Rightarrow> string) \<Rightarrow> string \<Rightarrow> string \<Rightarrow> string" where
  "sprintf1 sprintf format arg =
     (if prefix ''%s'' format \<and> CHR ''%'' \<notin> set (drop 2 format) then arg @ drop 2 format else sprintf format arg)"

definition generateSopsSecret :: "config \<Rightarrow> ('v, 'j) automation_codec \<Rightarrow> bool \<Rightarrow> nsname \<Rightarrow> 'j sops_secret \<Rightarrow> string \<Rightarrow> commit_file res" where
  "generateSopsSecret cfg X isControlPlane cluster secret filePath =
     bindR (deref (ss_Metadata secret)) (\<lambda>(name, namespace, labels).
     let path = getClusterResourcePath cfg isControlPlane ''sops-secret'' cluster (createNamespacedName name namespace) in
     bindR (relPath filePath) (\<lambda>realPath.
     bindR (ac_MarshalSops X secret) (\<lambda>raw.
       Inr \<lparr> cf_Path = sprintf1 (ac_Sprintf X) path realPath, cf_Content = Some raw \<rparr>)))"

definition validateSopsSecret :: "validator \<Rightarrow> 'j sops_secret \<Rightarrow> goerror option res" where
  "validateSopsSecret V secret =
     (let acc = appendIf V (ss_ApiVersion secret = []) (err ''missing apiVersion field'') None;
          acc = appendIf V (ss_Kind secret = []) (err ''missing kind field'') acc in
      bindR (deref (ss_Metadata secret)) (\<lambda>(name, namespace, labels).
        let acc = appendIf V (name = []) (err ''missing secret name'') acc;
            acc = appendIf V (namespace = []) (err ''missing secret namespace'') acc;
            acc = appendIf V (ss_Data secret = None \<and> ss_StringData secret = None)
              (err ''key/value pairs must be set in either data or stringData'') acc
        in Inr (appendIf V (ss_Data secret \<noteq> None \<and> ss_StringData secret \<noteq> None)
             (err ''expected only one of data or stringData fields, but found both'') acc)))"

end
