(* ===== verification/Automations.thy ===== *)
theory Automations
  imports AutomationFiles PullRequests
begin

text \<open>
  The handlers of cmd/clusters-service/pkg/server/automations.go: the files of a list of
  automations, rendered for a preview or written to a pull request. Every resource that an
  automation holds gets a file, but only the first of them is validated.
\<close>

record 'j automation =
  au_Cluster :: "nsname option"
  au_IsControlPlane :: bool
  au_Kustomization :: "kustomization option"
  au_HelmRelease :: "release option"
  au_FilePath :: string
  au_ExternalSecret :: "external_secret option"
  au_PolicyConfig :: "'j policy_config option"
  au_SopsSecret :: "'j sops_secret option"

record 'j automations_request =
  aq_RepositoryUrl :: string
  aq_HeadBranch :: string
  aq_BaseBranch :: string
  aq_Title :: string
  aq_Description :: string
  aq_CommitMessage :: string
  aq_ClusterAutomations :: "'j automation list"

text \<open>The files of GetAutomations, each with its path and its content.\<close>

record GetAutomations =
  at_KustomizationFiles :: "commit_file list"
  at_HelmReleaseFiles :: "commit_file list"
  at_Clusters :: "string list"
  at_ExternalSecretsFiles :: "commit_file list"
  at_PolicyConfigsFiles :: "commit_file list"
  at_SopsSecretsFiles :: "commit_file list"

record ('v, 'j) automation_env =
  ae_config :: config
  ae_visit :: visit
  ae_validator :: validator
  ae_codec :: "('v, 'j) automation_codec"

section \<open>Defaults and validation\<close>

definition createClusterAutomationsRequiredErr :: string where
  "createClusterAutomationsRequiredErr = ''at least one cluster automation must be specified''"

definition releaseNamespace :: "release \<Rightarrow> release" where
  "releaseNamespace hr =
     (case rl_Metadata hr of
        Some md \<Rightarrow> if md_Namespace md = [] then hr\<lparr> rl_Metadata := Some (md\<lparr> md_Namespace := defaultAutomationNamespace \<rparr>) \<rparr> else hr
      | None \<Rightarrow> hr)"

definition applyCreateAutomationDefaults :: "'j automation list \<Rightarrow> 'j automation list" where
  "applyCreateAutomationDefaults msg =
     map (\<lambda>c. c\<lparr> au_HelmRelease := map_option releaseNamespace (au_HelmRelease c),
       au_Kustomization := map_option defaultNamespace (au_Kustomization c) \<rparr>) msg"

text \<open>The one resource of an automation that is validated.\<close>

definition validateResource :: "('v, 'j) automation_env \<Rightarrow> 'j automation \<Rightarrow> goerror option res" where
  "validateResource E c =
     (let V = ae_validator E in
      case au_Kustomization c of Some k \<Rightarrow> validateKustomization V k | None \<Rightarrow>
      (case au_HelmRelease c of Some hr \<Rightarrow> validateHelmRelease V hr | None \<Rightarrow>
      (case au_ExternalSecret c of Some es \<Rightarrow> validateExternalSecret V es | None \<Rightarrow>
      (case au_PolicyConfig c of Some p \<Rightarrow> Inr (validatePolicyConfig V (ae_visit E) p) | None \<Rightarrow>
      (case au_SopsSecret c of Some s \<Rightarrow> validateSopsSecret V s | None \<Rightarrow>
        Inr (Some (err ''cluster automation must contain either kustomization or helm release or external secret'')))))))"

definition validateCluster :: "validator \<Rightarrow> nsname option \<Rightarrow> goerror option \<Rightarrow> goerror option" where
  "validateCluster V cluster acc =
     (case cluster of
        None \<Rightarrow> vl_Append V acc (Some (err ''cluster object must be specified''))
      | Some c \<Rightarrow> appendNamespace V (nn_Namespace c) (appendIf V (nn_Name c = []) (err ''cluster name must be specified'') acc))"

fun validateEach :: "('v, 'j) automation_env \<Rightarrow> 'j automation list \<Rightarrow> goerror option \<Rightarrow> goerror option res" where
  "validateEach E [] acc = Inr acc"
| "validateEach E (c # cs) acc =
     bindR (validateResource E c) (\<lambda>e.
       validateEach E cs (vl_Append (ae_validator E) (validateCluster (ae_validator E) (au_Cluster c) acc) e))"

definition validateAutomations :: "('v, 'j) automation_env \<Rightarrow> 'j automation list \<Rightarrow> goerror option res" where
  "validateAutomations E ca =
     validateEach E ca (appendIf (ae_validator E) (length ca = 0) (err createClusterAutomationsRequiredErr) None)"

section \<open>The files\<close>

definition optional :: "('a \<Rightarrow> 'b list res) \<Rightarrow> 'a option \<Rightarrow> 'b list res" where
  "optional f x = (case x of None \<Rightarrow> Inr [] | Some y \<Rightarrow> f y)"

definition one :: "'a res \<Rightarrow> 'a list res" where
  "one r = bindR r (\<lambda>x. Inr [x])"

text \<open>The namespace and the kustomization both go to the path of the automation when it has one.\<close>

definition kustomizationPart :: "('v, 'j) automation_env \<Rightarrow> nsname \<Rightarrow> 'j automation \<Rightarrow> kustomization \<Rightarrow> commit_file list res" where
  "kustomizationPart E cluster c k =
     (let cfg = ae_config E; Y = ac_yaml (ae_codec E) in
      bindR (deref (ku_Spec k)) (\<lambda>spec.
      bindR (if ks_CreateNamespace spec
          then one (generateNamespaceFile cfg Y (au_IsControlPlane c) cluster (ks_TargetNamespace spec) (au_FilePath c))
          else Inr []) (\<lambda>namespaces.
      bindR (generateKustomizationFile cfg Y (au_IsControlPlane c) cluster k (au_FilePath c)) (\<lambda>f.
        Inr (namespaces @ [f])))))"

definition automationFiles :: "('v, 'j) automation_env \<Rightarrow> 'j automation \<Rightarrow> GetAutomations res" where
  "automationFiles E c =
     (let cfg = ae_config E; X = ae_codec E; cp = au_IsControlPlane c; path = au_FilePath c in
      bindR (deref (au_Cluster c)) (\<lambda>cluster.
      bindR (optional (kustomizationPart E cluster c) (au_Kustomization c)) (\<lambda>ks.
      bindR (optional (\<lambda>hr. one (generateHelmReleaseFile cfg X cp cluster hr path)) (au_HelmRelease c)) (\<lambda>hrs.
      bindR (optional (\<lambda>es. one (generateExternalSecretFile cfg X cp cluster es path)) (au_ExternalSecret c)) (\<lambda>ess.
      bindR (optional (\<lambda>p. one (generatePolicyConfigFile cfg X (ae_visit E) cp cluster p path)) (au_PolicyConfig c)) (\<lambda>ps.
      bindR (optional (\<lambda>s. one (generateSopsSecret cfg X cp cluster s path)) (au_SopsSecret c)) (\<lambda>ss.
        Inr \<lparr> at_KustomizationFiles = ks, at_HelmReleaseFiles = hrs, at_Clusters = [nn_Name cluster],
          at_ExternalSecretsFiles = ess, at_PolicyConfigsFiles = ps, at_SopsSecretsFiles = ss \<rparr>)))))))"

definition joinAutomations :: "GetAutomations list \<Rightarrow> GetAutomations" where
  "joinAutomations gs =
     \<lparr> at_KustomizationFiles = concat (map at_KustomizationFiles gs), at_HelmReleaseFiles = concat (map at_HelmReleaseFiles gs),
       at_Clusters = concat (map at_Clusters gs), at_ExternalSecretsFiles = concat (map at_ExternalSecretsFiles gs),
       at_PolicyConfigsFiles = concat (map at_PolicyConfigsFiles gs), at_SopsSecretsFiles = concat (map at_SopsSecretsFiles gs) \<rparr>"

definition getAutomations :: "('v, 'j) automation_env \<Rightarrow> 'j automation list \<Rightarrow> GetAutomations res" where
  "getAutomations E ca =
     (let ca = applyCreateAutomationDefaults ca in
      bindR (checked (validateAutomations E ca)) (\<lambda>_.
      bindR (mapRes (automationFiles E) ca) (\<lambda>gs. Inr (joinAutomations gs))))"

text \<open>The files of a commit: each category in the order of the automations.\<close>

definition automationCommit :: "GetAutomations \<Rightarrow> commit_file list" where
  "automationCommit a =
     at_KustomizationFiles a @ at_HelmReleaseFiles a @ at_ExternalSecretsFiles a @ at_PolicyConfigsFiles a @ at_SopsSecretsFiles a"

section \<open>The handlers\<close>

record ('v, 'j, 's) automations_server =
  az_client :: "unit res"
  az_env :: "('v, 'j) automation_env"
  az_md5hex :: "string \<Rightarrow> string"
  az_newClient :: "'s new_client"
  az_repoEnv :: repo_env
  az_ProviderToken :: "string res"

record RenderAutomationResponse =
  ra_KustomizationFiles :: "commit_file list"
  ra_HelmReleaseFiles :: "commit_file list"
  ra_ExternalSecretsFiles :: "commit_file list"
  ra_PolicyConfigFiles :: "commit_file list"
  ra_SopsSecertFiles :: "commit_file list"

definition RenderAutomation :: "('v, 'j, 's) automations_server \<Rightarrow> 'j automation list \<Rightarrow> RenderAutomationResponse res" where
  "RenderAutomation s ca =
     bindR (az_client s) (\<lambda>_.
     bindR (getAutomations (az_env s) ca) (\<lambda>a.
       Inr \<lparr> ra_KustomizationFiles = at_KustomizationFiles a, ra_HelmReleaseFiles = at_HelmReleaseFiles a,
         ra_ExternalSecretsFiles = at_ExternalSecretsFiles a, ra_PolicyConfigFiles = at_PolicyConfigsFiles a,
         ra_SopsSecertFiles = at_SopsSecretsFiles a \<rparr>))"

definition automationsRequest :: "('v, 'j, 's) automations_server \<Rightarrow> 'j automations_request \<Rightarrow> GetAutomations \<Rightarrow> GitProvider \<Rightarrow> write_request" where
  "automationsRequest s msg a gp =
     (let cfg = ae_config (az_env s) in
      \<lparr> wr_GitProvider = gp,
        wr_RepositoryURL = orElse (aq_RepositoryUrl msg) (cfg ''capi-templates-repository-url''),
        wr_HeadBranch = orElse (aq_HeadBranch msg)
          (getHash (az_md5hex s) [aq_RepositoryUrl msg, joinStr [] (at_Clusters a), aq_BaseBranch msg]),
        wr_BaseBranch = orElse (aq_BaseBranch msg) (cfg ''capi-templates-repository-base-branch''),
        wr_Title = orElse (aq_Title msg) ''Gitops add cluster workloads'',
        wr_Description = orElse (aq_Description msg) ''Pull request to create cluster workloads'',
        wr_CommitMessage = orElse (aq_CommitMessage msg) ''Add Kustomization Manifests'',
        wr_Files = automationCommit a \<rparr>)"

definition CreateAutomationsPullRequest :: "('v, 'j, 's) automations_server \<Rightarrow> 'j automations_request \<Rightarrow> ('s, string) action" where
  "CreateAutomationsPullRequest s msg =
     bindA (liftR (az_client s)) (\<lambda>_.
     bindA (liftR (getAutomations (az_env s) (aq_ClusterAutomations msg))) (\<lambda>a.
     bindA (liftR (newErr (StatusErr ''Unauthenticated'' ''error creating pull request: %s'')
       (getGitProvider (ae_config (az_env s)) (az_repoEnv s) (az_ProviderToken s) (aq_RepositoryUrl msg)))) (\<lambda>gp.
     let req = automationsRequest s msg a gp in
     bindA (newErrA (StatusErr ''Unauthenticated'' ''failed to access repo %s: %s'')
       (service_GetRepository (az_newClient s) gp (wr_RepositoryURL req))) (\<lambda>_.
       wrapA ''unable to create pull request: %w'' [] (WriteFilesToBranchAndCreatePullRequest (az_newClient s) req)))))"

end
