(* ===== verification/AutomationFacts.thy ===== *)
theory AutomationFacts
  imports Automations PullRequestFacts
begin

text \<open>
  What the automations of a request leave in the repository, and what their validation
  lets through.
\<close>

section \<open>The files of the automations\<close>

lemma optional_Inr:
  "optional f x = Inr ys \<longleftrightarrow> (case x of None \<Rightarrow> ys = [] | Some y \<Rightarrow> f y = Inr ys)"
  by (auto simp: optional_def split: option.splits)

lemma one_Inr: "one r = Inr ys \<longleftrightarrow> (\<exists>y. r = Inr y \<and> ys = [y])"
  by (auto simp: one_def bindR_Inr)

lemma part_file:
  assumes "optional (\<lambda>x. one (f x)) x = Inr fs" "x = Some y"
  shows "\<exists>b. f y = Inr b \<and> fs = [b]"
  using assms by (auto simp: optional_Inr one_Inr)

lemma vl_Append_None:
  assumes "validator_ok V"
  shows "vl_Append V e e' = None \<longleftrightarrow> e = None \<and> e' = None"
  using assms by (cases e) (auto simp: validator_ok_def)

lemma appendIf_None: "validator_ok V \<Longrightarrow> appendIf V b e acc = None \<longleftrightarrow> \<not> b \<and> acc = None"
  by (simp add: appendIf_def vl_Append_None)

lemma appendNamespace_None:
  "validator_ok V \<Longrightarrow> appendNamespace V ns acc = None \<longleftrightarrow> validateNamespace V ns = None \<and> acc = None"
  by (simp add: appendNamespace_def vl_Append_None split: option.splits)

lemma validateCluster_None:
  "validator_ok V \<Longrightarrow> validateCluster V cl acc = None \<longleftrightarrow>
     (\<exists>c. cl = Some c \<and> nn_Name c \<noteq> [] \<and> validateNamespace V (nn_Namespace c) = None) \<and> acc = None"
  by (auto simp: validateCluster_def vl_Append_None appendNamespace_None appendIf_None split: option.splits)

lemma validateEach_None:
  assumes "validator_ok (ae_validator E)" "validateEach E cs acc = Inr None"
  shows "acc = None \<and> (\<forall>c\<in>set cs. validateResource E c = Inr None \<and> validateCluster (ae_validator E) (au_Cluster c) None = None)"
  using assms(2)
proof (induction cs arbitrary: acc)
  case (Cons c cs)
  obtain e where e: "validateResource E c = Inr e"
      "validateEach E cs (vl_Append (ae_validator E) (validateCluster (ae_validator E) (au_Cluster c) acc) e) = Inr None"
    using Cons.prems by (auto simp: bindR_Inr)
  from Cons.IH [OF e(2)] e(1) show ?case by (auto simp: vl_Append_None [OF assms(1)] validateCluster_None [OF assms(1)])
qed simp

lemma getAutomations_Inr:
  "getAutomations E ca = Inr a \<longleftrightarrow> (\<exists>gs. validateAutomations E (applyCreateAutomationDefaults ca) = Inr None \<and>
     mapRes (automationFiles E) (applyCreateAutomationDefaults ca) = Inr gs \<and> a = joinAutomations gs)"
  by (auto simp: getAutomations_def Let_def bindR_Inr checked_Inr)

lemma joined:
  assumes "g \<in> set gs"
  shows "set (at_KustomizationFiles g) \<subseteq> set (at_KustomizationFiles (joinAutomations gs))"
    "set (at_HelmReleaseFiles g) \<subseteq> set (at_HelmReleaseFiles (joinAutomations gs))"
    "set (at_ExternalSecretsFiles g) \<subseteq> set (at_ExternalSecretsFiles (joinAutomations gs))"
    "set (at_PolicyConfigsFiles g) \<subseteq> set (at_PolicyConfigsFiles (joinAutomations gs))"
    "set (at_SopsSecretsFiles g) \<subseteq> set (at_SopsSecretsFiles (joinAutomations gs))"
  using assms by (auto simp: joinAutomations_def)

text \<open>C24: When the files of a list of automations can be made, the list is not empty, each
  automation names its cluster, the first of its resources is valid, and the files hold one
  for every resource that it has, validated or not.\<close>

theorem automation_files_complete:
  assumes "validator_ok (ae_validator E)" "getAutomations E ca = Inr a"
  shows "ca \<noteq> [] \<and> (\<forall>c\<in>set (applyCreateAutomationDefaults ca). validateResource E c = Inr None \<and>
    (\<exists>cluster. au_Cluster c = Some cluster \<and> nn_Name cluster \<noteq> [] \<and>
      (let cfg = ae_config E; X = ae_codec E; cp = au_IsControlPlane c; path = au_FilePath c in
       (\<forall>k. au_Kustomization c = Some k \<longrightarrow>
          (\<exists>f\<in>set (at_KustomizationFiles a). generateKustomizationFile cfg (ac_yaml X) cp cluster k path = Inr f)) \<and>
       (\<forall>hr. au_HelmRelease c = Some hr \<longrightarrow>
          (\<exists>f\<in>set (at_HelmReleaseFiles a). generateHelmReleaseFile cfg X cp cluster hr path = Inr f)) \<and>
       (\<forall>es. au_ExternalSecret c = Some es \<longrightarrow>
          (\<exists>f\<in>set (at_ExternalSecretsFiles a). generateExternalSecretFile cfg X cp cluster es path = Inr f)) \<and>
       (\<forall>p. au_PolicyConfig c = Some p \<longrightarrow>
          (\<exists>f\<in>set (at_PolicyConfigsFiles a). generatePolicyConfigFile cfg X (ae_visit E) cp cluster p path = Inr f)) \<and>
       (\<forall>s. au_SopsSecret c = Some s \<longrightarrow>
          (\<exists>f\<in>set (at_SopsSecretsFiles a). generateSopsSecret cfg X cp cluster s path = Inr f)))))"
proof -
  let ?ca = "applyCreateAutomationDefaults ca"
  obtain gs where valid: "validateAutomations E ?ca = Inr None" and gs: "mapRes (automationFiles E) ?ca = Inr gs" and a: "a = joinAutomations gs"
    using assms(2) unfolding getAutomations_Inr by blast
  note each = validateEach_None [OF assms(1) valid [unfolded validateAutomations_def]]
  have "ca \<noteq> []" using each by (auto simp: appendIf_None [OF assms(1)] applyCreateAutomationDefaults_def)
  moreover have "\<exists>cluster. au_Cluster c = Some cluster \<and> nn_Name cluster \<noteq> [] \<and>
      (\<forall>k. au_Kustomization c = Some k \<longrightarrow> (\<exists>f\<in>set (at_KustomizationFiles a).
         generateKustomizationFile (ae_config E) (ac_yaml (ae_codec E)) (au_IsControlPlane c) cluster k (au_FilePath c) = Inr f)) \<and>
      (\<forall>hr. au_HelmRelease c = Some hr \<longrightarrow> (\<exists>f\<in>set (at_HelmReleaseFiles a).
         generateHelmReleaseFile (ae_config E) (ae_codec E) (au_IsControlPlane c) cluster hr (au_FilePath c) = Inr f)) \<and>
      (\<forall>es. au_ExternalSecret c = Some es \<longrightarrow> (\<exists>f\<in>set (at_ExternalSecretsFiles a).
         generateExternalSecretFile (ae_config E) (ae_codec E) (au_IsControlPlane c) cluster es (au_FilePath c) = Inr f)) \<and>
      (\<forall>p. au_PolicyConfig c = Some p \<longrightarrow> (\<exists>f\<in>set (at_PolicyConfigsFiles a).
         generatePolicyConfigFile (ae_config E) (ae_codec E) (ae_visit E) (au_IsControlPlane c) cluster p (au_FilePath c) = Inr f)) \<and>
      (\<forall>s. au_SopsSecret c = Some s \<longrightarrow> (\<exists>f\<in>set (at_SopsSecretsFiles a).
         generateSopsSecret (ae_config E) (ae_codec E) (au_IsControlPlane c) cluster s (au_FilePath c) = Inr f))"
    if c: "c \<in> set ?ca" for c
  proof -
    obtain g where g: "g \<in> set gs" "automationFiles E c = Inr g" using mapRes_in [OF gs c] by blast
    obtain cluster ks where cl: "au_Cluster c = Some cluster"
      and ks: "optional (kustomizationPart E cluster c) (au_Kustomization c) = Inr (at_KustomizationFiles g)"
      and hrs: "optional (\<lambda>hr. one (generateHelmReleaseFile (ae_config E) (ae_codec E) (au_IsControlPlane c) cluster hr (au_FilePath c))) (au_HelmRelease c) = Inr (at_HelmReleaseFiles g)"
      and ess: "optional (\<lambda>es. one (generateExternalSecretFile (ae_config E) (ae_codec E) (au_IsControlPlane c) cluster es (au_FilePath c))) (au_ExternalSecret c) = Inr (at_ExternalSecretsFiles g)"
      and ps: "optional (\<lambda>p. one (generatePolicyConfigFile (ae_config E) (ae_codec E) (ae_visit E) (au_IsControlPlane c) cluster p (au_FilePath c))) (au_PolicyConfig c) = Inr (at_PolicyConfigsFiles g)"
      and ss: "optional (\<lambda>s. one (generateSopsSecret (ae_config E) (ae_codec E) (au_IsControlPlane c) cluster s (au_FilePath c))) (au_SopsSecret c) = Inr (at_SopsSecretsFiles g)"
      using g(2) by (auto simp: automationFiles_def Let_def bindR_Inr deref_Inr)
    have "nn_Name cluster \<noteq> []" using each c cl by (auto simp: validateCluster_None [OF assms(1)])
    moreover have "\<exists>f\<in>set (at_KustomizationFiles g).
         generateKustomizationFile (ae_config E) (ac_yaml (ae_codec E)) (au_IsControlPlane c) cluster k (au_FilePath c) = Inr f"
      if "au_Kustomization c = Some k" for k
      using ks that by (auto simp: optional_Inr kustomizationPart_def Let_def bindR_Inr dest!: sym [of "_ @ _"])
    ultimately show ?thesis
      using joined [OF g(1)] part_file [OF hrs] part_file [OF ess] part_file [OF ps] part_file [OF ss] cl
      unfolding a by (intro exI [of _ cluster]) fastforce
  qed
  ultimately show ?thesis using each by (simp add: Let_def)
qed

text \<open>C25: A kustomization that creates its namespace and has a path of its own has two files
  with that path, and the commit keeps only the second: the namespace is lost.\<close>

theorem automation_namespace_lost:
  assumes "automationFiles E c = Inr g" "au_Kustomization c = Some k" "ku_Spec k = Some spec" "ks_CreateNamespace spec"
    and "au_FilePath c \<noteq> []"
  shows "\<exists>b d ko. ym_Namespace (ac_yaml (ae_codec E)) (ks_TargetNamespace spec) = Inr b \<and>
    createKustomizationObject k = Inr ko \<and> ym_Kustomization (ac_yaml (ae_codec E)) ko = Inr d \<and>
    at_KustomizationFiles g = [\<lparr> cf_Path = au_FilePath c, cf_Content = Some b \<rparr>, \<lparr> cf_Path = au_FilePath c, cf_Content = Some d \<rparr>] \<and>
    applyFiles t (at_KustomizationFiles g) = t(au_FilePath c \<mapsto> d)"
  using assms
  by (auto simp: automationFiles_def Let_def bindR_Inr deref_Inr optional_Inr kustomizationPart_def one_Inr generateNamespaceFile_def
    generateKustomizationFile_def wrapR_Inr applyFiles_def)

section \<open>Pull requests and previews\<close>

definition previewFiles :: "RenderAutomationResponse \<Rightarrow> commit_file list" where
  "previewFiles r = ra_KustomizationFiles r @ ra_HelmReleaseFiles r @ ra_ExternalSecretsFiles r @ ra_PolicyConfigFiles r @ ra_SopsSecertFiles r"

lemma getAutomations_clusters:
  assumes "getAutomations E ca = Inr a"
  shows "\<exists>cs. map au_Cluster ca = map Some cs \<and> at_Clusters a = map nn_Name cs"
proof -
  obtain gs where gs: "mapRes (automationFiles E) (applyCreateAutomationDefaults ca) = Inr gs" and a: "a = joinAutomations gs"
    using assms unfolding getAutomations_Inr by blast
  have step: "\<exists>cl. au_Cluster c = Some cl \<and> at_Clusters g = [nn_Name cl]" if "automationFiles E c = Inr g" for c g
    using that by (auto simp: automationFiles_def Let_def bindR_Inr deref_Inr)
  have "\<exists>cs. map au_Cluster xs = map Some cs \<and> concat (map at_Clusters gs) = map nn_Name cs" if "mapRes (automationFiles E) xs = Inr gs" for xs gs
    using that
  proof (induction xs arbitrary: gs)
    case (Cons x xs)
    then obtain g hs cs cl where "gs = g # hs" "map au_Cluster xs = map Some cs" "concat (map at_Clusters hs) = map nn_Name cs"
        "au_Cluster x = Some cl" "at_Clusters g = [nn_Name cl]"
      by (auto simp: bindR_Inr split: sum.splits dest!: step)
    then show ?case by (intro exI [of _ "cl # cs"]) simp
  qed simp
  from this [OF gs] show ?thesis by (simp add: a joinAutomations_def applyCreateAutomationDefaults_def comp_def)
qed

text \<open>C9: On GitHub, GitLab and Bitbucket, a pull request for automations changes only the head
  branch of the request, which then has the tree of the base branch with the files written
  that a preview of the same automations shows.\<close>

theorem automations_pull_request_files:
  assumes "getGitProvider (ae_config (az_env s)) (az_repoEnv s) (az_ProviderToken s) (aq_RepositoryUrl msg) = Inr gp"
    and "hosted (az_newClient s) gp H" "CreateAutomationsPullRequest s msg h = (Inr link, h')"
  shows "\<exists>r cs head t. RenderAutomation s (aq_ClusterAutomations msg) = Inr r \<and>
    map au_Cluster (aq_ClusterAutomations msg) = map Some cs \<and>
    head = orElse (aq_HeadBranch msg) (getHash (az_md5hex s) [aq_RepositoryUrl msg, joinStr [] (map nn_Name cs), aq_BaseBranch msg]) \<and>
    hv_tree H h (orElse (aq_BaseBranch msg) (ae_config (az_env s) ''capi-templates-repository-base-branch'')) = Some t \<and>
    hv_tree H h' head = Some (applyFiles t (previewFiles r)) \<and> (\<forall>b. b \<noteq> head \<longrightarrow> hv_tree H h' b = hv_tree H h b)"
proof -
  obtain a h1 r0 where cl: "az_client s = Inr ()" and a: "getAutomations (az_env s) (aq_ClusterAutomations msg) = Inr a"
    and repo: "service_GetRepository (az_newClient s) gp (wr_RepositoryURL (automationsRequest s msg a gp)) h = (Inr r0, h1)"
    and pr: "WriteFilesToBranchAndCreatePullRequest (az_newClient s) (automationsRequest s msg a gp) h1 = (Inr link, h')"
    using assms(3) unfolding CreateAutomationsPullRequest_def Let_def by (auto simp: action_simps assms(1))
  have same: "sameTrees H h h1" by (rule service_reads(1) [OF assms(2) repo])
  obtain r where r: "RenderAutomation s (aq_ClusterAutomations msg) = Inr r" "previewFiles r = automationCommit a"
    using cl a by (simp add: RenderAutomation_def previewFiles_def automationCommit_def)
  obtain cs where cs: "map au_Cluster (aq_ClusterAutomations msg) = map Some cs" "at_Clusters a = map nn_Name cs"
    using getAutomations_clusters [OF a] by blast
  have req: "wr_Files (automationsRequest s msg a gp) = automationCommit a" "wr_GitProvider (automationsRequest s msg a gp) = gp"
    "wr_BaseBranch (automationsRequest s msg a gp) = orElse (aq_BaseBranch msg) (ae_config (az_env s) ''capi-templates-repository-base-branch'')"
    "wr_HeadBranch (automationsRequest s msg a gp) =
       orElse (aq_HeadBranch msg) (getHash (az_md5hex s) [aq_RepositoryUrl msg, joinStr [] (map nn_Name cs), aq_BaseBranch msg])"
    by (simp_all add: automationsRequest_def Let_def cs(2))
  from service_writes [where H = H, OF _ pr] assms(2) same r req cs(1) show ?thesis
    by (intro exI [of _ r] exI [of _ cs] exI [of _ "wr_HeadBranch (automationsRequest s msg a gp)"]) (auto simp: only_def sameTrees_def)
qed

section \<open>Examples\<close>

text \<open>A kustomization that creates its namespace, and a Helm release without a chart name that nothing validates.\<close>

definition webKustomization :: kustomization where
  "webKustomization = \<lparr> ku_Metadata = Some \<lparr> md_Name = ''web'', md_Namespace = ''n'', md_Annotations = Map.empty \<rparr>,
     ku_Spec = Some \<lparr> ks_Path = ''./web'', ks_SourceRef = Some \<lparr> sr_Name = ''src'', sr_Namespace = [] \<rparr>, ks_TargetNamespace = ''shop'',
       ks_CreateNamespace = True, ks_Decryption = None \<rparr> \<rparr>"

definition namelessRelease :: release where
  "namelessRelease = \<lparr> rl_Metadata = Some \<lparr> md_Name = ''db'', md_Namespace = ''n'', md_Annotations = Map.empty \<rparr>,
     rl_Spec = Some \<lparr> rs_Chart = Some (Some \<lparr> ct_Chart = [], ct_SourceRef = Some \<lparr> sr_Name = ''charts'', sr_Namespace = [] \<rparr>, ct_Version = [] \<rparr>), rs_Values = [] \<rparr> \<rparr>"

definition webAutomation :: "string \<Rightarrow> release option \<Rightarrow> unit automation" where
  "webAutomation path hr = \<lparr> au_Cluster = Some (createNamespacedName ''c'' ''default''), au_IsControlPlane = False, au_Kustomization = Some webKustomization,
     au_HelmRelease = hr, au_FilePath = path, au_ExternalSecret = None, au_PolicyConfig = None, au_SopsSecret = None \<rparr>"

definition plainCodecs :: "(unit, unit) automation_codec" where
  "plainCodecs = \<lparr> ac_yaml = \<lparr> ym_Kustomization = (\<lambda>k. Inr (ko_Name k)), ym_Namespace = (\<lambda>n. Inr n) \<rparr>, ac_ParseYAML = (\<lambda>_. Inr ()),
     ac_MarshalJSON = (\<lambda>_. Inr ''{}''), ac_MarshalRelease = (\<lambda>r. Inr (ho_Name r)), ac_MarshalSecret = (\<lambda>s. Inr (eo_Name s)),
     ac_MarshalPolicyConfig = (\<lambda>p. Inr (pj_Name p)), ac_MarshalSops = (\<lambda>_. Inr []), ac_MarshalValue = (\<lambda>_. Inr []),
     ac_ParseDuration = (\<lambda>_. Inr 0), ac_Sprintf = (\<lambda>f a. f) \<rparr>"

definition webEnv :: "(unit, unit) automation_env" where
  "webEnv = \<lparr> ae_config = sampleConfig, ae_visit = sorted_list_of_set, ae_validator = sv_validator sampleServer, ae_codec = plainCodecs \<rparr>"

definition webServer :: "(unit, unit, branches) automations_server" where
  "webServer = \<lparr> az_client = Inr (), az_env = webEnv, az_md5hex = id, az_newClient = listNew, az_repoEnv = demoEnv, az_ProviderToken = Inr ''t'' \<rparr>"

definition webRequest :: "unit automations_request" where
  "webRequest = \<lparr> aq_RepositoryUrl = [], aq_HeadBranch = ''h'', aq_BaseBranch = [], aq_Title = [], aq_Description = [], aq_CommitMessage = [],
     aq_ClusterAutomations = [webAutomation ''web.yaml'' (Some namelessRelease)] \<rparr>"

lemma web_kustomization:
  "automationFiles webEnv (webAutomation ''web.yaml'' None) = Inr \<lparr> at_KustomizationFiles =
     [\<lparr> cf_Path = ''web.yaml'', cf_Content = Some ''shop'' \<rparr>, \<lparr> cf_Path = ''web.yaml'', cf_Content = Some ''web'' \<rparr>],
     at_HelmReleaseFiles = [], at_Clusters = [''c''], at_ExternalSecretsFiles = [], at_PolicyConfigsFiles = [], at_SopsSecretsFiles = [] \<rparr>"
  by (simp add: automationFiles_def webEnv_def webAutomation_def optional_def kustomizationPart_def webKustomization_def one_def generateNamespaceFile_def
    generateKustomizationFile_def createKustomizationObject_def plainCodecs_def Let_def createNamespacedName_def)

lemma web_files:
  "automationFiles webEnv (webAutomation ''web.yaml'' (Some namelessRelease)) = Inr \<lparr> at_KustomizationFiles =
     [\<lparr> cf_Path = ''web.yaml'', cf_Content = Some ''shop'' \<rparr>, \<lparr> cf_Path = ''web.yaml'', cf_Content = Some ''web'' \<rparr>],
     at_HelmReleaseFiles = [\<lparr> cf_Path = ''web.yaml'', cf_Content = Some ''db'' \<rparr>], at_Clusters = [''c''],
     at_ExternalSecretsFiles = [], at_PolicyConfigsFiles = [], at_SopsSecretsFiles = [] \<rparr>"
  by (simp add: automationFiles_def webEnv_def webAutomation_def optional_def kustomizationPart_def webKustomization_def one_def generateNamespaceFile_def
    generateKustomizationFile_def createKustomizationObject_def plainCodecs_def generateHelmReleaseFile_def objectErr_def createHelmReleaseObject_def
    namelessRelease_def releaseValues_def nameOf_def resourceFile_def Let_def createNamespacedName_def)

lemma web_getAutomations:
  "getAutomations webEnv [webAutomation ''web.yaml'' (Some namelessRelease)] = Inr \<lparr> at_KustomizationFiles =
     [\<lparr> cf_Path = ''web.yaml'', cf_Content = Some ''shop'' \<rparr>, \<lparr> cf_Path = ''web.yaml'', cf_Content = Some ''web'' \<rparr>],
     at_HelmReleaseFiles = [\<lparr> cf_Path = ''web.yaml'', cf_Content = Some ''db'' \<rparr>], at_Clusters = [''c''],
     at_ExternalSecretsFiles = [], at_PolicyConfigsFiles = [], at_SopsSecretsFiles = [] \<rparr>"
proof -
  have same: "applyCreateAutomationDefaults [webAutomation ''web.yaml'' (Some namelessRelease)] = [webAutomation ''web.yaml'' (Some namelessRelease)]"
    by (simp add: applyCreateAutomationDefaults_def webAutomation_def releaseNamespace_def namelessRelease_def defaultNamespace_def webKustomization_def)
  have "validateAutomations webEnv [webAutomation ''web.yaml'' (Some namelessRelease)] = Inr None"
    by (simp add: validateAutomations_def appendIf_def validateResource_def webAutomation_def webEnv_def validateKustomization_def webKustomization_def
      validateCluster_def appendNamespace_def validateNamespace_def sampleServer_def createNamespacedName_def Let_def)
  then show ?thesis by (simp add: getAutomations_def same checked_def web_files joinAutomations_def)
qed

lemma web_validator: "validator_ok (ae_validator webEnv)"
  by (simp add: validator_ok_def webEnv_def sampleServer_def split: option.splits)

theorem automation_files_complete_witness:
  "\<exists>a f. getAutomations webEnv [webAutomation ''web.yaml'' (Some namelessRelease)] = Inr a \<and> f \<in> set (at_HelmReleaseFiles a) \<and>
     generateHelmReleaseFile sampleConfig plainCodecs False (createNamespacedName ''c'' ''default'') namelessRelease ''web.yaml'' = Inr f \<and>
     validateHelmRelease (ae_validator webEnv) namelessRelease \<noteq> Inr None"
proof -
  let ?c = "webAutomation ''web.yaml'' (Some namelessRelease)"
  have same: "applyCreateAutomationDefaults [?c] = [?c]"
    by (simp add: applyCreateAutomationDefaults_def webAutomation_def releaseNamespace_def namelessRelease_def defaultNamespace_def webKustomization_def)
  have "validateHelmRelease (ae_validator webEnv) namelessRelease \<noteq> Inr None"
    by (simp add: validateHelmRelease_def namelessRelease_def webEnv_def sampleServer_def appendNamespace_def validateNamespace_def appendIf_def Let_def)
  then show ?thesis
    using automation_files_complete [OF web_validator web_getAutomations] web_getAutomations unfolding same
    by (auto simp: webAutomation_def webEnv_def Let_def)
qed

theorem automation_namespace_lost_witness:
  "\<exists>g. automationFiles webEnv (webAutomation ''web.yaml'' None) = Inr g \<and> length (at_KustomizationFiles g) = 2 \<and>
     applyFiles Map.empty (at_KustomizationFiles g) = [''web.yaml'' \<mapsto> ''web'']"
proof -
  obtain g where g: "automationFiles webEnv (webAutomation ''web.yaml'' None) = Inr g" using web_kustomization by blast
  have c: "au_Kustomization (webAutomation ''web.yaml'' None) = Some webKustomization" "au_FilePath (webAutomation ''web.yaml'' None) = ''web.yaml''"
    by (simp_all add: webAutomation_def)
  have k: "ku_Spec webKustomization = Some (the (ku_Spec webKustomization))" "ks_CreateNamespace (the (ku_Spec webKustomization))"
    by (simp_all add: webKustomization_def)
  have path: "au_FilePath (webAutomation ''web.yaml'' None) \<noteq> []" by (simp add: c)
  from automation_namespace_lost [OF g c(1) k path, of Map.empty] g show ?thesis
    by (auto simp: c webEnv_def plainCodecs_def createKustomizationObject_def webKustomization_def)
qed

theorem automations_pull_request_files_witness:
  "\<exists>h' t. CreateAutomationsPullRequest webServer webRequest [''main'' \<mapsto> sampleTree] = (Inr ''link'', h') \<and>
     h' ''h'' = Some t \<and> t ''web.yaml'' = Some ''db'' \<and> t ''other'' = Some ''o'' \<and> h' ''main'' = Some sampleTree"
proof -
  let ?s = "[''main'' \<mapsto> sampleTree] :: branches"
  have simps: "az_client webServer = Inr ()" "az_newClient webServer = listNew" "ae_config (az_env webServer) = sampleConfig" "ae_config webEnv = sampleConfig" "az_env webServer = webEnv"
    "aq_ClusterAutomations webRequest = [webAutomation ''web.yaml'' (Some namelessRelease)]" "aq_BaseBranch webRequest = []" "aq_HeadBranch webRequest = ''h''"
    by (simp_all add: webServer_def webEnv_def webRequest_def)
  have gp: "getGitProvider sampleConfig (az_repoEnv webServer) (az_ProviderToken webServer) (aq_RepositoryUrl webRequest) = Inr sampleProvider"
    by (simp add: webServer_def sample_provider sampleProvider_def webRequest_def)
  let ?req = "\<lambda>a. automationsRequest webServer webRequest a sampleProvider"
  have "wr_GitProvider (?req a) = sampleProvider" "wr_HeadBranch (?req a) = ''h''" "wr_BaseBranch (?req a) = ''main''" for a
    using sample_base by (simp_all add: automationsRequest_def Let_def simps orElse_def)
  from sample_write [of ?s sampleTree, OF _ this]
  have wrote: "WriteFilesToBranchAndCreatePullRequest listNew (?req a) ?s = (Inr ''link'', ?s(''h'' \<mapsto> applyFiles sampleTree (wr_Files (?req a))))" for a by simp
  obtain h' where run: "CreateAutomationsPullRequest webServer webRequest ?s = (Inr ''link'', h')"
    unfolding CreateAutomationsPullRequest_def Let_def simps gp newErr_simps web_getAutomations
    by (simp add: bindA_def liftR_def newErrA_def wrapA_def sample_repository wrote)
  have hosted: "hosted (az_newClient webServer) sampleProvider listHost" by (simp add: simps sampleProvider_def listNew_hosted)
  have gp': "getGitProvider (ae_config (az_env webServer)) (az_repoEnv webServer) (az_ProviderToken webServer) (aq_RepositoryUrl webRequest) = Inr sampleProvider"
    unfolding simps by (rule gp)
  have h: "orElse ''h'' x = ''h''" for x by (simp add: orElse_def)
  from automations_pull_request_files [OF gp' hosted run] obtain r t where r: "RenderAutomation webServer [webAutomation ''web.yaml'' (Some namelessRelease)] = Inr r"
    and t: "hv_tree listHost ?s ''main'' = Some t" "hv_tree listHost h' ''h'' = Some (applyFiles t (previewFiles r))" "hv_tree listHost h' ''main'' = hv_tree listHost ?s ''main''"
    unfolding simps sample_base h by (auto simp: simps)
  from r have "previewFiles r = [\<lparr> cf_Path = ''web.yaml'', cf_Content = Some ''shop'' \<rparr>, \<lparr> cf_Path = ''web.yaml'', cf_Content = Some ''web'' \<rparr>,
      \<lparr> cf_Path = ''web.yaml'', cf_Content = Some ''db'' \<rparr>]"
    by (auto simp: RenderAutomation_def simps web_getAutomations previewFiles_def)
  with run t show ?thesis by (auto simp: applyFiles_def listHost_def treeHost_def sampleTree_def)
qed

end
