(* ===== verification/ChartsCache.thy ===== *)
theory ChartsCache
  imports ProfileFiles
begin

text \<open>
  pkg/helm: the cache of Helm charts. helm_chart_indexer.go keeps one table; its SQL
  statements are written here as operations on the list of its rows, in the order in which
  they were inserted. A statement may fail: the faults of the database are a parameter that
  sees the operation and the rows. Masterminds/semver is a parameter.
\<close>

section \<open>charts_cache.go\<close>

record ObjectReference =
  jr_Kind :: string
  jr_APIVersion :: string
  jr_Name :: string
  jr_Namespace :: string

record Chart =
  ch_Name :: string
  ch_Version :: string
  ch_Kind :: string
  ch_Layer :: string

definition LayerAnnotation :: string where "LayerAnnotation = ''weave.works/layer''"

section \<open>The table\<close>

record chart_row =
  hc_name :: string
  hc_version :: string
  hc_kind :: string
  hc_valuesYaml :: "string option"
  hc_layer :: "string option"
  hc_repo_kind :: string
  hc_repo_api_version :: string
  hc_repo_name :: string
  hc_repo_namespace :: string
  hc_cluster_name :: string
  hc_cluster_namespace :: string

type_synonym chart_table = "chart_row list"
type_synonym chart_faults = "string \<Rightarrow> chart_table \<Rightarrow> goerror option"

definition chartExec :: "chart_faults \<Rightarrow> string \<Rightarrow> (chart_table \<Rightarrow> chart_table) \<Rightarrow> chart_table step" where
  "chartExec F op f db = (case F op db of Some e \<Rightarrow> (Some e, db) | None \<Rightarrow> (None, f db))"

definition chartQuery :: "chart_faults \<Rightarrow> string \<Rightarrow> (chart_row \<Rightarrow> bool) \<Rightarrow> chart_table \<Rightarrow> chart_row list res" where
  "chartQuery F op P db = (case F op db of Some e \<Rightarrow> Inl (wrap ''failed to query database: %w'' [] e) | None \<Rightarrow> Inr (filter P db))"

definition inCluster :: "nsname \<Rightarrow> chart_row \<Rightarrow> bool" where
  "inCluster clusterRef r \<longleftrightarrow> hc_cluster_name r = nn_Name clusterRef \<and> hc_cluster_namespace r = nn_Namespace clusterRef"

definition inRepo :: "string \<Rightarrow> string \<Rightarrow> nsname \<Rightarrow> chart_row \<Rightarrow> bool" where
  "inRepo name namespace clusterRef r \<longleftrightarrow> hc_repo_name r = name \<and> hc_repo_namespace r = namespace \<and> inCluster clusterRef r"

definition isChart :: "string \<Rightarrow> string \<Rightarrow> string \<Rightarrow> string \<Rightarrow> nsname \<Rightarrow> chart_row \<Rightarrow> bool" where
  "isChart name version repoName repoNamespace clusterRef r \<longleftrightarrow>
     hc_name r = name \<and> hc_version r = version \<and> inRepo repoName repoNamespace clusterRef r"

section \<open>helm_chart_indexer.go\<close>

text \<open>A count is one row, so there is always a row to scan.\<close>

definition IsKnownChart :: "chart_faults \<Rightarrow> nsname \<Rightarrow> ObjectReference \<Rightarrow> Chart \<Rightarrow> chart_table \<Rightarrow> bool res" where
  "IsKnownChart F clusterRef repoRef chart db =
     bindR (chartQuery F ''IsKnownChart'' (isChart (ch_Name chart) (ch_Version chart) (jr_Name repoRef) (jr_Namespace repoRef) clusterRef) db) (\<lambda>rs.
       Inr (length rs > 0))"

definition chartRow :: "string \<Rightarrow> string \<Rightarrow> string \<Rightarrow> string \<Rightarrow> nsname \<Rightarrow> ObjectReference \<Rightarrow> chart_row" where
  "chartRow name version kind layer clusterRef repoRef =
     \<lparr> hc_name = name, hc_version = version, hc_kind = kind, hc_valuesYaml = None, hc_layer = Some layer,
       hc_repo_kind = jr_Kind repoRef, hc_repo_api_version = jr_APIVersion repoRef,
       hc_repo_name = jr_Name repoRef, hc_repo_namespace = jr_Namespace repoRef,
       hc_cluster_name = nn_Name clusterRef, hc_cluster_namespace = nn_Namespace clusterRef \<rparr>"

definition AddChart :: "chart_faults \<Rightarrow> string \<Rightarrow> string \<Rightarrow> string \<Rightarrow> string \<Rightarrow> nsname \<Rightarrow> ObjectReference \<Rightarrow> chart_table step" where
  "AddChart F name version kind layer clusterRef repoRef db =
     (case IsKnownChart F clusterRef repoRef \<lparr> ch_Name = name, ch_Version = version, ch_Kind = [], ch_Layer = [] \<rparr> db of
        Inl e \<Rightarrow> (Some (wrap ''failed to check if chart is known: %w'' [] e), db)
      | Inr found \<Rightarrow>
          if found then (None, db)
          else chartExec F ''AddChart'' (\<lambda>db. db @ [chartRow name version kind layer clusterRef repoRef]) db)"

definition RemoveChart :: "chart_faults \<Rightarrow> string \<Rightarrow> string \<Rightarrow> nsname \<Rightarrow> ObjectReference \<Rightarrow> chart_table step" where
  "RemoveChart F name version clusterRef repoRef =
     chartExec F ''RemoveChart'' (filter (\<lambda>r. \<not> isChart name version (jr_Name repoRef) (jr_Namespace repoRef) clusterRef r))"

text \<open>The values of a chart, nil when it is unknown or has none yet.\<close>

definition GetChartValues :: "chart_faults \<Rightarrow> nsname \<Rightarrow> ObjectReference \<Rightarrow> Chart \<Rightarrow> chart_table \<Rightarrow> string option res" where
  "GetChartValues F clusterRef repoRef chart db =
     bindR (chartQuery F ''GetChartValues'' (isChart (ch_Name chart) (ch_Version chart) (jr_Name repoRef) (jr_Namespace repoRef) clusterRef) db) (\<lambda>rs.
       Inr (case rs of [] \<Rightarrow> None | r # _ \<Rightarrow> hc_valuesYaml r))"

definition UpdateValuesYaml :: "chart_faults \<Rightarrow> nsname \<Rightarrow> ObjectReference \<Rightarrow> Chart \<Rightarrow> string \<Rightarrow> chart_table step" where
  "UpdateValuesYaml F clusterRef repoRef chart valuesYaml =
     chartExec F ''UpdateValuesYaml'' (map (\<lambda>r.
       if isChart (ch_Name chart) (ch_Version chart) (jr_Name repoRef) (jr_Namespace repoRef) clusterRef r
       then r\<lparr> hc_valuesYaml := Some valuesYaml \<rparr> else r))"

definition Count :: "chart_faults \<Rightarrow> chart_table \<Rightarrow> nat res" where
  "Count F db = bindR (chartQuery F ''Count'' (\<lambda>_. True) db) (\<lambda>rs. Inr (length rs))"

definition ListChartsByCluster :: "chart_faults \<Rightarrow> nsname \<Rightarrow> string \<Rightarrow> chart_table \<Rightarrow> Chart list res" where
  "ListChartsByCluster F clusterRef kind db =
     bindR (chartQuery F ''ListChartsByCluster'' (\<lambda>r. inCluster clusterRef r \<and> (kind \<noteq> [] \<longrightarrow> hc_kind r = kind)) db) (\<lambda>rs.
       Inr (map (\<lambda>r. \<lparr> ch_Name = hc_name r, ch_Version = hc_version r, ch_Kind = [], ch_Layer = [] \<rparr>) rs))"

definition ListChartsByRepositoryAndCluster :: "chart_faults \<Rightarrow> nsname \<Rightarrow> ObjectReference \<Rightarrow> string \<Rightarrow> chart_table \<Rightarrow> Chart list res" where
  "ListChartsByRepositoryAndCluster F clusterRef repoRef kind db =
     bindR (chartQuery F ''ListChartsByRepositoryAndCluster''
         (\<lambda>r. inRepo (jr_Name repoRef) (jr_Namespace repoRef) clusterRef r \<and> (kind \<noteq> [] \<longrightarrow> hc_kind r = kind)) db) (\<lambda>rs.
       Inr (map (\<lambda>r. \<lparr> ch_Name = hc_name r, ch_Version = hc_version r, ch_Kind = [],
         ch_Layer = (case hc_layer r of None \<Rightarrow> [] | Some l \<Rightarrow> l) \<rparr>) rs))"

record 'v semver_lib =
  vs_New :: "string \<Rightarrow> 'v res"
  vs_String :: "'v \<Rightarrow> string"
  vs_Less :: "'v \<Rightarrow> 'v \<Rightarrow> bool"

definition ReverseSemVerSort :: "'v semver_lib \<Rightarrow> string list \<Rightarrow> string list res" where
  "ReverseSemVerSort L versions =
     bindR (mapRes (\<lambda>r. wrapR ''%s: %w'' [r] (vs_New L r)) versions) (\<lambda>vs.
       Inr (map (vs_String L) (sortSlice (\<lambda>v w. vs_Less L w v) vs)))"

definition GetLatestVersion :: "'v semver_lib \<Rightarrow> chart_faults \<Rightarrow> nsname \<Rightarrow> nsname \<Rightarrow> string \<Rightarrow> chart_table \<Rightarrow> string res" where
  "GetLatestVersion L F clusterRef repoRef name db =
     bindR (chartQuery F ''GetLatestVersion'' (\<lambda>r. hc_name r = name \<and> inRepo (nn_Name repoRef) (nn_Namespace repoRef) clusterRef r) db) (\<lambda>rs.
       let versions = map hc_version rs in
       if length versions = 0 then Inr []
       else bindR (wrapR ''retrieving latest version %s: %w'' [name] (ReverseSemVerSort L versions)) (\<lambda>sorted. Inr (sorted ! 0)))"

definition GetLayer :: "chart_faults \<Rightarrow> nsname \<Rightarrow> nsname \<Rightarrow> string \<Rightarrow> string \<Rightarrow> chart_table \<Rightarrow> string res" where
  "GetLayer F clusterRef repoRef name version db =
     bindR (chartQuery F ''GetLayer'' (isChart name version (nn_Name repoRef) (nn_Namespace repoRef) clusterRef) db) (\<lambda>rs.
       Inr (case rs of [] \<Rightarrow> [] | r # _ \<Rightarrow> (case hc_layer r of None \<Rightarrow> [] | Some l \<Rightarrow> l)))"

definition Delete :: "chart_faults \<Rightarrow> ObjectReference \<Rightarrow> nsname \<Rightarrow> chart_table step" where
  "Delete F repoRef clusterRef =
     chartExec F ''Delete'' (filter (\<lambda>r. \<not> inRepo (jr_Name repoRef) (jr_Namespace repoRef) clusterRef r))"

definition DeleteAllChartsForCluster :: "chart_faults \<Rightarrow> nsname \<Rightarrow> chart_table step" where
  "DeleteAllChartsForCluster F clusterRef = chartExec F ''DeleteAllChartsForCluster'' (filter (\<lambda>r. \<not> inCluster clusterRef r))"

text \<open>The cache as the profiles of a cluster read it.\<close>

definition generatorCache :: "'v semver_lib \<Rightarrow> chart_faults \<Rightarrow> chart_table \<Rightarrow> charts_cache" where
  "generatorCache L F db =
     \<lparr> cc_GetLatestVersion = (\<lambda>clusterRef repoRef name. GetLatestVersion L F clusterRef repoRef name db),
       cc_GetLayer = (\<lambda>clusterRef repoRef name version. GetLayer F clusterRef repoRef name version db) \<rparr>"

section \<open>helm_index_file_reader.go\<close>

record chart_version =
  cv_Version :: string
  cv_Annotations :: "string \<rightharpoonup> string"

type_synonym index_file = "string \<rightharpoonup> chart_version list"

definition entriesOf :: "index_file \<Rightarrow> string \<Rightarrow> chart_version list" where
  "entriesOf index name = (case index name of None \<Rightarrow> [] | Some vs \<Rightarrow> vs)"

text \<open>A chart without versions has no first one.\<close>

definition reader_GetLatestVersion :: "'v semver_lib \<Rightarrow> index_file \<Rightarrow> string \<Rightarrow> string res" where
  "reader_GetLatestVersion L index name =
     bindR (wrapR ''retrieving latest version %s: %w'' [name] (ReverseSemVerSort L (map cv_Version (entriesOf index name)))) (\<lambda>sorted.
       case sorted of [] \<Rightarrow> Inl (Panic ''index out of range'') | v # _ \<Rightarrow> Inr v)"

definition reader_GetLayer :: "index_file \<Rightarrow> string \<Rightarrow> string \<Rightarrow> string res" where
  "reader_GetLayer index name version =
     Inr (case find (\<lambda>v. cv_Version v = version) (entriesOf index name) of None \<Rightarrow> [] | Some v \<Rightarrow> mget (cv_Annotations v) LayerAnnotation)"

section \<open>Names of clusters\<close>

text \<open>pkg/cluster/fetcher: a cluster of the management cluster's own namespace has no namespace in its name.\<close>

definition ToClusterName :: "nsname \<Rightarrow> string" where
  "ToClusterName cluster = (if nn_Namespace cluster = [] then nn_Name cluster else nn_Namespace cluster @ ''/'' @ nn_Name cluster)"

definition FromClusterName :: "string \<Rightarrow> nsname" where
  "FromClusterName clusterName =
     (case splitChar (CHR ''/'') clusterName of
        [n] \<Rightarrow> createNamespacedName n []
      | ns # n # _ \<Rightarrow> createNamespacedName n ns
      | [] \<Rightarrow> createNamespacedName [] [])"

definition IsManagementCluster :: "string \<Rightarrow> nsname \<Rightarrow> bool" where
  "IsManagementCluster mgmtClusterName cluster \<longleftrightarrow> nn_Namespace cluster = [] \<and> mgmtClusterName = nn_Name cluster"

end
