(* ===== verification/ChartWatcher.thy ===== *)
theory ChartWatcher
  imports ChartsCache
begin

text \<open>
  pkg/helm/multiwatcher and pkg/helm/indexer: what fills the cache of charts. The reconciler
  loads the index of a Helm repository, and the tracker keeps one watcher per cluster. The
  parser and the checks of versions, the fetcher of index files, the Kubernetes client and
  the watchers' own goroutines are parameters. Errors that are only logged leave no trace.
\<close>

section \<open>Repositories\<close>

record artifact =
  ar_Revision :: string
  ar_URL :: string

record helm_source =
  hy_Name :: string
  hy_Namespace :: string
  hy_Annotations :: "string \<rightharpoonup> string"
  hy_Generation :: int
  hy_Deleting :: bool
  hy_Artifact :: "artifact option"

definition ProfileAnnotation :: string where "ProfileAnnotation = ''weave.works/profile''"
definition RepositoryProfilesAnnotation :: string where "RepositoryProfilesAnnotation = ''weave.works/profiles''"
definition HelmVersionFilterAnnotation :: string where "HelmVersionFilterAnnotation = ''weave.works/helm-version-filter''"

definition hasAnnotation :: "(string \<rightharpoonup> string) \<Rightarrow> string \<Rightarrow> bool" where
  "hasAnnotation cm name \<longleftrightarrow> cm name \<noteq> None"

definition Profiles :: "helm_source \<Rightarrow> chart_version \<Rightarrow> bool" where
  "Profiles hr v \<longleftrightarrow> hasAnnotation (cv_Annotations v) ProfileAnnotation \<or> hasAnnotation (hy_Annotations hr) RepositoryProfilesAnnotation"

definition filterAnnotation :: "helm_source \<Rightarrow> string" where
  "filterAnnotation hr = mget (hy_Annotations hr) HelmVersionFilterAnnotation"

section \<open>Loading an index\<close>

record ('k, 'w) version_lib =
  vc_NewConstraint :: "string \<Rightarrow> 'k res"
  vc_ParseVersion :: "string \<Rightarrow> 'w res"
  vc_Check :: "'k \<Rightarrow> 'w \<Rightarrow> bool"

definition parseChartFilter :: "('k, 'w) version_lib \<Rightarrow> helm_source \<Rightarrow> 'k option res" where
  "parseChartFilter V hr =
     (let annotation = filterAnnotation hr in
      if annotation = [] then Inr None
      else bindR (wrapR ''failed to parse chart version contraint %q on HelmRepository %s: %w''
          [annotation, hy_Namespace hr @ ''/'' @ hy_Name hr] (vc_NewConstraint V annotation)) (\<lambda>c. Inr (Some c)))"

text \<open>Each of the errors is logged, and the loop goes on.\<close>

definition loadChart :: "('k, 'w) version_lib \<Rightarrow> chart_faults \<Rightarrow> nsname \<Rightarrow> helm_source \<Rightarrow> 'k option \<Rightarrow> string \<Rightarrow> chart_version \<Rightarrow> chart_table \<Rightarrow> chart_table" where
  "loadChart V F clusterRef hr constraint name cv db =
     (let kind = (if Profiles hr cv then ''profile'' else ''chart'');
          ref = \<lparr> jr_Kind = [], jr_APIVersion = [], jr_Name = hy_Name hr, jr_Namespace = hy_Namespace hr \<rparr>;
          add = (\<lambda>db. snd (AddChart F name (cv_Version cv) kind (mget (cv_Annotations cv) LayerAnnotation) clusterRef ref db)) in
      case constraint of
        None \<Rightarrow> add db
      | Some k \<Rightarrow>
          (case vc_ParseVersion V (cv_Version cv) of
             Inl e \<Rightarrow> db
           | Inr v \<Rightarrow> if vc_Check V k v then add db else snd (RemoveChart F name (cv_Version cv) clusterRef ref db)))"

text \<open>A filter that cannot be parsed is logged, and nothing is filtered.\<close>

definition LoadIndex :: "('k, 'w) version_lib \<Rightarrow> chart_faults \<Rightarrow> visit \<Rightarrow> index_file \<Rightarrow> nsname \<Rightarrow> helm_source \<Rightarrow> chart_table \<Rightarrow> chart_table" where
  "LoadIndex V F visit index clusterRef hr db =
     (let constraint = (case parseChartFilter V hr of Inl e \<Rightarrow> None | Inr c \<Rightarrow> c) in
      foldl (\<lambda>db name. foldl (\<lambda>db cv. loadChart V F clusterRef hr constraint name cv db) db (entriesOf index name)) db (visit (dom index)))"

section \<open>The reconciler\<close>

record ('k, 'w) helm_reconciler =
  hx_ClusterRef :: nsname
  hx_UseProxy :: bool
  hx_Get :: "nsname \<Rightarrow> helm_source res"
  hx_IsNotFound :: "goerror \<Rightarrow> bool"
  hx_GetIndexFile :: "nsname \<Rightarrow> bool \<Rightarrow> index_file res"
  hx_versions :: "('k, 'w) version_lib"
  hx_faults :: chart_faults
  hx_visit :: visit

definition reconcileDelete :: "('k, 'w) helm_reconciler \<Rightarrow> helm_source \<Rightarrow> chart_table step" where
  "reconcileDelete r hr =
     Delete (hx_faults r) \<lparr> jr_Kind = [], jr_APIVersion = [], jr_Name = hy_Name hr, jr_Namespace = hy_Namespace hr \<rparr> (hx_ClusterRef r)"

definition helm_Reconcile :: "('k, 'w) helm_reconciler \<Rightarrow> nsname \<Rightarrow> chart_table step" where
  "helm_Reconcile r req db =
     (case hx_Get r req of
        Inl e \<Rightarrow> (if hx_IsNotFound r e then None else Some e, db)
      | Inr hr \<Rightarrow>
          if hy_Deleting hr then reconcileDelete r hr db
          else if hy_Artifact hr = None then (None, db)
          else (case hx_GetIndexFile r (createNamespacedName (hy_Name hr) (hy_Namespace hr)) (hx_UseProxy r) of
              Inl e \<Rightarrow> (Some e, db)
            | Inr index \<Rightarrow> (None, LoadIndex (hx_versions r) (hx_faults r) (hx_visit r) index (hx_ClusterRef r) hr db)))"

section \<open>Which updates are reconciled\<close>

text \<open>The object of an event; only Helm repositories are watched.\<close>

datatype event_object = HelmRepositoryObject helm_source | OtherObject int

fun generationOf :: "event_object \<Rightarrow> int" where
  "generationOf (HelmRepositoryObject hr) = hy_Generation hr"
| "generationOf (OtherObject g) = g"

definition ArtifactUpdate :: "event_object option \<Rightarrow> event_object option \<Rightarrow> bool" where
  "ArtifactUpdate objOld objNew =
     (case (objOld, objNew) of
        (Some (HelmRepositoryObject old), Some (HelmRepositoryObject new)) \<Rightarrow>
          if filterAnnotation old \<noteq> filterAnnotation new then True
          else if hy_Artifact old = None \<and> hy_Artifact new \<noteq> None then True
          else (case (hy_Artifact old, hy_Artifact new) of
              (Some a, Some b) \<Rightarrow> ar_Revision a \<noteq> ar_Revision b \<or> ar_URL a \<noteq> ar_URL b
            | _ \<Rightarrow> False)
      | _ \<Rightarrow> False)"

definition DeleteUpdate :: "event_object option \<Rightarrow> event_object option \<Rightarrow> bool" where
  "DeleteUpdate objOld objNew =
     (case (objOld, objNew) of
        (Some old, Some (HelmRepositoryObject new)) \<Rightarrow> generationOf old < hy_Generation new \<and> hy_Deleting new
      | _ \<Rightarrow> False)"

section \<open>One watcher per cluster\<close>

record 'c tracked_cluster =
  tc_Name :: string
  tc_Config :: "'c res"

record ('c, 'w) tracker_env =
  te_ManagementClusterName :: string
  te_newWatcher :: "'c \<Rightarrow> nsname \<Rightarrow> bool \<Rightarrow> 'w res"
  te_faults :: chart_faults

record 'w tracker =
  tk_ClusterWatchers :: "string \<rightharpoonup> 'w"
  tk_Started :: "'w list"
  tk_Stopped :: "'w list"
  tk_Cache :: chart_table

definition addCluster :: "('c, 'w) tracker_env \<Rightarrow> 'c tracked_cluster \<Rightarrow> 'w tracker step" where
  "addCluster E cl s =
     (let clusterName = tc_Name cl in
      if tk_ClusterWatchers s clusterName \<noteq> None then (None, s)
      else (case tc_Config cl of
          Inl e \<Rightarrow> (Some (wrap ''failed to get client config for cluster %s: %w'' [clusterName] e), s)
        | Inr config \<Rightarrow>
            (let cluster = FromClusterName clusterName in
             case te_newWatcher E config cluster (IsManagementCluster (te_ManagementClusterName E) cluster) of
               Inl e \<Rightarrow> (Some (wrap ''failed to create indexer for cluster %s: %w'' [clusterName] e), s)
             | Inr w \<Rightarrow> (None, s\<lparr> tk_ClusterWatchers := (tk_ClusterWatchers s)(clusterName \<mapsto> w), tk_Started := tk_Started s @ [w] \<rparr>))))"

definition addClusters :: "('c, 'w) tracker_env \<Rightarrow> 'c tracked_cluster list \<Rightarrow> 'w tracker step" where
  "addClusters E cls = forErr (addCluster E) cls"

text \<open>An error of the cache is logged.\<close>

definition removeCluster :: "('c, 'w) tracker_env \<Rightarrow> string \<Rightarrow> 'w tracker \<Rightarrow> 'w tracker" where
  "removeCluster E name s =
     (case tk_ClusterWatchers s name of
        None \<Rightarrow> s
      | Some w \<Rightarrow> s\<lparr> tk_ClusterWatchers := (tk_ClusterWatchers s)(name := None), tk_Stopped := tk_Stopped s @ [w],
          tk_Cache := snd (DeleteAllChartsForCluster (te_faults E) (FromClusterName name) (tk_Cache s)) \<rparr>)"

record 'c cluster_update =
  up_Added :: "'c tracked_cluster list"
  up_Removed :: "string list"

text \<open>Of an update that comes from the manager of the clusters, an error of the added ones is logged.\<close>

definition trackUpdate :: "('c, 'w) tracker_env \<Rightarrow> 'c cluster_update \<Rightarrow> 'w tracker \<Rightarrow> 'w tracker" where
  "trackUpdate E u s = foldl (\<lambda>s n. removeCluster E n s) (snd (addClusters E (up_Added u) s)) (up_Removed u)"

definition tracker_Start :: "('c, 'w) tracker_env \<Rightarrow> 'c tracked_cluster list \<Rightarrow> 'c cluster_update list \<Rightarrow> 'w tracker step" where
  "tracker_Start E cls updates s =
     (case addClusters E cls s of
        (Some e, s) \<Rightarrow> (Some (wrap ''failed to add clusters: %w'' [] e), s)
      | (None, s) \<Rightarrow> (None, foldl (\<lambda>s u. trackUpdate E u s) s updates))"

section \<open>url\_parser.go\<close>

record artifact_url =
  al_Scheme :: string
  al_Hostname :: string
  al_Port :: string
  al_Path :: string

record Service =
  sx_Scheme :: string
  sx_Namespace :: string
  sx_Name :: string
  sx_Path :: string
  sx_Port :: string

definition ParseArtifactURL :: "(string \<Rightarrow> artifact_url res) \<Rightarrow> string \<Rightarrow> Service res" where
  "ParseArtifactURL parse artifactURL =
     bindR (wrapR ''failed to parse artifact URL: %w'' [] (parse artifactURL)) (\<lambda>u.
       let host = splitChar (CHR ''.'') (al_Hostname u) in
       if length host \<noteq> 6 \<or> host ! 2 \<noteq> ''svc'' \<or> al_Path u = ''/''
       then Inl (Errf ''invalid artifact URL %s'' [artifactURL])
       else Inr \<lparr> sx_Scheme = al_Scheme u, sx_Namespace = host ! 1, sx_Name = host ! 0,
         sx_Path = (if suffix ''.yaml/index.yaml'' (al_Path u) then take (length (al_Path u) - length ''/index.yaml'') (al_Path u) else al_Path u),
         sx_Port = (if al_Port u = [] then ''80'' else al_Port u) \<rparr>)"

end
