(* ===== verification/ChartHandlers.thy ===== *)
theory ChartHandlers
  imports ChartWatcher
begin

text \<open>
  cmd/clusters-service/pkg/server/charts.go, the jobs of pkg/helm/jobs.go and the fetcher of
  pkg/helm/valuesfetcher.go. The clients of the clusters, HTTP, YAML, the text of an error
  and the ids of jobs are parameters. The goroutine that a handler starts is a step of its
  own, so that it may run after other requests.
\<close>

section \<open>Fetching from the source controller\<close>

record fetch_env =
  fe_Client :: "(nsname \<Rightarrow> string res) res"
  fe_Clientset :: "unit res"
  fe_ParseURL :: "string \<Rightarrow> artifact_url res"
  fe_HTTPGet :: "string \<Rightarrow> (int \<times> string res) res"
  fe_ProxyGet :: "Service \<Rightarrow> string res"
  fe_Decode :: "string \<Rightarrow> (string \<times> index_file) res"
  fe_SortEntries :: "index_file \<Rightarrow> index_file"

definition httpGetFromSourceControllerLocal :: "fetch_env \<Rightarrow> string \<Rightarrow> string res" where
  "httpGetFromSourceControllerLocal E url =
     bindR (wrapR ''failed to get URL: %w'' [] (fe_HTTPGet E url)) (\<lambda>(status, body).
       if status \<noteq> 200 then Inl (Errf ''non-200 status code: %d from %s'' [url])
       else wrapR ''failed to read response body: %w'' [] body)"

definition httpGetFromSourceController :: "fetch_env \<Rightarrow> string \<Rightarrow> bool \<Rightarrow> string res" where
  "httpGetFromSourceController E url useProxy =
     (if \<not> useProxy then wrapR ''failed to get values file from local cluster: %w'' [] (httpGetFromSourceControllerLocal E url)
      else bindR (wrapR ''failed to parse artifact URL: %w'' [] (ParseArtifactURL (fe_ParseURL E) url)) (\<lambda>parsed.
        wrapR ''failed to get artifact from %+v: %w'' [] (fe_ProxyGet E parsed)))"

text \<open>The client gives the artifact URL of a Helm repository.\<close>

definition GetIndexFile :: "fetch_env \<Rightarrow> nsname \<Rightarrow> bool \<Rightarrow> index_file res" where
  "GetIndexFile E helmRepo useProxy =
     bindR (wrapR ''failed to create client: %w'' [] (fe_Client E)) (\<lambda>cl.
     bindR (wrapR ''failed to create clientset: %w'' [] (fe_Clientset E)) (\<lambda>_.
     bindR (wrapR ''failed to get HelmRepository: %w'' [] (cl helmRepo)) (\<lambda>artifactURL.
     if artifactURL = [] then Inl (Errf ''no artifact URL found for HelmRepository %s'' [nn_Namespace helmRepo @ ''/'' @ nn_Name helmRepo])
     else bindR (wrapR ''failed to get index file: %w'' [] (httpGetFromSourceController E artifactURL useProxy)) (\<lambda>d.
     bindR (wrapR ''error unmarshaling chart response: %w, url: %v'' [artifactURL] (fe_Decode E d)) (\<lambda>(apiVersion, i).
     if apiVersion = [] then Inl (err ''no API version specified'') else Inr (fe_SortEntries E i))))))"

section \<open>jobs.go\<close>

type_synonym JobResult = "string \<times> goerror option"

record chart_state =
  sj_cache :: chart_table
  sj_jobs :: "string \<rightharpoonup> JobResult"

definition jobs_Set :: "string \<Rightarrow> JobResult \<Rightarrow> chart_state \<Rightarrow> chart_state" where
  "jobs_Set jobId result s = s\<lparr> sj_jobs := (sj_jobs s)(jobId \<mapsto> result) \<rparr>"

definition jobs_New :: "string \<Rightarrow> chart_state \<Rightarrow> chart_state" where
  "jobs_New nextId s = jobs_Set nextId ([], None) s"

text \<open>A job whose time is over is not found any more.\<close>

definition jobs_Get :: "(string \<Rightarrow> bool) \<Rightarrow> string \<Rightarrow> chart_state \<Rightarrow> JobResult option" where
  "jobs_Get expired jobId s = (if expired jobId then None else sj_jobs s jobId)"

section \<open>charts.go\<close>

record repository_ref =
  rq_Cluster :: "nsname option"
  rq_Name :: string
  rq_Namespace :: string
  rq_Kind :: string

record RepositoryChart =
  rc_Name :: string
  rc_Layer :: string
  rc_Versions :: "string list"

record 'v charts_server =
  sc_ImpersonatedClient :: "string \<Rightarrow> (nsname \<Rightarrow> goerror option) res"
  sc_semver :: "'v semver_lib"
  sc_faults :: chart_faults
  sc_visit :: visit
  sc_errorText :: "goerror \<Rightarrow> string"
  sc_clusters :: "string list"
  sc_cluster :: string
  sc_GetValuesFile :: "string \<Rightarrow> nsname \<Rightarrow> Chart \<Rightarrow> bool \<Rightarrow> string res"

definition checkUserCanAccessHelmRepo :: "'v charts_server \<Rightarrow> nsname \<Rightarrow> ObjectReference \<Rightarrow> unit res" where
  "checkUserCanAccessHelmRepo s clusterRef repoRef =
     bindR (wrapR ''error getting impersonated client for cluster: %w'' [] (sc_ImpersonatedClient s (ToClusterName clusterRef))) (\<lambda>client.
       case client (createNamespacedName (jr_Name repoRef) (jr_Namespace repoRef)) of
         Some e \<Rightarrow> Inl (wrap ''error getting helm repository: %w'' [] e)
       | None \<Rightarrow> Inr ())"

text \<open>The cluster and the repository of a request.\<close>

definition chartRefs :: "repository_ref option \<Rightarrow> (nsname \<times> ObjectReference) res" where
  "chartRefs repository =
     (case repository of
        None \<Rightarrow> Inl (err ''repository or cluster is nil'')
      | Some r \<Rightarrow>
          (case rq_Cluster r of
             None \<Rightarrow> Inl (err ''repository or cluster is nil'')
           | Some c \<Rightarrow> Inr (createNamespacedName (nn_Name c) (nn_Namespace c),
               \<lparr> jr_Kind = rq_Kind r, jr_APIVersion = [], jr_Name = rq_Name r, jr_Namespace = rq_Namespace r \<rparr>)))"

definition chartsWithVersions :: "Chart list \<Rightarrow> (string \<rightharpoonup> string list)" where
  "chartsWithVersions charts =
     foldl (\<lambda>m c. m(ch_Name c \<mapsto> (case m (ch_Name c) of None \<Rightarrow> [] | Some vs \<Rightarrow> vs) @ [ch_Version c])) Map.empty charts"

definition chartsLayers :: "Chart list \<Rightarrow> (string \<rightharpoonup> string)" where
  "chartsLayers charts = foldl (\<lambda>m c. m(ch_Name c \<mapsto> ch_Layer c)) Map.empty charts"

definition responseCharts :: "'v charts_server \<Rightarrow> Chart list \<Rightarrow> RepositoryChart list res" where
  "responseCharts s charts =
     (let versions = chartsWithVersions charts; layers = chartsLayers charts in
      mapRes (\<lambda>name. bindR (wrapR ''parsing chart %s: %w'' [name] (ReverseSemVerSort (sc_semver s) (the (versions name)))) (\<lambda>sorted.
        Inr \<lparr> rc_Name = name, rc_Layer = mget layers name, rc_Versions = sorted \<rparr>)) (sc_visit s (dom versions)))"

definition ListChartsForRepository :: "'v charts_server \<Rightarrow> repository_ref option \<Rightarrow> string \<Rightarrow> chart_state \<Rightarrow> RepositoryChart list res" where
  "ListChartsForRepository s repository kind st =
     bindR (chartRefs repository) (\<lambda>(clusterRef, repoRef).
     bindR (wrapR ''error checking user can access helm repo: %w'' [] (checkUserCanAccessHelmRepo s clusterRef repoRef)) (\<lambda>_.
     case ListChartsByRepositoryAndCluster (sc_faults s) clusterRef repoRef kind (sj_cache st) of
       Inl e \<Rightarrow> if sc_errorText s e = ''no charts found'' then Inr [] else Inl (wrap ''error listing charts: %w'' [] e)
     | Inr charts \<Rightarrow>
         bindR (responseCharts s charts) (\<lambda>rs. Inr (sortSlice (\<lambda>a b. stringLess (rc_Name a) (rc_Name b)) rs))))"

definition GetCluster :: "'v charts_server \<Rightarrow> nsname \<Rightarrow> string res" where
  "GetCluster s cluster =
     (let clusterName = ToClusterName cluster in
      case find (\<lambda>c. c = clusterName) (sc_clusters s) of
        Some c \<Rightarrow> Inr c | None \<Rightarrow> Inl (Errf ''cluster %s not found'' [clusterName]))"

definition GetOrFetchValues :: "'v charts_server \<Rightarrow> ObjectReference \<Rightarrow> nsname \<Rightarrow> Chart \<Rightarrow> (chart_table, string) action" where
  "GetOrFetchValues s repoRef clusterRef chart db =
     (case GetChartValues (sc_faults s) clusterRef repoRef chart db of
        Inl e \<Rightarrow> (Inl (wrap ''error getting chart values: %w'' [] e), db)
      | Inr (Some v) \<Rightarrow> (Inr v, db)
      | Inr None \<Rightarrow>
          (case bindR (wrapR ''error getting client config for cluster: %w'' [] (GetCluster s clusterRef)) (\<lambda>cluster.
              wrapR ''error fetching values file: %w'' []
                (sc_GetValuesFile s cluster (createNamespacedName (jr_Name repoRef) (jr_Namespace repoRef)) chart (nn_Name clusterRef \<noteq> sc_cluster s)))
           of Inl e \<Rightarrow> (Inl e, db)
            | Inr d \<Rightarrow>
                (case UpdateValuesYaml (sc_faults s) clusterRef repoRef chart d db of
                   (Some e, db) \<Rightarrow> (Inl (wrap ''error updating values yaml: %w'' [] e), db)
                 | (None, db) \<Rightarrow> (Inr d, db))))"

text \<open>The handler makes a job; its goroutine fetches the values and sets the result.\<close>

definition GetValuesForChart :: "'v charts_server \<Rightarrow> repository_ref option \<Rightarrow> string \<Rightarrow> string \<Rightarrow> string \<Rightarrow> (chart_state, string) action" where
  "GetValuesForChart s repository name version nextId st =
     (let chart = \<lparr> ch_Name = name, ch_Version = version, ch_Kind = [], ch_Layer = [] \<rparr> in
      case bindR (chartRefs repository) (\<lambda>(clusterRef, repoRef).
          bindR (wrapR ''error checking user can access helm repo: %w'' [] (checkUserCanAccessHelmRepo s clusterRef repoRef)) (\<lambda>_.
          bindR (wrapR ''error checking if chart is known: %w'' [] (IsKnownChart (sc_faults s) clusterRef repoRef chart (sj_cache st))) (\<lambda>found.
            if \<not> found then Inl (StatusErr ''404'' ''chart version not found'') else Inr ()))) of
        Inl e \<Rightarrow> (Inl e, st)
      | Inr _ \<Rightarrow> (Inr nextId, jobs_New nextId st))"

definition chartJob :: "'v charts_server \<Rightarrow> string \<Rightarrow> ObjectReference \<Rightarrow> nsname \<Rightarrow> Chart \<Rightarrow> chart_state \<Rightarrow> chart_state" where
  "chartJob s jobId repoRef clusterRef chart st =
     (case GetOrFetchValues s repoRef clusterRef chart (sj_cache st) of
        (Inl e, db) \<Rightarrow> jobs_Set jobId ([], Some e) (st\<lparr> sj_cache := db \<rparr>)
      | (Inr v, db) \<Rightarrow> jobs_Set jobId (v, None) (st\<lparr> sj_cache := db \<rparr>))"

definition GetChartsJob :: "'v charts_server \<Rightarrow> (string \<Rightarrow> bool) \<Rightarrow> string \<Rightarrow> chart_state \<Rightarrow> (string \<times> string) res" where
  "GetChartsJob s expired jobId st =
     (case jobs_Get expired jobId st of
        None \<Rightarrow> Inl (StatusErr ''200'' ''job not found'')
      | Some (result, e) \<Rightarrow> Inr (result, case e of None \<Rightarrow> [] | Some e \<Rightarrow> sc_errorText s e))"

end
