(* ===== verification/ChartFacts.thy ===== *)
theory ChartFacts
  imports ChartHandlers
begin

text \<open>
  The contents of the cache of charts: no chart twice, what loading an index leaves in it,
  the latest version of a chart, and what the tracker and the handlers make of it.
\<close>

section \<open>No chart twice\<close>

definition chartKey :: "chart_row \<Rightarrow> string \<times> string \<times> string \<times> string \<times> string \<times> string" where
  "chartKey r = (hc_name r, hc_version r, hc_repo_name r, hc_repo_namespace r, hc_cluster_name r, hc_cluster_namespace r)"

definition cache_ok :: "chart_table \<Rightarrow> bool" where
  "cache_ok db \<longleftrightarrow> distinct (map chartKey db)"

lemma isChart_key:
  "isChart n v rn rns c r \<longleftrightarrow> chartKey r = (n, v, rn, rns, nn_Name c, nn_Namespace c)"
  by (auto simp: isChart_def inRepo_def inCluster_def chartKey_def)

lemma cache_ok_filter: "cache_ok db \<Longrightarrow> cache_ok (filter P db)"
  by (simp add: cache_ok_def distinct_map_filter)

lemma chartExec_cases: "chartExec F op f db = (e, db') \<Longrightarrow> db' = f db \<or> db' = db"
  by (auto simp: chartExec_def split: option.splits)

lemma chartExec_filter_ok: "cache_ok db \<Longrightarrow> cache_ok (snd (chartExec F op (filter P) db))"
  by (auto simp: chartExec_def cache_ok_filter split: option.splits)

lemma chartQuery_Inr: "chartQuery F op P db = Inr rs \<longleftrightarrow> F op db = None \<and> rs = filter P db"
  by (auto simp: chartQuery_def split: option.splits)

lemma chartKey_row: "chartKey (chartRow n v kind layer c ref) = (n, v, jr_Name ref, jr_Namespace ref, nn_Name c, nn_Namespace c)"
  by (simp add: chartKey_def chartRow_def)

lemma IsKnownChart_Inr:
  "IsKnownChart F c ref chart db = Inr b \<longleftrightarrow> F ''IsKnownChart'' db = None \<and>
     b = ((ch_Name chart, ch_Version chart, jr_Name ref, jr_Namespace ref, nn_Name c, nn_Namespace c) \<in> chartKey ` set db)"
  by (auto simp: IsKnownChart_def bindR_Inr chartQuery_Inr isChart_key image_iff filter_empty_conv dest: sym)

text \<open>Every operation that writes to the cache keeps one row for a version of a chart, in a
  repository of a cluster, whatever the database answers.\<close>

theorem charts_stay_unique:
  assumes "cache_ok db"
  shows "cache_ok (snd (AddChart F name version kind layer clusterRef repoRef db))"
    "cache_ok (snd (RemoveChart F name version clusterRef repoRef db))"
    "cache_ok (snd (UpdateValuesYaml F clusterRef repoRef chart values db))"
    "cache_ok (snd (Delete F repoRef clusterRef db))"
    "cache_ok (snd (DeleteAllChartsForCluster F clusterRef db))"
proof -
  show "cache_ok (snd (AddChart F name version kind layer clusterRef repoRef db))"
  proof (cases "IsKnownChart F clusterRef repoRef \<lparr> ch_Name = name, ch_Version = version, ch_Kind = [], ch_Layer = [] \<rparr> db")
    case (Inr b)
    then show ?thesis
      using assms unfolding IsKnownChart_Inr
      by (auto simp: AddChart_def Inr chartExec_def cache_ok_def chartKey_row split: option.splits)
  qed (simp add: AddChart_def assms)
  have "map chartKey (map (\<lambda>r. if P r then r\<lparr> hc_valuesYaml := v \<rparr> else r) db) = map chartKey db" for P v
    by (simp add: chartKey_def)
  then show "cache_ok (snd (UpdateValuesYaml F clusterRef repoRef chart values db))"
    using assms by (auto simp: UpdateValuesYaml_def chartExec_def cache_ok_def simp del: map_map split: option.splits)
qed (use assms in \<open>simp_all add: RemoveChart_def Delete_def DeleteAllChartsForCluster_def chartExec_filter_ok\<close>)

section \<open>Loading an index\<close>

text \<open>What the filter says of a version: nothing when the version cannot be parsed.\<close>

definition verdict :: "('k, 'w) version_lib \<Rightarrow> 'k option \<Rightarrow> string \<Rightarrow> bool option" where
  "verdict V constraint v =
     (case constraint of None \<Rightarrow> Some True
      | Some k \<Rightarrow> (case vc_ParseVersion V v of Inl e \<Rightarrow> None | Inr w \<Rightarrow> Some (vc_Check V k w)))"

definition noFaults :: chart_faults where "noFaults op db = None"

definition ofSource :: "helm_source \<Rightarrow> nsname \<Rightarrow> chart_row \<Rightarrow> bool" where
  "ofSource hr c r \<longleftrightarrow> inRepo (hy_Name hr) (hy_Namespace hr) c r"

lemma loadChart_cases:
  "loadChart V noFaults c hr constraint n cv db =
     (case verdict V constraint (cv_Version cv) of
        None \<Rightarrow> db
      | Some True \<Rightarrow> if \<exists>r\<in>set db. ofSource hr c r \<and> hc_name r = n \<and> hc_version r = cv_Version cv then db
          else db @ [chartRow n (cv_Version cv) (if Profiles hr cv then ''profile'' else ''chart'') (mget (cv_Annotations cv) LayerAnnotation) c
            \<lparr> jr_Kind = [], jr_APIVersion = [], jr_Name = hy_Name hr, jr_Namespace = hy_Namespace hr \<rparr>]
      | Some False \<Rightarrow> filter (\<lambda>r. \<not> (ofSource hr c r \<and> hc_name r = n \<and> hc_version r = cv_Version cv)) db)"
  by (auto simp: loadChart_def verdict_def AddChart_def RemoveChart_def IsKnownChart_def chartQuery_def chartExec_def noFaults_def isChart_def ofSource_def
    Let_def filter_empty_conv conj_commute conj_left_commute split: option.splits sum.splits intro!: filter_cong)

definition listed :: "(string \<times> chart_version) list \<Rightarrow> chart_row \<Rightarrow> bool" where
  "listed items r \<longleftrightarrow> (\<exists>cv. (hc_name r, cv) \<in> set items \<and> cv_Version cv = hc_version r)"

definition loadItems :: "('k, 'w) version_lib \<Rightarrow> nsname \<Rightarrow> helm_source \<Rightarrow> 'k option \<Rightarrow> (string \<times> chart_version) list \<Rightarrow> chart_table \<Rightarrow> chart_table" where
  "loadItems V c hr constraint items db = foldl (\<lambda>db (n, cv). loadChart V noFaults c hr constraint n cv db) db items"

definition indexItems :: "visit \<Rightarrow> index_file \<Rightarrow> (string \<times> chart_version) list" where
  "indexItems visit index = concat (map (\<lambda>n. map (Pair n) (entriesOf index n)) (visit (dom index)))"

lemma LoadIndex_items:
  "LoadIndex V noFaults visit index c hr db =
     loadItems V c hr (case parseChartFilter V hr of Inl e \<Rightarrow> None | Inr k \<Rightarrow> k) (indexItems visit index) db"
proof -
  have "foldl (\<lambda>db name. foldl (\<lambda>db cv. loadChart V noFaults c hr k name cv db) db (entriesOf index name)) db ns =
      foldl (\<lambda>db (n, cv). loadChart V noFaults c hr k n cv db) db (concat (map (\<lambda>n. map (Pair n) (entriesOf index n)) ns))" for k ns
    by (induction ns arbitrary: db) (simp_all add: foldl_map)
  then show ?thesis by (simp add: LoadIndex_def loadItems_def indexItems_def Let_def)
qed

lemma loadItems_spec:
  fixes V :: "('k, 'w) version_lib" and constraint
  defines "ok \<equiv> \<lambda>r b. verdict V constraint (hc_version r) = Some b"
  shows "(\<forall>r\<in>set db. r \<in> set (loadItems V c hr constraint items db) \<or> ofSource hr c r \<and> listed items r \<and> ok r False) \<and>
    (\<forall>r\<in>set (loadItems V c hr constraint items db). \<not> (ofSource hr c r \<and> listed items r \<and> ok r False) \<and>
       (r \<in> set db \<or> ofSource hr c r \<and> listed items r \<and> ok r True)) \<and>
    (\<forall>(n, cv)\<in>set items. verdict V constraint (cv_Version cv) = Some True \<longrightarrow>
       (\<exists>r\<in>set (loadItems V c hr constraint items db). ofSource hr c r \<and> hc_name r = n \<and> hc_version r = cv_Version cv))"
proof (induction items rule: rev_induct)
  case Nil
  then show ?case by (simp add: loadItems_def listed_def)
next
  case (snoc item items)
  obtain n cv where item: "item = (n, cv)" by force
  define d where "d = loadItems V c hr constraint items db"
  have step: "loadItems V c hr constraint (items @ [item]) db = loadChart V noFaults c hr constraint n cv d"
    by (simp add: loadItems_def d_def item)
  have listed: "listed (items @ [item]) r \<longleftrightarrow> listed items r \<or> hc_name r = n \<and> hc_version r = cv_Version cv" for r
    by (auto simp: listed_def item)
  have new: "ofSource hr c (chartRow n (cv_Version cv) kind layer c \<lparr> jr_Kind = [], jr_APIVersion = [], jr_Name = hy_Name hr, jr_Namespace = hy_Namespace hr \<rparr>)"
    "hc_name (chartRow n (cv_Version cv) kind layer c ref) = n" "hc_version (chartRow n (cv_Version cv) kind layer c ref) = cv_Version cv" for kind layer ref
    by (simp_all add: ofSource_def inRepo_def inCluster_def chartRow_def)
  note IH = snoc.IH [folded d_def]
  have here: "ok r b \<longleftrightarrow> verdict V constraint (cv_Version cv) = Some b" if "hc_version r = cv_Version cv" for r b
    using that by (simp add: ok_def)
  have keep: "\<forall>r\<in>set db. r \<in> set d \<or> ofSource hr c r \<and> listed items r \<and> ok r False"
    and gone: "\<forall>r\<in>set d. \<not> (ofSource hr c r \<and> listed items r \<and> ok r False)"
    and source: "\<forall>r\<in>set d. r \<in> set db \<or> ofSource hr c r \<and> listed items r \<and> ok r True"
    and all: "\<forall>(n, cv)\<in>set items. verdict V constraint (cv_Version cv) = Some True \<longrightarrow>
      (\<exists>r\<in>set d. ofSource hr c r \<and> hc_name r = n \<and> hc_version r = cv_Version cv)"
    using snoc.IH [folded d_def] by blast+
  consider "verdict V constraint (cv_Version cv) = None" | "verdict V constraint (cv_Version cv) = Some True"
    | "verdict V constraint (cv_Version cv) = Some False"
    by (metis option.exhaust bool.exhaust)
  then show ?case
  proof cases
    case 1
    then have "loadItems V c hr constraint (items @ [item]) db = d" by (simp add: step loadChart_cases)
    moreover have "listed (items @ [item]) r \<and> ok r b \<longleftrightarrow> listed items r \<and> ok r b" for r b
      using here 1 by (auto simp: listed)
    ultimately show ?thesis using keep gone source all 1 by (auto simp: item)
  next
    case 2
    define row where "row = chartRow n (cv_Version cv) (if Profiles hr cv then ''profile'' else ''chart'') (mget (cv_Annotations cv) LayerAnnotation) c
      \<lparr> jr_Kind = [], jr_APIVersion = [], jr_Name = hy_Name hr, jr_Namespace = hy_Namespace hr \<rparr>"
    define extra where "extra = (if \<exists>r\<in>set d. ofSource hr c r \<and> hc_name r = n \<and> hc_version r = cv_Version cv then [] else [row])"
    have d': "loadItems V c hr constraint (items @ [item]) db = d @ extra"
    proof (cases "\<exists>r\<in>set d. ofSource hr c r \<and> hc_name r = n \<and> hc_version r = cv_Version cv")
      case True
      then show ?thesis unfolding step loadChart_cases extra_def using 2 by simp
    next
      case False
      then show ?thesis unfolding step loadChart_cases extra_def row_def using 2 by simp
    qed
    have "ofSource hr c row \<and> hc_name row = n \<and> hc_version row = cv_Version cv" by (simp add: row_def new)
    then have extra: "\<forall>r\<in>set extra. ofSource hr c r \<and> hc_name r = n \<and> hc_version r = cv_Version cv"
      and there: "\<exists>r\<in>set (d @ extra). ofSource hr c r \<and> hc_name r = n \<and> hc_version r = cv_Version cv"
      by (auto simp: extra_def)
    have "listed (items @ [item]) r \<and> ok r False \<longleftrightarrow> listed items r \<and> ok r False" for r
      using here 2 by (auto simp: listed)
    moreover have "ok r True \<and> \<not> ok r False" if "r \<in> set extra" for r using here extra that 2 by auto
    ultimately have "\<forall>r\<in>set db. r \<in> set (d @ extra) \<or> ofSource hr c r \<and> listed (items @ [item]) r \<and> ok r False"
      "\<forall>r\<in>set (d @ extra). \<not> (ofSource hr c r \<and> listed (items @ [item]) r \<and> ok r False)"
      "\<forall>r\<in>set (d @ extra). r \<in> set db \<or> ofSource hr c r \<and> listed (items @ [item]) r \<and> ok r True"
      using keep gone source extra by (simp, blast, auto simp: listed)
    moreover have "\<forall>(m, cw)\<in>set (items @ [item]). verdict V constraint (cv_Version cw) = Some True \<longrightarrow>
      (\<exists>r\<in>set (d @ extra). ofSource hr c r \<and> hc_name r = m \<and> hc_version r = cv_Version cw)"
      using all there unfolding item by fastforce
    ultimately show ?thesis unfolding d' by blast
  next
    case 3
    then have d': "loadItems V c hr constraint (items @ [item]) db =
        filter (\<lambda>r. \<not> (ofSource hr c r \<and> hc_name r = n \<and> hc_version r = cv_Version cv)) d"
      by (simp add: step loadChart_cases)
    have same: "listed (items @ [item]) r \<and> ok r True \<longleftrightarrow> listed items r \<and> ok r True" for r
    proof -
      have "\<not> ok r True" if "hc_version r = cv_Version cv" using here [OF that, of True] 3 by simp
      then show ?thesis unfolding listed by blast
    qed
    have "ok r False" if "hc_name r = n" "hc_version r = cv_Version cv" for r using here 3 that by auto
    then have "\<forall>r\<in>set db. r \<in> set (loadItems V c hr constraint (items @ [item]) db) \<or>
        ofSource hr c r \<and> listed (items @ [item]) r \<and> ok r False"
      using keep unfolding d' by (auto simp: listed)
    moreover have "\<forall>r\<in>set (loadItems V c hr constraint (items @ [item]) db).
        \<not> (ofSource hr c r \<and> listed (items @ [item]) r \<and> ok r False)"
      using gone unfolding d' listed set_filter by blast
    moreover have "\<forall>r\<in>set (loadItems V c hr constraint (items @ [item]) db).
        r \<in> set db \<or> ofSource hr c r \<and> listed (items @ [item]) r \<and> ok r True"
      using source unfolding d' set_filter same by blast
    moreover have "\<forall>(m, cw)\<in>set (items @ [item]). verdict V constraint (cv_Version cw) = Some True \<longrightarrow>
      (\<exists>r\<in>set (loadItems V c hr constraint (items @ [item]) db). ofSource hr c r \<and> hc_name r = m \<and> hc_version r = cv_Version cw)"
    proof (intro ballI, clarify)
      fix m cw
      assume cw: "(m, cw) \<in> set (items @ [item])" "verdict V constraint (cv_Version cw) = Some True"
      then have "(m, cw) \<in> set items" using 3 by (auto simp: item)
      then obtain r where r: "r \<in> set d" "ofSource hr c r" "hc_name r = m" "hc_version r = cv_Version cw"
        using all cw(2) by blast
      moreover have "hc_version r \<noteq> cv_Version cv" using cw(2) 3 r(4) by auto
      ultimately show "\<exists>r\<in>set (loadItems V c hr constraint (items @ [item]) db). ofSource hr c r \<and> hc_name r = m \<and> hc_version r = cv_Version cw"
        unfolding d' by (intro bexI [of _ r]) simp_all
    qed
    ultimately show ?thesis by blast
  qed
qed

text \<open>C14: After an index has been loaded without a fault of the database the cache has every
  accepted version of the index and no rejected one, for this repository of this cluster;
  every other row is there as before, so a version that the index does not list any more
  stays, and a row that was there keeps its kind and its layer.\<close>

theorem load_index_spec:
  assumes "visit_ok visit" "finite (dom index)"
    and "parseChartFilter V hr = Inr constraint \<or> (\<exists>e. parseChartFilter V hr = Inl e) \<and> constraint = None"
  shows "let db' = LoadIndex V noFaults visit index clusterRef hr db;
      judged = (\<lambda>r b. ofSource hr clusterRef r \<and> hc_version r \<in> cv_Version ` set (entriesOf index (hc_name r)) \<and>
        verdict V constraint (hc_version r) = Some b)
    in (\<forall>r. r \<in> set db' \<longrightarrow> \<not> judged r False \<and> (r \<in> set db \<or> judged r True)) \<and>
      (\<forall>r\<in>set db. \<not> judged r False \<longrightarrow> r \<in> set db') \<and>
      (\<forall>n. \<forall>cv\<in>set (entriesOf index n). verdict V constraint (cv_Version cv) = Some True \<longrightarrow>
         (\<exists>r\<in>set db'. ofSource hr clusterRef r \<and> hc_name r = n \<and> hc_version r = cv_Version cv))"
proof -
  have items: "(n, cv) \<in> set (indexItems visit index) \<longleftrightarrow> cv \<in> set (entriesOf index n)" for n cv
  proof -
    have "n \<in> dom index" if "cv \<in> set (entriesOf index n)" using that by (cases "index n") (auto simp: entriesOf_def)
    moreover have "set (visit (dom index)) = dom index" using assms(1,2) by (simp add: visit_ok_def)
    ultimately show ?thesis by (auto simp: indexItems_def)
  qed
  have "(case parseChartFilter V hr of Inl e \<Rightarrow> None | Inr k \<Rightarrow> k) = constraint" using assms(3) by auto
  then have db': "LoadIndex V noFaults visit index clusterRef hr db = loadItems V clusterRef hr constraint (indexItems visit index) db"
    by (simp add: LoadIndex_items)
  have listed: "listed (indexItems visit index) r \<longleftrightarrow> hc_version r \<in> cv_Version ` set (entriesOf index (hc_name r))" for r
    by (auto simp: listed_def items intro!: rev_image_eqI)
  show ?thesis
    unfolding Let_def db' using loadItems_spec [of db V clusterRef hr constraint "indexItems visit index"]
    by (auto simp: listed items)
qed

section \<open>The latest version\<close>

lemma sortSlice_first:
  assumes "\<forall>x\<in>set xs. \<forall>y\<in>set xs. \<forall>z\<in>set xs. lt x y \<longrightarrow> \<not> lt z y \<longrightarrow> lt x z" "\<forall>x\<in>set xs. \<forall>y\<in>set xs. lt x y \<longrightarrow> \<not> lt y x" "xs \<noteq> []"
  shows "sortSlice lt xs ! 0 \<in> set xs \<and> (\<forall>y\<in>set xs. \<not> lt y (sortSlice lt xs ! 0))"
  using assms
proof (induction xs)
  case (Cons x xs)
  show ?case
  proof (cases "xs = []")
    case True
    with Cons.prems show ?thesis by (simp add: sortSlice_def)
  next
    case False
    obtain y ys where s: "sortSlice lt xs = y # ys"
      using False by (metis list.exhaust length_sortSlice length_0_conv)
    have sub: "set xs \<subseteq> set (x # xs)" by (rule set_subset_Cons)
    have "sortSlice lt xs ! 0 \<in> set xs \<and> (\<forall>z\<in>set xs. \<not> lt z (sortSlice lt xs ! 0))"
      by (rule Cons.IH [OF _ _ False]) (use Cons.prems sub in \<open>blast+\<close>)
    then have y: "y \<in> set xs" "\<forall>z\<in>set xs. \<not> lt z y"
      unfolding s by simp_all
    have "sortSlice lt (x # xs) ! 0 = (if lt y x then y else x)" using s by (simp add: sortSlice_def)
    moreover have "\<not> lt x y" if "lt y x" using Cons.prems(2) y(1) that by simp
    moreover have "\<not> lt z x" if "\<not> lt y x" "z \<in> set xs" for z
    proof
      assume "lt z x"
      then have "lt z y"
        by (rule Cons.prems(1) [THEN bspec, THEN bspec, THEN bspec, rule_format, rotated 3]) (use y(1) that in simp_all)
      then show False using y(2) that by blast
    qed
    moreover have "\<not> lt x x" using Cons.prems(2) by auto
    ultimately show ?thesis using y by (cases "lt y x") (simp_all only: if_True if_False list.set ball_simps insert_iff simp_thms, blast+)
  qed
qed simp

text \<open>The order of versions is a strict weak one.\<close>

definition semver_ok :: "'v semver_lib \<Rightarrow> bool" where
  "semver_ok L \<longleftrightarrow> (\<forall>v w. vs_Less L v w \<longrightarrow> \<not> vs_Less L w v) \<and> (\<forall>u v w. vs_Less L u v \<longrightarrow> vs_Less L u w \<or> vs_Less L w v)"

lemma ReverseSemVerSort_first:
  assumes "semver_ok L" "ReverseSemVerSort L versions = Inr ss" "versions \<noteq> []"
  shows "\<exists>r\<in>set versions. \<exists>v. vs_New L r = Inr v \<and> ss ! 0 = vs_String L v \<and>
    (\<forall>r'\<in>set versions. \<exists>v'. vs_New L r' = Inr v' \<and> \<not> vs_Less L v v')"
proof -
  obtain vs where vs: "list_all2 (\<lambda>r v. vs_New L r = Inr v) versions vs"
    and ss: "ss = map (vs_String L) (sortSlice (\<lambda>v w. vs_Less L w v) vs)"
    using assms(2) by (auto simp: ReverseSemVerSort_def bindR_Inr mapRes_Inr wrapR_Inr)
  have ne: "vs \<noteq> []" using vs assms(3) by auto
  let ?v = "sortSlice (\<lambda>v w. vs_Less L w v) vs ! 0"
  have first: "?v \<in> set vs \<and> (\<forall>y\<in>set vs. \<not> vs_Less L ?v y)"
    by (rule sortSlice_first [OF _ _ ne]) (use assms(1) in \<open>unfold semver_ok_def, blast+\<close>)
  have "ss ! 0 = vs_String L ?v" using ne unfolding ss by (simp add: nth_map)
  moreover obtain r where "r \<in> set versions" "vs_New L r = Inr ?v" using list_all2_right [OF vs] first by blast
  moreover have "\<exists>v'. vs_New L r' = Inr v' \<and> \<not> vs_Less L ?v v'" if "r' \<in> set versions" for r'
  proof -
    have "\<exists>v'\<in>set vs. vs_New L r' = Inr v'" using vs that by (auto simp: list_all2_conv_all_nth in_set_conv_nth)
    with first show ?thesis by blast
  qed
  ultimately show ?thesis by blast
qed

text \<open>C26: The latest version of a known chart is the normal form of a stored version that no
  stored version exceeds. When the normal form is not itself stored, the cache has no layer
  for it, and the charts of a profile lose theirs.\<close>

theorem latest_version_spec:
  assumes "semver_ok L" "GetLatestVersion L F clusterRef repoRef name db = Inr latest"
    and "versions = {hc_version r |r. r \<in> set db \<and> hc_name r = name \<and> inRepo (nn_Name repoRef) (nn_Namespace repoRef) clusterRef r}"
  shows "(versions = {} \<longrightarrow> latest = []) \<and>
    (versions \<noteq> {} \<longrightarrow> (\<exists>r\<in>versions. \<exists>v. vs_New L r = Inr v \<and> latest = vs_String L v \<and>
       (\<forall>r'\<in>versions. \<exists>v'. vs_New L r' = Inr v' \<and> \<not> vs_Less L v v'))) \<and>
    (latest \<notin> versions \<longrightarrow> (\<forall>layer. GetLayer F clusterRef repoRef name latest db = Inr layer \<longrightarrow> layer = []))"
proof -
  let ?P = "\<lambda>r. hc_name r = name \<and> inRepo (nn_Name repoRef) (nn_Namespace repoRef) clusterRef r"
  have vs: "set (map hc_version (filter ?P db)) = versions" using assms(3) by auto
  have run: "if filter ?P db = [] then latest = [] else (\<exists>ss. ReverseSemVerSort L (map hc_version (filter ?P db)) = Inr ss \<and> latest = ss ! 0)"
    using assms(2) by (auto simp: GetLatestVersion_def bindR_Inr chartQuery_Inr wrapR_Inr Let_def)
  have "layer = []" if "latest \<notin> versions" "GetLayer F clusterRef repoRef name latest db = Inr layer" for layer
  proof -
    have "filter (isChart name latest (nn_Name repoRef) (nn_Namespace repoRef) clusterRef) db = []"
      using that(1) unfolding vs [symmetric] by (auto simp: filter_empty_conv isChart_def)
    then show ?thesis using that(2) by (auto simp: GetLayer_def bindR_Inr chartQuery_Inr)
  qed
  moreover have "\<exists>r\<in>versions. \<exists>v. vs_New L r = Inr v \<and> latest = vs_String L v \<and> (\<forall>r'\<in>versions. \<exists>v'. vs_New L r' = Inr v' \<and> \<not> vs_Less L v v')"
    if "versions \<noteq> {}"
  proof -
    have "\<exists>x. x \<in> versions" using that by blast
    then obtain x where "x \<in> set (map hc_version (filter ?P db))" unfolding vs by (rule exE)
    then have ne: "filter ?P db \<noteq> []" by (cases "filter ?P db") simp_all
    then obtain ss where s: "ReverseSemVerSort L (map hc_version (filter ?P db)) = Inr ss" "latest = ss ! 0" using run by auto
    from ReverseSemVerSort_first [OF assms(1) s(1)] ne show ?thesis unfolding vs s(2) by simp
  qed
  moreover have "latest = []" if "versions = {}"
  proof -
    have "set (map hc_version (filter ?P db)) = {}" unfolding vs by (rule that)
    then have "filter ?P db = []" by (simp only: set_empty map_is_Nil_conv)
    then show ?thesis using run by simp
  qed
  ultimately show ?thesis by blast
qed

section \<open>The tracker\<close>

text \<open>Every watcher that was started is in the map or has been stopped.\<close>

definition none_lost :: "'w tracker \<Rightarrow> bool" where
  "none_lost s \<longleftrightarrow> set (tk_Started s) = ran (tk_ClusterWatchers s) \<union> set (tk_Stopped s)"

lemma addCluster_keeps: "none_lost s \<Longrightarrow> addCluster E cl s = (e, s') \<Longrightarrow> none_lost s' \<and> tk_Cache s' = tk_Cache s"
  by (auto simp: addCluster_def Let_def none_lost_def split: if_splits sum.splits)

lemma addClusters_keeps: "none_lost s \<Longrightarrow> addClusters E cls s = (e, s') \<Longrightarrow> none_lost s' \<and> tk_Cache s' = tk_Cache s"
  unfolding addClusters_def
proof (induction cls arbitrary: s)
  case (Cons cl cls)
  obtain e1 s1 where step: "addCluster E cl s = (e1, s1)" by force
  with addCluster_keeps [OF Cons.prems(1) step] Cons show ?case by (cases e1) auto
qed simp

lemma ran_drop: "m k = Some w \<Longrightarrow> ran m = insert w (ran (m(k := None)))"
  using ran_map_upd [of "m(k := None)" k w] by (simp add: fun_upd_idem)

lemma removeCluster_keeps: "none_lost s \<Longrightarrow> none_lost (removeCluster E n s)"
  by (auto simp: removeCluster_def none_lost_def dest: ran_drop split: option.splits)

lemma removeClusters_keeps: "none_lost s \<Longrightarrow> none_lost (foldl (\<lambda>s n. removeCluster E n s) s ns)"
  by (induction ns arbitrary: s) (simp_all add: removeCluster_keeps)

lemma trackUpdate_keeps: "none_lost s \<Longrightarrow> none_lost (trackUpdate E u s)"
  unfolding trackUpdate_def using addClusters_keeps [of s E "up_Added u"] by (metis prod.collapse removeClusters_keeps)

text \<open>C27: Whatever clusters come and go, and whatever fails on the way, the tracker loses no
  watcher: at any time the ones that were started are those in the map and the stopped ones.\<close>

theorem tracker_loses_no_watcher:
  "tracker_Start E clusters updates \<lparr> tk_ClusterWatchers = Map.empty, tk_Started = [], tk_Stopped = [], tk_Cache = db \<rparr> = (e, s) \<Longrightarrow>
   set (tk_Started s) = ran (tk_ClusterWatchers s) \<union> set (tk_Stopped s)"
proof -
  let ?s0 = "\<lparr> tk_ClusterWatchers = Map.empty, tk_Started = [], tk_Stopped = [], tk_Cache = db \<rparr>"
  assume run: "tracker_Start E clusters updates ?s0 = (e, s)"
  obtain e1 s1 where first: "addClusters E clusters ?s0 = (e1, s1)" by force
  have "none_lost ?s0" by (simp add: none_lost_def)
  then have s1: "none_lost s1" using addClusters_keeps [OF _ first] by blast
  have "none_lost (foldl (\<lambda>s u. trackUpdate E u s) s1 updates)"
    using s1 by (induction updates arbitrary: s1) (simp_all add: trackUpdate_keeps)
  then have "none_lost s" using run first s1 by (auto simp: tracker_Start_def split: option.splits)
  then show ?thesis by (simp add: none_lost_def)
qed

lemma removeCluster_other: "removeCluster E n s = s' \<Longrightarrow> m \<noteq> n \<Longrightarrow> tk_ClusterWatchers s' m = tk_ClusterWatchers s m"
  by (auto simp: removeCluster_def split: option.splits)

lemma removeCluster_step:
  assumes "te_faults E = noFaults"
  shows "tk_ClusterWatchers (removeCluster E m s) = (tk_ClusterWatchers s)(m := None)"
    and "tk_Cache (removeCluster E m s) = filter (\<lambda>r. tk_ClusterWatchers s m = None \<or> \<not> inCluster (FromClusterName m) r) (tk_Cache s)"
  by (auto simp: removeCluster_def DeleteAllChartsForCluster_def chartExec_def assms noFaults_def split: option.splits)

lemma removeClusters_watchers:
  assumes "te_faults E = noFaults"
  shows "tk_ClusterWatchers (foldl (\<lambda>s n. removeCluster E n s) s ns) = (\<lambda>n. if n \<in> set ns then None else tk_ClusterWatchers s n)"
  by (induction ns arbitrary: s) (auto simp: removeCluster_step [OF assms])

lemma removeClusters_cache:
  assumes "te_faults E = noFaults"
  shows "r \<in> set (tk_Cache (foldl (\<lambda>s n. removeCluster E n s) s ns)) \<longleftrightarrow>
    r \<in> set (tk_Cache s) \<and> (\<forall>m\<in>set ns. tk_ClusterWatchers s m \<noteq> None \<longrightarrow> \<not> inCluster (FromClusterName m) r)"
  by (induction ns arbitrary: s) (auto simp: removeCluster_step [OF assms])

text \<open>When a cluster that has a watcher is removed, its watcher leaves the map and all of its
  charts leave the cache; the charts of the clusters that stay are untouched.\<close>

theorem removed_cluster_forgotten:
  assumes "te_faults E = noFaults" "none_lost s" "n \<in> set (up_Removed u)" "addClusters E (up_Added u) s = (e, s1)"
    and "tk_ClusterWatchers s1 n \<noteq> None"
  shows "tk_ClusterWatchers (trackUpdate E u s) n = None \<and>
    (\<forall>r\<in>set (tk_Cache (trackUpdate E u s)). \<not> inCluster (FromClusterName n) r) \<and>
    (\<forall>r\<in>set (tk_Cache s). (\<forall>m\<in>set (up_Removed u). \<not> inCluster (FromClusterName m) r) \<longrightarrow> r \<in> set (tk_Cache (trackUpdate E u s)))"
  using addClusters_keeps [OF assms(2,4)] assms(3-5)
  by (simp add: trackUpdate_def removeClusters_watchers [OF assms(1)] removeClusters_cache [OF assms(1)])

section \<open>Listing charts\<close>

definition versionsOf :: "Chart list \<Rightarrow> string \<Rightarrow> string list" where
  "versionsOf charts n = map ch_Version (filter (\<lambda>c. ch_Name c = n) charts)"

lemma chartsWithVersions_eq:
  "chartsWithVersions charts n = (if n \<in> ch_Name ` set charts then Some (versionsOf charts n) else None)"
proof (induction charts arbitrary: n rule: rev_induct)
  case Nil
  show ?case by (simp add: chartsWithVersions_def)
next
  case (snoc c cs)
  have step: "chartsWithVersions (cs @ [c]) = (chartsWithVersions cs)(ch_Name c \<mapsto>
      (case chartsWithVersions cs (ch_Name c) of None \<Rightarrow> [] | Some vs \<Rightarrow> vs) @ [ch_Version c])"
    by (simp add: chartsWithVersions_def)
  have none: "filter (\<lambda>x. ch_Name x = ch_Name c) cs = []" if "ch_Name c \<notin> ch_Name ` set cs"
    unfolding filter_empty_conv
  proof
    fix x assume "x \<in> set cs"
    with that show "ch_Name x \<noteq> ch_Name c" by (metis imageI)
  qed
  show ?case
    unfolding step by (auto simp: snoc.IH none versionsOf_def)
qed

section \<open>Examples\<close>

text \<open>A repository with a filter that lets the version 2 through.\<close>

definition appVersions :: "(unit, string) version_lib" where
  "appVersions = \<lparr> vc_NewConstraint = (\<lambda>_. Inr ()), vc_ParseVersion = (\<lambda>v. Inr v), vc_Check = (\<lambda>_ v. v = ''2'') \<rparr>"

definition appSource :: helm_source where
  "appSource = \<lparr> hy_Name = ''repo'', hy_Namespace = ''ns'', hy_Annotations = [HelmVersionFilterAnnotation \<mapsto> ''2''], hy_Generation = 1,
     hy_Deleting = False, hy_Artifact = None \<rparr>"

definition appIndex :: index_file where
  "appIndex = [''app'' \<mapsto> [\<lparr> cv_Version = ''1'', cv_Annotations = Map.empty \<rparr>, \<lparr> cv_Version = ''2'', cv_Annotations = Map.empty \<rparr>]]"

definition appCluster :: nsname where
  "appCluster = createNamespacedName ''c'' []"

definition appRow :: "string \<Rightarrow> string \<Rightarrow> chart_row" where
  "appRow name version = chartRow name version ''chart'' [] appCluster
     \<lparr> jr_Kind = [], jr_APIVersion = [], jr_Name = ''repo'', jr_Namespace = ''ns'' \<rparr>"

lemma app_ofSource: "ofSource appSource appCluster (appRow n v)" "hc_name (appRow n v) = n" "hc_version (appRow n v) = v"
  by (simp_all add: ofSource_def inRepo_def inCluster_def appRow_def chartRow_def appSource_def)

lemma app_filter: "parseChartFilter appVersions appSource = Inr (Some ())" "verdict appVersions (Some ()) v = Some (v = ''2'')"
  by (simp_all add: parseChartFilter_def filterAnnotation_def appSource_def appVersions_def mget_def verdict_def)

lemma app_entries: "cv_Version ` set (entriesOf appIndex n) = (if n = ''app'' then {''1'', ''2''} else {})"
  by (force simp: entriesOf_def appIndex_def image_iff)

theorem load_index_spec_witness:
  "\<exists>db'. LoadIndex appVersions noFaults sorted_list_of_set appIndex appCluster appSource [appRow ''app'' ''1'', appRow ''gone'' ''1''] = db' \<and>
     appRow ''app'' ''1'' \<notin> set db' \<and> appRow ''gone'' ''1'' \<in> set db' \<and> (\<exists>r\<in>set db'. hc_name r = ''app'' \<and> hc_version r = ''2'')"
proof -
  let ?db = "[appRow ''app'' ''1'', appRow ''gone'' ''1'']"
  let ?db' = "LoadIndex appVersions noFaults sorted_list_of_set appIndex appCluster appSource ?db"
  have "visit_ok sorted_list_of_set" "finite (dom appIndex)" by (simp_all add: visit_ok_def appIndex_def)
  note spec = load_index_spec [OF this, of appVersions appSource "Some ()" appCluster ?db, unfolded Let_def app_filter app_entries]
  have gone: "\<forall>r. r \<in> set ?db' \<longrightarrow> \<not> (ofSource appSource appCluster r \<and> hc_version r \<in> (if hc_name r = ''app'' then {''1'', ''2''} else {}) \<and>
      Some (hc_version r = ''2'') = Some False)"
    and kept: "\<forall>r\<in>set ?db. \<not> (ofSource appSource appCluster r \<and> hc_version r \<in> (if hc_name r = ''app'' then {''1'', ''2''} else {}) \<and>
      Some (hc_version r = ''2'') = Some False) \<longrightarrow> r \<in> set ?db'"
    and added: "\<forall>n. \<forall>cv\<in>set (entriesOf appIndex n). Some (cv_Version cv = ''2'') = Some True \<longrightarrow>
      (\<exists>r\<in>set ?db'. ofSource appSource appCluster r \<and> hc_name r = n \<and> hc_version r = cv_Version cv)"
    using spec by blast+
  have "\<lparr> cv_Version = ''2'', cv_Annotations = Map.empty \<rparr> \<in> set (entriesOf appIndex ''app'')" by (simp add: entriesOf_def appIndex_def)
  with added have "\<exists>r\<in>set ?db'. hc_name r = ''app'' \<and> hc_version r = ''2''" by fastforce
  moreover have "appRow ''app'' ''1'' \<notin> set ?db'" using gone [rule_format, of "appRow ''app'' ''1''"] by (auto simp: app_ofSource)
  moreover have "appRow ''gone'' ''1'' \<in> set ?db'" using kept by (simp add: app_ofSource)
  ultimately show ?thesis by blast
qed

text \<open>A version with a v in front; its normal form has none.\<close>

definition vSemver :: "string semver_lib" where
  "vSemver = \<lparr> vs_New = (\<lambda>s. Inr (if prefix ''v'' s then tl s else s)), vs_String = id, vs_Less = stringLess \<rparr>"

lemma vSemver_ok: "semver_ok vSemver"
  using stringLess_total stringLess_trans stringLess_irrefl unfolding semver_ok_def vSemver_def by (simp, metis)

definition layeredRow :: chart_row where
  "layeredRow = chartRow ''app'' ''v1'' ''profile'' ''layer-0'' appCluster \<lparr> jr_Kind = [], jr_APIVersion = [], jr_Name = ''repo'', jr_Namespace = ''ns'' \<rparr>"

theorem latest_version_spec_witness:
  "GetLatestVersion vSemver noFaults appCluster (createNamespacedName ''repo'' ''ns'') ''app'' [layeredRow] = Inr ''1'' \<and>
   GetLayer noFaults appCluster (createNamespacedName ''repo'' ''ns'') ''app'' ''1'' [layeredRow] = Inr [] \<and> hc_layer layeredRow = Some ''layer-0''"
proof -
  let ?repo = "createNamespacedName ''repo'' ''ns''"
  have row: "hc_name layeredRow = ''app''" "hc_version layeredRow = ''v1''" "inRepo ''repo'' ''ns'' appCluster layeredRow" "hc_layer layeredRow = Some ''layer-0''"
    by (simp_all add: layeredRow_def chartRow_def inRepo_def inCluster_def)
  have latest: "GetLatestVersion vSemver noFaults appCluster ?repo ''app'' [layeredRow] = Inr ''1''"
    by (simp add: GetLatestVersion_def chartQuery_def noFaults_def row createNamespacedName_def ReverseSemVerSort_def vSemver_def sortSlice_def Let_def)
  have vs: "{hc_version r |r. r \<in> set [layeredRow] \<and> hc_name r = ''app'' \<and> inRepo (nn_Name ?repo) (nn_Namespace ?repo) appCluster r} = {''v1''}"
    by (auto simp: row createNamespacedName_def)
  obtain layer where layer: "GetLayer noFaults appCluster ?repo ''app'' ''1'' [layeredRow] = Inr layer"
    by (simp add: GetLayer_def chartQuery_def noFaults_def)
  then have "layer = []" using latest_version_spec [OF vSemver_ok latest refl] unfolding vs by simp
  with latest layer row(4) show ?thesis by simp
qed

definition namedTracker :: "(string, string) tracker_env" where
  "namedTracker = \<lparr> te_ManagementClusterName = ''management'', te_newWatcher = (\<lambda>c n b. Inr (nn_Name n)), te_faults = noFaults \<rparr>"

definition namedCluster :: "string \<Rightarrow> string tracked_cluster" where
  "namedCluster n = \<lparr> tc_Name = n, tc_Config = Inr n \<rparr>"

theorem tracker_loses_no_watcher_witness:
  "\<exists>s. tracker_Start namedTracker [namedCluster ''a'', namedCluster ''b''] [\<lparr> up_Added = [namedCluster ''c''], up_Removed = [''a''] \<rparr>]
       \<lparr> tk_ClusterWatchers = Map.empty, tk_Started = [], tk_Stopped = [], tk_Cache = [] \<rparr> = (None, s) \<and>
     tk_Stopped s = [''a''] \<and> {''a'', ''b'', ''c''} = ran (tk_ClusterWatchers s) \<union> {''a''}"
proof -
  obtain s where run: "tracker_Start namedTracker [namedCluster ''a'', namedCluster ''b''] [\<lparr> up_Added = [namedCluster ''c''], up_Removed = [''a''] \<rparr>]
       \<lparr> tk_ClusterWatchers = Map.empty, tk_Started = [], tk_Stopped = [], tk_Cache = [] \<rparr> = (None, s)"
    and s: "tk_Started s = [''a'', ''b'', ''c'']" "tk_Stopped s = [''a'']"
    by (simp add: tracker_Start_def addClusters_def addCluster_def namedTracker_def namedCluster_def trackUpdate_def removeCluster_def
      DeleteAllChartsForCluster_def chartExec_def noFaults_def FromClusterName_def createNamespacedName_def Let_def)
  from tracker_loses_no_watcher [OF run] run s show ?thesis by (intro exI [of _ s]) simp
qed

end
