(* ===== verification/Spec2Isabelle.thy ===== *)
theory Spec2Isabelle
  imports QueryServer TenancyFacts EstimationFacts IndexMapping TemplateFacts TemplateMeta Namespaces HelmReleases
    TemplateServerFacts GitProviders ClusterFacts PullRequestFacts AutomationFacts ChartFacts
begin

text \<open>
  A verification development for Weave GitOps Enterprise. The Go packages that decide
  something are translated definition by definition; the theorems are about those
  definitions. All paths below are under src/.

  \<^bold>\<open>Conventions.\<close> Prelude has the errors of Go as values: a fallible result is an element
  of goerror + 'a, a panic is the error Panic, and wrap stands for fmt.Errorf with the verb
  w and lets a panic through. A handler that mutates something maps a state to a result and
  the state that it has reached, on its error paths too. A struct is a record, with a field
  prefix of its own; a pointer that may be nil is an option and deref its dereference; a
  map is a partial map. A range over a map goes through a parameter of type visit, any
  order of the keys; sorting (Sorting) is insertion sort with the comparison of the source.
  A library that is not in the repository is a record of functions, and what is assumed of
  it is a predicate such as gorm\_ok, host\_ok or semver\_ok, shown to hold of a small
  instance beside the theorems that use it.

  \<^bold>\<open>The explorer\<close> (pkg/query). Collectors of a cluster turn watched objects into
  transactions; they write objects, roles and bindings to a store and objects to an index; a
  query searches the index and keeps what the user may read.
  \<^item> Kube, ObjectKinds, Models, Adapters: Kubernetes objects, configuration/objectkind.go,
    internal/models and internal/adapters. Supported kinds pass validation, and roles survive
    storage but for what is named there.
  \<^item> Rbac, AccessRules: rbac/rbac.go, accesschecker and the derivation of access rules. The
    memoising lister gives the decisions of a search of the plain tables; clusters are
    isolated.
  \<^item> Store (the tables and the contract of the store), SqliteStore (store/sqlite.go over
    gorm), MemDb (a database that satisfies the contract), Iterators, StoreFacts: storing is
    all or nothing, rows are valid under their own identifier.
  \<^item> Indexer, IndexInterface, IndexMapping, IndexFacts: store/indexer.go over bleve. A search
    gives every matching document once.
  \<^item> QueryService, QueryFacts, QueryServer: query.go and server/server.go. An answer holds
    stored, matching and readable objects only; without paging it holds all of them.
  \<^item> Collectors, CollectorFacts, Watching, Cleaner: the collectors, their reconciler and
    watcher, the supervision of the watchers as a step relation with one step for each
    critical section, and the cleaner. Processing transactions refines the description of
    the tables that they give.

  \<^bold>\<open>Tenancy\<close> (pkg/tenancy): Tenancy, TenancyPolicies, TenancyApply, TenancyJson, TenancyFacts.
  Validation and generation of a tenant's resources, the loop that applies and prunes them,
  and the Rego policies. Resources are confined to their tenant; when tenants share no
  namespace, applying them leaves every generated one in the cluster, and what is pruned,
  with the contents of pruned namespaces, takes none of them with it.

  \<^bold>\<open>Cost estimation\<close> (pkg/estimation): Estimation, Pricers, EstimationFacts. The estimate of a
  rendered template, the CSV and the AWS pricers. Floats are a parameter, with
  the laws that a theorem needs as its hypotheses; sums may be rounded, and a small
  arithmetic shows that the ends of an estimate can cross. The AWS pages are a partial function, and the theorem on it says when it returns.

  \<^bold>\<open>Templates\<close> (cmd/clusters-service/pkg/templates, pkg/server/templates.go and helpers.go):
  TextParser, Templates, TemplateMeta, TemplateFacts are the processors, parameters and
  rendering; Namespaces is the management fetcher with the cache of the users' namespaces;
  HelmReleases is the layering of cmd/clusters-service/pkg/charts, for profile templates
  that leave names and dependencies alone; Paths, ClusterFiles,
  Base64, Credentials, ProfileFiles, ProfileFacts make the files of a cluster; TemplateServer
  is GetFiles and TemplateHandlers the handlers; TemplateServerFacts is about both.

  \<^bold>\<open>Git\<close> (pkg/git, cmd/clusters-service/pkg/git, pkg/gitauth/server/gitproviders):
  GitProviders has GitHub, GitLab and Bitbucket over go-git-providers, AzureDevOps its own
  requests, GitService the service in front of them and RepoUrl the URLs. GitFacts states in
  a locale what a provider that creates pull requests does to the trees of the branches, and
  interprets it for each provider; GitService does so for the service.

  \<^bold>\<open>Clusters and pull requests\<close> (cmd/clusters-service/pkg/server/clusters.go,
  cluster\_response.go, tfcontroller.go, automations.go): Clusters and ClusterFacts list the
  clusters and find their kubeconfigs; PullRequests and PullRequestFacts write, edit and
  delete the files of clusters; AutomationFiles, Automations and AutomationFacts are the
  Helm releases, kustomizations, secrets and policy configs of a request. The theorems say
  what is on the branches of a lawful GitHub, GitLab or Bitbucket host afterwards, and that a
  preview shows it; the client of Azure DevOps treats deletions differently and is outside.

  \<^bold>\<open>The cache of charts\<close> (pkg/helm, cmd/clusters-service/pkg/server/charts.go): ChartsCache is
  the table of helm\_chart\_indexer.go, ChartWatcher the reconciler of Helm repositories and
  the tracker of the clusters, ChartHandlers the handlers with their jobs, ChartFacts the
  theorems: no chart twice, what loading an index leaves, the latest version, and that the
  tracker loses no watcher.

  \<^bold>\<open>Bounds and fuel.\<close> No definition has a fuel argument. Loops over lists are recursive over
  the list; a loop over pages that may not end is partial, and where it returns is proved.
  Numbers of the source that are only counted are natural numbers or integers.

  \<^bold>\<open>Not modelled.\<close> The user interface, the charts and the generated protocol code; the start
  of the server (cmd/clusters-service/app) and the command line (cmd/gitops), which read
  flags and print; pkg/bootstrap, which runs the flux command step by step; the handlers
  for policies, workspaces, secrets and events, pkg/terraform, pkg/pipelines and
  pkg/preview, which list resources of remote clusters and copy their fields; the OAuth
  exchanges of pkg/gitauth and the accounts that pkg/cluster/connector makes; the creation
  of a temporary HelmChart in pkg/helm/valuesfetcher.go. Logging is left out everywhere.
  Concurrency is modelled where the source has it as state: the supervision of watchers
  and the jobs of the chart handlers; a goroutine that only calls one operation is that
  operation.
\<close>

end
